(* ===== verification/Pyfloat.thy ===== *)
theory Pyfloat
  imports Complex_Main "HOL-Library.Log_Nat"
begin

text \<open>
  Python's floats. A finite IEEE double is represented by its exact rational value, and every
  operation of the source rounds its exact result to the nearest double, ties to even
  (\<open>fl\<close>), as the hardware does. \<open>py_round x n\<close> is the built-in \<open>round\<close> with a
  number of digits: the decimal nearest to the exact value of the double, ties to even, read
  back as a double. The exponent range is that of a double below (subnormal numbers keep the
  quantum of the smallest exponent); overflow, infinities, NaN and the sign of zero are not
  represented.
\<close>

section \<open>Rounding to an integer, ties to even\<close>

definition rhe :: "rat \<Rightarrow> int" where
  "rhe x = (let f = \<lfloor>x\<rfloor>; r = x - of_int f in
     if r < 1 / 2 then f else if 1 / 2 < r then f + 1 else if even f then f else f + 1)"

lemma rhe_of_int [simp]: "rhe (of_int n) = n"
  by (simp add: rhe_def)

lemma rhe_0 [simp]: "rhe 0 = 0" and rhe_1 [simp]: "rhe 1 = 1"
  by (simp_all add: rhe_def)

lemma rhe_numeral [simp]: "rhe (numeral n) = numeral n"
  using rhe_of_int [of "numeral n"] by simp

lemma rhe_error: "\<bar>of_int (rhe x) - x\<bar> \<le> 1 / 2"
proof -
  have "of_int \<lfloor>x\<rfloor> \<le> x" and "x < of_int \<lfloor>x\<rfloor> + 1" by linarith+
  then show ?thesis by (auto simp: rhe_def Let_def abs_le_iff)
qed

lemma rhe_cases: "rhe x = \<lfloor>x\<rfloor> \<or> rhe x = \<lfloor>x\<rfloor> + 1"
  by (auto simp: rhe_def Let_def)

lemma rhe_mono:
  assumes "x \<le> y"
  shows "rhe x \<le> rhe y"
proof (cases "\<lfloor>x\<rfloor> = \<lfloor>y\<rfloor>")
  case True
  with assms show ?thesis by (auto simp: rhe_def Let_def)
next
  case False
  with assms have "\<lfloor>x\<rfloor> + 1 \<le> \<lfloor>y\<rfloor>"
    by (metis floor_mono order_le_less zless_imp_add1_zle)
  then show ?thesis using rhe_cases [of x] rhe_cases [of y] by linarith
qed

lemma rhe_half_even: "even n \<Longrightarrow> rhe (of_int n + 1 / 2) = n"
proof -
  assume "even n"
  moreover have "\<lfloor>of_int n + 1 / 2 :: rat\<rfloor> = n" by (rule floor_unique) simp_all
  ultimately show ?thesis by (simp add: rhe_def)
qed

lemma rhe_le_int: "x \<le> of_int n + 1 / 2 \<Longrightarrow> even n \<Longrightarrow> rhe x \<le> n"
  using rhe_mono [of x "of_int n + 1 / 2"] rhe_half_even [of n] by simp

lemma rhe_nearest:
  assumes "\<bar>x - of_int n\<bar> < 1 / 2"
  shows "rhe x = n"
proof -
  have "\<bar>of_int (rhe x) - of_int n\<bar> < (1 :: rat)"
    using rhe_error [of x] assms by linarith
  then have "\<bar>of_int (rhe x - n)\<bar> < (1 :: rat)" by simp
  then have "\<bar>rhe x - n\<bar> < 1" by (metis of_int_abs of_int_less_1_iff)
  then show ?thesis by simp
qed

lemma rhe_nonneg: "0 \<le> x \<Longrightarrow> 0 \<le> rhe x"
  using rhe_mono [of 0 x] by simp

lemma rhe_minus: "rhe (- x) = - rhe x"
proof (cases "x = of_int \<lfloor>x\<rfloor>")
  case True
  then show ?thesis by (metis of_int_minus rhe_of_int)
next
  case False
  then have "of_int \<lfloor>x\<rfloor> < x" by linarith
  moreover have "\<lfloor>- x\<rfloor> = - \<lfloor>x\<rfloor> - 1"
    using False by (intro floor_unique) (auto, linarith+)
  ultimately show ?thesis by (auto simp: rhe_def Let_def)
qed

section \<open>Rounding to a double\<close>

text \<open>The exponent of a positive rational: \<open>2 powi flog2 x \<le> x < 2 powi (flog2 x + 1)\<close>.\<close>

definition flog2 :: "rat \<Rightarrow> int" where
  "flog2 x = (if 1 \<le> x then int (floorlog 2 (nat \<lfloor>x\<rfloor>) - 1)
              else - int (floorlog 2 (nat (\<lceil>1 / x\<rceil> - 1))))"

definition quantum_exp :: "rat \<Rightarrow> int" where
  "quantum_exp x = max (flog2 \<bar>x\<bar>) (- 1022) - 52"

definition fl :: "rat \<Rightarrow> rat" where
  "fl x = (if x = 0 then 0
           else let q = 2 powi quantum_exp x in of_int (rhe (x / q)) * q)"

lemma flog2_lower_upper:
  assumes "0 < x"
  shows "2 powi flog2 x \<le> x" and "x < 2 powi (flog2 x + 1)"
proof -
  have "2 powi flog2 x \<le> x \<and> x < 2 powi (flog2 x + 1)"
  proof (cases "1 \<le> x")
    case True
    define n where "n = nat \<lfloor>x\<rfloor>"
    define l where "l = floorlog 2 n - 1"
    from True have n0: "0 < n" and nx: "of_nat n \<le> x" and xn: "x < of_nat n + 1"
      unfolding n_def by linarith+
    have fl0: "0 < floorlog 2 n" using n0 by (simp add: floorlog_def)
    have lo: "2 ^ l \<le> n" and up: "n < 2 ^ (l + 1)"
      using floorlog_bounds [of n 2] n0 fl0 by (simp_all add: l_def)
    have "(2 :: rat) ^ l \<le> of_nat n" using lo by (metis of_nat_le_iff of_nat_numeral of_nat_power)
    then have "(2 :: rat) ^ l \<le> x" using nx by (rule order_trans)
    moreover have "of_nat (n + 1) \<le> (2 :: rat) ^ (l + 1)"
      using up by (metis Suc_eq_plus1 Suc_leI of_nat_le_iff of_nat_numeral of_nat_power)
    moreover have "(2 :: rat) powi (int l + 1) = 2 ^ (l + 1)"
      by (metis of_nat_1 of_nat_add power_int_of_nat)
    moreover have "flog2 x = int l" using True by (simp add: flog2_def n_def l_def)
    ultimately show ?thesis using nx xn by simp
  next
    case False
    define n where "n = nat (\<lceil>1 / x\<rceil> - 1)"
    define k where "k = floorlog 2 n"
    have inv: "1 < 1 / x" using assms False by simp
    then have n0: "0 < n" and nx: "of_nat n < 1 / x" and xn: "1 / x \<le> of_nat n + 1"
      unfolding n_def by linarith+
    have k0: "0 < k" using n0 by (simp add: k_def floorlog_def)
    have lo: "2 ^ (k - 1) \<le> n" and up: "n < 2 ^ k"
      using floorlog_bounds [of n 2] n0 by (simp_all add: k_def)
    have "(2 :: rat) ^ (k - 1) \<le> of_nat n" using lo by (metis of_nat_le_iff of_nat_numeral of_nat_power)
    then have a: "(2 :: rat) ^ (k - 1) < 1 / x" using nx by linarith
    have "of_nat (n + 1) \<le> (2 :: rat) ^ k"
      using up by (metis Suc_eq_plus1 Suc_leI of_nat_le_iff of_nat_numeral of_nat_power)
    then have b: "1 / x \<le> (2 :: rat) ^ k" using xn by simp
    have pk: "(2 :: rat) powi (- int k) = 1 / 2 ^ k" by (simp add: power_int_minus divide_inverse)
    have "(2 :: rat) powi (- int k + 1) = 2 powi (- int (k - 1))" using k0 by (simp add: of_nat_diff)
    then have pk1: "(2 :: rat) powi (- int k + 1) = 1 / 2 ^ (k - 1)"
      by (simp add: power_int_minus divide_inverse)
    have "1 / 2 ^ k \<le> x" using b assms by (simp add: field_simps)
    moreover have "x < 1 / 2 ^ (k - 1)" using a assms by (simp add: field_simps)
    ultimately show ?thesis using False pk pk1
      by (simp add: flog2_def n_def [symmetric] k_def [symmetric])
  qed
  then show "2 powi flog2 x \<le> x" and "x < 2 powi (flog2 x + 1)" by simp_all
qed

lemma powi_mono_exp: "a \<le> b \<Longrightarrow> (2 :: rat) powi a \<le> 2 powi b"
  by (simp add: power_int_increasing)

lemma flog2_mono:
  assumes "0 < x" and "x \<le> y"
  shows "flog2 x \<le> flog2 y"
proof (rule ccontr)
  assume "\<not> flog2 x \<le> flog2 y"
  then have "(2 :: rat) powi (flog2 y + 1) \<le> 2 powi flog2 x" by (intro powi_mono_exp) simp
  with flog2_lower_upper [of x] flog2_lower_upper [of y] assms show False by linarith
qed

lemma powi_pos [simp]: "0 < (2 :: rat) powi k"
  by (simp add: zero_less_power_int)

lemma powi_ratio: "(2 :: rat) powi a / 2 powi b = 2 powi (a - b)"
  by (simp add: power_int_diff)

lemma powi_52: "(2 :: rat) powi 52 = of_int 4503599627370496"
  and powi_53: "(2 :: rat) powi 53 = of_int 9007199254740992"
  by (simp_all add: power_int_def)

lemma fl_0 [simp]: "fl 0 = 0"
  by (simp add: fl_def)

lemma fl_minus [simp]: "fl (- x) = - fl x"
  by (simp add: fl_def quantum_exp_def rhe_minus Let_def)

text \<open>The scaled significand of a double has at most 53 bits.\<close>

lemma scaled_upper:
  assumes "0 < x"
  shows "x / 2 powi quantum_exp x < of_int 9007199254740992"
proof -
  let ?e = "max (flog2 x) (- 1022)"
  have "x < 2 powi (?e + 1)"
    using flog2_lower_upper(2) [OF assms] powi_mono_exp [of "flog2 x + 1" "?e + 1"] by simp
  then have "x / 2 powi (?e - 52) < 2 powi (?e + 1) / 2 powi (?e - 52)"
    by (simp add: divide_strict_right_mono)
  then show ?thesis using assms by (simp add: powi_ratio powi_53 quantum_exp_def)
qed

lemma scaled_lower:
  assumes "0 < x" and "- 1022 \<le> flog2 x"
  shows "of_int 4503599627370496 \<le> x / 2 powi quantum_exp x"
proof -
  have "2 powi flog2 x / 2 powi (flog2 x - 52) \<le> x / 2 powi (flog2 x - 52)"
    using flog2_lower_upper(1) [OF assms(1)] by (simp add: divide_right_mono)
  then show ?thesis using assms by (simp add: powi_ratio powi_52 quantum_exp_def max_def)
qed

lemma fl_pos_eq: "0 < x \<Longrightarrow> fl x = of_int (rhe (x / 2 powi quantum_exp x)) * 2 powi quantum_exp x"
  by (simp add: fl_def Let_def)

lemma fl_nonneg: "0 \<le> x \<Longrightarrow> 0 \<le> fl x"
  by (cases "x = 0") (auto simp: fl_pos_eq intro!: mult_nonneg_nonneg rhe_nonneg)

lemma fl_mono_pos:
  assumes "0 < x" and "x \<le> y"
  shows "fl x \<le> fl y"
proof (cases "quantum_exp x = quantum_exp y")
  case True
  have "x / 2 powi quantum_exp y \<le> y / 2 powi quantum_exp y"
    using assms by (simp add: divide_right_mono)
  then show ?thesis using assms True by (simp add: fl_pos_eq rhe_mono)
next
  case False
  have le: "flog2 x \<le> flog2 y" using assms by (rule flog2_mono)
  have lt: "quantum_exp x + 1 \<le> quantum_exp y" and big: "- 1022 \<le> flog2 y"
    using False le assms by (auto simp: quantum_exp_def)
  have y0: "0 < y" using assms by simp
  have "rhe (x / 2 powi quantum_exp x) \<le> 9007199254740992"
    using rhe_mono [OF less_imp_le [OF scaled_upper [OF assms(1)]]] by simp
  then have "fl x \<le> of_int 9007199254740992 * 2 powi quantum_exp x"
    using assms by (simp add: fl_pos_eq)
  also have "\<dots> = of_int 4503599627370496 * 2 powi (quantum_exp x + 1)"
    by (simp add: power_int_add)
  also have "\<dots> \<le> of_int 4503599627370496 * 2 powi quantum_exp y"
    using powi_mono_exp [OF lt] by simp
  also have "\<dots> \<le> fl y"
    using rhe_mono [OF scaled_lower [OF y0 big]] y0 by (simp add: fl_pos_eq)
  finally show ?thesis .
qed

theorem fl_mono: "x \<le> y \<Longrightarrow> fl x \<le> fl y"
proof -
  assume le: "x \<le> y"
  consider "0 < x" | "y < 0" | "x \<le> 0" "0 \<le> y" using le by linarith
  then show "fl x \<le> fl y"
  proof cases
    case 1
    then show ?thesis using le by (rule fl_mono_pos)
  next
    case 2
    then have "fl (- y) \<le> fl (- x)" using le by (intro fl_mono_pos) simp_all
    then show ?thesis by simp
  next
    case 3
    then have "fl x \<le> 0" using fl_nonneg [of "- x"] by simp
    then show ?thesis using fl_nonneg [of y] 3 by simp
  qed
qed

text \<open>Which rationals are doubles, and that rounding keeps them.\<close>

lemma flog2_le_bound:
  assumes "0 < x" and "x < 2 powi (k + 1)"
  shows "flog2 x \<le> k"
proof (rule ccontr)
  assume "\<not> flog2 x \<le> k"
  then have "(2 :: rat) powi (k + 1) \<le> 2 powi flog2 x" by (intro powi_mono_exp) simp
  with flog2_lower_upper(1) [OF assms(1)] assms(2) show False by linarith
qed

lemma fl_exact:
  assumes "x = of_int k * 2 powi j" and "\<bar>k\<bar> \<le> 9007199254740991" and "- 1074 \<le> j"
  shows "fl x = x"
proof (cases "x = 0")
  case True
  then show ?thesis by simp
next
  case False
  let ?q = "quantum_exp x"
  have ab: "\<bar>x\<bar> = of_int \<bar>k\<bar> * 2 powi j" using assms(1) by (simp add: abs_mult)
  also have "\<dots> < of_int 9007199254740992 * 2 powi j"
    using assms(2) by (simp add: of_int_less_iff del: of_int_abs)
  also have "\<dots> = 2 powi (j + 52 + 1)" by (simp add: powi_53 [symmetric] power_int_add)
  finally have "flog2 \<bar>x\<bar> \<le> j + 52" using False by (intro flog2_le_bound) simp_all
  then have le: "?q \<le> j" using assms(3) by (simp add: quantum_exp_def)
  have "(2 :: rat) powi j / 2 powi ?q = 2 powi (j - ?q)" by (rule powi_ratio)
  also have "\<dots> = of_int (2 ^ nat (j - ?q))" using le by (simp add: power_int_def)
  finally have "x / 2 powi ?q = of_int (k * 2 ^ nat (j - ?q))"
    using assms(1) by (simp add: times_divide_eq_right [symmetric] del: times_divide_eq_right)
  then have "of_int (rhe (x / 2 powi ?q)) = x / 2 powi ?q" by (metis rhe_of_int)
  then show ?thesis using False by (simp add: fl_def Let_def)
qed

lemma fl_of_int: "\<bar>n\<bar> \<le> 9007199254740991 \<Longrightarrow> fl (of_int n) = of_int n"
  by (rule fl_exact [of _ n 0]) simp_all

lemma fl_of_nat: "n \<le> 9007199254740991 \<Longrightarrow> fl (of_nat n) = of_nat n"
  using fl_of_int [of "int n"] by simp

lemma fl_1 [simp]: "fl 1 = 1" and fl_100 [simp]: "fl 100 = 100"
  using fl_of_int [of 1] fl_of_int [of 100] by simp_all

lemma fl_idem_pos: "0 < x \<Longrightarrow> fl (fl x) = fl x"
proof -
  assume x: "0 < x"
  let ?q = "quantum_exp x" and ?m = "rhe (x / 2 powi quantum_exp x)"
  have ub: "?m \<le> 9007199254740992"
    using rhe_mono [OF less_imp_le [OF scaled_upper [OF x]]] by simp
  have lb: "0 \<le> ?m" using x by (intro rhe_nonneg) simp
  have q: "- 1074 \<le> ?q" by (simp add: quantum_exp_def)
  show ?thesis
  proof (cases "?m = 9007199254740992")
    case True
    then have "fl x = of_int 4503599627370496 * 2 powi (?q + 1)"
      using x by (simp add: fl_pos_eq power_int_add)
    then show ?thesis using q by (intro fl_exact [of _ 4503599627370496 "?q + 1"]) simp_all
  next
    case False
    have "fl x = of_int ?m * 2 powi ?q" using x by (simp add: fl_pos_eq)
    then show ?thesis using False ub lb q by (intro fl_exact [of _ ?m ?q]) simp_all
  qed
qed

lemma fl_idem [simp]: "fl (fl x) = fl x"
proof -
  consider "0 < x" | "x = 0" | "0 < - x" by linarith
  then show ?thesis
  proof cases
    case 3
    then show ?thesis using fl_idem_pos [of "- x"] by simp
  qed (simp_all add: fl_idem_pos)
qed

text \<open>
  The error of one rounding. In the normal range it is relative, and a value below \<open>2^10\<close>
  is off by at most \<open>2^-43\<close> in any case.
\<close>

lemma fl_error_quantum: "\<bar>fl x - x\<bar> \<le> 2 powi quantum_exp x / 2"
proof (cases "x = 0")
  case True
  then show ?thesis by simp
next
  case False
  let ?q = "(2 :: rat) powi quantum_exp x"
  have "\<bar>of_int (rhe (x / ?q)) - x / ?q\<bar> * ?q \<le> 1 / 2 * ?q"
    by (intro mult_right_mono rhe_error) simp
  moreover have "fl x - x = (of_int (rhe (x / ?q)) - x / ?q) * ?q"
    using False by (simp add: fl_def Let_def left_diff_distrib)
  then have "\<bar>fl x - x\<bar> = \<bar>of_int (rhe (x / ?q)) - x / ?q\<bar> * ?q"
    by (simp add: abs_mult)
  ultimately show ?thesis by simp
qed

lemma fl_error_relative:
  assumes "2 powi (- 1022) \<le> \<bar>x\<bar>"
  shows "\<bar>fl x - x\<bar> \<le> \<bar>x\<bar> * 2 powi (- 53)"
proof -
  have "0 < \<bar>x\<bar>" using assms powi_pos [of "- 1022"] by linarith
  note fb = flog2_lower_upper [OF this]
  have "- 1022 \<le> flog2 \<bar>x\<bar>"
  proof (rule ccontr)
    assume "\<not> - 1022 \<le> flog2 \<bar>x\<bar>"
    then have "(2 :: rat) powi (flog2 \<bar>x\<bar> + 1) \<le> 2 powi (- 1022)" by (intro powi_mono_exp) simp
    with fb assms show False by linarith
  qed
  then have "(2 :: rat) powi quantum_exp x / 2 = 2 powi flog2 \<bar>x\<bar> * 2 powi (- 53)"
    by (simp add: quantum_exp_def power_int_add [symmetric] power_int_diff power_int_minus)
  also have "\<dots> \<le> \<bar>x\<bar> * 2 powi (- 53)" using fb(1) by (intro mult_right_mono) simp_all
  finally show ?thesis using fl_error_quantum [of x] by linarith
qed

lemma half_powi_bound:
  assumes "k \<le> - 43"
  shows "(2 :: rat) powi k / 2 \<le> 1 / 8796093022208"
proof -
  have "(2 :: rat) powi (- 43) = 1 / 8796093022208" by (simp add: power_int_minus_divide)
  then have le: "(2 :: rat) powi k \<le> 1 / 8796093022208" using powi_mono_exp [OF assms] by metis
  have "a / 2 \<le> c" if "0 < a" and "a \<le> c" for a c :: rat using that by linarith
  from this [OF powi_pos le] show ?thesis .
qed

lemma fl_error_small:
  assumes "\<bar>x\<bar> < 1024"
  shows "\<bar>fl x - x\<bar> \<le> 1 / 8796093022208"
proof (cases "x = 0")
  case True
  then show ?thesis by simp
next
  case False
  have "(2 :: rat) powi (9 + 1) = 1024" by (simp add: power_int_def)
  then have "flog2 \<bar>x\<bar> \<le> 9" using assms False by (intro flog2_le_bound) simp_all
  then have "quantum_exp x \<le> - 43" by (simp add: quantum_exp_def)
  then have "(2 :: rat) powi quantum_exp x / 2 \<le> 1 / 8796093022208"
    by (rule half_powi_bound)
  with fl_error_quantum show ?thesis by (rule order_trans)
qed

section \<open>The operations the source uses\<close>

definition fadd :: "rat \<Rightarrow> rat \<Rightarrow> rat" where "fadd a b = fl (a + b)"
definition fsub :: "rat \<Rightarrow> rat \<Rightarrow> rat" where "fsub a b = fl (a - b)"
definition fmul :: "rat \<Rightarrow> rat \<Rightarrow> rat" where "fmul a b = fl (a * b)"
definition fdiv :: "rat \<Rightarrow> rat \<Rightarrow> rat" where "fdiv a b = fl (a / b)"

text \<open>\<open>round(x, n)\<close> for a float \<open>x\<close>.\<close>

definition py_round :: "rat \<Rightarrow> nat \<Rightarrow> rat" where
  "py_round x n = fl (of_int (rhe (x * 10 ^ n)) / 10 ^ n)"

lemma fadd_mono: "a \<le> a' \<Longrightarrow> b \<le> b' \<Longrightarrow> fadd a b \<le> fadd a' b'"
  unfolding fadd_def by (intro fl_mono add_mono)

lemma fadd_nonneg: "0 \<le> a \<Longrightarrow> 0 \<le> b \<Longrightarrow> 0 \<le> fadd a b"
  unfolding fadd_def by (intro fl_nonneg add_nonneg_nonneg)

lemma fmul_nonneg: "0 \<le> a \<Longrightarrow> 0 \<le> b \<Longrightarrow> 0 \<le> fmul a b"
  unfolding fmul_def by (intro fl_nonneg mult_nonneg_nonneg)

lemma fmul_mono: "0 \<le> b \<Longrightarrow> a \<le> a' \<Longrightarrow> fmul a b \<le> fmul a' b"
  unfolding fmul_def by (intro fl_mono mult_right_mono)

lemma fdiv_nonneg: "0 \<le> a \<Longrightarrow> 0 \<le> b \<Longrightarrow> 0 \<le> fdiv a b"
  unfolding fdiv_def by (intro fl_nonneg divide_nonneg_nonneg)

lemma fdiv_le_1: "0 \<le> b \<Longrightarrow> a \<le> b \<Longrightarrow> fdiv a b \<le> 1"
  unfolding fdiv_def using fl_mono [of "a / b" 1] by (cases "b = 0") (simp_all add: divide_le_eq)

lemma fadd_0 [simp]: "fadd 0 (fl x) = fl x" "fadd (fl x) 0 = fl x"
  by (simp_all add: fadd_def)

lemma py_round_mono: "x \<le> y \<Longrightarrow> py_round x n \<le> py_round y n"
  unfolding py_round_def by (intro fl_mono divide_right_mono) (simp_all add: rhe_mono mult_right_mono)

lemma py_round_0 [simp]: "py_round 0 n = 0"
  by (simp add: py_round_def)

lemma py_round_nonneg: "0 \<le> x \<Longrightarrow> 0 \<le> py_round x n"
  using py_round_mono [of 0 x n] by simp

lemma fl_py_round [simp]: "fl (py_round x n) = py_round x n"
  by (simp add: py_round_def)

lemma py_round_le_100:
  assumes "x \<le> 2001 / 20"
  shows "py_round x 1 \<le> 100"
proof -
  have "rhe (x * 10) \<le> 1000" by (rule rhe_le_int) (use assms in simp_all)
  then have "of_int (rhe (x * 10)) / 10 \<le> (100 :: rat)" by simp
  then show ?thesis unfolding py_round_def using fl_mono [of "of_int (rhe (x * 10)) / 10" 100] by simp
qed

end
