(* ===== verification/Prelude.thy ===== *)
theory Prelude
  imports Complex_Main
begin

text \<open>
  Shared vocabulary of the development: HTTP errors as values, the error monad in which the
  request handlers are written, database tables as lists of rows with an integer primary key,
  and the interface (\<open>keyed_table\<close>) through which the components reach a table.

  A handler of the backend runs in one transaction. An exception that leaves the handler rolls the
  transaction back, so a failing handler is a left injection and carries no database.
  The Persian texts of the exceptions are represented by short ASCII texts, one for each text.
\<close>

section \<open>Errors as values\<close>

datatype http_error = HTTPException (status_code: nat) (detail: string)

type_synonym 'a http = "http_error + 'a"

definition bindE :: "'e + 'a \<Rightarrow> ('a \<Rightarrow> 'e + 'b) \<Rightarrow> 'e + 'b" where
  "bindE x f = (case x of Inl e \<Rightarrow> Inl e | Inr a \<Rightarrow> f a)"

definition raise_if :: "bool \<Rightarrow> 'e \<Rightarrow> 'e + unit" where
  "raise_if b e = (if b then Inl e else Inr ())"

definition or_raise :: "'a option \<Rightarrow> 'e \<Rightarrow> 'e + 'a" where
  "or_raise x e = (case x of None \<Rightarrow> Inl e | Some a \<Rightarrow> Inr a)"

lemma bindE_simps [simp]:
  "bindE (Inl e) f = Inl e"
  "bindE (Inr a) f = f a"
  by (simp_all add: bindE_def)

lemma bindE_eq_Inr [simp]: "bindE x f = Inr b \<longleftrightarrow> (\<exists>a. x = Inr a \<and> f a = Inr b)"
  by (cases x) simp_all

lemma bindE_eq_Inl:
  "bindE x f = Inl e \<longleftrightarrow> x = Inl e \<or> (\<exists>a. x = Inr a \<and> f a = Inl e)"
  by (cases x) simp_all

lemma raise_if_eq_Inr [simp]: "raise_if b e = Inr u \<longleftrightarrow> \<not> b"
  by (simp add: raise_if_def)

lemma raise_if_eq_Inl [simp]: "raise_if b e = Inl e' \<longleftrightarrow> b \<and> e' = e"
  by (auto simp: raise_if_def)

lemma or_raise_eq_Inr [simp]: "or_raise x e = Inr a \<longleftrightarrow> x = Some a"
  by (cases x) (simp_all add: or_raise_def)

lemma or_raise_eq_Inl [simp]: "or_raise x e = Inl e' \<longleftrightarrow> x = None \<and> e' = e"
  by (cases x) (auto simp: or_raise_def)

lemma raise_if_simps [simp]: "raise_if True e = Inl e" "raise_if False e = Inr ()"
  by (simp_all add: raise_if_def)

lemma or_raise_simps [simp]: "or_raise None e = Inl e" "or_raise (Some a) e = Inr a"
  by (simp_all add: or_raise_def)

text \<open>Running a fallible operation over a list stops at the first error.\<close>

fun foldE :: "('s \<Rightarrow> 'x \<Rightarrow> 'e + 's) \<Rightarrow> 's \<Rightarrow> 'x list \<Rightarrow> 'e + 's" where
  "foldE f s [] = Inr s"
| "foldE f s (x # xs) = bindE (f s x) (\<lambda>s'. foldE f s' xs)"

lemma foldE_invariant:
  assumes step: "\<And>s x s'. P s \<Longrightarrow> f s x = Inr s' \<Longrightarrow> P s'"
    and "P s" and "foldE f s xs = Inr s'"
  shows "P s'"
  using assms(2,3)
proof (induction xs arbitrary: s)
  case Nil
  then show ?case by simp
next
  case (Cons x xs)
  then obtain t where t: "f s x = Inr t" and rest: "foldE f t xs = Inr s'" by auto
  have "P t" using Cons.prems(1) t by (rule step)
  then show ?case using rest by (rule Cons.IH)
qed

lemma find_snoc: "find P (xs @ [x]) = (case find P xs of None \<Rightarrow> if P x then Some x else None | Some y \<Rightarrow> Some y)"
  by (induction xs) simp_all

lemma find_rev_unique: "distinct (map f xs) \<Longrightarrow> find (\<lambda>x. f x = k) (rev xs) = find (\<lambda>x. f x = k) xs"
proof (induction xs)
  case (Cons x xs)
  have "find (\<lambda>y. f y = k) xs = None" if "f x = k"
    using Cons.prems that by (simp add: find_None_iff image_iff) metis
  then show ?case using Cons by (auto simp: find_snoc split: option.splits)
qed simp

section \<open>Tables\<close>

text \<open>
  A table is the list of its rows in the order of insertion; \<open>key\<close> reads the primary key.
  \<open>row_get\<close> is \<open>Session.get\<close>, \<open>row_put\<close> is the flush of a changed row, \<open>next_id\<close> is a
  primary key larger than every key handed out before.
\<close>

definition row_get :: "('r \<Rightarrow> int) \<Rightarrow> 'r list \<Rightarrow> int \<Rightarrow> 'r option" where
  "row_get key rows k = find (\<lambda>r. key r = k) rows"

definition row_put :: "('r \<Rightarrow> int) \<Rightarrow> 'r \<Rightarrow> 'r list \<Rightarrow> 'r list" where
  "row_put key r rows = map (\<lambda>x. if key x = key r then r else x) rows"

definition next_id :: "('r \<Rightarrow> int) \<Rightarrow> 'r list \<Rightarrow> int" where
  "next_id key rows = fold (\<lambda>r m. max m (key r)) rows 0 + 1"

lemma row_get_Nil [simp]: "row_get key [] k = None"
  by (simp add: row_get_def)

lemma row_get_Cons [simp]:
  "row_get key (r # rows) k = (if key r = k then Some r else row_get key rows k)"
  by (simp add: row_get_def)

lemma row_get_append:
  "row_get key (xs @ ys) k =
    (case row_get key xs k of None \<Rightarrow> row_get key ys k | Some r \<Rightarrow> Some r)"
  by (induction xs) simp_all

lemma row_get_SomeD:
  assumes "row_get key rows k = Some r"
  shows "r \<in> set rows" and "key r = k"
  using assms by (induction rows) (auto split: if_splits)

lemma row_get_None_iff: "row_get key rows k = None \<longleftrightarrow> k \<notin> key ` set rows"
  by (induction rows) auto

lemma row_get_distinct:
  "distinct (map key rows) \<Longrightarrow> row_get key rows k = Some r \<longleftrightarrow> r \<in> set rows \<and> key r = k"
  by (induction rows) (auto simp: image_iff)

lemma row_get_put:
  "row_get key (row_put key r rows) k =
    (if k = key r then map_option (\<lambda>_. r) (row_get key rows k) else row_get key rows k)"
  unfolding row_put_def by (induction rows) auto

lemma row_get_put_same [simp]:
  "row_get key rows (key r) = Some r' \<Longrightarrow> row_get key (row_put key r rows) (key r) = Some r"
  by (simp add: row_get_put)

lemma row_get_put_other [simp]:
  "k \<noteq> key r \<Longrightarrow> row_get key (row_put key r rows) k = row_get key rows k"
  by (simp add: row_get_put)

lemma map_key_row_put [simp]: "map key (row_put key r rows) = map key rows"
  by (simp add: row_put_def)

lemma length_row_put [simp]: "length (row_put key r rows) = length rows"
  by (simp add: row_put_def)

lemma set_row_put_subset: "x \<in> set (row_put key r rows) \<Longrightarrow> x = r \<or> x \<in> set rows"
  by (auto simp: row_put_def)

lemma set_row_put_other:
  "x \<in> set (row_put key r rows) \<Longrightarrow> key x \<noteq> key r \<Longrightarrow> x \<in> set rows"
  by (auto simp: row_put_def split: if_splits)

lemma fold_max_upper:
  "m \<le> fold (\<lambda>r m. max m (key r)) rows m \<and>
    (\<forall>r \<in> set rows. (key r :: int) \<le> fold (\<lambda>r m. max m (key r)) rows m)"
proof (induction rows arbitrary: m)
  case Nil
  show ?case by simp
next
  case (Cons x xs)
  have "max m (key x) \<le> fold (\<lambda>r m. max m (key r)) xs (max m (key x))"
    and "\<forall>r \<in> set xs. key r \<le> fold (\<lambda>r m. max m (key r)) xs (max m (key x))"
    using Cons.IH by blast+
  then show ?case by auto
qed

lemma next_id_fresh: "r \<in> set rows \<Longrightarrow> key r < next_id key rows"
  using fold_max_upper [of 0 key rows] by (fastforce simp: next_id_def)

lemma next_id_not_in: "next_id key rows \<notin> key ` set rows"
proof
  assume "next_id key rows \<in> key ` set rows"
  then obtain r where "r \<in> set rows" and "next_id key rows = key r" by blast
  with next_id_fresh [of r rows key] show False by simp
qed

lemma row_get_fresh [simp]: "row_get key rows (next_id key rows) = None"
  using next_id_not_in by (simp add: row_get_None_iff)

text \<open>
  The interface of a table as its clients use it. A state of type \<open>'s\<close> holds the table;
  \<open>get\<close> reads a row by its key, \<open>put\<close> writes a row that is there, \<open>add\<close> inserts a new one.
\<close>

locale keyed_table =
  fixes key :: "'r \<Rightarrow> int"
    and get :: "'s \<Rightarrow> int \<Rightarrow> 'r option"
    and put :: "'r \<Rightarrow> 's \<Rightarrow> 's"
    and add :: "'r \<Rightarrow> 's \<Rightarrow> 's"
  assumes get_key: "get s k = Some r \<Longrightarrow> key r = k"
    and get_put: "get s (key r) = Some r' \<Longrightarrow> get (put r s) k = ((get s)(key r \<mapsto> r)) k"
    and get_add: "get s (key r) = None \<Longrightarrow> get (add r s) k = ((get s)(key r \<mapsto> r)) k"
begin

lemma get_put_same: "get s (key r) = Some r' \<Longrightarrow> get (put r s) (key r) = Some r"
  by (simp add: get_put)

lemma get_put_other:
  "get s (key r) = Some r' \<Longrightarrow> k \<noteq> key r \<Longrightarrow> get (put r s) k = get s k"
  by (simp add: get_put)

lemma dom_put: "get s (key r) = Some r' \<Longrightarrow> dom (get (put r s)) = dom (get s)"
  by (auto simp: get_put dom_def)

lemma dom_add: "get s (key r) = None \<Longrightarrow> dom (get (add r s)) = insert (key r) (dom (get s))"
  by (auto simp: get_add dom_def)

lemma put_put_same:
  assumes "get s (key r) = Some r'" and "key q = key r"
  shows "get (put q (put r s)) k = get (put q s) k"
proof -
  have "get (put r s) (key q) = Some r" using assms by (simp add: get_put)
  then show ?thesis using assms by (simp add: get_put)
qed

lemma row_invariant_put:
  assumes "\<forall>k x. get s k = Some x \<longrightarrow> P x" and "get s (key r) = Some r'" and "P r"
  shows "\<forall>k x. get (put r s) k = Some x \<longrightarrow> P x"
  using assms by (auto simp: get_put split: if_splits)

end

section \<open>Strings of numbers\<close>

text \<open>Decimal representations as Python's \<open>str\<close> of an integer writes them.\<close>

fun digits_of :: "nat \<Rightarrow> string" where
  "digits_of n =
    (if n < 10 then [char_of (48 + n)] else digits_of (n div 10) @ [char_of (48 + n mod 10)])"

declare digits_of.simps [simp del]

definition str_int :: "int \<Rightarrow> string" where
  "str_int i = (if i < 0 then ''-'' @ digits_of (nat (- i)) else digits_of (nat i))"

lemma digits_of_nonempty [simp]: "digits_of n \<noteq> []"
  by (subst digits_of.simps) simp

text \<open>\<open>f''{seq_value:04d}''\<close>: padded with zeros on the left to four places.\<close>

definition pad4 :: "string \<Rightarrow> string" where
  "pad4 s = replicate (4 - length s) (CHR ''0'') @ s"

end
