(* ===== verification/Enums.thy ===== *)
theory Enums
  imports Prelude
begin

text \<open>
  The enumerations of \<open>app/models/enums.py\<close> and the constants of \<open>app/core\<close>. A constructor
  has the name of the source's member, with a prefix where two enumerations share one.
  The functions \<open>..._value\<close> are the strings stored in the database and written to the log.
\<close>

section \<open>Enumerations\<close>

datatype personnel_status = Personnel_active | Personnel_inactive

datatype separation_reason =
  Resignation | Dismissal | Contract_end | Retirement | Other_reason

datatype user_role =
  Role_unit_supervisor | Role_hr | Role_deputy | Role_ceo | Role_employee | Role_support

datatype indicator_section = General | Specialized

datatype evaluation_stage = Supervisor_scoring | Stage_hr_review | Stage_deputy_review | Stage_ceo_final

datatype evaluation_status =
  Draft | Submitted | Hr_approved | Deputy_approved | Finalized | Cancelled

datatype comment_stage = Hr_review | Deputy_review | Ceo_final

datatype period_status = Period_open | Period_closed

datatype improvement_plan_status = Plan_open | Plan_completed | Plan_cancelled

datatype scheme_status = Scheme_draft | Scheme_active | Scheme_retired

datatype delivery_channel = Email | Sms

datatype delivery_status = Delivery_pending | Delivery_sent | Delivery_failed | Delivery_abandoned

datatype capability =
  Manage_users | Manage_capabilities | Manage_scoring | Manage_integrations | View_audit_log
  | Manage_modules | View_diagnostics | Manage_personnel | Manage_ai

fun role_value :: "user_role \<Rightarrow> string" where
  "role_value Role_unit_supervisor = ''unit_supervisor''"
| "role_value Role_hr = ''hr''"
| "role_value Role_deputy = ''deputy''"
| "role_value Role_ceo = ''ceo''"
| "role_value Role_employee = ''employee''"
| "role_value Role_support = ''support''"

fun status_value :: "evaluation_status \<Rightarrow> string" where
  "status_value Draft = ''draft''"
| "status_value Submitted = ''submitted''"
| "status_value Hr_approved = ''hr_approved''"
| "status_value Deputy_approved = ''deputy_approved''"
| "status_value Finalized = ''finalized''"
| "status_value Cancelled = ''cancelled''"

fun comment_stage_value :: "comment_stage \<Rightarrow> string" where
  "comment_stage_value Hr_review = ''hr_review''"
| "comment_stage_value Deputy_review = ''deputy_review''"
| "comment_stage_value Ceo_final = ''ceo_final''"

text \<open>The stage shown for a status; a cancelled record has none.\<close>

fun stage_of_status :: "evaluation_status \<Rightarrow> evaluation_stage option" where
  "stage_of_status Draft = Some Supervisor_scoring"
| "stage_of_status Submitted = Some Stage_hr_review"
| "stage_of_status Hr_approved = Some Stage_deputy_review"
| "stage_of_status Deputy_approved = Some Stage_ceo_final"
| "stage_of_status Finalized = Some Stage_ceo_final"
| "stage_of_status Cancelled = None"

lemma status_value_inj: "status_value a = status_value b \<longleftrightarrow> a = b"
  by (cases a; cases b) simp_all

lemma role_value_inj: "role_value a = role_value b \<longleftrightarrow> a = b"
  by (cases a; cases b) simp_all

section \<open>Classes of the library for the enumerations\<close>

text \<open>
  The statuses are ordered as the chain passes through them, the terminal ones last. The order
  is what \<open>returning a record moves it back\<close> refers to.
\<close>

fun status_rank :: "evaluation_status \<Rightarrow> nat" where
  "status_rank Draft = 0"
| "status_rank Submitted = 1"
| "status_rank Hr_approved = 2"
| "status_rank Deputy_approved = 3"
| "status_rank Finalized = 4"
| "status_rank Cancelled = 5"

lemma status_rank_inj: "status_rank a = status_rank b \<longleftrightarrow> a = b"
  by (cases a; cases b) simp_all

instantiation evaluation_status :: linorder
begin

definition less_eq_evaluation_status :: "evaluation_status \<Rightarrow> evaluation_status \<Rightarrow> bool" where
  "less_eq_evaluation_status a b \<longleftrightarrow> status_rank a \<le> status_rank b"

definition less_evaluation_status :: "evaluation_status \<Rightarrow> evaluation_status \<Rightarrow> bool" where
  "less_evaluation_status a b \<longleftrightarrow> status_rank a < status_rank b"

instance
  by standard
    (auto simp: less_eq_evaluation_status_def less_evaluation_status_def status_rank_inj)

end

instantiation evaluation_status :: enum
begin

definition enum_evaluation_status :: "evaluation_status list" where
  "enum_evaluation_status = [Draft, Submitted, Hr_approved, Deputy_approved, Finalized, Cancelled]"

definition enum_all_evaluation_status :: "(evaluation_status \<Rightarrow> bool) \<Rightarrow> bool" where
  "enum_all_evaluation_status P \<longleftrightarrow> list_all P Enum.enum"

definition enum_ex_evaluation_status :: "(evaluation_status \<Rightarrow> bool) \<Rightarrow> bool" where
  "enum_ex_evaluation_status P \<longleftrightarrow> list_ex P Enum.enum"

instance
proof
  show univ: "(UNIV :: evaluation_status set) = set Enum.enum"
    unfolding enum_evaluation_status_def by (auto intro: evaluation_status.exhaust)
  show "distinct (Enum.enum :: evaluation_status list)"
    by (simp add: enum_evaluation_status_def)
  show "Enum.enum_all P \<longleftrightarrow> Ball UNIV P" for P :: "evaluation_status \<Rightarrow> bool"
    using univ by (auto simp: enum_all_evaluation_status_def list_all_iff)
  show "Enum.enum_ex P \<longleftrightarrow> Bex UNIV P" for P :: "evaluation_status \<Rightarrow> bool"
    using univ by (auto simp: enum_ex_evaluation_status_def list_ex_iff)
qed

end

instantiation user_role :: enum
begin

definition enum_user_role :: "user_role list" where
  "enum_user_role =
    [Role_unit_supervisor, Role_hr, Role_deputy, Role_ceo, Role_employee, Role_support]"

definition enum_all_user_role :: "(user_role \<Rightarrow> bool) \<Rightarrow> bool" where
  "enum_all_user_role P \<longleftrightarrow> list_all P Enum.enum"

definition enum_ex_user_role :: "(user_role \<Rightarrow> bool) \<Rightarrow> bool" where
  "enum_ex_user_role P \<longleftrightarrow> list_ex P Enum.enum"

instance
proof
  show univ: "(UNIV :: user_role set) = set Enum.enum"
    unfolding enum_user_role_def by (auto intro: user_role.exhaust)
  show "distinct (Enum.enum :: user_role list)"
    by (simp add: enum_user_role_def)
  show "Enum.enum_all P \<longleftrightarrow> Ball UNIV P" for P :: "user_role \<Rightarrow> bool"
    using univ by (auto simp: enum_all_user_role_def list_all_iff)
  show "Enum.enum_ex P \<longleftrightarrow> Bex UNIV P" for P :: "user_role \<Rightarrow> bool"
    using univ by (auto simp: enum_ex_user_role_def list_ex_iff)
qed

end

lemmas status_order = less_eq_evaluation_status_def less_evaluation_status_def

section \<open>Text\<close>

text \<open>
  Text a user types is a list of Unicode code points, so that lengths count what Python's
  \<open>len\<close> counts. \<open>is_space\<close> is \<open>str.isspace\<close> of one code point, which is where \<open>split\<close>
  cuts and what \<open>strip\<close> removes.
\<close>

type_synonym utext = "nat list"

definition is_space :: "nat \<Rightarrow> bool" where
  "is_space c \<longleftrightarrow> (9 \<le> c \<and> c \<le> 13) \<or> (28 \<le> c \<and> c \<le> 32) \<or> c \<in> {133, 160, 5760}
     \<or> (8192 \<le> c \<and> c \<le> 8202) \<or> c \<in> {8232, 8233, 8239, 8287, 12288}"

fun split_words :: "utext \<Rightarrow> utext \<Rightarrow> utext list" where
  "split_words w [] = (if w = [] then [] else [rev w])"
| "split_words w (c # cs) =
    (if is_space c then (if w = [] then split_words [] cs else rev w # split_words [] cs)
     else split_words (c # w) cs)"

definition strip :: "utext \<Rightarrow> utext" where
  "strip s = rev (dropWhile is_space (rev (dropWhile is_space s)))"

text \<open>\<open>word_count\<close> of \<open>services/evaluation.py\<close>; an absent or empty text has no words.\<close>

fun word_count :: "utext option \<Rightarrow> nat" where
  "word_count None = 0"
| "word_count (Some s) = length (filter (\<lambda>token. token \<noteq> []) (split_words [] s))"

lemma split_words_nonempty: "[] \<notin> set (split_words w cs)"
  by (induction w cs rule: split_words.induct) auto

lemma word_count_split: "word_count (Some s) = length (split_words [] s)"
proof -
  have "filter (\<lambda>token. token \<noteq> []) (split_words [] s) = split_words [] s"
    using split_words_nonempty [of "[]" s] by (auto intro: filter_True)
  then show ?thesis by simp
qed

lemma word_count_blank: "\<forall>c \<in> set s. is_space c \<Longrightarrow> word_count (Some s) = 0"
proof -
  have "split_words [] s = []" if "\<forall>c \<in> set s. is_space c" using that by (induction s) simp_all
  moreover assume "\<forall>c \<in> set s. is_space c"
  ultimately show ?thesis by (simp add: word_count_split)
qed

lemma strip_idem [simp]: "strip (strip s) = strip s"
proof -
  define t where "t = dropWhile is_space s"
  define u where "u = rev (dropWhile is_space (rev t))"
  have hu: "dropWhile is_space u = u"
  proof (cases u)
    case Nil
    then show ?thesis by simp
  next
    case (Cons a v)
    have "t = u @ rev (takeWhile is_space (rev t))"
      unfolding u_def by (metis rev_append rev_rev_ident takeWhile_dropWhile_id)
    then have "hd t = a" and "t \<noteq> []" using Cons by (metis append_Cons list.sel(1)) (use Cons u_def in auto)
    then have "\<not> is_space a" using hd_dropWhile [of is_space s] unfolding t_def by auto
    then show ?thesis using Cons by simp
  qed
  have "dropWhile is_space (rev u) = rev u" unfolding u_def by simp
  then show ?thesis unfolding strip_def t_def [symmetric] u_def [symmetric] by (simp add: hu)
qed

section \<open>Constants and limits\<close>

definition EVIDENCE_MAX :: nat where "EVIDENCE_MAX = 2000"
definition SELF_ASSESSMENT_NOTE_MAX :: nat where "SELF_ASSESSMENT_NOTE_MAX = 1000"
definition SELF_ASSESSMENT_SUMMARY_MAX :: nat where "SELF_ASSESSMENT_SUMMARY_MAX = 2000"
definition COMMENT_MAX :: nat where "COMMENT_MAX = 4000"
definition EVALUATOR_COMMENT_MAX :: nat where "EVALUATOR_COMMENT_MAX = 4000"
definition REASON_MAX :: nat where "REASON_MAX = 1000"
definition OBJECTION_MAX :: nat where "OBJECTION_MAX = 2000"
definition BONUS_REASON_MIN :: nat where "BONUS_REASON_MIN = 10"
definition BONUS_REASON_MAX :: nat where "BONUS_REASON_MAX = 500"

end
