(* ===== verification/Json.thy ===== *)
theory Json
  imports Pyfloat Enums "HOL-Library.Char_ord" "HOL-Library.List_Lexorder" "HOL-Library.Multiset"
begin

text \<open>
  The JSON values the backend stores in \<open>JSONB\<close> columns, and the text that
  \<open>json.dumps(value, sort_keys=True, ensure_ascii=False, separators=(",", ":"))\<close> gives for one.
  A text is a list of code points. Object keys are the ASCII literals of the source.
\<close>

section \<open>Values\<close>

datatype json =
    JNull
  | JBool bool
  | JInt int
  | JFloat rat
  | JString utext
  | JArray "json list"
  | JObject "(string \<times> json) list"

type_synonym jdict = "(string \<times> json) list"

definition ascii :: "string \<Rightarrow> utext" where
  "ascii s = map of_char s"

definition jstr :: "string \<Rightarrow> json" where
  "jstr s = JString (ascii s)"

fun jopt :: "('a \<Rightarrow> json) \<Rightarrow> 'a option \<Rightarrow> json" where
  "jopt f None = JNull"
| "jopt f (Some a) = f a"

lemma ascii_inj [simp]: "ascii a = ascii b \<longleftrightarrow> a = b"
  unfolding ascii_def by (auto dest: map_injective intro!: injI)

lemma jstr_inj [simp]: "jstr a = jstr b \<longleftrightarrow> a = b"
  by (simp add: jstr_def)

text \<open>\<open>value.get(key)\<close> of a dictionary.\<close>

definition jget :: "jdict \<Rightarrow> string \<Rightarrow> json option" where
  "jget d k = map_of d k"

section \<open>The text of a float\<close>

text \<open>
  Python writes the shortest decimal that reads back as the same double, and of these the closest
  one. \<open>decimal_exp x\<close> is the exponent of the leading decimal digit of a positive \<open>x\<close>.
\<close>

fun up_exp :: "nat \<Rightarrow> rat \<Rightarrow> int" where
  "up_exp 0 x = 0"
| "up_exp (Suc n) x = (if x < 10 then 0 else up_exp n (x / 10) + 1)"

fun down_exp :: "nat \<Rightarrow> rat \<Rightarrow> int" where
  "down_exp 0 x = 0"
| "down_exp (Suc n) x = (if 1 \<le> x then 0 else down_exp n (x * 10) - 1)"

definition decimal_exp :: "rat \<Rightarrow> int" where
  "decimal_exp x = (if 1 \<le> x then up_exp 400 x else down_exp 400 x)"

definition scale10 :: "rat \<Rightarrow> int \<Rightarrow> rat" where
  "scale10 x e = (if 0 \<le> e then x * 10 ^ nat e else x / 10 ^ nat (- e))"

text \<open>The mantissa with \<open>p\<close> digits that reads back as \<open>x\<close>, if there is one.\<close>

definition mantissa_of :: "rat \<Rightarrow> nat \<Rightarrow> int option" where
  "mantissa_of x p =
    (let q = decimal_exp x - int p + 1; y = scale10 x (- q)
     in find (\<lambda>m. fl (scale10 (of_int m) q) = x) [rhe y, \<lfloor>y\<rfloor>, \<lceil>y\<rceil>])"

fun shortest :: "nat \<Rightarrow> nat \<Rightarrow> rat \<Rightarrow> int \<times> nat" where
  "shortest 0 p x = (rhe (scale10 x (16 - decimal_exp x)), 17)"
| "shortest (Suc n) p x =
    (case mantissa_of x p of Some m \<Rightarrow> (m, p) | None \<Rightarrow> shortest n (p + 1) x)"

text \<open>
  \<open>float_repr_pos\<close> lays the digits out as \<open>repr\<close> does: in exponent form when the decimal point
  is more than 16 places to the right or four places to the left of the first digit.
\<close>

definition float_repr_pos :: "rat \<Rightarrow> string" where
  "float_repr_pos x =
    (let (m, p) = shortest 17 1 x;
         ds = digits_of (nat m);
         point = decimal_exp x - int p + 1 + int (length ds);
         sig = (let s = rev (dropWhile (\<lambda>c. c = CHR ''0'') (rev ds)) in if s = [] then ''0'' else s);
         n = int (length sig)
     in if point \<le> - 4 \<or> 16 < point
        then take 1 sig @ (if n = 1 then '''' else ''.'' @ drop 1 sig)
             @ ''e'' @ (if point - 1 < 0 then ''-'' else ''+'')
             @ (let e = digits_of (nat \<bar>point - 1\<bar>) in if length e = 1 then ''0'' @ e else e)
        else if point \<le> 0 then ''0.'' @ replicate (nat (- point)) (CHR ''0'') @ sig
        else if n \<le> point then sig @ replicate (nat (point - n)) (CHR ''0'') @ ''.0''
        else take (nat point) sig @ ''.'' @ drop (nat point) sig)"

definition float_repr :: "rat \<Rightarrow> string" where
  "float_repr x =
    (if x = 0 then ''0.0'' else if x < 0 then ''-'' @ float_repr_pos (- x) else float_repr_pos x)"

section \<open>\<open>json.dumps\<close>\<close>

definition hex_digit :: "nat \<Rightarrow> char" where
  "hex_digit n = (if n < 10 then char_of (48 + n) else char_of (87 + n))"

definition escape_char :: "nat \<Rightarrow> utext" where
  "escape_char c =
    (if c = 34 then ascii [CHR 0x5C, CHR 0x22]
     else if c = 92 then ascii [CHR 0x5C, CHR 0x5C]
     else if c = 10 then ascii [CHR 0x5C, CHR ''n'']
     else if c = 13 then ascii [CHR 0x5C, CHR ''r'']
     else if c = 9 then ascii [CHR 0x5C, CHR ''t'']
     else if c = 12 then ascii [CHR 0x5C, CHR ''f'']
     else if c = 8 then ascii [CHR 0x5C, CHR ''b'']
     else if c < 32 then ascii ([CHR 0x5C] @ ''u00'' @ [hex_digit (c div 16), hex_digit (c mod 16)])
     else [c])"

definition dump_string :: "utext \<Rightarrow> utext" where
  "dump_string s = [34] @ concat (map escape_char s) @ [34]"

fun intersperse :: "nat \<Rightarrow> utext list \<Rightarrow> utext" where
  "intersperse c [] = []"
| "intersperse c [x] = x"
| "intersperse c (x # xs) = x @ [c] @ intersperse c xs"

fun dumps :: "json \<Rightarrow> utext" where
  "dumps JNull = ascii ''null''"
| "dumps (JBool b) = ascii (if b then ''true'' else ''false'')"
| "dumps (JInt i) = ascii (str_int i)"
| "dumps (JFloat x) = ascii (float_repr x)"
| "dumps (JString s) = dump_string s"
| "dumps (JArray xs) = [91] @ intersperse 44 (map dumps xs) @ [93]"
| "dumps (JObject kvs) =
    [123] @ intersperse 44
       (map (\<lambda>(k, t). dump_string (ascii k) @ [58] @ t)
         (sort_key fst (map (\<lambda>(k, v). (k, dumps v)) kvs))) @ [125]"

text \<open>The byte string of a text in UTF-8.\<close>

definition utf8_char :: "nat \<Rightarrow> nat list" where
  "utf8_char c =
    (if c < 128 then [c]
     else if c < 2048 then [192 + c div 64, 128 + c mod 64]
     else if c < 65536 then [224 + c div 4096, 128 + c div 64 mod 64, 128 + c mod 64]
     else [240 + c div 262144, 128 + c div 4096 mod 64, 128 + c div 64 mod 64, 128 + c mod 64])"

definition utf8 :: "utext \<Rightarrow> nat list" where
  "utf8 s = concat (map utf8_char s)"

lemma sort_key_fst_permuted:
  assumes "distinct (map fst a)" and "mset a = mset b"
  shows "sort_key fst a = sort_key fst b"
proof (rule properties_for_sort_key)
  show "mset (sort_key fst b) = mset a" using assms(2) by simp
  show "sorted (map fst (sort_key fst b))" by simp
  show "filter (\<lambda>x. fst k = fst x) (sort_key fst b) = filter (\<lambda>x. fst k = fst x) a"
    if "k \<in> set (sort_key fst b)" for k
  proof -
    have db: "distinct (map fst b)"
      using assms by (metis mset_map mset_eq_imp_distinct_iff)
    have *: "filter (\<lambda>x. fst k = fst x) c = [k]" if "distinct (map fst c)" and "k \<in> set c" for c
      using that by (induction c) (force intro: filter_False)+
    have ka: "k \<in> set a" and kb: "k \<in> set b"
      using that assms(2) by (simp, metis set_sort set_mset_mset) (use that in simp)
    have "distinct (map fst (sort_key fst b))"
      using db by (metis mset_map mset_eq_imp_distinct_iff mset_sort)
    then show ?thesis using * [of "sort_key fst b"] * [of a] that ka assms(1) by simp
  qed
qed

text \<open>The order in which a dictionary was built does not show in the text.\<close>

lemma dumps_permuted:
  assumes "distinct (map fst a)" and "mset a = mset b"
  shows "dumps (JObject a) = dumps (JObject b)"
proof -
  let ?f = "\<lambda>(k, v). (k, dumps v)"
  have "map fst (map ?f a) = map fst a" by (simp add: comp_def case_prod_beta)
  then have "distinct (map fst (map ?f a))" using assms(1) by (simp only:)
  moreover have "mset (map ?f a) = mset (map ?f b)" using assms(2) by simp
  ultimately have "sort_key fst (map ?f a) = sort_key fst (map ?f b)"
    by (rule sort_key_fst_permuted)
  then show ?thesis by simp
qed

end
