(* ===== verification/AuditLog.thy ===== *)
theory AuditLog
  imports Sha256
begin

text \<open>
  The hash-chained log of \<open>app/services/audit.py\<close>: the rows of \<open>audit_log\<close> and
  \<open>audit_chain_checks\<close>, \<open>log_event\<close>, and the verification of the chain in its three modes
  (whole chain, tail, since the last anchor). The state of every other component that writes to
  the log extends \<open>audit_tables\<close>. The time stamp of a log row is not part of its hash and is left out.
\<close>

section \<open>Tables\<close>

record audit_log =
  log_id :: int
  log_evaluation_record_id :: "int option"
  actor_user_id :: int
  event_type :: string
  old_value :: "jdict option"
  new_value :: "jdict option"
  prev_hash :: string
  entry_hash :: string

record audit_chain_check =
  check_id :: int
  check_ok :: bool
  check_log_id :: "int option"
  check_entry_hash :: "string option"
  verified_rows :: nat
  check_broken_at_id :: "int option"
  check_reason :: "string option"
  verified_at :: int

record audit_tables =
  t_audit_log :: "audit_log list"
  t_chain_checks :: "audit_chain_check list"

section \<open>Writing\<close>

definition GENESIS_HASH :: string where
  "GENESIS_HASH = replicate 64 (CHR ''0'')"

definition canonical ::
  "int \<Rightarrow> string \<Rightarrow> int option \<Rightarrow> jdict option \<Rightarrow> jdict option \<Rightarrow> string \<Rightarrow> utext" where
  "canonical actor event record_id old new prev =
    dumps (JObject
      [(''actor_user_id'', JInt actor),
       (''event_type'', jstr event),
       (''evaluation_record_id'', jopt JInt record_id),
       (''old_value'', jopt JObject old),
       (''new_value'', jopt JObject new),
       (''prev_hash'', jstr prev)])"

definition digest_of_text :: "utext \<Rightarrow> string" where
  "digest_of_text t = hexdigest (sha256 (utf8 t))"

definition compute_hash ::
  "int \<Rightarrow> string \<Rightarrow> int option \<Rightarrow> jdict option \<Rightarrow> jdict option \<Rightarrow> string \<Rightarrow> string" where
  "compute_hash actor event record_id old new prev =
    digest_of_text (canonical actor event record_id old new prev)"

text \<open>\<open>SELECT ... ORDER BY id\<close>.\<close>

definition log_by_id :: "'a audit_tables_scheme \<Rightarrow> audit_log list" where
  "log_by_id db = sort_key log_id (t_audit_log db)"

definition last_hash :: "'a audit_tables_scheme \<Rightarrow> string" where
  "last_hash db = (if log_by_id db = [] then GENESIS_HASH else entry_hash (last (log_by_id db)))"

definition log_event ::
  "int \<Rightarrow> string \<Rightarrow> int option \<Rightarrow> jdict option \<Rightarrow> jdict option \<Rightarrow>
    'a audit_tables_scheme \<Rightarrow> 'a audit_tables_scheme" where
  "log_event actor event record_id old new db =
    (let prev = last_hash db;
         entry = compute_hash actor event record_id old new prev
     in db\<lparr>t_audit_log := t_audit_log db @
          [\<lparr>log_id = next_id log_id (t_audit_log db), log_evaluation_record_id = record_id,
            actor_user_id = actor, event_type = event, old_value = old, new_value = new,
            prev_hash = prev, entry_hash = entry\<rparr>]\<rparr>)"

section \<open>Verifying\<close>

record chain_result =
  res_ok :: bool
  res_checked :: nat
  res_broken_at_id :: "int option"
  res_reason :: "string option"
  res_full :: bool
  res_anchor_log_id :: "int option"
  res_anchor_verified_at :: "int option"

definition row_hash :: "audit_log \<Rightarrow> string" where
  "row_hash row =
    compute_hash (actor_user_id row) (event_type row) (log_evaluation_record_id row)
      (old_value row) (new_value row) (prev_hash row)"

fun walk_from ::
  "nat \<Rightarrow> audit_log list \<Rightarrow> string option \<Rightarrow> bool \<Rightarrow> int option \<Rightarrow> int option \<Rightarrow>
    chain_result" where
  "walk_from checked [] expected_prev full_check anchor anchor_at =
    \<lparr>res_ok = True, res_checked = checked, res_broken_at_id = None, res_reason = None,
     res_full = full_check, res_anchor_log_id = anchor, res_anchor_verified_at = anchor_at\<rparr>"
| "walk_from checked (row # rows) expected_prev full_check anchor anchor_at =
    (let recomputed = row_hash row
     in if Some (prev_hash row) \<noteq> expected_prev then
          \<lparr>res_ok = False, res_checked = checked + 1, res_broken_at_id = Some (log_id row),
           res_reason = Some ''link'', res_full = full_check, res_anchor_log_id = anchor,
           res_anchor_verified_at = anchor_at\<rparr>
        else if recomputed \<noteq> entry_hash row then
          \<lparr>res_ok = False, res_checked = checked + 1, res_broken_at_id = Some (log_id row),
           res_reason = Some ''content'', res_full = full_check, res_anchor_log_id = anchor,
           res_anchor_verified_at = anchor_at\<rparr>
        else walk_from (checked + 1) rows (Some (entry_hash row)) full_check anchor anchor_at)"

abbreviation walk_chain ::
  "audit_log list \<Rightarrow> string option \<Rightarrow> bool \<Rightarrow> int option \<Rightarrow> int option \<Rightarrow> chain_result" where
  "walk_chain \<equiv> walk_from 0"

definition checks_by_id :: "'a audit_tables_scheme \<Rightarrow> audit_chain_check list" where
  "checks_by_id db = sort_key check_id (t_chain_checks db)"

definition latest_anchor :: "'a audit_tables_scheme \<Rightarrow> audit_chain_check option" where
  "latest_anchor db =
    find (\<lambda>c. check_ok c \<and> check_log_id c \<noteq> None) (rev (checks_by_id db))"

definition latest_check :: "'a audit_tables_scheme \<Rightarrow> audit_chain_check option" where
  "latest_check db =
    (if checks_by_id db = [] then None else Some (last (checks_by_id db)))"

definition verify_chain ::
  "nat option \<Rightarrow> bool \<Rightarrow> 'a audit_tables_scheme \<Rightarrow> string + chain_result" where
  "verify_chain limit since_anchor db =
    (if since_anchor \<and> limit \<noteq> None then Inl ''since_anchor and limit together''
     else case (if since_anchor then latest_anchor db else None) of
       Some anchor \<Rightarrow>
         (let stored_hash = map_option entry_hash
                (find (\<lambda>r. Some (log_id r) = check_log_id anchor) (t_audit_log db))
          in if stored_hash \<noteq> check_entry_hash anchor then
               Inr \<lparr>res_ok = False, res_checked = 0, res_broken_at_id = check_log_id anchor,
                 res_reason = Some ''anchor'', res_full = False,
                 res_anchor_log_id = check_log_id anchor,
                 res_anchor_verified_at = Some (verified_at anchor)\<rparr>
             else
               Inr (walk_chain
                 (filter (\<lambda>r. case check_log_id anchor of None \<Rightarrow> False | Some k \<Rightarrow> k < log_id r)
                    (log_by_id db))
                 (check_entry_hash anchor) False (check_log_id anchor)
                 (Some (verified_at anchor))))
     | None \<Rightarrow>
         (case limit of
            None \<Rightarrow> Inr (walk_chain (log_by_id db) (Some GENESIS_HASH) True None None)
          | Some n \<Rightarrow>
              (let rows = rev (take n (rev (log_by_id db)));
                   expected = (case rows of [] \<Rightarrow> GENESIS_HASH | row # _ \<Rightarrow> prev_hash row)
               in Inr (walk_chain rows (Some expected) False None None))))"

definition full_result :: "'a audit_tables_scheme \<Rightarrow> chain_result" where
  "full_result db = walk_chain (log_by_id db) (Some GENESIS_HASH) True None None"

definition record_full_verification ::
  "int \<Rightarrow> 'a audit_tables_scheme \<Rightarrow> 'a audit_tables_scheme \<times> chain_result \<times> bool" where
  "record_full_verification now db =
    (if log_by_id db = [] then (db, full_result db, False)
     else
       let head = last (log_by_id db);
           res = full_result db;
           check = \<lparr>check_id = next_id check_id (t_chain_checks db), check_ok = res_ok res,
             check_log_id = Some (log_id head),
             check_entry_hash = (if res_ok res then Some (entry_hash head) else None),
             verified_rows = res_checked res, check_broken_at_id = res_broken_at_id res,
             check_reason = res_reason res, verified_at = now\<rparr>;
           db' = db\<lparr>t_chain_checks := t_chain_checks db @ [check]\<rparr>;
           previous = find (\<lambda>c. check_ok c \<and> check_id c < check_id check) (rev (checks_by_id db'));
           advanced = (res_ok res \<and>
             (case previous of None \<Rightarrow> True
              | Some c \<Rightarrow> (case check_log_id c of None \<Rightarrow> True | Some p \<Rightarrow> p < log_id head)))
       in (db', res, advanced))"

lemma verify_chain_full: "verify_chain None False db = Inr (full_result db)"
  by (simp add: verify_chain_def full_result_def)

section \<open>The chain\<close>

fun linked :: "string \<Rightarrow> audit_log list \<Rightarrow> bool" where
  "linked prev [] = True"
| "linked prev (r # rs) = (prev_hash r = prev \<and> row_hash r = entry_hash r \<and> linked (entry_hash r) rs)"

definition head_hash :: "string \<Rightarrow> audit_log list \<Rightarrow> string" where
  "head_hash prev rows = (if rows = [] then prev else entry_hash (last rows))"

lemma head_hash_simps [simp]:
  "head_hash prev [] = prev"
  "head_hash prev (r # rs) = head_hash (entry_hash r) rs"
  "head_hash prev (rs @ [r]) = entry_hash r"
  by (simp_all add: head_hash_def)

lemma linked_append: "linked prev (xs @ ys) \<longleftrightarrow> linked prev xs \<and> linked (head_hash prev xs) ys"
  by (induction xs arbitrary: prev) auto

lemma walk_from_ok: "res_ok (walk_from n rows (Some prev) f a t) \<longleftrightarrow> linked prev rows"
  by (induction rows arbitrary: n prev) (auto simp: Let_def)

lemma walk_from_checked:
  "linked prev rows \<Longrightarrow> res_checked (walk_from n rows (Some prev) f a t) = n + length rows"
  by (induction rows arbitrary: n prev) (auto simp: Let_def)

lemma walk_from_full [simp]: "res_full (walk_from n rows e f a t) = f"
  by (induction rows arbitrary: n e) (auto simp: Let_def)

text \<open>A broken chain is reported at its first bad row.\<close>

lemma walk_from_broken:
  assumes "\<not> linked prev rows"
  shows "\<exists>good bad rest. rows = good @ bad # rest \<and> linked prev good \<and>
    \<not> linked prev (good @ [bad]) \<and>
    res_broken_at_id (walk_from n rows (Some prev) f a t) = Some (log_id bad) \<and>
    res_checked (walk_from n rows (Some prev) f a t) = n + length good + 1"
  using assms
proof (induction rows arbitrary: n prev)
  case Nil
  then show ?case by simp
next
  case (Cons r rs)
  show ?case
  proof (cases "prev_hash r = prev \<and> row_hash r = entry_hash r")
    case True
    with Cons.prems have "\<not> linked (entry_hash r) rs" by simp
    from Cons.IH [OF this, of "n + 1"] obtain good bad rest where
      "rs = good @ bad # rest" "linked (entry_hash r) good" "\<not> linked (entry_hash r) (good @ [bad])"
      "res_broken_at_id (walk_from (n + 1) rs (Some (entry_hash r)) f a t) = Some (log_id bad)"
      "res_checked (walk_from (n + 1) rs (Some (entry_hash r)) f a t) = n + 1 + length good + 1"
      by blast
    with True show ?thesis by (intro exI [of _ "r # good"]) (auto simp: Let_def)
  next
    case False
    then show ?thesis by (intro exI [of _ "[]"]) (auto simp: Let_def)
  qed
qed

text \<open>The rows of a log that only \<open>log_event\<close> has written to.\<close>

definition log_wf :: "'a audit_tables_scheme \<Rightarrow> bool" where
  "log_wf db \<longleftrightarrow> sorted_wrt (<) (map log_id (t_audit_log db)) \<and> linked GENESIS_HASH (t_audit_log db)"

lemma sort_key_sorted: "sorted_wrt (<) (map f xs) \<Longrightarrow> sort_key f xs = xs"
  for f :: "'r \<Rightarrow> int"
  by (simp add: sorted_sort_id sorted_wrt_mono_rel [of _ "(<)" "(\<le>)"] sort_key_id_if_sorted)

lemma log_wf_by_id: "log_wf db \<Longrightarrow> log_by_id db = t_audit_log db"
  unfolding log_wf_def log_by_id_def by (blast intro: sort_key_sorted)

lemma log_wf_linked: "log_wf db \<Longrightarrow> linked GENESIS_HASH (t_audit_log db)"
  by (simp add: log_wf_def)

lemma last_hash_wf: "log_wf db \<Longrightarrow> last_hash db = head_hash GENESIS_HASH (t_audit_log db)"
  by (simp add: last_hash_def head_hash_def log_wf_by_id)

definition logged_row :: "int \<Rightarrow> string \<Rightarrow> int option \<Rightarrow> jdict option \<Rightarrow> jdict option \<Rightarrow>
    'a audit_tables_scheme \<Rightarrow> audit_log" where
  "logged_row actor event record_id old new db =
    \<lparr>log_id = next_id log_id (t_audit_log db), log_evaluation_record_id = record_id,
     actor_user_id = actor, event_type = event, old_value = old, new_value = new,
     prev_hash = last_hash db,
     entry_hash = compute_hash actor event record_id old new (last_hash db)\<rparr>"

lemma log_event_logged_row:
  "log_event actor event record_id old new db =
    db\<lparr>t_audit_log := t_audit_log db @ [logged_row actor event record_id old new db]\<rparr>"
  by (simp add: log_event_def logged_row_def Let_def)

lemma log_event_rows [simp]:
  "t_audit_log (log_event actor event record_id old new db) =
    t_audit_log db @ [logged_row actor event record_id old new db]"
  "t_chain_checks (log_event actor event record_id old new db) = t_chain_checks db"
  "audit_tables.more (log_event actor event record_id old new db) = audit_tables.more db"
  by (simp_all add: log_event_logged_row)

lemma logged_row_fields [simp]:
  "log_evaluation_record_id (logged_row actor event record_id old new db) = record_id"
  "actor_user_id (logged_row actor event record_id old new db) = actor"
  "event_type (logged_row actor event record_id old new db) = event"
  "old_value (logged_row actor event record_id old new db) = old"
  "new_value (logged_row actor event record_id old new db) = new"
  "prev_hash (logged_row actor event record_id old new db) = last_hash db"
  "log_id (logged_row actor event record_id old new db) = next_id log_id (t_audit_log db)"
  by (simp_all add: logged_row_def)

lemma logged_row_hash [simp]:
  "row_hash (logged_row actor event record_id old new db) =
    entry_hash (logged_row actor event record_id old new db)"
  by (simp add: row_hash_def logged_row_def)

lemma log_event_wf [intro]: "log_wf db \<Longrightarrow> log_wf (log_event actor event record_id old new db)"
  using next_id_fresh [of _ "t_audit_log db" log_id]
  by (auto simp: log_wf_def sorted_wrt_append linked_append last_hash_wf)

definition write_all ::
  "(int \<times> string \<times> int option \<times> jdict option \<times> jdict option) list \<Rightarrow>
    'a audit_tables_scheme \<Rightarrow> 'a audit_tables_scheme" where
  "write_all events =
    fold (\<lambda>(actor, event, record_id, old, new). log_event actor event record_id old new) events"

lemma write_all_wf: "log_wf db \<Longrightarrow> log_wf (write_all events db)"
  unfolding write_all_def by (induction events arbitrary: db) auto

lemma write_all_rows:
  "\<exists>rows. t_audit_log (write_all events db) = t_audit_log db @ rows \<and> length rows = length events"
proof (induction events arbitrary: db)
  case Nil
  then show ?case by (simp add: write_all_def)
next
  case (Cons e es)
  obtain a ev r old new where e: "e = (a, ev, r, old, new)" by (metis surj_pair)
  from Cons.IH [of "log_event a ev r old new db"] show ?case by (auto simp: write_all_def e)
qed

lemma write_all_checks [simp]: "t_chain_checks (write_all events db) = t_chain_checks db"
  unfolding write_all_def by (induction events arbitrary: db) auto

lemma full_result_wf:
  assumes "log_wf db"
  shows "res_ok (full_result db)" and "res_checked (full_result db) = length (t_audit_log db)"
  using log_wf_linked [OF assms]
  by (simp_all add: full_result_def log_wf_by_id [OF assms] walk_from_ok walk_from_checked)

section \<open>Tampering\<close>

definition row_text :: "audit_log \<Rightarrow> utext" where
  "row_text row =
    canonical (actor_user_id row) (event_type row) (log_evaluation_record_id row)
      (old_value row) (new_value row) (prev_hash row)"

lemma row_hash_text: "row_hash row = digest_of_text (row_text row)"
  by (simp add: row_hash_def row_text_def compute_hash_def)

definition collision_between :: "audit_log list \<Rightarrow> audit_log list \<Rightarrow> bool" where
  "collision_between rows rows' \<longleftrightarrow>
    (\<exists>r \<in> set rows. \<exists>r' \<in> set rows'.
      row_text r \<noteq> row_text r' \<and> digest_of_text (row_text r) = digest_of_text (row_text r'))"

definition hits_genesis :: "audit_log list \<Rightarrow> bool" where
  "hits_genesis rows \<longleftrightarrow> (\<exists>r \<in> set rows. digest_of_text (row_text r) = GENESIS_HASH)"

lemma collision_between_mono:
  "collision_between xs ys \<Longrightarrow> set xs \<subseteq> set xs' \<Longrightarrow> set ys \<subseteq> set ys' \<Longrightarrow> collision_between xs' ys'"
  unfolding collision_between_def by blast

lemma hits_genesis_mono: "hits_genesis xs \<Longrightarrow> set xs \<subseteq> set xs' \<Longrightarrow> hits_genesis xs'"
  unfolding hits_genesis_def by blast

lemma linked_last_digest:
  "linked prev (xs @ [r]) \<Longrightarrow> digest_of_text (row_text r) = entry_hash r"
  by (simp add: linked_append row_hash_text)

text \<open>The canonical text ends in the previous hash, so it determines it.\<close>

definition plain_digest :: "string \<Rightarrow> bool" where
  "plain_digest h \<longleftrightarrow> length h = 64 \<and> (\<forall>c \<in> set h. escape_char (of_char c) = [of_char c])"

lemma hex_digit_plain: "n < 16 \<Longrightarrow> escape_char (of_char (hex_digit n)) = [of_char (hex_digit n)]"
  by (auto simp: hex_digit_def escape_char_def)

lemma be_bytes_less: "b \<in> set (be_bytes k n) \<Longrightarrow> b < 256"
  by (auto simp: be_bytes_def)

lemma sha256_bytes: "b \<in> set (sha256 bs) \<Longrightarrow> b < 256"
  by (auto simp: sha256_def Let_def dest: be_bytes_less)

lemma plain_digest_of_text: "plain_digest (digest_of_text t)"
proof -
  have "length (digest_of_text t) = 64"
    by (simp add: digest_of_text_def length_hexdigest length_sha256)
  moreover have "escape_char (of_char c) = [of_char c]" if "c \<in> set (digest_of_text t)" for c
  proof -
    from that obtain b where "b < 256" and "c = hex_digit (b div 16) \<or> c = hex_digit (b mod 16)"
      by (auto simp: digest_of_text_def hexdigest_def dest: sha256_bytes)
    moreover have "b div 16 < 16" using \<open>b < 256\<close> by simp
    moreover have "b mod 16 < 16" by simp
    ultimately show ?thesis using hex_digit_plain by blast
  qed
  ultimately show ?thesis by (simp add: plain_digest_def)
qed

lemma plain_digest_genesis: "plain_digest GENESIS_HASH"
  by (simp add: plain_digest_def GENESIS_HASH_def escape_char_def)

lemma dump_plain: "plain_digest h \<Longrightarrow> dump_string (ascii h) = [34] @ ascii h @ [34]"
proof -
  assume "plain_digest h"
  then have "\<forall>c \<in> set h. escape_char (of_char c) = [of_char c]" by (simp add: plain_digest_def)
  then have "concat (map escape_char (ascii h)) = ascii h"
    by (induction h) (simp_all add: ascii_def)
  then show ?thesis by (simp add: dump_string_def)
qed

lemma canonical_ends_in_prev:
  "\<exists>pre. canonical actor event record_id old new prev = pre @ dump_string (ascii prev) @ [125]"
  by (simp add: canonical_def jstr_def sort_key_simps insort_key.simps)

lemma canonical_determines_prev:
  assumes "plain_digest p" and "plain_digest q"
    and "canonical a e r old new p = canonical a' e' r' old' new' q"
  shows "p = q"
proof -
  obtain pre pre' where "pre @ dump_string (ascii p) @ [125] = pre' @ dump_string (ascii q) @ [125]"
    using canonical_ends_in_prev assms(3) by metis
  then have "pre @ [34] @ ascii p @ [34, 125] = pre' @ [34] @ ascii q @ [34, 125]"
    using assms(1,2) by (simp add: dump_plain)
  moreover have "length (ascii p) = length (ascii q)"
    using assms(1,2) by (simp add: plain_digest_def ascii_def)
  ultimately show ?thesis by simp
qed

lemma linked_prev_plain:
  assumes "linked prev rows" and "plain_digest prev" and "r \<in> set rows"
  shows "plain_digest (prev_hash r)"
  using assms
proof (induction rows arbitrary: prev)
  case (Cons x xs)
  have "plain_digest (entry_hash x)"
    using Cons.prems(1) plain_digest_of_text by (metis linked.simps(2) row_hash_text)
  with Cons show ?case by auto
qed simp

lemma linked_same_head:
  assumes "linked GENESIS_HASH xs" and "linked GENESIS_HASH ys"
    and "head_hash GENESIS_HASH xs = head_hash GENESIS_HASH ys"
  shows "map row_text xs = map row_text ys \<or> collision_between xs ys \<or>
    hits_genesis xs \<or> hits_genesis ys"
  using assms
proof (induction xs arbitrary: ys rule: rev_induct)
  case Nil
  show ?case
  proof (cases ys rule: rev_cases)
    case Nil
    then show ?thesis by simp
  next
    case (snoc zs z)
    then have "digest_of_text (row_text z) = GENESIS_HASH"
      using Nil.prems(2,3) linked_last_digest [of GENESIS_HASH zs z] by simp
    then show ?thesis using snoc by (auto simp: hits_genesis_def)
  qed
next
  case (snoc x xs)
  note x_digest = linked_last_digest [OF snoc.prems(1)]
  show ?case
  proof (cases ys rule: rev_cases)
    case Nil
    then have "digest_of_text (row_text x) = GENESIS_HASH" using x_digest snoc.prems(3) by simp
    then show ?thesis by (auto simp: hits_genesis_def)
  next
    case ys: (snoc zs z)
    have "digest_of_text (row_text x) = digest_of_text (row_text z)"
      using x_digest linked_last_digest [of GENESIS_HASH zs z] snoc.prems(2,3) ys by simp
    then consider "collision_between (xs @ [x]) ys" | "row_text x = row_text z"
      using ys by (auto simp: collision_between_def)
    then show ?thesis
    proof cases
      case 2
      moreover have "plain_digest (prev_hash x)" "plain_digest (prev_hash z)"
        using linked_prev_plain [OF _ plain_digest_genesis] snoc.prems(1,2) ys by auto
      ultimately have "prev_hash x = prev_hash z"
        unfolding row_text_def by (blast intro: canonical_determines_prev)
      then have "head_hash GENESIS_HASH xs = head_hash GENESIS_HASH zs"
        using snoc.prems(1,2) ys by (simp add: linked_append)
      moreover have "linked GENESIS_HASH xs" "linked GENESIS_HASH zs"
        using snoc.prems(1,2) ys by (simp_all add: linked_append)
      ultimately consider "map row_text xs = map row_text zs" | "collision_between xs zs"
        | "hits_genesis xs" | "hits_genesis zs"
        using snoc.IH [of zs] by auto
      then show ?thesis
      proof cases
        case 1
        then show ?thesis using 2 ys by simp
      qed (auto simp: ys intro: collision_between_mono hits_genesis_mono)
    qed simp
  qed
qed

lemma full_result_linked: "res_ok (full_result db) \<longleftrightarrow> linked GENESIS_HASH (log_by_id db)"
  by (simp add: full_result_def walk_from_ok)

section \<open>Anchors\<close>

lemma find_last_is: "P x \<Longrightarrow> find P (rev (xs @ [x])) = Some x"
  by simp

lemma sort_key_snoc_max:
  fixes f :: "'r \<Rightarrow> int"
  assumes "\<And>y. y \<in> set xs \<Longrightarrow> f y < f x"
  shows "sort_key f (xs @ [x]) = sort_key f xs @ [x]"
proof (rule properties_for_sort_key)
  show "mset (sort_key f xs @ [x]) = mset (xs @ [x])" by simp
  show "sorted (map f (sort_key f xs @ [x]))"
    using assms by (auto simp: sorted_append intro: less_imp_le)
  fix k
  assume "k \<in> set (sort_key f xs @ [x])"
  have "filter (\<lambda>y. f k = f y) (sort_key f xs) = filter (\<lambda>y. f k = f y) xs"
    using sort_key_stable [of f "f k" xs] by (simp add: eq_commute)
  then show "filter (\<lambda>y. f k = f y) (sort_key f xs @ [x]) = filter (\<lambda>y. f k = f y) (xs @ [x])"
    by simp
qed

lemma latest_anchor_added:
  assumes "check_id c = next_id check_id (t_chain_checks db)" and "check_ok c"
    and "check_log_id c = Some k"
  shows "latest_anchor (db\<lparr>t_chain_checks := t_chain_checks db @ [c]\<rparr>) = Some c"
proof -
  have "checks_by_id (db\<lparr>t_chain_checks := t_chain_checks db @ [c]\<rparr>) = checks_by_id db @ [c]"
    unfolding checks_by_id_def
    using next_id_fresh [of _ "t_chain_checks db" check_id] assms(1)
    by (simp add: sort_key_snoc_max)
  then show ?thesis using assms(2,3) by (simp add: latest_anchor_def find_last_is)
qed

lemma find_strictly_sorted:
  "sorted_wrt (<) (map key rows) \<Longrightarrow> r \<in> set rows \<Longrightarrow> find (\<lambda>x. key x = key r) rows = Some r"
  for key :: "'r \<Rightarrow> int"
  by (induction rows) auto

lemma filter_above_last:
  fixes key :: "'r \<Rightarrow> int"
  assumes "sorted_wrt (<) (map key (xs @ [r] @ ys))"
  shows "filter (\<lambda>x. key r < key x) (xs @ [r] @ ys) = ys"
  using assms by (auto simp: sorted_wrt_append filter_empty_conv intro!: filter_True)

lemma verify_since_anchor:
  assumes wf: "log_wf db'" and rows: "t_audit_log db' = t_audit_log db @ ys"
    and nonempty: "t_audit_log db \<noteq> []"
    and anchor: "latest_anchor db' = Some c" "check_log_id c = Some (log_id (last (t_audit_log db)))"
      "check_entry_hash c = Some (entry_hash (last (t_audit_log db)))"
  shows "\<exists>r. verify_chain None True db' = Inr r \<and> res_ok r \<and> \<not> res_full r \<and> res_checked r = length ys"
proof -
  define h where "h = last (t_audit_log db)"
  obtain xs where xs: "t_audit_log db' = xs @ [h] @ ys"
    using nonempty rows h_def by (metis append.assoc append_butlast_last_id)
  have sorted: "sorted_wrt (<) (map log_id (xs @ [h] @ ys))"
    using wf xs by (simp add: log_wf_def)
  have "linked (entry_hash h) ys"
    using wf xs by (auto simp: log_wf_def linked_append)
  moreover have "find (\<lambda>r. Some (log_id r) = check_log_id c) (t_audit_log db') = Some h"
    using find_strictly_sorted [OF sorted, of h] anchor(2) xs h_def by simp
  moreover have "filter (\<lambda>r. log_id h < log_id r) (log_by_id db') = ys"
    using filter_above_last [OF sorted] by (simp add: log_wf_by_id [OF wf] xs)
  ultimately show ?thesis
    using anchor by (simp add: verify_chain_def h_def [symmetric] walk_from_ok walk_from_checked)
qed

section \<open>Properties\<close>

definition empty_log :: audit_tables where
  "empty_log = \<lparr>t_audit_log = [], t_chain_checks = []\<rparr>"

lemma empty_log_wf [simp]: "log_wf empty_log"
  by (simp add: log_wf_def empty_log_def)

lemma t_audit_log_empty [simp]: "t_audit_log empty_log = []" "t_chain_checks empty_log = []"
  by (simp_all add: empty_log_def)

text \<open>
  C21. Whatever events are written with \<open>log_event\<close>, in whatever order and with whatever
  values, the full verification of the log succeeds and reports one checked row for each event.
\<close>

theorem audit_chain_verifies:
  "\<exists>r. verify_chain None False (write_all events empty_log) = Inr r \<and>
    res_ok r \<and> res_full r \<and> res_checked r = length events"
proof -
  have "log_wf (write_all events empty_log)" by (rule write_all_wf) simp
  moreover have "length (t_audit_log (write_all events empty_log)) = length events"
    using write_all_rows [of events empty_log] by auto
  ultimately show ?thesis
    using full_result_wf [of "write_all events empty_log"]
    by (simp add: verify_chain_full full_result_def)
qed

text \<open>
  C22. Tampering is found: if two logs both pass the full verification and their newest entries
  carry the same hash, then they have the same number of rows and row by row the same content
  (actor, event, record, old and new values, previous hash, as the canonical text), unless the two
  logs exhibit a collision of SHA-256 or a preimage of the genesis constant.
\<close>

theorem audit_tampering_detected:
  assumes "verify_chain None False db = Inr r" and "res_ok r"
    and "verify_chain None False db' = Inr r'" and "res_ok r'"
    and "last_hash db = last_hash db'"
  shows "map row_text (log_by_id db) = map row_text (log_by_id db') \<or>
    collision_between (log_by_id db) (log_by_id db') \<or>
    hits_genesis (log_by_id db) \<or> hits_genesis (log_by_id db')"
  using assms linked_same_head [of "log_by_id db" "log_by_id db'"]
  by (auto simp: verify_chain_full full_result_linked last_hash_def head_hash_def)

text \<open>
  A log that fails the full verification is reported at its first bad row: every row before
  it is linked and has the hash of its content, and the reported row has not.
\<close>

theorem audit_first_broken_row:
  assumes "verify_chain None False db = Inr r" and "\<not> res_ok r"
  shows "\<exists>good bad rest. log_by_id db = good @ bad # rest \<and> linked GENESIS_HASH good \<and>
    \<not> linked GENESIS_HASH (good @ [bad]) \<and> res_broken_at_id r = Some (log_id bad) \<and>
    res_checked r = length good + 1"
proof -
  have r: "r = full_result db" using assms(1) by (simp add: verify_chain_full)
  with assms(2) have "\<not> linked GENESIS_HASH (log_by_id db)" by (simp add: full_result_linked)
  from walk_from_broken [OF this, of 0] show ?thesis unfolding r full_result_def by fastforce
qed

text \<open>
  The nightly full verification moves the anchor forward, and from then on the quick
  verification since the anchor accepts every log that only \<open>log_event\<close> has extended, looking
  at the new rows alone.
\<close>

theorem audit_anchor_then_quick_check:
  assumes "log_wf db" and "t_audit_log db \<noteq> []"
    and "record_full_verification now db = (db1, res, advanced)"
  shows "res_ok res \<and> (\<exists>r. verify_chain None True (write_all events db1) = Inr r \<and> res_ok r \<and>
    \<not> res_full r \<and> res_checked r = length events)"
proof -
  let ?h = "last (t_audit_log db)"
  define c where "c = \<lparr>check_id = next_id check_id (t_chain_checks db), check_ok = True,
    check_log_id = Some (log_id ?h), check_entry_hash = Some (entry_hash ?h),
    verified_rows = length (t_audit_log db), check_broken_at_id = res_broken_at_id res,
    check_reason = res_reason res, verified_at = now\<rparr>"
  have res: "res = full_result db" and db1: "db1 = db\<lparr>t_chain_checks := t_chain_checks db @ [c]\<rparr>"
    using assms(3) full_result_wf [OF assms(1)] assms(2) log_wf_by_id [OF assms(1)]
    by (auto simp: record_full_verification_def Let_def c_def)
  have wf: "log_wf (write_all events db1)"
    using assms(1) by (intro write_all_wf) (simp add: db1 log_wf_def)
  obtain ys where ys: "t_audit_log (write_all events db1) = t_audit_log db @ ys"
    "length ys = length events"
    using write_all_rows [of events db1] by (auto simp: db1)
  have "latest_anchor db1 = Some c"
    unfolding db1 by (rule latest_anchor_added) (simp_all add: c_def)
  then have "latest_anchor (write_all events db1) = Some c"
    by (simp add: latest_anchor_def checks_by_id_def)
  from verify_since_anchor [OF wf ys(1) assms(2) this] show ?thesis
    using full_result_wf [OF assms(1)] ys(2) by (simp add: res c_def)
qed

section \<open>Witnesses\<close>

definition example_log :: audit_tables where
  "example_log =
    log_event 3 ''status_changed'' (Some 7) None (Some [(''status'', jstr ''submitted'')])
      (log_event 3 ''evaluation_created'' (Some 7) None None empty_log)"

lemma example_log_wf: "log_wf example_log"
  by (simp add: example_log_def log_event_wf)

theorem audit_tampering_detected_witness:
  "map row_text (log_by_id example_log) = map row_text (log_by_id example_log) \<or>
    collision_between (log_by_id example_log) (log_by_id example_log) \<or>
    hits_genesis (log_by_id example_log) \<or> hits_genesis (log_by_id example_log)"
  by (rule audit_tampering_detected [where r = "full_result example_log" and
      r' = "full_result example_log"])
    (simp_all add: verify_chain_full full_result_wf example_log_wf)

definition forged_log :: audit_tables where
  "forged_log = empty_log\<lparr>t_audit_log :=
    [\<lparr>log_id = 5, log_evaluation_record_id = None, actor_user_id = 1, event_type = ''login'',
      old_value = None, new_value = None, prev_hash = ''forged'', entry_hash = ''forged''\<rparr>]\<rparr>"

lemma forged_not_genesis: "''forged'' \<noteq> GENESIS_HASH"
proof
  assume "''forged'' = GENESIS_HASH"
  then have "length ''forged'' = length GENESIS_HASH" by (rule arg_cong)
  then show False by (simp add: GENESIS_HASH_def)
qed

lemma forged_log_by_id: "log_by_id forged_log = t_audit_log forged_log"
  by (simp add: log_by_id_def forged_log_def)

theorem audit_first_broken_row_witness:
  "\<exists>good bad rest. log_by_id forged_log = good @ bad # rest \<and> linked GENESIS_HASH good \<and>
    \<not> linked GENESIS_HASH (good @ [bad]) \<and>
    res_broken_at_id (full_result forged_log) = Some (log_id bad) \<and>
    res_checked (full_result forged_log) = length good + 1"
proof (rule audit_first_broken_row)
  show "verify_chain None False forged_log = Inr (full_result forged_log)"
    by (rule verify_chain_full)
  show "\<not> res_ok (full_result forged_log)"
    by (simp add: full_result_linked forged_log_by_id) (simp add: forged_log_def forged_not_genesis)
qed

theorem audit_anchor_then_quick_check_witness:
  "\<exists>r. verify_chain None True (write_all [(4, ''logout'', None, None, None)]
      (fst (record_full_verification 0 example_log))) = Inr r \<and> res_ok r \<and> res_checked r = 1"
proof -
  obtain db1 res advanced where r: "record_full_verification 0 example_log = (db1, res, advanced)"
    by (metis surj_pair)
  have "t_audit_log example_log \<noteq> []" by (simp add: example_log_def)
  from audit_anchor_then_quick_check
      [OF example_log_wf this r, of "[(4, ''logout'', None, None, None)]"]
  show ?thesis by (auto simp: r)
qed

end
