(* ===== verification/Chain.thy ===== *)
theory Chain
  imports Enums
begin

text \<open>
  The seats of an evaluation chain (\<open>app/models/chain.py\<close>): which seats there are, the role of
  their holder, which seat writes the scores and whether human resources finalizes the record.
  The source names a seat by its column; \<open>seat_field\<close> has one constructor for each column,
  \<open>Hr_user_id\<close> being the seat of the human-resources user who claimed the record.
\<close>

datatype seat_field =
  Unit_supervisor_user_id | Deputy_user_id | Ceo_user_id | Hr_user_id

fun field_name :: "seat_field \<Rightarrow> string" where
  "field_name Unit_supervisor_user_id = ''unit_supervisor_user_id''"
| "field_name Deputy_user_id = ''deputy_user_id''"
| "field_name Ceo_user_id = ''ceo_user_id''"
| "field_name Hr_user_id = ''hr_user_id''"

definition SEAT_ROLE :: "seat_field \<Rightarrow> user_role option" where
  "SEAT_ROLE =
    [Unit_supervisor_user_id \<mapsto> Role_unit_supervisor, Deputy_user_id \<mapsto> Role_deputy,
     Ceo_user_id \<mapsto> Role_ceo]"

definition SEAT_LABEL :: "seat_field \<Rightarrow> string option" where
  "SEAT_LABEL =
    [Unit_supervisor_user_id \<mapsto> ''supervisor'', Deputy_user_id \<mapsto> ''deputy'',
     Ceo_user_id \<mapsto> ''ceo'']"

definition SEAT_ORDER :: "seat_field list" where
  "SEAT_ORDER = [Unit_supervisor_user_id, Deputy_user_id, Ceo_user_id]"

definition HR_LABEL :: string where
  "HR_LABEL = ''hr''"

definition hr_finalizes :: "int option \<Rightarrow> int option \<Rightarrow> bool \<Rightarrow> bool" where
  "hr_finalizes unit_supervisor deputy skipped \<longleftrightarrow>
    unit_supervisor = None \<and> deputy = None \<and> \<not> skipped"

definition scorer_field :: "int option \<Rightarrow> int option \<Rightarrow> seat_field" where
  "scorer_field unit_supervisor deputy =
    (if unit_supervisor \<noteq> None then Unit_supervisor_user_id
     else if deputy \<noteq> None then Deputy_user_id
     else Ceo_user_id)"

lemma SEAT_ORDER_roles: "map SEAT_ROLE SEAT_ORDER = [Some Role_unit_supervisor, Some Role_deputy, Some Role_ceo]"
  by (simp add: SEAT_ORDER_def SEAT_ROLE_def)

lemma scorer_field_in_order: "scorer_field u d \<in> set SEAT_ORDER"
  by (simp add: scorer_field_def SEAT_ORDER_def)

lemma scorer_field_ceo_iff: "scorer_field u d = Ceo_user_id \<longleftrightarrow> u = None \<and> d = None"
  by (simp add: scorer_field_def)

lemma hr_finalizes_scorer: "hr_finalizes u d s \<Longrightarrow> scorer_field u d = Ceo_user_id"
  by (simp add: hr_finalizes_def scorer_field_def)

end
