(* ===== verification/Model.thy ===== *)
theory Model
  imports AuditLog Chain
begin

text \<open>
  The rows of the database (\<open>app/models/*.py\<close>) as records and the database as a record of tables,
  the settings (\<open>app/core/config.py\<close>) and what a request reads from outside: the clock and the
  storage of \<open>NUMERIC\<close> columns. Times are microseconds, dates are day numbers.
  A column that no modelled operation reads is left out.
\<close>

section \<open>People\<close>

record user =
  user_id :: int
  user_personnel_id :: "int option"
  username :: utext
  user_full_name :: "utext option"
  password_hash :: utext
  user_role :: user_role
  user_is_active :: bool
  must_change_password :: bool
  token_version :: int
  email :: "utext option"
  phone :: "utext option"
  notify_by_email :: bool
  notify_by_sms :: bool

record personnel =
  personnel_id :: int
  personnel_code :: utext
  personnel_full_name :: utext
  job_title :: utext
  is_manager :: bool
  org_unit :: utext
  contract_start_date :: int
  contract_end_date :: int
  p_status :: personnel_status
  separation_date :: "int option"
  p_separation_reason :: "separation_reason option"

record org_unit_row =
  unit_id :: int
  unit_site :: "utext option"
  unit_name :: utext
  unit_is_active :: bool
  is_hr_unit :: bool
  unit_display_order :: int

record evaluation_access =
  acc_id :: int
  acc_personnel_id :: int
  acc_unit_supervisor_user_id :: "int option"
  acc_deputy_user_id :: "int option"
  acc_ceo_user_id :: int
  acc_updated_by_user_id :: "int option"

section \<open>Evaluations\<close>

record evaluation_record =
  record_id :: int
  evaluation_code :: string
  verify_token :: "string option"
  subject_personnel_id :: int
  unit_supervisor_user_id :: "int option"
  deputy_user_id :: "int option"
  ceo_user_id :: int
  hr_user_id :: "int option"
  hr_review_skipped :: bool
  period_id :: "int option"
  scoring_scheme_id :: "int option"
  indicator_framework_id :: "int option"
  status :: evaluation_status
  base_weighted_pct :: "rat option"
  general_score_pct :: "rat option"
  specialized_score_pct :: "rat option"
  final_weighted_pct :: "rat option"
  recommendation :: "utext option"
  bonus_points :: "rat option"
  bonus_reason :: "utext option"
  evaluator_comment :: "utext option"
  final_snapshot :: "jdict option"
  created_at :: int
  stage_entered_at :: int
  finalized_at :: "int option"
  acknowledged_at :: "int option"
  acknowledged_by_user_id :: "int option"
  self_assessment_submitted_at :: "int option"
  self_assessment_note :: "utext option"
  self_assessment_invited_at :: "int option"
  self_assessment_invited_by_user_id :: "int option"
  submission_extended_until :: "int option"
  submission_extended_at :: "int option"
  submission_extended_by_user_id :: "int option"
  submission_extension_reason :: "utext option"
  objection_at :: "int option"
  objection_reason :: "utext option"
  objection_resolved_at :: "int option"
  objection_resolution :: "utext option"
  objection_resolved_by_user_id :: "int option"

fun seat :: "seat_field \<Rightarrow> evaluation_record \<Rightarrow> int option" where
  "seat Unit_supervisor_user_id r = unit_supervisor_user_id r"
| "seat Deputy_user_id r = deputy_user_id r"
| "seat Ceo_user_id r = Some (ceo_user_id r)"
| "seat Hr_user_id r = hr_user_id r"

definition scorer_user_id :: "evaluation_record \<Rightarrow> int option" where
  "scorer_user_id r = seat (scorer_field (unit_supervisor_user_id r) (deputy_user_id r)) r"

definition final_approver_user_id :: "evaluation_record \<Rightarrow> int option" where
  "final_approver_user_id r =
    (if hr_finalizes (unit_supervisor_user_id r) (deputy_user_id r) (hr_review_skipped r)
     then hr_user_id r else Some (ceo_user_id r))"

definition single_decider :: "evaluation_record \<Rightarrow> bool" where
  "single_decider r \<longleftrightarrow>
    scorer_user_id r \<noteq> None \<and> scorer_user_id r = final_approver_user_id r"

record evaluation_score =
  score_id :: int
  score_record_id :: int
  score_indicator_id :: int
  score :: int
  evidence_text :: "utext option"

record evaluation_comment =
  comment_id :: int
  comment_record_id :: int
  commenter_user_id :: int
  parent_comment_id :: "int option"
  comment_stage_at :: comment_stage
  comment_text :: utext
  comment_created_at :: int

record self_assessment_score =
  self_score_id :: int
  self_score_record_id :: int
  self_score_indicator_id :: int
  self_score :: int
  self_score_note :: "utext option"

section \<open>Rules\<close>

record indicator =
  indicator_id :: int
  ind_section :: indicator_section
  category :: utext
  indicator_description :: utext
  display_order :: int
  indicator_is_active :: bool

record indicator_framework =
  framework_id :: int
  framework_version :: int
  member_ids :: "int list"
  change_kind :: string
  change_note :: "utext option"
  framework_created_by_user_id :: "int option"

record scoring_scheme =
  scheme_id :: int
  scheme_version :: int
  scheme_name :: utext
  scheme_status :: scheme_status
  sch_general_section_weight :: rat
  sch_specialized_section_weight :: rat
  sch_evidence_required_scores :: "int list"
  sch_evidence_min_words :: int
  sch_evidence_max_words :: int
  sch_bonus_max_points :: rat
  sch_improvement_plan_max_pct :: rat
  sch_thresholds :: "(rat \<times> utext) list"
  sch_indicator_weights :: "(int \<times> rat) list"
  scheme_created_by_user_id :: "int option"
  activated_by_user_id :: "int option"
  activated_at :: "int option"
  retired_at :: "int option"

record evaluation_period =
  per_id :: int
  period_name :: utext
  starts_on :: int
  ends_on :: int
  period_status :: period_status
  period_created_by_user_id :: "int option"
  closed_at :: "int option"

section \<open>Notifications\<close>

record notification =
  notification_id :: int
  ntf_user_id :: int
  ntf_type :: string
  ntf_link :: "string option"
  ntf_record_id :: "int option"
  dedup_key :: "string option"
  ntf_created_at :: int
  read_at :: "int option"

record notification_delivery =
  delivery_id :: int
  dlv_notification_id :: int
  dlv_channel :: delivery_channel
  recipient :: utext
  dlv_status :: delivery_status
  attempts :: int
  last_attempt_at :: "int option"
  last_error :: "utext option"
  sent_at :: "int option"
  dlv_created_at :: int

section \<open>Improvement plans\<close>

record improvement_plan =
  plan_id :: int
  plan_evaluation_record_id :: int
  plan_personnel_id :: int
  plan_title :: utext
  plan_owner_user_id :: "int option"
  plan_status :: improvement_plan_status
  plan_review_date :: int
  plan_summary :: "utext option"
  plan_follow_up_evaluation_id :: "int option"
  plan_created_by_user_id :: "int option"
  plan_completed_at :: "int option"

record improvement_plan_goal =
  goal_id :: int
  goal_plan_id :: int
  goal_description :: utext
  goal_is_done :: bool
  goal_display_order :: int

section \<open>Sessions\<close>

record auth_session =
  session_id :: int
  session_user_id :: int
  jti :: string
  session_expires_at :: int
  rotated_at :: "int option"
  replaced_by_jti :: "string option"
  revoked_at :: "int option"
  session_user_agent :: "utext option"
  session_ip :: "utext option"
  last_used_at :: "int option"

record login_attempt =
  attempt_username :: utext
  failed_count :: int
  first_failed_at :: int
  last_failed_at :: int
  attempt_locked_until :: "int option"

section \<open>Pending actions of the assistant\<close>

record ai_conversation =
  conversation_id :: int
  conversation_user_id :: int
  conversation_title :: utext

record ai_pending_action =
  pending_id :: int
  pending_conversation_id :: int
  pending_user_id :: int
  pending_tool_name :: string
  pending_arguments :: jdict
  pending_status :: string
  pending_result_text :: utext
  pending_created_at :: int
  pending_decided_at :: "int option"
  pending_expires_at :: int

section \<open>Grants\<close>

record user_capability =
  cap_id :: int
  cap_user_id :: int
  cap_capability :: capability
  granted_by_user_id :: "int option"

record module_setting =
  module_key :: string
  module_enabled :: bool
  module_updated_by_user_id :: "int option"

section \<open>The database\<close>

text \<open>\<open>t_code_seq\<close> is the last value the sequence \<open>evaluation_code_seq\<close> gave.\<close>

record database = audit_tables +
  t_users :: "user list"
  t_personnel :: "personnel list"
  t_org_units :: "org_unit_row list"
  t_access :: "evaluation_access list"
  t_evaluations :: "evaluation_record list"
  t_scores :: "evaluation_score list"
  t_comments :: "evaluation_comment list"
  t_self_scores :: "self_assessment_score list"
  t_indicators :: "indicator list"
  t_frameworks :: "indicator_framework list"
  t_schemes :: "scoring_scheme list"
  t_periods :: "evaluation_period list"
  t_notifications :: "notification list"
  t_deliveries :: "notification_delivery list"
  t_capabilities :: "user_capability list"
  t_modules :: "module_setting list"
  t_plans :: "improvement_plan list"
  t_goals :: "improvement_plan_goal list"
  t_sessions :: "auth_session list"
  t_login_attempts :: "login_attempt list"
  t_conversations :: "ai_conversation list"
  t_pending_actions :: "ai_pending_action list"
  t_code_seq :: int

definition empty_database :: database where
  "empty_database =
    \<lparr>t_audit_log = [], t_chain_checks = [], t_users = [], t_personnel = [], t_org_units = [],
     t_access = [], t_evaluations = [], t_scores = [], t_comments = [], t_self_scores = [],
     t_indicators = [], t_frameworks = [], t_schemes = [], t_periods = [], t_notifications = [],
     t_deliveries = [], t_capabilities = [], t_modules = [], t_plans = [], t_goals = [], t_sessions = [],
     t_login_attempts = [], t_conversations = [], t_pending_actions = [], t_code_seq = 0\<rparr>"

definition get_user :: "database \<Rightarrow> int \<Rightarrow> user option" where
  "get_user db = row_get user_id (t_users db)"

definition get_personnel :: "database \<Rightarrow> int \<Rightarrow> personnel option" where
  "get_personnel db = row_get personnel_id (t_personnel db)"

definition put_user :: "user \<Rightarrow> database \<Rightarrow> database" where
  "put_user u db = db\<lparr>t_users := row_put user_id u (t_users db)\<rparr>"

definition add_user :: "user \<Rightarrow> database \<Rightarrow> database" where
  "add_user u db = db\<lparr>t_users := t_users db @ [u]\<rparr>"

definition put_personnel :: "personnel \<Rightarrow> database \<Rightarrow> database" where
  "put_personnel p db = db\<lparr>t_personnel := row_put personnel_id p (t_personnel db)\<rparr>"

definition add_personnel :: "personnel \<Rightarrow> database \<Rightarrow> database" where
  "add_personnel p db = db\<lparr>t_personnel := t_personnel db @ [p]\<rparr>"

definition get_evaluation :: "database \<Rightarrow> int \<Rightarrow> evaluation_record option" where
  "get_evaluation db = row_get record_id (t_evaluations db)"

definition put_evaluation :: "evaluation_record \<Rightarrow> database \<Rightarrow> database" where
  "put_evaluation r db = db\<lparr>t_evaluations := row_put record_id r (t_evaluations db)\<rparr>"

definition add_evaluation :: "evaluation_record \<Rightarrow> database \<Rightarrow> database" where
  "add_evaluation r db = db\<lparr>t_evaluations := t_evaluations db @ [r]\<rparr>"

definition get_scheme :: "database \<Rightarrow> int \<Rightarrow> scoring_scheme option" where
  "get_scheme db = row_get scheme_id (t_schemes db)"

definition put_scheme :: "scoring_scheme \<Rightarrow> database \<Rightarrow> database" where
  "put_scheme s db = db\<lparr>t_schemes := row_put scheme_id s (t_schemes db)\<rparr>"

definition add_scheme :: "scoring_scheme \<Rightarrow> database \<Rightarrow> database" where
  "add_scheme s db = db\<lparr>t_schemes := t_schemes db @ [s]\<rparr>"

definition scores_of :: "database \<Rightarrow> int \<Rightarrow> evaluation_score list" where
  "scores_of db k = filter (\<lambda>s. score_record_id s = k) (t_scores db)"

lemmas table_defs =
  get_user_def put_user_def add_user_def get_personnel_def put_personnel_def add_personnel_def
  get_evaluation_def put_evaluation_def add_evaluation_def
  get_scheme_def put_scheme_def add_scheme_def scores_of_def

text \<open>The tables that operations change satisfy the interface of a table.\<close>

interpretation evaluations: keyed_table record_id get_evaluation put_evaluation add_evaluation
  by unfold_locales
    (auto simp: table_defs row_get_put row_get_append dest: row_get_SomeD split: option.splits)

interpretation users: keyed_table user_id get_user put_user add_user
  by unfold_locales
    (auto simp: table_defs row_get_put row_get_append dest: row_get_SomeD split: option.splits)

interpretation people: keyed_table personnel_id get_personnel put_personnel add_personnel
  by unfold_locales
    (auto simp: table_defs row_get_put row_get_append dest: row_get_SomeD split: option.splits)

interpretation schemes: keyed_table scheme_id get_scheme put_scheme add_scheme
  by unfold_locales
    (auto simp: table_defs row_get_put row_get_append dest: row_get_SomeD split: option.splits)

text \<open>Writing to the log leaves the other tables alone.\<close>

lemma log_event_tables [simp]:
  fixes db :: database
  shows "t_users (log_event a e r old new db) = t_users db"
    "t_personnel (log_event a e r old new db) = t_personnel db"
    "t_org_units (log_event a e r old new db) = t_org_units db"
    "t_access (log_event a e r old new db) = t_access db"
    "t_evaluations (log_event a e r old new db) = t_evaluations db"
    "t_scores (log_event a e r old new db) = t_scores db"
    "t_comments (log_event a e r old new db) = t_comments db"
    "t_self_scores (log_event a e r old new db) = t_self_scores db"
    "t_indicators (log_event a e r old new db) = t_indicators db"
    "t_frameworks (log_event a e r old new db) = t_frameworks db"
    "t_schemes (log_event a e r old new db) = t_schemes db"
    "t_periods (log_event a e r old new db) = t_periods db"
    "t_notifications (log_event a e r old new db) = t_notifications db"
    "t_deliveries (log_event a e r old new db) = t_deliveries db"
    "t_capabilities (log_event a e r old new db) = t_capabilities db"
    "t_modules (log_event a e r old new db) = t_modules db"
    "t_plans (log_event a e r old new db) = t_plans db"
    "t_goals (log_event a e r old new db) = t_goals db"
    "t_sessions (log_event a e r old new db) = t_sessions db"
    "t_login_attempts (log_event a e r old new db) = t_login_attempts db"
    "t_conversations (log_event a e r old new db) = t_conversations db"
    "t_pending_actions (log_event a e r old new db) = t_pending_actions db"
    "t_code_seq (log_event a e r old new db) = t_code_seq db"
  by (simp_all add: log_event_logged_row)

lemma log_event_gets [simp]:
  "get_user (log_event a e r old new db) = get_user db"
  "get_personnel (log_event a e r old new db) = get_personnel db"
  "get_evaluation (log_event a e r old new db) = get_evaluation db"
  "get_scheme (log_event a e r old new db) = get_scheme db"
  "scores_of (log_event a e r old new db) = scores_of db"
  by (simp_all add: table_defs fun_eq_iff)

section \<open>The surroundings of a request\<close>

record settings =
  objection_window_days :: int
  ai_daily_message_limit :: int
  min_cohort_size :: int
  login_max_failed_attempts :: int
  login_lockout_minutes :: int
  login_attempt_window_minutes :: int
  session_retention_days :: int
  refresh_token_expire_days :: int
  contract_expiry_alert_days :: int
  sla_reminder_days :: int
  improvement_review_alert_days :: int
  notification_dedup_days :: int
  stage_stats_window_days :: int
  audit_full_verify_interval_hours :: int
  delivery_batch_size :: int
  delivery_max_attempts :: int
  delivery_retry_base_minutes :: int

definition default_settings :: settings where
  "default_settings =
    \<lparr>objection_window_days = 7, ai_daily_message_limit = 100, min_cohort_size = 5,
     login_max_failed_attempts = 5, login_lockout_minutes = 15, login_attempt_window_minutes = 15,
     session_retention_days = 30, refresh_token_expire_days = 7, contract_expiry_alert_days = 30,
     sla_reminder_days = 3, improvement_review_alert_days = 7, notification_dedup_days = 7,
     stage_stats_window_days = 1095, audit_full_verify_interval_hours = 24,
     delivery_batch_size = 50, delivery_max_attempts = 5, delivery_retry_base_minutes = 5\<rparr>"

text \<open>
  \<open>now\<close> is the reading of the clock in the request, \<open>today\<close> the date in the time zone of the
  organization, \<open>numeric_column n x\<close> what a column with \<open>n\<close> decimals gives back after \<open>x\<close>
  was stored (PostgreSQL's rounding, a parameter), \<open>channels_available\<close> the kinds of the channels
  that are configured for outgoing messages, \<open>fresh_token\<close> what \<open>secrets\<close> or \<open>uuid4\<close> draws in the
  request, \<open>collation\<close> the place that the collation of the database gives a text when it sorts by it.
\<close>

record env =
  now :: int
  today :: int
  cfg :: settings
  numeric_column :: "nat \<Rightarrow> rat \<Rightarrow> rat"
  channels_available :: "delivery_channel list"
  fresh_token :: string
  collation :: "utext \<Rightarrow> rat"

text \<open>Surroundings with the default settings, for examples.\<close>

definition plain_env :: env where
  "plain_env = \<lparr>now = 1000, today = 20000, cfg = default_settings, numeric_column = (\<lambda>n x. x),
     channels_available = [Email], fresh_token = ''token'',
     collation = (\<lambda>_. 0)\<rparr>"

definition seconds :: "int \<Rightarrow> int" where "seconds n = n * 1000000"
definition minutes :: "int \<Rightarrow> int" where "minutes n = n * 60000000"
definition hours :: "int \<Rightarrow> int" where "hours n = n * 3600000000"
definition days :: "int \<Rightarrow> int" where "days n = n * 86400000000"

text \<open>The user of a request, as the session resolves it.\<close>

record current_user =
  cu_id :: int
  cu_role :: user_role
  cu_personnel_id :: "int option"

end
