(* ===== verification/Authorization.thy ===== *)
theory Authorization
  imports Model
begin

text \<open>
  Who may call what: the modules an organization switches on (\<open>app/core/modules.py\<close>), the
  capabilities of a user and the module checks (\<open>app/services/authorization.py\<close>) and the
  dependencies of the endpoints (\<open>app/api/deps.py\<close>).
\<close>

section \<open>Modules\<close>

record module_def =
  mod_key :: string
  default_enabled :: bool
  mod_requires :: "string list"

definition SUBJECT_RESULT_MODULE :: string where
  "SUBJECT_RESULT_MODULE = ''employee_evaluation_visibility''"

definition MODULES :: "module_def list" where
  "MODULES =
    [\<lparr>mod_key = ''periods'', default_enabled = True, mod_requires = []\<rparr>,
     \<lparr>mod_key = ''improvement_plans'', default_enabled = True, mod_requires = []\<rparr>,
     \<lparr>mod_key = ''self_assessment'', default_enabled = True, mod_requires = []\<rparr>,
     \<lparr>mod_key = ''objections'', default_enabled = False,
      mod_requires = [''employee_evaluation_visibility'']\<rparr>,
     \<lparr>mod_key = ''employee_overview_cards'', default_enabled = False,
      mod_requires = [''employee_evaluation_visibility'']\<rparr>,
     \<lparr>mod_key = ''employee_evaluation_visibility'', default_enabled = False, mod_requires = []\<rparr>,
     \<lparr>mod_key = ''employee_result_acknowledgement'', default_enabled = False,
      mod_requires = [''employee_evaluation_visibility'']\<rparr>,
     \<lparr>mod_key = ''role_analytics'', default_enabled = True, mod_requires = []\<rparr>,
     \<lparr>mod_key = ''outbound_notifications'', default_enabled = True, mod_requires = []\<rparr>]"

definition module_by_key :: "string \<Rightarrow> module_def option" where
  "module_by_key k = find (\<lambda>m. mod_key m = k) MODULES"

definition dependents_of :: "string \<Rightarrow> string list" where
  "dependents_of k = map mod_key (filter (\<lambda>m. k \<in> set (mod_requires m)) MODULES)"

definition stored_states :: "database \<Rightarrow> string \<Rightarrow> bool option" where
  "stored_states db k =
    map_option module_enabled (find (\<lambda>row. module_key row = k) (t_modules db))"

text \<open>\<open>None\<close> is the \<open>KeyError\<close> for a key that is no module.\<close>

definition stored_module_state :: "database \<Rightarrow> string \<Rightarrow> bool option" where
  "stored_module_state db k =
    (case module_by_key k of
       None \<Rightarrow> None
     | Some m \<Rightarrow> Some (case stored_states db k of None \<Rightarrow> default_enabled m | Some b \<Rightarrow> b))"

definition unmet_requirements :: "database \<Rightarrow> string \<Rightarrow> string list option" where
  "unmet_requirements db k =
    map_option (\<lambda>m. filter (\<lambda>required. stored_module_state db required \<noteq> Some True) (mod_requires m))
      (module_by_key k)"

definition is_module_enabled :: "database \<Rightarrow> string \<Rightarrow> bool" where
  "is_module_enabled db k \<longleftrightarrow>
    stored_module_state db k = Some True \<and> unmet_requirements db k = Some []"

definition module_states :: "database \<Rightarrow> (string \<times> bool) list" where
  "module_states db =
    map (\<lambda>m. (mod_key m,
      case stored_states db (mod_key m) of None \<Rightarrow> default_enabled m | Some b \<Rightarrow> b)) MODULES"

definition subject_may_read_own_result :: "database \<Rightarrow> bool" where
  "subject_may_read_own_result db \<longleftrightarrow> is_module_enabled db SUBJECT_RESULT_MODULE"

definition ensure_subject_may_read_own_result :: "database \<Rightarrow> unit http" where
  "ensure_subject_may_read_own_result db =
    raise_if (\<not> subject_may_read_own_result db) (HTTPException 403 ''own result not shown'')"

definition ensure_module_enabled :: "database \<Rightarrow> string \<Rightarrow> unit http" where
  "ensure_module_enabled db k =
    (if is_module_enabled db k then Inr ()
     else let blockers = (if stored_module_state db k = Some True
                          then (case unmet_requirements db k of None \<Rightarrow> [] | Some bs \<Rightarrow> bs) else [])
          in if blockers \<noteq> [] then Inl (HTTPException 403 (''module blocked by '' @ concat blockers))
             else Inl (HTTPException 403 ''module switched off''))"

section \<open>Capabilities\<close>

definition DEFAULT_HR_CAPABILITIES :: "capability list" where
  "DEFAULT_HR_CAPABILITIES = [Manage_users, Manage_personnel, Manage_scoring]"

definition capabilities_of :: "database \<Rightarrow> int \<Rightarrow> capability set" where
  "capabilities_of db u =
    set (map cap_capability (filter (\<lambda>c. cap_user_id c = u) (t_capabilities db)))"

definition sees_all_personnel :: "user_role \<Rightarrow> capability set \<Rightarrow> bool" where
  "sees_all_personnel r caps \<longleftrightarrow> r = Role_hr \<or> Manage_personnel \<in> caps"

definition has_capability :: "database \<Rightarrow> int \<Rightarrow> capability \<Rightarrow> bool" where
  "has_capability db u c \<longleftrightarrow>
    find (\<lambda>row. cap_user_id row = u \<and> cap_capability row = c) (t_capabilities db) \<noteq> None"

definition apply_default_hr_capabilities :: "int \<Rightarrow> database \<Rightarrow> database" where
  "apply_default_hr_capabilities u db =
    (let kept = filter (\<lambda>row. cap_user_id row \<noteq> u) (t_capabilities db);
         k = next_id cap_id (t_capabilities db);
         granted = map2 (\<lambda>i c. \<lparr>cap_id = k + i, cap_user_id = u, cap_capability = c,
                        granted_by_user_id = None\<rparr>)
                     [0, 1, 2] DEFAULT_HR_CAPABILITIES
     in db\<lparr>t_capabilities := kept @ granted\<rparr>)"

section \<open>Dependencies of the endpoints\<close>

text \<open>
  The decoded token of a request is \<open>None\<close> when the credentials are missing or the signature or
  the expiry is wrong (the decoding is the JWT library's); its subject is \<open>None\<close> when it is no number.
\<close>

record token_payload =
  tok_type :: string
  tok_sub :: "int option"
  tok_tv :: "int option"
  tok_role :: string
  tok_jti :: "string option"

definition FORCED_PASSWORD_CHANGE_EXEMPT_PATHS :: "string list" where
  "FORCED_PASSWORD_CHANGE_EXEMPT_PATHS =
    [''/api/auth/change-password'', ''/api/auth/me'', ''/api/administration/my-permissions'']"

definition get_current_user ::
  "string \<Rightarrow> token_payload option \<Rightarrow> database \<Rightarrow> current_user http" where
  "get_current_user path decoded db =
    (let unauthorized = HTTPException 401 ''unauthorized''
     in bindE (or_raise decoded unauthorized) (\<lambda>payload.
        bindE (raise_if (tok_type payload \<noteq> ''access'') unauthorized) (\<lambda>_.
        bindE (or_raise (tok_sub payload) unauthorized) (\<lambda>sub.
        bindE (or_raise (get_user db sub) unauthorized) (\<lambda>user.
        bindE (raise_if (\<not> user_is_active user) unauthorized) (\<lambda>_.
        bindE (raise_if (tok_tv payload \<noteq> Some (token_version user)) unauthorized) (\<lambda>_.
        bindE (raise_if (must_change_password user \<and>
                  path \<notin> set FORCED_PASSWORD_CHANGE_EXEMPT_PATHS)
                 (HTTPException 403 ''password change required'')) (\<lambda>_.
        Inr \<lparr>cu_id = user_id user, cu_role = user_role user,
             cu_personnel_id = user_personnel_id user\<rparr>))))))))"

definition require_own_personnel :: "current_user \<Rightarrow> unit http" where
  "require_own_personnel u =
    bindE (raise_if (cu_role u = Role_support) (HTTPException 403 ''support has no own record''))
      (\<lambda>_. raise_if (cu_personnel_id u = None) (HTTPException 403 ''no personnel linked''))"

definition require_roles :: "user_role list \<Rightarrow> current_user \<Rightarrow> unit http" where
  "require_roles allowed u = raise_if (cu_role u \<notin> set allowed) (HTTPException 403 ''role'')"

definition require_capability :: "capability list \<Rightarrow> database \<Rightarrow> current_user \<Rightarrow> unit http" where
  "require_capability required db u =
    (let held = capabilities_of db (cu_id u);
         missing = filter (\<lambda>c. c \<notin> held) required
     in raise_if (missing \<noteq> []) (HTTPException 403 ''capability''))"

definition require_role_or_capability ::
  "user_role \<Rightarrow> capability \<Rightarrow> database \<Rightarrow> current_user \<Rightarrow> unit http" where
  "require_role_or_capability r c db u =
    (if cu_role u = r then Inr ()
     else if c \<in> capabilities_of db (cu_id u) then Inr ()
     else Inl (HTTPException 403 ''role or capability''))"

definition audit_log_reader :: "database \<Rightarrow> current_user \<Rightarrow> unit http" where
  "audit_log_reader db u =
    (let held = capabilities_of db (cu_id u)
     in if View_audit_log \<in> held \<or> View_diagnostics \<in> held then Inr ()
        else Inl (HTTPException 403 ''audit log''))"

section \<open>Lemmas\<close>

lemma has_capability_iff: "has_capability db u c \<longleftrightarrow> c \<in> capabilities_of db u"
  by (auto simp: has_capability_def capabilities_of_def find_None_iff)

lemma require_capability_iff:
  "require_capability required db u = Inr () \<longleftrightarrow> set required \<subseteq> capabilities_of db (cu_id u)"
  by (auto simp: require_capability_def Let_def filter_empty_conv)

lemma require_roles_iff [simp]: "require_roles allowed u = Inr x \<longleftrightarrow> cu_role u \<in> set allowed"
  by (simp add: require_roles_def)

lemma ensure_module_enabled_iff [simp]:
  "ensure_module_enabled db k = Inr x \<longleftrightarrow> is_module_enabled db k"
  by (simp add: ensure_module_enabled_def Let_def)

lemma module_by_key_in: "module_by_key k = Some m \<Longrightarrow> m \<in> set MODULES \<and> mod_key m = k"
  by (auto simp: module_by_key_def find_Some_iff)

lemma requirement_has_none:
  "list_all (\<lambda>m. list_all (\<lambda>r. case module_by_key r of
     None \<Rightarrow> False | Some n \<Rightarrow> mod_requires n = []) (mod_requires m)) MODULES"
  by (simp add: MODULES_def module_by_key_def)

text \<open>
  A module that is switched on has every module it builds on switched on as well: no call of
  \<open>is_module_enabled\<close> finds a module enabled while one of the modules it requires is not enabled,
  whatever the table of settings contains.
\<close>

theorem enabled_module_requirements_enabled:
  assumes "is_module_enabled db k" and "module_by_key k = Some m" and "r \<in> set (mod_requires m)"
  shows "is_module_enabled db r"
proof -
  have "m \<in> set MODULES" using assms(2) by (simp add: module_by_key_in)
  then obtain n where n: "module_by_key r = Some n" "mod_requires n = []"
    using requirement_has_none assms(3) by (fastforce simp: list_all_iff split: option.splits)
  have "stored_module_state db r = Some True"
    using assms by (auto simp: is_module_enabled_def unmet_requirements_def filter_empty_conv)
  then show ?thesis using n by (simp add: is_module_enabled_def unmet_requirements_def)
qed

theorem enabled_module_requirements_enabled_witness:
  "is_module_enabled (empty_database\<lparr>t_modules :=
      [\<lparr>module_key = ''objections'', module_enabled = True, module_updated_by_user_id = None\<rparr>,
       \<lparr>module_key = ''employee_evaluation_visibility'', module_enabled = True,
        module_updated_by_user_id = Some 1\<rparr>]\<rparr>) ''employee_evaluation_visibility''"
  by (rule enabled_module_requirements_enabled [where k = "''objections''" and
      m = "\<lparr>mod_key = ''objections'', default_enabled = False,
        mod_requires = [''employee_evaluation_visibility'']\<rparr>"])
    (simp_all add: is_module_enabled_def unmet_requirements_def stored_module_state_def
      stored_states_def module_by_key_def MODULES_def)

end
