(* ===== verification/Scheme.thy ===== *)
theory Scheme
  imports Authorization
begin

text \<open>
  The scoring rules: \<open>Rules\<close> and the scoring schemes of \<open>app/services/scoring_scheme.py\<close>, the
  validation of a scheme (\<open>app/schemas/scoring_scheme.py\<close>) and the endpoints that draft, activate
  and delete one (\<open>app/api/routers/scoring_schemes.py\<close>).
\<close>

section \<open>Rules\<close>

record rules =
  general_section_weight :: rat
  specialized_section_weight :: rat
  evidence_required_scores :: "int list"
  evidence_min_words :: int
  evidence_max_words :: int
  thresholds :: "(rat \<times> utext) list"
  indicator_weights :: "int \<Rightarrow> rat option"
  rules_version :: "int option"
  bonus_max_points :: rat
  improvement_plan_max_pct :: rat

definition weight_for :: "rules \<Rightarrow> int \<Rightarrow> rat" where
  "weight_for rules i = (case indicator_weights rules i of None \<Rightarrow> 1 | Some w \<Rightarrow> w)"

text \<open>\<open>None\<close> is the \<open>IndexError\<close> of \<open>thresholds[-1]\<close> on an empty tuple.\<close>

definition recommendation_for :: "rules \<Rightarrow> rat \<Rightarrow> utext option" where
  "recommendation_for rules final_pct =
    (case find (\<lambda>(upper_exclusive, label). final_pct < upper_exclusive) (thresholds rules) of
       Some (_, label) \<Rightarrow> Some label
     | None \<Rightarrow> if thresholds rules = [] then None else Some (snd (last (thresholds rules))))"

definition GENERAL_SECTION_WEIGHT :: rat where "GENERAL_SECTION_WEIGHT = fl (6/10)"
definition SPECIALIZED_SECTION_WEIGHT :: rat where "SPECIALIZED_SECTION_WEIGHT = fl (4/10)"
definition EVIDENCE_REQUIRED_SCORES :: "int list" where "EVIDENCE_REQUIRED_SCORES = [1, 5]"
definition EVIDENCE_REQUIRED_MIN_WORDS :: int where "EVIDENCE_REQUIRED_MIN_WORDS = 3"
definition EVIDENCE_MAX_WORDS :: int where "EVIDENCE_MAX_WORDS = 40"
definition BONUS_MAX_POINTS :: rat where "BONUS_MAX_POINTS = 5"

definition FINAL_RESULT_THRESHOLDS :: "(rat \<times> utext) list" where
  "FINAL_RESULT_THRESHOLDS =
    [(60, ascii ''no renewal''), (75, ascii ''conditional renewal''),
     (90, ascii ''standard renewal''), (101, ascii ''renewal with promotion'')]"

definition IMPROVEMENT_PLAN_MAX_PCT :: rat where
  "IMPROVEMENT_PLAN_MAX_PCT = fst (FINAL_RESULT_THRESHOLDS ! 1)"

definition LEGACY_RULES :: rules where
  "LEGACY_RULES =
    \<lparr>general_section_weight = GENERAL_SECTION_WEIGHT,
     specialized_section_weight = SPECIALIZED_SECTION_WEIGHT,
     evidence_required_scores = EVIDENCE_REQUIRED_SCORES,
     evidence_min_words = EVIDENCE_REQUIRED_MIN_WORDS,
     evidence_max_words = EVIDENCE_MAX_WORDS,
     thresholds = FINAL_RESULT_THRESHOLDS, indicator_weights = (\<lambda>_. None), rules_version = None,
     bonus_max_points = BONUS_MAX_POINTS, improvement_plan_max_pct = IMPROVEMENT_PLAN_MAX_PCT\<rparr>"

definition rules_from :: "scoring_scheme \<Rightarrow> rules" where
  "rules_from s =
    \<lparr>general_section_weight = sch_general_section_weight s,
     specialized_section_weight = sch_specialized_section_weight s,
     evidence_required_scores = sch_evidence_required_scores s,
     evidence_min_words = sch_evidence_min_words s,
     evidence_max_words = sch_evidence_max_words s,
     thresholds = sch_thresholds s, indicator_weights = map_of (sch_indicator_weights s),
     rules_version = Some (scheme_version s), bonus_max_points = sch_bonus_max_points s,
     improvement_plan_max_pct = sch_improvement_plan_max_pct s\<rparr>"

definition active_scheme :: "database \<Rightarrow> scoring_scheme option" where
  "active_scheme db = find (\<lambda>s. scheme_status s = Scheme_active) (t_schemes db)"

definition current_rules :: "database \<Rightarrow> rules" where
  "current_rules db =
    (case active_scheme db of Some s \<Rightarrow> rules_from s | None \<Rightarrow> LEGACY_RULES)"

definition rules_for_record :: "database \<Rightarrow> evaluation_record \<Rightarrow> rules" where
  "rules_for_record db r =
    (case scoring_scheme_id r of
       Some k \<Rightarrow> (case get_scheme db k of Some s \<Rightarrow> rules_from s | None \<Rightarrow> current_rules db)
     | None \<Rightarrow> current_rules db)"

definition next_version :: "database \<Rightarrow> int" where
  "next_version db =
    (case t_schemes db of [] \<Rightarrow> 0 | s # ss \<Rightarrow> fold (\<lambda>x m. max m (scheme_version x)) ss (scheme_version s)) + 1"

section \<open>Validation of a scheme\<close>

record scheme_input =
  in_name :: utext
  in_general_section_weight :: rat
  in_specialized_section_weight :: rat
  in_evidence_required_scores :: "int list"
  in_evidence_min_words :: int
  in_evidence_max_words :: int
  in_bonus_max_points :: rat
  in_improvement_plan_max_pct :: rat
  in_thresholds :: "(rat \<times> utext) list"
  in_indicator_weights :: "(int \<times> rat) list"

definition MAX_THRESHOLDS :: nat where "MAX_THRESHOLDS = 8"

definition threshold_band_ok :: "rat \<times> utext \<Rightarrow> bool" where
  "threshold_band_ok band =
    (let (upper_exclusive, label) = band
     in 0 < upper_exclusive \<and> upper_exclusive \<le> 1000 \<and>
        1 \<le> length (strip label) \<and> length (strip label) \<le> 200)"

definition scheme_fields_ok :: "scheme_input \<Rightarrow> bool" where
  "scheme_fields_ok p \<longleftrightarrow>
    1 \<le> length (strip (in_name p)) \<and> length (strip (in_name p)) \<le> 200 \<and>
    0 \<le> in_general_section_weight p \<and> in_general_section_weight p \<le> 1 \<and>
    0 \<le> in_specialized_section_weight p \<and> in_specialized_section_weight p \<le> 1 \<and>
    0 \<le> in_evidence_min_words p \<and> in_evidence_min_words p \<le> 200 \<and>
    1 \<le> in_evidence_max_words p \<and> in_evidence_max_words p \<le> 1000 \<and>
    0 \<le> in_bonus_max_points p \<and> in_bonus_max_points p \<le> 20 \<and>
    0 \<le> in_improvement_plan_max_pct p \<and> in_improvement_plan_max_pct p \<le> 100 \<and>
    1 \<le> length (in_thresholds p) \<and> length (in_thresholds p) \<le> MAX_THRESHOLDS \<and>
    list_all threshold_band_ok (in_thresholds p)"

definition check_scheme :: "scheme_input \<Rightarrow> string + unit" where
  "check_scheme p =
    (let total = py_round (fadd (in_general_section_weight p) (in_specialized_section_weight p)) 6;
         uppers = map fst (in_thresholds p)
     in bindE (raise_if (total \<noteq> 1) ''weights must sum to 1'') (\<lambda>_.
        bindE (raise_if (\<exists>score \<in> set (in_evidence_required_scores p). score < 1 \<or> 5 < score)
                 ''evidence score out of range'') (\<lambda>_.
        bindE (raise_if (card (set (in_evidence_required_scores p))
                  \<noteq> length (in_evidence_required_scores p)) ''evidence score repeated'') (\<lambda>_.
        bindE (raise_if (in_evidence_max_words p < in_evidence_min_words p)
                 ''minimum above maximum'') (\<lambda>_.
        bindE (raise_if (uppers \<noteq> sort uppers \<or> card (set uppers) \<noteq> length uppers)
                 ''bands not ascending'') (\<lambda>_.
        bindE (raise_if (last uppers \<le> 100) ''bands do not cover 100'') (\<lambda>_.
        raise_if (\<exists>weight \<in> set (map snd (in_indicator_weights p)). weight \<le> 0)
          ''weight not positive'')))))))"

text \<open>
  \<open>SchemeInput(...)\<close>: the fields are checked and stripped first, the validator runs after them.
\<close>

definition SchemeInput :: "scheme_input \<Rightarrow> string + scheme_input" where
  "SchemeInput p =
    bindE (raise_if (\<not> scheme_fields_ok p) ''field'') (\<lambda>_.
    bindE (check_scheme p) (\<lambda>_.
    Inr (p\<lparr>in_name := strip (in_name p),
           in_thresholds := map (\<lambda>(u, l). (u, strip l)) (in_thresholds p)\<rparr>)))"

definition rules_from_input :: "scheme_input \<Rightarrow> rules" where
  "rules_from_input p =
    \<lparr>general_section_weight = in_general_section_weight p,
     specialized_section_weight = in_specialized_section_weight p,
     evidence_required_scores = in_evidence_required_scores p,
     evidence_min_words = in_evidence_min_words p,
     evidence_max_words = in_evidence_max_words p,
     thresholds = in_thresholds p, indicator_weights = map_of (in_indicator_weights p),
     rules_version = None, bonus_max_points = in_bonus_max_points p,
     improvement_plan_max_pct = in_improvement_plan_max_pct p\<rparr>"

definition input_of_scheme :: "scoring_scheme \<Rightarrow> scheme_input" where
  "input_of_scheme s =
    \<lparr>in_name = scheme_name s,
     in_general_section_weight = sch_general_section_weight s,
     in_specialized_section_weight = sch_specialized_section_weight s,
     in_evidence_required_scores = sch_evidence_required_scores s,
     in_evidence_min_words = sch_evidence_min_words s,
     in_evidence_max_words = sch_evidence_max_words s,
     in_bonus_max_points = sch_bonus_max_points s,
     in_improvement_plan_max_pct = sch_improvement_plan_max_pct s,
     in_thresholds = sch_thresholds s, in_indicator_weights = sch_indicator_weights s\<rparr>"

definition ensure_scheme_is_valid :: "scoring_scheme \<Rightarrow> unit http" where
  "ensure_scheme_is_valid s =
    (case SchemeInput (input_of_scheme s) of
       Inl e \<Rightarrow> Inl (HTTPException 400 (''scheme: '' @ e))
     | Inr _ \<Rightarrow> Inr ())"

section \<open>The endpoints\<close>

definition activate :: "env \<Rightarrow> database \<Rightarrow> scoring_scheme \<Rightarrow> int \<Rightarrow> database http" where
  "activate env db scheme actor =
    bindE (raise_if (scheme_status scheme \<noteq> Scheme_draft) (HTTPException 400 ''only a draft''))
     (\<lambda>_.
    bindE (raise_if (scheme_created_by_user_id scheme = Some actor)
             (HTTPException 403 ''activated by its author'')) (\<lambda>_.
    bindE (ensure_scheme_is_valid scheme) (\<lambda>_.
      (let db1 = (case active_scheme db of
                    Some previous \<Rightarrow>
                      put_scheme (previous\<lparr>scheme_status := Scheme_retired,
                                            retired_at := Some (now env)\<rparr>) db
                  | None \<Rightarrow> db)
       in Inr (put_scheme (scheme\<lparr>scheme_status := Scheme_active,
                 activated_at := Some (now env), activated_by_user_id := Some actor\<rparr>) db1)))))"

definition create_scheme ::
  "env \<Rightarrow> database \<Rightarrow> current_user \<Rightarrow> scheme_input \<Rightarrow> (database \<times> int) http" where
  "create_scheme env db user payload =
    bindE (require_capability [Manage_scoring] db user) (\<lambda>_.
     case SchemeInput payload of
       Inl e \<Rightarrow> Inl (HTTPException 422 e)
     | Inr p \<Rightarrow>
        (let col = numeric_column env;
             k = next_id scheme_id (t_schemes db);
             scheme = \<lparr>scheme_id = k, scheme_version = next_version db, scheme_name = in_name p,
               scheme_status = Scheme_draft,
               sch_general_section_weight = col 3 (in_general_section_weight p),
               sch_specialized_section_weight = col 3 (in_specialized_section_weight p),
               sch_evidence_required_scores = in_evidence_required_scores p,
               sch_evidence_min_words = in_evidence_min_words p,
               sch_evidence_max_words = in_evidence_max_words p,
               sch_bonus_max_points = col 2 (in_bonus_max_points p),
               sch_improvement_plan_max_pct = col 2 (in_improvement_plan_max_pct p),
               sch_thresholds = in_thresholds p, sch_indicator_weights = in_indicator_weights p,
               scheme_created_by_user_id = Some (cu_id user), activated_by_user_id = None,
               activated_at = None, retired_at = None\<rparr>
         in Inr (log_event (cu_id user) ''scoring_scheme_drafted'' None None
                   (Some [(''version'', JInt (scheme_version scheme)),
                          (''name'', JString (scheme_name scheme))])
                   (add_scheme scheme db), k)))"

definition activate_scheme :: "env \<Rightarrow> database \<Rightarrow> current_user \<Rightarrow> int \<Rightarrow> database http" where
  "activate_scheme env db user k =
    bindE (require_capability [Manage_scoring] db user) (\<lambda>_.
    bindE (or_raise (get_scheme db k) (HTTPException 404 ''no such scheme'')) (\<lambda>scheme.
      (let previous = active_scheme db
       in bindE (activate env db scheme (cu_id user)) (\<lambda>db1.
          Inr (log_event (cu_id user) ''scoring_scheme_activated'' None
                 (map_option (\<lambda>p. [(''version'', JInt (scheme_version p))]) previous)
                 (Some [(''version'', JInt (scheme_version scheme)),
                        (''name'', JString (scheme_name scheme)),
                        (''drafted_by_user_id'', jopt JInt (scheme_created_by_user_id scheme))])
                 db1)))))"

definition delete_draft :: "database \<Rightarrow> current_user \<Rightarrow> int \<Rightarrow> database http" where
  "delete_draft db user k =
    bindE (require_capability [Manage_scoring] db user) (\<lambda>_.
    bindE (or_raise (get_scheme db k) (HTTPException 404 ''no such scheme'')) (\<lambda>scheme.
    bindE (raise_if (scheme_status scheme \<noteq> Scheme_draft)
             (HTTPException 400 ''only a draft can be deleted'')) (\<lambda>_.
      (let db1 = log_event (cu_id user) ''scoring_scheme_draft_deleted'' None
                   (Some [(''version'', JInt (scheme_version scheme)),
                          (''name'', JString (scheme_name scheme))]) None db
       in Inr (db1\<lparr>t_schemes := filter (\<lambda>s. scheme_id s \<noteq> k) (t_schemes db1)\<rparr>)))))"

end
