(* ===== verification/Scoring.thy ===== *)
theory Scoring
  imports Scheme
begin

text \<open>
  The computations of \<open>app/services/evaluation.py\<close>: the validation of evidence and of bonus points,
  the bonus that is applied, and the result of a score sheet in the floating-point arithmetic of
  the source (every sum, product, quotient and \<open>round\<close> in the order of the code).
\<close>

section \<open>Score sheets\<close>

record score_row =
  row_indicator_id :: int
  row_score :: int
  row_evidence :: "utext option"

text \<open>
  The validation of evidence collects, over all rows, the rows with too little evidence and the
  rows with too much; the texts of the exception are built from the label and the count.
\<close>

definition indicator_label :: "(int \<Rightarrow> indicator option) \<Rightarrow> int \<Rightarrow> utext" where
  "indicator_label indicators_by_id i =
    (case indicators_by_id i of Some ind \<Rightarrow> category ind | None \<Rightarrow> ascii (''indicator '' @ str_int i))"

definition evidence_violations ::
  "score_row list \<Rightarrow> (int \<Rightarrow> indicator option) \<Rightarrow> rules \<Rightarrow> (utext \<times> nat) list" where
  "evidence_violations scores indicators_by_id rules =
    map (\<lambda>row. (indicator_label indicators_by_id (row_indicator_id row), word_count (row_evidence row)))
      (filter (\<lambda>row. row_score row \<in> set (evidence_required_scores rules) \<and>
                 int (word_count (row_evidence row)) < evidence_min_words rules) scores)"

definition evidence_too_long ::
  "score_row list \<Rightarrow> (int \<Rightarrow> indicator option) \<Rightarrow> rules \<Rightarrow> (utext \<times> nat) list" where
  "evidence_too_long scores indicators_by_id rules =
    map (\<lambda>row. (indicator_label indicators_by_id (row_indicator_id row), word_count (row_evidence row)))
      (filter (\<lambda>row. evidence_max_words rules < int (word_count (row_evidence row))) scores)"

definition validate_evidence ::
  "score_row list \<Rightarrow> (int \<Rightarrow> indicator option) \<Rightarrow> rules \<Rightarrow>
    ((utext \<times> nat) list \<times> (utext \<times> nat) list) + unit" where
  "validate_evidence scores indicators_by_id rules =
    (let violations = evidence_violations scores indicators_by_id rules;
         too_long = evidence_too_long scores indicators_by_id rules
     in if violations \<noteq> [] \<or> too_long \<noteq> [] then Inl (violations, too_long) else Inr ())"

definition validate_bonus :: "rat \<Rightarrow> utext option \<Rightarrow> rules \<Rightarrow> string + unit" where
  "validate_bonus points reason_given rules =
    bindE (raise_if (points < 0) ''negative bonus'') (\<lambda>_.
    bindE (raise_if (0 < points \<and> bonus_max_points rules \<le> 0) ''bonus switched off'') (\<lambda>_.
    bindE (raise_if (bonus_max_points rules < points) ''bonus above the maximum'') (\<lambda>_.
      (let reason = strip (case reason_given of None \<Rightarrow> [] | Some t \<Rightarrow> t)
       in raise_if (0 < points \<and> length reason < BONUS_REASON_MIN) ''bonus needs a reason''))))"

definition applied_bonus :: "rat option \<Rightarrow> rules \<Rightarrow> rat \<Rightarrow> rat" where
  "applied_bonus raw rules base_pct =
    py_round (max 0 (min (min (case raw of None \<Rightarrow> 0 | Some b \<Rightarrow> b) (bonus_max_points rules))
                         (fsub 100 base_pct))) 2"

section \<open>The result\<close>

record section_sums =
  general_sum :: rat
  general_max :: rat
  specialized_sum :: rat
  specialized_max :: rat

definition no_sums :: section_sums where
  "no_sums = \<lparr>general_sum = 0, general_max = 0, specialized_sum = 0, specialized_max = 0\<rparr>"

definition add_row :: "rules \<Rightarrow> indicator \<Rightarrow> section_sums \<Rightarrow> score_row \<Rightarrow> section_sums" where
  "add_row rules ind s row =
    (let weight = weight_for rules (row_indicator_id row)
     in if ind_section ind = General
        then s\<lparr>general_sum := fadd (general_sum s) (fmul (of_int (row_score row)) weight),
               general_max := fadd (general_max s) (fmul 5 weight)\<rparr>
        else s\<lparr>specialized_sum := fadd (specialized_sum s) (fmul (of_int (row_score row)) weight),
               specialized_max := fadd (specialized_max s) (fmul 5 weight)\<rparr>)"

text \<open>\<open>None\<close> is the \<open>KeyError\<close> for a row whose indicator is not in the dictionary.\<close>

fun add_rows ::
  "(int \<Rightarrow> indicator option) \<Rightarrow> rules \<Rightarrow> section_sums \<Rightarrow> score_row list \<Rightarrow> section_sums option" where
  "add_rows indicators_by_id rules s [] = Some s"
| "add_rows indicators_by_id rules s (row # rows) =
    (case indicators_by_id (row_indicator_id row) of
       None \<Rightarrow> None
     | Some ind \<Rightarrow> add_rows indicators_by_id rules (add_row rules ind s row) rows)"

definition section_pct :: "rat \<Rightarrow> rat \<Rightarrow> rat" where
  "section_pct points maximum =
    (if maximum \<noteq> 0 then py_round (fmul (fdiv points maximum) 100) 1 else 0)"

definition fsum :: "rat list \<Rightarrow> rat" where
  "fsum xs = foldl fadd 0 xs"

definition base_pct_of :: "rules \<Rightarrow> section_sums \<Rightarrow> rat" where
  "base_pct_of rules s =
    (let sections =
           [(section_pct (general_sum s) (general_max s), general_section_weight rules, general_max s),
            (section_pct (specialized_sum s) (specialized_max s), specialized_section_weight rules,
             specialized_max s)];
         present = map (\<lambda>(pct, weight, _). (pct, weight)) (filter (\<lambda>(_, _, maximum). maximum \<noteq> 0) sections);
         weight_sum = fsum (map snd present)
     in if present = [] then 0
        else if 0 < weight_sum
        then py_round (fdiv (fsum (map (\<lambda>(pct, weight). fmul pct weight) present)) weight_sum) 1
        else py_round (fdiv (fsum (map fst present)) (of_nat (length present))) 1)"

record evaluation_result =
  res_general_score_pct :: rat
  res_specialized_score_pct :: rat
  res_base_weighted_pct :: rat
  res_bonus_points :: rat
  res_final_weighted_pct :: rat
  res_recommendation :: utext
  res_scheme_version :: "int option"

definition compute_result ::
  "score_row list \<Rightarrow> (int \<Rightarrow> indicator option) \<Rightarrow> rules \<Rightarrow> rat \<Rightarrow> evaluation_result option" where
  "compute_result scores indicators_by_id rules points =
    (case add_rows indicators_by_id rules no_sums scores of
       None \<Rightarrow> None
     | Some s \<Rightarrow>
        (let base_pct = base_pct_of rules s;
             applied = applied_bonus (Some points) rules base_pct;
             final_pct = py_round (fadd base_pct applied) 1
         in case recommendation_for rules final_pct of
              None \<Rightarrow> None
            | Some label \<Rightarrow>
                Some \<lparr>res_general_score_pct = section_pct (general_sum s) (general_max s),
                  res_specialized_score_pct = section_pct (specialized_sum s) (specialized_max s),
                  res_base_weighted_pct = base_pct, res_bonus_points = applied,
                  res_final_weighted_pct = final_pct, res_recommendation = label,
                  res_scheme_version = rules_version rules\<rparr>))"

section \<open>Arithmetic of percentages\<close>

lemma fl_upper:
  assumes "x = 0 \<or> 1 / 1000000 \<le> x"
  shows "fl x \<le> x * (1 + 1 / 1000000)"
proof (cases "x = 0")
  case False
  then have x: "1 / 1000000 \<le> x" using assms by simp
  have "(2 :: rat) powi (- 1022) \<le> 2 powi (- 20)" by (rule powi_mono_exp) simp
  also have "\<dots> \<le> 1 / 1000000" by (simp add: power_int_def power_one_over)
  finally have "\<bar>fl x - x\<bar> \<le> \<bar>x\<bar> * 2 powi (- 53)" using x by (intro fl_error_relative) simp
  moreover have "(2 :: rat) powi (- 53) \<le> 2 powi (- 20)" by (rule powi_mono_exp) simp
  moreover have "(2 :: rat) powi (- 20) \<le> 1 / 1000000" by (simp add: power_int_def power_one_over)
  ultimately have "\<bar>fl x - x\<bar> \<le> x * (1 / 1000000)"
    using x by (intro order_trans [OF _ mult_left_mono [of "2 powi (- 53)" "1 / 1000000" x]]) auto
  then show ?thesis unfolding abs_le_iff by (simp add: algebra_simps)
qed simp

lemma fl_lower:
  assumes "1 / 1000000 \<le> x"
  shows "x * (1 - 1 / 1000000) \<le> fl x"
proof -
  have "(2 :: rat) powi (- 1022) \<le> 2 powi (- 20)" by (rule powi_mono_exp) simp
  also have "\<dots> \<le> 1 / 1000000" by (simp add: power_int_def power_one_over)
  finally have "\<bar>fl x - x\<bar> \<le> \<bar>x\<bar> * 2 powi (- 53)" using assms by (intro fl_error_relative) simp
  moreover have "(2 :: rat) powi (- 53) \<le> 2 powi (- 20)" by (rule powi_mono_exp) simp
  moreover have "(2 :: rat) powi (- 20) \<le> 1 / 1000000" by (simp add: power_int_def power_one_over)
  ultimately have "\<bar>fl x - x\<bar> \<le> x * (1 / 1000000)"
    using assms by (intro order_trans [OF _ mult_left_mono [of "2 powi (- 53)" "1 / 1000000" x]]) auto
  then show ?thesis unfolding abs_le_iff by (simp add: algebra_simps)
qed

text \<open>Values with one decimal, as \<open>round(..., 1)\<close> gives them.\<close>

lemma fl_tenth_error:
  assumes "\<bar>k\<bar> \<le> 10000"
  shows "\<bar>fl (of_int k / 10) - of_int k / 10\<bar> \<le> 1 / 8796093022208"
proof (rule fl_error_small)
  have "\<bar>of_int k :: rat\<bar> \<le> of_int 10000" using assms by (simp only: of_int_abs [symmetric] of_int_le_iff)
  then show "\<bar>of_int k / 10 :: rat\<bar> < 1024" by simp
qed

lemma rhe_tenth:
  assumes "\<bar>k\<bar> \<le> 10000" and "\<bar>x - of_int k / 10\<bar> \<le> 1 / 1000"
  shows "py_round x 1 = fl (of_int k / 10)"
proof -
  have "\<bar>x * 10 - of_int k\<bar> < 1 / 2" using assms(2) by linarith
  then have "rhe (x * 10) = k" by (rule rhe_nearest)
  then show ?thesis by (simp add: py_round_def)
qed

lemma py_round_tenth: "\<bar>k\<bar> \<le> 10000 \<Longrightarrow> py_round (fl (of_int k / 10)) 1 = fl (of_int k / 10)"
  using fl_tenth_error [of k] by (intro rhe_tenth) (simp_all add: abs_le_iff)

definition one_decimal :: "rat \<Rightarrow> bool" where
  "one_decimal x \<longleftrightarrow> (\<exists>k. 0 \<le> k \<and> k \<le> 1000 \<and> x = fl (of_int k / 10))"

lemma one_decimal_py_round:
  assumes "0 \<le> py_round x 1" and "py_round x 1 \<le> 100"
  shows "one_decimal (py_round x 1)"
proof -
  define k where "k = rhe (x * 10)"
  have eq: "py_round x 1 = fl (of_int k / 10)" by (simp add: py_round_def k_def)
  have "0 \<le> k"
  proof (rule ccontr)
    assume "\<not> 0 \<le> k"
    then have "(of_int k :: rat) \<le> of_int (- 1)" by (simp only: of_int_le_iff)
    then have "fl (of_int k / 10) \<le> fl (of_int (- 1) / 10)" by (intro fl_mono) simp
    also have "fl (of_int (- 1) / 10) < 0"
      using fl_tenth_error [of "- 1"] by (simp only: of_int_minus of_int_1) linarith
    finally show False using assms(1) eq by simp
  qed
  moreover have "k \<le> 1000"
  proof (rule ccontr)
    assume "\<not> k \<le> 1000"
    then have "(of_int 1001 :: rat) \<le> of_int k" by (simp only: of_int_le_iff)
    then have "fl (of_int 1001 / 10) \<le> fl (of_int k / 10)" by (intro fl_mono) simp
    moreover have "100 < fl (of_int 1001 / 10)" using fl_tenth_error [of 1001] unfolding abs_le_iff by simp
    ultimately show False using assms(2) eq by simp
  qed
  ultimately show ?thesis using eq by (auto simp: one_decimal_def)
qed

lemma one_decimal_bounds:
  assumes "one_decimal x"
  shows "0 \<le> x" and "x \<le> 100" and "py_round x 1 = x" and "fl x = x"
proof -
  obtain k where k: "0 \<le> k" "k \<le> 1000" "x = fl (of_int k / 10)"
    using assms by (auto simp: one_decimal_def)
  have "(0 :: rat) \<le> of_int k" using k(1) by simp
  then show "0 \<le> x" using k(3) by (simp add: fl_nonneg)
  have "(of_int k :: rat) \<le> of_int 1000" using k(2) by (simp only: of_int_le_iff)
  then have "fl (of_int k / 10) \<le> fl 100" by (intro fl_mono) simp
  then show "x \<le> 100" using k(3) by simp
  show "py_round x 1 = x" unfolding k(3) using k(1,2) by (intro py_round_tenth) simp
  show "fl x = x" using k(3) by simp
qed

lemma one_decimal_0 [simp]: "one_decimal 0"
  unfolding one_decimal_def by (rule exI [of _ 0]) simp

text \<open>The part of the bonus that the cap of 100 lets through.\<close>

lemma room_error:
  assumes "one_decimal b"
  shows "\<bar>fsub 100 b - (100 - b)\<bar> \<le> 1 / 8796093022208"
  unfolding fsub_def using one_decimal_bounds [OF assms] by (intro fl_error_small) simp

lemma capped_sum:
  assumes "one_decimal b"
  shows "py_round (fadd b (py_round (fsub 100 b) 2)) 1 = 100"
proof -
  obtain k where k: "0 \<le> k" "k \<le> 1000" "b = fl (of_int k / 10)"
    using assms by (auto simp: one_decimal_def)
  have b: "\<bar>b - of_int k / 10\<bar> \<le> 1 / 8796093022208"
    unfolding k(3) using k(1,2) by (intro fl_tenth_error) simp
  define j where "j = 1000 - k"
  have j: "(of_int j :: rat) = 1000 - of_int k" by (simp add: j_def)
  have "\<bar>fsub 100 b * 100 - of_int (10 * j)\<bar> < 1 / 2"
    unfolding of_int_mult j abs_less_iff using room_error [OF assms] b unfolding abs_le_iff by simp
  then have "rhe (fsub 100 b * 10 ^ 2) = 10 * j" by (intro rhe_nearest) simp
  then have a: "py_round (fsub 100 b) 2 = fl (of_int j / 10)" by (simp add: py_round_def)
  have "\<bar>fl (of_int j / 10) - of_int j / 10\<bar> \<le> 1 / 8796093022208"
    using k(1,2) by (intro fl_tenth_error) (simp add: j_def)
  then have "\<bar>b + fl (of_int j / 10) - 100\<bar> \<le> 1 / 1000000"
    using b unfolding j abs_le_iff by (simp add: diff_divide_distrib)
  moreover have "\<bar>fl (b + fl (of_int j / 10)) - (b + fl (of_int j / 10))\<bar> \<le> 1 / 8796093022208"
    by (rule fl_error_small) (use calculation in linarith)
  ultimately have "\<bar>fadd b (py_round (fsub 100 b) 2) - of_int 1000 / 10\<bar> \<le> 1 / 1000"
    unfolding a fadd_def abs_le_iff by simp
  then have "py_round (fadd b (py_round (fsub 100 b) 2)) 1 = fl (of_int 1000 / 10)"
    by (intro rhe_tenth) simp_all
  then show ?thesis by simp
qed


text \<open>The final percentage as a function of the form's percentage and the raw bonus.\<close>

definition final_of :: "rules \<Rightarrow> rat \<Rightarrow> rat \<Rightarrow> rat" where
  "final_of rules points base_pct =
    py_round (fadd base_pct (applied_bonus (Some points) rules base_pct)) 1"

lemma room_nonneg: "one_decimal b \<Longrightarrow> 0 \<le> fsub 100 b"
  using one_decimal_bounds [of b] by (simp add: fsub_def fl_nonneg)

lemma applied_bonus_nonneg: "0 \<le> applied_bonus raw rules b"
  by (simp add: applied_bonus_def py_round_nonneg)

lemma applied_bonus_le_room:
  "one_decimal b \<Longrightarrow> applied_bonus raw rules b \<le> py_round (fsub 100 b) 2"
  unfolding applied_bonus_def by (intro py_round_mono) (simp add: room_nonneg)

lemma final_of_le_100: "one_decimal b \<Longrightarrow> final_of rules points b \<le> 100"
  unfolding final_of_def
  by (rule order_trans [OF py_round_mono [OF fadd_mono [OF order_refl applied_bonus_le_room]]])
    (simp_all only: capped_sum order_refl)

lemma final_of_ge_base:
  assumes "one_decimal b"
  shows "b \<le> final_of rules points b"
proof -
  have "fadd b 0 \<le> fadd b (applied_bonus (Some points) rules b)"
    by (intro fadd_mono) (simp_all add: applied_bonus_nonneg)
  then have "py_round b 1 \<le> final_of rules points b"
    unfolding final_of_def using one_decimal_bounds [OF assms]
    by (intro py_round_mono) (simp add: fadd_def)
  then show ?thesis using one_decimal_bounds [OF assms] by (simp del: One_nat_def)
qed

lemma final_of_one_decimal: "one_decimal b \<Longrightarrow> one_decimal (final_of rules points b)"
  unfolding final_of_def
  using final_of_le_100 [of b rules points] final_of_ge_base [of b rules points]
    one_decimal_bounds(1) [of b]
  by (intro one_decimal_py_round) (auto simp: final_of_def)

lemma final_of_mono:
  assumes "one_decimal b" and "one_decimal c" and "b \<le> c"
  shows "final_of rules points b \<le> final_of rules points c"
proof (cases "min points (bonus_max_points rules) \<le> fsub 100 c")
  case True
  then have "applied_bonus (Some points) rules b \<le> applied_bonus (Some points) rules c"
    unfolding applied_bonus_def by (intro py_round_mono) auto
  then show ?thesis
    unfolding final_of_def using assms(3) by (intro py_round_mono fadd_mono)
next
  case False
  then have "applied_bonus (Some points) rules c = py_round (fsub 100 c) 2"
    using room_nonneg [OF assms(2)] by (simp add: applied_bonus_def)
  then have "final_of rules points c = 100"
    using capped_sum [OF assms(2)] by (simp add: final_of_def)
  then show ?thesis using final_of_le_100 [OF assms(1)] by simp
qed

section \<open>Sums of a score sheet\<close>

definition sums_ok :: "section_sums \<Rightarrow> bool" where
  "sums_ok s \<longleftrightarrow> 0 \<le> general_sum s \<and> general_sum s \<le> general_max s \<and>
    0 \<le> specialized_sum s \<and> specialized_sum s \<le> specialized_max s"

definition weights_positive :: "rules \<Rightarrow> bool" where
  "weights_positive rules \<longleftrightarrow> (\<forall>i w. indicator_weights rules i = Some w \<longrightarrow> 0 < w)"

lemma weight_for_nonneg: "weights_positive rules \<Longrightarrow> 0 \<le> weight_for rules i"
  by (auto simp: weight_for_def weights_positive_def less_imp_le split: option.splits)

definition scores_in_range :: "score_row list \<Rightarrow> bool" where
  "scores_in_range rows \<longleftrightarrow> list_all (\<lambda>r. 1 \<le> row_score r \<and> row_score r \<le> 5) rows"

lemma weighted_score_bounds:
  assumes "weights_positive rules" and "1 \<le> x" and "x \<le> 5"
  shows "0 \<le> fmul (of_int x) (weight_for rules i)"
    and "fmul (of_int x) (weight_for rules i) \<le> fmul 5 (weight_for rules i)"
proof -
  have "(of_int x :: rat) \<le> of_int 5" using assms(3) by (simp only: of_int_le_iff)
  then show "fmul (of_int x) (weight_for rules i) \<le> fmul 5 (weight_for rules i)"
    using weight_for_nonneg [OF assms(1)] by (intro fmul_mono) simp_all
  show "0 \<le> fmul (of_int x) (weight_for rules i)"
    using weight_for_nonneg [OF assms(1)] assms(2) by (intro fmul_nonneg) simp_all
qed

lemma add_row_ok:
  assumes "weights_positive rules" and "1 \<le> row_score r" and "row_score r \<le> 5" and "sums_ok s"
  shows "sums_ok (add_row rules ind s r)"
  using weighted_score_bounds [OF assms(1-3)] assms(4)
  by (auto simp: sums_ok_def add_row_def Let_def intro: fadd_nonneg fadd_mono)

lemma add_rows_ok:
  assumes "weights_positive rules" and "scores_in_range rows" and "sums_ok s"
    and "add_rows inds rules s rows = Some t"
  shows "sums_ok t"
  using assms(2-4)
  by (induction rows arbitrary: s)
    (auto simp: scores_in_range_def intro: add_row_ok [OF assms(1)] split: option.splits)

lemma add_rows_defined:
  "(\<exists>t. add_rows inds rules s rows = Some t) \<longleftrightarrow> (\<forall>r \<in> set rows. inds (row_indicator_id r) \<noteq> None)"
  by (induction rows arbitrary: s) (auto split: option.splits)

lemma section_pct_one_decimal:
  assumes "0 \<le> x" and "x \<le> m"
  shows "one_decimal (section_pct x m)"
proof -
  have "fdiv x m \<le> 1" using assms by (intro fdiv_le_1) auto
  then have "fmul (fdiv x m) 100 \<le> fmul 1 100" by (intro fmul_mono) simp_all
  then have "fmul (fdiv x m) 100 \<le> 100" by (simp add: fmul_def)
  then have "py_round (fmul (fdiv x m) 100) 1 \<le> 100" by (intro py_round_le_100) simp
  moreover have "0 \<le> py_round (fmul (fdiv x m) 100) 1"
    using assms by (intro py_round_nonneg fmul_nonneg fdiv_nonneg) auto
  ultimately show ?thesis by (simp add: section_pct_def one_decimal_py_round del: One_nat_def)
qed

lemma section_pct_mono: "0 \<le> m \<Longrightarrow> x \<le> y \<Longrightarrow> section_pct x m \<le> section_pct y m"
  unfolding section_pct_def fdiv_def
  by (auto intro!: py_round_mono fmul_mono fl_mono divide_right_mono)

section \<open>The weighted average\<close>

definition section_weight_ok :: "rat \<Rightarrow> bool" where
  "section_weight_ok w \<longleftrightarrow> fl w = w \<and> (w = 0 \<or> 1 / 1000 \<le> w)"

lemma section_weight_ok_0 [simp]: "section_weight_ok 0"
  by (simp add: section_weight_ok_def)

lemma section_weight_nonneg: "section_weight_ok w \<Longrightarrow> 0 \<le> w"
  by (auto simp: section_weight_ok_def)

lemma fsum_simps [simp]:
  "fsum [] = 0" "fsum [x] = fl x" "fsum [x, y] = fl (fl x + y)"
  by (simp_all add: fsum_def fadd_def)

lemma fmul_fl [simp]: "fl (fmul x y) = fmul x y" and fl_fadd [simp]: "fl (fadd x y) = fadd x y"
  by (simp_all add: fmul_def fadd_def)

lemma weighted_part:
  assumes "section_weight_ok w" and "p \<le> 100"
  shows "fmul p w \<le> 100 * w * (1 + 1 / 1000000)"
proof -
  have "fmul p w \<le> fl (100 * w)"
    unfolding fmul_def using assms section_weight_nonneg by (intro fl_mono mult_right_mono) auto
  also have "\<dots> \<le> 100 * w * (1 + 1 / 1000000)"
    using assms(1) by (intro fl_upper) (auto simp: section_weight_ok_def)
  finally show ?thesis .
qed

lemma weighted_average_le:
  assumes w: "section_weight_ok w1" "section_weight_ok w2" and p: "p1 \<le> 100" "p2 \<le> 100"
    and pos: "0 < fl (w1 + w2)"
  shows "fdiv (fl (fmul p1 w1 + fmul p2 w2)) (fl (w1 + w2)) \<le> 2001 / 20"
proof -
  define S where "S = w1 + w2"
  have S: "1 / 1000 \<le> S"
  proof (rule ccontr)
    assume "\<not> 1 / 1000 \<le> S"
    then have "S = 0" using w section_weight_nonneg [OF w(1)] section_weight_nonneg [OF w(2)]
      by (auto simp: S_def section_weight_ok_def)
    then show False using pos by (simp add: S_def)
  qed
  have W: "S * (1 - 1 / 1000000) \<le> fl S" by (rule fl_lower) (use S in simp)
  have "fmul p1 w1 + fmul p2 w2 \<le> 100 * S * (1 + 1 / 1000000)"
    using weighted_part [OF w(1) p(1)] weighted_part [OF w(2) p(2)]
    by (simp add: S_def algebra_simps)
  then have "fl (fmul p1 w1 + fmul p2 w2) \<le> fl (100 * S * (1 + 1 / 1000000))" by (rule fl_mono)
  also have "\<dots> \<le> 100 * S * (1 + 1 / 1000000) * (1 + 1 / 1000000)"
    by (rule fl_upper) (use S in simp)
  also have "\<dots> \<le> 10001 / 100 * (S * (1 - 1 / 1000000))" using S by simp
  also have "\<dots> \<le> 10001 / 100 * fl S" using W by (intro mult_left_mono) simp_all
  finally have "fl (fmul p1 w1 + fmul p2 w2) / fl S \<le> 10001 / 100"
    using pos by (simp add: S_def pos_divide_le_eq)
  then have "fdiv (fl (fmul p1 w1 + fmul p2 w2)) (fl S) \<le> fl (10001 / 100)"
    unfolding fdiv_def by (rule fl_mono)
  also have "\<dots> \<le> 10001 / 100 * (1 + 1 / 1000000)" by (rule fl_upper) simp
  finally show ?thesis by (simp add: S_def)
qed

lemma average_le: "p1 \<le> 100 \<Longrightarrow> p2 \<le> 100 \<Longrightarrow> fdiv (fl (p1 + p2)) 2 \<le> 100"
proof -
  assume "p1 \<le> 100" and "p2 \<le> 100"
  then have "fl (p1 + p2) \<le> fl (of_int 200)" by (intro fl_mono) simp
  also have "fl (of_int 200) = (200 :: rat)" by (subst fl_of_int) simp_all
  finally have "fdiv (fl (p1 + p2)) 2 \<le> fl 100" unfolding fdiv_def by (intro fl_mono) simp
  then show ?thesis by simp
qed

definition section_weights_ok :: "rules \<Rightarrow> bool" where
  "section_weights_ok rules \<longleftrightarrow>
    section_weight_ok (general_section_weight rules) \<and>
    section_weight_ok (specialized_section_weight rules)"

lemma base_pct_cases:
  "base_pct_of rules s =
    (let p1 = section_pct (general_sum s) (general_max s);
         p2 = section_pct (specialized_sum s) (specialized_max s);
         w1 = general_section_weight rules; w2 = specialized_section_weight rules
     in if general_max s \<noteq> 0 \<and> specialized_max s \<noteq> 0 then
          (if 0 < fl (fl w1 + w2) then py_round (fdiv (fl (fmul p1 w1 + fmul p2 w2)) (fl (fl w1 + w2))) 1
           else py_round (fdiv (fl (fl p1 + p2)) 2) 1)
        else if general_max s \<noteq> 0 then
          (if 0 < fl w1 then py_round (fdiv (fmul p1 w1) (fl w1)) 1 else py_round (fdiv (fl p1) 1) 1)
        else if specialized_max s \<noteq> 0 then
          (if 0 < fl w2 then py_round (fdiv (fmul p2 w2) (fl w2)) 1 else py_round (fdiv (fl p2) 1) 1)
        else 0)"
  by (simp add: base_pct_of_def Let_def)

lemma fdiv_1 [simp]: "fdiv (fl x) 1 = fl x"
  by (simp add: fdiv_def)

lemma single_average_le:
  assumes "section_weight_ok w" and "p \<le> 100" and "0 < fl w"
  shows "fdiv (fmul p w) (fl w) \<le> 2001 / 20"
  using weighted_average_le [OF assms(1) section_weight_ok_0 assms(2), of 0] assms(3)
  by (simp add: fmul_def)

lemma base_pct_one_decimal:
  assumes w: "section_weights_ok rules" and s: "sums_ok s"
  shows "one_decimal (base_pct_of rules s)"
proof -
  define p1 where "p1 = section_pct (general_sum s) (general_max s)"
  define p2 where "p2 = section_pct (specialized_sum s) (specialized_max s)"
  have o: "one_decimal p1" "one_decimal p2"
    using s by (auto simp: p1_def p2_def sums_ok_def intro!: section_pct_one_decimal)
  note p1 = one_decimal_bounds [OF o(1)] and p2 = one_decimal_bounds [OF o(2)]
  have w1: "section_weight_ok (general_section_weight rules)"
    and w2: "section_weight_ok (specialized_section_weight rules)"
    using w by (simp_all add: section_weights_ok_def)
  have fw: "fl (general_section_weight rules) = general_section_weight rules"
    using w1 by (simp add: section_weight_ok_def)
  have nn: "0 \<le> general_section_weight rules" "0 \<le> specialized_section_weight rules"
    using w1 w2 section_weight_nonneg by auto
  have le: "py_round x 1 \<le> 100 \<and> 0 \<le> py_round x 1" if "0 \<le> x" "x \<le> 2001 / 20" for x
    using that py_round_le_100 py_round_nonneg by blast
  have step: "one_decimal (py_round x 1)" if "0 \<le> x" "x \<le> 2001 / 20" for x
    using le [OF that] by (intro one_decimal_py_round) auto
  have d: "fdiv p1 1 = p1" "fdiv p2 1 = p2" using p1(4) p2(4) by (simp_all add: fdiv_def)
  have n: "0 \<le> fmul p1 (general_section_weight rules)"
    "0 \<le> fmul p2 (specialized_section_weight rules)"
    using p1(1) p2(1) nn by (auto intro: fmul_nonneg)
  show ?thesis
    unfolding base_pct_cases p1_def [symmetric] p2_def [symmetric] Let_def fw
    using weighted_average_le [OF w1 w2 p1(2) p2(2)] single_average_le [OF w1 p1(2), unfolded fw]
      single_average_le [OF w2 p2(2)] average_le [OF p1(2) p2(2)] p1 p2 n o d
    by (auto intro!: step fdiv_nonneg fl_nonneg add_nonneg_nonneg nn simp del: One_nat_def)
qed

definition sums_le :: "section_sums \<Rightarrow> section_sums \<Rightarrow> bool" where
  "sums_le s t \<longleftrightarrow> general_max s = general_max t \<and> specialized_max s = specialized_max t \<and>
    general_sum s \<le> general_sum t \<and> specialized_sum s \<le> specialized_sum t"

lemma fdiv_mono: "0 \<le> c \<Longrightarrow> a \<le> b \<Longrightarrow> fdiv a c \<le> fdiv b c"
  unfolding fdiv_def by (intro fl_mono divide_right_mono)

lemma base_pct_mono:
  assumes w: "section_weights_ok rules" and s: "sums_ok s" and le: "sums_le s t"
  shows "base_pct_of rules s \<le> base_pct_of rules t"
proof -
  have nn: "0 \<le> general_section_weight rules" "0 \<le> specialized_section_weight rules"
    using w section_weight_nonneg by (auto simp: section_weights_ok_def)
  have m: "0 \<le> general_max t" "0 \<le> specialized_max t" using s le by (auto simp: sums_ok_def sums_le_def)
  have p: "section_pct (general_sum s) (general_max t) \<le> section_pct (general_sum t) (general_max t)"
    "section_pct (specialized_sum s) (specialized_max t) \<le> section_pct (specialized_sum t) (specialized_max t)"
    using le m by (auto simp: sums_le_def intro: section_pct_mono)
  have max: "general_max s = general_max t" "specialized_max s = specialized_max t"
    using le by (auto simp: sums_le_def)
  show ?thesis
    unfolding base_pct_cases Let_def max using nn p
    by (auto intro!: py_round_mono fdiv_mono fl_mono add_mono fmul_mono fl_nonneg add_nonneg_nonneg simp del: One_nat_def)
qed

text \<open>Raising scores row by row.\<close>

definition sheet_le :: "score_row list \<Rightarrow> score_row list \<Rightarrow> bool" where
  "sheet_le = list_all2 (\<lambda>r r'. row_indicator_id r = row_indicator_id r' \<and> row_score r \<le> row_score r')"

lemma sums_le_refl [simp]: "sums_le s s"
  by (simp add: sums_le_def)

lemma add_row_mono:
  assumes "weights_positive rules" and "row_indicator_id r = row_indicator_id r'"
    and "row_score r \<le> row_score r'" and "sums_le s s'"
  shows "sums_le (add_row rules ind s r) (add_row rules ind s' r')"
proof -
  have "fmul (of_int (row_score r)) (weight_for rules (row_indicator_id r'))
      \<le> fmul (of_int (row_score r')) (weight_for rules (row_indicator_id r'))"
    using assms(3) weight_for_nonneg [OF assms(1)] by (intro fmul_mono) simp_all
  then show ?thesis
    using assms(2,4) by (auto simp: sums_le_def add_row_def Let_def intro: fadd_mono)
qed

lemma add_rows_mono:
  assumes "weights_positive rules" and "sheet_le rows rows'" and "sums_le s s'"
    and "add_rows inds rules s rows = Some t" and "add_rows inds rules s' rows' = Some t'"
  shows "sums_le t t'"
  using assms(2-5) unfolding sheet_le_def
proof (induction rows rows' arbitrary: s s' rule: list_all2_induct)
  case Nil
  then show ?case by simp
next
  case (Cons r rs r' rs')
  then show ?case by (auto intro: add_row_mono [OF assms(1)] split: option.splits)
qed

section \<open>Properties of the result\<close>

definition bands_ok :: "(rat \<times> utext) list \<Rightarrow> bool" where
  "bands_ok bands \<longleftrightarrow> bands \<noteq> [] \<and> sorted_wrt (<) (map fst bands) \<and> 100 < fst (last bands)"

definition rules_ok :: "rules \<Rightarrow> bool" where
  "rules_ok rules \<longleftrightarrow>
    weights_positive rules \<and> section_weights_ok rules \<and> bands_ok (thresholds rules)"

definition indicators_known :: "(int \<Rightarrow> indicator option) \<Rightarrow> score_row list \<Rightarrow> bool" where
  "indicators_known inds rows \<longleftrightarrow> (\<forall>row \<in> set rows. inds (row_indicator_id row) \<noteq> None)"

lemma py_round_error:
  assumes "\<bar>x\<bar> \<le> 1000"
  shows "\<bar>py_round x 1 - x\<bar> \<le> 51 / 1000"
proof -
  have r: "\<bar>of_int (rhe (x * 10)) - x * 10\<bar> \<le> 1 / 2" by (rule rhe_error)
  then have d: "\<bar>of_int (rhe (x * 10)) / 10 - x\<bar> \<le> 1 / 20"
    unfolding abs_le_iff by simp
  have "\<bar>of_int (rhe (x * 10)) / 10\<bar> < (1024 :: rat)"
    using r assms unfolding abs_le_iff abs_less_iff by simp
  from fl_error_small [OF this] show ?thesis
    using d unfolding py_round_def abs_le_iff by simp
qed

lemma compute_result_eq:
  assumes "add_rows inds rules no_sums rows = Some s"
    and "recommendation_for rules (final_of rules points (base_pct_of rules s)) = Some label"
  shows "compute_result rows inds rules points =
    Some \<lparr>res_general_score_pct = section_pct (general_sum s) (general_max s),
      res_specialized_score_pct = section_pct (specialized_sum s) (specialized_max s),
      res_base_weighted_pct = base_pct_of rules s,
      res_bonus_points = applied_bonus (Some points) rules (base_pct_of rules s),
      res_final_weighted_pct = final_of rules points (base_pct_of rules s),
      res_recommendation = label, res_scheme_version = rules_version rules\<rparr>"
  using assms by (simp add: compute_result_def final_of_def Let_def del: One_nat_def)

lemma compute_result_SomeD:
  assumes "compute_result rows inds rules points = Some r"
  obtains s where "add_rows inds rules no_sums rows = Some s"
    and "res_base_weighted_pct r = base_pct_of rules s"
    and "res_final_weighted_pct r = final_of rules points (base_pct_of rules s)"
    and "res_bonus_points r = applied_bonus (Some points) rules (base_pct_of rules s)"
    and "recommendation_for rules (res_final_weighted_pct r) = Some (res_recommendation r)"
  using assms unfolding compute_result_def final_of_def
  by (auto simp: Let_def simp del: One_nat_def split: option.splits)

lemma sums_ok_no_sums [simp]: "sums_ok no_sums"
  by (simp add: sums_ok_def no_sums_def)

lemma recommendation_defined: "thresholds rules \<noteq> [] \<Longrightarrow> \<exists>label. recommendation_for rules x = Some label"
  by (auto simp: recommendation_for_def split: option.splits)

lemma applied_bonus_le_101: "one_decimal b \<Longrightarrow> applied_bonus raw rules b \<le> 101"
proof -
  assume b: "one_decimal b"
  have "fsub 100 b \<le> fl 100" unfolding fsub_def using one_decimal_bounds [OF b] by (intro fl_mono) simp
  then have "fsub 100 b \<le> 100" by simp
  then have "py_round (fsub 100 b) 2 \<le> py_round 100 2" by (rule py_round_mono)
  also have "py_round 100 2 = 100"
    using rhe_of_int [of 10000] by (simp add: py_round_def)
  finally show ?thesis using applied_bonus_le_room [OF b, of raw rules] by simp
qed

lemma compute_result_defined:
  assumes "thresholds rules \<noteq> []" and "indicators_known inds rows"
  shows "\<exists>r. compute_result rows inds rules points = Some r"
proof -
  obtain s where s: "add_rows inds rules no_sums rows = Some s"
    using assms(2) add_rows_defined [of inds rules no_sums rows] by (auto simp: indicators_known_def)
  obtain label where
    "recommendation_for rules (final_of rules points (base_pct_of rules s)) = Some label"
    using recommendation_defined [OF assms(1)] by blast
  with s show ?thesis by (auto dest: compute_result_eq)
qed

text \<open>
  C10. For valid rules, known indicators and scores from 1 to 5 the computation of a result does
  not fail, whatever the bonus, and in floating-point arithmetic both section percentages, the form's
  percentage and the final percentage lie between 0 and 100; the final percentage is never below
  the form's, the applied bonus is never negative, and the final percentage differs from form plus
  applied bonus by at most a rounding to one decimal.
\<close>

theorem compute_result_in_range:
  assumes "rules_ok rules" and "scores_in_range rows"
    and "indicators_known inds rows"
  shows "\<exists>r. compute_result rows inds rules points = Some r \<and>
    0 \<le> res_general_score_pct r \<and> res_general_score_pct r \<le> 100 \<and>
    0 \<le> res_specialized_score_pct r \<and> res_specialized_score_pct r \<le> 100 \<and>
    0 \<le> res_base_weighted_pct r \<and> res_base_weighted_pct r \<le> res_final_weighted_pct r \<and>
    res_final_weighted_pct r \<le> 100 \<and> 0 \<le> res_bonus_points r \<and>
    \<bar>res_final_weighted_pct r - fadd (res_base_weighted_pct r) (res_bonus_points r)\<bar> \<le> 51 / 1000"
proof -
  have w: "weights_positive rules" "section_weights_ok rules" "thresholds rules \<noteq> []"
    using assms(1) by (simp_all add: rules_ok_def bands_ok_def)
  obtain s where s: "add_rows inds rules no_sums rows = Some s"
    using assms(3) add_rows_defined [of inds rules no_sums rows] by (auto simp: indicators_known_def)
  have ok: "sums_ok s" by (rule add_rows_ok [OF w(1) assms(2) sums_ok_no_sums s])
  then have pct: "one_decimal (section_pct (general_sum s) (general_max s))"
    "one_decimal (section_pct (specialized_sum s) (specialized_max s))"
    by (auto simp: sums_ok_def intro: section_pct_one_decimal)
  define b where "b = base_pct_of rules s"
  have b: "one_decimal b" unfolding b_def by (rule base_pct_one_decimal [OF w(2) ok])
  define a where "a = applied_bonus (Some points) rules b"
  have a: "0 \<le> a" "a \<le> 101"
    using applied_bonus_nonneg applied_bonus_le_101 [OF b] by (simp_all add: a_def)
  have "\<bar>fadd b a\<bar> \<le> 1000"
  proof -
    have "b + a \<le> of_int 201" using one_decimal_bounds [OF b] a by simp
    then have "fadd b a \<le> fl (of_int 201)" unfolding fadd_def by (rule fl_mono)
    also have "fl (of_int 201) = (of_int 201 :: rat)" by (rule fl_of_int) simp
    finally have "fadd b a \<le> 201" by simp
    moreover have "0 \<le> fadd b a" using one_decimal_bounds [OF b] a by (intro fadd_nonneg)
    ultimately show ?thesis by simp
  qed
  then have "\<bar>final_of rules points b - fadd b a\<bar> \<le> 51 / 1000"
    unfolding final_of_def a_def [symmetric] by (rule py_round_error)
  moreover obtain label where
    "recommendation_for rules (final_of rules points b) = Some label"
    using recommendation_defined [OF w(3)] by blast
  ultimately show ?thesis
    using compute_result_eq [OF s, of points] one_decimal_bounds [OF b] one_decimal_bounds [OF pct(1)]
      one_decimal_bounds [OF pct(2)] final_of_le_100 [OF b, of rules points]
      final_of_ge_base [OF b, of rules points] a
    by (simp add: b_def [symmetric] a_def [symmetric])
qed

text \<open>
  C11. Raising scores never lowers a result: if two sheets score the same indicators in the same
  order and every score of the second is at least the score of the first, then with the same rules
  and the same bonus the form's percentage and the final percentage of the second are at least those
  of the first, all roundings and the cap of the bonus included.
\<close>

theorem compute_result_monotone:
  assumes "rules_ok rules" and "scores_in_range rows" and "scores_in_range rows'"
    and "sheet_le rows rows'"
    and "compute_result rows inds rules points = Some r"
    and "compute_result rows' inds rules points = Some r'"
  shows "res_base_weighted_pct r \<le> res_base_weighted_pct r' \<and>
    res_final_weighted_pct r \<le> res_final_weighted_pct r'"
proof -
  have w: "weights_positive rules" "section_weights_ok rules"
    using assms(1) by (simp_all add: rules_ok_def)
  obtain s where s: "add_rows inds rules no_sums rows = Some s"
    "res_base_weighted_pct r = base_pct_of rules s"
    "res_final_weighted_pct r = final_of rules points (base_pct_of rules s)"
    using assms(5) by (rule compute_result_SomeD)
  obtain t where t: "add_rows inds rules no_sums rows' = Some t"
    "res_base_weighted_pct r' = base_pct_of rules t"
    "res_final_weighted_pct r' = final_of rules points (base_pct_of rules t)"
    using assms(6) by (rule compute_result_SomeD)
  have ok: "sums_ok s" "sums_ok t"
    using add_rows_ok [OF w(1) assms(2) sums_ok_no_sums s(1)]
      add_rows_ok [OF w(1) assms(3) sums_ok_no_sums t(1)] by simp_all
  have "sums_le s t" by (rule add_rows_mono [OF w(1) assms(4) sums_le_refl s(1) t(1)])
  then have le: "base_pct_of rules s \<le> base_pct_of rules t" by (rule base_pct_mono [OF w(2) ok(1)])
  with final_of_mono [OF base_pct_one_decimal [OF w(2) ok(1)] base_pct_one_decimal [OF w(2) ok(2)] le]
  show ?thesis by (simp add: s t)
qed


text \<open>
  With valid bands every final percentage up to 100 gets the label of exactly the band it lies
  in: it is below the upper end of that band and not below the upper end of any earlier one, so the
  fallback to the last band is never what decides.
\<close>

theorem recommendation_is_its_band:
  assumes "bands_ok (thresholds rules)" and "final_pct \<le> 100"
  shows "\<exists>before upper label after. thresholds rules = before @ (upper, label) # after \<and>
    recommendation_for rules final_pct = Some label \<and> final_pct < upper \<and>
    list_all (\<lambda>band. fst band \<le> final_pct) before"
proof -
  let ?P = "\<lambda>band. final_pct < fst band"
  have "last (thresholds rules) \<in> set (thresholds rules)"
    using assms(1) by (simp add: bands_ok_def)
  moreover have "?P (last (thresholds rules))"
    using assms by (auto simp: bands_ok_def case_prod_beta)
  ultimately have "\<exists>x. x \<in> set (thresholds rules) \<and> ?P x" by blast
  then have "find ?P (thresholds rules) \<noteq> None" by (auto simp: find_None_iff)
  then obtain b where b: "find ?P (thresholds rules) = Some b" by blast
  then obtain i where i: "i < length (thresholds rules)" "?P b" "b = thresholds rules ! i"
    "\<forall>j<i. \<not> ?P (thresholds rules ! j)"
    unfolding find_Some_iff by blast
  have "thresholds rules = take i (thresholds rules) @ b # drop (Suc i) (thresholds rules)"
    using i by (simp add: id_take_nth_drop)
  moreover have "list_all (\<lambda>band. fst band \<le> final_pct) (take i (thresholds rules))"
    using i by (auto simp: list_all_length not_less)
  moreover have "recommendation_for rules final_pct = Some (snd b)"
    using b by (simp add: recommendation_for_def case_prod_beta')
  ultimately show ?thesis using i(2) by (cases b) (auto simp: case_prod_beta)
qed

section \<open>Properties of the validation\<close>

text \<open>
  The validation of evidence accepts a sheet exactly when in every row the number of words of
  the evidence lies between the bounds that hold for the row: at most the maximum of the rules, and
  at least their minimum where the score is one that calls for evidence.
\<close>

theorem validate_evidence_exact:
  "validate_evidence rows inds rules = Inr () \<longleftrightarrow>
    list_all (\<lambda>row.
      (if row_score row \<in> set (evidence_required_scores rules) then evidence_min_words rules else 0)
        \<le> int (word_count (row_evidence row)) \<and>
      int (word_count (row_evidence row)) \<le> evidence_max_words rules) rows"
  by (auto simp: validate_evidence_def evidence_violations_def evidence_too_long_def Let_def
      filter_empty_conv list_all_iff not_less not_le)

text \<open>
  A bonus is accepted exactly when it is not negative, not above the maximum of the rules, and
  either zero or given with a reason of at least ten characters after stripping white space; a scheme
  whose maximum is zero accepts no bonus at all.
\<close>

theorem validate_bonus_exact:
  "validate_bonus points given rules = Inr () \<longleftrightarrow>
    0 \<le> points \<and> points \<le> bonus_max_points rules \<and>
    (points = 0 \<or> BONUS_REASON_MIN \<le> length (strip (case given of None \<Rightarrow> [] | Some t \<Rightarrow> t)))"
  by (auto simp: validate_bonus_def Let_def)

text \<open>
  The printed bonus and the form's percentage need not add up to the printed result: with the
  default rules a form of 84 and a bonus of a quarter point end in the floating-point value of 84.2,
  although the applied bonus is shown as 0.25.
\<close>

theorem form_and_bonus_may_not_add_up:
  "applied_bonus (Some (1 / 4)) LEGACY_RULES 84 = 1 / 4 \<and>
    final_of LEGACY_RULES (1 / 4) 84 = fl (842 / 10) \<and>
    final_of LEGACY_RULES (1 / 4) 84 \<noteq> fadd 84 (applied_bonus (Some (1 / 4)) LEGACY_RULES 84)"
proof -
  have "fsub 100 84 = 16" using fl_of_int [of 16] by (simp add: fsub_def)
  moreover have "py_round (1 / 4) 2 = 1 / 4"
    using rhe_of_int [of 25] fl_exact [of "1 / 4" 1 "- 2"] by (simp add: py_round_def power_int_def power_one_over)
  ultimately have a: "applied_bonus (Some (1 / 4)) LEGACY_RULES 84 = 1 / 4"
    by (simp add: applied_bonus_def LEGACY_RULES_def BONUS_MAX_POINTS_def)
  have sum: "fadd 84 (1 / 4) = 337 / 4"
    using fl_exact [of "337 / 4" 337 "- 2"] by (simp add: fadd_def power_int_def power_one_over)
  have "rhe (337 / 4 * 10 ^ 1) = 842" using rhe_half_even [of 842] by simp
  then have "py_round (337 / 4) 1 = fl (842 / 10)" by (simp only: py_round_def) simp
  then have "final_of LEGACY_RULES (1 / 4) 84 = fl (842 / 10)"
    by (simp only: final_of_def a sum)
  moreover have "fl (842 / 10) \<noteq> 337 / 4"
    using fl_tenth_error [of 842] unfolding abs_le_iff by auto
  ultimately show ?thesis by (simp add: a sum)
qed

section \<open>Witnesses\<close>

lemma section_weight_ok_fl:
  assumes "1 / 100 \<le> x"
  shows "section_weight_ok (fl x)"
proof -
  have "x * (1 - 1 / 1000000) \<le> fl x" using assms by (intro fl_lower) simp
  then show ?thesis using assms by (simp add: section_weight_ok_def)
qed

lemma legacy_rules_ok: "rules_ok LEGACY_RULES"
  by (simp add: rules_ok_def weights_positive_def section_weights_ok_def bands_ok_def
      LEGACY_RULES_def GENERAL_SECTION_WEIGHT_def SPECIALIZED_SECTION_WEIGHT_def
      FINAL_RESULT_THRESHOLDS_def section_weight_ok_fl)

definition sample_indicators :: "int \<Rightarrow> indicator option" where
  "sample_indicators =
    (\<lambda>i. if i \<in> {1, 2, 3} then
       Some \<lparr>indicator_id = i, ind_section = (if i = 3 then Specialized else General),
         category = ascii ''category'', indicator_description = [], display_order = i,
         indicator_is_active = True\<rparr> else None)"

definition sample_sheet :: "int list \<Rightarrow> score_row list" where
  "sample_sheet xs = map2 (\<lambda>i x. \<lparr>row_indicator_id = i, row_score = x, row_evidence = None\<rparr>) [1, 2, 3] xs"

lemma sample_known:
  "indicators_known sample_indicators (sample_sheet [4, 5, 2])"
  "indicators_known sample_indicators (sample_sheet [5, 5, 3])"
  by (auto simp: indicators_known_def sample_sheet_def sample_indicators_def)

lemma sample_in_range:
  "scores_in_range (sample_sheet [4, 5, 2])" "scores_in_range (sample_sheet [5, 5, 3])"
  "sheet_le (sample_sheet [4, 5, 2]) (sample_sheet [5, 5, 3])"
  by (simp_all add: sample_sheet_def scores_in_range_def sheet_le_def)

theorem compute_result_in_range_witness:
  "\<exists>r. compute_result (sample_sheet [4, 5, 2]) sample_indicators LEGACY_RULES 3 = Some r \<and>
    0 \<le> res_base_weighted_pct r \<and> res_base_weighted_pct r \<le> res_final_weighted_pct r \<and>
    res_final_weighted_pct r \<le> 100"
  using compute_result_in_range
    [OF legacy_rules_ok sample_in_range(1) sample_known(1), of 3] by blast

theorem compute_result_monotone_witness:
  "\<exists>r r'. compute_result (sample_sheet [4, 5, 2]) sample_indicators LEGACY_RULES 3 = Some r \<and>
    compute_result (sample_sheet [5, 5, 3]) sample_indicators LEGACY_RULES 3 = Some r' \<and>
    res_final_weighted_pct r \<le> res_final_weighted_pct r'"
proof -
  have "thresholds LEGACY_RULES \<noteq> []" by (simp add: LEGACY_RULES_def FINAL_RESULT_THRESHOLDS_def)
  from compute_result_defined [OF this sample_known(1)]
    compute_result_defined [OF this sample_known(2)]
  obtain r r' where
    r: "compute_result (sample_sheet [4, 5, 2]) sample_indicators LEGACY_RULES 3 = Some r"
      "compute_result (sample_sheet [5, 5, 3]) sample_indicators LEGACY_RULES 3 = Some r'"
    by blast
  from compute_result_monotone [OF legacy_rules_ok sample_in_range r] r show ?thesis by blast
qed

theorem recommendation_is_its_band_witness:
  "\<exists>before upper label after. thresholds LEGACY_RULES = before @ (upper, label) # after \<and>
    recommendation_for LEGACY_RULES 75 = Some label \<and> 75 < upper \<and>
    list_all (\<lambda>band. fst band \<le> 75) before"
  by (rule recommendation_is_its_band)
    (simp_all add: bands_ok_def LEGACY_RULES_def FINAL_RESULT_THRESHOLDS_def)

end
