(* ===== verification/Transitions.thy ===== *)
theory Transitions
  imports Scoring
begin

text \<open>
  The state machine of \<open>app/services/workflow.py\<close>: the predicates on the shape of a chain, the table
  \<open>TRANSITIONS\<close> with its guards, and the check whether an action is available to a user.
\<close>

section \<open>The shape of a chain\<close>

definition OPEN_STATUSES :: "evaluation_status list" where
  "OPEN_STATUSES = [Draft, Submitted, Hr_approved, Deputy_approved]"

definition is_open :: "evaluation_record \<Rightarrow> bool" where
  "is_open r \<longleftrightarrow> status r \<in> set OPEN_STATUSES"

definition is_manager_path :: "evaluation_record \<Rightarrow> bool" where
  "is_manager_path r \<longleftrightarrow> unit_supervisor_user_id r = None"

definition is_ceo_only_path :: "evaluation_record \<Rightarrow> bool" where
  "is_ceo_only_path r \<longleftrightarrow> unit_supervisor_user_id r = None \<and> deputy_user_id r = None"

definition hr_finalizes_record :: "evaluation_record \<Rightarrow> bool" where
  "hr_finalizes_record r \<longleftrightarrow>
    hr_finalizes (unit_supervisor_user_id r) (deputy_user_id r) (hr_review_skipped r)"

definition skips_hr_review :: "evaluation_record \<Rightarrow> bool" where
  "skips_hr_review r \<longleftrightarrow> hr_review_skipped r"

definition hr_panel_is_shielded :: "evaluation_record \<Rightarrow> bool" where
  "hr_panel_is_shielded r \<longleftrightarrow> skips_hr_review r \<and> status r \<in> set OPEN_STATUSES"

definition IS_ON_CEO_DESK :: "evaluation_record \<Rightarrow> bool" where
  "IS_ON_CEO_DESK r \<longleftrightarrow>
    status r = Deputy_approved \<or> (status r = Hr_approved \<and> deputy_user_id r = None)"

definition skips_deputy :: "evaluation_record \<Rightarrow> bool" where
  "skips_deputy r \<longleftrightarrow> deputy_user_id r = None"

text \<open>The role and the holder of the seat that writes the scores.\<close>

definition scorer_seat :: "evaluation_record \<Rightarrow> user_role option \<times> int option" where
  "scorer_seat r =
    (let field = scorer_field (unit_supervisor_user_id r) (deputy_user_id r)
     in (SEAT_ROLE field, seat field r))"

text \<open>\<open>a or b\<close> of the source: an identifier is never zero, so \<open>or\<close> tests for \<open>None\<close>.\<close>

definition owner_after_hr_review :: "evaluation_record \<Rightarrow> int" where
  "owner_after_hr_review r = (case deputy_user_id r of Some d \<Rightarrow> d | None \<Rightarrow> ceo_user_id r)"

definition objection_resolver_field :: "evaluation_record \<Rightarrow> seat_field option" where
  "objection_resolver_field r =
    (if \<not> skips_hr_review r then None
     else if is_manager_path r \<or> skips_deputy r then Some Ceo_user_id
     else Some Deputy_user_id)"

definition CHAIN_RANK :: "user_role \<Rightarrow> nat option" where
  "CHAIN_RANK = [Role_unit_supervisor \<mapsto> 1, Role_deputy \<mapsto> 2, Role_ceo \<mapsto> 3]"

definition may_act_at :: "user_role \<Rightarrow> user_role \<Rightarrow> bool" where
  "may_act_at u stage =
    (if stage = Role_hr then u = Role_hr
     else case (CHAIN_RANK u, CHAIN_RANK stage) of
            (Some ur, Some sr) \<Rightarrow> sr \<le> ur
          | _ \<Rightarrow> False)"

section \<open>The table of transitions\<close>

datatype workflow_action =
    Submit | Submit_hr_subject | Manager_submit | Manager_submit_hr_subject
  | Ceo_submit | Ceo_submit_hr_subject
  | Hr_approve | Hr_finalize_direct_ceo | Hr_approve_manager | Deputy_approve | Ceo_finalize
  | Hr_return | Deputy_return | Deputy_return_hr_subject | Ceo_return | Ceo_return_manager
  | Ceo_return_ceo_only | Ceo_return_no_deputy | Ceo_return_no_deputy_hr_subject
  | Ceo_return_manager_hr_subject
  | Cancel | Cancel_on_separation | Cancel_hr_subject

fun action_name :: "workflow_action \<Rightarrow> string" where
  "action_name Submit = ''submit''"
| "action_name Submit_hr_subject = ''submit_hr_subject''"
| "action_name Manager_submit = ''manager_submit''"
| "action_name Manager_submit_hr_subject = ''manager_submit_hr_subject''"
| "action_name Ceo_submit = ''ceo_submit''"
| "action_name Ceo_submit_hr_subject = ''ceo_submit_hr_subject''"
| "action_name Hr_approve = ''hr_approve''"
| "action_name Hr_finalize_direct_ceo = ''hr_finalize_direct_ceo''"
| "action_name Hr_approve_manager = ''hr_approve_manager''"
| "action_name Deputy_approve = ''deputy_approve''"
| "action_name Ceo_finalize = ''ceo_finalize''"
| "action_name Hr_return = ''hr_return''"
| "action_name Deputy_return = ''deputy_return''"
| "action_name Deputy_return_hr_subject = ''deputy_return_hr_subject''"
| "action_name Ceo_return = ''ceo_return''"
| "action_name Ceo_return_manager = ''ceo_return_manager''"
| "action_name Ceo_return_ceo_only = ''ceo_return_ceo_only''"
| "action_name Ceo_return_no_deputy = ''ceo_return_no_deputy''"
| "action_name Ceo_return_no_deputy_hr_subject = ''ceo_return_no_deputy_hr_subject''"
| "action_name Ceo_return_manager_hr_subject = ''ceo_return_manager_hr_subject''"
| "action_name Cancel = ''cancel''"
| "action_name Cancel_on_separation = ''cancel_on_separation''"
| "action_name Cancel_hr_subject = ''cancel_hr_subject''"

record transition =
  from_statuses :: "evaluation_status list"
  to_status :: evaluation_status
  allowed_role :: user_role
  assignee_field :: "seat_field option"
  error_status :: nat
  error_detail :: string
  claimable_if_unassigned :: bool
  owner_error_detail :: "string option"
  transition_guard :: "(evaluation_record \<Rightarrow> bool) option"
  bypasses_hr_unit_shield :: bool

definition transition_from ::
  "evaluation_status list \<Rightarrow> evaluation_status \<Rightarrow> user_role \<Rightarrow> seat_field option \<Rightarrow>
    (evaluation_record \<Rightarrow> bool) option \<Rightarrow> nat \<Rightarrow> string \<Rightarrow> transition" where
  "transition_from froms to allowed assignee cond code text =
    \<lparr>from_statuses = froms, to_status = to, allowed_role = allowed, assignee_field = assignee,
     error_status = code, error_detail = text, claimable_if_unassigned = False,
     owner_error_detail = None, transition_guard = cond, bypasses_hr_unit_shield = False\<rparr>"

definition claimable :: "string \<Rightarrow> transition \<Rightarrow> transition" where
  "claimable text t = t\<lparr>claimable_if_unassigned := True, owner_error_detail := Some text\<rparr>"

definition submit_transitions :: "workflow_action \<Rightarrow> transition option" where
  "submit_transitions =
    [Submit \<mapsto> transition_from [Draft] Submitted Role_unit_supervisor (Some Unit_supervisor_user_id)
       (Some (\<lambda>r. \<not> is_manager_path r \<and> \<not> skips_hr_review r)) 403 ''submit: not yours'',
     Submit_hr_subject \<mapsto>
       transition_from [Draft] Hr_approved Role_unit_supervisor (Some Unit_supervisor_user_id)
       (Some (\<lambda>r. \<not> is_manager_path r \<and> skips_hr_review r)) 403 ''submit: not yours'',
     Manager_submit \<mapsto> transition_from [Draft] Submitted Role_deputy (Some Deputy_user_id)
       (Some (\<lambda>r. is_manager_path r \<and> \<not> is_ceo_only_path r \<and> \<not> skips_hr_review r))
       403 ''submit: not yours'',
     Manager_submit_hr_subject \<mapsto>
       transition_from [Draft] Deputy_approved Role_deputy (Some Deputy_user_id)
       (Some (\<lambda>r. is_manager_path r \<and> \<not> is_ceo_only_path r \<and> skips_hr_review r))
       403 ''submit: not yours'',
     Ceo_submit \<mapsto> transition_from [Draft] Submitted Role_ceo (Some Ceo_user_id)
       (Some (\<lambda>r. is_ceo_only_path r \<and> \<not> skips_hr_review r)) 403 ''submit: not yours'',
     Ceo_submit_hr_subject \<mapsto> transition_from [Draft] Deputy_approved Role_ceo (Some Ceo_user_id)
       (Some (\<lambda>r. is_ceo_only_path r \<and> skips_hr_review r)) 403 ''submit: not yours'']"

definition approve_transitions :: "workflow_action \<Rightarrow> transition option" where
  "approve_transitions =
    [Hr_approve \<mapsto> claimable ''claimed by a colleague''
       (transition_from [Submitted] Hr_approved Role_hr (Some Hr_user_id)
         (Some (\<lambda>r. \<not> is_manager_path r \<and> \<not> skips_hr_review r)) 400 ''not in review''),
     Hr_finalize_direct_ceo \<mapsto> claimable ''claimed by a colleague''
       (transition_from [Submitted] Finalized Role_hr (Some Hr_user_id)
         (Some hr_finalizes_record) 400 ''not in review''),
     Hr_approve_manager \<mapsto> claimable ''claimed by a colleague''
       (transition_from [Submitted] Deputy_approved Role_hr (Some Hr_user_id)
         (Some (\<lambda>r. is_manager_path r \<and> \<not> skips_hr_review r \<and> \<not> hr_finalizes_record r))
         400 ''not in review''),
     Deputy_approve \<mapsto> transition_from [Hr_approved] Deputy_approved Role_deputy (Some Deputy_user_id)
       None 403 ''not at your stage'',
     Ceo_finalize \<mapsto> transition_from [Deputy_approved, Hr_approved] Finalized Role_ceo (Some Ceo_user_id)
       (Some (\<lambda>r. status r \<noteq> Hr_approved \<or> deputy_user_id r = None)) 403 ''not at your stage'']"

definition return_transitions :: "workflow_action \<Rightarrow> transition option" where
  "return_transitions =
    [Hr_return \<mapsto> claimable ''claimed by a colleague''
       (transition_from [Submitted] Draft Role_hr (Some Hr_user_id)
         (Some (\<lambda>r. \<not> skips_hr_review r)) 400 ''not in review''),
     Deputy_return \<mapsto> transition_from [Hr_approved] Submitted Role_deputy (Some Deputy_user_id)
       (Some (\<lambda>r. \<not> skips_hr_review r)) 403 ''not at your stage'',
     Deputy_return_hr_subject \<mapsto>
       transition_from [Hr_approved] Draft Role_deputy (Some Deputy_user_id)
       (Some skips_hr_review) 403 ''not at your stage'',
     Ceo_return \<mapsto> transition_from [Deputy_approved] Hr_approved Role_ceo (Some Ceo_user_id)
       (Some (\<lambda>r. \<not> is_manager_path r)) 403 ''not at your stage'',
     Ceo_return_manager \<mapsto> transition_from [Deputy_approved] Submitted Role_ceo (Some Ceo_user_id)
       (Some (\<lambda>r. is_manager_path r \<and> \<not> is_ceo_only_path r \<and> \<not> skips_hr_review r))
       403 ''not at your stage'',
     Ceo_return_ceo_only \<mapsto>
       transition_from [Deputy_approved, Submitted] Draft Role_ceo (Some Ceo_user_id)
       (Some is_ceo_only_path) 403 ''not at your stage'',
     Ceo_return_no_deputy \<mapsto> transition_from [Hr_approved] Submitted Role_ceo (Some Ceo_user_id)
       (Some (\<lambda>r. skips_deputy r \<and> \<not> is_manager_path r \<and> \<not> skips_hr_review r))
       403 ''not at your stage'',
     Ceo_return_no_deputy_hr_subject \<mapsto>
       transition_from [Hr_approved] Draft Role_ceo (Some Ceo_user_id)
       (Some (\<lambda>r. skips_deputy r \<and> \<not> is_manager_path r \<and> skips_hr_review r))
       403 ''not at your stage'',
     Ceo_return_manager_hr_subject \<mapsto>
       transition_from [Deputy_approved] Draft Role_ceo (Some Ceo_user_id)
       (Some (\<lambda>r. is_manager_path r \<and> \<not> is_ceo_only_path r \<and> skips_hr_review r))
       403 ''not at your stage'']"

definition cancel_transitions :: "workflow_action \<Rightarrow> transition option" where
  "cancel_transitions =
    [Cancel \<mapsto> transition_from OPEN_STATUSES Cancelled Role_hr None None 400 ''already closed'',
     Cancel_on_separation \<mapsto>
       (transition_from OPEN_STATUSES Cancelled Role_hr None None 400 ''already closed'')
         \<lparr>bypasses_hr_unit_shield := True\<rparr>,
     Cancel_hr_subject \<mapsto> transition_from OPEN_STATUSES Cancelled Role_deputy None
       (Some skips_hr_review) 400 ''not a record of human resources'']"

definition ALL_TRANSITIONS :: "workflow_action \<Rightarrow> transition option" where
  "ALL_TRANSITIONS =
    submit_transitions ++ approve_transitions ++ return_transitions ++ cancel_transitions"

definition TRANSITIONS :: "workflow_action \<Rightarrow> transition" where
  "TRANSITIONS a = the (ALL_TRANSITIONS a)"

lemmas transition_tables =
  submit_transitions_def approve_transitions_def return_transitions_def cancel_transitions_def
  transition_from_def claimable_def

section \<open>Availability\<close>

datatype block = Blocked_by_stage | Blocked_by_owner

definition transition_block :: "evaluation_record \<Rightarrow> workflow_action \<Rightarrow> current_user \<Rightarrow> block option" where
  "transition_block r action user =
    (let spec = TRANSITIONS action
     in if status r \<notin> set (from_statuses spec) \<or> \<not> may_act_at (cu_role user) (allowed_role spec)
        then Some Blocked_by_stage
        else if (case transition_guard spec of None \<Rightarrow> False | Some g \<Rightarrow> \<not> g r)
        then Some Blocked_by_stage
        else case assignee_field spec of
               None \<Rightarrow> None
             | Some field \<Rightarrow>
                (let assignee = seat field r
                 in if \<not> (assignee = None \<and> claimable_if_unassigned spec) \<and> Some (cu_id user) \<noteq> assignee
                    then Some Blocked_by_owner else None))"

definition transition_is_available :: "evaluation_record \<Rightarrow> workflow_action \<Rightarrow> current_user \<Rightarrow> bool" where
  "transition_is_available r action user \<longleftrightarrow> transition_block r action user = None"

definition ensure_transition_allowed ::
  "evaluation_record \<Rightarrow> workflow_action \<Rightarrow> current_user \<Rightarrow> transition http" where
  "ensure_transition_allowed r action user =
    (let spec = TRANSITIONS action
     in case transition_block r action user of
          Some Blocked_by_stage \<Rightarrow> Inl (HTTPException (error_status spec) (error_detail spec))
        | Some Blocked_by_owner \<Rightarrow>
            Inl (HTTPException 403
              (case owner_error_detail spec of Some d \<Rightarrow> d | None \<Rightarrow> error_detail spec))
        | None \<Rightarrow> Inr spec)"

section \<open>The table\<close>

lemma TRANSITIONS_simps [simp]:
  "TRANSITIONS Submit = transition_from [Draft] Submitted Role_unit_supervisor
     (Some Unit_supervisor_user_id) (Some (\<lambda>r. \<not> is_manager_path r \<and> \<not> skips_hr_review r))
     403 ''submit: not yours''"
  "TRANSITIONS Submit_hr_subject = transition_from [Draft] Hr_approved Role_unit_supervisor
     (Some Unit_supervisor_user_id) (Some (\<lambda>r. \<not> is_manager_path r \<and> skips_hr_review r))
     403 ''submit: not yours''"
  "TRANSITIONS Manager_submit = transition_from [Draft] Submitted Role_deputy (Some Deputy_user_id)
     (Some (\<lambda>r. is_manager_path r \<and> \<not> is_ceo_only_path r \<and> \<not> skips_hr_review r))
     403 ''submit: not yours''"
  "TRANSITIONS Manager_submit_hr_subject = transition_from [Draft] Deputy_approved Role_deputy
     (Some Deputy_user_id) (Some (\<lambda>r. is_manager_path r \<and> \<not> is_ceo_only_path r \<and> skips_hr_review r))
     403 ''submit: not yours''"
  "TRANSITIONS Ceo_submit = transition_from [Draft] Submitted Role_ceo (Some Ceo_user_id)
     (Some (\<lambda>r. is_ceo_only_path r \<and> \<not> skips_hr_review r)) 403 ''submit: not yours''"
  "TRANSITIONS Ceo_submit_hr_subject = transition_from [Draft] Deputy_approved Role_ceo
     (Some Ceo_user_id) (Some (\<lambda>r. is_ceo_only_path r \<and> skips_hr_review r)) 403 ''submit: not yours''"
  "TRANSITIONS Hr_approve = claimable ''claimed by a colleague''
     (transition_from [Submitted] Hr_approved Role_hr (Some Hr_user_id)
       (Some (\<lambda>r. \<not> is_manager_path r \<and> \<not> skips_hr_review r)) 400 ''not in review'')"
  "TRANSITIONS Hr_finalize_direct_ceo = claimable ''claimed by a colleague''
     (transition_from [Submitted] Finalized Role_hr (Some Hr_user_id)
       (Some hr_finalizes_record) 400 ''not in review'')"
  "TRANSITIONS Hr_approve_manager = claimable ''claimed by a colleague''
     (transition_from [Submitted] Deputy_approved Role_hr (Some Hr_user_id)
       (Some (\<lambda>r. is_manager_path r \<and> \<not> skips_hr_review r \<and> \<not> hr_finalizes_record r))
       400 ''not in review'')"
  "TRANSITIONS Deputy_approve = transition_from [Hr_approved] Deputy_approved Role_deputy
     (Some Deputy_user_id) None 403 ''not at your stage''"
  "TRANSITIONS Ceo_finalize = transition_from [Deputy_approved, Hr_approved] Finalized Role_ceo
     (Some Ceo_user_id) (Some (\<lambda>r. status r \<noteq> Hr_approved \<or> deputy_user_id r = None))
     403 ''not at your stage''"
  "TRANSITIONS Hr_return = claimable ''claimed by a colleague''
     (transition_from [Submitted] Draft Role_hr (Some Hr_user_id) (Some (\<lambda>r. \<not> skips_hr_review r))
       400 ''not in review'')"
  "TRANSITIONS Deputy_return = transition_from [Hr_approved] Submitted Role_deputy
     (Some Deputy_user_id) (Some (\<lambda>r. \<not> skips_hr_review r)) 403 ''not at your stage''"
  "TRANSITIONS Deputy_return_hr_subject = transition_from [Hr_approved] Draft Role_deputy
     (Some Deputy_user_id) (Some skips_hr_review) 403 ''not at your stage''"
  "TRANSITIONS Ceo_return = transition_from [Deputy_approved] Hr_approved Role_ceo
     (Some Ceo_user_id) (Some (\<lambda>r. \<not> is_manager_path r)) 403 ''not at your stage''"
  "TRANSITIONS Ceo_return_manager = transition_from [Deputy_approved] Submitted Role_ceo
     (Some Ceo_user_id) (Some (\<lambda>r. is_manager_path r \<and> \<not> is_ceo_only_path r \<and> \<not> skips_hr_review r))
     403 ''not at your stage''"
  "TRANSITIONS Ceo_return_ceo_only = transition_from [Deputy_approved, Submitted] Draft Role_ceo
     (Some Ceo_user_id) (Some is_ceo_only_path) 403 ''not at your stage''"
  "TRANSITIONS Ceo_return_no_deputy = transition_from [Hr_approved] Submitted Role_ceo
     (Some Ceo_user_id) (Some (\<lambda>r. skips_deputy r \<and> \<not> is_manager_path r \<and> \<not> skips_hr_review r))
     403 ''not at your stage''"
  "TRANSITIONS Ceo_return_no_deputy_hr_subject = transition_from [Hr_approved] Draft Role_ceo
     (Some Ceo_user_id) (Some (\<lambda>r. skips_deputy r \<and> \<not> is_manager_path r \<and> skips_hr_review r))
     403 ''not at your stage''"
  "TRANSITIONS Ceo_return_manager_hr_subject = transition_from [Deputy_approved] Draft Role_ceo
     (Some Ceo_user_id) (Some (\<lambda>r. is_manager_path r \<and> \<not> is_ceo_only_path r \<and> skips_hr_review r))
     403 ''not at your stage''"
  "TRANSITIONS Cancel = transition_from OPEN_STATUSES Cancelled Role_hr None None 400 ''already closed''"
  "TRANSITIONS Cancel_on_separation =
     (transition_from OPEN_STATUSES Cancelled Role_hr None None 400 ''already closed'')
       \<lparr>bypasses_hr_unit_shield := True\<rparr>"
  "TRANSITIONS Cancel_hr_subject = transition_from OPEN_STATUSES Cancelled Role_deputy None
     (Some skips_hr_review) 400 ''not a record of human resources''"
  by (simp_all add: TRANSITIONS_def ALL_TRANSITIONS_def submit_transitions_def
      approve_transitions_def return_transitions_def cancel_transitions_def map_add_def)

lemma transition_from_fields [simp]:
  "from_statuses (transition_from f t al as g c d) = f"
  "to_status (transition_from f t al as g c d) = t"
  "allowed_role (transition_from f t al as g c d) = al"
  "assignee_field (transition_from f t al as g c d) = as"
  "error_status (transition_from f t al as g c d) = c"
  "error_detail (transition_from f t al as g c d) = d"
  "claimable_if_unassigned (transition_from f t al as g c d) = False"
  "owner_error_detail (transition_from f t al as g c d) = None"
  "transition_guard (transition_from f t al as g c d) = g"
  "bypasses_hr_unit_shield (transition_from f t al as g c d) = False"
  by (simp_all add: transition_from_def)

lemma claimable_fields [simp]:
  "from_statuses (claimable x t) = from_statuses t"
  "to_status (claimable x t) = to_status t"
  "allowed_role (claimable x t) = allowed_role t"
  "assignee_field (claimable x t) = assignee_field t"
  "error_status (claimable x t) = error_status t"
  "error_detail (claimable x t) = error_detail t"
  "claimable_if_unassigned (claimable x t) = True"
  "owner_error_detail (claimable x t) = Some x"
  "transition_guard (claimable x t) = transition_guard t"
  "bypasses_hr_unit_shield (claimable x t) = bypasses_hr_unit_shield t"
  by (simp_all add: claimable_def)

lemmas chain_shape =
  is_manager_path_def is_ceo_only_path_def skips_hr_review_def skips_deputy_def
  hr_finalizes_record_def hr_finalizes_def

lemma all_actions_in_table: "ALL_TRANSITIONS a \<noteq> None"
  by (cases a) (simp_all add: ALL_TRANSITIONS_def submit_transitions_def
      approve_transitions_def return_transitions_def cancel_transitions_def map_add_def)

text \<open>What an available action amounts to.\<close>

definition guard_holds :: "transition \<Rightarrow> evaluation_record \<Rightarrow> bool" where
  "guard_holds spec r \<longleftrightarrow> (case transition_guard spec of None \<Rightarrow> True | Some g \<Rightarrow> g r)"

definition may_take :: "transition \<Rightarrow> evaluation_record \<Rightarrow> current_user \<Rightarrow> bool" where
  "may_take spec r user \<longleftrightarrow>
    (case assignee_field spec of
       None \<Rightarrow> True
     | Some field \<Rightarrow> seat field r = Some (cu_id user) \<or>
         (claimable_if_unassigned spec \<and> seat field r = None))"

lemma available_iff:
  "transition_is_available r a user \<longleftrightarrow>
    status r \<in> set (from_statuses (TRANSITIONS a)) \<and>
    may_act_at (cu_role user) (allowed_role (TRANSITIONS a)) \<and>
    guard_holds (TRANSITIONS a) r \<and> may_take (TRANSITIONS a) r user"
  by (auto simp: transition_is_available_def transition_block_def Let_def guard_holds_def
      may_take_def split: option.splits)

lemma ensure_allowed_iff:
  "ensure_transition_allowed r a user = Inr spec \<longleftrightarrow>
    transition_is_available r a user \<and> spec = TRANSITIONS a"
  by (auto simp: ensure_transition_allowed_def transition_is_available_def Let_def
      split: option.splits block.splits)

lemma may_act_at_simps [simp]:
  "may_act_at u Role_hr = (u = Role_hr)"
  "may_act_at u Role_unit_supervisor = (u \<in> {Role_unit_supervisor, Role_deputy, Role_ceo})"
  "may_act_at u Role_deputy = (u \<in> {Role_deputy, Role_ceo})"
  "may_act_at u Role_ceo = (u = Role_ceo)"
  by (cases u; simp add: may_act_at_def CHAIN_RANK_def)+

definition submit_actions :: "workflow_action list" where
  "submit_actions =
    [Submit, Submit_hr_subject, Manager_submit, Manager_submit_hr_subject, Ceo_submit,
     Ceo_submit_hr_subject]"

definition approve_actions :: "workflow_action list" where
  "approve_actions =
    [Hr_approve, Hr_finalize_direct_ceo, Hr_approve_manager, Deputy_approve, Ceo_finalize]"

definition return_actions :: "workflow_action list" where
  "return_actions =
    [Hr_return, Deputy_return, Deputy_return_hr_subject, Ceo_return, Ceo_return_manager,
     Ceo_return_ceo_only, Ceo_return_no_deputy, Ceo_return_no_deputy_hr_subject,
     Ceo_return_manager_hr_subject]"

definition cancel_actions :: "workflow_action list" where
  "cancel_actions = [Cancel, Cancel_on_separation, Cancel_hr_subject]"

lemmas action_groups =
  submit_actions_def approve_actions_def return_actions_def cancel_actions_def

lemma action_in_some_group:
  "a \<in> set submit_actions \<or> a \<in> set approve_actions \<or> a \<in> set return_actions \<or> a \<in> set cancel_actions"
  by (cases a) (simp_all add: action_groups)

text \<open>
  A draft can be submitted in exactly one way: of the six submit actions exactly one passes its
  guard, whatever the chain of the record looks like, and its owner is the seat that wrote the scores.
\<close>

theorem exactly_one_submit_action:
  "\<exists>!a. a \<in> set submit_actions \<and> guard_holds (TRANSITIONS a) r \<and>
    assignee_field (TRANSITIONS a) =
      Some (scorer_field (unit_supervisor_user_id r) (deputy_user_id r))"
proof -
  obtain a where a: "a \<in> set submit_actions" "guard_holds (TRANSITIONS a) r"
    "assignee_field (TRANSITIONS a) = Some (scorer_field (unit_supervisor_user_id r) (deputy_user_id r))"
    by (cases "unit_supervisor_user_id r"; cases "deputy_user_id r"; cases "hr_review_skipped r")
      (force simp: action_groups guard_holds_def chain_shape scorer_field_def)+
  moreover have "b = a" if "b \<in> set submit_actions" "guard_holds (TRANSITIONS b) r" for b
    using a that by (auto simp: action_groups guard_holds_def chain_shape)
  ultimately show ?thesis by blast
qed

text \<open>
  Submitting and approving moves a record forward and returning it moves it back, in the order
  draft, submitted, hr_approved, deputy_approved, finalized; cancelling ends it; and no action at
  all is available on a finalized or cancelled record, to any user.
\<close>

theorem actions_move_as_named:
  assumes "transition_is_available r a user"
  shows "status r \<in> set OPEN_STATUSES \<and>
    (if a \<in> set (submit_actions @ approve_actions) then status r < to_status (TRANSITIONS a)
     else if a \<in> set return_actions then to_status (TRANSITIONS a) < status r
     else to_status (TRANSITIONS a) = Cancelled)"
  using assms by (cases a)
    (auto simp: available_iff action_groups OPEN_STATUSES_def status_order guard_holds_def)

text \<open>
  Only the holder of a seat acts on it: whoever takes an available action that has an owner holds
  that seat of the record, unless the action is one of the four of human resources and no colleague
  has claimed the record; and only a user with the role of human resources takes one of those.
\<close>

theorem only_seat_holders_act:
  assumes "transition_is_available r a user" and "assignee_field (TRANSITIONS a) = Some field"
  shows "seat field r = Some (cu_id user) \<or>
    (field = Hr_user_id \<and> hr_user_id r = None \<and> cu_role user = Role_hr \<and>
     a \<in> {Hr_approve, Hr_finalize_direct_ceo, Hr_approve_manager, Hr_return})"
  using assms by (cases a) (auto simp: available_iff may_take_def)

section \<open>Nothing gets stuck\<close>

text \<open>
  The seat whose turn it is and the action that moves the record on. A record that human resources
  does not review never waits for human resources.
\<close>

definition next_seat :: "evaluation_record \<Rightarrow> seat_field" where
  "next_seat r =
    (case status r of
       Draft \<Rightarrow> scorer_field (unit_supervisor_user_id r) (deputy_user_id r)
     | Submitted \<Rightarrow> Hr_user_id
     | Hr_approved \<Rightarrow> (if deputy_user_id r = None then Ceo_user_id else Deputy_user_id)
     | _ \<Rightarrow> Ceo_user_id)"

definition next_role :: "evaluation_record \<Rightarrow> user_role" where
  "next_role r = (case SEAT_ROLE (next_seat r) of Some x \<Rightarrow> x | None \<Rightarrow> Role_hr)"

definition next_action :: "evaluation_record \<Rightarrow> workflow_action" where
  "next_action r =
    (case status r of
       Draft \<Rightarrow>
         (if \<not> is_manager_path r then (if skips_hr_review r then Submit_hr_subject else Submit)
          else if \<not> is_ceo_only_path r
               then (if skips_hr_review r then Manager_submit_hr_subject else Manager_submit)
          else (if skips_hr_review r then Ceo_submit_hr_subject else Ceo_submit))
     | Submitted \<Rightarrow>
         (if \<not> is_manager_path r then Hr_approve
          else if hr_finalizes_record r then Hr_finalize_direct_ceo else Hr_approve_manager)
     | Hr_approved \<Rightarrow> (if skips_deputy r then Ceo_finalize else Deputy_approve)
     | _ \<Rightarrow> Ceo_finalize)"

definition awaits_no_hidden_review :: "evaluation_record \<Rightarrow> bool" where
  "awaits_no_hidden_review r \<longleftrightarrow> \<not> (hr_review_skipped r \<and> status r = Submitted)"

text \<open>
  No open record is stuck: as long as a record that skips human resources does not wait for
  them, the holder of the seat whose turn it is, with a role that reaches that stage (or any user of
  human resources while nobody has claimed the record), has an available action that moves it forward.
\<close>

lemma next_step_available:
  assumes "is_open r" and "awaits_no_hidden_review r"
    and "may_act_at (cu_role user) (next_role r)"
    and "seat (next_seat r) r = Some (cu_id user) \<or> (next_seat r = Hr_user_id \<and> hr_user_id r = None)"
  shows "transition_is_available r (next_action r) user \<and>
    status r < to_status (TRANSITIONS (next_action r))"
  using assms
  by (cases "status r"; cases "unit_supervisor_user_id r"; cases "deputy_user_id r"; cases "hr_review_skipped r")
    (auto simp: is_open_def OPEN_STATUSES_def awaits_no_hidden_review_def next_action_def next_seat_def
      next_role_def SEAT_ROLE_def scorer_field_def chain_shape available_iff guard_holds_def
      may_take_def status_order)

section \<open>Who signs\<close>

record signatory =
  sig_seat :: string
  sig_label :: string
  sig_user_id :: "int option"

text \<open>
  \<open>row_of\<close> remembers the row of a user who signs already, so that a second seat is added to it.
\<close>

definition sign_seat ::
  "evaluation_record \<Rightarrow> signatory list \<times> (int \<Rightarrow> nat option) \<Rightarrow> seat_field \<Rightarrow>
    signatory list \<times> (int \<Rightarrow> nat option)" where
  "sign_seat r acc field =
    (let (signatories, row_of) = acc;
         label = (case SEAT_LABEL field of Some l \<Rightarrow> l | None \<Rightarrow> '''')
     in case seat field r of
          None \<Rightarrow> (signatories, row_of)
        | Some u \<Rightarrow>
           (let (signed, rows) =
                  (case row_of u of
                     None \<Rightarrow>
                       (signatories @ [\<lparr>sig_seat = field_name field, sig_label = label,
                                        sig_user_id = Some u\<rparr>],
                        row_of(u \<mapsto> length signatories))
                   | Some i \<Rightarrow>
                       (signatories[i := (signatories ! i)
                          \<lparr>sig_seat := sig_seat (signatories ! i) @ ''+'' @ field_name field,
                           sig_label := sig_label (signatories ! i) @ '' and '' @ label\<rparr>],
                        row_of))
            in if field = scorer_field (unit_supervisor_user_id r) (deputy_user_id r)
                  \<and> \<not> skips_hr_review r
               then (signed @ [\<lparr>sig_seat = ''hr_user_id'', sig_label = HR_LABEL,
                                sig_user_id = hr_user_id r\<rparr>], rows)
               else (signed, rows)))"

definition document_signatories :: "evaluation_record \<Rightarrow> signatory list" where
  "document_signatories r = fst (foldl (sign_seat r) ([], Map.empty) SEAT_ORDER)"

lemma foldl_SEAT_ORDER: "foldl f z SEAT_ORDER = f (f (f z Unit_supervisor_user_id) Deputy_user_id) Ceo_user_id"
  by (simp add: SEAT_ORDER_def)

definition seat_holders :: "evaluation_record \<Rightarrow> int list" where
  "seat_holders r = List.map_filter (\<lambda>field. seat field r) SEAT_ORDER"

definition chain_rows :: "signatory list \<Rightarrow> signatory list" where
  "chain_rows rows = filter (\<lambda>s. sig_seat s \<noteq> ''hr_user_id'') rows"

lemmas signing =
  document_signatories_def foldl_SEAT_ORDER sign_seat_def Let_def seat_holders_def
  chain_rows_def SEAT_ORDER_def map_filter_simps scorer_field_def scorer_user_id_def SEAT_LABEL_def
  skips_hr_review_def

text \<open>
  Each decider signs once: apart from the row of human resources the signatories are the distinct
  holders of the seats, in the order of the chain, the scorer first. Human resources sign exactly when
  the record does not skip them, in one row, the one right after the scorer's.
\<close>

theorem signatories_are_the_deciders:
  "map sig_user_id (chain_rows (document_signatories r)) =
     map Some (rev (remdups (rev (seat_holders r)))) \<and>
   sig_user_id (document_signatories r ! 0) = scorer_user_id r \<and>
   length (document_signatories r) =
     length (chain_rows (document_signatories r)) + (if skips_hr_review r then 0 else 1) \<and>
   (skips_hr_review r \<or> document_signatories r ! 1 =
      \<lparr>sig_seat = ''hr_user_id'', sig_label = HR_LABEL, sig_user_id = hr_user_id r\<rparr>)"
proof -
  consider (none) "unit_supervisor_user_id r = None" "deputy_user_id r = None"
    | (deputy) d where "unit_supervisor_user_id r = None" "deputy_user_id r = Some d"
    | (supervisor) u where "unit_supervisor_user_id r = Some u" "deputy_user_id r = None"
    | (both) u d where "unit_supervisor_user_id r = Some u" "deputy_user_id r = Some d"
    by (cases "unit_supervisor_user_id r"; cases "deputy_user_id r") auto
  then show ?thesis
  proof cases
    case none
    then show ?thesis by (cases "hr_review_skipped r") (simp_all add: signing)
  next
    case (deputy d)
    then show ?thesis
      by (cases "hr_review_skipped r"; cases "d = ceo_user_id r") (simp_all add: signing)
  next
    case (supervisor u)
    then show ?thesis
      by (cases "hr_review_skipped r"; cases "u = ceo_user_id r") (simp_all add: signing)
  next
    case (both u d)
    then show ?thesis
      by (cases "hr_review_skipped r"; cases "u = d"; cases "u = ceo_user_id r"; cases "d = ceo_user_id r")
        (simp_all add: signing)
  qed
qed

section \<open>Witnesses\<close>

text \<open>A record with a full chain; the witnesses vary its seats and its status.\<close>

definition sample_record :: evaluation_record where
  "sample_record =
    \<lparr>record_id = 1, evaluation_code = ''EVL-0001'', verify_token = None, subject_personnel_id = 50,
     unit_supervisor_user_id = Some 11, deputy_user_id = Some 12, ceo_user_id = 13, hr_user_id = None,
     hr_review_skipped = False, period_id = None, scoring_scheme_id = None,
     indicator_framework_id = None, status = Draft, base_weighted_pct = None,
     general_score_pct = None, specialized_score_pct = None, final_weighted_pct = None,
     recommendation = None, bonus_points = None, bonus_reason = None, evaluator_comment = None,
     final_snapshot = None, created_at = 0, stage_entered_at = 0, finalized_at = None,
     acknowledged_at = None, acknowledged_by_user_id = None, self_assessment_submitted_at = None,
     self_assessment_note = None, self_assessment_invited_at = None,
     self_assessment_invited_by_user_id = None, submission_extended_until = None,
     submission_extended_at = None, submission_extended_by_user_id = None,
     submission_extension_reason = None, objection_at = None, objection_reason = None,
     objection_resolved_at = None, objection_resolution = None, objection_resolved_by_user_id = None\<rparr>"

definition person :: "int \<Rightarrow> user_role \<Rightarrow> current_user" where
  "person k r = \<lparr>cu_id = k, cu_role = r, cu_personnel_id = None\<rparr>"

lemma person_fields [simp]:
  "cu_id (person k r) = k" "cu_role (person k r) = r" "cu_personnel_id (person k r) = None"
  by (simp_all add: person_def)

lemma sample_submit_available: "transition_is_available sample_record Submit (person 11 Role_unit_supervisor)"
  by (simp add: available_iff guard_holds_def may_take_def chain_shape sample_record_def)

theorem actions_move_as_named_witness:
  "status sample_record < to_status (TRANSITIONS Submit)"
  using actions_move_as_named [OF sample_submit_available]
  by (simp add: submit_actions_def del: TRANSITIONS_simps)

theorem only_seat_holders_act_witness:
  "seat Unit_supervisor_user_id sample_record = Some (cu_id (person 11 Role_unit_supervisor)) \<or>
    hr_user_id sample_record = None \<and> cu_role (person 11 Role_unit_supervisor) = Role_hr"
  using only_seat_holders_act [OF sample_submit_available, of Unit_supervisor_user_id] by auto

end
