(* ===== verification/SelfEvaluation.thy ===== *)
theory SelfEvaluation
  imports Transitions
begin

text \<open>
  Sites and units (\<open>app/services/org_unit.py\<close>) and the guards of \<open>app/services/self_evaluation.py\<close>:
  nobody scores or decides about themselves, the chain has no redundant stage, human resources keep
  away from the records of their own unit, and who administers a record.
\<close>

section \<open>Sites and units\<close>

definition SEPARATORS :: "utext list" where
  "SEPARATORS = [[47], [8212], [32, 45, 32]]"

definition CANONICAL_SEPARATOR :: utext where
  "CANONICAL_SEPARATOR = [32, 47, 32]"

text \<open>\<open>s.partition(sep)\<close> for a separator that occurs; \<open>None\<close> when it does not.\<close>

fun partition_at :: "utext \<Rightarrow> utext \<Rightarrow> (utext \<times> utext) option" where
  "partition_at sep [] = (if sep = [] then Some ([], []) else None)"
| "partition_at sep (c # cs) =
    (if take (length sep) (c # cs) = sep then Some ([], drop (length sep) (c # cs))
     else map_option (\<lambda>(a, b). (c # a, b)) (partition_at sep cs))"

fun split_with :: "utext list \<Rightarrow> utext \<Rightarrow> utext option \<times> utext" where
  "split_with [] unit_text = (None, strip unit_text)"
| "split_with (separator # rest) unit_text =
    (case partition_at separator unit_text of
       None \<Rightarrow> split_with rest unit_text
     | Some (site, unit) \<Rightarrow>
        (if strip site \<noteq> [] \<and> strip unit \<noteq> [] then (Some (strip site), strip unit)
         else split_with rest unit_text))"

definition split_site :: "utext \<Rightarrow> utext option \<times> utext" where
  "split_site unit_text = split_with SEPARATORS unit_text"

definition site_of :: "utext \<Rightarrow> utext option" where
  "site_of unit_text = fst (split_site unit_text)"

definition join_site :: "utext option \<Rightarrow> utext \<Rightarrow> utext" where
  "join_site site unit =
    (let unit' = strip unit; site' = strip (case site of None \<Rightarrow> [] | Some s \<Rightarrow> s)
     in if site' \<noteq> [] \<and> unit' \<noteq> [] then site' @ CANONICAL_SEPARATOR @ unit' else unit')"

definition units_in_site :: "utext list \<Rightarrow> utext \<Rightarrow> utext list" where
  "units_in_site all_units site = filter (\<lambda>unit. site_of unit = Some (strip site)) all_units"

definition unit_full_name :: "org_unit_row \<Rightarrow> utext" where
  "unit_full_name u = join_site (unit_site u) (unit_name u)"

section \<open>Guards against self-evaluation\<close>

definition ensure_evaluators_are_not_the_subject ::
  "database \<Rightarrow> int \<Rightarrow> int option list \<Rightarrow> unit http" where
  "ensure_evaluators_are_not_the_subject db personnel evaluator_user_ids =
    (let candidate_ids = List.map_filter (\<lambda>u. u) evaluator_user_ids
     in if candidate_ids = [] then Inr ()
        else case find (\<lambda>u. user_id u \<in> set candidate_ids \<and> user_personnel_id u = Some personnel)
                    (t_users db) of
               Some _ \<Rightarrow> Inl (HTTPException 400 ''evaluator is the subject'')
             | None \<Rightarrow> Inr ())"

definition REDUNDANT_PAIRS :: "(seat_field \<times> seat_field) list" where
  "REDUNDANT_PAIRS = [(Unit_supervisor_user_id, Deputy_user_id), (Deputy_user_id, Ceo_user_id)]"

definition ensure_chain_stages_are_not_redundant ::
  "int option \<Rightarrow> int option \<Rightarrow> int option \<Rightarrow> unit http" where
  "ensure_chain_stages_are_not_redundant unit_supervisor deputy ceo =
    (let seats = (\<lambda>f. case f of Unit_supervisor_user_id \<Rightarrow> unit_supervisor | Deputy_user_id \<Rightarrow> deputy
                      | Ceo_user_id \<Rightarrow> ceo | Hr_user_id \<Rightarrow> None)
     in raise_if (\<exists>(first, second) \<in> set REDUNDANT_PAIRS.
            seats first \<noteq> None \<and> seats second \<noteq> None \<and> seats first = seats second)
          (HTTPException 400 ''two stages for one person''))"

definition hr_unit_personnel_ids :: "database \<Rightarrow> int list \<Rightarrow> int list" where
  "hr_unit_personnel_ids db personnel_ids =
    (if personnel_ids = [] then []
     else let names = map unit_full_name (filter is_hr_unit (t_org_units db))
          in if names = [] then []
             else map personnel_id
               (filter (\<lambda>p. personnel_id p \<in> set personnel_ids \<and> org_unit p \<in> set names)
                  (t_personnel db)))"

definition subject_belongs_to_hr :: "database \<Rightarrow> int \<Rightarrow> bool" where
  "subject_belongs_to_hr db p \<longleftrightarrow> p \<in> set (hr_unit_personnel_ids db [p])"

definition ensure_not_deciding_about_oneself :: "evaluation_record \<Rightarrow> current_user \<Rightarrow> unit http" where
  "ensure_not_deciding_about_oneself r user =
    (if cu_personnel_id user = None then Inr ()
     else if cu_personnel_id user \<noteq> Some (subject_personnel_id r) then Inr ()
     else Inl (HTTPException 403 ''a decision about oneself''))"

definition ensure_hr_may_handle :: "evaluation_record \<Rightarrow> current_user \<Rightarrow> unit http" where
  "ensure_hr_may_handle r user =
    bindE (ensure_not_deciding_about_oneself r user) (\<lambda>_.
      if cu_role user \<noteq> Role_hr then Inr ()
      else if \<not> hr_panel_is_shielded r then Inr ()
      else Inl (HTTPException 403 ''a record of the own unit''))"

definition ensure_may_administer :: "evaluation_record \<Rightarrow> current_user \<Rightarrow> unit http" where
  "ensure_may_administer r user =
    (if cu_role user = Role_hr then ensure_hr_may_handle r user
     else bindE (ensure_not_deciding_about_oneself r user) (\<lambda>_.
       (let administrative = HTTPException 403 ''administered by human resources''
        in bindE (raise_if (cu_role user \<notin> {Role_deputy, Role_ceo}) administrative) (\<lambda>_.
           bindE (raise_if (\<not> hr_panel_is_shielded r) administrative) (\<lambda>_.
             if cu_role user = Role_ceo \<or> Some (cu_id user) = deputy_user_id r then Inr ()
             else Inl (HTTPException 403 ''not your record''))))))"

definition ensure_personnel_has_one_account ::
  "database \<Rightarrow> int \<Rightarrow> int option \<Rightarrow> unit http" where
  "ensure_personnel_has_one_account db personnel exclude_user_id =
    (case find (\<lambda>u. user_personnel_id u = Some personnel \<and> user_is_active u \<and>
                  (exclude_user_id = None \<or> Some (user_id u) \<noteq> exclude_user_id)) (t_users db) of
       Some _ \<Rightarrow> Inl (HTTPException 400 ''second account of a person'')
     | None \<Rightarrow> Inr ())"

definition ensure_user_link_is_not_self_evaluation ::
  "database \<Rightarrow> user \<Rightarrow> int \<Rightarrow> unit http" where
  "ensure_user_link_is_not_self_evaluation db user personnel =
    (let is_evaluator_on_access = find (\<lambda>a. acc_personnel_id a = personnel \<and>
            (acc_unit_supervisor_user_id a = Some (user_id user) \<or>
             acc_deputy_user_id a = Some (user_id user) \<or> acc_ceo_user_id a = user_id user)) (t_access db);
         is_evaluator_on_record = find (\<lambda>r. subject_personnel_id r = personnel \<and>
            (unit_supervisor_user_id r = Some (user_id user) \<or>
             deputy_user_id r = Some (user_id user) \<or> ceo_user_id r = user_id user)) (t_evaluations db)
     in raise_if (is_evaluator_on_access \<noteq> None \<or> is_evaluator_on_record \<noteq> None)
          (HTTPException 400 ''link makes a self-evaluation''))"

section \<open>Lemmas\<close>

lemma partition_at_slash:
  "47 \<notin> set s \<Longrightarrow> partition_at [47] (s @ 47 # t) = Some (s, t)"
  by (induction s) auto

lemma strip_append_space:
  assumes "strip s = s"
  shows "strip (s @ [32]) = s" and "strip (32 # s) = s"
proof -
  have sp: "is_space 32" by (simp add: is_space_def)
  show "strip (32 # s) = s" using assms sp by (simp add: strip_def)
  show "strip (s @ [32]) = s"
  proof (cases "dropWhile is_space s = []")
    case True
    then have "s = []" using assms unfolding strip_def True by simp
    then show ?thesis using sp by (simp add: strip_def)
  next
    case False
    then have "dropWhile is_space (s @ [32]) = dropWhile is_space s @ [32]"
      by (metis dropWhile_append1 dropWhile_eq_Nil_conv)
    then show ?thesis using assms sp by (simp add: strip_def)
  qed
qed

lemma ensure_not_oneself_iff [simp]:
  "ensure_not_deciding_about_oneself r user = Inr () \<longleftrightarrow>
    cu_personnel_id user \<noteq> Some (subject_personnel_id r)"
  by (auto simp: ensure_not_deciding_about_oneself_def)

lemma ensure_hr_may_handle_iff [simp]:
  "ensure_hr_may_handle r user = Inr () \<longleftrightarrow>
    cu_personnel_id user \<noteq> Some (subject_personnel_id r) \<and>
    (cu_role user \<noteq> Role_hr \<or> \<not> hr_panel_is_shielded r)"
  by (auto simp: ensure_hr_may_handle_def)

lemma redundant_iff:
  "ensure_chain_stages_are_not_redundant u d c = Inr () \<longleftrightarrow>
    (u = None \<or> u \<noteq> d) \<and> (d = None \<or> d \<noteq> c)"
  by (auto simp: ensure_chain_stages_are_not_redundant_def REDUNDANT_PAIRS_def)

section \<open>Properties\<close>

text \<open>
  Writing a site and a unit together and taking them apart again gives them back, for every
  stripped, non-empty site that contains no slash and every stripped, non-empty unit.
\<close>

theorem split_site_of_join_site:
  assumes "strip site = site" and "site \<noteq> []" and "47 \<notin> set site" and "strip unit = unit" and "unit \<noteq> []"
  shows "split_site (join_site (Some site) unit) = (Some site, unit)"
proof -
  have "join_site (Some site) unit = (site @ [32]) @ 47 # 32 # unit"
    using assms by (simp add: join_site_def CANONICAL_SEPARATOR_def)
  moreover have "partition_at [47] ((site @ [32]) @ 47 # 32 # unit) = Some (site @ [32], 32 # unit)"
    by (rule partition_at_slash) (use assms(3) in simp)
  ultimately show ?thesis
    using assms by (simp add: split_site_def SEPARATORS_def strip_append_space)
qed

text \<open>
  Who administers a record is settled: nobody administers the record they are the subject of; an
  open record of a member of human resources is administered by the chief executive or by the deputy
  of its own chain and by nobody of human resources; every other record by human resources alone.
\<close>

theorem administration_of_a_record:
  "ensure_may_administer r user = Inr () \<longleftrightarrow>
    cu_personnel_id user \<noteq> Some (subject_personnel_id r) \<and>
    (if hr_panel_is_shielded r
     then cu_role user = Role_ceo \<or> (cu_role user = Role_deputy \<and> deputy_user_id r = Some (cu_id user))
     else cu_role user = Role_hr)"
  by (auto simp: ensure_may_administer_def Let_def)

section \<open>Witnesses\<close>

theorem split_site_of_join_site_witness:
  "split_site (join_site (Some (ascii ''Head office'')) (ascii ''Sales'')) =
    (Some (ascii ''Head office''), ascii ''Sales'')"
  by (rule split_site_of_join_site) (simp_all add: ascii_def strip_def is_space_def)

end
