(* ===== verification/Seats.thy ===== *)
theory Seats
  imports Transitions
begin

text \<open>
  Seats of open records and of the chains people are assigned to (first part of
  \<open>app/services/evaluation.py\<close>): which assigned evaluators are inactive, which seats a user holds
  in open records, and the code of a new record.
\<close>

definition CHAIN_SEATS :: "(string \<times> seat_field) list" where
  "CHAIN_SEATS =
    [(''supervisor'', Unit_supervisor_user_id), (''deputy'', Deputy_user_id), (''ceo'', Ceo_user_id)]"

fun access_seat :: "seat_field \<Rightarrow> evaluation_access \<Rightarrow> int option" where
  "access_seat Unit_supervisor_user_id a = acc_unit_supervisor_user_id a"
| "access_seat Deputy_user_id a = acc_deputy_user_id a"
| "access_seat Ceo_user_id a = Some (acc_ceo_user_id a)"
| "access_seat Hr_user_id a = None"

definition inactive_seat_labels :: "database \<Rightarrow> evaluation_access \<Rightarrow> string list" where
  "inactive_seat_labels db access =
    map fst (filter (\<lambda>(label, field).
      case access_seat field access of
        None \<Rightarrow> False
      | Some u \<Rightarrow> (case get_user db u of None \<Rightarrow> True | Some user \<Rightarrow> \<not> user_is_active user)) CHAIN_SEATS)"

definition SEATS_ON_RECORD :: "(string \<times> seat_field) list" where
  "SEATS_ON_RECORD = CHAIN_SEATS @ [(''hr'', Hr_user_id)]"

record occupied_seat =
  occ_record_id :: int
  occ_code :: string
  occ_label :: string
  occ_shielded :: bool
  occ_deputy_user_id :: "int option"
  occ_ceo_user_id :: "int option"

definition occupied_seats_in_open_records :: "database \<Rightarrow> int \<Rightarrow> occupied_seat list" where
  "occupied_seats_in_open_records db u =
    concat (map (\<lambda>r.
      List.map_filter (\<lambda>(label, field).
        if seat field r = Some u then
          Some \<lparr>occ_record_id = record_id r, occ_code = evaluation_code r, occ_label = label,
                occ_shielded = hr_panel_is_shielded r, occ_deputy_user_id = deputy_user_id r,
                occ_ceo_user_id = Some (ceo_user_id r)\<rparr>
        else None) SEATS_ON_RECORD)
      (sort_key record_id
        (filter (\<lambda>r. is_open r \<and> (\<exists>(_, field) \<in> set SEATS_ON_RECORD. seat field r = Some u))
          (t_evaluations db))))"

definition ensure_no_open_chain_seat :: "database \<Rightarrow> int \<Rightarrow> unit http" where
  "ensure_no_open_chain_seat db u =
    (if occupied_seats_in_open_records db u = [] then Inr ()
     else Inl (HTTPException 409 ''seats in open records''))"

text \<open>The value of the sequence and the code \<open>EVL-0001\<close>, \<open>EVL-0002\<close>, ... built from it.\<close>

definition evaluation_code_of :: "int \<Rightarrow> string" where
  "evaluation_code_of n = ''EVL-'' @ pad4 (str_int n)"

definition next_evaluation_code :: "database \<Rightarrow> database \<times> string" where
  "next_evaluation_code db =
    (let n = t_code_seq db + 1 in (db\<lparr>t_code_seq := n\<rparr>, evaluation_code_of n))"

lemma in_occupied_seats:
  "occupied_seats_in_open_records db u = [] \<longleftrightarrow>
    (\<forall>r \<in> set (t_evaluations db). is_open r \<longrightarrow> (\<forall>field. seat field r \<noteq> Some u))"
proof -
  have fields: "(\<exists>(_, field) \<in> set SEATS_ON_RECORD. seat field r = Some u) \<longleftrightarrow> (\<exists>field. seat field r = Some u)" for r
  proof
    assume "\<exists>field. seat field r = Some u"
    then obtain field where "seat field r = Some u" by blast
    then show "\<exists>(_, field) \<in> set SEATS_ON_RECORD. seat field r = Some u"
      by (cases field) (auto simp: SEATS_ON_RECORD_def CHAIN_SEATS_def)
  qed auto
  have some: "List.map_filter f SEATS_ON_RECORD = [] \<longleftrightarrow> (\<forall>x \<in> set SEATS_ON_RECORD. f x = None)"
    for f :: "_ \<Rightarrow> occupied_seat option"
    by (simp add: SEATS_ON_RECORD_def CHAIN_SEATS_def map_filter_simps split: option.splits)
  have none: "List.map_filter (\<lambda>(label, field). if seat field r = Some u then Some (g label) else None)
      SEATS_ON_RECORD = [] \<longleftrightarrow> \<not> (\<exists>(_, field) \<in> set SEATS_ON_RECORD. seat field r = Some u)"
    for g :: "string \<Rightarrow> occupied_seat" and r
    by (auto simp: some split: if_splits)
  show ?thesis
    unfolding occupied_seats_in_open_records_def concat_eq_Nil_conv set_map set_sort set_filter
      ball_simps none fields
    by blast
qed

text \<open>
  A user may be deactivated or change role only when no open record needs them: the check lets
  a user go exactly when they hold none of the four seats in any open record.
\<close>

theorem seat_check_exact:
  "ensure_no_open_chain_seat db u = Inr () \<longleftrightarrow>
    list_all (\<lambda>r. if is_open r then unit_supervisor_user_id r \<noteq> Some u \<and> deputy_user_id r \<noteq> Some u
        \<and> ceo_user_id r \<noteq> u \<and> hr_user_id r \<noteq> Some u else True) (t_evaluations db)"
proof -
  have "(\<forall>field. seat field r \<noteq> Some u) \<longleftrightarrow> unit_supervisor_user_id r \<noteq> Some u \<and>
      deputy_user_id r \<noteq> Some u \<and> ceo_user_id r \<noteq> u \<and> hr_user_id r \<noteq> Some u" for r
    by (metis (full_types) option.inject seat.simps seat_field.exhaust)
  then show ?thesis
    by (auto simp: ensure_no_open_chain_seat_def in_occupied_seats list_all_iff)
qed

end
