(* ===== verification/Notifications.thy ===== *)
theory Notifications
  imports Seats Authorization
begin

text \<open>
  Notifications (\<open>app/services/notifications.py\<close>) and the queue of outgoing messages they feed
  (\<open>enqueue_for\<close> of \<open>app/services/delivery.py\<close>). The Persian text of a message is not modelled: a
  notification is its recipient, type, link and record. \<open>set(user_ids)\<close> is \<open>remdups\<close>.
\<close>

section \<open>Outgoing messages\<close>

definition OUTBOUND_TYPES :: "string list" where
  "OUTBOUND_TYPES =
    [''workflow_hr_approve'', ''workflow_deputy_approve'', ''workflow_reassigned'',
     ''workflow_hr_return'', ''workflow_deputy_return'', ''workflow_ceo_return'',
     ''evaluation_finalized_self'', ''sla_reminder'', ''contract_expiry'', ''improvement_review_due'',
     ''orphaned_case'', ''bulk_evaluations_assigned'']"

definition nonempty_text :: "utext option \<Rightarrow> utext option" where
  "nonempty_text t = (if t = Some [] then None else t)"

fun recipient_for :: "user \<Rightarrow> delivery_channel \<Rightarrow> utext option" where
  "recipient_for u Email = (if notify_by_email u then nonempty_text (email u) else None)"
| "recipient_for u Sms = (if notify_by_sms u then nonempty_text (phone u) else None)"

definition queue_delivery :: "env \<Rightarrow> notification \<Rightarrow> user \<Rightarrow> delivery_channel \<Rightarrow> database \<Rightarrow> database" where
  "queue_delivery env n u kind db =
    (case recipient_for u kind of
       None \<Rightarrow> db
     | Some address \<Rightarrow>
        db\<lparr>t_deliveries := t_deliveries db @
          [\<lparr>delivery_id = next_id delivery_id (t_deliveries db), dlv_notification_id = notification_id n,
            dlv_channel = kind, recipient = address, dlv_status = Delivery_pending, attempts = 0,
            last_attempt_at = None, last_error = None, sent_at = None, dlv_created_at = now env\<rparr>]\<rparr>)"

definition enqueue_for :: "env \<Rightarrow> notification \<Rightarrow> database \<Rightarrow> database" where
  "enqueue_for env n db =
    (if ntf_type n \<notin> set OUTBOUND_TYPES then db
     else let configured = remdups (channels_available env)
          in if configured = [] then db
             else case get_user db (ntf_user_id n) of
                    None \<Rightarrow> db
                  | Some u \<Rightarrow> if \<not> user_is_active u then db
                              else fold (queue_delivery env n u) configured db)"

definition queue_outbound :: "env \<Rightarrow> notification \<Rightarrow> database \<Rightarrow> database" where
  "queue_outbound env n db =
    (if \<not> is_module_enabled db ''outbound_notifications'' then db else enqueue_for env n db)"

section \<open>Notifying\<close>

definition notify_one ::
  "env \<Rightarrow> string \<Rightarrow> int option \<Rightarrow> string option \<Rightarrow> string option \<Rightarrow> int \<Rightarrow> database \<Rightarrow> database" where
  "notify_one env kind rid link key u db =
    (let n = \<lparr>notification_id = next_id notification_id (t_notifications db), ntf_user_id = u,
              ntf_type = kind, ntf_link = link, ntf_record_id = rid, dedup_key = key,
              ntf_created_at = now env, read_at = None\<rparr>
     in queue_outbound env n (db\<lparr>t_notifications := t_notifications db @ [n]\<rparr>))"

definition notify ::
  "env \<Rightarrow> int list \<Rightarrow> string \<Rightarrow> int option \<Rightarrow> string option \<Rightarrow> database \<Rightarrow> database" where
  "notify env user_ids kind rid link db =
    fold (notify_one env kind rid link None) (remdups user_ids) db"

definition already_notified :: "env \<Rightarrow> database \<Rightarrow> string list \<Rightarrow> int \<Rightarrow> (int \<times> string) list" where
  "already_notified env db keys day_count =
    List.map_filter (\<lambda>n. case dedup_key n of
        Some k \<Rightarrow> if k \<in> set keys \<and> now env - days day_count \<le> ntf_created_at n
                  then Some (ntf_user_id n, k) else None
      | None \<Rightarrow> None) (t_notifications db)"

text \<open>With \<open>seen = None\<close> the database is asked, otherwise the given set decides and is extended.\<close>

definition notify_once ::
  "env \<Rightarrow> int \<Rightarrow> string \<Rightarrow> string \<Rightarrow> int \<Rightarrow> int option \<Rightarrow> string option \<Rightarrow> (int \<times> string) list option \<Rightarrow>
    database \<Rightarrow> database \<times> (int \<times> string) list option \<times> bool" where
  "notify_once env u kind key day_count rid link seen db =
    (case seen of
       Some s \<Rightarrow>
         if (u, key) \<in> set s then (db, seen, False)
         else (notify_one env kind rid link (Some key) u db, Some ((u, key) # s), True)
     | None \<Rightarrow>
         if (\<exists>n \<in> set (t_notifications db). ntf_user_id n = u \<and> dedup_key n = Some key \<and>
               now env - days day_count \<le> ntf_created_at n)
         then (db, None, False)
         else (notify_one env kind rid link (Some key) u db, None, True))"

section \<open>Recipients\<close>

definition hr_queue_ids :: "database \<Rightarrow> evaluation_record \<Rightarrow> int list" where
  "hr_queue_ids db r =
    map user_id (filter (\<lambda>u. user_role u = Role_hr \<and> user_is_active u \<and>
      (user_personnel_id u = None \<or> user_personnel_id u \<noteq> Some (subject_personnel_id r))) (t_users db))"

definition active_hr_ids :: "database \<Rightarrow> int list" where
  "active_hr_ids db = map user_id (filter (\<lambda>u. user_role u = Role_hr \<and> user_is_active u) (t_users db))"

definition active_user_ids_with_role :: "database \<Rightarrow> user_role \<Rightarrow> int list" where
  "active_user_ids_with_role db r =
    map user_id (filter (\<lambda>u. user_role u = r \<and> user_is_active u) (t_users db))"

definition employee_results_are_visible :: "database \<Rightarrow> bool" where
  "employee_results_are_visible db \<longleftrightarrow> is_module_enabled db ''employee_evaluation_visibility''"

definition subject_user_ids :: "database \<Rightarrow> int \<Rightarrow> int list" where
  "subject_user_ids db p =
    map user_id (filter (\<lambda>u. user_personnel_id u = Some p \<and> user_is_active u) (t_users db))"

definition tell_the_scorer :: "evaluation_record \<Rightarrow> int option \<Rightarrow> int list" where
  "tell_the_scorer r evaluator =
    (case evaluator of None \<Rightarrow> [] | Some e \<Rightarrow> if e = ceo_user_id r then [] else [e])"

definition option_list :: "'a option \<Rightarrow> 'a list" where
  "option_list x = (case x of None \<Rightarrow> [] | Some a \<Rightarrow> [a])"

definition is_cancel :: "workflow_action \<Rightarrow> bool" where
  "is_cancel a \<longleftrightarrow> a \<in> set cancel_actions"

definition workflow_recipients :: "database \<Rightarrow> evaluation_record \<Rightarrow> workflow_action \<Rightarrow> int list" where
  "workflow_recipients db r action =
    (let (_, evaluator) = scorer_seat r;
         after_hr = owner_after_hr_review r
     in if action \<in> {Submit, Manager_submit, Ceo_submit} then hr_queue_ids db r
        else if action = Submit_hr_subject then [after_hr]
        else if action \<in> {Manager_submit_hr_subject, Ceo_submit_hr_subject} then [ceo_user_id r]
        else if action = Hr_approve then [after_hr]
        else if action = Hr_approve_manager then [ceo_user_id r]
        else if action = Deputy_approve then [ceo_user_id r]
        else if action = Ceo_finalize then tell_the_scorer r evaluator
        else if action = Hr_finalize_direct_ceo then [ceo_user_id r]
        else if action = Hr_return then option_list evaluator
        else if action = Deputy_return then hr_queue_ids db r
        else if action \<in> {Deputy_return_hr_subject, Ceo_return_manager_hr_subject, Ceo_return_ceo_only}
        then tell_the_scorer r evaluator
        else if action = Ceo_return then [after_hr]
        else if action = Ceo_return_manager then hr_queue_ids db r
        else if is_cancel action
        then option_list (unit_supervisor_user_id r) @ option_list (deputy_user_id r) @ [ceo_user_id r]
        else [])"

definition evaluation_link :: "evaluation_record \<Rightarrow> string" where
  "evaluation_link r = ''/evaluations/'' @ str_int (record_id r)"

definition notify_for_workflow_action ::
  "env \<Rightarrow> evaluation_record \<Rightarrow> workflow_action \<Rightarrow> database \<Rightarrow> database" where
  "notify_for_workflow_action env r action db =
    (let recipients = workflow_recipients db r action;
         db1 = (if recipients = [] then db
                else notify env recipients
                  (if is_cancel action then ''workflow_cancel'' else ''workflow_'' @ action_name action)
                  (Some (record_id r)) (Some (evaluation_link r)) db)
     in if action \<in> {Ceo_finalize, Hr_finalize_direct_ceo}
        then (let subject_ids = subject_user_ids db1 (subject_personnel_id r)
              in if subject_ids \<noteq> [] \<and> employee_results_are_visible db1
                 then notify env subject_ids ''evaluation_finalized_self'' (Some (record_id r))
                        (Some ''/me'') db1
                 else db1)
        else db1)"

definition notify_stage_owner_reassigned :: "env \<Rightarrow> evaluation_record \<Rightarrow> int \<Rightarrow> database \<Rightarrow> database" where
  "notify_stage_owner_reassigned env r new_owner db =
    notify env [new_owner] ''workflow_reassigned'' (Some (record_id r)) (Some (evaluation_link r)) db"

section \<open>Vacated seats\<close>

definition comma_separated :: "string list \<Rightarrow> string" where
  "comma_separated xs = concat (map (\<lambda>(i, x). (if i = 0 then [] else '','') @ x) (enumerate 0 xs))"

definition seat_fingerprint :: "occupied_seat list \<Rightarrow> string" where
  "seat_fingerprint seats =
    take 16 (digest_of_text (ascii (comma_separated (sort (remdups (map occ_code seats))))))"

definition vacated_key :: "int \<Rightarrow> occupied_seat list \<Rightarrow> string" where
  "vacated_key u seats = ''seats_vacated:'' @ str_int u @ '':'' @ seat_fingerprint seats"

definition notify_counting ::
  "env \<Rightarrow> string \<Rightarrow> string option \<Rightarrow> int \<Rightarrow> database \<times> nat \<Rightarrow> database \<times> nat" where
  "notify_counting env key link recipient_id acc =
    (let (db, created) = acc;
         (db', _, sent) = notify_once env recipient_id ''seats_vacated'' key
            (notification_dedup_days (cfg env)) None link None db
     in (db', if sent then created + 1 else created))"

text \<open>The shielded seats grouped by the people who are told, in the order in which they first occur.\<close>

definition shielded_recipients :: "int \<Rightarrow> occupied_seat list \<Rightarrow> (int \<times> occupied_seat list) list" where
  "shielded_recipients u seats =
    (let told = (\<lambda>s. filter (\<lambda>x. x \<noteq> u) (option_list (occ_deputy_user_id s) @ option_list (occ_ceo_user_id s)));
         ids = rev (remdups (rev (concat (map told seats))))
     in map (\<lambda>k. (k, concat (map (\<lambda>s. map (\<lambda>_. s) (filter (\<lambda>x. x = k) (told s))) seats))) ids)"

definition notify_shielded_seats ::
  "env \<Rightarrow> int \<Rightarrow> occupied_seat list \<Rightarrow> database \<Rightarrow> database \<times> nat" where
  "notify_shielded_seats env u seats db =
    fold (\<lambda>(k, own) acc.
        let record_ids = remdups (map occ_record_id own)
        in if (case get_user db k of None \<Rightarrow> False | Some usr \<Rightarrow> user_is_active usr)
           then notify_counting env (vacated_key u own)
                  (case record_ids of [i] \<Rightarrow> Some (''/evaluations/'' @ str_int i) | _ \<Rightarrow> None) k acc
           else acc)
      (shielded_recipients u seats) (db, 0)"

definition notify_vacated_seats :: "env \<Rightarrow> int \<Rightarrow> database \<Rightarrow> database \<times> nat" where
  "notify_vacated_seats env u db =
    (let seats = occupied_seats_in_open_records db u;
         open_seats = filter (\<lambda>s. \<not> occ_shielded s) seats;
         acc = (if open_seats = [] then (db, 0)
                else fold (notify_counting env (vacated_key u open_seats)
                       (Some (''/hr/queue?seat_user_id='' @ str_int u @ ''&tab=all'')))
                     (active_hr_ids db) (db, 0));
         (db', shielded_created) = notify_shielded_seats env u (filter occ_shielded seats) (fst acc)
     in if seats = [] then (db, 0) else (db', snd acc + shielded_created))"

section \<open>Notifying touches nothing else\<close>

definition only_messages :: "database \<Rightarrow> database \<Rightarrow> bool" where
  "only_messages db db' \<longleftrightarrow> (\<exists>ns ds. db' = db\<lparr>t_notifications := ns, t_deliveries := ds\<rparr>)"

lemma only_messages_refl [simp, intro]: "only_messages db db"
  unfolding only_messages_def by (intro exI [of _ "t_notifications db"] exI [of _ "t_deliveries db"]) simp

lemma only_messages_trans:
  assumes "only_messages a b" and "only_messages b c"
  shows "only_messages a c"
proof -
  obtain ns ds ns' ds' where "b = a\<lparr>t_notifications := ns, t_deliveries := ds\<rparr>"
    "c = b\<lparr>t_notifications := ns', t_deliveries := ds'\<rparr>"
    using assms by (auto simp: only_messages_def)
  then have "c = a\<lparr>t_notifications := ns', t_deliveries := ds'\<rparr>" by simp
  then show ?thesis unfolding only_messages_def by blast
qed

lemma only_messages_fold:
  "(\<And>x db. only_messages db (f x db)) \<Longrightarrow> only_messages db (fold f xs db)"
  by (induction xs arbitrary: db) (auto intro: only_messages_trans)

lemma only_messages_deliveries [intro]: "only_messages db (db\<lparr>t_deliveries := ds\<rparr>)"
  unfolding only_messages_def by (intro exI [of _ "t_notifications db"] exI [of _ ds]) simp

lemma only_messages_notifications: "only_messages db (db\<lparr>t_notifications := ns\<rparr>)"
  unfolding only_messages_def by (intro exI [of _ ns] exI [of _ "t_deliveries db"]) simp

lemma only_messages_tables:
  assumes "only_messages db db'"
  shows "t_users db' = t_users db" "t_personnel db' = t_personnel db"
    "t_org_units db' = t_org_units db" "t_access db' = t_access db"
    "t_evaluations db' = t_evaluations db" "t_scores db' = t_scores db"
    "t_comments db' = t_comments db" "t_self_scores db' = t_self_scores db"
    "t_indicators db' = t_indicators db" "t_frameworks db' = t_frameworks db"
    "t_schemes db' = t_schemes db" "t_periods db' = t_periods db"
    "t_capabilities db' = t_capabilities db" "t_modules db' = t_modules db"
    "t_code_seq db' = t_code_seq db" "t_audit_log db' = t_audit_log db"
    "t_plans db' = t_plans db"
    "t_goals db' = t_goals db"
    "t_sessions db' = t_sessions db"
    "t_login_attempts db' = t_login_attempts db"
    "t_conversations db' = t_conversations db"
    "t_pending_actions db' = t_pending_actions db"
    "t_chain_checks db' = t_chain_checks db"
  using assms by (auto simp: only_messages_def)

lemma queue_outbound_messages: "only_messages db (queue_outbound env n db)"
proof -
  have "only_messages d (queue_delivery env n u kind d)" for u kind d
    by (auto simp: queue_delivery_def split: option.splits)
  then show ?thesis
    by (auto simp: queue_outbound_def enqueue_for_def Let_def
        intro: only_messages_fold split: option.splits)
qed

lemma notify_one_messages: "only_messages db (notify_one env kind rid link key u db)"
  unfolding notify_one_def Let_def
  by (rule only_messages_trans [OF only_messages_notifications queue_outbound_messages])

lemma notify_messages: "only_messages db (notify env us kind rid link db)"
  unfolding notify_def by (rule only_messages_fold) (rule notify_one_messages)

lemma notify_for_workflow_action_messages: "only_messages db (notify_for_workflow_action env r a db)"
proof -
  let ?db1 = "if workflow_recipients db r a = [] then db
    else notify env (workflow_recipients db r a)
      (if is_cancel a then ''workflow_cancel'' else ''workflow_'' @ action_name a)
      (Some (record_id r)) (Some (evaluation_link r)) db"
  have "only_messages db ?db1" by (simp add: notify_messages)
  then show ?thesis
    unfolding notify_for_workflow_action_def Let_def
    by (simp only: split: if_split) (blast intro: only_messages_trans [OF _ notify_messages])
qed

lemma notify_stage_owner_messages: "only_messages db (notify_stage_owner_reassigned env r u db)"
  unfolding notify_stage_owner_reassigned_def by (rule notify_messages)

lemmas notify_tables [simp] = only_messages_tables [OF notify_messages]
lemmas notify_for_workflow_action_tables [simp] =
  only_messages_tables [OF notify_for_workflow_action_messages]
lemmas notify_stage_owner_tables [simp] = only_messages_tables [OF notify_stage_owner_messages]

section \<open>Who is told\<close>

lemma queue_outbound_notifications [simp]:
  "t_notifications (queue_outbound env n db) = t_notifications db"
proof -
  have f: "t_notifications (fold (queue_delivery env n u) kinds d) = t_notifications d" for u kinds d
    by (induction kinds arbitrary: d) (auto simp: queue_delivery_def split: option.splits)
  show ?thesis by (auto simp: queue_outbound_def enqueue_for_def Let_def f split: option.splits)
qed

lemma notify_one_rows:
  "t_notifications (notify_one env kind rid link key u db) =
    t_notifications db @
      [\<lparr>notification_id = next_id notification_id (t_notifications db), ntf_user_id = u, ntf_type = kind,
        ntf_link = link, ntf_record_id = rid, dedup_key = key, ntf_created_at = now env, read_at = None\<rparr>]"
  by (simp add: notify_one_def Let_def)

lemma fold_notify_one_users:
  "map ntf_user_id (t_notifications (fold (notify_one env kind rid link key) us db)) =
    map ntf_user_id (t_notifications db) @ us"
  by (induction us arbitrary: db) (simp_all add: notify_one_rows)

lemma notify_users:
  "map ntf_user_id (t_notifications (notify env us kind rid link db)) =
    map ntf_user_id (t_notifications db) @ remdups us"
  by (simp add: notify_def fold_notify_one_users)

lemma hr_queue_ids_not_subject:
  "u \<in> set (hr_queue_ids db r) \<Longrightarrow> \<exists>x \<in> set (t_users db). user_id x = u \<and> user_role x = Role_hr \<and>
    user_personnel_id x \<noteq> Some (subject_personnel_id r)"
  by (auto simp: hr_queue_ids_def)

lemma workflow_recipients_simps:
  "workflow_recipients db r Submit = hr_queue_ids db r"
  "workflow_recipients db r Manager_submit = hr_queue_ids db r"
  "workflow_recipients db r Ceo_submit = hr_queue_ids db r"
  "workflow_recipients db r Submit_hr_subject = [owner_after_hr_review r]"
  "workflow_recipients db r Manager_submit_hr_subject = [ceo_user_id r]"
  "workflow_recipients db r Ceo_submit_hr_subject = [ceo_user_id r]"
  "workflow_recipients db r Hr_approve = [owner_after_hr_review r]"
  "workflow_recipients db r Hr_approve_manager = [ceo_user_id r]"
  "workflow_recipients db r Deputy_approve = [ceo_user_id r]"
  "workflow_recipients db r Ceo_return_no_deputy = []"
  "workflow_recipients db r Ceo_return_no_deputy_hr_subject = []"
  by (simp_all add: is_cancel_def cancel_actions_def workflow_recipients_def Let_def case_prod_beta)

text \<open>
  Two returns tell nobody: when the chief executive sends back a record whose chain has no
  deputy, no notification and no outgoing message is created, whatever the record and the users are,
  although the record lands on the desk of human resources or of the scorer again.
\<close>

theorem returns_without_deputy_tell_nobody:
  assumes "a \<in> {Ceo_return_no_deputy, Ceo_return_no_deputy_hr_subject}"
  shows "notify_for_workflow_action env r a db = db"
proof -
  have "workflow_recipients db r a = []" and "a \<notin> {Ceo_finalize, Hr_finalize_direct_ceo}"
    using assms by (elim insertE emptyE; simp add: workflow_recipients_simps)+
  then show ?thesis by (simp add: notify_for_workflow_action_def)
qed

text \<open>
  All other moves of the chain tell the person whose turn it is: a submission or an approval
  that leaves a record open tells, among others, the holder of the next seat of the record as it is
  after the move or, where human resources come next, exactly their active users, the subject of the
  record excepted.
\<close>

theorem forward_moves_tell_the_next_owner:
  assumes "a \<in> set (submit_actions @ approve_actions)" and "transition_is_available r a user"
    and "r' = r\<lparr>status := to_status (TRANSITIONS a)\<rparr>" and "is_open r'"
  shows "(if next_seat r' = Hr_user_id then workflow_recipients db r a = hr_queue_ids db r
    else seat (next_seat r') r' = Some (hd (workflow_recipients db r a)) \<and>
      length (workflow_recipients db r a) = 1)"
proof -
  have "a \<in> {Submit, Submit_hr_subject, Manager_submit, Manager_submit_hr_subject, Ceo_submit,
      Ceo_submit_hr_subject, Hr_approve, Hr_finalize_direct_ceo, Hr_approve_manager, Deputy_approve,
      Ceo_finalize}"
    using assms(1) by (simp add: action_groups)
  then show ?thesis
    using assms(2-4)
    by (elim insertE emptyE; cases "deputy_user_id r"; simp add: available_iff guard_holds_def
        chain_shape is_open_def OPEN_STATUSES_def next_seat_def workflow_recipients_simps
        owner_after_hr_review_def)
qed

theorem returns_without_deputy_tell_nobody_witness:
  "notify_for_workflow_action plain_env
     (sample_record\<lparr>deputy_user_id := None, status := Hr_approved\<rparr>) Ceo_return_no_deputy empty_database
   = empty_database"
  by (rule returns_without_deputy_tell_nobody) simp

theorem forward_moves_tell_the_next_owner_witness:
  "seat Deputy_user_id (sample_record\<lparr>status := Hr_approved\<rparr>) =
    Some (hd (workflow_recipients empty_database (sample_record\<lparr>status := Submitted\<rparr>) Hr_approve))"
proof -
  have av: "transition_is_available (sample_record\<lparr>status := Submitted\<rparr>) Hr_approve (person 70 Role_hr)"
    by (simp add: available_iff guard_holds_def may_take_def chain_shape sample_record_def)
  have "next_seat (sample_record\<lparr>status := Hr_approved\<rparr>) = Deputy_user_id"
    "is_open (sample_record\<lparr>status := Hr_approved\<rparr>)"
    by (simp_all add: next_seat_def is_open_def OPEN_STATUSES_def sample_record_def)
  with forward_moves_tell_the_next_owner [OF _ av refl, of empty_database] show ?thesis
    by (simp add: approve_actions_def)
qed

end
