(* ===== verification/Framework.thy ===== *)
theory Framework
  imports Transitions
begin

text \<open>
  Versions of the set of indicators (\<open>app/services/indicator_framework.py\<close>): a record is scored
  on the members of the version it is bound to, and a change of the set rebinds only open records on
  which nobody has worked yet.
\<close>

definition active_member_ids :: "database \<Rightarrow> int list" where
  "active_member_ids db = sort (map indicator_id (filter indicator_is_active (t_indicators db)))"

definition current_framework :: "database \<Rightarrow> indicator_framework option" where
  "current_framework db =
    (if t_frameworks db = [] then None else Some (last (sort_key framework_version (t_frameworks db))))"

definition bump :: "int option \<Rightarrow> string \<Rightarrow> utext option \<Rightarrow> database \<Rightarrow> database \<times> indicator_framework" where
  "bump actor kind remark db =
    (let latest = current_framework db;
         framework = \<lparr>framework_id = next_id framework_id (t_frameworks db),
           framework_version = (case latest of None \<Rightarrow> 0 | Some f \<Rightarrow> framework_version f) + 1,
           member_ids = active_member_ids db, change_kind = kind, change_note = remark,
           framework_created_by_user_id = actor\<rparr>
     in (db\<lparr>t_frameworks := t_frameworks db @ [framework]\<rparr>, framework))"

definition ensure_framework :: "database \<Rightarrow> database \<times> indicator_framework" where
  "ensure_framework db =
    (case current_framework db of
       None \<Rightarrow> bump None ''seed'' None db
     | Some f \<Rightarrow> if member_ids f \<noteq> active_member_ids db then bump None ''seed'' None db else (db, f))"

definition indicator_ids_for_record :: "database \<Rightarrow> evaluation_record \<Rightarrow> int set" where
  "indicator_ids_for_record db r =
    (case indicator_framework_id r of
       None \<Rightarrow> set (active_member_ids db)
     | Some k \<Rightarrow> (case row_get framework_id (t_frameworks db) k of
                    Some f \<Rightarrow> set (member_ids f)
                  | None \<Rightarrow> set (active_member_ids db)))"

definition indicators_for_record :: "database \<Rightarrow> evaluation_record \<Rightarrow> indicator list" where
  "indicators_for_record db r =
    filter (\<lambda>i. indicator_id i \<in> indicator_ids_for_record db r) (t_indicators db)"

text \<open>The dictionary \<open>{i.id: i for i in rows}\<close>.\<close>

definition by_id :: "indicator list \<Rightarrow> int \<Rightarrow> indicator option" where
  "by_id rows k = row_get indicator_id rows k"

definition is_untouched :: "database \<Rightarrow> evaluation_record \<Rightarrow> bool" where
  "is_untouched db r \<longleftrightarrow>
    scores_of db (record_id r) = [] \<and> self_assessment_submitted_at r = None"

definition impact_of_membership_change :: "database \<Rightarrow> nat \<times> nat" where
  "impact_of_membership_change db =
    (length (filter (\<lambda>r. is_open r \<and> \<not> is_untouched db r) (t_evaluations db)),
     length (filter (\<lambda>r. is_open r \<and> is_untouched db r) (t_evaluations db)))"

text \<open>SQL's \<open><>\<close> is not true for a null identifier, so records without a version are left alone.\<close>

definition rebinds :: "database \<Rightarrow> indicator_framework \<Rightarrow> evaluation_record \<Rightarrow> bool" where
  "rebinds db framework r \<longleftrightarrow>
    is_open r \<and> indicator_framework_id r \<noteq> None \<and>
    indicator_framework_id r \<noteq> Some (framework_id framework) \<and> is_untouched db r"

definition rebind_untouched_open_records ::
  "indicator_framework \<Rightarrow> database \<Rightarrow> database \<times> nat" where
  "rebind_untouched_open_records framework db =
    (db\<lparr>t_evaluations := map (\<lambda>r. if rebinds db framework r
          then r\<lparr>indicator_framework_id := Some (framework_id framework)\<rparr> else r) (t_evaluations db)\<rparr>,
     length (filter (rebinds db framework) (t_evaluations db)))"

text \<open>
  Changing the set of indicators never changes what a record on which someone has worked is
  scored on: a record that has scores or a self-assessment, and every closed record, has the same
  indicators before and after a new version is made and the open records are rebound, as long as it is
  bound to a version.
\<close>

theorem touched_records_keep_their_indicators:
  assumes "r \<in> set (t_evaluations db)" and "\<not> (is_open r \<and> is_untouched db r)"
    and "indicator_framework_id r = Some k" and "row_get framework_id (t_frameworks db) k = Some f"
    and "bump actor kind remark db = (db1, g)"
  shows "r \<in> set (t_evaluations (fst (rebind_untouched_open_records g db1))) \<and>
    indicators_for_record (fst (rebind_untouched_open_records g db1)) r = indicators_for_record db r"
proof -
  have t: "t_evaluations db1 = t_evaluations db" "t_scores db1 = t_scores db"
    "t_indicators db1 = t_indicators db" "t_frameworks db1 = t_frameworks db @ [g]"
    using assms(5) by (auto simp: bump_def Let_def)
  then have "\<not> rebinds db1 g r"
    using assms(2) by (auto simp: rebinds_def is_untouched_def scores_of_def)
  then have "r \<in> set (t_evaluations (fst (rebind_untouched_open_records g db1)))"
    using assms(1) t by (force simp: rebind_untouched_open_records_def image_iff)
  moreover have "row_get framework_id (t_frameworks db @ [g]) k = Some f"
    using assms(4) by (simp add: row_get_append)
  ultimately show ?thesis
    using assms(3,4) t
    by (simp add: indicators_for_record_def indicator_ids_for_record_def rebind_untouched_open_records_def)
qed

theorem touched_records_keep_their_indicators_witness:
  "sample_record\<lparr>status := Finalized, indicator_framework_id := Some 1\<rparr> \<in>
    set (t_evaluations (fst (rebind_untouched_open_records
      \<lparr>framework_id = 2, framework_version = 2, member_ids = [], change_kind = ''remove'',
        change_note = None, framework_created_by_user_id = Some 7\<rparr>
      (empty_database\<lparr>t_evaluations := [sample_record\<lparr>status := Finalized, indicator_framework_id := Some 1\<rparr>],
        t_frameworks := [\<lparr>framework_id = 1, framework_version = 1, member_ids = [4], change_kind = ''seed'',
            change_note = None, framework_created_by_user_id = None\<rparr>,
          \<lparr>framework_id = 2, framework_version = 2, member_ids = [], change_kind = ''remove'',
            change_note = None, framework_created_by_user_id = Some 7\<rparr>]\<rparr>))))"
  by (rule touched_records_keep_their_indicators [where
        db = "empty_database\<lparr>t_evaluations :=
            [sample_record\<lparr>status := Finalized, indicator_framework_id := Some 1\<rparr>],
          t_frameworks := [\<lparr>framework_id = 1, framework_version = 1, member_ids = [4],
            change_kind = ''seed'', change_note = None, framework_created_by_user_id = None\<rparr>]\<rparr>" and
        k = 1 and actor = "Some 7" and kind = "''remove''" and remark = None, THEN conjunct1])
    (simp_all add: bump_def current_framework_def active_member_ids_def next_id_def Let_def
      is_open_def OPEN_STATUSES_def empty_database_def)

end
