(* ===== verification/Clock.thy ===== *)
theory Clock
  imports Model
begin

text \<open>
  \<open>datetime.isoformat()\<close> of an aware UTC time stamp, from microseconds since 1970, in the
  proleptic Gregorian calendar; used for the time stamps in a snapshot.
\<close>

definition pad2 :: "string \<Rightarrow> string" where
  "pad2 s = replicate (2 - length s) (CHR ''0'') @ s"

definition pad6 :: "string \<Rightarrow> string" where
  "pad6 s = replicate (6 - length s) (CHR ''0'') @ s"

text \<open>Year, month and day of a day number; the year of the computation begins in March.\<close>

definition civil_of_day :: "int \<Rightarrow> int \<times> int \<times> int" where
  "civil_of_day d =
    (let z = d + 719468;
         era = z div 146097;
         doe = z mod 146097;
         yoe = (doe - doe div 1460 + doe div 36524 - doe div 146096) div 365;
         doy = doe - (365 * yoe + yoe div 4 - yoe div 100);
         mp = (5 * doy + 2) div 153;
         day = doy - (153 * mp + 2) div 5 + 1;
         month = (if mp < 10 then mp + 3 else mp - 9);
         year = yoe + era * 400 + (if month \<le> 2 then 1 else 0)
     in (year, month, day))"

definition isoformat :: "int \<Rightarrow> string" where
  "isoformat t =
    (let us = t mod 1000000; s = t div 1000000; sod = s mod 86400;
         (y, m, d) = civil_of_day (s div 86400)
     in pad4 (str_int y) @ ''-'' @ pad2 (str_int m) @ ''-'' @ pad2 (str_int d) @ ''T''
        @ pad2 (str_int (sod div 3600)) @ '':'' @ pad2 (str_int (sod div 60 mod 60)) @ '':''
        @ pad2 (str_int (sod mod 60))
        @ (if us = 0 then '''' else ''.'' @ pad6 (str_int us)) @ ''+00:00'')"

end
