(* ===== verification/Snapshot.thy ===== *)
theory Snapshot
  imports Clock Framework
begin

text \<open>
  The snapshot of a finalized record (\<open>app/services/snapshot.py\<close>): everything the printed document
  shows, frozen as JSON.
\<close>

definition SNAPSHOT_VERSION :: int where
  "SNAPSHOT_VERSION = 6"

text \<open>\<open>User.display_name\<close>: the name of the person, else of the account, else the user name.\<close>

definition display_name :: "database \<Rightarrow> user \<Rightarrow> utext" where
  "display_name db u =
    (let person_name = (case user_personnel_id u of None \<Rightarrow> None
                        | Some p \<Rightarrow> map_option personnel_full_name (get_personnel db p))
     in case person_name of
          Some (c # cs) \<Rightarrow> c # cs
        | _ \<Rightarrow> (case user_full_name u of Some (c # cs) \<Rightarrow> c # cs | _ \<Rightarrow> username u))"

definition evaluator_seat :: "evaluation_record \<Rightarrow> int option \<times> string" where
  "evaluator_seat r =
    (let field = scorer_field (unit_supervisor_user_id r) (deputy_user_id r)
     in (seat field r, case SEAT_LABEL field of Some l \<Rightarrow> l | None \<Rightarrow> ''''))"

definition applied_bonus_for_document :: "database \<Rightarrow> evaluation_record \<Rightarrow> rat option" where
  "applied_bonus_for_document db r =
    (let raw = (case bonus_points r of None \<Rightarrow> 0 | Some b \<Rightarrow> b)
     in if raw = 0 then None
        else let base = (case base_weighted_pct r of None \<Rightarrow> 0 | Some b \<Rightarrow> b);
                 applied = applied_bonus (Some raw) (rules_for_record db r) base
             in if applied = 0 then None else Some applied)"

definition self_scores_of :: "database \<Rightarrow> int \<Rightarrow> self_assessment_score list" where
  "self_scores_of db k = filter (\<lambda>s. self_score_record_id s = k) (t_self_scores db)"

definition comments_of :: "database \<Rightarrow> int \<Rightarrow> evaluation_comment list" where
  "comments_of db k = filter (\<lambda>c. comment_record_id c = k) (t_comments db)"

text \<open>The value of the last row for a key, as in a dictionary comprehension.\<close>

definition last_by :: "('r \<Rightarrow> int) \<Rightarrow> ('r \<Rightarrow> 'v) \<Rightarrow> 'r list \<Rightarrow> int \<Rightarrow> 'v option" where
  "last_by key val rows k = map_option val (find (\<lambda>r. key r = k) (rev rows))"

definition self_assessment_rows ::
  "self_assessment_score list \<Rightarrow> evaluation_score list \<Rightarrow> (int \<Rightarrow> indicator option) \<Rightarrow>
    (int \<times> jdict) list" where
  "self_assessment_rows self_scores scores indicators_by_id =
    map (\<lambda>entry.
      let i = self_score_indicator_id entry;
          evaluator_score = last_by score_indicator_id score scores i;
          gap = map_option (\<lambda>x. self_score entry - x) evaluator_score
      in (case gap of None \<Rightarrow> 0 | Some g \<Rightarrow> \<bar>g\<bar>,
          [(''indicator_id'', JInt i),
           (''category'', case indicators_by_id i of Some ind \<Rightarrow> JString (category ind) | None \<Rightarrow> jstr ''-''),
           (''description'', case indicators_by_id i of
               Some ind \<Rightarrow> JString (indicator_description ind) | None \<Rightarrow> jstr ''(removed)''),
           (''self_score'', JInt (self_score entry)),
           (''evaluator_score'', jopt JInt evaluator_score),
           (''gap'', jopt JInt gap),
           (''note'', jopt JString (self_score_note entry))])) self_scores"

text \<open>The rows are sorted by descending gap; the sort is stable, also in reverse.\<close>

definition self_assessment_block ::
  "evaluation_record \<Rightarrow> self_assessment_score list \<Rightarrow> evaluation_score list \<Rightarrow>
    (int \<Rightarrow> indicator option) \<Rightarrow> json" where
  "self_assessment_block r self_scores scores indicators_by_id =
    (case self_assessment_submitted_at r of
       None \<Rightarrow> JNull
     | Some t \<Rightarrow>
        JObject
          [(''submitted_at'', jstr (isoformat t)),
           (''note'', jopt JString (self_assessment_note r)),
           (''rows'', JArray (map (\<lambda>row. JObject (snd row))
              (sort_key (\<lambda>row. - fst row)
                (self_assessment_rows self_scores scores indicators_by_id))))])"

definition signatory_json :: "signatory \<Rightarrow> json" where
  "signatory_json s =
    JObject [(''seat'', jstr (sig_seat s)), (''label'', jstr (sig_label s)),
             (''user_id'', jopt JInt (sig_user_id s))]"

definition score_json :: "(int \<Rightarrow> indicator option) \<Rightarrow> evaluation_score \<Rightarrow> json" where
  "score_json indicators_by_id s =
    (let ind = indicators_by_id (score_indicator_id s)
     in JObject
       [(''indicator_id'', JInt (score_indicator_id s)),
        (''category'', case ind of Some i \<Rightarrow> JString (category i) | None \<Rightarrow> jstr ''-''),
        (''description'', case ind of Some i \<Rightarrow> JString (indicator_description i) | None \<Rightarrow> jstr ''(removed)''),
        (''section'', case ind of Some i \<Rightarrow> jstr (if ind_section i = General then ''general'' else ''specialized'')
                      | None \<Rightarrow> jstr ''general''),
        (''score'', JInt (score s)),
        (''evidence_text'', jopt JString (evidence_text s))])"

definition comment_json :: "evaluation_comment \<Rightarrow> json" where
  "comment_json c =
    JObject [(''stage'', jstr (comment_stage_value (comment_stage_at c))),
             (''commenter_user_id'', JInt (commenter_user_id c)),
             (''comment_text'', JString (comment_text c))]"

text \<open>\<open>None\<close> is the \<open>ValueError\<close> for a record whose subject is not in the table.\<close>

definition build_final_snapshot :: "database \<Rightarrow> evaluation_record \<Rightarrow> jdict option" where
  "build_final_snapshot db r =
    (case get_personnel db (subject_personnel_id r) of
       None \<Rightarrow> None
     | Some p \<Rightarrow>
        (let scores = scores_of db (record_id r);
             comments = comments_of db (record_id r);
             indicators_by_id = by_id (t_indicators db);
             self_scores = self_scores_of db (record_id r);
             (evaluator_user_id, evaluator_label) = evaluator_seat r;
             evaluator = (case evaluator_user_id of None \<Rightarrow> None | Some u \<Rightarrow> get_user db u)
         in Some
          [(''snapshot_version'', JInt SNAPSHOT_VERSION),
           (''personnel'', JObject
              [(''full_name'', JString (personnel_full_name p)),
               (''personnel_code'', JString (personnel_code p)),
               (''job_title'', JString (job_title p)), (''org_unit'', JString (org_unit p))]),
           (''evaluator'', JObject
              [(''username'', jopt (\<lambda>u. JString (username u)) evaluator),
               (''display_name'', jopt (\<lambda>u. JString (display_name db u)) evaluator),
               (''role_label'', jstr evaluator_label)]),
           (''single_decider'', JBool (single_decider r)),
           (''signatories'', JArray (map signatory_json (document_signatories r))),
           (''self_assessment'', self_assessment_block r self_scores scores indicators_by_id),
           (''evaluation_started_at'', jstr (isoformat (created_at r))),
           (''evaluation_code'', jstr (evaluation_code r)),
           (''general_score_pct'', jopt JFloat (general_score_pct r)),
           (''specialized_score_pct'', jopt JFloat (specialized_score_pct r)),
           (''final_weighted_pct'', jopt JFloat (final_weighted_pct r)),
           (''base_weighted_pct'', jopt JFloat (base_weighted_pct r)),
           (''bonus_points'', jopt JFloat (applied_bonus_for_document db r)),
           (''bonus_reason'', jopt JString (bonus_reason r)),
           (''recommendation'', jopt JString (recommendation r)),
           (''evaluator_comment'', jopt JString (evaluator_comment r)),
           (''scores'', JArray (map (score_json indicators_by_id) scores)),
           (''comments'', JArray (map comment_json comments)),
           (''finalized_at'', jopt (\<lambda>t. jstr (isoformat t)) (finalized_at r))]))"

end
