(* ===== verification/Workflow.thy ===== *)
theory Workflow
  imports SelfEvaluation Notifications Framework Snapshot
begin

text \<open>
  Executing a transition (\<open>apply_transition\<close>) and computing the result at submission
  (\<open>finalize_scoring\<close>) of \<open>app/services/workflow.py\<close>. The record is passed as the row the handler
  holds; the changed row is written back when the status changes. The counter of the metrics is not
  modelled.
\<close>

section \<open>Applying a transition\<close>

fun set_seat :: "seat_field \<Rightarrow> int \<Rightarrow> evaluation_record \<Rightarrow> evaluation_record" where
  "set_seat Unit_supervisor_user_id u r = r\<lparr>unit_supervisor_user_id := Some u\<rparr>"
| "set_seat Deputy_user_id u r = r\<lparr>deputy_user_id := Some u\<rparr>"
| "set_seat Ceo_user_id u r = r\<lparr>ceo_user_id := u\<rparr>"
| "set_seat Hr_user_id u r = r\<lparr>hr_user_id := Some u\<rparr>"

type_synonym before_hook = "database \<times> evaluation_record \<Rightarrow> (database \<times> evaluation_record) http"

text \<open>The claim that an action of human resources implies when nobody has claimed the record.\<close>

definition claim_seat ::
  "transition \<Rightarrow> current_user \<Rightarrow> database \<times> evaluation_record \<Rightarrow> database \<times> evaluation_record" where
  "claim_seat spec user acc =
    (let (db, r) = acc
     in case assignee_field spec of
          None \<Rightarrow> (db, r)
        | Some field \<Rightarrow>
            if claimable_if_unassigned spec \<and> seat field r = None
            then (log_event (cu_id user) ''hr_case_claimed'' (Some (record_id r)) None
                    (Some [(field_name field, JInt (cu_id user)), (''implicit'', JBool True)]) db,
                  set_seat field (cu_id user) r)
            else (db, r))"

definition enter_status :: "env \<Rightarrow> evaluation_status \<Rightarrow> evaluation_record \<Rightarrow> evaluation_record" where
  "enter_status env to r =
    r\<lparr>status := to, stage_entered_at := now env,
      finalized_at := (if to = Finalized \<and> finalized_at r = None then Some (now env) else finalized_at r)\<rparr>"

definition apply_transition ::
  "env \<Rightarrow> database \<Rightarrow> evaluation_record \<Rightarrow> workflow_action \<Rightarrow> current_user \<Rightarrow> before_hook option \<Rightarrow>
    database http" where
  "apply_transition env db r action user before =
    bindE (ensure_transition_allowed r action user) (\<lambda>spec.
    bindE (if allowed_role spec = Role_hr
           then (if bypasses_hr_unit_shield spec then ensure_not_deciding_about_oneself r user
                 else ensure_hr_may_handle r user)
           else Inr ()) (\<lambda>_.
    bindE (raise_if (to_status spec = Finalized \<and>
              (final_weighted_pct r = None \<or> scores_of db (record_id r) = []))
             (HTTPException 400 ''nothing to finalize'')) (\<lambda>_.
    bindE (case before of None \<Rightarrow> Inr (claim_seat spec user (db, r))
                        | Some hook \<Rightarrow> hook (claim_seat spec user (db, r))) (\<lambda>(db1, r1).
    bindE (raise_if (to_status spec = Finalized \<and> final_snapshot r1 = None)
             (HTTPException 400 ''no snapshot'')) (\<lambda>_.
      (let r2 = enter_status env (to_status spec) r1;
           db2 = log_event (cu_id user) ''status_changed'' (Some (record_id r1))
                   (Some [(''status'', jstr (status_value (status r1)))])
                   (Some [(''status'', jstr (status_value (status r2)))])
                   (put_evaluation r2 db1)
       in Inr (notify_for_workflow_action env r2 action db2)))))))"

section \<open>Computing the result\<close>

definition scores_as_rows :: "database \<Rightarrow> evaluation_record \<Rightarrow> score_row list" where
  "scores_as_rows db r =
    map (\<lambda>s. \<lparr>row_indicator_id = score_indicator_id s, row_score = score s,
              row_evidence = evidence_text s\<rparr>) (scores_of db (record_id r))"

definition result_json :: "evaluation_result \<Rightarrow> jdict" where
  "result_json res =
    [(''general_score_pct'', JFloat (res_general_score_pct res)),
     (''specialized_score_pct'', JFloat (res_specialized_score_pct res)),
     (''base_weighted_pct'', JFloat (res_base_weighted_pct res)),
     (''bonus_points'', JFloat (res_bonus_points res)),
     (''final_weighted_pct'', JFloat (res_final_weighted_pct res)),
     (''recommendation'', JString (res_recommendation res)),
     (''scheme_version'', jopt JInt (res_scheme_version res))]"

definition with_result :: "evaluation_result \<Rightarrow> evaluation_record \<Rightarrow> evaluation_record" where
  "with_result res r =
    r\<lparr>base_weighted_pct := Some (res_base_weighted_pct res),
      general_score_pct := Some (res_general_score_pct res),
      specialized_score_pct := Some (res_specialized_score_pct res),
      final_weighted_pct := Some (res_final_weighted_pct res),
      recommendation := Some (res_recommendation res)\<rparr>"

text \<open>
  A result that is \<open>None\<close> is an exception the code does not catch (a missing indicator or an empty
  list of bands), an internal error of the server.
\<close>

definition finalize_scoring ::
  "database \<Rightarrow> evaluation_record \<Rightarrow> current_user \<Rightarrow> (database \<times> evaluation_record) http" where
  "finalize_scoring db r user =
    (let inds = indicators_for_record db r;
         scores = scores_as_rows db r;
         rules = rules_for_record db r
     in bindE (raise_if (row_indicator_id ` set scores \<noteq> indicator_id ` set inds)
                 (HTTPException 400 ''not all indicators scored'')) (\<lambda>_.
        bindE (case validate_evidence scores (by_id inds) rules of
                 Inl _ \<Rightarrow> Inl (HTTPException 400 ''evidence'') | Inr _ \<Rightarrow> Inr ()) (\<lambda>_.
        bindE (or_raise (compute_result scores (by_id inds) rules
                  (case bonus_points r of None \<Rightarrow> 0 | Some b \<Rightarrow> b))
                 (HTTPException 500 ''no result'')) (\<lambda>res.
        Inr (log_event (cu_id user) ''score_submitted'' (Some (record_id r)) None
               (Some (result_json res)) db,
             with_result res r)))))"

section \<open>Lemmas\<close>

lemma set_seat_fields [simp]:
  "record_id (set_seat f u r) = record_id r"
  "status (set_seat f u r) = status r"
  "hr_review_skipped (set_seat f u r) = hr_review_skipped r"
  "subject_personnel_id (set_seat f u r) = subject_personnel_id r"
  "final_weighted_pct (set_seat f u r) = final_weighted_pct r"
  "final_snapshot (set_seat f u r) = final_snapshot r"
  "finalized_at (set_seat f u r) = finalized_at r"
  by (cases f; simp)+

lemma seat_set_seat [simp]: "seat g (set_seat f u r) = (if g = f then Some u else seat g r)"
  by (cases f; cases g) simp_all

lemma claim_seat_db [simp]:
  "t_evaluations (fst (claim_seat spec user (db, r))) = t_evaluations db"
  "t_scores (fst (claim_seat spec user (db, r))) = t_scores db"
  "t_users (fst (claim_seat spec user (db, r))) = t_users db"
  "t_personnel (fst (claim_seat spec user (db, r))) = t_personnel db"
  "t_access (fst (claim_seat spec user (db, r))) = t_access db"
  "t_code_seq (fst (claim_seat spec user (db, r))) = t_code_seq db"
  by (simp_all add: claim_seat_def split: option.splits)

lemma claim_seat_record [simp]:
  "record_id (snd (claim_seat spec user (db, r))) = record_id r"
  "status (snd (claim_seat spec user (db, r))) = status r"
  "hr_review_skipped (snd (claim_seat spec user (db, r))) = hr_review_skipped r"
  "subject_personnel_id (snd (claim_seat spec user (db, r))) = subject_personnel_id r"
  "final_weighted_pct (snd (claim_seat spec user (db, r))) = final_weighted_pct r"
  "final_snapshot (snd (claim_seat spec user (db, r))) = final_snapshot r"
  "finalized_at (snd (claim_seat spec user (db, r))) = finalized_at r"
  by (simp_all add: claim_seat_def split: option.splits)

lemma enter_status_fields [simp]:
  "record_id (enter_status env to r) = record_id r"
  "status (enter_status env to r) = to"
  "hr_review_skipped (enter_status env to r) = hr_review_skipped r"
  "subject_personnel_id (enter_status env to r) = subject_personnel_id r"
  "unit_supervisor_user_id (enter_status env to r) = unit_supervisor_user_id r"
  "deputy_user_id (enter_status env to r) = deputy_user_id r"
  "ceo_user_id (enter_status env to r) = ceo_user_id r"
  "hr_user_id (enter_status env to r) = hr_user_id r"
  "final_weighted_pct (enter_status env to r) = final_weighted_pct r"
  "final_snapshot (enter_status env to r) = final_snapshot r"
  "stage_entered_at (enter_status env to r) = now env"
  by (simp_all add: enter_status_def)

lemma put_evaluation_tables [simp]:
  "t_evaluations (put_evaluation r db) = row_put record_id r (t_evaluations db)"
  "t_scores (put_evaluation r db) = t_scores db"
  "t_users (put_evaluation r db) = t_users db"
  "t_personnel (put_evaluation r db) = t_personnel db"
  "t_access (put_evaluation r db) = t_access db"
  "t_code_seq (put_evaluation r db) = t_code_seq db"
  "t_audit_log (put_evaluation r db) = t_audit_log db"
  "t_schemes (put_evaluation r db) = t_schemes db"
  by (simp_all add: put_evaluation_def)

text \<open>Everything a successful transition did, with the row the hook returned.\<close>

lemma apply_transition_InrD:
  assumes "apply_transition env db r a user before = Inr db'"
  obtains db1 r1 where "transition_is_available r a user"
    and "allowed_role (TRANSITIONS a) = Role_hr \<Longrightarrow>
      cu_personnel_id user \<noteq> Some (subject_personnel_id r)"
    and "allowed_role (TRANSITIONS a) = Role_hr \<Longrightarrow> \<not> bypasses_hr_unit_shield (TRANSITIONS a) \<Longrightarrow>
      \<not> hr_panel_is_shielded r"
    and "to_status (TRANSITIONS a) = Finalized \<Longrightarrow>
      final_weighted_pct r \<noteq> None \<and> scores_of db (record_id r) \<noteq> [] \<and> final_snapshot r1 \<noteq> None"
    and "(case before of None \<Rightarrow> Inr (claim_seat (TRANSITIONS a) user (db, r))
          | Some hook \<Rightarrow> hook (claim_seat (TRANSITIONS a) user (db, r))) = Inr (db1, r1)"
    and "t_evaluations db' =
      row_put record_id (enter_status env (to_status (TRANSITIONS a)) r1) (t_evaluations db1)"
    and "t_audit_log db' = t_audit_log db1 @
      [logged_row (cu_id user) ''status_changed'' (Some (record_id r1))
        (Some [(''status'', jstr (status_value (status r1)))])
        (Some [(''status'', jstr (status_value (to_status (TRANSITIONS a))))])
        (put_evaluation (enter_status env (to_status (TRANSITIONS a)) r1) db1)]"
proof -
  let ?spec = "TRANSITIONS a"
  obtain db1 r1 where
    av: "transition_is_available r a user" and
    guards: "(if allowed_role ?spec = Role_hr
       then (if bypasses_hr_unit_shield ?spec then ensure_not_deciding_about_oneself r user
             else ensure_hr_may_handle r user) else Inr ()) = Inr ()" and
    fin: "\<not> (to_status ?spec = Finalized \<and> (final_weighted_pct r = None \<or> scores_of db (record_id r) = []))"
      "\<not> (to_status ?spec = Finalized \<and> final_snapshot r1 = None)" and
    hook: "(case before of None \<Rightarrow> Inr (claim_seat ?spec user (db, r))
       | Some hook \<Rightarrow> hook (claim_seat ?spec user (db, r))) = Inr (db1, r1)" and
    db': "db' = notify_for_workflow_action env (enter_status env (to_status ?spec) r1) a
       (log_event (cu_id user) ''status_changed'' (Some (record_id r1))
         (Some [(''status'', jstr (status_value (status r1)))])
         (Some [(''status'', jstr (status_value (to_status ?spec)))])
         (put_evaluation (enter_status env (to_status ?spec) r1) db1))"
    using assms unfolding apply_transition_def
    by (auto simp: ensure_allowed_iff Let_def)
  have "may_act_at (cu_role user) (allowed_role ?spec)" using av by (simp add: available_iff)
  then show ?thesis
    using guards fin by (intro that [OF av _ _ _ hook]) (auto simp: db' split: if_splits)
qed

end
