(* ===== verification/Window.thy ===== *)
theory Window
  imports Transitions
begin

text \<open>
  The window in which a record can be submitted (\<open>app/services/evaluation_window.py\<close>): until the end
  of its period, or until a later date it was extended to.
\<close>

record window =
  closes_on :: "int option"
  extended :: bool

definition unlimited :: "window \<Rightarrow> bool" where
  "unlimited w \<longleftrightarrow> closes_on w = None"

definition window_is_open :: "env \<Rightarrow> window \<Rightarrow> bool" where
  "window_is_open env w \<longleftrightarrow> (case closes_on w of None \<Rightarrow> True | Some d \<Rightarrow> today env \<le> d)"

definition days_left :: "env \<Rightarrow> window \<Rightarrow> int option" where
  "days_left env w = map_option (\<lambda>d. d - today env) (closes_on w)"

definition get_period :: "database \<Rightarrow> int \<Rightarrow> evaluation_period option" where
  "get_period db = row_get per_id (t_periods db)"

definition period_end :: "database \<Rightarrow> evaluation_record \<Rightarrow> int option" where
  "period_end db r =
    (case period_id r of None \<Rightarrow> None | Some k \<Rightarrow> map_option ends_on (get_period db k))"

definition window_for :: "database \<Rightarrow> evaluation_record \<Rightarrow> window" where
  "window_for db r =
    (case period_end db r of
       None \<Rightarrow> \<lparr>closes_on = None, extended = False\<rparr>
     | Some e \<Rightarrow>
        (case submission_extended_until r of
           Some x \<Rightarrow> if e < x then \<lparr>closes_on = Some x, extended = True\<rparr>
                     else \<lparr>closes_on = Some e, extended = False\<rparr>
         | None \<Rightarrow> \<lparr>closes_on = Some e, extended = False\<rparr>))"

definition ensure_open :: "env \<Rightarrow> database \<Rightarrow> evaluation_record \<Rightarrow> window http" where
  "ensure_open env db r =
    (let w = window_for db r
     in if window_is_open env w then Inr w else Inl (HTTPException 400 ''window closed''))"

text \<open>
  An extension never takes time away: whatever date is written on a record, the window admits
  every day that the period alone admits, and beyond the end of the period it admits exactly the days
  up to the date of the extension.
\<close>

theorem extension_only_adds_days:
  "window_is_open env (window_for db r) \<longleftrightarrow>
    (case period_end db r of None \<Rightarrow> True
     | Some e \<Rightarrow> today env \<le> e \<or>
         (case submission_extended_until r of None \<Rightarrow> False | Some x \<Rightarrow> today env \<le> x))"
  by (auto simp: window_is_open_def window_for_def split: option.splits)

end
