(* ===== verification/Evaluations.thy ===== *)
theory Evaluations
  imports Workflow Window
begin

text \<open>
  The endpoints of \<open>app/api/routers/evaluations.py\<close> that change a record. Each takes the state of the
  database and the user of the request (with the dependency that guards the endpoint) and gives the
  new state or the HTTP error; what it returns for display is not modelled. Texts that the handler
  composes in Persian are a short tag followed by the text of the user.
\<close>

section \<open>Shared parts\<close>

definition require_chain_stage :: "user_role \<Rightarrow> current_user \<Rightarrow> unit http" where
  "require_chain_stage stage user =
    raise_if (\<not> may_act_at (cu_role user) stage) (HTTPException 403 ''stage'')"

definition get_record_or_404 :: "database \<Rightarrow> int \<Rightarrow> evaluation_record http" where
  "get_record_or_404 db k = or_raise (get_evaluation db k) (HTTPException 404 ''no such evaluation'')"

definition is_the_scorer :: "evaluation_record \<Rightarrow> current_user \<Rightarrow> bool" where
  "is_the_scorer r user \<longleftrightarrow>
    status r = Draft \<and>
    (let (stage_role, scorer_id) = scorer_seat r
     in scorer_id = Some (cu_id user) \<and>
        (case stage_role of None \<Rightarrow> False | Some x \<Rightarrow> may_act_at (cu_role user) x))"

definition ensure_can_view :: "evaluation_record \<Rightarrow> current_user \<Rightarrow> unit http" where
  "ensure_can_view r user =
    bindE (ensure_hr_may_handle r user) (\<lambda>_.
      if cu_role user = Role_hr then Inr ()
      else raise_if (Some (cu_id user) \<notin> {unit_supervisor_user_id r, deputy_user_id r, Some (ceo_user_id r)})
             (HTTPException 404 ''no such evaluation''))"

text \<open>A stripped text field of a payload with its bounds.\<close>

definition text_field :: "nat \<Rightarrow> utext \<Rightarrow> utext http" where
  "text_field maximum t =
    (let s = strip t in if 1 \<le> length s \<and> length s \<le> maximum then Inr s
                        else Inl (HTTPException 422 ''text''))"

definition add_comment ::
  "env \<Rightarrow> int \<Rightarrow> int \<Rightarrow> int option \<Rightarrow> comment_stage \<Rightarrow> utext \<Rightarrow> database \<Rightarrow> database" where
  "add_comment env rid author parent stage text db =
    db\<lparr>t_comments := t_comments db @
      [\<lparr>comment_id = next_id comment_id (t_comments db), comment_record_id = rid,
        commenter_user_id = author, parent_comment_id = parent, comment_stage_at = stage,
        comment_text = text, comment_created_at = now env\<rparr>]\<rparr>"

definition was_returned :: "database \<Rightarrow> int \<Rightarrow> bool" where
  "was_returned db rid \<longleftrightarrow>
    (\<exists>row \<in> set (t_audit_log db). event_type row = ''evaluation_returned'' \<and>
      log_evaluation_record_id row = Some rid)"

section \<open>Creating a record\<close>

text \<open>The constraints of the table that a new row must meet.\<close>

definition record_constraints :: "database \<Rightarrow> evaluation_record \<Rightarrow> bool" where
  "record_constraints db r \<longleftrightarrow>
    (case bonus_points r of None \<Rightarrow> True | Some b \<Rightarrow> 0 \<le> b \<and> (b = 0 \<or> bonus_reason r \<noteq> None)) \<and>
    (unit_supervisor_user_id r = None \<or> unit_supervisor_user_id r \<noteq> deputy_user_id r) \<and>
    deputy_user_id r \<noteq> Some (ceo_user_id r) \<and>
    evaluation_code r \<notin> evaluation_code ` set (t_evaluations db) \<and>
    \<not> (is_open r \<and> (\<exists>x \<in> set (t_evaluations db). is_open x \<and>
         subject_personnel_id x = subject_personnel_id r))"

definition new_record ::
  "env \<Rightarrow> int \<Rightarrow> string \<Rightarrow> evaluation_access \<Rightarrow> int \<Rightarrow> int option \<Rightarrow> int option \<Rightarrow> int option \<Rightarrow> bool \<Rightarrow>
    evaluation_record" where
  "new_record env k code access subject per scheme framework skipped =
    \<lparr>record_id = k, evaluation_code = code, verify_token = None, subject_personnel_id = subject,
     unit_supervisor_user_id = acc_unit_supervisor_user_id access,
     deputy_user_id = acc_deputy_user_id access, ceo_user_id = acc_ceo_user_id access,
     hr_user_id = None, hr_review_skipped = skipped, period_id = per, scoring_scheme_id = scheme,
     indicator_framework_id = framework, status = Draft, base_weighted_pct = None,
     general_score_pct = None, specialized_score_pct = None, final_weighted_pct = None,
     recommendation = None, bonus_points = None, bonus_reason = None, evaluator_comment = None,
     final_snapshot = None, created_at = now env, stage_entered_at = now env, finalized_at = None,
     acknowledged_at = None, acknowledged_by_user_id = None, self_assessment_submitted_at = None,
     self_assessment_note = None, self_assessment_invited_at = None,
     self_assessment_invited_by_user_id = None, submission_extended_until = None,
     submission_extended_at = None, submission_extended_by_user_id = None,
     submission_extension_reason = None, objection_at = None, objection_reason = None,
     objection_resolved_at = None, objection_resolution = None, objection_resolved_by_user_id = None\<rparr>"

definition create_evaluation :: "env \<Rightarrow> database \<Rightarrow> current_user \<Rightarrow> int \<Rightarrow> (database \<times> int) http" where
  "create_evaluation env db user subject =
    bindE (require_chain_stage Role_unit_supervisor user) (\<lambda>_.
    bindE (or_raise (get_personnel db subject) (HTTPException 404 ''no such person'')) (\<lambda>person.
    bindE (raise_if (p_status person \<noteq> Personnel_active) (HTTPException 400 ''inactive'')) (\<lambda>_.
    bindE (or_raise (find (\<lambda>a. acc_personnel_id a = personnel_id person) (t_access db))
             (HTTPException 400 ''no chain'')) (\<lambda>access.
    bindE (raise_if (inactive_seat_labels db access \<noteq> []) (HTTPException 400 ''inactive evaluator'')) (\<lambda>_.
     (let field = scorer_field (acc_unit_supervisor_user_id access) (acc_deputy_user_id access);
          stage = (case SEAT_ROLE field of Some x \<Rightarrow> x | None \<Rightarrow> Role_hr)
      in bindE (raise_if (\<not> may_act_at (cu_role user) stage \<or> access_seat field access \<noteq> Some (cu_id user))
                  (HTTPException 403 ''not the scorer'')) (\<lambda>_.
         bindE (raise_if (find (\<lambda>r. subject_personnel_id r = personnel_id person \<and> is_open r)
                    (t_evaluations db) \<noteq> None) (HTTPException 409 ''already open'')) (\<lambda>_.
          (let open_period = find (\<lambda>p. period_status p = Period_open) (t_periods db);
               (db1, framework) = ensure_framework db;
               (db2, code) = next_evaluation_code db1;
               k = next_id record_id (t_evaluations db2);
               r = new_record env k code access (personnel_id person) (map_option per_id open_period)
                     (map_option scheme_id (active_scheme db)) (Some (framework_id framework))
                     (subject_belongs_to_hr db (personnel_id person))
           in bindE (raise_if (\<not> record_constraints db2 r) (HTTPException 409 ''already open'')) (\<lambda>_.
              Inr (log_event (cu_id user) ''status_changed'' (Some k) None
                     (Some [(''status'', jstr (status_value Draft))]) (add_evaluation r db2), k)))))))))))"

section \<open>Scoring\<close>

record score_input =
  si_indicator_id :: int
  si_score :: int
  si_evidence_text :: "utext option"

definition score_input_ok :: "score_input \<Rightarrow> bool" where
  "score_input_ok s \<longleftrightarrow> 1 \<le> si_score s \<and> si_score s \<le> 5 \<and>
    (case si_evidence_text s of None \<Rightarrow> True | Some t \<Rightarrow> length t \<le> EVIDENCE_MAX)"

text \<open>Inserting a row or, when the record has one for the indicator, updating it in place.\<close>

definition upsert_score :: "int \<Rightarrow> evaluation_score list \<Rightarrow> score_input \<Rightarrow> evaluation_score list" where
  "upsert_score rid rows item =
    (if (\<exists>s \<in> set rows. score_record_id s = rid \<and> score_indicator_id s = si_indicator_id item)
     then map (\<lambda>s. if score_record_id s = rid \<and> score_indicator_id s = si_indicator_id item
                   then s\<lparr>score := si_score item, evidence_text := si_evidence_text item\<rparr> else s) rows
     else rows @ [\<lparr>score_id = next_id score_id rows, score_record_id = rid,
                   score_indicator_id = si_indicator_id item, score = si_score item,
                   evidence_text = si_evidence_text item\<rparr>])"

definition replace_scores ::
  "database \<Rightarrow> evaluation_record \<Rightarrow> score_input list \<Rightarrow> database http" where
  "replace_scores db r items =
    (let known = map indicator_id (indicators_for_record db r);
         ids = map si_indicator_id items
     in bindE (raise_if (\<not> set ids \<subseteq> set known) (HTTPException 400 ''unknown indicator'')) (\<lambda>_.
        bindE (raise_if (\<not> distinct ids) (HTTPException 400 ''repeated indicator'')) (\<lambda>_.
         (let kept = filter (\<lambda>s. score_record_id s \<noteq> record_id r \<or> score_indicator_id s \<in> set ids) (t_scores db)
          in Inr (db\<lparr>t_scores := foldl (upsert_score (record_id r)) kept items\<rparr>)))))"

definition upsert_scores :: "database \<Rightarrow> current_user \<Rightarrow> int \<Rightarrow> score_input list \<Rightarrow> database http" where
  "upsert_scores db user k items =
    bindE (raise_if (\<not> list_all score_input_ok items) (HTTPException 422 ''score'')) (\<lambda>_.
    bindE (get_record_or_404 db k) (\<lambda>r.
    bindE (raise_if (\<not> is_the_scorer r user) (HTTPException 403 ''not the scorer'')) (\<lambda>_.
    bindE (replace_scores db r items) (\<lambda>db1.
    Inr (log_event (cu_id user) ''scores_draft_saved'' (Some k) None
           (Some [(''scored_indicators'', JInt (int (length items)))]) db1)))))"

definition set_evaluator_comment :: "database \<Rightarrow> current_user \<Rightarrow> int \<Rightarrow> utext \<Rightarrow> database http" where
  "set_evaluator_comment db user k comment =
    (let text = strip comment
     in bindE (raise_if (EVALUATOR_COMMENT_MAX < length text) (HTTPException 422 ''comment'')) (\<lambda>_.
        bindE (get_record_or_404 db k) (\<lambda>r.
        bindE (raise_if (\<not> is_the_scorer r user) (HTTPException 403 ''not the scorer'')) (\<lambda>_.
        Inr (put_evaluation (r\<lparr>evaluator_comment := Some text\<rparr>) db)))))"

definition set_special_score ::
  "env \<Rightarrow> database \<Rightarrow> current_user \<Rightarrow> int \<Rightarrow> rat \<Rightarrow> utext option \<Rightarrow> database http" where
  "set_special_score env db user k points given =
    bindE (raise_if (points < 0 \<or> 100 < points \<or>
              (case given of None \<Rightarrow> False | Some t \<Rightarrow> BONUS_REASON_MAX < length (strip t)))
             (HTTPException 422 ''special score'')) (\<lambda>_.
    bindE (get_record_or_404 db k) (\<lambda>r.
    bindE (raise_if (\<not> is_the_scorer r user) (HTTPException 403 ''not the scorer'')) (\<lambda>_.
     (let reason = nonempty_text (Some (strip (case given of None \<Rightarrow> [] | Some t \<Rightarrow> t)))
      in bindE (case validate_bonus points reason (rules_for_record db r) of
                  Inl e \<Rightarrow> Inl (HTTPException 400 e) | Inr _ \<Rightarrow> Inr ()) (\<lambda>_.
          (let r1 = r\<lparr>bonus_points := Some (numeric_column env 2 points),
                      bonus_reason := (if 0 < points then reason else None)\<rparr>
           in Inr (log_event (cu_id user) ''special_score_set'' (Some k)
                (Some [(''bonus_points'', jopt JFloat (bonus_points r)),
                       (''bonus_reason'', jopt JString (bonus_reason r))])
                (Some [(''bonus_points'', JFloat points),
                       (''bonus_reason'', jopt JString (bonus_reason r1))])
                (put_evaluation r1 db))))))))"

end
