(* ===== verification/Handlers.thy ===== *)
theory Handlers
  imports Evaluations
begin

text \<open>
  The endpoints of \<open>app/api/routers/evaluations.py\<close> that move a record through its chain or administer
  it: submission, approvals, finalization, returns, cancellation, extension of the window, claiming and
  handing over by human resources, objections and the reassignment of a seat.
\<close>

section \<open>Submission and approval\<close>

definition submit_action_for :: "evaluation_record \<Rightarrow> workflow_action" where
  "submit_action_for r =
    (if is_ceo_only_path r then (if skips_hr_review r then Ceo_submit_hr_subject else Ceo_submit)
     else if is_manager_path r
          then (if skips_hr_review r then Manager_submit_hr_subject else Manager_submit)
     else (if skips_hr_review r then Submit_hr_subject else Submit))"

definition submit_evaluation :: "env \<Rightarrow> database \<Rightarrow> current_user \<Rightarrow> int \<Rightarrow> database http" where
  "submit_evaluation env db user k =
    bindE (require_chain_stage Role_unit_supervisor user) (\<lambda>_.
    bindE (get_record_or_404 db k) (\<lambda>r.
    bindE (ensure_open env db r) (\<lambda>_.
    apply_transition env db r (submit_action_for r) user
      (Some (\<lambda>(db1, r1). finalize_scoring db1 r1 user)))))"

text \<open>\<open>None\<close> from the snapshot is the \<open>ValueError\<close> of a record without subject, which nothing catches.\<close>

definition stamp_finalization :: "env \<Rightarrow> before_hook" where
  "stamp_finalization env acc =
    (let (db, r) = acc;
         r1 = r\<lparr>finalized_at := Some (now env)\<rparr>
     in bindE (or_raise (build_final_snapshot db r1) (HTTPException 500 ''no subject'')) (\<lambda>snapshot.
        Inr (db, r1\<lparr>final_snapshot := Some snapshot, verify_token := Some (fresh_token env)\<rparr>)))"

definition hr_approve :: "env \<Rightarrow> database \<Rightarrow> current_user \<Rightarrow> int \<Rightarrow> database http" where
  "hr_approve env db user k =
    bindE (require_roles [Role_hr] user) (\<lambda>_.
    bindE (get_record_or_404 db k) (\<lambda>r.
    bindE (ensure_hr_may_handle r user) (\<lambda>_.
      if hr_finalizes_record r
      then apply_transition env db r Hr_finalize_direct_ceo user (Some (stamp_finalization env))
      else apply_transition env db r (if is_manager_path r then Hr_approve_manager else Hr_approve) user None)))"

definition deputy_approve :: "env \<Rightarrow> database \<Rightarrow> current_user \<Rightarrow> int \<Rightarrow> database http" where
  "deputy_approve env db user k =
    bindE (require_chain_stage Role_deputy user) (\<lambda>_.
    bindE (get_record_or_404 db k) (\<lambda>r. apply_transition env db r Deputy_approve user None))"

definition ceo_finalize :: "env \<Rightarrow> database \<Rightarrow> current_user \<Rightarrow> int \<Rightarrow> database http" where
  "ceo_finalize env db user k =
    bindE (require_chain_stage Role_ceo user) (\<lambda>_.
    bindE (get_record_or_404 db k) (\<lambda>r.
    apply_transition env db r Ceo_finalize user (Some (stamp_finalization env))))"

section \<open>Returning and cancelling\<close>

definition RETURN_ACTIONS :: "(workflow_action \<times> comment_stage) list" where
  "RETURN_ACTIONS =
    [(Hr_return, Hr_review), (Deputy_return, Deputy_review), (Deputy_return_hr_subject, Deputy_review),
     (Ceo_return, Ceo_final), (Ceo_return_manager, Ceo_final), (Ceo_return_manager_hr_subject, Ceo_final),
     (Ceo_return_ceo_only, Ceo_final), (Ceo_return_no_deputy, Ceo_final),
     (Ceo_return_no_deputy_hr_subject, Ceo_final)]"

definition return_action_for ::
  "evaluation_record \<Rightarrow> current_user \<Rightarrow> (workflow_action \<times> comment_stage) option" where
  "return_action_for r user = find (\<lambda>(a, _). transition_is_available r a user) RETURN_ACTIONS"

definition RETURN_ACTION_BY_ROLE :: "user_role \<Rightarrow> (workflow_action \<times> comment_stage) option" where
  "RETURN_ACTION_BY_ROLE =
    [Role_hr \<mapsto> (Hr_return, Hr_review), Role_deputy \<mapsto> (Deputy_return, Deputy_review),
     Role_ceo \<mapsto> (Ceo_return, Ceo_final)]"

text \<open>What a return writes before the status changes: the reason as a comment and in the log.\<close>

definition return_hook ::
  "env \<Rightarrow> int \<Rightarrow> comment_stage \<Rightarrow> utext \<Rightarrow> current_user \<Rightarrow> before_hook" where
  "return_hook env k stage reason user acc =
    (let (db, r) = acc
     in Inr (log_event (cu_id user) ''evaluation_returned'' (Some k) None
               (Some [(''reason'', JString reason)])
               (add_comment env k (cu_id user) None stage (ascii ''return: '' @ reason) db), r))"

definition do_return ::
  "env \<Rightarrow> database \<Rightarrow> evaluation_record \<Rightarrow> workflow_action \<Rightarrow> comment_stage \<Rightarrow> utext \<Rightarrow> current_user \<Rightarrow>
    database http" where
  "do_return env db r action stage reason user =
    apply_transition env db r action user (Some (return_hook env (record_id r) stage reason user))"

definition ceo_fallback :: "evaluation_record \<Rightarrow> workflow_action" where
  "ceo_fallback r =
    (if is_ceo_only_path r then Ceo_return_ceo_only
     else if is_manager_path r then Ceo_return_manager
     else if skips_deputy r then Ceo_return_no_deputy
     else Ceo_return)"

definition hr_subject_variant :: "workflow_action \<Rightarrow> workflow_action" where
  "hr_subject_variant a =
    (if a = Deputy_return then Deputy_return_hr_subject
     else if a = Ceo_return_manager then Ceo_return_manager_hr_subject
     else if a = Ceo_return_no_deputy then Ceo_return_no_deputy_hr_subject
     else a)"

definition return_evaluation :: "env \<Rightarrow> database \<Rightarrow> current_user \<Rightarrow> int \<Rightarrow> utext \<Rightarrow> database http" where
  "return_evaluation env db user k given =
    bindE (require_roles [Role_hr, Role_deputy, Role_ceo] user) (\<lambda>_.
    bindE (text_field REASON_MAX given) (\<lambda>reason.
    bindE (get_record_or_404 db k) (\<lambda>r.
    bindE (ensure_hr_may_handle r user) (\<lambda>_.
      case return_action_for r user of
        Some (action, stage) \<Rightarrow> do_return env db r action stage reason user
      | None \<Rightarrow>
          bindE (or_raise (RETURN_ACTION_BY_ROLE (cu_role user)) (HTTPException 500 ''role'')) (\<lambda>(base, stage).
           (let action = (if base = Ceo_return then ceo_fallback r else base)
            in bindE (raise_if (action = Deputy_return \<and> is_manager_path r)
                        (HTTPException 400 ''own score'')) (\<lambda>_.
               do_return env db r (if skips_hr_review r then hr_subject_variant action else action)
                 stage reason user)))))))"

definition cancel_hook :: "env \<Rightarrow> int \<Rightarrow> utext \<Rightarrow> current_user \<Rightarrow> before_hook" where
  "cancel_hook env k reason user acc =
    (let (db, r) = acc
     in Inr (log_event (cu_id user) ''evaluation_cancelled'' (Some k)
               (Some [(''status'', jstr (status_value (status r)))])
               (Some [(''reason'', JString reason)])
               (add_comment env k (cu_id user) None Hr_review (ascii ''cancel: '' @ reason) db), r))"

definition cancel_evaluation :: "env \<Rightarrow> database \<Rightarrow> current_user \<Rightarrow> int \<Rightarrow> utext \<Rightarrow> database http" where
  "cancel_evaluation env db user k given =
    bindE (require_roles [Role_hr, Role_deputy, Role_ceo] user) (\<lambda>_.
    bindE (text_field REASON_MAX given) (\<lambda>reason.
    bindE (get_record_or_404 db k) (\<lambda>r.
    bindE (ensure_may_administer r user) (\<lambda>_.
    apply_transition env db r (if cu_role user = Role_hr then Cancel else Cancel_hr_subject) user
      (Some (cancel_hook env (record_id r) reason user))))))"

section \<open>Administration\<close>

definition EXTENDABLE_STATUSES :: "evaluation_status list" where
  "EXTENDABLE_STATUSES = [Draft]"

definition isodate :: "int \<Rightarrow> string" where
  "isodate d =
    (let (y, m, day) = civil_of_day d
     in pad4 (str_int y) @ ''-'' @ pad2 (str_int m) @ ''-'' @ pad2 (str_int day))"

definition extend_submission_window ::
  "env \<Rightarrow> database \<Rightarrow> current_user \<Rightarrow> int \<Rightarrow> int \<Rightarrow> utext \<Rightarrow> database http" where
  "extend_submission_window env db user k until given =
    bindE (require_roles [Role_hr, Role_deputy, Role_ceo] user) (\<lambda>_.
    bindE (text_field REASON_MAX given) (\<lambda>reason.
    bindE (get_record_or_404 db k) (\<lambda>r.
    bindE (ensure_may_administer r user) (\<lambda>_.
    bindE (raise_if (status r \<notin> set EXTENDABLE_STATUSES) (HTTPException 400 ''not being scored'')) (\<lambda>_.
    bindE (raise_if (unlimited (window_for db r)) (HTTPException 400 ''no deadline'')) (\<lambda>_.
     (let r1 = r\<lparr>submission_extended_until := Some until, submission_extended_at := Some (now env),
                 submission_extended_by_user_id := Some (cu_id user),
                 submission_extension_reason := Some reason\<rparr>;
          db1 = add_comment env k (cu_id user) None Hr_review (ascii ''extended: '' @ reason)
                  (put_evaluation r1 db);
          db2 = log_event (cu_id user) ''submission_window_extended'' (Some k)
                  (Some [(''until'', jopt (\<lambda>d. jstr (isodate d)) (submission_extended_until r))])
                  (Some [(''until'', jstr (isodate until)), (''reason'', JString reason)]) db1;
          targets = option_list (seat (scorer_field (unit_supervisor_user_id r1) (deputy_user_id r1)) r1)
      in Inr (if targets = [] then db2
              else notify env targets ''submission_window_extended'' (Some k)
                     (Some (evaluation_link r1)) db2))))))))"

definition hr_claim :: "database \<Rightarrow> current_user \<Rightarrow> int \<Rightarrow> database http" where
  "hr_claim db user k =
    bindE (require_roles [Role_hr] user) (\<lambda>_.
    bindE (get_record_or_404 db k) (\<lambda>r.
    bindE (ensure_hr_may_handle r user) (\<lambda>_.
    bindE (raise_if (status r \<notin> set OPEN_STATUSES) (HTTPException 400 ''closed'')) (\<lambda>_.
    bindE (raise_if (hr_user_id r \<noteq> None) (HTTPException 409 ''claimed by a colleague'')) (\<lambda>_.
    Inr (log_event (cu_id user) ''hr_case_claimed'' (Some k) None
           (Some [(''hr_user_id'', JInt (cu_id user)), (''implicit'', JBool False)])
           (put_evaluation (r\<lparr>hr_user_id := Some (cu_id user)\<rparr>) db)))))))"

definition hr_handover :: "env \<Rightarrow> database \<Rightarrow> current_user \<Rightarrow> int \<Rightarrow> int \<Rightarrow> utext \<Rightarrow> database http" where
  "hr_handover env db user k new_hr given =
    bindE (require_roles [Role_hr] user) (\<lambda>_.
    bindE (text_field REASON_MAX given) (\<lambda>reason.
    bindE (get_record_or_404 db k) (\<lambda>r.
    bindE (ensure_hr_may_handle r user) (\<lambda>_.
    bindE (raise_if (status r \<notin> set OPEN_STATUSES) (HTTPException 400 ''closed'')) (\<lambda>_.
     (let bad = HTTPException 400 ''not an active user of human resources''
      in bindE (or_raise (get_user db new_hr) bad) (\<lambda>owner.
         bindE (raise_if (\<not> user_is_active owner \<or> user_role owner \<noteq> Role_hr) bad) (\<lambda>_.
         bindE (raise_if (Some (user_id owner) = hr_user_id r) (HTTPException 400 ''already the owner'')) (\<lambda>_.
         bindE (raise_if (user_personnel_id owner \<noteq> None \<and>
                   user_personnel_id owner = Some (subject_personnel_id r))
                  (HTTPException 400 ''the subject'')) (\<lambda>_.
          (let r1 = r\<lparr>hr_user_id := Some (user_id owner)\<rparr>;
               db1 = add_comment env k (cu_id user) None Hr_review (ascii ''handed over: '' @ reason)
                       (put_evaluation r1 db);
               db2 = log_event (cu_id user) ''hr_case_handed_over'' (Some k)
                       (Some [(''hr_user_id'', jopt JInt (hr_user_id r))])
                       (Some [(''hr_user_id'', JInt (user_id owner)), (''reason'', JString reason)]) db1
           in Inr (notify_stage_owner_reassigned env r1 (user_id owner) db2))))))))))))"

definition ensure_can_resolve_objection :: "evaluation_record \<Rightarrow> current_user \<Rightarrow> unit http" where
  "ensure_can_resolve_objection r user =
    (case objection_resolver_field r of
       None \<Rightarrow>
         bindE (raise_if (cu_role user \<noteq> Role_hr) (HTTPException 403 ''answered by human resources''))
           (\<lambda>_. ensure_hr_may_handle r user)
     | Some field \<Rightarrow>
         (let stage_role = (if field = Ceo_user_id then Role_ceo else Role_deputy);
              owner = seat field r
          in bindE (raise_if (owner = None \<or> Some (cu_id user) \<noteq> owner \<or> \<not> may_act_at (cu_role user) stage_role)
                      (HTTPException 403 ''answered by the chain''))
               (\<lambda>_. ensure_hr_may_handle r user)))"

definition resolve_objection :: "env \<Rightarrow> database \<Rightarrow> current_user \<Rightarrow> int \<Rightarrow> utext \<Rightarrow> database http" where
  "resolve_objection env db user k given =
    bindE (require_roles [Role_hr, Role_deputy, Role_ceo] user) (\<lambda>_.
    bindE (text_field OBJECTION_MAX given) (\<lambda>answer.
    bindE (ensure_module_enabled db ''objections'') (\<lambda>_.
    bindE (get_record_or_404 db k) (\<lambda>r.
    bindE (ensure_can_resolve_objection r user) (\<lambda>_.
    bindE (raise_if (objection_at r = None) (HTTPException 400 ''no objection'')) (\<lambda>_.
    bindE (raise_if (objection_resolved_at r \<noteq> None) (HTTPException 400 ''answered already'')) (\<lambda>_.
     (let r1 = r\<lparr>objection_resolved_at := Some (now env), objection_resolution := Some answer,
                 objection_resolved_by_user_id := Some (cu_id user)\<rparr>;
          db1 = log_event (cu_id user) ''evaluation_objection_resolved'' (Some k)
                  (Some [(''objection_reason'', jopt JString (objection_reason r))])
                  (Some [(''resolution'', JString answer)]) (put_evaluation r1 db);
          recipients = (if employee_results_are_visible db1
                        then subject_user_ids db1 (subject_personnel_id r1) else [])
      in Inr (if recipients = [] then db1
              else notify env recipients ''evaluation_objection_resolved'' (Some k) (Some ''/me'') db1)))))))))"

definition REASSIGNABLE_STAGES :: "seat_field \<Rightarrow> (user_role \<times> string) option" where
  "REASSIGNABLE_STAGES =
    [Unit_supervisor_user_id \<mapsto> (Role_unit_supervisor, ''supervisor''),
     Deputy_user_id \<mapsto> (Role_deputy, ''deputy''), Ceo_user_id \<mapsto> (Role_ceo, ''ceo'')]"

text \<open>The field of the payload is one of the three seats of the chain; another value is refused.\<close>

definition reassign_stage_owner ::
  "env \<Rightarrow> database \<Rightarrow> current_user \<Rightarrow> int \<Rightarrow> seat_field \<Rightarrow> int \<Rightarrow> utext \<Rightarrow> database http" where
  "reassign_stage_owner env db user k field new_user given =
    bindE (require_roles [Role_hr, Role_deputy, Role_ceo] user) (\<lambda>_.
    bindE (text_field REASON_MAX given) (\<lambda>reason.
    bindE (or_raise (REASSIGNABLE_STAGES field) (HTTPException 422 ''field'')) (\<lambda>(expected_role, label).
    bindE (get_record_or_404 db k) (\<lambda>r.
    bindE (ensure_may_administer r user) (\<lambda>_.
    bindE (raise_if (status r \<notin> set OPEN_STATUSES) (HTTPException 400 ''closed'')) (\<lambda>_.
    bindE (raise_if (seat field r = None) (HTTPException 400 ''no such stage'')) (\<lambda>_.
    bindE (or_raise (get_user db new_user) (HTTPException 400 ''inactive user'')) (\<lambda>new.
    bindE (raise_if (\<not> user_is_active new) (HTTPException 400 ''inactive user'')) (\<lambda>_.
    bindE (raise_if (user_role new \<noteq> expected_role) (HTTPException 400 ''wrong role'')) (\<lambda>_.
    bindE (ensure_evaluators_are_not_the_subject db (subject_personnel_id r) [Some new_user]) (\<lambda>_.
     (let r1 = set_seat field new_user r
      in bindE (ensure_chain_stages_are_not_redundant (unit_supervisor_user_id r1) (deputy_user_id r1)
                  (Some (ceo_user_id r1))) (\<lambda>_.
          (let db1 = add_comment env k (cu_id user) None Hr_review (ascii ''reassigned: '' @ reason)
                       (put_evaluation r1 db);
               db2 = log_event (cu_id user) ''stage_owner_reassigned'' (Some k)
                       (Some [(field_name field, jopt JInt (seat field r))])
                       (Some [(field_name field, JInt new_user), (''reason'', JString reason)]) db1
           in Inr (notify_stage_owner_reassigned env r1 (user_id new) db2)))))))))))))))"

end
