(* ===== verification/Me.thy ===== *)
theory Me
  imports Evaluations
begin

text \<open>
  What a person does on their own record: the self-assessment (\<open>app/services/self_assessment.py\<close>,
  \<open>app/api/routers/me.py\<close>), acknowledging the result and objecting to it, and what they are shown
  while the record is open and after it is final.
\<close>

section \<open>Eligibility\<close>

definition SELF_ASSESSMENT_OPEN_STATUSES :: "evaluation_status list" where
  "SELF_ASSESSMENT_OPEN_STATUSES = [Draft]"

definition EXCLUDED_ROLES :: "user_role list" where
  "EXCLUDED_ROLES = [Role_ceo, Role_deputy]"

definition VIEWER_ROLES :: "user_role list" where
  "VIEWER_ROLES = [Role_hr]"

definition may_self_assess :: "user_role \<Rightarrow> bool" where
  "may_self_assess r \<longleftrightarrow> r \<notin> set EXCLUDED_ROLES"

definition may_view :: "evaluation_record \<Rightarrow> user_role \<Rightarrow> bool" where
  "may_view r role \<longleftrightarrow> role \<in> set VIEWER_ROLES"

text \<open>The newest draft about a person.\<close>

definition open_record_for :: "database \<Rightarrow> int \<Rightarrow> evaluation_record option" where
  "open_record_for db p =
    (case rev (sort_key created_at
        (filter (\<lambda>r. subject_personnel_id r = p \<and> status r \<in> set SELF_ASSESSMENT_OPEN_STATUSES)
          (t_evaluations db))) of
       [] \<Rightarrow> None | r # _ \<Rightarrow> Some r)"

datatype self_assessment_state =
  State_no_case | State_no_account | State_closed | State_pending | State_invited | State_submitted

definition state_of :: "evaluation_record option \<Rightarrow> bool \<Rightarrow> self_assessment_state" where
  "state_of rec has_account =
    (case rec of
       None \<Rightarrow> State_no_case
     | Some r \<Rightarrow>
        (if self_assessment_submitted_at r \<noteq> None then State_submitted
         else if status r \<notin> set SELF_ASSESSMENT_OPEN_STATUSES then State_closed
         else if \<not> has_account then State_no_account
         else if self_assessment_invited_at r \<noteq> None then State_invited else State_pending))"

section \<open>Invitation\<close>

definition invite :: "env \<Rightarrow> database \<Rightarrow> int \<Rightarrow> int \<Rightarrow> (database \<times> evaluation_record) http" where
  "invite env db p actor =
    bindE (or_raise (find (\<lambda>u. user_personnel_id u = Some p \<and> user_is_active u) (t_users db))
             (HTTPException 400 ''no account'')) (\<lambda>account.
    bindE (or_raise (open_record_for db p) (HTTPException 400 ''no draft'')) (\<lambda>r.
    bindE (raise_if (self_assessment_submitted_at r \<noteq> None) (HTTPException 400 ''submitted already'')) (\<lambda>_.
     (let is_reminder = self_assessment_invited_at r \<noteq> None;
          r1 = r\<lparr>self_assessment_invited_at := Some (now env),
                 self_assessment_invited_by_user_id := Some actor\<rparr>;
          db1 = notify env [user_id account] ''self_assessment_invited'' (Some (record_id r))
                  (Some (''/me?self-assessment='' @ str_int (record_id r))) (put_evaluation r1 db)
      in Inr (log_event actor
                (if is_reminder then ''self_assessment_reminded'' else ''self_assessment_invited'')
                (Some (record_id r)) None
                (Some [(''personnel_id'', JInt p), (''notified_user_id'', JInt (user_id account))]) db1,
              r1)))))"

definition invite_to_self_assessment ::
  "env \<Rightarrow> database \<Rightarrow> current_user \<Rightarrow> int \<Rightarrow> database http" where
  "invite_to_self_assessment env db user k =
    bindE (require_role_or_capability Role_hr Manage_personnel db user) (\<lambda>_.
    bindE (ensure_module_enabled db ''self_assessment'') (\<lambda>_.
    bindE (or_raise (get_personnel db k) (HTTPException 404 ''no such person'')) (\<lambda>p.
    bindE (invite env db (personnel_id p) (cu_id user)) (\<lambda>(db1, _). Inr db1))))"

section \<open>The self-assessment\<close>

record self_assessment_input =
  sai_indicator_id :: int
  sai_score :: int
  sai_note :: "utext option"

definition self_input_ok :: "self_assessment_input \<Rightarrow> bool" where
  "self_input_ok i \<longleftrightarrow> 1 \<le> sai_score i \<and> sai_score i \<le> 5 \<and>
    (case sai_note i of None \<Rightarrow> True | Some t \<Rightarrow> length t \<le> SELF_ASSESSMENT_NOTE_MAX)"

definition my_record_or_404 :: "database \<Rightarrow> int \<Rightarrow> current_user \<Rightarrow> evaluation_record http" where
  "my_record_or_404 db k user =
    (case get_evaluation db k of
       None \<Rightarrow> Inl (HTTPException 404 ''no such evaluation'')
     | Some r \<Rightarrow>
        (if cu_personnel_id user = None \<or> Some (subject_personnel_id r) \<noteq> cu_personnel_id user
         then Inl (HTTPException 404 ''no such evaluation'') else Inr r))"

text \<open>One row of the sheet: known to the record and not seen before.\<close>

definition add_self_score ::
  "int \<Rightarrow> int set \<Rightarrow> self_assessment_score list \<times> int set \<Rightarrow> self_assessment_input \<Rightarrow>
    (self_assessment_score list \<times> int set) http" where
  "add_self_score rid allowed acc item =
    (let (rows, seen) = acc; i = sai_indicator_id item
     in bindE (raise_if (i \<notin> allowed) (HTTPException 400 ''unknown indicator'')) (\<lambda>_.
        bindE (raise_if (i \<in> seen) (HTTPException 400 ''repeated indicator'')) (\<lambda>_.
        Inr (rows @ [\<lparr>self_score_id = next_id self_score_id rows, self_score_record_id = rid,
               self_score_indicator_id = i, self_score = sai_score item, self_score_note = sai_note item\<rparr>],
             insert i seen))))"

definition submit_self_assessment ::
  "env \<Rightarrow> database \<Rightarrow> current_user \<Rightarrow> int \<Rightarrow> self_assessment_input list \<Rightarrow> utext option \<Rightarrow> database http" where
  "submit_self_assessment env db user k items remark =
    bindE (require_own_personnel user) (\<lambda>_.
     (let summary = map_option strip remark
      in bindE (raise_if (\<not> list_all self_input_ok items \<or>
                  (case summary of None \<Rightarrow> False | Some t \<Rightarrow> SELF_ASSESSMENT_SUMMARY_MAX < length t))
                 (HTTPException 422 ''self-assessment'')) (\<lambda>_.
         bindE (ensure_module_enabled db ''self_assessment'') (\<lambda>_.
         bindE (my_record_or_404 db k user) (\<lambda>r.
         bindE (raise_if (\<not> may_self_assess (cu_role user)) (HTTPException 403 ''no self-assessment'')) (\<lambda>_.
         bindE (raise_if (status r \<notin> set SELF_ASSESSMENT_OPEN_STATUSES) (HTTPException 400 ''too late'')) (\<lambda>_.
         bindE (ensure_open env db r) (\<lambda>_.
         bindE (raise_if (self_assessment_submitted_at r \<noteq> None) (HTTPException 400 ''submitted already'')) (\<lambda>_.
          (let allowed = indicator_ids_for_record db r
           in bindE (foldE (add_self_score (record_id r) allowed) (t_self_scores db, {}) items) (\<lambda>(rows, seen).
              bindE (raise_if (allowed - seen \<noteq> {}) (HTTPException 400 ''unanswered'')) (\<lambda>_.
               (let r1 = r\<lparr>self_assessment_submitted_at := Some (now env), self_assessment_note := summary\<rparr>
                in Inr (log_event (cu_id user) ''self_assessment_submitted'' (Some k) None
                     (Some [(''scored_indicators'', JInt (int (length items)))])
                     (put_evaluation r1 (db\<lparr>t_self_scores := rows\<rparr>))))))))))))))))"

section \<open>The result\<close>

definition acknowledge_evaluation :: "env \<Rightarrow> database \<Rightarrow> current_user \<Rightarrow> int \<Rightarrow> database http" where
  "acknowledge_evaluation env db user k =
    bindE (require_own_personnel user) (\<lambda>_.
    bindE (ensure_module_enabled db ''employee_result_acknowledgement'') (\<lambda>_.
    bindE (my_record_or_404 db k user) (\<lambda>r.
    bindE (raise_if (status r \<noteq> Finalized) (HTTPException 400 ''not final'')) (\<lambda>_.
    bindE (raise_if (acknowledged_at r \<noteq> None) (HTTPException 400 ''acknowledged already'')) (\<lambda>_.
     (let r1 = r\<lparr>acknowledged_at := Some (now env), acknowledged_by_user_id := Some (cu_id user)\<rparr>;
          db1 = log_event (cu_id user) ''evaluation_acknowledged'' (Some k) None
                  (Some [(''acknowledged_at'', jstr (isoformat (now env)))]) (put_evaluation r1 db)
      in Inr (notify env (active_hr_ids db1) ''evaluation_acknowledged'' (Some k)
                (Some (evaluation_link r)) db1)))))))"

definition file_objection :: "env \<Rightarrow> database \<Rightarrow> current_user \<Rightarrow> int \<Rightarrow> utext \<Rightarrow> database http" where
  "file_objection env db user k given =
    bindE (require_own_personnel user) (\<lambda>_.
    bindE (text_field OBJECTION_MAX given) (\<lambda>reason.
    bindE (ensure_module_enabled db ''objections'') (\<lambda>_.
    bindE (my_record_or_404 db k user) (\<lambda>r.
    bindE (raise_if (status r \<noteq> Finalized) (HTTPException 400 ''not final'')) (\<lambda>_.
    bindE (or_raise (acknowledged_at r) (HTTPException 400 ''not acknowledged'')) (\<lambda>acknowledged.
    bindE (raise_if (objection_at r \<noteq> None) (HTTPException 400 ''objected already'')) (\<lambda>_.
    bindE (raise_if (acknowledged + days (objection_window_days (cfg env)) < now env)
             (HTTPException 400 ''window over'')) (\<lambda>_.
     (let r1 = r\<lparr>objection_at := Some (now env), objection_reason := Some reason\<rparr>;
          db1 = log_event (cu_id user) ''evaluation_objection_filed'' (Some k) None
                  (Some [(''reason'', JString reason)]) (put_evaluation r1 db);
          recipients = (case objection_resolver_field r of
              None \<Rightarrow> active_hr_ids db1 | Some field \<Rightarrow> option_list (seat field r))
      in Inr (if recipients = [] then db1
              else notify env recipients ''evaluation_objection_filed'' (Some k)
                     (Some (evaluation_link r)) db1))))))))))"

section \<open>What the person sees\<close>

definition my_evaluations :: "database \<Rightarrow> current_user \<Rightarrow> evaluation_record list http" where
  "my_evaluations db user =
    bindE (require_own_personnel user) (\<lambda>_.
    Inr (case cu_personnel_id user of None \<Rightarrow> [] | Some p \<Rightarrow>
         if \<not> subject_may_read_own_result db then []
         else rev (sort_key (\<lambda>r. case finalized_at r of None \<Rightarrow> 0 | Some t \<Rightarrow> t)
                (rev (filter (\<lambda>r. subject_personnel_id r = p \<and> status r = Finalized) (t_evaluations db))))))"

text \<open>The open record as the person sees it: no field of it is a score, a comment or a result.\<close>

record my_open_view =
  moe_id :: int
  moe_evaluation_code :: string
  moe_status :: evaluation_status
  moe_created_at :: int
  moe_stage_entered_at :: int
  moe_self_assessment_submitted_at :: "int option"
  moe_hr_review_skipped :: bool
  moe_deputy_skipped :: bool
  moe_indicator_ids :: "int set"
  moe_self_assessment_open :: bool
  moe_submission_deadline :: "int option"
  moe_submission_deadline_extended :: bool

definition open_view :: "env \<Rightarrow> database \<Rightarrow> current_user \<Rightarrow> evaluation_record \<Rightarrow> my_open_view" where
  "open_view env db user r =
    (let w = window_for db r
     in \<lparr>moe_id = record_id r, moe_evaluation_code = evaluation_code r, moe_status = status r,
         moe_created_at = created_at r, moe_stage_entered_at = stage_entered_at r,
         moe_self_assessment_submitted_at = self_assessment_submitted_at r,
         moe_hr_review_skipped = hr_review_skipped r,
         moe_deputy_skipped = (skips_deputy r \<or> is_manager_path r),
         moe_indicator_ids = indicator_ids_for_record db r,
         moe_self_assessment_open =
           (may_self_assess (cu_role user) \<and> status r \<in> set SELF_ASSESSMENT_OPEN_STATUSES \<and>
            window_is_open env w \<and> self_assessment_submitted_at r = None),
         moe_submission_deadline = closes_on w, moe_submission_deadline_extended = extended w\<rparr>)"

definition my_open_evaluation :: "env \<Rightarrow> database \<Rightarrow> current_user \<Rightarrow> my_open_view list http" where
  "my_open_evaluation env db user =
    bindE (require_own_personnel user) (\<lambda>_.
    Inr (case cu_personnel_id user of None \<Rightarrow> [] | Some p \<Rightarrow> map (open_view env db user)
      (rev (sort_key created_at (rev (filter (\<lambda>r. subject_personnel_id r = p \<and> is_open r)
        (t_evaluations db)))))))"

end
