(* ===== verification/Moves.thy ===== *)
theory Moves
  imports Handlers Me
begin

text \<open>
  What executing a transition does to the table of records. A handler passes \<open>apply_transition\<close> a hook
  that runs before the status changes; the contract of a hook is a locale, proved here for each hook
  of the endpoints, and the effect of a transition is derived once from the contract.
\<close>

section \<open>What stays the same about a record\<close>

text \<open>Who the record is about, its code, the seats of its chain and whether it skips human resources.\<close>

definition identity_of ::
  "evaluation_record \<Rightarrow> int \<times> string \<times> int \<times> int option \<times> int option \<times> int \<times> bool" where
  "identity_of r =
    (record_id r, evaluation_code r, subject_personnel_id r, unit_supervisor_user_id r,
     deputy_user_id r, ceo_user_id r, hr_review_skipped r)"

definition result_of ::
  "evaluation_record \<Rightarrow> rat option \<times> rat option \<times> rat option \<times> rat option \<times> utext option" where
  "result_of r =
    (base_weighted_pct r, general_score_pct r, specialized_score_pct r, final_weighted_pct r,
     recommendation r)"

text \<open>
  What the person it is about says: when they assessed themselves, and what they add to a finished
  record, with the answer to it.
\<close>

definition voice_of ::
  "evaluation_record \<Rightarrow> int option \<times> int option \<times> int option \<times> int option \<times> utext option \<times> int option \<times> utext option \<times> int option" where
  "voice_of r =
    (self_assessment_submitted_at r, acknowledged_at r, acknowledged_by_user_id r, objection_at r, objection_reason r,
     objection_resolved_at r, objection_resolution r, objection_resolved_by_user_id r)"

definition has_result :: "evaluation_record \<Rightarrow> bool" where
  "has_result r \<longleftrightarrow>
    base_weighted_pct r \<noteq> None \<and> general_score_pct r \<noteq> None \<and> specialized_score_pct r \<noteq> None \<and>
    final_weighted_pct r \<noteq> None \<and> recommendation r \<noteq> None"

lemma identity_of_eqD:
  assumes "identity_of r = identity_of q"
  shows "record_id r = record_id q" "evaluation_code r = evaluation_code q"
    "subject_personnel_id r = subject_personnel_id q"
    "unit_supervisor_user_id r = unit_supervisor_user_id q" "deputy_user_id r = deputy_user_id q"
    "ceo_user_id r = ceo_user_id q" "hr_review_skipped r = hr_review_skipped q"
  using assms by (simp_all add: identity_of_def)

lemma has_result_cong: "result_of r = result_of q \<Longrightarrow> has_result r = has_result q"
  by (simp add: result_of_def has_result_def)

lemma identity_of_enter [simp]: "identity_of (enter_status env to r) = identity_of r"
  by (simp add: identity_of_def enter_status_def)

lemma result_of_enter [simp]: "result_of (enter_status env to r) = result_of r"
  by (simp add: result_of_def enter_status_def)

lemma voice_of_enter [simp]: "voice_of (enter_status env to r) = voice_of r"
  by (simp add: voice_of_def enter_status_def)

lemma has_result_enter [simp]: "has_result (enter_status env to r) = has_result r"
  by (rule has_result_cong) simp

lemma finalized_at_enter: "\<exists>t. finalized_at (enter_status env Finalized r) = Some t"
  by (auto simp: enter_status_def)

lemma TRANSITIONS_claims:
  "claimable_if_unassigned (TRANSITIONS a) \<Longrightarrow> assignee_field (TRANSITIONS a) = Some Hr_user_id"
  by (cases a) simp_all

lemma claim_seat_keeps [simp]:
  "identity_of (snd (claim_seat (TRANSITIONS a) user (db, r))) = identity_of r"
  "result_of (snd (claim_seat (TRANSITIONS a) user (db, r))) = result_of r"
  "voice_of (snd (claim_seat (TRANSITIONS a) user (db, r))) = voice_of r"
  using TRANSITIONS_claims [of a]
  by (auto simp: claim_seat_def identity_of_def result_of_def voice_of_def split: option.splits)

section \<open>The log under messages and other tables\<close>

lemma log_wf_cong: "t_audit_log db' = t_audit_log db \<Longrightarrow> log_wf db' = log_wf db"
  by (simp add: log_wf_def)

lemma log_wf_messages: "only_messages db db' \<Longrightarrow> log_wf db' = log_wf db"
  by (rule log_wf_cong) (simp add: only_messages_tables)

lemma log_wf_put [simp]: "log_wf (put_evaluation r db) = log_wf db"
  by (rule log_wf_cong) simp

lemma log_wf_claim: "log_wf db \<Longrightarrow> log_wf (fst (claim_seat spec user (db, r)))"
  by (auto simp: claim_seat_def split: option.splits)

lemma log_wf_add_comment [simp]: "log_wf (add_comment env rid author parent stage text db) = log_wf db"
  by (rule log_wf_cong) (simp add: add_comment_def)

lemma add_comment_tables [simp]:
  "t_evaluations (add_comment env rid author parent stage text db) = t_evaluations db"
  "t_scores (add_comment env rid author parent stage text db) = t_scores db"
  "t_audit_log (add_comment env rid author parent stage text db) = t_audit_log db"
  "t_users (add_comment env rid author parent stage text db) = t_users db"
  "t_access (add_comment env rid author parent stage text db) = t_access db"
  "t_personnel (add_comment env rid author parent stage text db) = t_personnel db"
  "t_code_seq (add_comment env rid author parent stage text db) = t_code_seq db"
  by (simp_all add: add_comment_def)

text \<open>The last row that the log got is the change of the record's status, by its actor.\<close>

definition logs_change ::
  "int \<Rightarrow> evaluation_record \<Rightarrow> evaluation_status \<Rightarrow> database \<Rightarrow> database \<Rightarrow> bool" where
  "logs_change actor r to db db' \<longleftrightarrow>
    (\<exists>rows row. t_audit_log db' = t_audit_log db @ rows @ [row] \<and> event_type row = ''status_changed'' \<and>
      actor_user_id row = actor \<and> log_evaluation_record_id row = Some (record_id r) \<and>
      old_value row = Some [(''status'', jstr (status_value (status r)))] \<and>
      new_value row = Some [(''status'', jstr (status_value to))])"

lemma claim_seat_log: "\<exists>rows. t_audit_log (fst (claim_seat spec user (db, r))) = t_audit_log db @ rows"
  by (auto simp: claim_seat_def split: option.splits)

section \<open>The contract of a hook\<close>

lemma apply_transition_hookD:
  assumes "apply_transition env db r a user (Some hook) = Inr db'"
  obtains db1 r1 where "transition_is_available r a user"
    and "hook (claim_seat (TRANSITIONS a) user (db, r)) = Inr (db1, r1)"
    and "to_status (TRANSITIONS a) = Finalized \<Longrightarrow>
      final_weighted_pct r \<noteq> None \<and> scores_of db (record_id r) \<noteq> [] \<and> final_snapshot r1 \<noteq> None"
    and "db' = notify_for_workflow_action env (enter_status env (to_status (TRANSITIONS a)) r1) a
       (log_event (cu_id user) ''status_changed'' (Some (record_id r1))
         (Some [(''status'', jstr (status_value (status r1)))])
         (Some [(''status'', jstr (status_value (to_status (TRANSITIONS a))))])
         (put_evaluation (enter_status env (to_status (TRANSITIONS a)) r1) db1))"
  using assms unfolding apply_transition_def by (auto simp: ensure_allowed_iff Let_def)

text \<open>The people, accounts and chains and the sequence of codes, which no request on a record changes.\<close>

definition same_people :: "database \<Rightarrow> database \<Rightarrow> bool" where
  "same_people db db' \<longleftrightarrow> t_users db' = t_users db \<and> t_access db' = t_access db \<and>
    t_personnel db' = t_personnel db \<and> t_code_seq db' = t_code_seq db"

lemma same_people_iff [simp]:
  "same_people db db' \<longleftrightarrow> t_users db' = t_users db \<and> t_access db' = t_access db \<and>
    t_personnel db' = t_personnel db \<and> t_code_seq db' = t_code_seq db"
  by (simp add: same_people_def)

locale transition_hook =
  fixes hook :: before_hook
  assumes keeps_tables: "hook (db, r) = Inr (db1, r1) \<Longrightarrow>
      t_evaluations db1 = t_evaluations db \<and> t_scores db1 = t_scores db \<and> same_people db db1"
    and keeps_log: "hook (db, r) = Inr (db1, r1) \<Longrightarrow> log_wf db \<Longrightarrow> log_wf db1"
    and grows_log: "hook (db, r) = Inr (db1, r1) \<Longrightarrow> \<exists>rows. t_audit_log db1 = t_audit_log db @ rows"
    and keeps_row: "hook (db, r) = Inr (db1, r1) \<Longrightarrow>
      identity_of r1 = identity_of r \<and> voice_of r1 = voice_of r \<and> hr_user_id r1 = hr_user_id r \<and>
      status r1 = status r"
begin

lemma transition_effect:
  assumes "apply_transition env db r a user (Some hook) = Inr db'"
  obtains db0 r0 db1 r1 where "transition_is_available r a user"
    and "(db0, r0) = claim_seat (TRANSITIONS a) user (db, r)" and "hook (db0, r0) = Inr (db1, r1)"
    and "t_evaluations db' =
      row_put record_id (enter_status env (to_status (TRANSITIONS a)) r1) (t_evaluations db)"
    and "t_scores db' = t_scores db" and "same_people db db'"
    and "log_wf db \<Longrightarrow> log_wf db'"
    and "logs_change (cu_id user) r (to_status (TRANSITIONS a)) db db'"
    and "identity_of r1 = identity_of r" and "voice_of r1 = voice_of r" and "status r1 = status r"
    and "to_status (TRANSITIONS a) = Finalized \<Longrightarrow>
      final_weighted_pct r \<noteq> None \<and> scores_of db (record_id r) \<noteq> [] \<and> final_snapshot r1 \<noteq> None"
proof -
  let ?spec = "TRANSITIONS a"
  obtain db0 r0 where c: "claim_seat ?spec user (db, r) = (db0, r0)" by (meson surj_pair)
  obtain db1 r1 where av: "transition_is_available r a user"
    and hook: "hook (db0, r0) = Inr (db1, r1)"
    and fin: "to_status ?spec = Finalized \<Longrightarrow>
      final_weighted_pct r \<noteq> None \<and> scores_of db (record_id r) \<noteq> [] \<and> final_snapshot r1 \<noteq> None"
    and db': "db' = notify_for_workflow_action env (enter_status env (to_status ?spec) r1) a
       (log_event (cu_id user) ''status_changed'' (Some (record_id r1))
         (Some [(''status'', jstr (status_value (status r1)))])
         (Some [(''status'', jstr (status_value (to_status ?spec)))])
         (put_evaluation (enter_status env (to_status ?spec) r1) db1))"
    by (rule apply_transition_hookD [OF assms]) (auto simp: c)
  have t0: "t_evaluations db0 = t_evaluations db" "t_scores db0 = t_scores db" "same_people db db0"
    using claim_seat_db [of ?spec user db r] by (simp_all add: c)
  have t1: "t_evaluations db1 = t_evaluations db" "t_scores db1 = t_scores db" "same_people db db1"
    using keeps_tables [OF hook] t0 by simp_all
  have r0: "identity_of r0 = identity_of r" "voice_of r0 = voice_of r" "status r0 = status r"
    using claim_seat_keeps(1,3) [of a user db r] claim_seat_record(2) [of ?spec user db r]
    by (simp_all add: c)
  have log: "log_wf db'" if "log_wf db"
  proof -
    have "log_wf db0" using log_wf_claim [OF that, of ?spec user r] by (simp add: c)
    then have "log_wf db1" by (rule keeps_log [OF hook])
    then show ?thesis
      unfolding db' log_wf_messages [OF notify_for_workflow_action_messages]
      by (intro log_event_wf) simp
  qed
  have ids: "record_id r1 = record_id r" "status r1 = status r"
    using keeps_row [OF hook] r0 identity_of_eqD(1) [of r1 r] by simp_all
  have change: "logs_change (cu_id user) r (to_status ?spec) db db'"
  proof -
    obtain rows0 rows1 where "t_audit_log db0 = t_audit_log db @ rows0" "t_audit_log db1 = t_audit_log db0 @ rows1"
      using claim_seat_log [of ?spec user db r] grows_log [OF hook] by (auto simp: c)
    then show ?thesis
      unfolding logs_change_def
      by (intro exI [of _ "rows0 @ rows1"] exI)
        (auto simp: db' ids only_messages_tables [OF notify_for_workflow_action_messages])
  qed
  show ?thesis
    using fin keeps_row [OF hook] r0 t1
    by (intro that [OF av c [symmetric] hook _ _ _ log change])
      (auto simp: db' only_messages_tables [OF notify_for_workflow_action_messages])
qed

end

text \<open>A hook that does not compute a result.\<close>

locale quiet_hook = transition_hook +
  assumes keeps_result: "hook (db, r) = Inr (db1, r1) \<Longrightarrow> result_of r1 = result_of r"
begin

lemma keeps_has_result:
  "hook (db, r) = Inr (db1, r1) \<Longrightarrow> has_result r1 = has_result r"
  by (rule has_result_cong) (rule keeps_result)

end

section \<open>The moves of a record\<close>

text \<open>
  The life of a record as an abstract machine, with the endpoints forgotten: a record moves by a
  transition of the table, is edited and self-assessed while it is a draft, has its seats changed
  while it is open; when it is final it is acknowledged once, objected to once after that, and the
  objection is answered once.
\<close>

definition seats_wf :: "evaluation_record \<Rightarrow> bool" where
  "seats_wf r \<longleftrightarrow>
    (unit_supervisor_user_id r = None \<or> unit_supervisor_user_id r \<noteq> deputy_user_id r) \<and>
    deputy_user_id r \<noteq> Some (ceo_user_id r)"

inductive record_move :: "evaluation_record \<Rightarrow> evaluation_record \<Rightarrow> bool" where
  transit: "transition_is_available r a user \<Longrightarrow> identity_of r' = identity_of r \<Longrightarrow>
    voice_of r' = voice_of r \<Longrightarrow>
    status r' = to_status (TRANSITIONS a) \<Longrightarrow>
    (if a \<in> set submit_actions then has_result r' else result_of r' = result_of r) \<Longrightarrow>
    (status r' = Finalized \<Longrightarrow> final_snapshot r' \<noteq> None \<and> finalized_at r' \<noteq> None) \<Longrightarrow>
    record_move r r'"
| remark: "status r = Draft \<Longrightarrow> record_move r (r\<lparr>evaluator_comment := text\<rparr>)"
| special: "status r = Draft \<Longrightarrow>
    record_move r (r\<lparr>bonus_points := points, bonus_reason := reason\<rparr>)"
| extend: "status r = Draft \<Longrightarrow>
    record_move r (r\<lparr>submission_extended_until := until, submission_extended_at := moment,
      submission_extended_by_user_id := by_user, submission_extension_reason := why\<rparr>)"
| invited: "status r = Draft \<Longrightarrow> self_assessment_submitted_at r = None \<Longrightarrow>
    record_move r (r\<lparr>self_assessment_invited_at := Some moment,
      self_assessment_invited_by_user_id := Some u\<rparr>)"
| self_assessed: "status r = Draft \<Longrightarrow> self_assessment_submitted_at r = None \<Longrightarrow>
    record_move r (r\<lparr>self_assessment_submitted_at := Some moment, self_assessment_note := remark\<rparr>)"
| claim: "is_open r \<Longrightarrow> record_move r (r\<lparr>hr_user_id := Some u\<rparr>)"
| reassign: "is_open r \<Longrightarrow> field \<noteq> Hr_user_id \<Longrightarrow> seat field r \<noteq> None \<Longrightarrow>
    seats_wf (set_seat field u r) \<Longrightarrow> record_move r (set_seat field u r)"
| acknowledge: "status r = Finalized \<Longrightarrow> acknowledged_at r = None \<Longrightarrow>
    record_move r (r\<lparr>acknowledged_at := Some moment, acknowledged_by_user_id := Some u\<rparr>)"
| object: "status r = Finalized \<Longrightarrow> acknowledged_at r \<noteq> None \<Longrightarrow> objection_at r = None \<Longrightarrow>
    record_move r (r\<lparr>objection_at := Some moment, objection_reason := Some text\<rparr>)"
| answer: "objection_at r \<noteq> None \<Longrightarrow> objection_resolved_at r = None \<Longrightarrow>
    record_move r (r\<lparr>objection_resolved_at := Some moment, objection_resolution := Some text,
      objection_resolved_by_user_id := Some u\<rparr>)"

inductive_cases record_moveE: "record_move r r'"

text \<open>
  The seats of a chain stay, but for one that another existing account takes that is not the
  subject's.
\<close>

definition chain_of :: "evaluation_record \<Rightarrow> int option \<times> int option \<times> int" where
  "chain_of r = (unit_supervisor_user_id r, deputy_user_id r, ceo_user_id r)"

text \<open>An existing account that does not belong to the person.\<close>

definition may_sit :: "database \<Rightarrow> int \<Rightarrow> int \<Rightarrow> bool" where
  "may_sit db u p \<longleftrightarrow> u \<in> user_id ` set (t_users db) \<and>
    (\<forall>x \<in> set (t_users db). user_id x = u \<longrightarrow> user_personnel_id x \<noteq> Some p)"

definition keeps_chain :: "database \<Rightarrow> evaluation_record \<Rightarrow> evaluation_record \<Rightarrow> bool" where
  "keeps_chain db r r' \<longleftrightarrow> chain_of r' = chain_of r \<or>
    (\<exists>field u. r' = set_seat field u r \<and> field \<noteq> Hr_user_id \<and> may_sit db u (subject_personnel_id r))"

lemma keeps_chain_same [simp]:
  "unit_supervisor_user_id r' = unit_supervisor_user_id r \<Longrightarrow> deputy_user_id r' = deputy_user_id r \<Longrightarrow>
    ceo_user_id r' = ceo_user_id r \<Longrightarrow> keeps_chain db r r'"
  by (simp add: keeps_chain_def chain_of_def)

lemma keeps_chain_identity: "identity_of r' = identity_of r \<Longrightarrow> keeps_chain db r r'"
  by (rule keeps_chain_same) (simp_all add: identity_of_eqD [of r' r])

definition row_changed ::
  "int \<Rightarrow> database \<Rightarrow> evaluation_record \<Rightarrow> evaluation_record \<Rightarrow> database \<Rightarrow> bool" where
  "row_changed actor db r r' db' \<longleftrightarrow>
    get_evaluation db (record_id r) = Some r \<and> record_id r' = record_id r \<and>
    t_evaluations db' = row_put record_id r' (t_evaluations db) \<and> t_scores db' = t_scores db \<and>
    same_people db db' \<and> keeps_chain db r r' \<and> (log_wf db \<longrightarrow> log_wf db') \<and> (status r' = status r \<or> logs_change actor r (status r') db db')"

definition moves_record :: "int \<Rightarrow> database \<Rightarrow> int \<Rightarrow> database \<Rightarrow> bool" where
  "moves_record actor db k db' \<longleftrightarrow>
    (\<exists>r r'. get_evaluation db k = Some r \<and> row_changed actor db r r' db' \<and> record_move r r')"

lemma get_evaluation_id: "get_evaluation db k = Some r \<Longrightarrow> record_id r = k"
  by (simp add: get_evaluation_def row_get_SomeD(2))

lemma moves_recordI:
  assumes "get_evaluation db k = Some r" and "record_move r r'" and "record_id r' = record_id r"
    and "t_evaluations db' = row_put record_id r' (t_evaluations db)"
    and "t_scores db' = t_scores db" and "same_people db db'" and "keeps_chain db r r'"
    and "log_wf db \<Longrightarrow> log_wf db'" and "status r' = status r \<or> logs_change actor r (status r') db db'"
  shows "moves_record actor db k db'"
  using assms get_evaluation_id [OF assms(1)] unfolding moves_record_def row_changed_def by blast

context quiet_hook
begin

lemma transition_moves:
  assumes "apply_transition env db r a user (Some hook) = Inr db'"
    and "get_evaluation db k = Some r" and "a \<notin> set submit_actions"
  shows "moves_record (cu_id user) db k db'"
proof -
  obtain db0 r0 db1 r1 where av: "transition_is_available r a user"
    and c: "(db0, r0) = claim_seat (TRANSITIONS a) user (db, r)"
    and hook: "hook (db0, r0) = Inr (db1, r1)"
    and t: "t_evaluations db' =
      row_put record_id (enter_status env (to_status (TRANSITIONS a)) r1) (t_evaluations db)"
      "t_scores db' = t_scores db" "same_people db db'" and log: "log_wf db \<Longrightarrow> log_wf db'"
    and change: "logs_change (cu_id user) r (to_status (TRANSITIONS a)) db db'"
    and r1: "identity_of r1 = identity_of r" "voice_of r1 = voice_of r" "status r1 = status r"
    and fin: "to_status (TRANSITIONS a) = Finalized \<Longrightarrow>
      final_weighted_pct r \<noteq> None \<and> scores_of db (record_id r) \<noteq> [] \<and> final_snapshot r1 \<noteq> None"
    by (rule transition_effect [OF assms(1)]) blast
  have "r0 = snd (claim_seat (TRANSITIONS a) user (db, r))" by (simp flip: c)
  then have res: "result_of r1 = result_of r"
    using keeps_result [OF hook] by simp
  have "record_move r (enter_status env (to_status (TRANSITIONS a)) r1)"
    using av r1 res fin assms(3)
    by (intro record_move.transit [OF av]) (auto simp: finalized_at_enter)
  moreover have r1': "identity_of (enter_status env (to_status (TRANSITIONS a)) r1) = identity_of r"
    using r1 by simp
  ultimately show ?thesis
    using identity_of_eqD(1) [OF r1(1)]
    by (intro moves_recordI [OF assms(2) _ _ t keeps_chain_identity [OF r1']])
      (simp_all add: change log r1)
qed

end

section \<open>The hooks of the endpoints\<close>

lemma log_grows [intro]:
  "t_audit_log db1 = t_audit_log db @ [row] \<Longrightarrow> \<exists>rows. t_audit_log db1 = t_audit_log db @ rows"
  by blast

interpretation no_hook: quiet_hook Inr
  by unfold_locales auto

interpretation stamping: quiet_hook "stamp_finalization env" for env
  by unfold_locales (auto simp: stamp_finalization_def Let_def identity_of_def result_of_def voice_of_def)

interpretation returning: quiet_hook "return_hook env k stage reason user" for env k stage reason user
  by unfold_locales (auto simp: return_hook_def)

interpretation cancelling: quiet_hook "cancel_hook env k reason user" for env k reason user
  by unfold_locales (auto simp: cancel_hook_def)

interpretation scoring: transition_hook "\<lambda>(db1, r1). finalize_scoring db1 r1 user" for user
  by unfold_locales
    (auto simp: finalize_scoring_def Let_def with_result_def identity_of_def voice_of_def split: sum.splits)

lemma apply_transition_no_hook:
  "apply_transition env db r a user None = apply_transition env db r a user (Some Inr)"
  by (simp add: apply_transition_def)

lemma finalize_scoring_has_result: "finalize_scoring db r user = Inr (db1, r1) \<Longrightarrow> has_result r1"
  by (auto simp: finalize_scoring_def Let_def with_result_def has_result_def split: sum.splits)

lemma submission_moves:
  assumes "apply_transition env db r a user (Some (\<lambda>(db1, r1). finalize_scoring db1 r1 user)) = Inr db'"
    and "get_evaluation db k = Some r" and "a \<in> set submit_actions"
  shows "moves_record (cu_id user) db k db'"
proof -
  obtain db0 r0 db1 r1 where av: "transition_is_available r a user"
    and hook: "(\<lambda>(db1, r1). finalize_scoring db1 r1 user) (db0, r0) = Inr (db1, r1)"
    and t: "t_evaluations db' =
      row_put record_id (enter_status env (to_status (TRANSITIONS a)) r1) (t_evaluations db)"
      "t_scores db' = t_scores db" "same_people db db'" and log: "log_wf db \<Longrightarrow> log_wf db'"
    and change: "logs_change (cu_id user) r (to_status (TRANSITIONS a)) db db'"
    and r1: "identity_of r1 = identity_of r" "voice_of r1 = voice_of r"
    by (rule scoring.transition_effect [OF assms(1)]) blast
  have "has_result r1" using hook by (auto dest: finalize_scoring_has_result)
  moreover have "to_status (TRANSITIONS a) \<noteq> Finalized"
    using assms(3) by (auto simp: submit_actions_def)
  ultimately have "record_move r (enter_status env (to_status (TRANSITIONS a)) r1)"
    using r1 assms(3)
    by (intro record_move.transit [OF av]) simp_all
  moreover have r1': "identity_of (enter_status env (to_status (TRANSITIONS a)) r1) = identity_of r"
    using r1 by simp
  ultimately show ?thesis
    using identity_of_eqD(1) [OF r1(1)] 
    by (intro moves_recordI [OF assms(2) _ _ t keeps_chain_identity [OF r1']]) (simp_all add: change log)
qed

section \<open>Invariants of the moves\<close>

text \<open>
  The statuses a record can be in: a record that skips human resources never waits for them, one
  without supervisor never waits for a deputy, and one the chief executive scored reaches the last
  approval only when it skips human resources.
\<close>

definition stage_wf :: "evaluation_record \<Rightarrow> bool" where
  "stage_wf r \<longleftrightarrow>
    awaits_no_hidden_review r \<and> \<not> (is_manager_path r \<and> status r = Hr_approved) \<and>
    \<not> (is_ceo_only_path r \<and> \<not> hr_review_skipped r \<and> status r = Deputy_approved)"

definition result_wf :: "evaluation_record \<Rightarrow> bool" where
  "result_wf r \<longleftrightarrow>
    (status r = Draft \<or> status r = Cancelled \<or> has_result r) \<and>
    (status r = Finalized \<longrightarrow> final_snapshot r \<noteq> None \<and> finalized_at r \<noteq> None)"

text \<open>Nobody objects to what they have not acknowledged, nor acknowledges what is not final.\<close>

definition voice_wf :: "evaluation_record \<Rightarrow> bool" where
  "voice_wf r \<longleftrightarrow>
    (acknowledged_at r \<noteq> None \<longrightarrow> status r = Finalized) \<and>
    (objection_at r \<noteq> None \<longrightarrow> acknowledged_at r \<noteq> None) \<and>
    (objection_resolved_at r \<noteq> None \<longrightarrow> objection_at r \<noteq> None)"

definition record_wf :: "evaluation_record \<Rightarrow> bool" where
  "record_wf r \<longleftrightarrow> stage_wf r \<and> seats_wf r \<and> result_wf r \<and> voice_wf r"

lemmas stage_rules =
  stage_wf_def awaits_no_hidden_review_def chain_shape is_open_def OPEN_STATUSES_def

lemma transit_stage_wf:
  assumes "transition_is_available r a user" and "identity_of r' = identity_of r"
    and "status r' = to_status (TRANSITIONS a)" and "stage_wf r"
  shows "stage_wf r'"
  using assms(1,3,4) identity_of_eqD(4-7) [OF assms(2)]
  by (cases a) (auto simp: stage_rules available_iff guard_holds_def)

lemma available_not_draft:
  assumes "transition_is_available r a user" and "a \<notin> set submit_actions"
    and "to_status (TRANSITIONS a) \<notin> {Draft, Cancelled}"
  shows "status r \<in> {Submitted, Hr_approved, Deputy_approved}"
  using assms by (cases a) (auto simp: available_iff submit_actions_def)

lemma seats_wf_cong: "identity_of r' = identity_of r \<Longrightarrow> seats_wf r' = seats_wf r"
  using identity_of_eqD(4-6) [of r' r] by (simp add: seats_wf_def)

lemma available_open: "transition_is_available r a user \<Longrightarrow> is_open r"
  by (cases a) (auto simp: available_iff is_open_def OPEN_STATUSES_def)

lemma voice_wf_open: "voice_of r' = voice_of r \<Longrightarrow> is_open r \<Longrightarrow> voice_wf r \<Longrightarrow> voice_wf r'"
  by (auto simp: voice_wf_def voice_of_def is_open_def OPEN_STATUSES_def)

lemma transit_record_wf:
  assumes av: "transition_is_available r a user" and "identity_of r' = identity_of r"
    and voice: "voice_of r' = voice_of r"
    and to: "status r' = to_status (TRANSITIONS a)"
    and res: "if a \<in> set submit_actions then has_result r' else result_of r' = result_of r"
    and fin: "status r' = Finalized \<Longrightarrow> final_snapshot r' \<noteq> None \<and> finalized_at r' \<noteq> None"
    and wf: "record_wf r"
  shows "record_wf r'"
proof -
  have "has_result r'" if "status r' \<notin> {Draft, Cancelled}"
  proof (cases "a \<in> set submit_actions")
    case False
    with available_not_draft [OF av] that to have "has_result r"
      using wf by (auto simp: record_wf_def result_wf_def)
    then show ?thesis using res False has_result_cong [of r' r] by simp
  qed (use res in simp)
  then show ?thesis
    using transit_stage_wf [OF av assms(2) to] seats_wf_cong [OF assms(2)] wf fin
      voice_wf_open [OF voice available_open [OF av]]
    by (auto simp: record_wf_def result_wf_def)
qed

lemma set_seat_wf:
  "field \<noteq> Hr_user_id \<Longrightarrow> seat field r \<noteq> None \<Longrightarrow> stage_wf (set_seat field u r) = stage_wf r"
  "result_wf (set_seat field u r) = result_wf r"
  "voice_wf (set_seat field u r) = voice_wf r"
  by (cases field; auto simp: stage_rules result_wf_def has_result_def voice_wf_def)+

theorem record_move_wf: "record_move r r' \<Longrightarrow> record_wf r \<Longrightarrow> record_wf r'"
proof (induction rule: record_move.induct)
  case (transit r a user r')
  then show ?case by (blast intro: transit_record_wf)
next
  case (reassign r field u)
  then show ?case by (simp add: record_wf_def set_seat_wf)
qed (auto simp: record_wf_def seats_wf_def stage_rules result_wf_def has_result_def voice_wf_def)

text \<open>What a record never changes, and that a closed record is never opened again.\<close>

lemma set_seat_code [simp]: "evaluation_code (set_seat f u r) = evaluation_code r"
  by (cases f) simp_all

lemma record_move_keeps:
  "record_move r r' \<Longrightarrow>
    record_id r' = record_id r \<and> evaluation_code r' = evaluation_code r \<and>
    subject_personnel_id r' = subject_personnel_id r \<and> hr_review_skipped r' = hr_review_skipped r \<and>
    (is_open r' \<longrightarrow> is_open r)"
proof (induction rule: record_move.induct)
  case (transit r a user r')
  then show ?case using identity_of_eqD [of r' r] by (auto dest: available_open)
qed (auto simp: is_open_def)

text \<open>
  A closed record changes in what its subject and the answer to its objection add to it, and each of
  these is written at most once.
\<close>

definition without_voice :: "evaluation_record \<Rightarrow> evaluation_record" where
  "without_voice r =
    r\<lparr>acknowledged_at := None, acknowledged_by_user_id := None, objection_at := None,
      objection_reason := None, objection_resolved_at := None, objection_resolution := None,
      objection_resolved_by_user_id := None\<rparr>"

definition voice_kept :: "evaluation_record \<Rightarrow> evaluation_record \<Rightarrow> bool" where
  "voice_kept r r' \<longleftrightarrow>
    (acknowledged_at r \<noteq> None \<longrightarrow> acknowledged_at r' = acknowledged_at r \<and>
      acknowledged_by_user_id r' = acknowledged_by_user_id r) \<and>
    (objection_at r \<noteq> None \<longrightarrow> objection_at r' = objection_at r \<and> objection_reason r' = objection_reason r) \<and>
    (objection_resolved_at r \<noteq> None \<longrightarrow> objection_resolved_at r' = objection_resolved_at r \<and>
      objection_resolution r' = objection_resolution r \<and>
      objection_resolved_by_user_id r' = objection_resolved_by_user_id r)"

lemma voice_kept_refl [simp]: "voice_kept r r"
  by (simp add: voice_kept_def)

lemma voice_kept_trans: "voice_kept r q \<Longrightarrow> voice_kept q p \<Longrightarrow> voice_kept r p"
  unfolding voice_kept_def by (intro conjI impI) simp_all

lemma record_move_closed:
  "record_move r r' \<Longrightarrow> \<not> is_open r \<Longrightarrow> without_voice r' = without_voice r \<and> voice_kept r r'"
proof (induction rule: record_move.induct)
  case (transit r a user r')
  then show ?case by (auto dest: available_open)
qed (auto simp: is_open_def OPEN_STATUSES_def without_voice_def voice_kept_def)

text \<open>
  What lasts: a self-assessment that was handed in stays handed in, and a closed record stays as it is but
  for its voice.
\<close>

definition endures :: "evaluation_record \<Rightarrow> evaluation_record \<Rightarrow> bool" where
  "endures r r' \<longleftrightarrow>
    (self_assessment_submitted_at r = None \<or> self_assessment_submitted_at r' = self_assessment_submitted_at r) \<and>
    (is_open r \<or> without_voice r' = without_voice r \<and> voice_kept r r')"

lemma endures_refl [simp]: "endures r r"
  by (simp add: endures_def)

lemma without_voice_open: "without_voice r' = without_voice r \<Longrightarrow> is_open r' = is_open r"
  unfolding without_voice_def is_open_def by (drule arg_cong [where f = status]) simp

lemma endures_trans: "endures r q \<Longrightarrow> endures q p \<Longrightarrow> endures r p"
  unfolding endures_def using without_voice_open [of q r] voice_kept_trans [of r q p] by auto

lemma set_seat_assessed [simp]: "self_assessment_submitted_at (set_seat f u r) = self_assessment_submitted_at r"
  by (cases f) simp_all

lemma record_move_assessed:
  "record_move r r' \<Longrightarrow> self_assessment_submitted_at r \<noteq> None \<Longrightarrow>
    self_assessment_submitted_at r' = self_assessment_submitted_at r"
  by (induction rule: record_move.induct) (simp_all add: voice_of_def)

lemma record_move_endures: "record_move r r' \<Longrightarrow> endures r r'"
  using record_move_assessed record_move_closed unfolding endures_def by blast

end
