(* ===== verification/EvaluationSystem.thy ===== *)
theory EvaluationSystem
  imports Moves
begin

text \<open>
  The evaluation endpoints as one system: requests of users, one after the other, against one
  database that the rest of the application changes too. Every endpoint that works on one record is
  shown to move that record as the abstract machine of \<open>Moves\<close> allows; the invariants of the system
  follow by rule induction.
\<close>

section \<open>Requests\<close>

datatype request =
    Create_record int
  | Save_scores int "score_input list"
  | Set_comment int utext
  | Set_special int rat "utext option"
  | Submit_record int
  | Approve_by_hr int
  | Approve_by_deputy int
  | Finalize_by_ceo int
  | Return_record int utext
  | Cancel_record int utext
  | Extend_window int int utext
  | Claim_record int
  | Hand_over int int utext
  | Answer_objection int utext
  | Reassign_seat int seat_field int utext
  | Self_assess int "self_assessment_input list" "utext option"
  | Acknowledge int
  | Object int utext

text \<open>The requests that a person makes about their own record.\<close>

fun by_subject :: "request \<Rightarrow> bool" where
  "by_subject (Self_assess k items remark) = True"
| "by_subject (Acknowledge k) = True"
| "by_subject (Object k reason) = True"
| "by_subject _ = False"

fun handle :: "env \<Rightarrow> current_user \<Rightarrow> request \<Rightarrow> database \<Rightarrow> database http" where
  "handle env user (Create_record p) db = bindE (create_evaluation env db user p) (\<lambda>(db', _). Inr db')"
| "handle env user (Save_scores k items) db = upsert_scores db user k items"
| "handle env user (Set_comment k text) db = set_evaluator_comment db user k text"
| "handle env user (Set_special k points reason) db = set_special_score env db user k points reason"
| "handle env user (Submit_record k) db = submit_evaluation env db user k"
| "handle env user (Approve_by_hr k) db = hr_approve env db user k"
| "handle env user (Approve_by_deputy k) db = deputy_approve env db user k"
| "handle env user (Finalize_by_ceo k) db = ceo_finalize env db user k"
| "handle env user (Return_record k reason) db = return_evaluation env db user k reason"
| "handle env user (Cancel_record k reason) db = cancel_evaluation env db user k reason"
| "handle env user (Extend_window k until reason) db = extend_submission_window env db user k until reason"
| "handle env user (Claim_record k) db = hr_claim db user k"
| "handle env user (Hand_over k u reason) db = hr_handover env db user k u reason"
| "handle env user (Answer_objection k text) db = resolve_objection env db user k text"
| "handle env user (Reassign_seat k field u reason) db = reassign_stage_owner env db user k field u reason"
| "handle env user (Self_assess k items remark) db = submit_self_assessment env db user k items remark"
| "handle env user (Acknowledge k) db = acknowledge_evaluation env db user k"
| "handle env user (Object k reason) db = file_objection env db user k reason"

fun request_record :: "request \<Rightarrow> int option" where
  "request_record (Create_record p) = None"
| "request_record (Save_scores k items) = Some k"
| "request_record (Set_comment k text) = Some k"
| "request_record (Set_special k points reason) = Some k"
| "request_record (Submit_record k) = Some k"
| "request_record (Approve_by_hr k) = Some k"
| "request_record (Approve_by_deputy k) = Some k"
| "request_record (Finalize_by_ceo k) = Some k"
| "request_record (Return_record k reason) = Some k"
| "request_record (Cancel_record k reason) = Some k"
| "request_record (Extend_window k until reason) = Some k"
| "request_record (Claim_record k) = Some k"
| "request_record (Hand_over k u reason) = Some k"
| "request_record (Answer_objection k text) = Some k"
| "request_record (Reassign_seat k field u reason) = Some k"
| "request_record (Self_assess k items remark) = Some k"
| "request_record (Acknowledge k) = Some k"
| "request_record (Object k reason) = Some k"

section \<open>Every endpoint moves one record\<close>

lemma get_record_iff [simp]: "get_record_or_404 db k = Inr r \<longleftrightarrow> get_evaluation db k = Some r"
  by (simp add: get_record_or_404_def)

lemma get_evaluation_comment [simp]:
  "get_evaluation (add_comment env rid author parent stage text db) = get_evaluation db"
  by (simp add: table_defs fun_eq_iff)

lemma comment_moves:
  assumes "set_evaluator_comment db user k text = Inr db'"
  shows "moves_record (cu_id user) db k db'"
proof -
  obtain r where r: "get_evaluation db k = Some r" "is_the_scorer r user"
    and db': "db' = put_evaluation (r\<lparr>evaluator_comment := Some (strip text)\<rparr>) db"
    using assms by (auto simp: set_evaluator_comment_def Let_def)
  have "status r = Draft" using r(2) by (simp add: is_the_scorer_def)
  then show ?thesis
    by (intro moves_recordI [OF r(1) record_move.remark]) (simp_all add: db')
qed

lemma special_score_moves:
  assumes "set_special_score env db user k points given = Inr db'"
  shows "moves_record (cu_id user) db k db'"
proof -
  obtain r reason what old new where r: "get_evaluation db k = Some r" "is_the_scorer r user"
    and db': "db' = log_event (cu_id user) what (Some k) old new
      (put_evaluation (r\<lparr>bonus_points := Some (numeric_column env 2 points), bonus_reason := reason\<rparr>) db)"
    using assms by (auto simp: set_special_score_def Let_def)
  have "status r = Draft" using r(2) by (simp add: is_the_scorer_def)
  then show ?thesis
    by (intro moves_recordI [OF r(1) record_move.special]) (auto simp: db')
qed

lemma submit_action_submits: "submit_action_for r \<in> set submit_actions"
  by (simp add: submit_action_for_def submit_actions_def)

lemma submit_moves: "submit_evaluation env db user k = Inr db' \<Longrightarrow> moves_record (cu_id user) db k db'"
  using submit_action_submits
  by (auto simp: submit_evaluation_def intro!: submission_moves)

lemma hr_approve_moves: "hr_approve env db user k = Inr db' \<Longrightarrow> moves_record (cu_id user) db k db'"
  by (auto simp: hr_approve_def apply_transition_no_hook submit_actions_def split: if_splits
      intro: stamping.transition_moves no_hook.transition_moves)

lemma deputy_approve_moves: "deputy_approve env db user k = Inr db' \<Longrightarrow> moves_record (cu_id user) db k db'"
  by (auto simp: deputy_approve_def apply_transition_no_hook submit_actions_def
      intro!: no_hook.transition_moves)

lemma ceo_finalize_moves: "ceo_finalize env db user k = Inr db' \<Longrightarrow> moves_record (cu_id user) db k db'"
  by (auto simp: ceo_finalize_def submit_actions_def intro!: stamping.transition_moves)

lemma do_return_moves:
  "do_return env db r a stage reason user = Inr db' \<Longrightarrow> get_evaluation db k = Some r \<Longrightarrow>
    a \<notin> set submit_actions \<Longrightarrow> moves_record (cu_id user) db k db'"
  unfolding do_return_def by (rule returning.transition_moves)

lemma return_action_for_SomeD:
  assumes "return_action_for r user = Some (a, stage)"
  shows "transition_is_available r a user" and "a \<in> set return_actions"
proof -
  from assms have "(a, stage) \<in> set RETURN_ACTIONS \<and> transition_is_available r a user"
    unfolding return_action_for_def by (auto simp: find_Some_iff in_set_conv_nth)
  then show "transition_is_available r a user" and "a \<in> set return_actions"
    by (auto simp: RETURN_ACTIONS_def return_actions_def)
qed

lemma return_not_submit: "a \<in> set return_actions \<Longrightarrow> a \<notin> set submit_actions"
  by (auto simp: action_groups)

lemma return_action_for_None:
  assumes "return_action_for r user = None" and "a \<in> set return_actions"
  shows "\<not> transition_is_available r a user"
proof -
  have "fst ` set RETURN_ACTIONS = set return_actions"
    by (auto simp: RETURN_ACTIONS_def return_actions_def)
  with assms show ?thesis
    unfolding return_action_for_def by (force simp: find_None_iff)
qed

lemma fallback_actions:
  "RETURN_ACTION_BY_ROLE u = Some (base, stage) \<Longrightarrow>
    a = (if base = Ceo_return then ceo_fallback r else base) \<Longrightarrow>
    a \<in> set return_actions \<and> hr_subject_variant a \<in> set return_actions"
  by (cases u)
    (auto simp: RETURN_ACTION_BY_ROLE_def ceo_fallback_def hr_subject_variant_def return_actions_def)

lemma do_return_unavailable:
  "\<not> transition_is_available r a user \<Longrightarrow> do_return env db r a stage reason user \<noteq> Inr db'"
  by (auto simp: do_return_def elim: returning.transition_effect)

text \<open>The fallback of the return endpoint only produces an error.\<close>

lemma return_evaluation_InrD:
  assumes "return_evaluation env db user k given = Inr db'"
  obtains r reason a stage where "get_evaluation db k = Some r" and "return_action_for r user = Some (a, stage)"
    and "do_return env db r a stage reason user = Inr db'" and "ensure_hr_may_handle r user = Inr ()"
    and "text_field REASON_MAX given = Inr reason"
proof (cases "get_evaluation db k")
  case (Some r)
  note r = Some
  show ?thesis
  proof (cases "return_action_for r user")
    case None
    obtain base stage reason where base: "RETURN_ACTION_BY_ROLE (cu_role user) = Some (base, stage)"
      and ret: "do_return env db r
        (if skips_hr_review r then hr_subject_variant (if base = Ceo_return then ceo_fallback r else base)
         else if base = Ceo_return then ceo_fallback r else base) stage reason user = Inr db'"
      using assms r None by (auto simp: return_evaluation_def Let_def)
    have False
      using fallback_actions [OF base refl, of r] return_action_for_None [OF None]
        do_return_unavailable ret by (metis (full_types))
    then show ?thesis ..
  next
    case (Some as)
    with r assms that show ?thesis by (cases as) (auto simp: return_evaluation_def)
  qed
qed (use assms in \<open>auto simp: return_evaluation_def\<close>)

lemma return_moves:
  assumes "return_evaluation env db user k given = Inr db'"
  shows "moves_record (cu_id user) db k db'"
  using assms
  by (rule return_evaluation_InrD)
    (rule do_return_moves, assumption+, rule return_not_submit, erule return_action_for_SomeD(2))

lemma cancel_moves: "cancel_evaluation env db user k given = Inr db' \<Longrightarrow> moves_record (cu_id user) db k db'"
  unfolding cancel_evaluation_def
  by (simp del: if_split, elim exE conjE, erule cancelling.transition_moves, assumption)
    (simp add: submit_actions_def)

text \<open>The shape of the administrative endpoints: a comment, a row of the log and messages.\<close>

lemma logged_move:
  assumes "only_messages (log_event actor event rid old new
      (add_comment env rid' author parent stage remark (put_evaluation r' db))) db'"
    and "get_evaluation db k = Some r" and "record_move r r'" and "record_id r' = record_id r"
    and "status r' = status r" and "keeps_chain db r r'"
  shows "moves_record actor' db k db'"
  by (rule moves_recordI [OF assms(2-4)])
    (auto simp: assms(5,6) only_messages_tables [OF assms(1)] log_wf_messages [OF assms(1)])

lemma notify_if_messages: "only_messages db (if b then db else notify env ids kind rid link db)"
  using notify_messages by auto

lemma extend_moves: "extend_submission_window env db user k until given = Inr db' \<Longrightarrow> moves_record (cu_id user) db k db'"
  unfolding extend_submission_window_def
  by (auto simp: EXTENDABLE_STATUSES_def Let_def simp del: if_split
      intro!: record_move.extend logged_move [OF notify_if_messages])

lemma claim_moves: "hr_claim db user k = Inr db' \<Longrightarrow> moves_record (cu_id user) db k db'"
  by (auto simp: hr_claim_def is_open_def intro!: moves_recordI record_move.claim)

lemma handover_moves: "hr_handover env db user k u given = Inr db' \<Longrightarrow> moves_record (cu_id user) db k db'"
  by (auto simp: hr_handover_def Let_def is_open_def
      intro!: record_move.claim logged_move [OF notify_stage_owner_messages])

lemma answered_move:
  assumes "only_messages (log_event actor event rid old new (put_evaluation r' db)) db'"
    and "get_evaluation db k = Some r" and "record_move r r'" and "record_id r' = record_id r"
    and "status r' = status r" and "keeps_chain db r r'"
  shows "moves_record actor' db k db'"
  by (rule moves_recordI [OF assms(2-4)])
    (auto simp: assms(5,6) only_messages_tables [OF assms(1)] log_wf_messages [OF assms(1)])

lemma objection_moves: "resolve_objection env db user k given = Inr db' \<Longrightarrow> moves_record (cu_id user) db k db'"
  by (auto simp: resolve_objection_def Let_def simp del: if_split
      intro!: record_move.answer answered_move [OF notify_if_messages])

lemma not_the_subject_iff:
  "ensure_evaluators_are_not_the_subject db p us = Inr () \<longleftrightarrow>
    (\<forall>x \<in> set (t_users db). Some (user_id x) \<in> set us \<longrightarrow> user_personnel_id x \<noteq> Some p)"
proof -
  have "set (List.map_filter (\<lambda>u. u) us) = {u. Some u \<in> set us}"
    by (induction us) (auto simp: map_filter_simps split: option.splits)
  moreover have "ensure_evaluators_are_not_the_subject db p us = Inr () \<longleftrightarrow>
      List.map_filter (\<lambda>u. u) us = [] \<or> find (\<lambda>u. user_id u \<in> set (List.map_filter (\<lambda>u. u) us) \<and>
        user_personnel_id u = Some p) (t_users db) = None"
    by (auto simp: ensure_evaluators_are_not_the_subject_def Let_def split: option.split)
  ultimately show ?thesis
    by (auto simp: find_None_iff simp flip: set_empty)
qed

lemma reassigned_chain:
  assumes "REASSIGNABLE_STAGES field = Some x" and "get_user db u = Some usr"
    and "ensure_evaluators_are_not_the_subject db (subject_personnel_id r) [Some u] = Inr ()"
  shows "keeps_chain db r (set_seat field u r)"
proof -
  have "u \<in> user_id ` set (t_users db)"
    using assms(2) by (auto simp: get_user_def dest: row_get_SomeD)
  moreover have "field \<noteq> Hr_user_id" using assms(1) by (auto simp: REASSIGNABLE_STAGES_def)
  ultimately show ?thesis using assms(3) by (auto simp: keeps_chain_def not_the_subject_iff may_sit_def)
qed

lemma reassign_moves:
  assumes "reassign_stage_owner env db user k field u given = Inr db'"
  shows "moves_record (cu_id user) db k db'"
proof -
  have move: "record_move r (set_seat field u r)"
    if "is_open r" "seat field r \<noteq> None" "REASSIGNABLE_STAGES field = Some x"
      "ensure_chain_stages_are_not_redundant (unit_supervisor_user_id (set_seat field u r))
        (deputy_user_id (set_seat field u r)) (Some (ceo_user_id (set_seat field u r))) = Inr ()" for r x
    using that by (intro record_move.reassign) (auto simp: REASSIGNABLE_STAGES_def seats_wf_def redundant_iff)
  show ?thesis
    using assms
    by (auto simp: reassign_stage_owner_def Let_def is_open_def
        intro!: move logged_move [OF notify_stage_owner_messages] reassigned_chain)
qed

text \<open>The requests of the subject.\<close>

lemma my_record_iff:
  "my_record_or_404 db k user = Inr r \<longleftrightarrow>
    get_evaluation db k = Some r \<and> cu_personnel_id user = Some (subject_personnel_id r)"
  by (auto simp: my_record_or_404_def split: option.splits)

lemma submit_self_assessment_InrD:
  assumes "submit_self_assessment env db user k items remark = Inr db'"
  obtains r rows seen where "get_evaluation db k = Some r"
    and "cu_personnel_id user = Some (subject_personnel_id r)" and "may_self_assess (cu_role user)"
    and "status r = Draft" and "window_is_open env (window_for db r)"
    and "self_assessment_submitted_at r = None" and "list_all self_input_ok items"
    and "foldE (add_self_score k (indicator_ids_for_record db r)) (t_self_scores db, {}) items = Inr (rows, seen)"
    and "indicator_ids_for_record db r \<subseteq> seen"
    and "db' = log_event (cu_id user) ''self_assessment_submitted'' (Some k) None
      (Some [(''scored_indicators'', JInt (int (length items)))])
      (put_evaluation (r\<lparr>self_assessment_submitted_at := Some (now env),
         self_assessment_note := map_option strip remark\<rparr>) (db\<lparr>t_self_scores := rows\<rparr>))"
proof -
  obtain r w rows seen where r: "get_evaluation db k = Some r" "cu_personnel_id user = Some (subject_personnel_id r)"
    and open_: "may_self_assess (cu_role user)" "status r = Draft" "ensure_open env db r = Inr w"
      "self_assessment_submitted_at r = None" "list_all self_input_ok items"
    and rows: "foldE (add_self_score (record_id r) (indicator_ids_for_record db r)) (t_self_scores db, {}) items = Inr (rows, seen)"
      "indicator_ids_for_record db r - seen = {}"
    and db': "db' = log_event (cu_id user) ''self_assessment_submitted'' (Some k) None
      (Some [(''scored_indicators'', JInt (int (length items)))])
      (put_evaluation (r\<lparr>self_assessment_submitted_at := Some (now env),
         self_assessment_note := map_option strip remark\<rparr>) (db\<lparr>t_self_scores := rows\<rparr>))"
    using assms unfolding submit_self_assessment_def Let_def SELF_ASSESSMENT_OPEN_STATUSES_def
    by (simp add: my_record_iff) blast
  have "window_is_open env (window_for db r)"
    using open_(3) by (auto simp: ensure_open_def Let_def split: if_splits)
  then show ?thesis
    using r open_ rows db' get_evaluation_id [OF r(1)] by (intro that) auto
qed

lemma get_evaluation_self_scores [simp]: "get_evaluation (db\<lparr>t_self_scores := rows\<rparr>) = get_evaluation db"
  by (simp add: get_evaluation_def fun_eq_iff)

lemma self_assess_moves:
  assumes "submit_self_assessment env db user k items remark = Inr db'"
  shows "moves_record (cu_id user) db k db'"
proof -
  obtain r rows where r: "get_evaluation db k = Some r" "status r = Draft" "self_assessment_submitted_at r = None"
    and db': "db' = log_event (cu_id user) ''self_assessment_submitted'' (Some k) None
      (Some [(''scored_indicators'', JInt (int (length items)))])
      (put_evaluation (r\<lparr>self_assessment_submitted_at := Some (now env),
         self_assessment_note := map_option strip remark\<rparr>) (db\<lparr>t_self_scores := rows\<rparr>))"
    by (rule submit_self_assessment_InrD [OF assms]) blast
  have "log_wf db'" if "log_wf db"
    unfolding db' using that log_wf_cong [of "db\<lparr>t_self_scores := rows\<rparr>" db]
    by (intro log_event_wf) simp
  then show ?thesis
    by (intro moves_recordI [OF r(1) record_move.self_assessed [OF r(2,3)]]) (simp_all add: db')
qed

lemma acknowledge_moves:
  "acknowledge_evaluation env db user k = Inr db' \<Longrightarrow> moves_record (cu_id user) db k db'"
  by (auto simp: acknowledge_evaluation_def my_record_iff Let_def
      intro!: record_move.acknowledge answered_move [OF notify_messages])

lemma file_objection_moves:
  "file_objection env db user k given = Inr db' \<Longrightarrow> moves_record (cu_id user) db k db'"
  by (auto simp: file_objection_def my_record_iff Let_def simp del: if_split
      intro!: record_move.object answered_move [OF notify_if_messages])

text \<open>Refinement: every request on a record, saving scores apart, is a move of that record.\<close>

lemma request_moves_record:
  assumes "handle env user q db = Inr db'" and "request_record q = Some k"
    and "\<nexists>items. q = Save_scores k items"
  shows "moves_record (cu_id user) db k db'"
  using assms
  by (cases q)
    (auto intro: comment_moves special_score_moves submit_moves hr_approve_moves deputy_approve_moves
      ceo_finalize_moves return_moves cancel_moves extend_moves claim_moves handover_moves
      objection_moves reassign_moves self_assess_moves acknowledge_moves file_objection_moves)

section \<open>Saving scores\<close>

text \<open>\<open>upsert_score\<close> row by row: the key of a row is its record and its indicator.\<close>

definition score_key :: "evaluation_score \<Rightarrow> int \<times> int" where
  "score_key s = (score_record_id s, score_indicator_id s)"

definition input_of_score :: "evaluation_score \<Rightarrow> score_input" where
  "input_of_score s =
    \<lparr>si_indicator_id = score_indicator_id s, si_score = score s, si_evidence_text = evidence_text s\<rparr>"

definition sheet_of :: "int \<Rightarrow> evaluation_score list \<Rightarrow> score_input set" where
  "sheet_of k rows = input_of_score ` {s \<in> set rows. score_record_id s = k}"

lemma upsert_score_other:
  "k \<noteq> rid \<Longrightarrow> filter (\<lambda>s. score_record_id s = k) (upsert_score rid rows item) =
    filter (\<lambda>s. score_record_id s = k) rows"
proof -
  assume "k \<noteq> rid"
  then have "filter (\<lambda>s. score_record_id s = k) (map (\<lambda>s. if score_record_id s = rid \<and>
      score_indicator_id s = si_indicator_id item
      then s\<lparr>score := si_score item, evidence_text := si_evidence_text item\<rparr> else s) rows) =
    filter (\<lambda>s. score_record_id s = k) rows"
    by (induction rows) auto
  then show ?thesis using \<open>k \<noteq> rid\<close> by (simp add: upsert_score_def)
qed

lemma input_of_score_indicator [simp]: "si_indicator_id (input_of_score s) = score_indicator_id s"
  by (simp add: input_of_score_def)

lemma upsert_score_sheet:
  "sheet_of rid (upsert_score rid rows item) =
    insert item {x \<in> sheet_of rid rows. si_indicator_id x \<noteq> si_indicator_id item}"
proof (cases "\<exists>s \<in> set rows. score_record_id s = rid \<and> score_indicator_id s = si_indicator_id item")
  case True
  define f where "f s = (if score_record_id s = rid \<and> score_indicator_id s = si_indicator_id item
    then s\<lparr>score := si_score item, evidence_text := si_evidence_text item\<rparr> else s)" for s :: evaluation_score
  have rid: "score_record_id (f s) = score_record_id s" for s by (simp add: f_def)
  have input: "input_of_score (f s) =
      (if score_indicator_id s = si_indicator_id item then item else input_of_score s)"
    if "score_record_id s = rid" for s
    using that by (cases item) (simp add: f_def input_of_score_def)
  have "upsert_score rid rows item = map f rows"
    using True by (simp add: upsert_score_def f_def [abs_def])
  then have "sheet_of rid (upsert_score rid rows item) =
      (\<lambda>s. input_of_score (f s)) ` {s \<in> set rows. score_record_id s = rid}"
    by (auto simp: sheet_of_def rid)
  also have "\<dots> = (\<lambda>s. if score_indicator_id s = si_indicator_id item then item else input_of_score s) `
      {s \<in> set rows. score_record_id s = rid}"
    by (rule image_cong) (simp_all add: input)
  also have "\<dots> = insert item {x \<in> sheet_of rid rows. si_indicator_id x \<noteq> si_indicator_id item}"
    using True by (auto simp: sheet_of_def image_iff)
  finally show ?thesis .
next
  case False
  define p where "p = \<lparr>score_id = next_id score_id rows, score_record_id = rid,
    score_indicator_id = si_indicator_id item, score = si_score item,
    evidence_text = si_evidence_text item\<rparr>"
  have p: "input_of_score p = item" "score_record_id p = rid"
    by (simp_all add: p_def input_of_score_def)
  have "upsert_score rid rows item = rows @ [p]" using False by (simp add: upsert_score_def p_def)
  then show ?thesis using False p by (auto simp: sheet_of_def)
qed

lemma upsert_score_keys:
  "distinct (map score_key rows) \<Longrightarrow> distinct (map score_key (upsert_score rid rows item))"
proof -
  assume "distinct (map score_key rows)"
  moreover have "map score_key (map (\<lambda>s. if score_record_id s = rid \<and>
      score_indicator_id s = si_indicator_id item
      then s\<lparr>score := si_score item, evidence_text := si_evidence_text item\<rparr> else s) rows) =
    map score_key rows" by (simp add: score_key_def)
  ultimately show ?thesis
    by (auto simp: upsert_score_def score_key_def simp del: map_map)
qed

lemma foldl_upsert_other:
  "k \<noteq> rid \<Longrightarrow> filter (\<lambda>s. score_record_id s = k) (foldl (upsert_score rid) rows items) =
    filter (\<lambda>s. score_record_id s = k) rows"
  by (induction items arbitrary: rows) (simp_all add: upsert_score_other)

lemma foldl_upsert_keys:
  "distinct (map score_key rows) \<Longrightarrow> distinct (map score_key (foldl (upsert_score rid) rows items))"
  by (induction items arbitrary: rows) (simp_all add: upsert_score_keys)

lemma foldl_upsert_sheet:
  "distinct (map si_indicator_id items) \<Longrightarrow>
    sheet_of rid (foldl (upsert_score rid) rows items) =
      set items \<union> {x \<in> sheet_of rid rows. si_indicator_id x \<notin> si_indicator_id ` set items}"
  by (induction items arbitrary: rows) (auto simp: upsert_score_sheet)

lemma replace_scores_InrD:
  assumes "replace_scores db r items = Inr db'"
  shows "\<exists>rows. db' = db\<lparr>t_scores := rows\<rparr> \<and> sheet_of (record_id r) rows = set items \<and>
      (\<forall>k. k \<noteq> record_id r \<longrightarrow> filter (\<lambda>s. score_record_id s = k) rows = scores_of db k) \<and>
      (distinct (map score_key (t_scores db)) \<longrightarrow> distinct (map score_key rows))"
    and "si_indicator_id ` set items \<subseteq> indicator_id ` set (indicators_for_record db r)"
    and "distinct (map si_indicator_id items)"
proof -
  let ?kept = "filter (\<lambda>s. score_record_id s \<noteq> record_id r \<or>
    score_indicator_id s \<in> si_indicator_id ` set items) (t_scores db)"
  have d: "distinct (map si_indicator_id items)"
    and sub: "si_indicator_id ` set items \<subseteq> indicator_id ` set (indicators_for_record db r)"
    and db': "db' = db\<lparr>t_scores := foldl (upsert_score (record_id r)) ?kept items\<rparr>"
    using assms by (auto simp: replace_scores_def Let_def)
  have "{x \<in> sheet_of (record_id r) ?kept. si_indicator_id x \<notin> si_indicator_id ` set items} = {}"
    by (auto simp: sheet_of_def input_of_score_def)
  moreover have "filter (\<lambda>s. score_record_id s = k) ?kept = scores_of db k" if "k \<noteq> record_id r" for k
    using that by (auto simp: scores_of_def intro!: filter_cong)
  moreover have "distinct (map score_key ?kept)" if "distinct (map score_key (t_scores db))"
    using that by (rule distinct_map_filter)
  ultimately show "\<exists>rows. db' = db\<lparr>t_scores := rows\<rparr> \<and> sheet_of (record_id r) rows = set items \<and>
      (\<forall>k. k \<noteq> record_id r \<longrightarrow> filter (\<lambda>s. score_record_id s = k) rows = scores_of db k) \<and>
      (distinct (map score_key (t_scores db)) \<longrightarrow> distinct (map score_key rows))"
    using d by (intro exI [of _ "foldl (upsert_score (record_id r)) ?kept items"])
      (auto simp: db' foldl_upsert_sheet foldl_upsert_other foldl_upsert_keys)
  show "si_indicator_id ` set items \<subseteq> indicator_id ` set (indicators_for_record db r)"
    and "distinct (map si_indicator_id items)" by (rule sub, rule d)
qed

lemma upsert_scores_InrD:
  assumes "upsert_scores db user k items = Inr db'"
  obtains r rows where "get_evaluation db k = Some r" and "status r = Draft" and "is_the_scorer r user"
    and "list_all score_input_ok items" and "t_evaluations db' = t_evaluations db"
    and "t_scores db' = rows" and "same_people db db'" and "sheet_of k rows = set items"
    and "\<And>j. j \<noteq> k \<Longrightarrow> scores_of db' j = scores_of db j"
    and "distinct (map score_key (t_scores db)) \<Longrightarrow> distinct (map score_key rows)"
    and "log_wf db \<Longrightarrow> log_wf db'"
proof -
  obtain r db1 where r: "get_evaluation db k = Some r" "is_the_scorer r user"
    and ok: "list_all score_input_ok items" and rep: "replace_scores db r items = Inr db1"
    and db': "db' = log_event (cu_id user) ''scores_draft_saved'' (Some k) None
           (Some [(''scored_indicators'', JInt (int (length items)))]) db1"
    using assms by (auto simp: upsert_scores_def)
  obtain rows where rows: "db1 = db\<lparr>t_scores := rows\<rparr>" "sheet_of k rows = set items"
    "\<forall>j. j \<noteq> k \<longrightarrow> filter (\<lambda>s. score_record_id s = j) rows = scores_of db j"
    "distinct (map score_key (t_scores db)) \<longrightarrow> distinct (map score_key rows)"
    using replace_scores_InrD(1) [OF rep] get_evaluation_id [OF r(1)] by auto
  have "log_wf db1 = log_wf db" by (rule log_wf_cong) (simp add: rows(1))
  moreover have "status r = Draft" using r(2) by (simp add: is_the_scorer_def)
  ultimately show ?thesis
    using that [OF r(1) _ r(2) ok _ _ _ rows(2)] rows by (auto simp: db' scores_of_def)
qed

section \<open>Creating\<close>

lemma ensure_framework_tables:
  assumes "ensure_framework db = (db1, f)"
  shows "t_evaluations db1 = t_evaluations db" "t_scores db1 = t_scores db"
    "t_audit_log db1 = t_audit_log db" "same_people db db1"
  using assms by (auto simp: ensure_framework_def bump_def Let_def split: option.splits if_splits)

lemma next_code_tables:
  assumes "next_evaluation_code db = (db1, code)"
  shows "t_evaluations db1 = t_evaluations db" "t_scores db1 = t_scores db"
    "t_audit_log db1 = t_audit_log db" "t_users db1 = t_users db" "t_access db1 = t_access db"
    "t_personnel db1 = t_personnel db" "t_code_seq db1 = t_code_seq db + 1"
    "code = evaluation_code_of (t_code_seq db + 1)"
  using assms by (auto simp: next_evaluation_code_def Let_def)

lemma record_constraints_cong:
  "t_evaluations db' = t_evaluations db \<Longrightarrow> record_constraints db' r = record_constraints db r"
  by (simp add: record_constraints_def)

lemma add_evaluation_tables [simp]:
  "t_evaluations (add_evaluation r db) = t_evaluations db @ [r]"
  "t_scores (add_evaluation r db) = t_scores db"
  "t_audit_log (add_evaluation r db) = t_audit_log db"
  "t_users (add_evaluation r db) = t_users db"
  "t_access (add_evaluation r db) = t_access db"
  "t_personnel (add_evaluation r db) = t_personnel db"
  "t_code_seq (add_evaluation r db) = t_code_seq db"
  by (simp_all add: add_evaluation_def)

definition fresh_record :: "database \<Rightarrow> current_user \<Rightarrow> int \<Rightarrow> evaluation_record \<Rightarrow> bool" where
  "fresh_record db user subject r \<longleftrightarrow>
    record_id r = next_id record_id (t_evaluations db) \<and> subject_personnel_id r = subject \<and>
    status r = Draft \<and> is_the_scorer r user \<and> hr_review_skipped r = subject_belongs_to_hr db subject \<and>
    scoring_scheme_id r = map_option scheme_id (active_scheme db) \<and> hr_user_id r = None \<and>
    bonus_points r = None \<and> final_weighted_pct r = None \<and> final_snapshot r = None \<and>
    acknowledged_at r = None \<and> objection_at r = None \<and> objection_resolved_at r = None \<and>
    self_assessment_submitted_at r = None"

lemma create_evaluation_InrD:
  assumes "create_evaluation env db user subject = Inr (db', k)"
  obtains r p access where "get_personnel db subject = Some p" and "p_status p = Personnel_active"
    and "find (\<lambda>a. acc_personnel_id a = personnel_id p) (t_access db) = Some access"
    and "inactive_seat_labels db access = []"
    and "\<And>x. x \<in> set (t_evaluations db) \<Longrightarrow> subject_personnel_id x = subject \<Longrightarrow> \<not> is_open x"
    and "fresh_record db user subject r" and "record_id r = k" and "record_constraints db r"
    and "t_evaluations db' = t_evaluations db @ [r]" and "t_scores db' = t_scores db"
    and "log_wf db \<Longrightarrow> log_wf db'"
    and "unit_supervisor_user_id r = acc_unit_supervisor_user_id access"
    and "deputy_user_id r = acc_deputy_user_id access" and "ceo_user_id r = acc_ceo_user_id access"
    and "t_users db' = t_users db" and "t_access db' = t_access db" and "t_personnel db' = t_personnel db"
    and "t_code_seq db' = t_code_seq db + 1" and "evaluation_code r = evaluation_code_of (t_code_seq db + 1)"
proof -
  define field where "field a = scorer_field (acc_unit_supervisor_user_id a) (acc_deputy_user_id a)" for a :: evaluation_access
  obtain db1 framework where e: "ensure_framework db = (db1, framework)" by (meson surj_pair)
  obtain db2 code where n: "next_evaluation_code db1 = (db2, code)" by (meson surj_pair)
  obtain p access r where p: "get_personnel db subject = Some p" "p_status p = Personnel_active"
    and a: "find (\<lambda>a. acc_personnel_id a = personnel_id p) (t_access db) = Some access"
      "inactive_seat_labels db access = []"
    and scorer: "may_act_at (cu_role user) (case SEAT_ROLE (field access) of Some x \<Rightarrow> x | None \<Rightarrow> Role_hr)"
      "access_seat (field access) access = Some (cu_id user)"
    and free: "find (\<lambda>r. subject_personnel_id r = personnel_id p \<and> is_open r) (t_evaluations db) = None"
    and r: "r = new_record env (next_id record_id (t_evaluations db2)) code access (personnel_id p)
        (map_option per_id (find (\<lambda>p. period_status p = Period_open) (t_periods db)))
        (map_option scheme_id (active_scheme db)) (Some (framework_id framework))
        (subject_belongs_to_hr db (personnel_id p))"
    and con: "record_constraints db2 r" and k: "k = next_id record_id (t_evaluations db2)"
    and db': "db' = log_event (cu_id user) ''status_changed'' (Some k) None
      (Some [(''status'', jstr (status_value Draft))]) (add_evaluation r db2)"
    using assms by (auto simp: create_evaluation_def Let_def e n field_def)
  have t: "t_evaluations db2 = t_evaluations db" "t_scores db2 = t_scores db" "t_audit_log db2 = t_audit_log db"
    using ensure_framework_tables [OF e] next_code_tables [OF n] by simp_all
  have id: "personnel_id p = subject" using p(1) by (simp add: get_personnel_def row_get_SomeD(2))
  have log: "log_wf db'" if "log_wf db"
    using that log_wf_cong [of "add_evaluation r db2" db] by (auto simp: db' t)
  have "is_the_scorer r user"
    using scorer by (cases "field access")
      (auto simp: is_the_scorer_def scorer_seat_def Let_def r new_record_def field_def SEAT_ROLE_def
        scorer_field_def split: if_splits)
  then have fresh: "fresh_record db user subject r"
    by (simp add: fresh_record_def r new_record_def id t)
  have con': "record_constraints db r" using con record_constraints_cong [OF t(1)] by simp
  have seats: "unit_supervisor_user_id r = acc_unit_supervisor_user_id access"
    "deputy_user_id r = acc_deputy_user_id access" "ceo_user_id r = acc_ceo_user_id access"
    by (simp_all add: r new_record_def)
  have people: "t_users db' = t_users db" "t_access db' = t_access db" "t_personnel db' = t_personnel db"
      "t_code_seq db' = t_code_seq db + 1" "evaluation_code r = evaluation_code_of (t_code_seq db + 1)"
    using ensure_framework_tables(4) [OF e] next_code_tables(4-8) [OF n] by (simp_all add: db' r new_record_def)
  have rid: "record_id r = k" by (simp add: r new_record_def k)
  show ?thesis
    by (rule that [OF p a _ fresh rid con' _ _ log seats people])
      (use free in \<open>auto simp: find_None_iff db' t id\<close>)
qed

end
