(* ===== verification/Periods.thy ===== *)
theory Periods
  imports Handlers
begin

text \<open>
  Evaluation periods (\<open>app/api/routers/periods.py\<close>, \<open>app/schemas/period.py\<close>,
  \<open>app/models/evaluation_period.py\<close>). A field of an update is \<open>None\<close> when it is not in the request and
  \<open>Some None\<close> when it is null there.
\<close>

section \<open>Operations\<close>

definition put_period :: "evaluation_period \<Rightarrow> database \<Rightarrow> database" where
  "put_period p db = db\<lparr>t_periods := row_put per_id p (t_periods db)\<rparr>"

definition add_period :: "evaluation_period \<Rightarrow> database \<Rightarrow> database" where
  "add_period p db = db\<lparr>t_periods := t_periods db @ [p]\<rparr>"

interpretation periods: keyed_table per_id get_period put_period add_period
  by unfold_locales
    (auto simp: get_period_def put_period_def add_period_def row_get_put row_get_append
      dest: row_get_SomeD split: option.splits)

text \<open>The partial unique index of the table: at most one period is open.\<close>

definition one_period_open :: "database \<Rightarrow> bool" where
  "one_period_open db \<longleftrightarrow> length (filter (\<lambda>p. period_status p = Period_open) (t_periods db)) \<le> 1"

definition period_name_field :: "utext \<Rightarrow> utext http" where
  "period_name_field given = text_field 200 given"

definition create_period ::
  "env \<Rightarrow> database \<Rightarrow> current_user \<Rightarrow> utext \<Rightarrow> int \<Rightarrow> int \<Rightarrow> database http" where
  "create_period env db user given starts ends =
    bindE (require_roles [Role_hr] user) (\<lambda>_.
    bindE (period_name_field given) (\<lambda>name.
    bindE (raise_if (ends \<le> starts) (HTTPException 422 ''dates'')) (\<lambda>_.
    bindE (ensure_module_enabled db ''periods'') (\<lambda>_.
    bindE (raise_if (find (\<lambda>p. period_status p = Period_open) (t_periods db) \<noteq> None)
             (HTTPException 400 ''a period is open'')) (\<lambda>_.
     (let k = next_id per_id (t_periods db);
          db1 = add_period \<lparr>per_id = k, period_name = name, starts_on = starts, ends_on = ends,
                  period_status = Period_open, period_created_by_user_id = Some (cu_id user),
                  closed_at = None\<rparr> db
      in bindE (raise_if (\<not> one_period_open db1) (HTTPException 400 ''a period is open'')) (\<lambda>_.
          (let db2 = log_event (cu_id user) ''period_created'' None None
                  (Some [(''id'', JInt k), (''name'', JString name)]) db1;
               evaluators = map user_id (filter (\<lambda>u. user_role u \<in> {Role_unit_supervisor, Role_deputy} \<and>
                  user_is_active u) (t_users db2))
           in Inr (notify env evaluators ''period_opened'' None (Some ''/'') db2)))))))))"

text \<open>\<open>updates.get(field, old)\<close>: a null date makes the comparison of the dates fail with an exception.\<close>

definition patched :: "'a option option \<Rightarrow> 'a \<Rightarrow> 'a option" where
  "patched new old = (case new of None \<Rightarrow> Some old | Some x \<Rightarrow> x)"

definition patch_text :: "('a \<Rightarrow> json) \<Rightarrow> string \<Rightarrow> 'a option option \<Rightarrow> jdict" where
  "patch_text f field new = (case new of None \<Rightarrow> [] | Some x \<Rightarrow> [(field, case x of None \<Rightarrow> jstr ''None'' | Some v \<Rightarrow> f v)])"

definition update_period ::
  "database \<Rightarrow> current_user \<Rightarrow> int \<Rightarrow> utext option option \<Rightarrow> int option option \<Rightarrow> int option option \<Rightarrow>
    database http" where
  "update_period db user k given starts ends =
    bindE (require_roles [Role_hr] user) (\<lambda>_.
    bindE (case given of
             Some (Some t) \<Rightarrow> bindE (period_name_field t) (\<lambda>n. Inr (Some (Some n)))
           | other \<Rightarrow> Inr other) (\<lambda>name.
    bindE (ensure_module_enabled db ''periods'') (\<lambda>_.
    bindE (or_raise (get_period db k) (HTTPException 404 ''no such period'')) (\<lambda>p.
    bindE (or_raise (patched starts (starts_on p)) (HTTPException 500 ''null date'')) (\<lambda>first.
    bindE (or_raise (patched ends (ends_on p)) (HTTPException 500 ''null date'')) (\<lambda>last.
    bindE (raise_if (last \<le> first) (HTTPException 400 ''dates'')) (\<lambda>_.
    bindE (or_raise (patched name (period_name p)) (HTTPException 400 ''name'')) (\<lambda>new_name.
     (let p1 = p\<lparr>period_name := new_name, starts_on := first, ends_on := last\<rparr>
      in Inr (log_event (cu_id user) ''period_updated'' None
           (Some [(''name'', JString (period_name p)), (''starts_on'', jstr (isodate (starts_on p))),
                  (''ends_on'', jstr (isodate (ends_on p)))])
           (Some ([(''id'', JInt k)] @ patch_text JString ''name'' name @
                  patch_text (\<lambda>d. jstr (isodate d)) ''starts_on'' starts @
                  patch_text (\<lambda>d. jstr (isodate d)) ''ends_on'' ends))
           (put_period p1 db)))))))))))"

fun period_status_value :: "period_status \<Rightarrow> string" where
  "period_status_value Period_open = ''open''"
| "period_status_value Period_closed = ''closed''"

definition records_of_period :: "database \<Rightarrow> int \<Rightarrow> evaluation_record list" where
  "records_of_period db k = filter (\<lambda>r. period_id r = Some k) (t_evaluations db)"

definition delete_period :: "database \<Rightarrow> current_user \<Rightarrow> int \<Rightarrow> database http" where
  "delete_period db user k =
    bindE (require_roles [Role_hr] user) (\<lambda>_.
    bindE (or_raise (get_period db k) (HTTPException 404 ''no such period'')) (\<lambda>p.
    bindE (raise_if (records_of_period db k \<noteq> []) (HTTPException 409 ''has records'')) (\<lambda>_.
    Inr (log_event (cu_id user) ''period_deleted'' None
           (Some [(''id'', JInt k), (''name'', JString (period_name p)),
                  (''status'', jstr (period_status_value (period_status p))),
                  (''starts_on'', jstr (isodate (starts_on p))), (''ends_on'', jstr (isodate (ends_on p)))])
           None (db\<lparr>t_periods := filter (\<lambda>x. per_id x \<noteq> k) (t_periods db)\<rparr>)))))"

definition close_period :: "env \<Rightarrow> database \<Rightarrow> current_user \<Rightarrow> int \<Rightarrow> bool \<Rightarrow> database http" where
  "close_period env db user k force =
    bindE (require_roles [Role_hr] user) (\<lambda>_.
    bindE (or_raise (get_period db k) (HTTPException 404 ''no such period'')) (\<lambda>p.
    bindE (raise_if (period_status p \<noteq> Period_open) (HTTPException 400 ''closed already'')) (\<lambda>_.
     (let open_cases = length (filter is_open (records_of_period db k))
      in bindE (raise_if (open_cases \<noteq> 0 \<and> \<not> force) (HTTPException 409 ''open records'')) (\<lambda>_.
         Inr (log_event (cu_id user) ''period_closed'' None None
                (Some [(''id'', JInt k), (''name'', JString (period_name p)),
                       (''open_cases'', JInt (int open_cases))])
                (put_period (p\<lparr>period_status := Period_closed, closed_at := Some (now env)\<rparr>) db)))))))"

section \<open>Progress\<close>

record period_progress =
  pg_eligible :: nat
  pg_started :: nat
  pg_finalized :: nat
  pg_in_progress :: nat
  pg_not_started_total :: nat
  pg_not_started :: "int list"
  pg_without_chain_total :: nat
  pg_without_chain :: "int list"

definition NOT_STARTED_LIMIT :: nat where
  "NOT_STARTED_LIMIT = 200"

definition by_full_name :: "env \<Rightarrow> personnel list \<Rightarrow> personnel list" where
  "by_full_name env = sort_key (\<lambda>p. collation env (personnel_full_name p))"

definition get_period_progress :: "env \<Rightarrow> database \<Rightarrow> current_user \<Rightarrow> int \<Rightarrow> period_progress http" where
  "get_period_progress env db user k =
    bindE (require_roles [Role_hr] user) (\<lambda>_.
    bindE (or_raise (get_period db k) (HTTPException 404 ''no such period'')) (\<lambda>_.
     (let active = filter (\<lambda>p. p_status p = Personnel_active) (t_personnel db);
          without_chain = filter (\<lambda>p. \<not> list_ex (\<lambda>a. acc_personnel_id a = personnel_id p) (t_access db)) active;
          records = records_of_period db k;
          not_started = filter (\<lambda>p. \<not> list_ex (\<lambda>r. subject_personnel_id r = personnel_id p) records) active
      in Inr \<lparr>pg_eligible = length active, pg_started = length records,
          pg_finalized = length (filter (\<lambda>r. status r = Finalized) records),
          pg_in_progress = length (filter is_open records),
          pg_not_started_total = length not_started,
          pg_not_started = map personnel_id (take NOT_STARTED_LIMIT (by_full_name env not_started)),
          pg_without_chain_total = length without_chain,
          pg_without_chain = map personnel_id (take NOT_STARTED_LIMIT (by_full_name env without_chain))\<rparr>)))"

section \<open>At most one period is open\<close>

text \<open>The periods under the operations, of any users and in any order.\<close>

inductive period_step :: "database \<Rightarrow> database \<Rightarrow> bool" where
  created: "create_period env db user name starts ends = Inr db' \<Longrightarrow> period_step db db'"
| updated: "update_period db user k name starts ends = Inr db' \<Longrightarrow> period_step db db'"
| deleted: "delete_period db user k = Inr db' \<Longrightarrow> period_step db db'"
| closed: "close_period env db user k force = Inr db' \<Longrightarrow> period_step db db'"
| elsewhere: "t_periods db' = t_periods db \<Longrightarrow> period_step db db'"

definition period_ok :: "evaluation_period \<Rightarrow> bool" where
  "period_ok p \<longleftrightarrow> starts_on p < ends_on p \<and> (period_status p = Period_closed \<longleftrightarrow> closed_at p \<noteq> None)"

definition periods_wf :: "evaluation_period list \<Rightarrow> bool" where
  "periods_wf rows \<longleftrightarrow>
    distinct (map per_id rows) \<and> length (filter (\<lambda>p. period_status p = Period_open) rows) \<le> 1 \<and>
    list_all period_ok rows"

lemma open_count_put:
  assumes "distinct (map per_id rows)" and "p \<in> set rows" and "per_id p' = per_id p"
    and "period_status p' = Period_open \<Longrightarrow> period_status p = Period_open"
  shows "length (filter (\<lambda>p. period_status p = Period_open) (row_put per_id p' rows)) \<le>
    length (filter (\<lambda>p. period_status p = Period_open) rows)"
  using assms
proof (induction rows)
  case (Cons x rows)
  show ?case
  proof (cases "p = x")
    case True
    then have "row_put per_id p' rows = rows"
      using Cons.prems(1,3) by (auto simp: row_put_def image_iff intro!: map_idI)
    then show ?thesis using Cons.prems(4) True \<open>per_id p' = per_id p\<close> by (simp add: row_put_def)
  next
    case False
    then have "p \<in> set rows" "per_id x \<noteq> per_id p'" using Cons.prems by auto
    then show ?thesis using Cons by (simp add: row_put_def)
  qed
qed simp

lemma periods_wf_put:
  assumes "periods_wf rows" and "p \<in> set rows" and "per_id p' = per_id p"
    and "period_status p' = Period_open \<Longrightarrow> period_status p = Period_open" and "period_ok p'"
  shows "periods_wf (row_put per_id p' rows)"
  using assms open_count_put [of rows p p']
  by (auto simp: periods_wf_def list_all_iff dest: set_row_put_subset)

lemma get_period_in: "get_period db k = Some p \<Longrightarrow> p \<in> set (t_periods db) \<and> per_id p = k"
  by (auto simp: get_period_def dest: row_get_SomeD)

lemma put_period_rows [simp]: "t_periods (put_period p db) = row_put per_id p (t_periods db)"
  by (simp add: put_period_def)

lemma text_field_strip: "text_field m given = Inr a \<Longrightarrow> a = strip given"
  by (auto simp: text_field_def Let_def split: if_splits)

lemma create_period_InrD:
  assumes "create_period env db user given starts ends = Inr db'"
  obtains p where "t_periods db' = t_periods db @ [p]" and "per_id p = next_id per_id (t_periods db)"
    and "period_status p = Period_open" and "starts_on p = starts" and "ends_on p = ends"
    and "starts < ends" and "closed_at p = None" and "period_name p = strip given"
    and "find (\<lambda>p. period_status p = Period_open) (t_periods db) = None"
proof -
  let ?p = "\<lparr>per_id = next_id per_id (t_periods db), period_name = strip given, starts_on = starts,
    ends_on = ends, period_status = Period_open, period_created_by_user_id = Some (cu_id user), closed_at = None\<rparr>"
  have "t_periods db' = t_periods db @ [?p]" "starts < ends"
    "find (\<lambda>p. period_status p = Period_open) (t_periods db) = None"
    using assms
    by (auto simp: create_period_def Let_def period_name_field_def add_period_def
        only_messages_tables [OF notify_messages] dest: text_field_strip)
  then show ?thesis by (intro that [of ?p]) simp_all
qed

lemma period_step_wf: "period_step db db' \<Longrightarrow> periods_wf (t_periods db) \<Longrightarrow> periods_wf (t_periods db')"
proof (induction rule: period_step.induct)
  case (created env db user name starts ends db')
  from created(1) show ?case
  proof (rule create_period_InrD)
    fix p
    assume p: "t_periods db' = t_periods db @ [p]" "per_id p = next_id per_id (t_periods db)"
      "starts_on p = starts" "ends_on p = ends" "starts < ends" "closed_at p = None" "period_status p = Period_open"
      "find (\<lambda>p. period_status p = Period_open) (t_periods db) = None"
    then have "filter (\<lambda>p. period_status p = Period_open) (t_periods db) = []"
      by (auto simp: find_None_iff filter_empty_conv)
    then show ?thesis
      using p created(2) next_id_not_in [of per_id "t_periods db"] by (simp add: periods_wf_def period_ok_def)
  qed
next
  case (updated db user k name starts ends db')
  obtain p new_name first last old new where got: "get_period db k = Some p" and less: "\<not> last \<le> first"
    and db': "db' = log_event (cu_id user) ''period_updated'' None old new
      (put_period (p\<lparr>period_name := new_name, starts_on := first, ends_on := last\<rparr>) db)"
    using updated(1) by (simp add: update_period_def Let_def) blast
  then have t: "t_periods db' =
      row_put per_id (p\<lparr>period_name := new_name, starts_on := first, ends_on := last\<rparr>) (t_periods db)"
    by simp
  let ?p1 = "p\<lparr>period_name := new_name, starts_on := first, ends_on := last\<rparr>"
  have p: "get_period db k = Some p" "starts_on ?p1 < ends_on ?p1" "per_id ?p1 = per_id p"
      "period_status ?p1 = period_status p" "closed_at ?p1 = closed_at p"
    using got less by simp_all
  have "period_ok p" using updated(2) get_period_in [OF p(1)] by (auto simp: periods_wf_def list_all_iff)
  then show ?case
    unfolding t using updated(2) p get_period_in [OF p(1)] by (intro periods_wf_put [of _ p]) (auto simp: period_ok_def)
next
  case (deleted db user k db')
  then have "t_periods db' = filter (\<lambda>x. per_id x \<noteq> k) (t_periods db)" by (auto simp: delete_period_def)
  moreover have "length (filter (\<lambda>p. period_status p = Period_open) (filter (\<lambda>x. per_id x \<noteq> k) rows)) \<le>
      length (filter (\<lambda>p. period_status p = Period_open) rows)" for rows
    by (induction rows) auto
  ultimately show ?case
    using deleted(2) le_trans by (fastforce simp: periods_wf_def list_all_iff distinct_map_filter)
next
  case (closed env db user k force db')
  obtain p where p: "get_period db k = Some p"
    and t: "t_periods db' =
      row_put per_id (p\<lparr>period_status := Period_closed, closed_at := Some (now env)\<rparr>) (t_periods db)"
    using closed(1) by (auto simp: close_period_def Let_def)
  have "period_ok p" using closed(2) get_period_in [OF p] by (auto simp: periods_wf_def list_all_iff)
  then show ?case
    unfolding t using closed(2) get_period_in [OF p] by (intro periods_wf_put [of _ p]) (auto simp: period_ok_def)
qed simp

text \<open>
  At most one period is ever open: from an empty table, after any sequence of creations, updates,
  deletions and closings, at most one period is open, every period starts before it ends, and a period
  has a time of closing exactly when it is closed.
\<close>

theorem one_open_period:
  assumes "rtranclp period_step db db'" and "t_periods db = []"
  shows "length (filter (\<lambda>p. period_status p = Period_open) (t_periods db')) \<le> 1 \<and>
    list_all (\<lambda>p. starts_on p < ends_on p \<and> (period_status p = Period_closed \<longleftrightarrow> closed_at p \<noteq> None))
      (t_periods db')"
proof -
  have "periods_wf (t_periods db')"
    using assms
  proof (induction rule: rtranclp_induct)
    case (step a b)
    then show ?case by (blast intro: period_step_wf)
  qed (simp add: periods_wf_def)
  then show ?thesis by (simp add: periods_wf_def period_ok_def [abs_def])
qed

end
