(* ===== verification/Bulk.thy ===== *)
theory Bulk
  imports Periods
begin

text \<open>
  Opening the records of a whole cohort at once (\<open>app/services/bulk_evaluation.py\<close> and the two
  bulk endpoints of \<open>app/api/routers/periods.py\<close>).
\<close>

section \<open>The plan\<close>

datatype bulk_outcome =
  Bulk_created | Skipped_already_open | Blocked_inactive | Blocked_no_access_row |
  Blocked_inactive_seat | Blocked_conflict

fun outcome_value :: "bulk_outcome \<Rightarrow> string" where
  "outcome_value Bulk_created = ''created''"
| "outcome_value Skipped_already_open = ''skipped_already_open''"
| "outcome_value Blocked_inactive = ''blocked_inactive''"
| "outcome_value Blocked_no_access_row = ''blocked_no_access_row''"
| "outcome_value Blocked_inactive_seat = ''blocked_inactive_seat''"
| "outcome_value Blocked_conflict = ''blocked_conflict''"

definition BLOCKED :: "bulk_outcome list" where
  "BLOCKED = [Blocked_inactive, Blocked_no_access_row, Blocked_inactive_seat, Blocked_conflict]"

record cohort_filter =
  cf_org_unit :: "utext option"
  cf_only_managers :: "bool option"
  cf_contract_ends_before :: "int option"

definition cohort_selects :: "cohort_filter \<Rightarrow> personnel \<Rightarrow> bool" where
  "cohort_selects cohort p \<longleftrightarrow>
    (case nonempty_text (cf_org_unit cohort) of None \<Rightarrow> True | Some u \<Rightarrow> org_unit p = u) \<and>
    (case cf_only_managers cohort of None \<Rightarrow> True | Some b \<Rightarrow> is_manager p = b) \<and>
    (case cf_contract_ends_before cohort of None \<Rightarrow> True | Some d \<Rightarrow> contract_end_date p \<le> d)"

record person_plan =
  pp_personnel_id :: int
  pp_full_name :: utext
  pp_org_unit :: utext
  pp_outcome :: bulk_outcome
  pp_evaluation_id :: "int option"
  pp_evaluation_code :: "string option"
  pp_assignee_user_id :: "int option"
  pp_manager_path :: bool

definition load_cohort :: "env \<Rightarrow> database \<Rightarrow> cohort_filter \<Rightarrow> personnel list" where
  "load_cohort env db cohort = by_full_name env (filter (cohort_selects cohort) (t_personnel db))"

text \<open>A dictionary over the rows of a table: the last row with a key wins.\<close>

definition access_by_person :: "database \<Rightarrow> int \<Rightarrow> evaluation_access option" where
  "access_by_person db p = find (\<lambda>a. acc_personnel_id a = p) (rev (t_access db))"

definition open_by_person :: "database \<Rightarrow> int \<Rightarrow> evaluation_record option" where
  "open_by_person db p = find (\<lambda>r. subject_personnel_id r = p \<and> is_open r) (rev (t_evaluations db))"

definition plan_one ::
  "database \<Rightarrow> personnel \<Rightarrow> evaluation_access option \<Rightarrow> evaluation_record option \<Rightarrow> person_plan" where
  "plan_one db p access open_record =
    (let base = \<lparr>pp_personnel_id = personnel_id p, pp_full_name = personnel_full_name p,
           pp_org_unit = org_unit p, pp_outcome = Blocked_inactive, pp_evaluation_id = None,
           pp_evaluation_code = None, pp_assignee_user_id = None, pp_manager_path = False\<rparr>
     in case open_record of
          Some r \<Rightarrow> base\<lparr>pp_outcome := Skipped_already_open, pp_evaluation_id := Some (record_id r),
                        pp_evaluation_code := Some (evaluation_code r)\<rparr>
        | None \<Rightarrow>
           (if p_status p \<noteq> Personnel_active then base
            else case access of
              None \<Rightarrow> base\<lparr>pp_outcome := Blocked_no_access_row\<rparr>
            | Some a \<Rightarrow>
               (if inactive_seat_labels db a \<noteq> [] then base\<lparr>pp_outcome := Blocked_inactive_seat\<rparr>
                else base\<lparr>pp_outcome := Bulk_created,
                  pp_assignee_user_id := access_seat (scorer_field (acc_unit_supervisor_user_id a)
                    (acc_deputy_user_id a)) a,
                  pp_manager_path := acc_unit_supervisor_user_id a = None\<rparr>)))"

definition plan :: "env \<Rightarrow> database \<Rightarrow> cohort_filter \<Rightarrow> person_plan list" where
  "plan env db cohort =
    map (\<lambda>p. plan_one db p (access_by_person db (personnel_id p)) (open_by_person db (personnel_id p)))
      (load_cohort env db cohort)"

section \<open>The execution\<close>

text \<open>
  One person of the plan: the insertion runs in a savepoint of its own, so a violated constraint only
  blocks this person. \<open>rules\<close> are the period, the scoring scheme and the set of indicators.
\<close>

definition create_planned ::
  "env \<Rightarrow> int option \<times> int option \<times> int option \<Rightarrow> int list \<Rightarrow> database \<times> person_plan list \<Rightarrow> person_plan \<Rightarrow>
    (database \<times> person_plan list) http" where
  "create_planned env rules hr_subjects acc p =
    (let (db, done_plans) = acc; (per, scheme, framework) = rules
     in if pp_outcome p \<noteq> Bulk_created then Inr (db, done_plans @ [p])
        else bindE (or_raise (access_by_person db (pp_personnel_id p)) (HTTPException 500 ''KeyError'')) (\<lambda>access.
         (let (db1, code) = next_evaluation_code db;
              k = next_id record_id (t_evaluations db1);
              r = new_record env k code access (pp_personnel_id p) per scheme framework
                    (pp_personnel_id p \<in> set hr_subjects)
          in Inr (if record_constraints db1 r
                  then (add_evaluation r db1,
                        done_plans @ [p\<lparr>pp_evaluation_id := Some k, pp_evaluation_code := Some code\<rparr>])
                  else (db1, done_plans @ [p\<lparr>pp_outcome := Blocked_conflict\<rparr>])))))"

definition execute ::
  "env \<Rightarrow> database \<Rightarrow> cohort_filter \<Rightarrow> (database \<times> person_plan list) http" where
  "execute env db cohort =
    (let plans = plan env db cohort;
         open_period = find (\<lambda>p. period_status p = Period_open) (t_periods db);
         (db1, framework) = ensure_framework db;
         creating_ids = map pp_personnel_id (filter (\<lambda>p. pp_outcome p = Bulk_created) plans)
     in foldE (create_planned env (map_option per_id open_period, map_option scheme_id (active_scheme db),
                  Some (framework_id framework)) (hr_unit_personnel_ids db1 creating_ids))
          (db1, []) plans)"

definition summarise :: "person_plan list \<Rightarrow> (string \<times> nat) list" where
  "summarise plans =
    map (\<lambda>o1. (outcome_value o1, length (filter (\<lambda>p. pp_outcome p = o1) plans)))
      (rev (remdups (rev (map pp_outcome plans))))"

section \<open>The endpoints\<close>

definition clean_cohort :: "cohort_filter \<Rightarrow> cohort_filter" where
  "clean_cohort cohort = cohort\<lparr>cf_org_unit := map_option strip (cf_org_unit cohort)\<rparr>"

definition preview_bulk_create ::
  "env \<Rightarrow> database \<Rightarrow> current_user \<Rightarrow> cohort_filter \<Rightarrow> person_plan list http" where
  "preview_bulk_create env db user cohort =
    bindE (require_roles [Role_hr] user) (\<lambda>_.
    bindE (ensure_module_enabled db ''periods'') (\<lambda>_. Inr (plan env db (clean_cohort cohort))))"

definition cohort_json :: "cohort_filter \<Rightarrow> jdict" where
  "cohort_json cohort =
    (case cf_org_unit cohort of None \<Rightarrow> [] | Some u \<Rightarrow> [(''org_unit'', JString u)]) @
    (case cf_only_managers cohort of None \<Rightarrow> [] | Some b \<Rightarrow> [(''only_managers'', JBool b)]) @
    (case cf_contract_ends_before cohort of None \<Rightarrow> [] | Some d \<Rightarrow> [(''contract_ends_before'', jstr (isodate d))])"

definition assignees :: "person_plan list \<Rightarrow> int list" where
  "assignees plans =
    rev (remdups (rev (List.map_filter (\<lambda>p. if pp_outcome p = Bulk_created then pp_assignee_user_id p else None) plans)))"

definition run_bulk_create ::
  "env \<Rightarrow> database \<Rightarrow> current_user \<Rightarrow> cohort_filter \<Rightarrow> (database \<times> person_plan list) http" where
  "run_bulk_create env db user given =
    (let cohort = clean_cohort given
     in bindE (require_roles [Role_hr] user) (\<lambda>_.
        bindE (ensure_module_enabled db ''periods'') (\<lambda>_.
        bindE (execute env db cohort) (\<lambda>(db1, plans).
         (let counts = map (\<lambda>(k, n). (k, JInt (int n))) (summarise plans);
              db2 = log_event (cu_id user) ''evaluations_bulk_created'' None None
                      (Some [(''cohort'', JObject (cohort_json cohort)), (''counts'', JObject counts)]) db1
          in Inr (fold (\<lambda>u. notify env [u] ''bulk_evaluations_assigned'' None (Some ''/''))
                    (assignees plans) db2, plans))))))"

section \<open>Codes of records never repeat\<close>

definition digit_value :: "char \<Rightarrow> int" where
  "digit_value c = int (of_char c) - 48"

definition read_digits :: "string \<Rightarrow> int" where
  "read_digits s = foldl (\<lambda>a c. 10 * a + digit_value c) 0 s"

lemma digit_value_char: "n < 10 \<Longrightarrow> digit_value (char_of (48 + n)) = int n"
  by (simp add: digit_value_def)

lemma read_digits_of: "read_digits (digits_of n) = int n"
proof (induction n rule: digits_of.induct)
  case (1 n)
  show ?case
  proof (cases "n < 10")
    case True
    then show ?thesis by (subst digits_of.simps) (simp add: read_digits_def digit_value_char)
  next
    case False
    have "read_digits (digits_of n) = 10 * read_digits (digits_of (n div 10)) + int (n mod 10)"
      using False by (subst digits_of.simps) (simp add: read_digits_def digit_value_char)
    then have "read_digits (digits_of n) = 10 * int (n div 10) + int (n mod 10)" using 1 False by simp
    then show ?thesis by (metis (no_types) mult_div_mod_eq of_nat_add of_nat_mult of_nat_numeral)
  qed
qed

lemma read_zeros: "read_digits (replicate k (CHR ''0'') @ s) = read_digits s"
  by (induction k) (simp_all add: read_digits_def digit_value_def)

lemma evaluation_code_of_inj:
  assumes "0 \<le> m" and "0 \<le> n" and "evaluation_code_of m = evaluation_code_of n"
  shows "m = n"
proof -
  have "read_digits (pad4 (str_int k)) = k" if "0 \<le> k" for k
    using that by (simp add: pad4_def read_zeros str_int_def read_digits_of)
  then show ?thesis using assms by (metis append_same_eq evaluation_code_of_def same_append_eq)
qed

definition codes_ahead_free :: "database \<Rightarrow> bool" where
  "codes_ahead_free db \<longleftrightarrow> 0 \<le> t_code_seq db \<and>
    (\<forall>r \<in> set (t_evaluations db). \<exists>n \<in> {1..t_code_seq db}. evaluation_code r = evaluation_code_of n)"

lemma next_code_free:
  assumes "codes_ahead_free db"
  shows "evaluation_code_of (t_code_seq db + 1) \<notin> evaluation_code ` set (t_evaluations db)"
proof
  assume "evaluation_code_of (t_code_seq db + 1) \<in> evaluation_code ` set (t_evaluations db)"
  then obtain n where "n \<in> {1..t_code_seq db}" "evaluation_code_of (t_code_seq db + 1) = evaluation_code_of n"
    using assms by (force simp: codes_ahead_free_def)
  with evaluation_code_of_inj [of "t_code_seq db + 1" n] assms show False
    by (simp add: codes_ahead_free_def)
qed

section \<open>The execution does what the plan says\<close>

definition chain_is_sound :: "evaluation_access \<Rightarrow> bool" where
  "chain_is_sound a \<longleftrightarrow>
    (acc_unit_supervisor_user_id a = None \<or> acc_unit_supervisor_user_id a \<noteq> acc_deputy_user_id a) \<and>
    acc_deputy_user_id a \<noteq> Some (acc_ceo_user_id a)"

abbreviation to_create :: "person_plan \<Rightarrow> bool" where
  "to_create p \<equiv> pp_outcome p = Bulk_created"

definition can_create :: "database \<Rightarrow> person_plan \<Rightarrow> bool" where
  "can_create db p \<longleftrightarrow>
    (\<exists>a. access_by_person db (pp_personnel_id p) = Some a \<and> chain_is_sound a) \<and>
    (\<forall>x \<in> set (t_evaluations db). is_open x \<longrightarrow> subject_personnel_id x \<noteq> pp_personnel_id p)"

definition opened_for :: "database \<Rightarrow> int \<Rightarrow> evaluation_record \<Rightarrow> bool" where
  "opened_for db p r \<longleftrightarrow> subject_personnel_id r = p \<and> status r = Draft \<and>
    (\<exists>a. access_by_person db p = Some a \<and> unit_supervisor_user_id r = acc_unit_supervisor_user_id a \<and>
      deputy_user_id r = acc_deputy_user_id a \<and> ceo_user_id r = acc_ceo_user_id a)"

lemma create_planned_creates:
  assumes "to_create p" and "can_create db p" and "codes_ahead_free db"
  obtains r a where "create_planned env rules hr_subjects (db, done_plans) p =
      Inr (add_evaluation r (db\<lparr>t_code_seq := t_code_seq db + 1\<rparr>),
        done_plans @ [p\<lparr>pp_evaluation_id := Some (record_id r), pp_evaluation_code := Some (evaluation_code r)\<rparr>])"
    and "opened_for db (pp_personnel_id p) r" and "access_by_person db (pp_personnel_id p) = Some a"
    and "r = new_record env (next_id record_id (t_evaluations db)) (evaluation_code_of (t_code_seq db + 1)) a
      (pp_personnel_id p) (fst rules) (fst (snd rules)) (snd (snd rules)) (pp_personnel_id p \<in> set hr_subjects)"
proof -
  obtain a where a: "access_by_person db (pp_personnel_id p) = Some a" "chain_is_sound a"
    and free: "\<forall>x \<in> set (t_evaluations db). is_open x \<longrightarrow> subject_personnel_id x \<noteq> pp_personnel_id p"
    using assms(2) by (auto simp: can_create_def)
  obtain per scheme framework where rules: "rules = (per, scheme, framework)" by (meson prod_cases3)
  define r where "r = new_record env (next_id record_id (t_evaluations db)) (evaluation_code_of (t_code_seq db + 1)) a
    (pp_personnel_id p) per scheme framework (pp_personnel_id p \<in> set hr_subjects)"
  have "record_constraints (db\<lparr>t_code_seq := t_code_seq db + 1\<rparr>) r"
    using next_code_free [OF assms(3)] a(2) free
    by (auto simp: record_constraints_def r_def new_record_def chain_is_sound_def)
  then show ?thesis
    using a assms(1)
    by (intro that [of r a])
      (simp_all add: create_planned_def rules next_evaluation_code_def Let_def r_def [symmetric]
        opened_for_def, simp_all add: r_def new_record_def)
qed

lemma codes_ahead_free_add:
  assumes "codes_ahead_free db" and "evaluation_code r = evaluation_code_of (t_code_seq db + 1)"
  shows "codes_ahead_free (add_evaluation r (db\<lparr>t_code_seq := t_code_seq db + 1\<rparr>))"
proof -
  have "\<exists>n \<in> {1..t_code_seq db + 1}. evaluation_code x = evaluation_code_of n"
    if "x \<in> set (t_evaluations db)" for x
    using assms(1) that by (fastforce simp: codes_ahead_free_def)
  moreover have "1 \<le> t_code_seq db + 1" using assms(1) by (simp add: codes_ahead_free_def)
  ultimately show ?thesis
    using assms by (auto simp: codes_ahead_free_def add_evaluation_def intro!: bexI [of _ "t_code_seq db + 1"])
qed

lemma execute_plans:
  assumes "distinct (map pp_personnel_id (filter to_create plans))"
    and "\<forall>p \<in> set plans. to_create p \<longrightarrow> can_create db p" and "codes_ahead_free db"
  shows "\<exists>db' rs made. foldE (create_planned env rules hr_subjects) (db, done_plans) plans = Inr (db', done_plans @ made) \<and>
    map pp_outcome made = map pp_outcome plans \<and> map pp_personnel_id made = map pp_personnel_id plans \<and>
    t_evaluations db' = t_evaluations db @ rs \<and> codes_ahead_free db' \<and>
    list_all2 (\<lambda>p r. opened_for db (pp_personnel_id p) r) (filter to_create plans) rs"
  using assms
proof (induction plans arbitrary: db done_plans)
  case Nil
  then show ?case by simp
next
  case (Cons p plans)
  show ?case
  proof (cases "to_create p")
    case False
    then have "create_planned env rules hr_subjects (db, done_plans) p = Inr (db, done_plans @ [p])"
      by (simp add: create_planned_def split: prod.splits)
    moreover obtain db' rs made where
      "foldE (create_planned env rules hr_subjects) (db, done_plans @ [p]) plans = Inr (db', (done_plans @ [p]) @ made)"
      "map pp_outcome made = map pp_outcome plans" "map pp_personnel_id made = map pp_personnel_id plans"
      "t_evaluations db' = t_evaluations db @ rs" "codes_ahead_free db'"
      "list_all2 (\<lambda>p r. opened_for db (pp_personnel_id p) r) (filter to_create plans) rs"
      using Cons.IH [of db "done_plans @ [p]"] Cons.prems False by auto
    ultimately show ?thesis using False
      by (intro exI [of _ db'] exI [of _ rs] exI [of _ "p # made"]) simp
  next
    case True
    let ?db1 = "db\<lparr>t_code_seq := t_code_seq db + 1\<rparr>"
    obtain r a where c: "create_planned env rules hr_subjects (db, done_plans) p = Inr (add_evaluation r ?db1,
        done_plans @ [p\<lparr>pp_evaluation_id := Some (record_id r), pp_evaluation_code := Some (evaluation_code r)\<rparr>])"
      and r: "opened_for db (pp_personnel_id p) r"
      and new: "r = new_record env (next_id record_id (t_evaluations db)) (evaluation_code_of (t_code_seq db + 1)) a
        (pp_personnel_id p) (fst rules) (fst (snd rules)) (snd (snd rules)) (pp_personnel_id p \<in> set hr_subjects)"
      using Cons.prems True by (auto elim: create_planned_creates [of p db env rules hr_subjects done_plans])
    let ?db2 = "add_evaluation r ?db1"
    let ?p = "p\<lparr>pp_evaluation_id := Some (record_id r), pp_evaluation_code := Some (evaluation_code r)\<rparr>"
    have same: "access_by_person ?db2 = access_by_person db"
      by (simp add: access_by_person_def add_evaluation_def fun_eq_iff)
    have t: "t_evaluations ?db2 = t_evaluations db @ [r]" by (simp add: add_evaluation_def)
    have subject: "subject_personnel_id r = pp_personnel_id p" using r by (simp add: opened_for_def)
    have "can_create ?db2 q" if "q \<in> set plans" "to_create q" for q
    proof -
      have "pp_personnel_id q \<noteq> pp_personnel_id p" using Cons.prems(1) True that by (simp add: image_iff) metis
      then show ?thesis using Cons.prems(2) that subject by (auto simp: can_create_def same t)
    qed
    moreover have "codes_ahead_free ?db2"
      using Cons.prems(3) new by (intro codes_ahead_free_add) (simp_all add: new_record_def)
    moreover have "opened_for ?db2 = opened_for db" by (simp add: opened_for_def same fun_eq_iff)
    ultimately obtain db' rs made where
      "foldE (create_planned env rules hr_subjects) (?db2, done_plans @ [?p]) plans = Inr (db', (done_plans @ [?p]) @ made)"
      "map pp_outcome made = map pp_outcome plans" "map pp_personnel_id made = map pp_personnel_id plans"
      "t_evaluations db' = (t_evaluations db @ [r]) @ rs" "codes_ahead_free db'"
      "list_all2 (\<lambda>p r. opened_for db (pp_personnel_id p) r) (filter to_create plans) rs"
      using Cons.IH [of ?db2 "done_plans @ [?p]"] Cons.prems(1) True t by auto
    then show ?thesis using True c r
      by (intro exI [of _ db'] exI [of _ "r # rs"] exI [of _ "?p # made"]) simp
  qed
qed

text \<open>Whom the plan opens a record for.\<close>

definition may_be_opened :: "database \<Rightarrow> personnel \<Rightarrow> bool" where
  "may_be_opened db p \<longleftrightarrow>
    p_status p = Personnel_active \<and>
    \<not> list_ex (\<lambda>r. is_open r \<and> subject_personnel_id r = personnel_id p) (t_evaluations db) \<and>
    (case access_by_person db (personnel_id p) of None \<Rightarrow> False | Some a \<Rightarrow> inactive_seat_labels db a = [])"

lemma open_by_person_None:
  "open_by_person db k = None \<longleftrightarrow> \<not> list_ex (\<lambda>r. is_open r \<and> subject_personnel_id r = k) (t_evaluations db)"
  by (auto simp: open_by_person_def find_None_iff list_ex_iff)

lemma plan_one_created:
  "to_create (plan_one db p (access_by_person db (personnel_id p)) (open_by_person db (personnel_id p))) \<longleftrightarrow>
    may_be_opened db p"
  by (auto simp: plan_one_def may_be_opened_def Let_def open_by_person_None [symmetric] split: option.splits)

lemma plan_one_id [simp]: "pp_personnel_id (plan_one db p a r) = personnel_id p"
  by (auto simp: plan_one_def Let_def split: option.splits)

lemma plan_created_ids:
  "map pp_personnel_id (filter to_create (plan env db cohort)) =
    map personnel_id (filter (may_be_opened db) (load_cohort env db cohort))"
  by (simp add: plan_def filter_map comp_def plan_one_created)

lemma ensure_framework_rows:
  "ensure_framework db = (db1, f) \<Longrightarrow> t_evaluations db1 = t_evaluations db \<and> t_access db1 = t_access db \<and>
    t_code_seq db1 = t_code_seq db \<and> t_personnel db1 = t_personnel db \<and> t_org_units db1 = t_org_units db \<and>
    t_users db1 = t_users db"
  by (auto simp: ensure_framework_def bump_def Let_def split: option.splits if_splits)

text \<open>
  C18. The preview keeps its word: with unique people and sound chains the bulk creation cannot fail; it
  reports for every person of the cohort exactly the outcome that the plan announced, and it opens, in
  the order of the plan and each on the person's assigned chain, one draft for every active person of
  the cohort without an open record whose chain has only active evaluators, and for nobody else.
\<close>

theorem bulk_does_what_the_preview_says:
  assumes "distinct (map personnel_id (t_personnel db))" and "list_all chain_is_sound (t_access db)"
    and "codes_ahead_free db"
  shows "\<exists>db' made rs. execute env db cohort = Inr (db', made) \<and>
    map (\<lambda>p. (pp_personnel_id p, pp_outcome p)) made =
      map (\<lambda>p. (pp_personnel_id p, pp_outcome p)) (plan env db cohort) \<and>
    t_evaluations db' = t_evaluations db @ rs \<and>
    list_all2 (\<lambda>p r. opened_for db (personnel_id p) r) (filter (may_be_opened db) (load_cohort env db cohort)) rs"
proof -
  obtain db1 f where e: "ensure_framework db = (db1, f)" by (meson surj_pair)
  note t = ensure_framework_rows [OF e]
  have dist: "distinct (map pp_personnel_id (filter to_create (plan env db cohort)))"
    unfolding plan_created_ids load_cohort_def by_full_name_def
    using assms(1)
    by (intro distinct_map_filter) (auto simp: distinct_map intro: inj_on_subset)
  have can: "can_create db1 p" if p: "p \<in> set (plan env db cohort)" "to_create p" for p
  proof -
    obtain x where x: "p = plan_one db x (access_by_person db (personnel_id x)) (open_by_person db (personnel_id x))"
      using p(1) by (auto simp: plan_def)
    then have "may_be_opened db x" using p(2) by (simp add: plan_one_created)
    then obtain a where "access_by_person db (personnel_id x) = Some a"
      and free: "\<not> list_ex (\<lambda>r. is_open r \<and> subject_personnel_id r = personnel_id x) (t_evaluations db)"
      by (auto simp: may_be_opened_def split: option.splits)
    moreover from this have "chain_is_sound a"
      using assms(2) by (auto simp: access_by_person_def find_Some_iff list_all_iff rev_nth)
    ultimately show ?thesis using t by (auto simp: can_create_def x access_by_person_def list_ex_iff)
  qed
  have codes: "codes_ahead_free db1" using assms(3) t by (simp add: codes_ahead_free_def)
  have same: "opened_for db1 = opened_for db"
    using t by (simp add: opened_for_def access_by_person_def fun_eq_iff)
  define rules where "rules = (map_option per_id (find (\<lambda>p. period_status p = Period_open) (t_periods db)),
    map_option scheme_id (active_scheme db), Some (framework_id f))"
  define hr where "hr = hr_unit_personnel_ids db1 (map pp_personnel_id (filter to_create (plan env db cohort)))"
  obtain db' rs made where
    run: "execute env db cohort = Inr (db', made)" "map pp_outcome made = map pp_outcome (plan env db cohort)"
      "map pp_personnel_id made = map pp_personnel_id (plan env db cohort)" "t_evaluations db' = t_evaluations db @ rs"
    and rs: "list_all2 (\<lambda>p r. opened_for db (pp_personnel_id p) r) (filter to_create (plan env db cohort)) rs"
    using execute_plans [OF dist _ codes, where done_plans = "[]" and env = env and rules = rules and
      hr_subjects = hr] can t
    by (auto simp: execute_def e Let_def same rules_def hr_def)
  have "list_all2 (\<lambda>p r. opened_for db (personnel_id p) r) (filter (may_be_opened db) (load_cohort env db cohort)) rs"
    using rs unfolding list_all2_map1 [of _ pp_personnel_id, symmetric, where P = "opened_for db"]
      list_all2_map1 [of _ personnel_id, symmetric, where P = "opened_for db"] plan_created_ids .
  moreover have "map (\<lambda>p. (pp_personnel_id p, pp_outcome p)) made =
      map (\<lambda>p. (pp_personnel_id p, pp_outcome p)) (plan env db cohort)"
    using run(2,3) by (simp add: list_eq_iff_nth_eq)
  ultimately show ?thesis using run by blast
qed

text \<open>
  C19. Opening a record in bulk is opening it singly: when the scorer could open the record of a person
  right now, a bulk creation whose cohort is this person leaves exactly the same records, reports the
  same identifier and names the same scorer as the one to tell.
\<close>

theorem bulk_equals_single:
  assumes "create_evaluation env db user k = Inr (db1, n)" and "get_personnel db k = Some p"
    and "load_cohort env db cohort = [p]" and "distinct (map acc_personnel_id (t_access db))"
  shows "\<exists>db2 pl. execute env db cohort = Inr (db2, [pl]) \<and> t_evaluations db2 = t_evaluations db1 \<and>
    pp_outcome pl = Bulk_created \<and> pp_evaluation_id pl = Some n \<and> pp_assignee_user_id pl = Some (cu_id user)"
proof -
  obtain db2 framework where e: "ensure_framework db = (db2, framework)" by (meson surj_pair)
  obtain db3 code where c: "next_evaluation_code db2 = (db3, code)" by (meson surj_pair)
  note t = ensure_framework_rows [OF e]
  have id: "personnel_id p = k" using assms(2) by (simp add: get_personnel_def row_get_SomeD(2))
  define r where "r a = new_record env n code a k
      (map_option per_id (find (\<lambda>p. period_status p = Period_open) (t_periods db)))
      (map_option scheme_id (active_scheme db)) (Some (framework_id framework)) (subject_belongs_to_hr db k)" for a
  obtain a where act: "p_status p = Personnel_active"
    and a: "find (\<lambda>a. acc_personnel_id a = k) (t_access db) = Some a" "inactive_seat_labels db a = []"
    and seat: "access_seat (scorer_field (acc_unit_supervisor_user_id a) (acc_deputy_user_id a)) a = Some (cu_id user)"
    and free: "find (\<lambda>r. subject_personnel_id r = k \<and> is_open r) (t_evaluations db) = None"
    and n: "n = next_id record_id (t_evaluations db3)" and con: "record_constraints db3 (r a)"
    and db1: "t_evaluations db1 = t_evaluations db3 @ [r a]"
    using assms(1,2) id by (auto simp: create_evaluation_def Let_def e c r_def add_evaluation_def)
  have access: "access_by_person db k = Some a" using a(1) assms(4) by (simp add: access_by_person_def find_rev_unique)
  have closed: "open_by_person db k = None"
    using free by (auto simp: open_by_person_def find_None_iff)
  define q where "q = plan_one db p (Some a) None"
  have q: "to_create q" "pp_personnel_id q = k" "pp_assignee_user_id q = Some (cu_id user)"
    using act a(2) seat id by (simp_all add: q_def plan_one_def Let_def)
  have plan: "plan env db cohort = [q]" using assms(3) id access closed by (simp add: plan_def q_def)
  have hr: "k \<in> set (hr_unit_personnel_ids db2 [k]) \<longleftrightarrow> subject_belongs_to_hr db k"
    using t by (simp add: subject_belongs_to_hr_def hr_unit_personnel_ids_def)
  have "access_by_person db2 k = Some a" using access t by (simp add: access_by_person_def)
  then have "execute env db cohort = Inr (add_evaluation (r a) db3,
      [q\<lparr>pp_evaluation_id := Some n, pp_evaluation_code := Some code\<rparr>])"
    using con n hr q unfolding execute_def plan e Let_def
    by (simp add: create_planned_def c r_def Let_def)
  then show ?thesis using db1 q by (simp add: add_evaluation_def)
qed

end
