(* ===== verification/Sessions.thy ===== *)
theory Sessions
  imports Model
begin

text \<open>
  Refresh sessions (\<open>app/services/sessions.py\<close>, \<open>app/models/auth_session.py\<close>): every refresh token is
  a row, used once; using it again after a short grace ends every session of its user. A session token
  that is drawn twice violates the unique column \<open>jti\<close>, an error the code does not catch.
\<close>

section \<open>Operations\<close>

definition ROTATION_GRACE_SECONDS :: int where
  "ROTATION_GRACE_SECONDS = 60"

text \<open>Python's \<open>x or y\<close> on optional texts.\<close>

definition or_text :: "utext option \<Rightarrow> utext option \<Rightarrow> utext option" where
  "or_text x y = (if x = None \<or> x = Some [] then y else x)"

definition create_session ::
  "env \<Rightarrow> int \<Rightarrow> utext option \<Rightarrow> utext option \<Rightarrow> database \<Rightarrow> (database \<times> string) http" where
  "create_session env u user_agent ip db =
    (let j = fresh_token env
     in bindE (raise_if (j \<in> jti ` set (t_sessions db)) (HTTPException 500 ''unique jti'')) (\<lambda>_.
        Inr (db\<lparr>t_sessions := t_sessions db @
          [\<lparr>session_id = next_id session_id (t_sessions db), session_user_id = u, jti = j,
            session_expires_at = now env + days (refresh_token_expire_days (cfg env)),
            rotated_at = None, replaced_by_jti = None, revoked_at = None,
            session_user_agent = map_option (take 400) (or_text user_agent None), session_ip = ip,
            last_used_at = Some (now env)\<rparr>]\<rparr>, j)))"

definition session_is_active :: "env \<Rightarrow> auth_session \<Rightarrow> bool" where
  "session_is_active env s \<longleftrightarrow>
    revoked_at s = None \<and> rotated_at s = None \<and> now env < session_expires_at s"

text \<open>The newest first, sessions without a time last.\<close>

definition active_sessions :: "env \<Rightarrow> database \<Rightarrow> int \<Rightarrow> auth_session list" where
  "active_sessions env db u =
    (let found = filter (\<lambda>s. session_user_id s = u \<and> session_is_active env s) (t_sessions db);
         time = (\<lambda>s. case last_used_at s of None \<Rightarrow> 0 | Some t \<Rightarrow> - t)
     in sort_key time (filter (\<lambda>s. last_used_at s \<noteq> None) found) @
        filter (\<lambda>s. last_used_at s = None) found)"

definition revoke_all_for_user :: "env \<Rightarrow> int \<Rightarrow> database \<Rightarrow> database" where
  "revoke_all_for_user env u db =
    db\<lparr>t_sessions := map (\<lambda>s. if session_user_id s = u \<and> revoked_at s = None
      then s\<lparr>revoked_at := Some (now env)\<rparr> else s) (t_sessions db)\<rparr>"

text \<open>
  \<open>Reuse\<close> is the exception \<open>RefreshReuseError\<close>, which the caller catches after the revocations are
  committed; \<open>Grace\<close> is the result \<open>None\<close>: the token was rotated a moment ago by the same browser.
\<close>

datatype rotation = Reuse | Grace | Rotated string

definition rotate_session ::
  "env \<Rightarrow> database \<Rightarrow> int \<Rightarrow> string \<Rightarrow> utext option \<Rightarrow> utext option \<Rightarrow> (database \<times> rotation) http" where
  "rotate_session env db u j user_agent ip =
    (let reuse = Inr (revoke_all_for_user env u db, Reuse)
     in case find (\<lambda>s. jti s = j) (t_sessions db) of
          None \<Rightarrow> reuse
        | Some s \<Rightarrow>
           (if session_user_id s \<noteq> u \<or> revoked_at s \<noteq> None \<or> session_expires_at s \<le> now env then reuse
            else case rotated_at s of
              Some t \<Rightarrow> (if now env - t \<le> seconds ROTATION_GRACE_SECONDS then Inr (db, Grace) else reuse)
            | None \<Rightarrow>
               bindE (create_session env u (or_text user_agent (session_user_agent s))
                        (or_text ip (session_ip s)) db) (\<lambda>(db1, j1).
               Inr (db1\<lparr>t_sessions := row_put session_id
                      (s\<lparr>rotated_at := Some (now env), replaced_by_jti := Some j1\<rparr>) (t_sessions db1)\<rparr>,
                    Rotated j1))))"

definition is_purgeable :: "env \<Rightarrow> auth_session \<Rightarrow> bool" where
  "is_purgeable env s \<longleftrightarrow>
    (let cutoff = now env - days (session_retention_days (cfg env))
     in session_expires_at s < cutoff \<or> (case revoked_at s of None \<Rightarrow> False | Some t \<Rightarrow> t < cutoff))"

definition purge_dead_sessions :: "env \<Rightarrow> database \<Rightarrow> database \<times> nat" where
  "purge_dead_sessions env db =
    (db\<lparr>t_sessions := filter (\<lambda>s. \<not> is_purgeable env s) (t_sessions db)\<rparr>,
     length (filter (is_purgeable env) (t_sessions db)))"

definition revoke_session :: "env \<Rightarrow> string \<Rightarrow> database \<Rightarrow> database" where
  "revoke_session env j db =
    (case find (\<lambda>s. jti s = j) (t_sessions db) of
       None \<Rightarrow> db
     | Some s \<Rightarrow> if revoked_at s = None
                 then db\<lparr>t_sessions := row_put session_id (s\<lparr>revoked_at := Some (now env)\<rparr>) (t_sessions db)\<rparr>
                 else db)"

section \<open>The life of the sessions\<close>

text \<open>
  The table of sessions under its operations, with the set of tokens drawn so far: \<open>uuid4\<close> gives a new
  one each time.
\<close>

inductive session_step :: "string set \<times> database \<Rightarrow> string set \<times> database \<Rightarrow> bool" where
  opened: "fresh_token env \<notin> used \<Longrightarrow> create_session env u user_agent ip db = Inr (db', j) \<Longrightarrow>
    session_step (used, db) (insert (fresh_token env) used, db')"
| refreshed: "fresh_token env \<notin> used \<Longrightarrow> rotate_session env db u j user_agent ip = Inr (db', out) \<Longrightarrow>
    session_step (used, db) (insert (fresh_token env) used, db')"
| logged_out: "session_step (used, db) (used, revoke_session env j db)"
| all_revoked: "session_step (used, db) (used, revoke_all_for_user env u db)"
| purged: "session_step (used, db) (used, fst (purge_dead_sessions env db))"
| untouched: "t_sessions db' = t_sessions db \<Longrightarrow> session_step (used, db) (used, db')"

definition sessions_wf :: "string set \<times> database \<Rightarrow> bool" where
  "sessions_wf st \<longleftrightarrow>
    distinct (map session_id (t_sessions (snd st))) \<and> distinct (map jti (t_sessions (snd st))) \<and>
    jti ` set (t_sessions (snd st)) \<subseteq> fst st"

text \<open>A token that no later request can exchange.\<close>

definition spent :: "string \<Rightarrow> auth_session list \<Rightarrow> bool" where
  "spent j rows \<longleftrightarrow> (\<forall>s \<in> set rows. jti s = j \<longrightarrow> rotated_at s \<noteq> None \<or> revoked_at s \<noteq> None)"

lemma revoke_all_rows:
  "map session_id (t_sessions (revoke_all_for_user env u db)) = map session_id (t_sessions db)"
  "map jti (t_sessions (revoke_all_for_user env u db)) = map jti (t_sessions db)"
  "spent j (t_sessions db) \<Longrightarrow> spent j (t_sessions (revoke_all_for_user env u db))"
  by (auto simp: revoke_all_for_user_def spent_def)

lemma revoke_all_others:
  "filter (\<lambda>s. session_user_id s \<noteq> u) (t_sessions (revoke_all_for_user env u db)) =
    filter (\<lambda>s. session_user_id s \<noteq> u) (t_sessions db)"
proof -
  have "filter (\<lambda>s. session_user_id s \<noteq> u) (map (\<lambda>s. if session_user_id s = u \<and> revoked_at s = None
      then s\<lparr>revoked_at := Some (now env)\<rparr> else s) rows) = filter (\<lambda>s. session_user_id s \<noteq> u) rows" for rows
    by (induction rows) auto
  then show ?thesis by (simp add: revoke_all_for_user_def)
qed

lemma find_row:
  assumes "find P rows = Some s"
  shows "s \<in> set rows" "P s"
  using assms by (auto simp: find_Some_iff)

lemma row_put_jti:
  assumes "s \<in> set rows" and "distinct (map session_id rows)" and "session_id s' = session_id s"
    and "jti s' = jti s"
  shows "map jti (row_put session_id s' rows) = map jti rows"
proof -
  have "x = s" if "x \<in> set rows" "session_id x = session_id s" for x
    using assms(1,2) that by (auto simp: distinct_map inj_on_def)
  then show ?thesis using assms(3,4) by (auto simp: row_put_def)
qed

lemma create_session_InrD:
  assumes "create_session env u user_agent ip db = Inr (db', j)"
  obtains s where "db' = db\<lparr>t_sessions := t_sessions db @ [s]\<rparr>" and "jti s = j" and "j = fresh_token env"
    and "j \<notin> jti ` set (t_sessions db)" and "session_id s = next_id session_id (t_sessions db)"
    and "session_user_id s = u" and "rotated_at s = None" and "revoked_at s = None"
    and "session_expires_at s = now env + days (refresh_token_expire_days (cfg env))"
proof -
  let ?s = "\<lparr>session_id = next_id session_id (t_sessions db), session_user_id = u, jti = fresh_token env,
    session_expires_at = now env + days (refresh_token_expire_days (cfg env)),
    rotated_at = None, replaced_by_jti = None, revoked_at = None,
    session_user_agent = map_option (take 400) (or_text user_agent None), session_ip = ip,
    last_used_at = Some (now env)\<rparr>"
  have "db' = db\<lparr>t_sessions := t_sessions db @ [?s]\<rparr>" "j = fresh_token env"
    "j \<notin> jti ` set (t_sessions db)"
    using assms by (auto simp: create_session_def Let_def)
  then show ?thesis by (intro that [of ?s]) simp_all
qed

lemma rotate_session_InrD:
  assumes "rotate_session env db u j user_agent ip = Inr (db', out)"
  obtains (reuse) "out = Reuse" and "db' = revoke_all_for_user env u db"
    | (grace) s t where "out = Grace" and "db' = db" and "s \<in> set (t_sessions db)" and "jti s = j"
        and "rotated_at s = Some t"
    | (rotated) s n where "out = Rotated (jti n)" and "s \<in> set (t_sessions db)" and "jti s = j"
        and "session_user_id s = u" and "revoked_at s = None" and "rotated_at s = None"
        and "now env < session_expires_at s"
        and "db' = db\<lparr>t_sessions := row_put session_id
          (s\<lparr>rotated_at := Some (now env), replaced_by_jti := Some (jti n)\<rparr>) (t_sessions db @ [n])\<rparr>"
        and "jti n = fresh_token env" and "jti n \<notin> jti ` set (t_sessions db)"
        and "session_id n = next_id session_id (t_sessions db)" and "session_user_id n = u"
        and "rotated_at n = None" and "revoked_at n = None"
        and "session_expires_at n = now env + days (refresh_token_expire_days (cfg env))"
proof (cases "find (\<lambda>s. jti s = j) (t_sessions db)")
  case None
  then show ?thesis using assms reuse by (simp add: rotate_session_def)
next
  case (Some s)
  note s = find_row [OF Some]
  show ?thesis
  proof (cases "session_user_id s \<noteq> u \<or> revoked_at s \<noteq> None \<or> session_expires_at s \<le> now env")
    case True
    then show ?thesis using assms Some reuse by (auto simp: rotate_session_def)
  next
    case open_: False
    show ?thesis
    proof (cases "rotated_at s")
      case None
      obtain db1 j1 where c: "create_session env u (or_text user_agent (session_user_agent s))
            (or_text ip (session_ip s)) db = Inr (db1, j1)"
        and r: "out = Rotated j1" "db' = db1\<lparr>t_sessions := row_put session_id
            (s\<lparr>rotated_at := Some (now env), replaced_by_jti := Some j1\<rparr>) (t_sessions db1)\<rparr>"
        using assms open_ None Some by (auto simp: rotate_session_def)
      from c show ?thesis
        by (rule create_session_InrD) (use r s open_ None in \<open>intro rotated [of _ s]; simp\<close>)
    next
      case (Some t)
      with assms open_ \<open>find _ _ = Some s\<close> s show ?thesis
        by (auto simp: rotate_session_def split: if_splits intro: reuse grace)
    qed
  qed
qed

section \<open>Invariants\<close>

lemma sessions_wf_cong:
  assumes "map session_id (t_sessions db') = map session_id (t_sessions db)"
    and "map jti (t_sessions db') = map jti (t_sessions db)"
  shows "sessions_wf (used, db') = sessions_wf (used, db)"
proof -
  have "jti ` set (t_sessions db') = jti ` set (t_sessions db)"
    using arg_cong [OF assms(2), of set] by simp
  then show ?thesis using assms by (simp add: sessions_wf_def)
qed

lemma session_step_wf: "session_step st st' \<Longrightarrow> sessions_wf st \<Longrightarrow> sessions_wf st'"
proof (induction rule: session_step.induct)
  case (opened env used u user_agent ip db db' j)
  from opened(2) show ?case
    by (rule create_session_InrD)
      (use opened next_id_not_in [of session_id "t_sessions db"] in \<open>auto simp: sessions_wf_def\<close>)
next
  case (refreshed env used db u j user_agent ip db' out)
  from refreshed(2) show ?case
  proof (cases rule: rotate_session_InrD)
    case reuse
    have "sessions_wf (used, db')"
      using refreshed.prems unfolding reuse(2) by (simp add: sessions_wf_cong [OF revoke_all_rows(1,2)])
    then show ?thesis by (auto simp: sessions_wf_def)
  next
    case (rotated s n)
    let ?rows = "t_sessions db @ [n]"
    have ids: "distinct (map session_id ?rows)"
      using refreshed.prems rotated next_id_not_in [of session_id "t_sessions db"] by (simp add: sessions_wf_def)
    have "map jti (t_sessions db') = map jti ?rows"
      using rotated row_put_jti [OF _ ids, of s] by simp
    then have "jti ` set (t_sessions db') = jti ` set ?rows" and "distinct (map jti (t_sessions db'))"
      using refreshed.prems rotated by (metis list.set_map, simp add: sessions_wf_def)
    then show ?thesis using refreshed.prems ids rotated by (auto simp: sessions_wf_def)
  qed (use refreshed in \<open>auto simp: sessions_wf_def\<close>)
next
  case (logged_out used db env j)
  show ?case
  proof (cases "find (\<lambda>s. jti s = j) (t_sessions db)")
    case (Some s)
    have "map jti (row_put session_id (s\<lparr>revoked_at := Some (now env)\<rparr>) (t_sessions db)) = map jti (t_sessions db)"
      using logged_out find_row [OF Some] by (intro row_put_jti) (auto simp: sessions_wf_def)
    then have "sessions_wf (used, db\<lparr>t_sessions := row_put session_id
        (s\<lparr>revoked_at := Some (now env)\<rparr>) (t_sessions db)\<rparr>)"
      using logged_out by (subst sessions_wf_cong [of _ db]) simp_all
    then show ?thesis using logged_out by (simp add: revoke_session_def Some)
  qed (use logged_out in \<open>simp add: revoke_session_def\<close>)
next
  case (all_revoked used db env u)
  then show ?case by (simp add: sessions_wf_cong [OF revoke_all_rows(1,2)])
next
  case (purged used db env)
  then show ?case by (auto simp: sessions_wf_def purge_dead_sessions_def distinct_map_filter)
qed (simp add: sessions_wf_def)

lemma spent_put:
  "spent j rows \<Longrightarrow> (jti s' = j \<Longrightarrow> rotated_at s' \<noteq> None \<or> revoked_at s' \<noteq> None) \<Longrightarrow>
    spent j (row_put session_id s' rows)"
  by (auto simp: spent_def row_put_def)

lemma spent_snoc: "spent j rows \<Longrightarrow> jti n \<noteq> j \<Longrightarrow> spent j (rows @ [n])"
  by (auto simp: spent_def)

lemma session_step_spent:
  "session_step st st' \<Longrightarrow> sessions_wf st \<Longrightarrow> j \<in> fst st \<Longrightarrow> spent j (t_sessions (snd st)) \<Longrightarrow>
    spent j (t_sessions (snd st')) \<and> j \<in> fst st'"
proof (induction rule: session_step.induct)
  case (opened env used u user_agent ip db db' j')
  from opened(2) show ?case
    by (rule create_session_InrD) (use opened in \<open>auto simp: spent_def\<close>)
next
  case (refreshed env used db u j' user_agent ip db' out)
  from refreshed(2) show ?case
  proof (cases rule: rotate_session_InrD)
    case (rotated s n)
    then show ?thesis using refreshed by (auto intro!: spent_put spent_snoc)
  qed (use refreshed in \<open>auto simp: revoke_all_rows\<close>)
next
  case (logged_out used db env j')
  then show ?case by (auto simp: revoke_session_def intro: spent_put split: option.splits)
next
  case (purged used db env)
  then show ?case by (auto simp: spent_def purge_dead_sessions_def)
qed (simp_all add: revoke_all_rows)

lemma session_steps_spent:
  assumes "rtranclp session_step st st'" and "sessions_wf st" and "j \<in> fst st" and "spent j (t_sessions (snd st))"
  shows "spent j (t_sessions (snd st')) \<and> sessions_wf st' \<and> j \<in> fst st'"
  using assms
proof (induction rule: rtranclp_induct)
  case (step a b)
  then show ?case using session_step_spent [OF step(2)] session_step_wf [OF step(2)] by blast
qed simp

lemma same_jti:
  "sessions_wf (used, db) \<Longrightarrow> x \<in> set (t_sessions db) \<Longrightarrow> s \<in> set (t_sessions db) \<Longrightarrow> jti x = jti s \<Longrightarrow> x = s"
  unfolding sessions_wf_def snd_conv distinct_map by (elim conjE) (rule inj_onD)

lemma none_active_after_revocation: "active_sessions env' (revoke_all_for_user env u db) u = []"
proof -
  have "filter (\<lambda>s. session_user_id s = u \<and> session_is_active env' s) (map (\<lambda>s. if session_user_id s = u \<and>
      revoked_at s = None then s\<lparr>revoked_at := Some (now env)\<rparr> else s) rows) = []" for rows
    by (induction rows) (simp_all add: session_is_active_def)
  then show ?thesis by (simp add: active_sessions_def Let_def revoke_all_for_user_def)
qed

section \<open>Properties\<close>

text \<open>
  C31. A refresh token is exchanged at most once: after a token was exchanged for a new one, whatever
  happens to the sessions afterwards (other logins and exchanges, logouts, revocations, purges), no
  request with the old token, of any user and at any time, is given a new one.
\<close>

theorem refresh_token_exchanged_once:
  assumes "sessions_wf (used, db)" and "fresh_token env \<notin> used"
    and "rotate_session env db u j user_agent ip = Inr (db1, Rotated j1)"
    and "rtranclp session_step (insert (fresh_token env) used, db1) (used', db2)"
  shows "rotate_session env' db2 u' j user_agent' ip' \<noteq> Inr (db3, Rotated j2)"
proof
  assume again: "rotate_session env' db2 u' j user_agent' ip' = Inr (db3, Rotated j2)"
  have wf: "sessions_wf (insert (fresh_token env) used, db1)"
    using session_step_wf [OF session_step.refreshed] assms by blast
  from assms(3) have "spent j (t_sessions db1) \<and> j \<in> used"
  proof (cases rule: rotate_session_InrD)
    case (rotated s n)
    have "rotated_at y \<noteq> None" if y: "y \<in> set (t_sessions db1)" "jti y = j" for y
    proof (rule ccontr)
      assume open_: "\<not> rotated_at y \<noteq> None"
      then have "y \<in> set (t_sessions db @ [n])" "session_id y \<noteq> session_id s"
        using y(1) unfolding rotated(8) by (auto simp: row_put_def split: if_splits)
      moreover have "y \<noteq> n"
        using imageI [OF rotated(2), of jti] rotated(10) unfolding rotated(3) y(2) [symmetric] by metis
      ultimately have "y = s" using y(2) rotated(2,3) by (intro same_jti [OF assms(1)]) simp_all
      with \<open>session_id y \<noteq> session_id s\<close> show False by simp
    qed
    moreover have "j \<in> used" using rotated(2,3) assms(1) by (auto simp: sessions_wf_def)
    ultimately show ?thesis by (simp add: spent_def)
  qed auto
  then have "spent j (t_sessions db2)"
    using session_steps_spent [OF assms(4) wf, of j] by simp
  from again this show False
    by (cases rule: rotate_session_InrD) (auto simp: spent_def)
qed

text \<open>
  Presenting a token that was already used ends every session of the user: the answer is the
  reuse alarm exactly when the token is unknown, belongs to someone else, is revoked or expired or was
  exchanged more than a minute ago; then the user has no active session left and nobody else's
  sessions have changed.
\<close>

theorem reuse_ends_every_session:
  assumes "sessions_wf (used, db)" and "fresh_token env \<notin> used"
  shows "\<exists>db' out. rotate_session env db u j user_agent ip = Inr (db', out) \<and>
    (out = Reuse \<longleftrightarrow> \<not> list_ex (\<lambda>s. jti s = j \<and> session_user_id s = u \<and> revoked_at s = None \<and>
      now env < session_expires_at s \<and>
      (case rotated_at s of None \<Rightarrow> True | Some t \<Rightarrow> now env - t \<le> seconds 60)) (t_sessions db)) \<and>
    (if out = Reuse then active_sessions env' db' u = [] \<and>
       filter (\<lambda>s. session_user_id s \<noteq> u) (t_sessions db') = filter (\<lambda>s. session_user_id s \<noteq> u) (t_sessions db)
     else \<exists>s \<in> set (t_sessions db). jti s = j \<and> session_user_id s = u)"
proof -
  have fresh: "fresh_token env \<notin> jti ` set (t_sessions db)"
    using assms by (auto simp: sessions_wf_def)
  note off = none_active_after_revocation [of env' env u db]
  note others = revoke_all_others [of u env db]
  show ?thesis
  proof (cases "find (\<lambda>s. jti s = j) (t_sessions db)")
    case None
    then show ?thesis using off others
      by (simp add: rotate_session_def) (auto simp: find_None_iff list_ex_iff)
  next
    case (Some s)
    have s: "s \<in> set (t_sessions db)" "jti s = j" using find_row [OF Some] by simp_all
    have only: "x = s" if "x \<in> set (t_sessions db)" "jti x = j" for x
      using that s by (intro same_jti [OF assms(1)]) simp_all
    have ex: "list_ex (\<lambda>s. jti s = j \<and> P s) (t_sessions db) \<longleftrightarrow> P s" for P
      unfolding list_ex_iff using only s by blast
    obtain db1 j1 where create: "create_session env u (or_text user_agent (session_user_agent s))
        (or_text ip (session_ip s)) db = Inr (db1, j1)"
      using fresh by (simp add: create_session_def Let_def)
    show ?thesis
    proof (cases "session_user_id s = u \<and> revoked_at s = None \<and> now env < session_expires_at s")
      case False
      then have "rotate_session env db u j user_agent ip = Inr (revoke_all_for_user env u db, Reuse)"
        by (auto simp: rotate_session_def Some)
      then show ?thesis unfolding ex using False off others by auto
    next
      case True
      then show ?thesis unfolding ex using off others s create
        by (cases "rotated_at s") (auto simp: rotate_session_def Some ROTATION_GRACE_SECONDS_def)
    qed
  qed
qed

end
