(* ===== verification/LoginGuard.thy ===== *)
theory LoginGuard
  imports Notifications Clock
begin

text \<open>
  Counting failed logins and locking a user name (\<open>app/services/login_guard.py\<close>,
  \<open>app/models/login_attempt.py\<close>).
\<close>

section \<open>Operations\<close>

definition find_attempt :: "database \<Rightarrow> utext \<Rightarrow> login_attempt option" where
  "find_attempt db name = find (\<lambda>a. attempt_username a = name) (t_login_attempts db)"

definition locked_until :: "env \<Rightarrow> database \<Rightarrow> utext \<Rightarrow> int option" where
  "locked_until env db name =
    (case find_attempt db name of
       None \<Rightarrow> None
     | Some a \<Rightarrow> (case attempt_locked_until a of
                    None \<Rightarrow> None
                  | Some until \<Rightarrow> if until \<le> now env then None else Some until))"

text \<open>The row of the name after one more failure, and the end of the lock if this failure locks.\<close>

definition count_failure :: "env \<Rightarrow> login_attempt \<Rightarrow> login_attempt \<times> int option" where
  "count_failure env row =
    (let window_start = now env - minutes (login_attempt_window_minutes (cfg env));
         row1 = (if last_failed_at row < window_start
                 then row\<lparr>failed_count := 0, first_failed_at := now env, attempt_locked_until := None\<rparr>
                 else row);
         row2 = row1\<lparr>failed_count := failed_count row1 + 1, last_failed_at := now env\<rparr>
     in if login_max_failed_attempts (cfg env) \<le> failed_count row2
        then (let until = now env + minutes (login_lockout_minutes (cfg env))
              in (row2\<lparr>attempt_locked_until := Some until, failed_count := 0\<rparr>, Some until))
        else (row2, None))"

definition put_attempt :: "login_attempt \<Rightarrow> database \<Rightarrow> database" where
  "put_attempt row db =
    db\<lparr>t_login_attempts := map (\<lambda>a. if attempt_username a = attempt_username row then row else a)
      (t_login_attempts db)\<rparr>"

text \<open>The insertion does nothing when the name has a row already (\<open>on_conflict_do_update\<close>).\<close>

definition record_failure :: "env \<Rightarrow> utext \<Rightarrow> database \<Rightarrow> database \<times> int option" where
  "record_failure env name db =
    (let inserted = \<lparr>attempt_username = name, failed_count = 0, first_failed_at = now env,
           last_failed_at = now env, attempt_locked_until = None\<rparr>;
         (db1, row) = (case find_attempt db name of
            Some a \<Rightarrow> (db, a)
          | None \<Rightarrow> (db\<lparr>t_login_attempts := t_login_attempts db @ [inserted]\<rparr>, inserted));
         (row', until) = count_failure env row
     in (put_attempt row' db1, until))"

definition clear_failures :: "utext \<Rightarrow> database \<Rightarrow> database" where
  "clear_failures name db =
    db\<lparr>t_login_attempts := filter (\<lambda>a. attempt_username a \<noteq> name) (t_login_attempts db)\<rparr>"

definition is_stale :: "env \<Rightarrow> login_attempt \<Rightarrow> bool" where
  "is_stale env a \<longleftrightarrow>
    last_failed_at a < now env - minutes (login_attempt_window_minutes (cfg env)) \<and>
    (case attempt_locked_until a of None \<Rightarrow> True | Some until \<Rightarrow> until < now env)"

definition purge_stale :: "env \<Rightarrow> database \<Rightarrow> database \<times> nat" where
  "purge_stale env db =
    (db\<lparr>t_login_attempts := filter (\<lambda>a. \<not> is_stale env a) (t_login_attempts db)\<rparr>,
     length (filter (is_stale env) (t_login_attempts db)))"

text \<open>A text inside a key, as its bytes in UTF-8.\<close>

definition text_key :: "utext \<Rightarrow> string" where
  "text_key t = map char_of (utf8 t)"

definition notify_hr_of_lockout :: "env \<Rightarrow> utext \<Rightarrow> int \<Rightarrow> database \<Rightarrow> database" where
  "notify_hr_of_lockout env name until db =
    fold (\<lambda>hr_id db1. fst (notify_once env hr_id ''account_locked''
        (''lockout:'' @ text_key name @ '':'' @ isoformat until) 1 None (Some ''/hr/audit-log'') None db1))
      (active_hr_ids db) db"

definition unlock :: "env \<Rightarrow> utext \<Rightarrow> database \<Rightarrow> database \<times> bool" where
  "unlock env name db =
    (case find_attempt db name of
       None \<Rightarrow> (db, False)
     | Some _ \<Rightarrow> (clear_failures name db, locked_until env db name \<noteq> None))"

section \<open>Lemmas\<close>

lemma find_attempt_name: "find_attempt db name = Some a \<Longrightarrow> attempt_username a = name"
  by (auto simp: find_attempt_def find_Some_iff)

lemma count_failure_name: "count_failure env row = (row', until) \<Longrightarrow> attempt_username row' = attempt_username row"
  by (auto simp: count_failure_def Let_def split: if_splits)

lemma find_map_put:
  "find (\<lambda>a. attempt_username a = attempt_username row)
      (map (\<lambda>a. if attempt_username a = attempt_username row then row else a) rows) =
    map_option (\<lambda>_. row) (find (\<lambda>a. attempt_username a = attempt_username row) rows)"
  by (induction rows) simp_all

lemma record_failure_row:
  "find_attempt (fst (record_failure env name db)) name =
    Some (fst (count_failure env (case find_attempt db name of Some a \<Rightarrow> a
      | None \<Rightarrow> \<lparr>attempt_username = name, failed_count = 0, first_failed_at = now env,
                 last_failed_at = now env, attempt_locked_until = None\<rparr>)))"
  "snd (record_failure env name db) =
    snd (count_failure env (case find_attempt db name of Some a \<Rightarrow> a
      | None \<Rightarrow> \<lparr>attempt_username = name, failed_count = 0, first_failed_at = now env,
                 last_failed_at = now env, attempt_locked_until = None\<rparr>))"
proof -
  let ?new = "\<lparr>attempt_username = name, failed_count = 0, first_failed_at = now env,
    last_failed_at = now env, attempt_locked_until = None\<rparr>"
  define row where "row = (case find_attempt db name of Some a \<Rightarrow> a | None \<Rightarrow> ?new)"
  obtain row' until where c: "count_failure env row = (row', until)" by (meson surj_pair)
  have name: "attempt_username row = name"
    by (auto simp: row_def find_attempt_name split: option.splits)
  then have name': "attempt_username row' = name" using count_failure_name [OF c] by simp
  have "find_attempt (fst (record_failure env name db)) name = Some row' \<and> snd (record_failure env name db) = until"
  proof (cases "find_attempt db name")
    case None
    then have new: "row = ?new" by (simp add: row_def)
    moreover have "find (\<lambda>a. attempt_username a = name) (t_login_attempts db @ [?new]) = Some ?new"
      using None by (simp add: find_attempt_def find_snoc)
    moreover have "record_failure env name db =
        (put_attempt row' (db\<lparr>t_login_attempts := t_login_attempts db @ [?new]\<rparr>), until)"
      using c unfolding new by (simp add: record_failure_def None Let_def)
    ultimately show ?thesis
      using name' find_map_put [of row' "t_login_attempts db @ [?new]"]
      by (simp add: put_attempt_def find_attempt_def)
  next
    case (Some a)
    then have "row = a" by (simp add: row_def)
    then have "record_failure env name db = (put_attempt row' db, until)"
      using c by (simp add: record_failure_def Some Let_def)
    then show ?thesis
      using name' Some find_map_put [of row' "t_login_attempts db"]
      by (simp add: put_attempt_def find_attempt_def)
  qed
  then show "find_attempt (fst (record_failure env name db)) name = Some (fst (count_failure env
      (case find_attempt db name of Some a \<Rightarrow> a | None \<Rightarrow> ?new)))"
    and "snd (record_failure env name db) = snd (count_failure env
      (case find_attempt db name of Some a \<Rightarrow> a | None \<Rightarrow> ?new))"
    using c by (simp_all flip: row_def)
qed

text \<open>A run of failures, the last one first, and what the last one answered.\<close>

fun failures :: "env list \<Rightarrow> utext \<Rightarrow> database \<Rightarrow> database \<times> int option" where
  "failures [] name db = (db, None)"
| "failures (env # earlier) name db = record_failure env name (fst (failures earlier name db))"

text \<open>Every failure within the counting window of the one before.\<close>

fun in_quick_succession :: "env list \<Rightarrow> bool" where
  "in_quick_succession (e2 # e1 # earlier) \<longleftrightarrow>
    now e2 - minutes (login_attempt_window_minutes (cfg e2)) \<le> now e1 \<and> in_quick_succession (e1 # earlier)"
| "in_quick_succession _ \<longleftrightarrow> True"

lemma quick_tail: "in_quick_succession (e # es) \<Longrightarrow> in_quick_succession es"
  by (cases es) simp_all

lemma failures_row:
  assumes "find_attempt db name = None" and "in_quick_succession (e # es)"
    and "\<forall>x \<in> set (e # es). login_max_failed_attempts (cfg x) = n" and "0 < n"
    and "0 \<le> login_attempt_window_minutes (cfg e)"
    and "\<forall>x \<in> set es. 0 \<le> login_attempt_window_minutes (cfg x)"
  shows "\<exists>row. find_attempt (fst (failures (e # es) name db)) name = Some row \<and> last_failed_at row = now e \<and>
    failed_count row = int (Suc (length es)) mod n \<and>
    (int (Suc (length es)) < n \<longrightarrow> attempt_locked_until row = None) \<and>
    snd (failures (e # es) name db) =
      (if int (Suc (length es)) mod n = 0 then Some (now e + minutes (login_lockout_minutes (cfg e))) else None)"
  using assms
proof (induction es arbitrary: e)
  case Nil
  then show ?case
    by (auto simp: record_failure_row count_failure_def Let_def minutes_def)
next
  case (Cons e1 es)
  obtain row where row: "find_attempt (fst (failures (e1 # es) name db)) name = Some row"
    "last_failed_at row = now e1" "failed_count row = int (Suc (length es)) mod n"
    "int (Suc (length es)) < n \<longrightarrow> attempt_locked_until row = None"
    using Cons.IH [of e1] Cons.prems quick_tail by auto
  have quick: "\<not> last_failed_at row < now e - minutes (login_attempt_window_minutes (cfg e))"
    using Cons.prems(2) row(2) by simp
  have next_mod: "int (Suc (Suc k)) mod n =
      (if n \<le> int (Suc k) mod n + 1 then 0 else int (Suc k) mod n + 1)" for k
  proof -
    define a where "a = int (Suc k) mod n"
    have "int (Suc (Suc k)) mod n = (a + 1) mod n"
      unfolding a_def mod_add_left_eq by simp
    moreover have "0 \<le> a" "a < n" using \<open>0 < n\<close> by (simp_all add: a_def)
    moreover from this have "n \<le> a + 1 \<longleftrightarrow> a + 1 = n" by linarith
    ultimately show ?thesis unfolding a_def [symmetric] by simp
  qed
  have max: "login_max_failed_attempts (cfg e) = n" using Cons.prems(3) by simp
  define d where "d = fst (failures (e1 # es) name db)"
  have run: "failures (e # e1 # es) name db = record_failure e name d"
    unfolding d_def by (rule failures.simps(2))
  have here: "find_attempt d name = Some row" using row(1) unfolding d_def .
  have "int (Suc (length es)) mod n + 1 \<noteq> 0"
    using pos_mod_sign [OF \<open>0 < n\<close>, of "int (Suc (length es))"] by linarith
  then show ?case
    unfolding run record_failure_row here option.case list.size(4) next_mod add_Suc_right add_0_right
    using row(2-4) quick max by (auto simp: count_failure_def Let_def)
qed

text \<open>
  A name is locked by exactly every \<open>n\<close>-th failure: for a name without a row, after a run of failed
  logins each within the counting window of the one before, the last failure locks the name, for the
  configured time from that failure, exactly when their number is a multiple of the configured
  maximum; otherwise the name is not locked by it.
\<close>

theorem lockout_is_exact:
  assumes "find_attempt db name = None" and "in_quick_succession (env # earlier)"
    and "list_all (\<lambda>e. login_max_failed_attempts (cfg e) = n \<and> 0 \<le> login_attempt_window_minutes (cfg e)) (env # earlier)"
    and "0 < n" and "0 < login_lockout_minutes (cfg env)"
  shows "snd (failures (env # earlier) name db) =
      (if int (length (env # earlier)) mod n = 0
       then Some (now env + minutes (login_lockout_minutes (cfg env))) else None) \<and>
    (snd (failures (env # earlier) name db) = None \<or>
      locked_until env (fst (failures (env # earlier) name db)) name =
        Some (now env + minutes (login_lockout_minutes (cfg env))))"
proof -
  obtain row where row: "find_attempt (fst (failures (env # earlier) name db)) name = Some row"
    and last: "snd (failures (env # earlier) name db) =
      (if int (Suc (length earlier)) mod n = 0 then Some (now env + minutes (login_lockout_minutes (cfg env))) else None)"
    using failures_row [OF assms(1,2) _ assms(4)] assms(3) by (auto simp: list_all_iff)
  have locks: "attempt_locked_until (fst (count_failure env a)) = Some until"
    if "snd (count_failure env a) = Some until" for a until
    using that by (auto simp: count_failure_def Let_def split: if_splits)
  have "attempt_locked_until row = Some until" if "snd (failures (env # earlier) name db) = Some until" for until
    using that row by (auto simp: record_failure_row intro: locks)
  then show ?thesis
    using last row assms(5) by (auto simp: locked_until_def minutes_def)
qed

end
