(* ===== verification/Auth.thy ===== *)
theory Auth
  imports Sessions LoginGuard
begin

text \<open>
  Logging in and what follows from it (\<open>app/api/routers/auth.py\<close>, \<open>app/core/security.py\<close>). A handler that fails may still have committed something,
  so a handler gives back the database and the outcome. The argon2 hash and the Unicode table behind
  \<open>str.lower\<close> are parameters; a token is its claims, and what \<open>jwt.decode\<close> gives for the text of a
  token is an argument (\<open>None\<close> for a signature or a time it refuses, and for no token at all).
\<close>

section \<open>Tokens\<close>

record crypt =
  hash_password :: "utext \<Rightarrow> utext"
  verify_password :: "utext \<Rightarrow> utext \<Rightarrow> bool"
  lower_text :: "utext \<Rightarrow> utext"

definition create_access_token :: "user \<Rightarrow> token_payload" where
  "create_access_token u =
    \<lparr>tok_type = ''access'', tok_sub = Some (user_id u), tok_tv = Some (token_version u),
     tok_role = role_value (user_role u), tok_jti = None\<rparr>"

definition create_refresh_token :: "user \<Rightarrow> string \<Rightarrow> token_payload" where
  "create_refresh_token u j =
    \<lparr>tok_type = ''refresh'', tok_sub = Some (user_id u), tok_tv = Some (token_version u),
     tok_role = role_value (user_role u), tok_jti = Some j\<rparr>"

section \<open>Logging in\<close>

record login_response =
  lr_access_token :: token_payload
  lr_refresh_token :: token_payload
  lr_must_change_password :: bool

text \<open>The value of a handler with its database: an error of the server rolls back.\<close>

definition or_rollback :: "database \<Rightarrow> (database \<times> 'a) http \<Rightarrow> database \<times> 'a http" where
  "or_rollback db x = (case x of Inl e \<Rightarrow> (db, Inl e) | Inr (db', a) \<Rightarrow> (db', Inr a))"

definition issue_login_response ::
  "env \<Rightarrow> database \<Rightarrow> user \<Rightarrow> utext option \<Rightarrow> utext option \<Rightarrow> (database \<times> login_response) http" where
  "issue_login_response env db u user_agent ip =
    bindE (create_session env (user_id u) user_agent ip db) (\<lambda>(db1, j).
    Inr (db1, \<lparr>lr_access_token = create_access_token u, lr_refresh_token = create_refresh_token u j,
               lr_must_change_password = must_change_password u\<rparr>))"

definition find_username :: "database \<Rightarrow> utext \<Rightarrow> user option" where
  "find_username db name = find (\<lambda>u. username u = name) (t_users db)"

definition ip_json :: "utext option \<Rightarrow> jdict" where
  "ip_json ip = [(''ip'', jopt JString ip)]"

definition fail_login :: "env \<Rightarrow> database \<Rightarrow> utext \<Rightarrow> utext option \<Rightarrow> int option \<Rightarrow> database" where
  "fail_login env db name ip u =
    (let (db1, locked) = record_failure env name db;
         db2 = (case u of None \<Rightarrow> db1
                | Some k \<Rightarrow> log_event k ''login_failed'' None None (Some (ip_json ip)) db1)
     in case locked of
          None \<Rightarrow> db2
        | Some until \<Rightarrow>
           notify_hr_of_lockout env name until
             (case u of None \<Rightarrow> db2
              | Some k \<Rightarrow> log_event k ''account_locked'' None None
                  (Some (ip_json ip @ [(''until'', jstr (isoformat until))])) db2))"

definition login ::
  "env \<Rightarrow> crypt \<Rightarrow> database \<Rightarrow> utext \<Rightarrow> utext \<Rightarrow> utext option \<Rightarrow> utext option \<Rightarrow>
    database \<times> login_response http" where
  "login env crypt db name password user_agent ip =
    (if 150 < length name \<or> 256 < length password then (db, Inl (HTTPException 422 ''too long''))
     else if locked_until env db name \<noteq> None then (db, Inl (HTTPException 429 ''locked''))
     else case find_username db name of
       None \<Rightarrow> (fail_login env db name ip None, Inl (HTTPException 401 ''bad credentials''))
     | Some u \<Rightarrow>
        (if \<not> verify_password crypt password (password_hash u)
         then (fail_login env db name ip (Some (user_id u)), Inl (HTTPException 401 ''bad credentials''))
         else if \<not> user_is_active u then (db, Inl (HTTPException 403 ''inactive''))
         else or_rollback db
           (issue_login_response env
             (log_event (user_id u) ''login_succeeded'' None None (Some (ip_json ip)) (clear_failures name db))
             u user_agent ip)))"

section \<open>Refreshing\<close>

definition refresh ::
  "env \<Rightarrow> database \<Rightarrow> token_payload option \<Rightarrow> utext option \<Rightarrow> utext option \<Rightarrow>
    database \<times> (token_payload \<times> token_payload option) http" where
  "refresh env db cookie user_agent ip =
    (let unauthorized = (db, Inl (HTTPException 401 ''unauthorized''))
     in case cookie of
          None \<Rightarrow> unauthorized
        | Some data \<Rightarrow>
           (if tok_type data \<noteq> ''refresh'' \<or> tok_jti data = None \<or> tok_jti data = Some [] then unauthorized
            else case tok_sub data of
              None \<Rightarrow> (db, Inl (HTTPException 500 ''sub''))
            | Some k \<Rightarrow> (case get_user db k of
              None \<Rightarrow> unauthorized
            | Some u \<Rightarrow>
               (if \<not> user_is_active u \<or> tok_tv data \<noteq> Some (token_version u) then unauthorized
                else case rotate_session env db (user_id u) (case tok_jti data of Some j \<Rightarrow> j | None \<Rightarrow> [])
                       user_agent ip of
                  Inl e \<Rightarrow> (db, Inl e)
                | Inr (db1, out) \<Rightarrow>
                   (case out of
                      Reuse \<Rightarrow> (db1, Inl (HTTPException 401 ''unauthorized''))
                    | Grace \<Rightarrow> (db1, Inr (create_access_token u, None))
                    | Rotated j \<Rightarrow> (db1, Inr (create_access_token u, Some (create_refresh_token u j))))))))"

definition logout :: "env \<Rightarrow> database \<Rightarrow> token_payload option \<Rightarrow> database" where
  "logout env db cookie =
    (case cookie of
       None \<Rightarrow> db
     | Some data \<Rightarrow>
        (case tok_jti data of
           None \<Rightarrow> db
         | Some j \<Rightarrow> if tok_type data = ''refresh'' \<and> j \<noteq> [] then revoke_session env j db else db))"

definition contains_text :: "utext \<Rightarrow> utext \<Rightarrow> bool" where
  "contains_text part whole \<longleftrightarrow>
    list_ex (\<lambda>i. take (length part) (drop i whole) = part) [0..<Suc (length whole)]"

definition change_password ::
  "env \<Rightarrow> crypt \<Rightarrow> database \<Rightarrow> current_user \<Rightarrow> utext \<Rightarrow> utext \<Rightarrow> utext option \<Rightarrow> utext option \<Rightarrow>
    (database \<times> login_response) http" where
  "change_password env crypt db user current new user_agent ip =
    bindE (raise_if (length new < 10) (HTTPException 422 ''too short'')) (\<lambda>_.
    bindE (or_raise (get_user db (cu_id user)) (HTTPException 400 ''wrong password'')) (\<lambda>u.
    bindE (raise_if (\<not> verify_password crypt current (password_hash u))
             (HTTPException 400 ''wrong password'')) (\<lambda>_.
    bindE (raise_if (new = current) (HTTPException 400 ''same password'')) (\<lambda>_.
    bindE (raise_if (3 \<le> length (username u) \<and>
               contains_text (lower_text crypt (username u)) (lower_text crypt new))
             (HTTPException 400 ''contains the user name'')) (\<lambda>_.
     (let u1 = u\<lparr>password_hash := hash_password crypt new, token_version := token_version u + 1,
                 must_change_password := False\<rparr>;
          db1 = revoke_all_for_user env (user_id u) (put_user u1 db)
      in issue_login_response env (log_event (user_id u) ''password_changed_self'' None None None db1)
           u1 user_agent ip))))))"

definition list_my_sessions ::
  "env \<Rightarrow> database \<Rightarrow> current_user \<Rightarrow> string option \<Rightarrow> (auth_session \<times> bool) list" where
  "list_my_sessions env db user current_jti =
    map (\<lambda>s. (s, Some (jti s) = current_jti)) (active_sessions env db (cu_id user))"

definition revoke_my_session :: "env \<Rightarrow> database \<Rightarrow> current_user \<Rightarrow> int \<Rightarrow> database http" where
  "revoke_my_session env db user k =
    bindE (or_raise (row_get session_id (t_sessions db) k) (HTTPException 404 ''no such session'')) (\<lambda>s.
    bindE (raise_if (session_user_id s \<noteq> cu_id user) (HTTPException 404 ''no such session'')) (\<lambda>_.
    Inr (if revoked_at s = None
         then log_event (cu_id user) ''session_revoked'' None None (Some [(''session_id'', JInt k)])
                (db\<lparr>t_sessions := row_put session_id (s\<lparr>revoked_at := Some (now env)\<rparr>) (t_sessions db)\<rparr>)
         else db)))"

section \<open>Guessing passwords\<close>

lemma notify_once_messages: "only_messages db (fst (notify_once env u kind key n rid link seen db))"
  by (auto simp: notify_once_def notify_one_messages split: option.splits)

lemma fail_login_tables:
  "t_login_attempts (fail_login env db name ip u) = t_login_attempts (fst (record_failure env name db))"
  "t_users (fail_login env db name ip u) = t_users db"
proof -
  have alarm: "only_messages db1 (notify_hr_of_lockout env name until db1)" for db1 until
    unfolding notify_hr_of_lockout_def by (rule only_messages_fold) (rule notify_once_messages)
  have users: "t_users (fst (record_failure env name db)) = t_users db"
    by (auto simp: record_failure_def put_attempt_def Let_def split: prod.splits option.splits)
  obtain db1 locked where r: "record_failure env name db = (db1, locked)" by (meson surj_pair)
  show "t_login_attempts (fail_login env db name ip u) = t_login_attempts (fst (record_failure env name db))"
    and "t_users (fail_login env db name ip u) = t_users db"
    using users by (auto simp: fail_login_def r only_messages_tables [OF alarm] split: option.splits)
qed

lemma record_failure_cong:
  assumes "t_login_attempts a = t_login_attempts b"
  shows "t_login_attempts (fst (record_failure env name a)) = t_login_attempts (fst (record_failure env name b))"
proof -
  have "find_attempt a name = find_attempt b name" using assms by (simp add: find_attempt_def)
  then show ?thesis using assms
    by (cases "find_attempt b name") (simp_all add: record_failure_def put_attempt_def Let_def split: prod.splits)
qed

text \<open>Logins for one name one after the other, the last one first.\<close>

fun attempts_at ::
  "(env \<times> utext) list \<Rightarrow> crypt \<Rightarrow> utext \<Rightarrow> utext option \<Rightarrow> utext option \<Rightarrow> database \<Rightarrow> database" where
  "attempts_at [] crypt name user_agent ip db = db"
| "attempts_at ((env, password) # earlier) crypt name user_agent ip db =
    fst (login env crypt (attempts_at earlier crypt name user_agent ip db) name password user_agent ip)"

definition wrong_guess :: "crypt \<Rightarrow> database \<Rightarrow> utext \<Rightarrow> utext \<Rightarrow> bool" where
  "wrong_guess crypt db name password \<longleftrightarrow>
    length password \<le> 256 \<and>
    (case find_username db name of None \<Rightarrow> True | Some u \<Rightarrow> \<not> verify_password crypt password (password_hash u))"

lemma wrong_login:
  assumes "wrong_guess crypt db name password" and "length name \<le> 150" and "locked_until env db name = None"
  shows "t_login_attempts (fst (login env crypt db name password user_agent ip)) =
      t_login_attempts (fst (record_failure env name db))"
    and "t_users (fst (login env crypt db name password user_agent ip)) = t_users db"
  using assms by (auto simp: login_def wrong_guess_def fail_login_tables split: option.splits)

lemma attempts_are_failures:
  assumes "find_attempt db name = None" and "in_quick_succession (map fst guesses)"
    and "\<forall>x \<in> fst ` set guesses. login_max_failed_attempts (cfg x) = n \<and> 0 \<le> login_attempt_window_minutes (cfg x)"
    and "\<forall>x \<in> snd ` set guesses. wrong_guess crypt db name x" and "length name \<le> 150"
    and "int (length guesses) \<le> n"
  shows "t_login_attempts (attempts_at guesses crypt name user_agent ip db) =
      t_login_attempts (fst (failures (map fst guesses) name db)) \<and>
    t_users (attempts_at guesses crypt name user_agent ip db) = t_users db"
  using assms
proof (induction guesses)
  case (Cons g guesses)
  obtain env password where g: "g = (env, password)" by (meson surj_pair)
  let ?before = "attempts_at guesses crypt name user_agent ip db"
  have IH: "t_login_attempts ?before = t_login_attempts (fst (failures (map fst guesses) name db))"
    "t_users ?before = t_users db"
    using Cons quick_tail [of "fst g" "map fst guesses"] by simp_all
  have found: "find_attempt ?before name = find_attempt (fst (failures (map fst guesses) name db)) name"
    using IH(1) by (simp add: find_attempt_def)
  have "locked_until env ?before name = None"
  proof (cases guesses)
    case Nil
    then show ?thesis using Cons.prems(1) by (simp add: locked_until_def)
  next
    case (Cons h rest)
    have "in_quick_succession (fst h # map fst rest)"
      using Cons.prems(2) quick_tail [of "fst g"] by (simp add: Cons)
    moreover have "0 < n" "int (Suc (length rest)) < n" using Cons.prems(6) by (simp_all add: Cons)
    ultimately obtain row where "find_attempt (fst (failures (map fst guesses) name db)) name = Some row"
      "attempt_locked_until row = None"
      using failures_row [of db name "fst h" "map fst rest" n] Cons.prems(1,3) by (auto simp: Cons)
    then show ?thesis using found by (simp add: locked_until_def)
  qed
  moreover have "wrong_guess crypt ?before name password"
    using Cons.prems(4) IH(2) by (simp add: g wrong_guess_def find_username_def)
  ultimately show ?case
    using wrong_login [of crypt ?before name password env user_agent ip] Cons.prems(5) IH
      record_failure_cong [OF IH(1), of env name]
    by (simp add: g)
qed simp

text \<open>
  C32. Guessing is stopped: after as many wrong logins for a name as are allowed, each within the
  counting window of the one before, every further login for it until the lock ends is refused with
  429, whatever the password, and writes nothing.
\<close>

theorem guessing_is_stopped:
  assumes "find_attempt db name = None" and "in_quick_succession (map fst ((env, guess) # guesses))"
    and "list_all (\<lambda>g. login_max_failed_attempts (cfg (fst g)) = int (Suc (length guesses)) \<and>
      0 \<le> login_attempt_window_minutes (cfg (fst g)) \<and> wrong_guess crypt db name (snd g)) ((env, guess) # guesses)"
    and "length name \<le> 150" and "length password \<le> 256"
    and "now env' < now env + minutes (login_lockout_minutes (cfg env))"
  shows "login env' crypt (attempts_at ((env, guess) # guesses) crypt name user_agent ip db) name password user_agent' ip' =
    (attempts_at ((env, guess) # guesses) crypt name user_agent ip db, Inl (HTTPException 429 ''locked''))"
proof -
  let ?db = "attempts_at ((env, guess) # guesses) crypt name user_agent ip db"
  let ?n = "int (Suc (length guesses))"
  have "t_login_attempts ?db = t_login_attempts (fst (failures (map fst ((env, guess) # guesses)) name db))"
    using attempts_are_failures [of db name "(env, guess) # guesses" ?n crypt user_agent ip] assms
    by (auto simp: list_all_iff)
  then have found: "find_attempt ?db name = find_attempt (fst (failures (env # map fst guesses) name db)) name"
    by (simp add: find_attempt_def)
  obtain row where row: "find_attempt (fst (failures (env # map fst guesses) name db)) name = Some row"
    and last: "snd (failures (env # map fst guesses) name db) = Some (now env + minutes (login_lockout_minutes (cfg env)))"
    using failures_row [of db name env "map fst guesses" ?n] assms(1-3) by (auto simp: list_all_iff)
  have locks: "attempt_locked_until (fst (count_failure e a)) = Some until"
    if "snd (count_failure e a) = Some until" for e a until
    using that by (auto simp: count_failure_def Let_def split: if_splits)
  have "attempt_locked_until row = Some (now env + minutes (login_lockout_minutes (cfg env)))"
    using row last unfolding failures.simps record_failure_row by (auto intro: locks)
  then have "locked_until env' ?db name \<noteq> None"
    using found row assms(6) by (simp add: locked_until_def)
  then show ?thesis using assms(4,5) by (auto simp: login_def)
qed

section \<open>Changing the password\<close>

lemma set_active_sessions:
  "s \<in> set (active_sessions env db u) \<longleftrightarrow> s \<in> set (t_sessions db) \<and> session_user_id s = u \<and> session_is_active env s"
  by (auto simp: active_sessions_def Let_def)

lemma active_after_login:
  assumes "create_session env u user_agent ip db = Inr (db', j)" and "active_sessions env' db u = []"
    and "s \<in> set (active_sessions env' db' u)"
  shows "jti s = j"
proof -
  obtain n where n: "db' = db\<lparr>t_sessions := t_sessions db @ [n]\<rparr>" "jti n = j"
    using assms(1) by (rule create_session_InrD)
  have "s \<notin> set (active_sessions env' db u)" using assms(2) by simp
  then have "s = n" using assms(3) unfolding set_active_sessions n(1) by auto
  then show ?thesis using n(2) by simp
qed

lemma active_sessions_cong: "t_sessions a = t_sessions b \<Longrightarrow> active_sessions env a u = active_sessions env b u"
  by (simp add: active_sessions_def)

lemma change_password_InrD:
  assumes "change_password env crypt db user current new user_agent ip = Inr (db', answer)"
  obtains u u1 db2 j where "get_user db (cu_id user) = Some u" and "verify_password crypt current (password_hash u)"
    and "u1 = u\<lparr>password_hash := hash_password crypt new, token_version := token_version u + 1,
      must_change_password := False\<rparr>"
    and "t_sessions db2 = t_sessions (revoke_all_for_user env (user_id u) db)"
    and "t_users db2 = row_put user_id u1 (t_users db)"
    and "create_session env (user_id u) user_agent ip db2 = Inr (db', j)"
    and "answer = \<lparr>lr_access_token = create_access_token u1, lr_refresh_token = create_refresh_token u1 j,
      lr_must_change_password = False\<rparr>"
proof -
  obtain u u1 j where u: "get_user db (cu_id user) = Some u" "verify_password crypt current (password_hash u)"
      "u1 = u\<lparr>password_hash := hash_password crypt new, token_version := token_version u + 1,
        must_change_password := False\<rparr>"
    and c: "create_session env (user_id u) user_agent ip (log_event (user_id u) ''password_changed_self'' None None None
        (revoke_all_for_user env (user_id u) (put_user u1 db))) = Inr (db', j)"
    and a: "answer = \<lparr>lr_access_token = create_access_token u1, lr_refresh_token = create_refresh_token u1 j,
      lr_must_change_password = False\<rparr>"
    using assms by (auto simp: change_password_def issue_login_response_def Let_def)
  show ?thesis
    by (rule that [OF u _ _ c a]) (simp_all add: revoke_all_for_user_def put_user_def)
qed

lemma create_session_users: "create_session env u user_agent ip db = Inr (db', j) \<Longrightarrow> t_users db' = t_users db"
  by (auto simp: create_session_def Let_def)

text \<open>
  Changing the password ends everything that was open before: afterwards the only session of the
  user that can still be used is the one the answer opens, every access and refresh token made before
  the change is refused, and the access token of the answer works on every path.
\<close>

theorem password_change_ends_other_sessions:
  assumes "get_current_user path token db = Inr user"
    and "change_password env crypt db user current new user_agent ip = Inr (db', answer)"
    and "tok_sub old = Some (cu_id user)" and "tok_tv old = tok_tv (the token)"
  shows "list_all (\<lambda>s. Some (jti s) = tok_jti (lr_refresh_token answer)) (active_sessions env' db' (cu_id user)) \<and>
    get_current_user path' (Some old) db' = Inl (HTTPException 401 ''unauthorized'') \<and>
    refresh env' db' (Some old) user_agent' ip' = (db', Inl (HTTPException 401 ''unauthorized'')) \<and>
    get_current_user path' (Some (lr_access_token answer)) db' = Inr user"
proof -
  obtain claims sub u where t: "token = Some claims" "tok_sub claims = Some sub" "get_user db sub = Some u" "user_is_active u"
      "tok_tv claims = Some (token_version u)"
    and user: "user = \<lparr>cu_id = user_id u, cu_role = user_role u, cu_personnel_id = user_personnel_id u\<rparr>"
    using assms(1) by (auto simp: get_current_user_def Let_def)
  have id: "sub = user_id u" using t(3) by (simp add: get_user_def row_get_SomeD(2))
  obtain x u1 db2 j where x: "get_user db (cu_id user) = Some x"
    and u1: "u1 = x\<lparr>password_hash := hash_password crypt new, token_version := token_version x + 1,
      must_change_password := False\<rparr>"
    and db2: "t_sessions db2 = t_sessions (revoke_all_for_user env (user_id x) db)"
      "t_users db2 = row_put user_id u1 (t_users db)"
    and c: "create_session env (user_id x) user_agent ip db2 = Inr (db', j)"
    and a: "answer = \<lparr>lr_access_token = create_access_token u1, lr_refresh_token = create_refresh_token u1 j,
      lr_must_change_password = False\<rparr>"
    using assms(2) by (rule change_password_InrD)
  have xu: "x = u" using x t(3) id user by simp
  have get: "get_user db' (user_id u) = Some u1"
    using t(3) id by (simp add: get_user_def create_session_users [OF c] db2 row_get_put u1 xu)
  have "active_sessions env' db2 (user_id u) = []"
    using none_active_after_revocation [of env' env "user_id u" db] active_sessions_cong [OF db2(1)] by (simp add: xu)
  with c have "jti s = j" if "s \<in> set (active_sessions env' db' (user_id u))" for s
    using that by (intro active_after_login) (simp_all add: xu)
  then have "list_all (\<lambda>s. Some (jti s) = tok_jti (lr_refresh_token answer)) (active_sessions env' db' (cu_id user))"
    by (simp add: list_all_iff user a create_refresh_token_def)
  moreover have "get_current_user path' (Some old) db' = Inl (HTTPException 401 ''unauthorized'')"
    using assms(3,4) t get by (simp add: get_current_user_def Let_def user u1 xu bindE_eq_Inl)
  moreover have "refresh env' db' (Some old) user_agent' ip' = (db', Inl (HTTPException 401 ''unauthorized''))"
    using assms(3,4) t get by (simp add: refresh_def Let_def user u1 xu)
  moreover have "get_current_user path' (Some (lr_access_token answer)) db' = Inr user"
    using get t(4) by (simp add: get_current_user_def Let_def a create_access_token_def user u1 xu)
  ultimately show ?thesis by blast
qed

section \<open>A login works\<close>

lemma get_user_in: "distinct (map user_id (t_users db)) \<Longrightarrow> u \<in> set (t_users db) \<Longrightarrow> get_user db (user_id u) = Some u"
  by (simp add: get_user_def row_get_distinct)

text \<open>
  A login that succeeds was for an active user of that name with a password that matches, while
  the name was not locked; it forgets the failures counted so far, and it works: the access token is
  accepted, and the refresh token can be exchanged once any time before it expires.
\<close>

theorem login_opens_a_working_session:
  assumes "login env crypt db name password user_agent ip = (db', Inr answer)"
    and "distinct (map user_id (t_users db))" and "distinct (map jti (t_sessions db))"
    and "fresh_token env \<noteq> []" and "fresh_token env' \<notin> insert (fresh_token env) (jti ` set (t_sessions db))"
    and "now env' < now env + days (refresh_token_expire_days (cfg env))"
  shows "\<exists>u db2 j. find_username db name = Some u \<and> user_is_active u \<and>
    verify_password crypt password (password_hash u) \<and> locked_until env db name = None \<and>
    find_attempt db' name = None \<and>
    (must_change_password u \<or> get_current_user path (Some (lr_access_token answer)) db' =
      Inr \<lparr>cu_id = user_id u, cu_role = user_role u, cu_personnel_id = user_personnel_id u\<rparr>) \<and>
    refresh env' db' (Some (lr_refresh_token answer)) user_agent' ip' =
      (db2, Inr (create_access_token u, Some (create_refresh_token u j)))"
proof -
  let ?db1 = "\<lambda>u. log_event (user_id u) ''login_succeeded'' None None (Some (ip_json ip)) (clear_failures name db)"
  obtain u j where u: "find_username db name = Some u" "user_is_active u"
      "verify_password crypt password (password_hash u)" "locked_until env db name = None"
    and c: "create_session env (user_id u) user_agent ip (?db1 u) = Inr (db', j)"
    and a: "answer = \<lparr>lr_access_token = create_access_token u, lr_refresh_token = create_refresh_token u j,
               lr_must_change_password = must_change_password u\<rparr>"
    using assms(1)
    by (auto simp: login_def or_rollback_def issue_login_response_def split: if_splits option.splits sum.splits)
  obtain n where n: "db' = ?db1 u\<lparr>t_sessions := t_sessions (?db1 u) @ [n]\<rparr>" "jti n = j" "j = fresh_token env"
      "j \<notin> jti ` set (t_sessions (?db1 u))" "session_user_id n = user_id u" "rotated_at n = None"
      "revoked_at n = None" "session_expires_at n = now env + days (refresh_token_expire_days (cfg env))"
    using c by (rule create_session_InrD)
  have t: "t_sessions db' = t_sessions db @ [n]" "t_users db' = t_users db"
    "t_login_attempts db' = filter (\<lambda>a. attempt_username a \<noteq> name) (t_login_attempts db)"
    by (simp_all add: n(1) clear_failures_def)
  have get: "get_user db' (user_id u) = Some u"
    using get_user_in [of db' u] assms(2) u(1) t(2) by (auto simp: find_username_def find_Some_iff)
  have forgotten: "find_attempt db' name = None"
    by (auto simp: find_attempt_def t(3) find_None_iff)
  have "j \<notin> jti ` set (t_sessions db)" using n(4) by (simp add: clear_failures_def)
  then have "find (\<lambda>s. jti s = j) (t_sessions db) = None" by (auto simp: find_None_iff)
  then have found: "find (\<lambda>s. jti s = j) (t_sessions db') = Some n" by (simp add: t(1) find_snoc n(2))
  obtain db1 j1 where "create_session env' (user_id u) (or_text user_agent' (session_user_agent n))
      (or_text ip' (session_ip n)) db' = Inr (db1, j1)"
    using assms(5) n(2,3) by (auto simp: create_session_def Let_def t(1))
  then obtain db2 where "rotate_session env' db' (user_id u) j user_agent' ip' = Inr (db2, Rotated j1)"
    using found n assms(6) by (simp add: rotate_session_def)
  then have "refresh env' db' (Some (lr_refresh_token answer)) user_agent' ip' =
      (db2, Inr (create_access_token u, Some (create_refresh_token u j1)))"
    using get u(2) assms(4) n(3) by (simp add: refresh_def a create_refresh_token_def Let_def)
  moreover have "must_change_password u \<or> get_current_user path (Some (lr_access_token answer)) db' =
      Inr \<lparr>cu_id = user_id u, cu_role = user_role u, cu_personnel_id = user_personnel_id u\<rparr>"
    using get u(2) by (auto simp: get_current_user_def a create_access_token_def Let_def)
  ultimately show ?thesis using u forgotten by blast
qed

end
