(* ===== verification/Staff.thy ===== *)
theory Staff
  imports Auth Handlers
begin

text \<open>
  People, their accounts and the chains that evaluate them: \<open>app/api/routers/personnel.py\<close>,
  \<open>app/api/routers/users.py\<close> and \<open>app/api/routers/evaluation_access.py\<close> with their schemas. In a request
  that changes a row a field is \<open>None\<close> when it is not given and \<open>Some None\<close> when it is null.
\<close>

section \<open>Chains\<close>

definition find_access :: "database \<Rightarrow> int \<Rightarrow> evaluation_access option" where
  "find_access db p = find (\<lambda>a. acc_personnel_id a = p) (t_access db)"

definition ensure_active_user_with_role :: "database \<Rightarrow> user_role \<Rightarrow> int option \<Rightarrow> unit http" where
  "ensure_active_user_with_role db expected u =
    (case u of
       None \<Rightarrow> Inr ()
     | Some k \<Rightarrow>
        bindE (or_raise (get_user db k) (HTTPException 400 ''inactive evaluator'')) (\<lambda>usr.
        bindE (raise_if (\<not> user_is_active usr) (HTTPException 400 ''inactive evaluator'')) (\<lambda>_.
        raise_if (\<not> may_act_at (user_role usr) expected) (HTTPException 400 ''wrong role''))))"

definition chain_json :: "evaluation_access \<Rightarrow> jdict" where
  "chain_json a =
    [(''unit_supervisor_user_id'', jopt JInt (acc_unit_supervisor_user_id a)),
     (''deputy_user_id'', jopt JInt (acc_deputy_user_id a)), (''ceo_user_id'', JInt (acc_ceo_user_id a))]"

definition upsert_access ::
  "database \<Rightarrow> current_user \<Rightarrow> int \<Rightarrow> int option \<Rightarrow> int option \<Rightarrow> int \<Rightarrow> database http" where
  "upsert_access db user k supervisor deputy ceo =
    bindE (require_role_or_capability Role_hr Manage_personnel db user) (\<lambda>_.
    bindE (or_raise (get_personnel db k) (HTTPException 404 ''no such person'')) (\<lambda>p.
    bindE (raise_if (is_manager p \<and> supervisor \<noteq> None) (HTTPException 400 ''a manager has no supervisor'')) (\<lambda>_.
    bindE (ensure_active_user_with_role db Role_unit_supervisor supervisor) (\<lambda>_.
    bindE (ensure_active_user_with_role db Role_deputy deputy) (\<lambda>_.
    bindE (ensure_active_user_with_role db Role_ceo (Some ceo)) (\<lambda>_.
    bindE (ensure_evaluators_are_not_the_subject db k [supervisor, deputy, Some ceo]) (\<lambda>_.
    bindE (ensure_chain_stages_are_not_redundant supervisor deputy (Some ceo)) (\<lambda>_.
     (let old = find_access db k;
          a = (case old of Some x \<Rightarrow> x
               | None \<Rightarrow> \<lparr>acc_id = next_id acc_id (t_access db), acc_personnel_id = k,
                    acc_unit_supervisor_user_id = None, acc_deputy_user_id = None, acc_ceo_user_id = ceo,
                    acc_updated_by_user_id = None\<rparr>);
          a1 = a\<lparr>acc_unit_supervisor_user_id := supervisor, acc_deputy_user_id := deputy,
                 acc_ceo_user_id := ceo, acc_updated_by_user_id := Some (cu_id user)\<rparr>;
          db1 = db\<lparr>t_access := (case old of None \<Rightarrow> t_access db @ [a1]
                                | Some _ \<Rightarrow> row_put acc_id a1 (t_access db))\<rparr>
      in Inr (log_event (cu_id user) ''access_updated'' None (map_option chain_json old)
           (Some ([(''personnel_id'', JInt k)] @ chain_json a1)) db1))))))))))"

section \<open>Accounts\<close>

definition username_ok :: "utext \<Rightarrow> bool" where
  "username_ok t \<longleftrightarrow> 3 \<le> length t \<and> length t \<le> 64 \<and>
    list_all (\<lambda>c. 97 \<le> c \<and> c \<le> 122 \<or> 65 \<le> c \<and> c \<le> 90 \<or> 48 \<le> c \<and> c \<le> 57 \<or> c = 95 \<or> c = 46 \<or> c = 45) t"

definition PASSWORD_MIN_LENGTH :: nat where
  "PASSWORD_MIN_LENGTH = 10"

definition new_user :: "crypt \<Rightarrow> database \<Rightarrow> utext \<Rightarrow> utext \<Rightarrow> user_role \<Rightarrow> int option \<Rightarrow> utext option \<Rightarrow> user" where
  "new_user crypt db name password r p full =
    \<lparr>user_id = next_id user_id (t_users db), user_personnel_id = p, username = name, user_full_name = full,
     password_hash = hash_password crypt password, user_role = r, user_is_active = True,
     must_change_password = True, token_version = 0, email = None, phone = None,
     notify_by_email = False, notify_by_sms = False\<rparr>"

definition create_user ::
  "crypt \<Rightarrow> database \<Rightarrow> current_user \<Rightarrow> utext \<Rightarrow> utext \<Rightarrow> user_role \<Rightarrow> int option \<Rightarrow> utext option \<Rightarrow>
    database http" where
  "create_user crypt db user name password r p full =
    bindE (require_capability [Manage_users] db user) (\<lambda>_.
    bindE (raise_if (\<not> username_ok name \<or> length password < PASSWORD_MIN_LENGTH \<or>
               (case full of None \<Rightarrow> False | Some t \<Rightarrow> 200 < length t) \<or> r = Role_employee \<and> p = None)
             (HTTPException 422 ''user'')) (\<lambda>_.
    bindE (raise_if (find_username db name \<noteq> None) (HTTPException 400 ''user name taken'')) (\<lambda>_.
    bindE (case p of
             None \<Rightarrow> Inr ()
           | Some k \<Rightarrow>
              bindE (raise_if (get_personnel db k = None) (HTTPException 400 ''no such person''))
                (\<lambda>_. ensure_personnel_has_one_account db k None)) (\<lambda>_.
     (let u = new_user crypt db name password r p
                (nonempty_text (Some (strip (case full of None \<Rightarrow> [] | Some t \<Rightarrow> t))));
          db1 = add_user u db;
          db2 = (if r = Role_hr then apply_default_hr_capabilities (user_id u) db1 else db1)
      in Inr (log_event (cu_id user) ''user_created'' None None
           (Some [(''id'', JInt (user_id u)), (''username'', JString name), (''role'', jstr (role_value r))])
           db2))))))"

record user_update =
  uu_role :: "user_role option option"
  uu_is_active :: "bool option option"
  uu_password :: "utext option option"
  uu_personnel_id :: "int option option"
  uu_full_name :: "utext option option"

definition given_value :: "'a option option \<Rightarrow> 'a option" where
  "given_value x = (case x of Some (Some a) \<Rightarrow> Some a | _ \<Rightarrow> None)"

text \<open>\<open>setattr\<close> for a column that may not be null and for one that may.\<close>

definition set_column :: "'a option option \<Rightarrow> 'a \<Rightarrow> 'a http" where
  "set_column new old = (case new of None \<Rightarrow> Inr old | Some (Some a) \<Rightarrow> Inr a
    | Some None \<Rightarrow> Inl (HTTPException 500 ''null''))"

definition set_nullable :: "'a option option \<Rightarrow> 'a option \<Rightarrow> 'a option" where
  "set_nullable new old = (case new of None \<Rightarrow> old | Some x \<Rightarrow> x)"

definition user_json :: "user_update \<Rightarrow> jdict" where
  "user_json up =
    (case uu_role up of None \<Rightarrow> [] | Some x \<Rightarrow> [(''role'', jopt (\<lambda>r. jstr (role_value r)) x)]) @
    (case uu_is_active up of None \<Rightarrow> [] | Some x \<Rightarrow> [(''is_active'', jopt JBool x)]) @
    (case uu_personnel_id up of None \<Rightarrow> [] | Some x \<Rightarrow> [(''personnel_id'', jopt JInt x)]) @
    (case uu_full_name up of None \<Rightarrow> [] | Some x \<Rightarrow> [(''full_name'', jopt JString x)]) @
    (case nonempty_text (given_value (uu_password up)) of None \<Rightarrow> [] | Some _ \<Rightarrow> [(''password_changed'', JBool True)])"

definition update_user ::
  "env \<Rightarrow> crypt \<Rightarrow> database \<Rightarrow> current_user \<Rightarrow> int \<Rightarrow> user_update \<Rightarrow> database http" where
  "update_user env crypt db user k up =
    bindE (require_capability [Manage_users] db user) (\<lambda>_.
    bindE (raise_if ((case given_value (uu_password up) of None \<Rightarrow> False | Some t \<Rightarrow> length t < PASSWORD_MIN_LENGTH) \<or>
               (case given_value (uu_full_name up) of None \<Rightarrow> False | Some t \<Rightarrow> 200 < length t))
             (HTTPException 422 ''user'')) (\<lambda>_.
    bindE (or_raise (get_user db k) (HTTPException 404 ''no such user'')) (\<lambda>u.
    bindE (raise_if (user_id u = cu_id user \<and> given_value (uu_is_active up) = Some False)
             (HTTPException 400 ''disabling oneself'')) (\<lambda>_.
    bindE (raise_if (user_id u = cu_id user \<and> uu_role up \<noteq> None \<and> given_value (uu_role up) \<noteq> Some Role_hr)
             (HTTPException 400 ''demoting oneself'')) (\<lambda>_.
     (let leaves_role = (uu_role up \<noteq> None \<and> given_value (uu_role up) \<noteq> Some (user_role u));
          gets_disabled = (given_value (uu_is_active up) = Some False \<and> user_is_active u)
      in bindE (if leaves_role \<or> gets_disabled then ensure_no_open_chain_seat db (user_id u) else Inr ()) (\<lambda>_.
         bindE (case given_value (uu_personnel_id up) of
                  None \<Rightarrow> Inr ()
                | Some p \<Rightarrow>
                   bindE (raise_if (get_personnel db p = None) (HTTPException 400 ''no such person'')) (\<lambda>_.
                   bindE (ensure_personnel_has_one_account db p (Some (user_id u))) (\<lambda>_.
                   ensure_user_link_is_not_self_evaluation db u p))) (\<lambda>_.
         bindE (set_column (uu_role up) (user_role u)) (\<lambda>new_role.
         bindE (set_column (uu_is_active up) (user_is_active u)) (\<lambda>new_active.
          (let u1 = u\<lparr>user_role := new_role, user_is_active := new_active,
                      user_personnel_id := set_nullable (uu_personnel_id up) (user_personnel_id u),
                      user_full_name := set_nullable (uu_full_name up) (user_full_name u)\<rparr>;
               db1 = put_user u1 db;
               db2 = (if user_role u \<noteq> Role_hr \<and> new_role = Role_hr
                      then apply_default_hr_capabilities (user_id u) db1 else db1)
           in bindE (raise_if (new_role = Role_employee \<and> user_personnel_id u1 = None)
                       (HTTPException 400 ''employee without a person'')) (\<lambda>_.
               (let db3 = (case nonempty_text (given_value (uu_password up)) of
                      None \<Rightarrow> db2
                    | Some password \<Rightarrow>
                       revoke_all_for_user env (user_id u)
                         (put_user (u1\<lparr>password_hash := hash_password crypt password,
                            token_version := token_version u + 1, must_change_password := True\<rparr>) db2))
                in Inr (log_event (cu_id user) ''user_updated'' None
                     (Some [(''role'', jstr (role_value (user_role u))), (''is_active'', JBool (user_is_active u)),
                            (''personnel_id'', jopt JInt (user_personnel_id u)),
                            (''full_name'', jopt JString (user_full_name u))])
                     (Some ([(''id'', JInt (user_id u)), (''username'', JString (username u))] @ user_json up))
                     db3))))))))))))))"

definition unlock_user :: "env \<Rightarrow> database \<Rightarrow> current_user \<Rightarrow> int \<Rightarrow> database http" where
  "unlock_user env db user k =
    bindE (require_capability [Manage_users] db user) (\<lambda>_.
    bindE (or_raise (get_user db k) (HTTPException 404 ''no such user'')) (\<lambda>u.
     (let (db1, was_locked) = unlock env (username u) db
      in Inr (log_event (cu_id user) ''account_unlocked'' None None
           (Some [(''id'', JInt (user_id u)), (''username'', JString (username u)),
                  (''was_locked'', JBool was_locked)]) db1))))"

text \<open>The foreign keys to a user that neither cascade nor are emptied before the deletion.\<close>

definition user_is_referenced :: "database \<Rightarrow> int \<Rightarrow> bool" where
  "user_is_referenced db k \<longleftrightarrow>
    list_ex (\<lambda>a. acc_unit_supervisor_user_id a = Some k \<or> acc_deputy_user_id a = Some k \<or>
      acc_ceo_user_id a = k \<or> acc_updated_by_user_id a = Some k) (t_access db) \<or>
    list_ex (\<lambda>r. unit_supervisor_user_id r = Some k \<or> deputy_user_id r = Some k \<or> ceo_user_id r = k \<or>
      hr_user_id r = Some k \<or> acknowledged_by_user_id r = Some k \<or>
      self_assessment_invited_by_user_id r = Some k \<or> submission_extended_by_user_id r = Some k \<or>
      objection_resolved_by_user_id r = Some k) (t_evaluations db) \<or>
    list_ex (\<lambda>c. commenter_user_id c = k) (t_comments db) \<or>
    list_ex (\<lambda>p. period_created_by_user_id p = Some k) (t_periods db) \<or>
    list_ex (\<lambda>p. plan_owner_user_id p = Some k \<or> plan_created_by_user_id p = Some k) (t_plans db) \<or>
    list_ex (\<lambda>f. framework_created_by_user_id f = Some k) (t_frameworks db) \<or>
    list_ex (\<lambda>s. scheme_created_by_user_id s = Some k \<or> activated_by_user_id s = Some k) (t_schemes db) \<or>
    list_ex (\<lambda>m. module_updated_by_user_id m = Some k) (t_modules db)"

definition delete_user :: "database \<Rightarrow> current_user \<Rightarrow> int \<Rightarrow> database http" where
  "delete_user db user k =
    bindE (require_capability [Manage_users] db user) (\<lambda>_.
    bindE (or_raise (get_user db k) (HTTPException 404 ''no such user'')) (\<lambda>u.
    bindE (raise_if (user_id u = cu_id user) (HTTPException 400 ''deleting oneself'')) (\<lambda>_.
    bindE (raise_if (list_ex (\<lambda>row. actor_user_id row = user_id u) (t_audit_log db))
             (HTTPException 409 ''has history'')) (\<lambda>_.
     (let gone = map notification_id (filter (\<lambda>n. ntf_user_id n = user_id u) (t_notifications db));
          db1 = db\<lparr>t_sessions := filter (\<lambda>s. session_user_id s \<noteq> user_id u) (t_sessions db),
            t_notifications := filter (\<lambda>n. ntf_user_id n \<noteq> user_id u) (t_notifications db),
            t_deliveries := filter (\<lambda>d. dlv_notification_id d \<notin> set gone) (t_deliveries db),
            t_capabilities := filter (\<lambda>c. cap_user_id c \<noteq> user_id u \<and> granted_by_user_id c \<noteq> Some (user_id u))
              (t_capabilities db),
            t_conversations := filter (\<lambda>c. conversation_user_id c \<noteq> user_id u) (t_conversations db),
            t_pending_actions := filter (\<lambda>a. pending_user_id a \<noteq> user_id u) (t_pending_actions db),
            t_users := filter (\<lambda>x. user_id x \<noteq> user_id u) (t_users db)\<rparr>
      in bindE (raise_if (user_is_referenced db (user_id u)) (HTTPException 409 ''is referenced'')) (\<lambda>_.
         Inr (log_event (cu_id user) ''user_deleted'' None
                (Some [(''id'', JInt (user_id u)), (''username'', JString (username u)),
                       (''role'', jstr (role_value (user_role u)))]) None db1)))))))"

section \<open>People\<close>

record personnel_input =
  pi_personnel_code :: utext
  pi_full_name :: utext
  pi_job_title :: utext
  pi_is_manager :: bool
  pi_org_unit :: utext
  pi_contract_start_date :: int
  pi_contract_end_date :: int
  pi_account :: "(utext \<times> utext) option"

text \<open>The new person without an account; \<open>account\<close> is a user name and a password, both stripped.\<close>

definition create_personnel ::
  "crypt \<Rightarrow> database \<Rightarrow> current_user \<Rightarrow> personnel_input \<Rightarrow> (database \<times> int) http" where
  "create_personnel crypt db user payload =
    bindE (require_role_or_capability Role_hr Manage_personnel db user) (\<lambda>_.
    bindE (text_field 50 (pi_personnel_code payload)) (\<lambda>code.
    bindE (text_field 200 (pi_full_name payload)) (\<lambda>full.
    bindE (text_field 150 (pi_job_title payload)) (\<lambda>title.
    bindE (text_field 150 (pi_org_unit payload)) (\<lambda>unit.
    bindE (raise_if (pi_contract_end_date payload \<le> pi_contract_start_date payload)
             (HTTPException 422 ''contract'')) (\<lambda>_.
     (let account = map_option (map_prod strip strip) (pi_account payload)
      in bindE (raise_if (case account of None \<Rightarrow> False
                  | Some (name, password) \<Rightarrow> \<not> username_ok name \<or> length password < PASSWORD_MIN_LENGTH)
                  (HTTPException 422 ''account'')) (\<lambda>_.
         bindE (raise_if (find (\<lambda>p. personnel_code p = code) (t_personnel db) \<noteq> None)
                  (HTTPException 400 ''code taken'')) (\<lambda>_.
         bindE (raise_if (case account of None \<Rightarrow> False | Some (name, _) \<Rightarrow> find_username db name \<noteq> None)
                  (HTTPException 400 ''user name taken'')) (\<lambda>_.
          (let k = next_id personnel_id (t_personnel db);
               p = \<lparr>personnel_id = k, personnel_code = code, personnel_full_name = full, job_title = title,
                     is_manager = pi_is_manager payload, org_unit = unit,
                     contract_start_date = pi_contract_start_date payload,
                     contract_end_date = pi_contract_end_date payload, p_status = Personnel_active,
                     separation_date = None, p_separation_reason = None\<rparr>;
               db1 = log_event (cu_id user) ''personnel_created'' None None
                  (Some [(''id'', JInt k), (''personnel_code'', JString code), (''full_name'', JString full)])
                  (add_personnel p db)
           in Inr (case account of
                None \<Rightarrow> (db1, k)
              | Some (name, password) \<Rightarrow>
                 (let u = new_user crypt db1 name password Role_employee (Some k) None
                  in (log_event (cu_id user) ''user_created'' None None
                       (Some [(''id'', JInt (user_id u)), (''username'', JString name),
                              (''role'', jstr (role_value Role_employee)), (''personnel_id'', JInt k),
                              (''created_with_personnel'', JBool True)]) (add_user u db1), k))))))))))))))"

fun separation_value :: "separation_reason \<Rightarrow> string" where
  "separation_value Resignation = ''resignation''"
| "separation_value Dismissal = ''dismissal''"
| "separation_value Contract_end = ''contract_end''"
| "separation_value Retirement = ''retirement''"
| "separation_value Other_reason = ''other''"

fun personnel_status_value :: "personnel_status \<Rightarrow> string" where
  "personnel_status_value Personnel_active = ''active''"
| "personnel_status_value Personnel_inactive = ''inactive''"

definition close_out_departure :: "env \<Rightarrow> database \<Rightarrow> personnel \<Rightarrow> current_user \<Rightarrow> database http" where
  "close_out_departure env db p user =
    (let reason = (case p_separation_reason p of None \<Rightarrow> [8212] | Some x \<Rightarrow> ascii (separation_value x))
     in bindE (case find (\<lambda>r. subject_personnel_id r = personnel_id p \<and> is_open r) (t_evaluations db) of
               None \<Rightarrow> Inr db
             | Some r \<Rightarrow>
                apply_transition env
                  (log_event (cu_id user) ''evaluation_cancelled_on_separation'' (Some (record_id r))
                     (Some [(''status'', jstr (status_value (status r)))])
                     (Some [(''separation_reason'', JString reason)])
                     (add_comment env (record_id r) (cu_id user) None Hr_review
                        (ascii ''separation: '' @ reason) db))
                  r Cancel_on_separation user None) (\<lambda>db1.
        Inr (case find (\<lambda>u. user_personnel_id u = Some (personnel_id p)) (t_users db1) of
               None \<Rightarrow> db1
             | Some u \<Rightarrow>
                (let db2 = (if \<not> user_is_active u then db1
                     else log_event (cu_id user) ''user_deactivated_on_separation'' None
                       (Some [(''username'', JString (username u)), (''is_active'', JBool True)])
                       (Some [(''username'', JString (username u)), (''is_active'', JBool False)])
                       (revoke_all_for_user env (user_id u)
                         (put_user (u\<lparr>user_is_active := False, token_version := token_version u + 1\<rparr>) db1)))
                 in fst (notify_vacated_seats env (user_id u) db2)))))"

record personnel_update =
  pu_personnel_code :: "utext option option"
  pu_full_name :: "utext option option"
  pu_job_title :: "utext option option"
  pu_is_manager :: "bool option option"
  pu_org_unit :: "utext option option"
  pu_contract_start_date :: "int option option"
  pu_contract_end_date :: "int option option"
  pu_status :: "personnel_status option option"
  pu_separation_reason :: "separation_reason option option"
  pu_separation_date :: "int option option"

definition clean_text :: "nat \<Rightarrow> utext option option \<Rightarrow> utext option option http" where
  "clean_text m x = (case x of Some (Some t) \<Rightarrow> bindE (text_field m t) (\<lambda>s. Inr (Some (Some s))) | y \<Rightarrow> Inr y)"

definition clean_update :: "personnel_update \<Rightarrow> personnel_update http" where
  "clean_update up =
    bindE (clean_text 50 (pu_personnel_code up)) (\<lambda>code.
    bindE (clean_text 200 (pu_full_name up)) (\<lambda>full.
    bindE (clean_text 150 (pu_job_title up)) (\<lambda>title.
    bindE (clean_text 150 (pu_org_unit up)) (\<lambda>unit.
    Inr (up\<lparr>pu_personnel_code := code, pu_full_name := full, pu_job_title := title, pu_org_unit := unit\<rparr>)))))"

text \<open>The fields of an update that are given, as \<open>str\<close> writes their old values and as JSON writes the new.\<close>

definition old_field :: "string \<Rightarrow> 'a option option \<Rightarrow> json \<Rightarrow> jdict" where
  "old_field name new old = (if new = None then [] else [(name, old)])"

definition old_values :: "personnel_update \<Rightarrow> personnel \<Rightarrow> jdict" where
  "old_values up p =
    old_field ''personnel_code'' (pu_personnel_code up) (JString (personnel_code p)) @
    old_field ''full_name'' (pu_full_name up) (JString (personnel_full_name p)) @
    old_field ''job_title'' (pu_job_title up) (JString (job_title p)) @
    old_field ''is_manager'' (pu_is_manager up) (jstr (if is_manager p then ''True'' else ''False'')) @
    old_field ''org_unit'' (pu_org_unit up) (JString (org_unit p)) @
    old_field ''contract_start_date'' (pu_contract_start_date up) (jstr (isodate (contract_start_date p))) @
    old_field ''contract_end_date'' (pu_contract_end_date up) (jstr (isodate (contract_end_date p))) @
    old_field ''status'' (pu_status up) (jstr (personnel_status_value (p_status p))) @
    old_field ''separation_reason'' (pu_separation_reason up)
      (jstr (case p_separation_reason p of None \<Rightarrow> ''None'' | Some x \<Rightarrow> separation_value x)) @
    old_field ''separation_date'' (pu_separation_date up)
      (jstr (case separation_date p of None \<Rightarrow> ''None'' | Some d \<Rightarrow> isodate d))"

definition new_field :: "string \<Rightarrow> ('a \<Rightarrow> json) \<Rightarrow> 'a option option \<Rightarrow> jdict" where
  "new_field name f new = (case new of None \<Rightarrow> [] | Some x \<Rightarrow> [(name, jopt f x)])"

definition new_values :: "personnel_update \<Rightarrow> jdict" where
  "new_values up =
    new_field ''personnel_code'' JString (pu_personnel_code up) @
    new_field ''full_name'' JString (pu_full_name up) @
    new_field ''job_title'' JString (pu_job_title up) @
    new_field ''is_manager'' JBool (pu_is_manager up) @
    new_field ''org_unit'' JString (pu_org_unit up) @
    new_field ''contract_start_date'' (\<lambda>d. jstr (isodate d)) (pu_contract_start_date up) @
    new_field ''contract_end_date'' (\<lambda>d. jstr (isodate d)) (pu_contract_end_date up) @
    new_field ''status'' (\<lambda>x. jstr (personnel_status_value x)) (pu_status up) @
    new_field ''separation_reason'' (\<lambda>x. jstr (separation_value x)) (pu_separation_reason up) @
    new_field ''separation_date'' (\<lambda>d. jstr (isodate d)) (pu_separation_date up)"

text \<open>Leaving needs a reason and gets today's date; coming back clears both.\<close>

definition with_separation :: "env \<Rightarrow> bool \<Rightarrow> personnel_update \<Rightarrow> personnel_update" where
  "with_separation env leaving up =
    (let up1 = (if leaving \<and> given_value (pu_separation_date up) = None
                then up\<lparr>pu_separation_date := Some (Some (today env))\<rparr> else up)
     in if given_value (pu_status up) = Some Personnel_active
        then up1\<lparr>pu_separation_date := Some None, pu_separation_reason := Some None\<rparr> else up1)"

definition apply_update :: "personnel_update \<Rightarrow> personnel \<Rightarrow> personnel http" where
  "apply_update up p =
    bindE (set_column (pu_contract_start_date up) (contract_start_date p)) (\<lambda>first.
    bindE (set_column (pu_contract_end_date up) (contract_end_date p)) (\<lambda>last.
    bindE (raise_if (last \<le> first) (HTTPException 400 ''contract'')) (\<lambda>_.
    bindE (set_column (pu_personnel_code up) (personnel_code p)) (\<lambda>code.
    bindE (set_column (pu_full_name up) (personnel_full_name p)) (\<lambda>full.
    bindE (set_column (pu_job_title up) (job_title p)) (\<lambda>title.
    bindE (set_column (pu_is_manager up) (is_manager p)) (\<lambda>manager.
    bindE (set_column (pu_org_unit up) (org_unit p)) (\<lambda>unit.
    bindE (set_column (pu_status up) (p_status p)) (\<lambda>stat.
    Inr (p\<lparr>personnel_code := code, personnel_full_name := full, job_title := title, is_manager := manager,
           org_unit := unit, contract_start_date := first, contract_end_date := last, p_status := stat,
           p_separation_reason := set_nullable (pu_separation_reason up) (p_separation_reason p),
           separation_date := set_nullable (pu_separation_date up) (separation_date p)\<rparr>))))))))))"

definition clear_supervisor_of_manager :: "personnel \<Rightarrow> current_user \<Rightarrow> database \<Rightarrow> database" where
  "clear_supervisor_of_manager p user db =
    (if \<not> is_manager p then db
     else case find_access db (personnel_id p) of
       None \<Rightarrow> db
     | Some a \<Rightarrow>
        (case acc_unit_supervisor_user_id a of
           None \<Rightarrow> db
         | Some old \<Rightarrow>
            log_event (cu_id user) ''access_supervisor_cleared_on_manager_title'' None
              (Some [(''unit_supervisor_user_id'', JInt old)])
              (Some [(''unit_supervisor_user_id'', JNull), (''personnel_id'', JInt (personnel_id p))])
              (db\<lparr>t_access := row_put acc_id (a\<lparr>acc_unit_supervisor_user_id := None,
                 acc_updated_by_user_id := Some (cu_id user)\<rparr>) (t_access db)\<rparr>)))"

definition update_personnel ::
  "env \<Rightarrow> database \<Rightarrow> current_user \<Rightarrow> int \<Rightarrow> personnel_update \<Rightarrow> database http" where
  "update_personnel env db user k payload =
    bindE (require_role_or_capability Role_hr Manage_personnel db user) (\<lambda>_.
    bindE (clean_update payload) (\<lambda>up.
    bindE (or_raise (get_personnel db k) (HTTPException 404 ''no such person'')) (\<lambda>p.
    bindE (raise_if (case given_value (pu_personnel_code up) of None \<Rightarrow> False
             | Some c \<Rightarrow> c \<noteq> personnel_code p \<and> find (\<lambda>x. personnel_code x = c) (t_personnel db) \<noteq> None)
             (HTTPException 400 ''code taken'')) (\<lambda>_.
    bindE (raise_if (pu_is_manager up \<noteq> None \<and> given_value (pu_is_manager up) \<noteq> Some (is_manager p) \<and>
               find (\<lambda>r. subject_personnel_id r = personnel_id p \<and> is_open r) (t_evaluations db) \<noteq> None)
             (HTTPException 400 ''open record'')) (\<lambda>_.
     (let leaving = (given_value (pu_status up) = Some Personnel_inactive \<and> p_status p \<noteq> Personnel_inactive)
      in bindE (raise_if (leaving \<and> given_value (pu_separation_reason up) = None)
                  (HTTPException 400 ''separation reason'')) (\<lambda>_.
          (let up1 = with_separation env leaving up
           in bindE (apply_update up1 p) (\<lambda>p1.
               (let db1 = log_event (cu_id user) ''personnel_updated'' None (Some (old_values up1 p))
                      (Some ([(''id'', JInt k)] @ new_values up)) (put_personnel p1 db)
                in bindE (if leaving then close_out_departure env db1 p1 user else Inr db1) (\<lambda>db2.
                   Inr (clear_supervisor_of_manager p1 user db2))))))))))))"

end
