(* ===== verification/Organization.thy ===== *)
theory Organization
  imports EvaluationSystem Bulk Staff
begin

text \<open>
  The invariants of the whole database, records and organization together, and what every operation
  of the system keeps: requests on records, opening records in bulk, and changes of people, accounts
  and chains.
\<close>

section \<open>The invariant of the records\<close>

definition one_open_each :: "evaluation_record list \<Rightarrow> bool" where
  "one_open_each rows \<longleftrightarrow> (\<forall>x \<in> set rows. \<forall>y \<in> set rows.
    is_open x \<and> is_open y \<and> subject_personnel_id x = subject_personnel_id y \<longrightarrow> x = y)"

definition scores_wf :: "evaluation_score list \<Rightarrow> bool" where
  "scores_wf rows \<longleftrightarrow> distinct (map score_key rows) \<and> (\<forall>s \<in> set rows. 1 \<le> score s \<and> score s \<le> 5)"

definition records_wf :: "evaluation_record list \<Rightarrow> bool" where
  "records_wf rows \<longleftrightarrow>
    distinct (map record_id rows) \<and> distinct (map evaluation_code rows) \<and> one_open_each rows \<and>
    (\<forall>r \<in> set rows. record_wf r)"

definition system_wf :: "database \<Rightarrow> bool" where
  "system_wf db \<longleftrightarrow> records_wf (t_evaluations db) \<and> scores_wf (t_scores db) \<and> log_wf db"

lemma records_wf_put:
  assumes "records_wf rows" and r: "r \<in> set rows" and move: "record_move r r'"
  shows "records_wf (row_put record_id r' rows)"
proof -
  note keeps = record_move_keeps [OF move]
  have wf: "record_wf r'" using assms by (auto simp: records_wf_def intro: record_move_wf)
  have code: "map evaluation_code (row_put record_id r' rows) = map evaluation_code rows"
  proof -
    have "x = r" if "x \<in> set rows" "record_id x = record_id r" for x
      using assms(1) r that by (auto simp: records_wf_def distinct_map inj_on_def)
    then show ?thesis using keeps by (auto simp: row_put_def)
  qed
  have "one_open_each (row_put record_id r' rows)"
    unfolding one_open_each_def
  proof (intro ballI impI)
    fix x y
    assume x: "x \<in> set (row_put record_id r' rows)" and y: "y \<in> set (row_put record_id r' rows)"
      and both: "is_open x \<and> is_open y \<and> subject_personnel_id x = subject_personnel_id y"
    have other: "z \<in> set rows \<and> record_id z \<noteq> record_id r" if "z \<in> set (row_put record_id r' rows)" "z \<noteq> r'" for z
      using that keeps by (auto simp: row_put_def)
    have clash: False if "z \<in> set rows" "record_id z \<noteq> record_id r" "is_open z" "is_open r'"
      "subject_personnel_id z = subject_personnel_id r'" for z
      using that assms(1) r keeps by (auto simp: records_wf_def one_open_each_def)
    show "x = y"
    proof (rule ccontr)
      assume "x \<noteq> y"
      then consider "x = r'" "y \<noteq> r'" | "y = r'" "x \<noteq> r'" | "x \<noteq> r'" "y \<noteq> r'" by blast
      then show False
        using other [OF x] other [OF y] clash [of x] clash [of y] both assms(1) \<open>x \<noteq> y\<close>
        by cases (auto simp: records_wf_def one_open_each_def)
    qed
  qed
  then show ?thesis
    using assms(1) wf code by (auto simp: records_wf_def dest: set_row_put_subset)
qed

lemma moves_record_wf: "moves_record actor db k db' \<Longrightarrow> system_wf db \<Longrightarrow> system_wf db'"
  unfolding moves_record_def row_changed_def system_wf_def get_evaluation_def
  by (metis records_wf_put row_get_SomeD(1))

lemma system_wf_add:
  assumes "system_wf db" and "t_evaluations db' = t_evaluations db @ [r]" and "t_scores db' = t_scores db"
    and "log_wf db \<Longrightarrow> log_wf db'" and "record_id r = next_id record_id (t_evaluations db)"
    and "status r = Draft" and "voice_wf r" and "record_constraints db r"
  shows "system_wf db'"
proof -
  have "record_id r \<notin> record_id ` set (t_evaluations db)"
    using assms(5) next_id_not_in [of record_id "t_evaluations db"] by simp
  moreover have "is_open r" "record_wf r"
    using assms(6-8) by (auto simp: is_open_def OPEN_STATUSES_def record_wf_def stage_rules result_wf_def
        seats_wf_def record_constraints_def)
  ultimately have "records_wf (t_evaluations db @ [r])"
    using assms(1,8)
    by (auto simp: system_wf_def records_wf_def record_constraints_def one_open_each_def)
  then show ?thesis using assms(1-4) by (simp add: system_wf_def)
qed

lemma create_wf:
  assumes "create_evaluation env db user p = Inr (db', k)" and "system_wf db"
  shows "system_wf db'"
proof -
  obtain r where fresh: "fresh_record db user p r" and con: "record_constraints db r"
    and t: "t_evaluations db' = t_evaluations db @ [r]" "t_scores db' = t_scores db" "log_wf db \<Longrightarrow> log_wf db'"
    by (rule create_evaluation_InrD [OF assms(1)]) blast
  show ?thesis
    using fresh by (intro system_wf_add [OF assms(2) t _ _ _ con]) (simp_all add: fresh_record_def voice_wf_def)
qed

lemma save_scores_wf:
  assumes "upsert_scores db user k items = Inr db'" and "system_wf db"
  shows "system_wf db'"
proof -
  obtain rows where ok: "list_all score_input_ok items"
    and t: "t_evaluations db' = t_evaluations db" "t_scores db' = rows" "sheet_of k rows = set items"
      "\<And>j. j \<noteq> k \<Longrightarrow> scores_of db' j = scores_of db j"
      "distinct (map score_key (t_scores db)) \<Longrightarrow> distinct (map score_key rows)"
      "log_wf db \<Longrightarrow> log_wf db'"
    by (rule upsert_scores_InrD [OF assms(1)]) blast
  have "1 \<le> score s \<and> score s \<le> 5" if s: "s \<in> set rows" for s
  proof (cases "score_record_id s = k")
    case True
    then have "input_of_score s \<in> set items" using s t(3) by (auto simp: sheet_of_def)
    then have "score_input_ok (input_of_score s)" using ok by (auto simp: list_all_iff)
    then show ?thesis by (simp add: score_input_ok_def input_of_score_def)
  next
    case False
    then have "s \<in> set (scores_of db (score_record_id s))"
      using s t(2) t(4) [OF False, symmetric] by (simp add: scores_of_def)
    then show ?thesis using assms(2) by (auto simp: scores_of_def system_wf_def scores_wf_def)
  qed
  then show ?thesis using assms(2) t by (auto simp: system_wf_def scores_wf_def)
qed

section \<open>The invariant of the organization\<close>

definition links :: "database \<Rightarrow> (int \<times> int option) list" where
  "links db = map (\<lambda>u. (user_id u, user_personnel_id u)) (t_users db)"

lemma may_sit_links:
  "may_sit db u p \<longleftrightarrow> u \<in> fst ` set (links db) \<and> (u, Some p) \<notin> set (links db)"
  by (auto simp: may_sit_def links_def image_iff)

fun seats_in :: "int option \<times> int option \<times> int \<Rightarrow> int set" where
  "seats_in (supervisor, deputy, ceo) = set_option supervisor \<union> set_option deputy \<union> {ceo}"

definition sits :: "database \<Rightarrow> int \<Rightarrow> int option \<times> int option \<times> int \<Rightarrow> bool" where
  "sits db p ch \<longleftrightarrow> (\<forall>u \<in> seats_in ch. may_sit db u p)"

definition access_chain :: "evaluation_access \<Rightarrow> int option \<times> int option \<times> int" where
  "access_chain a = (acc_unit_supervisor_user_id a, acc_deputy_user_id a, acc_ceo_user_id a)"

definition access_wf :: "database \<Rightarrow> evaluation_access \<Rightarrow> bool" where
  "access_wf db a \<longleftrightarrow> chain_is_sound a \<and> sits db (acc_personnel_id a) (access_chain a)"

definition org_wf :: "database \<Rightarrow> bool" where
  "org_wf db \<longleftrightarrow>
    distinct (map fst (links db)) \<and> distinct (map personnel_id (t_personnel db)) \<and>
    distinct (map acc_id (t_access db)) \<and> distinct (map acc_personnel_id (t_access db)) \<and>
    (\<forall>a \<in> set (t_access db). access_wf db a) \<and>
    (\<forall>r \<in> set (t_evaluations db). sits db (subject_personnel_id r) (chain_of r)) \<and> codes_ahead_free db"

lemma sits_cong: "links db' = links db \<Longrightarrow> sits db' = sits db"
  by (simp add: sits_def may_sit_links fun_eq_iff split: prod.splits)

lemma access_wf_cong: "links db' = links db \<Longrightarrow> access_wf db' = access_wf db"
  by (rule ext) (simp add: access_wf_def sits_cong [of db' db])

lemma codes_cong:
  "t_evaluations db' = t_evaluations db \<Longrightarrow> t_code_seq db' = t_code_seq db \<Longrightarrow> codes_ahead_free db' = codes_ahead_free db"
  by (simp add: codes_ahead_free_def)

lemma org_wf_same:
  assumes "links db' = links db" and "map personnel_id (t_personnel db') = map personnel_id (t_personnel db)"
    and "t_access db' = t_access db" and "t_evaluations db' = t_evaluations db" and "t_code_seq db' = t_code_seq db"
  shows "org_wf db' = org_wf db"
  by (simp only: org_wf_def assms sits_cong [OF assms(1)] access_wf_cong [OF assms(1)] codes_cong [OF assms(4,5)])

lemma links_same: "t_users db' = t_users db \<Longrightarrow> links db' = links db"
  by (simp add: links_def)

lemma org_wf_moved:
  assumes "org_wf db" and "same_people db db'" and "t_evaluations db' = row_put record_id r' (t_evaluations db)"
    and r: "r \<in> set (t_evaluations db)" and move: "record_move r r'" and chain: "keeps_chain db r r'"
  shows "org_wf db'"
proof -
  have l: "links db' = links db" using assms(2) by (intro links_same) simp
  note keeps = record_move_keeps [OF move]
  have "sits db (subject_personnel_id r) (chain_of r)" using assms(1) r by (simp add: org_wf_def)
  then have "sits db (subject_personnel_id r') (chain_of r')"
    using chain keeps unfolding keeps_chain_def
  proof (elim disjE exE conjE)
    fix field u
    assume "sits db (subject_personnel_id r) (chain_of r)" "r' = set_seat field u r" "field \<noteq> Hr_user_id"
      "may_sit db u (subject_personnel_id r)"
    then show ?thesis by (cases field) (auto simp: sits_def chain_of_def)
  qed simp
  moreover have "codes_ahead_free db'"
    using assms(1-3) keeps r by (auto simp: org_wf_def codes_ahead_free_def dest: set_row_put_subset)
  ultimately show ?thesis
    using assms(1-3) by (auto simp: org_wf_def l sits_cong [OF l] access_wf_cong [OF l] dest: set_row_put_subset)
qed

lemma org_wf_added:
  assumes "org_wf db" and "t_users db' = t_users db" and "t_access db' = t_access db"
    and "t_personnel db' = t_personnel db" and "t_code_seq db' = t_code_seq db + 1"
    and "t_evaluations db' = t_evaluations db @ [r]" and "a \<in> set (t_access db)"
    and "subject_personnel_id r = acc_personnel_id a" and "chain_of r = access_chain a"
    and "evaluation_code r = evaluation_code_of (t_code_seq db + 1)"
  shows "org_wf db'"
proof -
  have l: "links db' = links db" using assms(2) by (intro links_same) simp
  have "sits db (subject_personnel_id r) (chain_of r)"
    using assms(1,7-9) by (simp add: org_wf_def access_wf_def)
  moreover have "codes_ahead_free db'"
    using codes_ahead_free_add [of db r] assms(1,5,6,10)
    by (simp add: org_wf_def codes_ahead_free_def add_evaluation_def)
  ultimately show ?thesis
    using assms(1,3,4,6) by (auto simp: org_wf_def l sits_cong [OF l] access_wf_cong [OF l])
qed

lemma create_org:
  assumes "create_evaluation env db user p = Inr (db', k)" and "org_wf db"
  shows "org_wf db'"
proof -
  obtain r person access where p: "get_personnel db p = Some person"
    and a: "find (\<lambda>a. acc_personnel_id a = personnel_id person) (t_access db) = Some access"
    and fresh: "fresh_record db user p r" and t: "t_evaluations db' = t_evaluations db @ [r]"
    and chain: "unit_supervisor_user_id r = acc_unit_supervisor_user_id access"
      "deputy_user_id r = acc_deputy_user_id access" "ceo_user_id r = acc_ceo_user_id access"
    and people: "t_users db' = t_users db" "t_access db' = t_access db" "t_personnel db' = t_personnel db"
      "t_code_seq db' = t_code_seq db + 1" "evaluation_code r = evaluation_code_of (t_code_seq db + 1)"
    by (rule create_evaluation_InrD [OF assms(1)]) blast
  have "access \<in> set (t_access db)" "acc_personnel_id access = p"
    using find_row [OF a] p by (simp_all add: get_personnel_def row_get_SomeD(2))
  then show ?thesis
    using fresh chain people
    by (intro org_wf_added [OF assms(2) people(1-4) t]) (simp_all add: fresh_record_def chain_of_def access_chain_def)
qed

section \<open>The contract of an operation\<close>

text \<open>
  No record disappears, and what is to last of each of them lasts; the scores of a closed one do.
\<close>

definition records_endure :: "database \<Rightarrow> database \<Rightarrow> bool" where
  "records_endure db db' \<longleftrightarrow> (\<forall>k r. get_evaluation db k = Some r \<longrightarrow>
    (\<exists>r'. get_evaluation db' k = Some r' \<and> endures r r') \<and> (is_open r \<or> scores_of db' k = scores_of db k))"

definition whole_wf :: "database \<Rightarrow> bool" where
  "whole_wf db \<longleftrightarrow> system_wf db \<and> org_wf db"

locale system_operation =
  fixes step :: "database \<Rightarrow> database \<Rightarrow> bool"
  assumes keeps_whole: "step db db' \<Longrightarrow> whole_wf db \<Longrightarrow> whole_wf db'"
    and keeps_closed: "step db db' \<Longrightarrow> whole_wf db \<Longrightarrow> records_endure db db'"

lemma records_endure_refl: "records_endure db db"
  by (auto simp: records_endure_def)

lemma records_endure_trans:
  assumes "records_endure db1 db2" and "records_endure db2 db3"
  shows "records_endure db1 db3"
  unfolding records_endure_def
proof (intro allI impI)
  fix k r
  assume "get_evaluation db1 k = Some r"
  then obtain q where q: "get_evaluation db2 k = Some q" "endures r q" "is_open r \<or> scores_of db2 k = scores_of db1 k"
    using assms(1) unfolding records_endure_def by blast
  from q(1) obtain p where p: "get_evaluation db3 k = Some p" "endures q p" "is_open q \<or> scores_of db3 k = scores_of db2 k"
    using assms(2) unfolding records_endure_def by blast
  have "is_open r \<or> \<not> is_open q" using q(2) without_voice_open [of q r] unfolding endures_def by blast
  with p(3) q(3) have "is_open r \<or> scores_of db3 k = scores_of db1 k" by auto
  with p(1) endures_trans [OF q(2) p(2)]
  show "(\<exists>r'. get_evaluation db3 k = Some r' \<and> endures r r') \<and> (is_open r \<or> scores_of db3 k = scores_of db1 k)"
    by blast
qed

context system_operation begin

lemma run_keeps:
  assumes "rtranclp step db db'" and "whole_wf db"
  shows "whole_wf db' \<and> records_endure db db'"
  using assms
  by (induction rule: rtranclp_induct)
    (auto intro: records_endure_refl records_endure_trans keeps_whole keeps_closed)

end

section \<open>Operations on records\<close>

lemma row_changed_org:
  assumes "row_changed actor db r r' db'" and "record_move r r'" and "org_wf db"
  shows "org_wf db'"
proof -
  have "r \<in> set (t_evaluations db)"
    using assms(1) by (auto simp: row_changed_def get_evaluation_def dest: row_get_SomeD(1))
  then show ?thesis
    using assms unfolding row_changed_def by (intro org_wf_moved [OF assms(3)]) blast+
qed

lemma moves_record_closed:
  assumes "moves_record actor db k db'"
  shows "records_endure db db'"
  unfolding records_endure_def
proof (intro allI impI)
  fix j r
  assume r: "get_evaluation db j = Some r"
  obtain x x' where x: "get_evaluation db k = Some x" "row_changed actor db x x' db'" "record_move x x'"
    using assms unfolding moves_record_def by blast
  have t: "t_evaluations db' = row_put record_id x' (t_evaluations db)" "t_scores db' = t_scores db"
    "record_id x' = record_id x" "record_id x = k"
    using x(2) get_evaluation_id [OF x(1)] by (simp_all add: row_changed_def)
  have "\<exists>r'. get_evaluation db' j = Some r' \<and> endures r r'"
  proof (cases "j = k")
    case True
    then have "r = x" using x(1) r by simp
    moreover have "get_evaluation db' j = Some x'"
      using x(1) t True by (metis get_evaluation_def row_get_put_same)
    ultimately show ?thesis using record_move_endures [OF x(3)] by blast
  next
    case False
    then have "get_evaluation db' j = Some r" using t r by (simp add: get_evaluation_def)
    then show ?thesis by simp
  qed
  then show "(\<exists>r'. get_evaluation db' j = Some r' \<and> endures r r') \<and> (is_open r \<or> scores_of db' j = scores_of db j)"
    using t(2) by (simp add: scores_of_def)
qed

lemma moves_record_operation:
  assumes "moves_record actor db k db'" and "whole_wf db"
  shows "whole_wf db' \<and> records_endure db db'"
proof -
  obtain r r' where "row_changed actor db r r' db'" "record_move r r'"
    using assms(1) unfolding moves_record_def by blast
  then show ?thesis
    using assms moves_record_wf moves_record_closed row_changed_org unfolding whole_wf_def by blast
qed

text \<open>Rows that are added leave the closed records alone.\<close>

lemma added_closed:
  assumes "t_evaluations db' = t_evaluations db @ rs" and "t_scores db' = t_scores db"
  shows "records_endure db db'"
  using assms
  by (auto simp: records_endure_def get_evaluation_def row_get_append scores_of_def split: option.splits)

lemma unchanged_closed:
  assumes "t_evaluations db' = t_evaluations db" and "t_scores db' = t_scores db"
  shows "records_endure db db'"
  using assms by (intro added_closed [of db' db "[]"]) simp_all

lemma create_operation:
  assumes "create_evaluation env db user p = Inr (db', k)" and "whole_wf db"
  shows "whole_wf db' \<and> records_endure db db'"
proof -
  obtain r where "t_evaluations db' = t_evaluations db @ [r]" "t_scores db' = t_scores db"
    by (rule create_evaluation_InrD [OF assms(1)]) blast
  then show ?thesis
    using assms(2) create_wf [OF assms(1)] create_org [OF assms(1)] added_closed
    unfolding whole_wf_def by blast
qed

lemma save_scores_operation:
  assumes "upsert_scores db user k items = Inr db'" and "whole_wf db"
  shows "whole_wf db' \<and> records_endure db db'"
proof -
  obtain r rows where r: "get_evaluation db k = Some r" "status r = Draft"
    and t: "t_evaluations db' = t_evaluations db" "same_people db db'"
    and other: "\<And>j. j \<noteq> k \<Longrightarrow> scores_of db' j = scores_of db j"
    by (rule upsert_scores_InrD [OF assms(1)]) blast
  have "org_wf db'" using assms(2) t org_wf_same [of db' db] links_same [of db' db] by (simp add: whole_wf_def)
  moreover have "records_endure db db'"
    unfolding records_endure_def
  proof (intro allI impI)
    fix j q
    assume q: "get_evaluation db j = Some q"
    then have "j \<noteq> k \<or> is_open q" using r by (auto simp: is_open_def OPEN_STATUSES_def)
    then show "(\<exists>r'. get_evaluation db' j = Some r' \<and> endures q r') \<and> (is_open q \<or> scores_of db' j = scores_of db j)"
      using q t(1) other by (auto simp: get_evaluation_def)
  qed
  ultimately show ?thesis
    using assms(2) save_scores_wf [OF assms(1)] by (simp add: whole_wf_def)
qed

lemma request_operation:
  assumes "handle env user q db = Inr db'" and "whole_wf db"
  shows "whole_wf db' \<and> records_endure db db'"
proof (cases "request_record q")
  case None
  then obtain p where "q = Create_record p" by (cases q) auto
  then show ?thesis using assms create_operation by auto
next
  case (Some k)
  show ?thesis
  proof (cases "\<exists>items. q = Save_scores k items")
    case True
    then show ?thesis using assms save_scores_operation by auto
  next
    case False
    then show ?thesis
      using assms Some moves_record_operation request_moves_record by blast
  qed
qed

interpretation requests: system_operation "\<lambda>db db'. \<exists>env user q. handle env user q db = Inr db'"
  by unfold_locales (use request_operation in blast)+

lemma open_record_for_in:
  assumes "open_record_for db p = Some r"
  shows "r \<in> set (t_evaluations db) \<and> status r = Draft"
proof -
  have "r \<in> set (rev (sort_key created_at
      (filter (\<lambda>r. subject_personnel_id r = p \<and> status r \<in> set SELF_ASSESSMENT_OPEN_STATUSES) (t_evaluations db))))"
    using assms by (auto simp: open_record_for_def simp del: set_rev set_sort split: list.splits)
  then show ?thesis by (simp add: SELF_ASSESSMENT_OPEN_STATUSES_def)
qed

lemma invite_operation:
  assumes "invite_to_self_assessment env db user p = Inr db'" and "whole_wf db"
  shows "whole_wf db' \<and> records_endure db db'"
proof -
  obtain q r db1 r1 where inv: "invite env db q (cu_id user) = Inr (db1, r1)" and db': "db' = db1"
    using assms(1) by (auto simp: invite_to_self_assessment_def)
  obtain us event link new r where r: "open_record_for db q = Some r" "self_assessment_submitted_at r = None"
    and out: "log_event (cu_id user) event (Some (record_id r)) None new
        (notify env us ''self_assessment_invited'' (Some (record_id r)) link
          (put_evaluation (r\<lparr>self_assessment_invited_at := Some (now env),
             self_assessment_invited_by_user_id := Some (cu_id user)\<rparr>) db)) = db1"
    using inv unfolding invite_def Let_def by (simp del: if_split split del: if_split) blast
  have "r \<in> set (t_evaluations db)" "status r = Draft"
    using open_record_for_in [OF r(1)] by simp_all
  then have get: "get_evaluation db (record_id r) = Some r"
    using assms(2)
    by (simp add: get_evaluation_def whole_wf_def system_wf_def records_wf_def row_get_distinct)
  have "moves_record (cu_id user) db (record_id r) db1"
    unfolding out [symmetric] using \<open>status r = Draft\<close> r(2)
    by (intro moves_recordI [OF get record_move.invited])
      (auto simp: only_messages_tables [OF notify_messages] log_wf_messages [OF notify_messages])
  then show ?thesis unfolding db' using assms(2) by (rule moves_record_operation)
qed

interpretation invitations: system_operation "\<lambda>db db'. \<exists>env user p. invite_to_self_assessment env db user p = Inr db'"
  by unfold_locales (use invite_operation in blast)+

section \<open>Changes outside the records\<close>

text \<open>Everything that the invariants of the records read, unchanged.\<close>

definition same_records :: "database \<Rightarrow> database \<Rightarrow> bool" where
  "same_records db db' \<longleftrightarrow> t_evaluations db' = t_evaluations db \<and> t_scores db' = t_scores db \<and>
    t_code_seq db' = t_code_seq db \<and> (log_wf db \<longrightarrow> log_wf db')"

lemma same_records_operation:
  assumes "same_records db db'" and "whole_wf db" and "org_wf db \<Longrightarrow> org_wf db'"
  shows "whole_wf db' \<and> records_endure db db'"
  using assms unchanged_closed [of db' db] by (simp add: same_records_def whole_wf_def system_wf_def)

lemma same_records_messages: "only_messages db1 db2 \<Longrightarrow> same_records db db2 = same_records db db1"
  by (simp add: same_records_def only_messages_tables log_wf_messages)

definition same_organization :: "database \<Rightarrow> database \<Rightarrow> bool" where
  "same_organization db db' \<longleftrightarrow> links db' = links db \<and> t_access db' = t_access db \<and>
    map personnel_id (t_personnel db') = map personnel_id (t_personnel db)"

lemma elsewhere_operation:
  assumes "same_records db db' \<and> same_organization db db'" and "whole_wf db"
  shows "whole_wf db' \<and> records_endure db db'"
proof (rule same_records_operation [OF conjunct1 [OF assms(1)] assms(2)])
  have "org_wf db' = org_wf db"
    using assms(1) by (intro org_wf_same) (simp_all add: same_records_def same_organization_def)
  then show "org_wf db \<Longrightarrow> org_wf db'" by simp
qed

interpretation elsewhere: system_operation "\<lambda>db db'. same_records db db' \<and> same_organization db db'"
  by unfold_locales (use elsewhere_operation in blast)+

section \<open>The set of indicators\<close>

text \<open>A change of the set of indicators rebinds the records nobody has started.\<close>

definition reframes :: "database \<Rightarrow> database \<Rightarrow> bool" where
  "reframes db db' \<longleftrightarrow> (\<exists>actor kind remark db1 framework n.
    bump actor kind remark db = (db1, framework) \<and> rebind_untouched_open_records framework db1 = (db', n))"

lemma row_get_map:
  "(\<And>x. key (f x) = key x) \<Longrightarrow> row_get key (map f rows) k = map_option f (row_get key rows k)"
  by (induction rows) auto

lemma reframes_operation:
  assumes "reframes db db'" and "whole_wf db"
  shows "whole_wf db' \<and> records_endure db db'"
proof -
  obtain actor kind remark db1 framework n where b: "bump actor kind remark db = (db1, framework)"
    and reb: "rebind_untouched_open_records framework db1 = (db', n)"
    using assms(1) by (auto simp: reframes_def)
  define f where "f r = (if rebinds db1 framework r
    then r\<lparr>indicator_framework_id := Some (framework_id framework)\<rparr> else r)" for r
  have t1: "t_evaluations db1 = t_evaluations db" "t_scores db1 = t_scores db" "t_audit_log db1 = t_audit_log db"
    "t_users db1 = t_users db" "t_access db1 = t_access db" "t_personnel db1 = t_personnel db"
    "t_code_seq db1 = t_code_seq db"
    using b by (auto simp: bump_def Let_def)
  have db': "db' = db1\<lparr>t_evaluations := map f (t_evaluations db)\<rparr>"
    using reb t1 by (auto simp: rebind_untouched_open_records_def f_def [abs_def])
  have f: "record_id (f r) = record_id r" "evaluation_code (f r) = evaluation_code r"
    "is_open (f r) = is_open r" "subject_personnel_id (f r) = subject_personnel_id r"
    "record_wf (f r) = record_wf r" "chain_of (f r) = chain_of r" for r
    by (auto simp: f_def is_open_def record_wf_def stage_rules seats_wf_def result_wf_def has_result_def
        voice_wf_def chain_of_def)
  have closed: "endures r (f r)" for r by (auto simp: f_def rebinds_def endures_def)
  have "log_wf db' = log_wf db" by (rule log_wf_cong) (simp add: db' t1)
  then have "system_wf db'"
    using assms(2) by (auto simp: whole_wf_def system_wf_def records_wf_def one_open_each_def db' comp_def f t1)
  moreover have l: "links db' = links db" by (rule links_same) (simp add: db' t1)
  have t': "t_evaluations db' = map f (t_evaluations db)" "t_access db' = t_access db"
    "t_personnel db' = t_personnel db" "t_code_seq db' = t_code_seq db"
    by (simp_all add: db' t1)
  have "org_wf db'"
    using assms(2)
    by (simp add: whole_wf_def org_wf_def sits_cong [OF l] access_wf_cong [OF l] l codes_ahead_free_def f t')
  moreover have "records_endure db db'"
    using row_get_map [of record_id f, OF f(1)] closed
    by (auto simp: records_endure_def db' get_evaluation_def scores_of_def t1)
  ultimately show ?thesis by (simp add: whole_wf_def)
qed

interpretation frameworks: system_operation reframes
  by unfold_locales (use reframes_operation in blast)+

section \<open>Bulk creation\<close>

lemma create_planned_operation:
  assumes "create_planned env rules hr_subjects (db, ps) p = Inr (db', ps')" and "whole_wf db"
  shows "whole_wf db' \<and> records_endure db db'"
proof (cases "to_create p")
  case False
  then have "db' = db" using assms(1) by (simp add: create_planned_def split: prod.splits)
  then show ?thesis using assms(2) records_endure_refl by simp
next
  case True
  obtain per scheme framework where rules: "rules = (per, scheme, framework)" by (meson prod_cases3)
  obtain a where a: "access_by_person db (pp_personnel_id p) = Some a"
    using assms(1) True by (auto simp: create_planned_def rules)
  define r where "r = new_record env (next_id record_id (t_evaluations db)) (evaluation_code_of (t_code_seq db + 1)) a
    (pp_personnel_id p) per scheme framework (pp_personnel_id p \<in> set hr_subjects)"
  let ?db1 = "db\<lparr>t_code_seq := t_code_seq db + 1\<rparr>"
  have access: "a \<in> set (t_access db)" "acc_personnel_id a = pp_personnel_id p"
    using find_row [OF a [unfolded access_by_person_def]] by simp_all
  have seq: "whole_wf ?db1" "records_endure db ?db1"
  proof -
    have "log_wf ?db1 = log_wf db" by (rule log_wf_cong) simp
    moreover have "codes_ahead_free ?db1" if "codes_ahead_free db"
      using that by (fastforce simp: codes_ahead_free_def)
    moreover have l: "links ?db1 = links db" by (rule links_same) simp
    ultimately show "whole_wf ?db1"
      using assms(2) by (simp add: whole_wf_def system_wf_def org_wf_def sits_cong [OF l] access_wf_cong [OF l] l)
    show "records_endure db ?db1" by (rule unchanged_closed) simp_all
  qed
  show ?thesis
  proof (cases "record_constraints ?db1 r")
    case False
    then have "db' = ?db1"
      using assms(1) True a by (simp add: create_planned_def rules next_evaluation_code_def Let_def r_def)
    then show ?thesis using seq by simp
  next
    case True
    then have db': "db' = add_evaluation r ?db1"
      using assms(1) \<open>to_create p\<close> a by (simp add: create_planned_def rules next_evaluation_code_def Let_def r_def)
    have "record_constraints db r" using True by (simp add: record_constraints_def)
    then have "system_wf db'"
      using assms(2) log_wf_cong [of db' db]
      by (intro system_wf_add [of db db' r]) (simp_all add: whole_wf_def db' r_def new_record_def voice_wf_def)
    moreover have "org_wf db'"
      using assms(2) access
      by (intro org_wf_added [of db db' r a])
        (simp_all add: whole_wf_def db' r_def new_record_def chain_of_def access_chain_def)
    moreover have "records_endure db db'" by (rule added_closed [of _ _ "[r]"]) (simp_all add: db')
    ultimately show ?thesis by (simp add: whole_wf_def)
  qed
qed

lemma run_bulk_operation:
  assumes "run_bulk_create env db user cohort = Inr (db', plans)" and "whole_wf db"
  shows "whole_wf db' \<and> records_endure db db'"
proof -
  obtain c counts db1 where ex: "execute env db c = Inr (db1, plans)"
    and db': "db' = fold (\<lambda>u. notify env [u] ''bulk_evaluations_assigned'' None (Some ''/'')) (assignees plans)
      (log_event (cu_id user) ''evaluations_bulk_created'' None None counts db1)"
    using assms(1) by (auto simp: run_bulk_create_def Let_def)
  obtain db2 f where e: "ensure_framework db = (db2, f)" by (meson surj_pair)
  have t: "t_evaluations db2 = t_evaluations db" "t_scores db2 = t_scores db" "t_audit_log db2 = t_audit_log db"
    "same_people db db2"
    by (rule ensure_framework_tables [OF e])+
  have start: "whole_wf db2 \<and> records_endure db db2"
    using assms(2) t org_wf_same [of db2 db] links_same [of db2 db] log_wf_cong [of db2 db]
    by (intro same_records_operation) (simp_all add: same_records_def)
  obtain rules hr ps where fold: "foldE (create_planned env rules hr) (db2, []) ps = Inr (db1, plans)"
    using ex by (auto simp: execute_def e Let_def)
  have "whole_wf (fst (db1, plans)) \<and> records_endure db (fst (db1, plans))"
  proof (rule foldE_invariant [where P = "\<lambda>x. whole_wf (fst x) \<and> records_endure db (fst x)", OF _ _ fold])
    show "whole_wf (fst (db2, [])) \<and> records_endure db (fst (db2, []))" using start by simp
  next
    fix x :: "database \<times> person_plan list" and p y
    assume "create_planned env rules hr x p = Inr y" "whole_wf (fst x) \<and> records_endure db (fst x)"
    then show "whole_wf (fst y) \<and> records_endure db (fst y)"
      using create_planned_operation [of env rules hr "fst x" "snd x" p "fst y" "snd y"] records_endure_trans by auto
  qed
  moreover have m: "only_messages (log_event (cu_id user) ''evaluations_bulk_created'' None None counts db1) db'"
    unfolding db' by (rule only_messages_fold) (rule notify_messages)
  have "whole_wf db' \<and> records_endure db1 db'" if "whole_wf db1"
    using that org_wf_same [of db' db1] links_same [of db' db1]
    by (intro same_records_operation)
      (auto simp: same_records_def only_messages_tables [OF m] log_wf_messages [OF m])
  ultimately show ?thesis using records_endure_trans by auto
qed

interpretation bulk: system_operation "\<lambda>db db'. \<exists>env user cohort plans. run_bulk_create env db user cohort = Inr (db', plans)"
  by unfold_locales (use run_bulk_operation in blast)+

section \<open>People, accounts and chains\<close>

lemma map_row_put:
  assumes "distinct (map key rows)" and "x \<in> set rows" and "key x' = key x" and "f x' = f x"
  shows "map f (row_put key x' rows) = map f rows"
proof -
  have "y = x" if "y \<in> set rows" "key y = key x" for y
    using assms(1,2) that by (auto simp: distinct_map dest: inj_onD)
  then show ?thesis using assms(3,4) by (auto simp: row_put_def)
qed

lemma same_records_refl [simp]: "same_records db db"
  by (simp add: same_records_def)

lemma same_records_log [intro]: "same_records db db1 \<Longrightarrow> same_records db (log_event a e r old new db1)"
  by (auto simp: same_records_def)

lemma same_records_trans: "same_records db1 db2 \<Longrightarrow> same_records db2 db3 \<Longrightarrow> same_records db1 db3"
  by (simp add: same_records_def)

lemma same_recordsI:
  "t_evaluations db' = t_evaluations db \<Longrightarrow> t_scores db' = t_scores db \<Longrightarrow> t_code_seq db' = t_code_seq db \<Longrightarrow>
    t_audit_log db' = t_audit_log db \<Longrightarrow> same_records db db'"
  using log_wf_cong [of db' db] by (simp add: same_records_def)

text \<open>Somebody who is seated on a chain of the person.\<close>

definition seated :: "database \<Rightarrow> int \<Rightarrow> int \<Rightarrow> bool" where
  "seated db u p \<longleftrightarrow>
    (\<exists>a \<in> set (t_access db). acc_personnel_id a = p \<and> u \<in> seats_in (access_chain a)) \<or>
    (\<exists>r \<in> set (t_evaluations db). subject_personnel_id r = p \<and> u \<in> seats_in (chain_of r))"

lemma seated_sits: "org_wf db \<Longrightarrow> seated db u p \<Longrightarrow> may_sit db u p"
  by (auto simp: org_wf_def seated_def access_wf_def sits_def)

lemma org_wf_links:
  assumes "org_wf db" and "t_access db' = t_access db" and "t_evaluations db' = t_evaluations db"
    and "t_code_seq db' = t_code_seq db" and "distinct (map fst (links db'))"
    and "distinct (map personnel_id (t_personnel db'))"
    and keep: "\<And>u p. seated db u p \<Longrightarrow> may_sit db u p \<Longrightarrow> may_sit db' u p"
  shows "org_wf db'"
proof -
  have k: "may_sit db' u p" if "seated db u p" for u p
    using keep [OF that seated_sits [OF assms(1) that]] .
  have "sits db' (acc_personnel_id a) (access_chain a)" if "a \<in> set (t_access db)" for a
    unfolding sits_def using that by (intro ballI k) (auto simp: seated_def)
  moreover have "sits db' (subject_personnel_id r) (chain_of r)" if "r \<in> set (t_evaluations db)" for r
    unfolding sits_def using that by (intro ballI k) (auto simp: seated_def)
  moreover have "codes_ahead_free db'"
    using assms(1,3,4) by (simp add: org_wf_def codes_ahead_free_def)
  ultimately show ?thesis using assms(1-6) by (simp add: org_wf_def access_wf_def)
qed

text \<open>The chain of one person is set.\<close>

lemma org_wf_chain:
  assumes "org_wf db" and "t_users db' = t_users db"
    and "map personnel_id (t_personnel db') = map personnel_id (t_personnel db)"
    and "t_evaluations db' = t_evaluations db" and "t_code_seq db' = t_code_seq db"
    and "access_wf db a"
    and "t_access db' = t_access db @ [a] \<and> acc_id a \<notin> acc_id ` set (t_access db) \<and>
        acc_personnel_id a \<notin> acc_personnel_id ` set (t_access db) \<or>
      (\<exists>b \<in> set (t_access db). acc_id a = acc_id b \<and> acc_personnel_id a = acc_personnel_id b \<and>
        t_access db' = row_put acc_id a (t_access db))"
  shows "org_wf db'"
proof -
  have l: "links db' = links db" using assms(2) by (rule links_same)
  have "codes_ahead_free db'" using assms(1,4,5) by (simp add: org_wf_def codes_ahead_free_def)
  then have "org_wf db'" if "distinct (map acc_id (t_access db'))" "distinct (map acc_personnel_id (t_access db'))"
    "set (t_access db') \<subseteq> insert a (set (t_access db))"
    using assms(1,3,4,6) that
    by (auto simp: org_wf_def l sits_cong [OF l] access_wf_cong [OF l])
  moreover have "distinct (map acc_id (t_access db))" "distinct (map acc_personnel_id (t_access db))"
    using assms(1) by (simp_all add: org_wf_def)
  moreover have "map acc_personnel_id (row_put acc_id a (t_access db)) = map acc_personnel_id (t_access db)"
    if "b \<in> set (t_access db)" "acc_id a = acc_id b" "acc_personnel_id a = acc_personnel_id b" for b
    using that assms(1) by (intro map_row_put [of acc_id _ b]) (simp_all add: org_wf_def)
  moreover have "set (row_put acc_id a (t_access db)) \<subseteq> insert a (set (t_access db))"
    by (auto dest: set_row_put_subset)
  ultimately show ?thesis using assms(7) by auto
qed

lemma active_evaluator:
  "ensure_active_user_with_role db r u = Inr () \<Longrightarrow> set_option u \<subseteq> user_id ` set (t_users db)"
  by (cases u) (auto simp: ensure_active_user_with_role_def get_user_def dest: row_get_SomeD)

lemma chain_sits:
  assumes "ensure_active_user_with_role db r1 s = Inr ()" and "ensure_active_user_with_role db r2 d = Inr ()"
    and "ensure_active_user_with_role db r3 (Some c) = Inr ()"
    and "ensure_evaluators_are_not_the_subject db p [s, d, Some c] = Inr ()"
  shows "sits db p (s, d, c)"
proof -
  have "user_personnel_id x \<noteq> Some p" if "x \<in> set (t_users db)" "user_id x \<in> seats_in (s, d, c)" for x
    using that assms(4) by (auto simp: not_the_subject_iff)
  moreover have "seats_in (s, d, c) \<subseteq> user_id ` set (t_users db)"
    using active_evaluator [OF assms(1)] active_evaluator [OF assms(2)] active_evaluator [OF assms(3)] by simp
  ultimately show ?thesis by (auto simp: sits_def may_sit_def)
qed

lemma find_access_row:
  "find_access db p = Some a \<Longrightarrow> a \<in> set (t_access db) \<and> acc_personnel_id a = p"
  unfolding find_access_def by (auto dest: find_row)

lemma find_access_None:
  "find_access db p = None \<Longrightarrow> p \<notin> acc_personnel_id ` set (t_access db)"
  by (auto simp: find_access_def find_None_iff)

lemma upsert_access_InrD:
  assumes "upsert_access db user k supervisor deputy ceo = Inr db'"
  obtains a where "access_wf db a" and "acc_personnel_id a = k" and "access_chain a = (supervisor, deputy, ceo)"
    and "(case find_access db k of
        None \<Rightarrow> t_access db' = t_access db @ [a] \<and> acc_id a = next_id acc_id (t_access db)
      | Some b \<Rightarrow> t_access db' = row_put acc_id a (t_access db) \<and> acc_id a = acc_id b)"
    and "same_records db db'" and "t_users db' = t_users db" and "t_personnel db' = t_personnel db"
proof -
  define a0 where "a0 = (case find_access db k of Some x \<Rightarrow> x
               | None \<Rightarrow> \<lparr>acc_id = next_id acc_id (t_access db), acc_personnel_id = k,
                    acc_unit_supervisor_user_id = None, acc_deputy_user_id = None, acc_ceo_user_id = ceo,
                    acc_updated_by_user_id = None\<rparr>)"
  define a where "a = a0\<lparr>acc_unit_supervisor_user_id := supervisor, acc_deputy_user_id := deputy,
                 acc_ceo_user_id := ceo, acc_updated_by_user_id := Some (cu_id user)\<rparr>"
  define db1 where "db1 = db\<lparr>t_access := (case find_access db k of None \<Rightarrow> t_access db @ [a]
                                | Some _ \<Rightarrow> row_put acc_id a (t_access db))\<rparr>"
  obtain old new where ok: "ensure_active_user_with_role db Role_unit_supervisor supervisor = Inr ()"
      "ensure_active_user_with_role db Role_deputy deputy = Inr ()"
      "ensure_active_user_with_role db Role_ceo (Some ceo) = Inr ()"
      "ensure_evaluators_are_not_the_subject db k [supervisor, deputy, Some ceo] = Inr ()"
      "ensure_chain_stages_are_not_redundant supervisor deputy (Some ceo) = Inr ()"
    and db': "db' = log_event (cu_id user) ''access_updated'' None old new db1"
    using assms unfolding upsert_access_def Let_def a0_def [symmetric] a_def [symmetric] db1_def [symmetric]
    by auto
  have "acc_personnel_id a0 = k" by (auto simp: a0_def dest: find_access_row split: option.split)
  then have a: "acc_personnel_id a = k" "access_chain a = (supervisor, deputy, ceo)"
    by (simp_all add: a_def access_chain_def)
  moreover have "access_wf db a"
    using ok(5) chain_sits [OF ok(1-4)] a by (auto simp: access_wf_def chain_is_sound_def redundant_iff access_chain_def)
  moreover have "same_records db db'"
    unfolding db' by (intro same_records_log same_recordsI) (simp_all add: db1_def)
  ultimately show ?thesis
    by (intro that) (auto simp: db' db1_def a_def a0_def split: option.split)
qed

lemma upsert_access_operation:
  assumes "upsert_access db user k supervisor deputy ceo = Inr db'" and "whole_wf db"
  shows "whole_wf db' \<and> records_endure db db'"
proof -
  obtain a where a: "access_wf db a" "acc_personnel_id a = k"
    "case find_access db k of
        None \<Rightarrow> t_access db' = t_access db @ [a] \<and> acc_id a = next_id acc_id (t_access db)
      | Some b \<Rightarrow> t_access db' = row_put acc_id a (t_access db) \<and> acc_id a = acc_id b"
    and t: "same_records db db'" "t_users db' = t_users db" "t_personnel db' = t_personnel db"
    by (rule upsert_access_InrD [OF assms(1)]) blast
  have "t_access db' = t_access db @ [a] \<and> acc_id a \<notin> acc_id ` set (t_access db) \<and>
        acc_personnel_id a \<notin> acc_personnel_id ` set (t_access db) \<or>
      (\<exists>b \<in> set (t_access db). acc_id a = acc_id b \<and> acc_personnel_id a = acc_personnel_id b \<and>
        t_access db' = row_put acc_id a (t_access db))"
  proof (cases "find_access db k")
    case None
    then show ?thesis
      using a find_access_None [OF None] next_id_not_in [of acc_id "t_access db"] by simp
  next
    case (Some b)
    then show ?thesis using a find_access_row [OF Some] by auto
  qed
  note chain = this
  show ?thesis
    by (rule same_records_operation [OF t(1) assms(2)], erule org_wf_chain [OF _ _ _ _ _ a(1) chain])
      (use t in \<open>simp_all add: same_records_def\<close>)
qed

text \<open>A new account and a new person.\<close>

lemma org_wf_new_account:
  assumes "org_wf db" and "t_users db' = t_users db @ [u]" and "user_id u = next_id user_id (t_users db)"
    and "t_access db' = t_access db" and "t_evaluations db' = t_evaluations db"
    and "t_code_seq db' = t_code_seq db" and "distinct (map personnel_id (t_personnel db'))"
  shows "org_wf db'"
proof (rule org_wf_links [OF assms(1,4-6) _ assms(7)])
  have "user_id u \<notin> user_id ` set (t_users db)" unfolding assms(3) by (rule next_id_not_in)
  moreover have "distinct (map user_id (t_users db))"
    using assms(1) by (simp add: org_wf_def links_def comp_def)
  ultimately show "distinct (map fst (links db'))"
    by (simp add: links_def comp_def assms(2))
  fix v p
  assume "may_sit db v p"
  then show "may_sit db' v p"
    using \<open>user_id u \<notin> user_id ` set (t_users db)\<close> by (auto simp: may_sit_def assms(2))
qed

lemma default_capabilities_same [simp]:
  "same_records db1 (apply_default_hr_capabilities u db) = same_records db1 db"
  "t_users (apply_default_hr_capabilities u db) = t_users db"
  "t_access (apply_default_hr_capabilities u db) = t_access db"
  "t_personnel (apply_default_hr_capabilities u db) = t_personnel db"
  "t_evaluations (apply_default_hr_capabilities u db) = t_evaluations db"
  using log_wf_cong [of "apply_default_hr_capabilities u db" db]
  by (simp_all add: same_records_def apply_default_hr_capabilities_def Let_def)

lemma create_user_operation:
  assumes "create_user crypt db user name password r p full = Inr db'" and "whole_wf db"
  shows "whole_wf db' \<and> records_endure db db'"
proof -
  define u where "u = new_user crypt db name password r p
    (nonempty_text (Some (strip (case full of None \<Rightarrow> [] | Some t \<Rightarrow> t))))"
  define db1 where "db1 = (if r = Role_hr then apply_default_hr_capabilities (user_id u) (add_user u db) else add_user u db)"
  obtain new where db': "db' = log_event (cu_id user) ''user_created'' None None new db1"
    using assms(1) unfolding create_user_def Let_def u_def [symmetric] db1_def [symmetric] by auto
  have t: "t_users db1 = t_users db @ [u]" "t_access db1 = t_access db" "t_personnel db1 = t_personnel db"
    by (simp_all add: db1_def add_user_def)
  have same: "same_records db (add_user u db)"
    by (rule same_recordsI) (simp_all add: add_user_def)
  then have s: "same_records db db'" by (auto simp: db' db1_def)
  then have e: "t_evaluations db' = t_evaluations db" "t_code_seq db' = t_code_seq db"
    by (simp_all add: same_records_def)
  show ?thesis
    by (rule same_records_operation [OF s assms(2)], erule org_wf_new_account [where u = u])
      (use assms(2) t e in \<open>simp_all add: db' u_def new_user_def whole_wf_def org_wf_def\<close>)
qed

lemma create_personnel_InrD:
  assumes "create_personnel crypt db user payload = Inr (db', k)"
  obtains p new where "personnel_id p = k" and "k = next_id personnel_id (t_personnel db)"
    and "p_status p = Personnel_active"
    and "(case pi_account payload of
        None \<Rightarrow> db' = log_event (cu_id user) ''personnel_created'' None None new (add_personnel p db)
      | Some account \<Rightarrow> \<exists>u new2. user_id u = next_id user_id (t_users db) \<and> user_personnel_id u = Some k \<and>
          user_role u = Role_employee \<and>
          db' = log_event (cu_id user) ''user_created'' None None new2
            (add_user u (log_event (cu_id user) ''personnel_created'' None None new (add_personnel p db))))"
proof -
  obtain code full title unit where texts: "text_field 50 (pi_personnel_code payload) = Inr code"
    "text_field 200 (pi_full_name payload) = Inr full" "text_field 150 (pi_job_title payload) = Inr title"
    "text_field 150 (pi_org_unit payload) = Inr unit"
    using assms by (auto simp: create_personnel_def)
  define p where "p = \<lparr>personnel_id = next_id personnel_id (t_personnel db), personnel_code = code,
     personnel_full_name = full, job_title = title,
     is_manager = pi_is_manager payload, org_unit = unit,
     contract_start_date = pi_contract_start_date payload,
     contract_end_date = pi_contract_end_date payload, p_status = Personnel_active,
     separation_date = None, p_separation_reason = None\<rparr>"
  define new where "new = Some [(''id'', JInt (next_id personnel_id (t_personnel db))),
    (''personnel_code'', JString code), (''full_name'', JString full)]"
  define db1 where "db1 = log_event (cu_id user) ''personnel_created'' None None new (add_personnel p db)"
  have k: "k = next_id personnel_id (t_personnel db)"
    using assms texts
    by (auto simp: create_personnel_def Let_def p_def [symmetric] new_def [symmetric] db1_def [symmetric]
        split: option.splits)
  have none: "db' = db1" if "pi_account payload = None"
    using assms texts that
    by (auto simp: create_personnel_def Let_def p_def [symmetric] new_def [symmetric] db1_def [symmetric])
  have some: "\<exists>new2. db' = log_event (cu_id user) ''user_created'' None None new2
      (add_user (new_user crypt db1 (strip name) (strip password) Role_employee (Some k) None) db1)"
    if "pi_account payload = Some (name, password)" for name password
    using assms texts that k
    by (auto simp: create_personnel_def Let_def p_def [symmetric] new_def [symmetric] db1_def [symmetric])
  have u: "user_id (new_user crypt db1 n w Role_employee (Some k) None) = next_id user_id (t_users db)" for n w
    by (simp add: new_user_def db1_def add_personnel_def)
  show ?thesis
  proof (rule that [of p new])
    show "case pi_account payload of
        None \<Rightarrow> db' = log_event (cu_id user) ''personnel_created'' None None new (add_personnel p db)
      | Some account \<Rightarrow> \<exists>u new2. user_id u = next_id user_id (t_users db) \<and> user_personnel_id u = Some k \<and>
          user_role u = Role_employee \<and>
          db' = log_event (cu_id user) ''user_created'' None None new2
            (add_user u (log_event (cu_id user) ''personnel_created'' None None new (add_personnel p db)))"
    proof (cases "pi_account payload")
      case None
      then show ?thesis using none by (simp add: db1_def)
    next
      case (Some account)
      obtain name password where "account = (name, password)" by (meson surj_pair)
      then show ?thesis
        using Some some u [of "strip name" "strip password"]
        by (auto simp: db1_def [symmetric] new_user_def
            intro!: exI [of _ "new_user crypt db1 (strip name) (strip password) Role_employee (Some k) None"])
    qed
  qed (simp_all add: p_def k)
qed

lemma create_personnel_operation:
  assumes "create_personnel crypt db user payload = Inr (db', k)" and "whole_wf db"
  shows "whole_wf db' \<and> records_endure db db'"
proof -
  obtain p new where p: "personnel_id p = k" "k = next_id personnel_id (t_personnel db)"
    and out: "case pi_account payload of
        None \<Rightarrow> db' = log_event (cu_id user) ''personnel_created'' None None new (add_personnel p db)
      | Some account \<Rightarrow> \<exists>u new2. user_id u = next_id user_id (t_users db) \<and> user_personnel_id u = Some k \<and>
          user_role u = Role_employee \<and>
          db' = log_event (cu_id user) ''user_created'' None None new2
            (add_user u (log_event (cu_id user) ''personnel_created'' None None new (add_personnel p db)))"
    by (rule create_personnel_InrD [OF assms(1)]) blast
  let ?db1 = "log_event (cu_id user) ''personnel_created'' None None new (add_personnel p db)"
  have "same_records db (add_personnel p db)"
    by (rule same_recordsI) (simp_all add: add_personnel_def)
  then have s1: "same_records db ?db1" by (rule same_records_log)
  have "k \<notin> personnel_id ` set (t_personnel db)"
    unfolding p(2) by (rule next_id_not_in)
  then have d1: "distinct (map personnel_id (t_personnel ?db1))"
    using assms(2) p(1) by (simp add: add_personnel_def whole_wf_def org_wf_def)
  have w1: "whole_wf ?db1 \<and> records_endure db ?db1"
    by (rule same_records_operation [OF s1 assms(2)], erule org_wf_links [OF _ _ _ _ _ d1])
      (use assms(2) in \<open>simp_all add: add_personnel_def links_def may_sit_def whole_wf_def org_wf_def\<close>)
  show ?thesis
  proof (cases "pi_account payload")
    case None
    then show ?thesis using out w1 by simp
  next
    case (Some account)
    then obtain u new2 where u: "user_id u = next_id user_id (t_users ?db1)"
      and db': "db' = log_event (cu_id user) ''user_created'' None None new2 (add_user u ?db1)"
      using out by (auto simp: add_personnel_def)
    have "same_records ?db1 (add_user u ?db1)"
      by (rule same_recordsI) (simp_all add: add_user_def)
    then have s2: "same_records ?db1 db'" unfolding db' by (rule same_records_log)
    have "whole_wf db' \<and> records_endure ?db1 db'"
      by (rule same_records_operation [OF s2 conjunct1 [OF w1]], erule org_wf_new_account [OF _ _ u])
        (use d1 in \<open>simp_all add: db' add_user_def\<close>)
    then show ?thesis using w1 records_endure_trans by blast
  qed
qed

lemma put_user_tables [simp]:
  "t_evaluations (put_user u db) = t_evaluations db" "t_scores (put_user u db) = t_scores db"
  "t_code_seq (put_user u db) = t_code_seq db" "t_audit_log (put_user u db) = t_audit_log db"
  "t_access (put_user u db) = t_access db" "t_personnel (put_user u db) = t_personnel db"
  "t_users (put_user u db) = row_put user_id u (t_users db)"
  by (simp_all add: put_user_def)

lemma revoke_all_tables [simp]:
  "t_evaluations (revoke_all_for_user env u db) = t_evaluations db"
  "t_scores (revoke_all_for_user env u db) = t_scores db"
  "t_code_seq (revoke_all_for_user env u db) = t_code_seq db"
  "t_audit_log (revoke_all_for_user env u db) = t_audit_log db"
  "t_access (revoke_all_for_user env u db) = t_access db"
  "t_personnel (revoke_all_for_user env u db) = t_personnel db"
  "t_users (revoke_all_for_user env u db) = t_users db"
  by (simp_all add: revoke_all_for_user_def)

lemma default_capabilities_tables [simp]:
  "t_scores (apply_default_hr_capabilities u db) = t_scores db"
  "t_code_seq (apply_default_hr_capabilities u db) = t_code_seq db"
  "t_audit_log (apply_default_hr_capabilities u db) = t_audit_log db"
  by (simp_all add: apply_default_hr_capabilities_def Let_def)

lemma row_put_put [simp]: "key b = key a \<Longrightarrow> row_put key b (row_put key a rows) = row_put key b rows"
  by (simp add: row_put_def)

lemma update_user_InrD:
  assumes "update_user env crypt db user k up = Inr db'"
  obtains u u1 where "get_user db k = Some u" and "user_id u1 = user_id u"
    and "user_personnel_id u1 = set_nullable (uu_personnel_id up) (user_personnel_id u)"
    and "\<And>p. given_value (uu_personnel_id up) = Some p \<Longrightarrow> ensure_user_link_is_not_self_evaluation db u p = Inr ()"
    and "t_users db' = row_put user_id u1 (t_users db)" and "same_records db db'"
    and "t_access db' = t_access db" and "t_personnel db' = t_personnel db"
proof -
  define v where "v role active u = u\<lparr>user_role := role, user_is_active := active,
      user_personnel_id := set_nullable (uu_personnel_id up) (user_personnel_id u),
      user_full_name := set_nullable (uu_full_name up) (user_full_name u)\<rparr>" for role active and u :: user
  define db2 where "db2 role active u = (if user_role u \<noteq> Role_hr \<and> role = Role_hr
      then apply_default_hr_capabilities (user_id u) (put_user (v role active u) db) else put_user (v role active u) db)"
    for role active u
  define db3 where "db3 role active u = (case nonempty_text (given_value (uu_password up)) of
        None \<Rightarrow> db2 role active u
      | Some password \<Rightarrow> revoke_all_for_user env (user_id u)
           (put_user ((v role active u)\<lparr>password_hash := hash_password crypt password,
              token_version := token_version u + 1, must_change_password := True\<rparr>) (db2 role active u)))"
    for role active u
  obtain u role active old new where u: "get_user db k = Some u"
    and checked: "(case given_value (uu_personnel_id up) of None \<Rightarrow> Inr ()
        | Some p \<Rightarrow> bindE (raise_if (get_personnel db p = None) (HTTPException 400 ''no such person'')) (\<lambda>_.
            bindE (ensure_personnel_has_one_account db p (Some (user_id u))) (\<lambda>_.
            ensure_user_link_is_not_self_evaluation db u p))) = Inr ()"
    and db': "log_event (cu_id user) ''user_updated'' None old new (db3 role active u) = db'"
    using assms
    unfolding update_user_def Let_def v_def [symmetric] db2_def [symmetric] db3_def [symmetric]
    by (simp del: if_split split del: if_split) blast
  have link: "ensure_user_link_is_not_self_evaluation db u p = Inr ()" if "given_value (uu_personnel_id up) = Some p" for p
    using checked that by simp
  define u1 where "u1 = (case nonempty_text (given_value (uu_password up)) of
        None \<Rightarrow> v role active u
      | Some password \<Rightarrow> (v role active u)\<lparr>password_hash := hash_password crypt password,
              token_version := token_version u + 1, must_change_password := True\<rparr>)"
  have u1: "user_id u1 = user_id u"
      "user_personnel_id u1 = set_nullable (uu_personnel_id up) (user_personnel_id u)"
    by (simp_all add: u1_def v_def split: option.split)
  have ids: "user_id (v role active u) = user_id u" by (simp add: v_def)
  have t: "t_users db' = row_put user_id u1 (t_users db)" "t_access db' = t_access db"
    "t_personnel db' = t_personnel db"
    by (simp_all add: db' [symmetric] db3_def db2_def u1_def ids split: option.split)
  have "same_records db (db3 role active u)"
    by (rule same_recordsI) (simp_all add: db3_def db2_def split: option.split)
  then have "same_records db db'" unfolding db' [symmetric] by (rule same_records_log)
  with u u1 link t show ?thesis by (intro that) blast+
qed

lemma may_sit_put:
  assumes "t_users db' = row_put user_id u1 (t_users db)"
  shows "may_sit db' w p \<longleftrightarrow> w \<in> user_id ` set (t_users db) \<and> (\<forall>x \<in> set (t_users db). user_id x = w \<longrightarrow>
    (if w = user_id u1 then user_personnel_id u1 else user_personnel_id x) \<noteq> Some p)"
proof -
  have "user_id ` set (t_users db') = user_id ` set (t_users db)"
    by (simp add: assms flip: set_map)
  moreover have "(\<forall>x \<in> set (t_users db'). user_id x = w \<longrightarrow> user_personnel_id x \<noteq> Some p) \<longleftrightarrow>
      (\<forall>x \<in> set (t_users db). user_id x = w \<longrightarrow>
        (if w = user_id u1 then user_personnel_id u1 else user_personnel_id x) \<noteq> Some p)"
    unfolding assms row_put_def set_map ball_simps by (intro ball_cong refl) auto
  ultimately show ?thesis by (simp add: may_sit_def)
qed

lemma update_user_operation:
  assumes "update_user env crypt db user k up = Inr db'" and "whole_wf db"
  shows "whole_wf db' \<and> records_endure db db'"
proof -
  obtain u u1 where u: "get_user db k = Some u" "user_id u1 = user_id u"
      "user_personnel_id u1 = set_nullable (uu_personnel_id up) (user_personnel_id u)"
      "\<And>p. given_value (uu_personnel_id up) = Some p \<Longrightarrow> ensure_user_link_is_not_self_evaluation db u p = Inr ()"
    and t: "t_users db' = row_put user_id u1 (t_users db)" "same_records db db'"
      "t_access db' = t_access db" "t_personnel db' = t_personnel db"
    by (rule update_user_InrD [OF assms(1)]) blast
  have free: "\<not> seated db (user_id u) p" if "user_personnel_id u1 = Some p" "user_personnel_id u \<noteq> Some p" for p
  proof -
    have "given_value (uu_personnel_id up) = Some p"
      using that u(3) by (auto simp: set_nullable_def given_value_def split: option.splits)
    from u(4) [OF this] show ?thesis
      by (auto simp: ensure_user_link_is_not_self_evaluation_def find_None_iff seated_def access_chain_def
          chain_of_def)
  qed
  have keep: "may_sit db' w p" if s: "seated db w p" and "may_sit db w p" for w p
  proof (cases "w = user_id u")
    case True
    then have "user_personnel_id u \<noteq> Some p"
      using that(2) u(1) by (auto simp: may_sit_def get_user_def dest: row_get_SomeD)
    then have "user_personnel_id u1 \<noteq> Some p" using free s True by blast
    then show ?thesis
      using True that(2) u(2) unfolding may_sit_put [OF t(1)] by (simp add: may_sit_def)
  next
    case False
    then show ?thesis using that(2) u(2) unfolding may_sit_put [OF t(1)] by (simp add: may_sit_def)
  qed
  have d: "distinct (map fst (links db'))"
    using assms(2) by (simp add: whole_wf_def org_wf_def links_def comp_def t(1))
  show ?thesis
    by (rule same_records_operation [OF t(2) assms(2)], erule org_wf_links [OF _ t(3) _ _ d _ keep])
      (use t assms(2) in \<open>simp_all add: same_records_def whole_wf_def org_wf_def\<close>)
qed

lemma delete_user_operation:
  assumes "delete_user db user k = Inr db'" and "whole_wf db"
  shows "whole_wf db' \<and> records_endure db db'"
proof -
  obtain u :: user where free: "\<not> user_is_referenced db (user_id u)"
    and t: "t_users db' = filter (\<lambda>x. user_id x \<noteq> user_id u) (t_users db)" "t_access db' = t_access db"
      "t_personnel db' = t_personnel db" "t_evaluations db' = t_evaluations db" "t_scores db' = t_scores db"
      "t_code_seq db' = t_code_seq db" and log: "log_wf db \<Longrightarrow> log_wf db'"
  proof -
    define rest where "rest u = db\<lparr>t_sessions := filter (\<lambda>s. session_user_id s \<noteq> user_id u) (t_sessions db),
            t_notifications := filter (\<lambda>n. ntf_user_id n \<noteq> user_id u) (t_notifications db),
            t_deliveries := filter (\<lambda>d. dlv_notification_id d \<notin>
              set (map notification_id (filter (\<lambda>n. ntf_user_id n = user_id u) (t_notifications db)))) (t_deliveries db),
            t_capabilities := filter (\<lambda>c. cap_user_id c \<noteq> user_id u \<and> granted_by_user_id c \<noteq> Some (user_id u))
              (t_capabilities db),
            t_conversations := filter (\<lambda>c. conversation_user_id c \<noteq> user_id u) (t_conversations db),
            t_pending_actions := filter (\<lambda>a. pending_user_id a \<noteq> user_id u) (t_pending_actions db),
            t_users := filter (\<lambda>x. user_id x \<noteq> user_id u) (t_users db)\<rparr>" for u :: user
    obtain u old where u: "\<not> user_is_referenced db (user_id u)"
      and db': "db' = log_event (cu_id user) ''user_deleted'' None old None (rest u)"
      using assms(1) unfolding delete_user_def Let_def rest_def [symmetric] by auto
    have "log_wf (rest u) = log_wf db" by (rule log_wf_cong) (simp add: rest_def)
    then show thesis using u by (intro that [of u]) (auto simp: db' rest_def)
  qed
  have s: "same_records db db'" using t log by (simp add: same_records_def)
  have "w \<noteq> user_id u" if "seated db w p" for w p
    using that free
    by (auto simp: seated_def user_is_referenced_def access_chain_def chain_of_def list_ex_iff)
  then have keep: "may_sit db' w p" if "seated db w p" "may_sit db w p" for w p
    using that by (auto simp: may_sit_def t(1))
  have d: "distinct (map fst (links db'))"
    using assms(2) by (simp add: whole_wf_def org_wf_def links_def comp_def t(1) distinct_map_filter)
  show ?thesis
    by (rule same_records_operation [OF s assms(2)], erule org_wf_links [OF _ t(2,4,6) d _ keep])
      (use t assms(2) in \<open>simp_all add: whole_wf_def org_wf_def\<close>)
qed

lemma notify_counting_messages: "only_messages (fst acc) (fst (notify_counting env key link u acc))"
proof (cases acc)
  case (Pair db n)
  obtain db' x sent where "notify_once env u ''seats_vacated'' key (notification_dedup_days (cfg env)) None link None db =
      (db', x, sent)" by (meson prod_cases3)
  then show ?thesis
    using notify_once_messages [of db env u "''seats_vacated''" key "notification_dedup_days (cfg env)" None link None] Pair
    by (simp add: notify_counting_def)
qed

lemma fold_counting_messages:
  assumes "\<And>x acc. only_messages (fst acc) (fst (f x acc))"
  shows "only_messages (fst acc) (fst (fold f xs acc))"
proof (induction xs arbitrary: acc)
  case (Cons x xs)
  show ?case using only_messages_trans [OF assms Cons.IH] by simp
qed simp

lemma notify_vacated_seats_messages: "only_messages db (fst (notify_vacated_seats env u db))"
proof -
  have shielded: "only_messages d (fst (notify_shielded_seats env u seats d))" for seats d
    using fold_counting_messages [of "\<lambda>(k, own) acc.
        let record_ids = remdups (map occ_record_id own)
        in if (case get_user d k of None \<Rightarrow> False | Some usr \<Rightarrow> user_is_active usr)
           then notify_counting env (vacated_key u own)
                  (case record_ids of [i] \<Rightarrow> Some (''/evaluations/'' @ str_int i) | _ \<Rightarrow> None) k acc
           else acc" "(d, 0)"]
    by (simp add: notify_shielded_seats_def notify_counting_messages Let_def split: prod.splits)
  have counted: "only_messages db (fst (fold (notify_counting env key link) ids (db, 0)))" for key link ids
    using fold_counting_messages [of "notify_counting env key link" "(db, 0)"] notify_counting_messages by simp
  define acc where "acc = (if filter (\<lambda>s. \<not> occ_shielded s) (occupied_seats_in_open_records db u) = [] then (db, 0)
                else fold (notify_counting env (vacated_key u (filter (\<lambda>s. \<not> occ_shielded s) (occupied_seats_in_open_records db u)))
                       (Some (''/hr/queue?seat_user_id='' @ str_int u @ ''&tab=all'')))
                     (active_hr_ids db) (db, 0))"
  have "only_messages db (fst acc)" by (simp add: acc_def counted)
  then have "only_messages db (fst (notify_shielded_seats env u
      (filter occ_shielded (occupied_seats_in_open_records db u)) (fst acc)))"
    using shielded by (rule only_messages_trans)
  then show ?thesis
    unfolding notify_vacated_seats_def Let_def acc_def [symmetric] by (simp add: case_prod_beta)
qed

lemma elsewhereI:
  assumes "whole_wf db" and "same_records db db'" and "links db' = links db" and "t_access db' = t_access db"
    and "map personnel_id (t_personnel db') = map personnel_id (t_personnel db)"
  shows "whole_wf db' \<and> records_endure db db'"
  using assms by (intro elsewhere_operation) (simp_all add: same_organization_def)

lemma same_link:
  assumes "org_wf db" and "u \<in> set (t_users db)" and "user_id u1 = user_id u"
    and "user_personnel_id u1 = user_personnel_id u"
  shows "links (put_user u1 db) = links db"
proof -
  have "distinct (map user_id (t_users db))"
    using assms(1) by (simp add: org_wf_def links_def comp_def)
  from map_row_put [OF this assms(2,3), of "\<lambda>u. (user_id u, user_personnel_id u)"]
  show ?thesis using assms(3,4) by (simp add: links_def)
qed

lemma close_out_departure_InrD:
  assumes "close_out_departure env db p user = Inr db'"
  obtains db1 where "(case find (\<lambda>r. subject_personnel_id r = personnel_id p \<and> is_open r) (t_evaluations db) of
        None \<Rightarrow> db1 = db
      | Some r \<Rightarrow> \<exists>old new remark. apply_transition env
          (log_event (cu_id user) ''evaluation_cancelled_on_separation'' (Some (record_id r)) old new
            (add_comment env (record_id r) (cu_id user) None Hr_review remark db))
          r Cancel_on_separation user None = Inr db1)"
    and "(case find (\<lambda>u. user_personnel_id u = Some (personnel_id p)) (t_users db1) of
        None \<Rightarrow> db' = db1
      | Some u \<Rightarrow> \<exists>old new. db' = fst (notify_vacated_seats env (user_id u)
          (if \<not> user_is_active u then db1
           else log_event (cu_id user) ''user_deactivated_on_separation'' None old new
             (revoke_all_for_user env (user_id u)
               (put_user (u\<lparr>user_is_active := False, token_version := token_version u + 1\<rparr>) db1)))))"
proof -
  obtain db1 where db1: "(case find (\<lambda>r. subject_personnel_id r = personnel_id p \<and> is_open r) (t_evaluations db) of
        None \<Rightarrow> db1 = db
      | Some r \<Rightarrow> \<exists>old new remark. apply_transition env
          (log_event (cu_id user) ''evaluation_cancelled_on_separation'' (Some (record_id r)) old new
            (add_comment env (record_id r) (cu_id user) None Hr_review remark db))
          r Cancel_on_separation user None = Inr db1)"
    and db': "db' = (case find (\<lambda>u. user_personnel_id u = Some (personnel_id p)) (t_users db1) of
               None \<Rightarrow> db1
             | Some u \<Rightarrow> fst (notify_vacated_seats env (user_id u)
                (if \<not> user_is_active u then db1
                     else log_event (cu_id user) ''user_deactivated_on_separation'' None
                       (Some [(''username'', JString (username u)), (''is_active'', JBool True)])
                       (Some [(''username'', JString (username u)), (''is_active'', JBool False)])
                       (revoke_all_for_user env (user_id u)
                         (put_user (u\<lparr>user_is_active := False, token_version := token_version u + 1\<rparr>) db1)))))"
    using assms unfolding close_out_departure_def Let_def
    by (cases "find (\<lambda>r. subject_personnel_id r = personnel_id p \<and> is_open r) (t_evaluations db)"; simp) blast+
  show ?thesis
    by (rule that [OF db1]) (auto simp: db' split: option.split)
qed

lemma close_out_operation:
  assumes "close_out_departure env db p user = Inr db'" and "whole_wf db"
  shows "whole_wf db' \<and> records_endure db db'"
proof -
  obtain db1 where c: "case find (\<lambda>r. subject_personnel_id r = personnel_id p \<and> is_open r) (t_evaluations db) of
        None \<Rightarrow> db1 = db
      | Some r \<Rightarrow> \<exists>old new remark. apply_transition env
          (log_event (cu_id user) ''evaluation_cancelled_on_separation'' (Some (record_id r)) old new
            (add_comment env (record_id r) (cu_id user) None Hr_review remark db))
          r Cancel_on_separation user None = Inr db1"
    and d: "case find (\<lambda>u. user_personnel_id u = Some (personnel_id p)) (t_users db1) of
        None \<Rightarrow> db' = db1
      | Some u \<Rightarrow> \<exists>old new. db' = fst (notify_vacated_seats env (user_id u)
          (if \<not> user_is_active u then db1
           else log_event (cu_id user) ''user_deactivated_on_separation'' None old new
             (revoke_all_for_user env (user_id u)
               (put_user (u\<lparr>user_is_active := False, token_version := token_version u + 1\<rparr>) db1))))"
    by (rule close_out_departure_InrD [OF assms(1)])
  have one: "whole_wf db1 \<and> records_endure db db1"
  proof (cases "find (\<lambda>r. subject_personnel_id r = personnel_id p \<and> is_open r) (t_evaluations db)")
    case None
    then show ?thesis using c assms(2) by (simp add: records_endure_refl)
  next
    case (Some r)
    obtain old new remark where ap: "apply_transition env
          (log_event (cu_id user) ''evaluation_cancelled_on_separation'' (Some (record_id r)) old new
            (add_comment env (record_id r) (cu_id user) None Hr_review remark db))
          r Cancel_on_separation user None = Inr db1"
      using c Some by auto
    let ?db0 = "log_event (cu_id user) ''evaluation_cancelled_on_separation'' (Some (record_id r)) old new
            (add_comment env (record_id r) (cu_id user) None Hr_review remark db)"
    have "same_records db (add_comment env (record_id r) (cu_id user) None Hr_review remark db)"
      by (rule same_recordsI) simp_all
    then have "same_records db ?db0" by (rule same_records_log)
    then have zero: "whole_wf ?db0 \<and> records_endure db ?db0"
      using assms(2) by (intro elsewhereI) (simp_all add: links_def)
    have "r \<in> set (t_evaluations db)" using find_row(1) [OF Some] .
    then have get: "get_evaluation ?db0 (record_id r) = Some r"
      using assms(2) by (simp add: get_evaluation_def whole_wf_def system_wf_def records_wf_def row_get_distinct)
    have "moves_record (cu_id user) ?db0 (record_id r) db1"
      using ap get unfolding apply_transition_no_hook
      by (rule no_hook.transition_moves) (simp add: submit_actions_def)
    from moves_record_operation [OF this] zero show ?thesis using records_endure_trans by blast
  qed
  have "whole_wf db' \<and> records_endure db1 db'"
  proof (cases "find (\<lambda>u. user_personnel_id u = Some (personnel_id p)) (t_users db1)")
    case None
    then show ?thesis using d one by (simp add: records_endure_refl)
  next
    case (Some u)
    let ?u1 = "u\<lparr>user_is_active := False, token_version := token_version u + 1\<rparr>"
    obtain old new where db': "db' = fst (notify_vacated_seats env (user_id u)
          (if \<not> user_is_active u then db1
           else log_event (cu_id user) ''user_deactivated_on_separation'' None old new
             (revoke_all_for_user env (user_id u) (put_user ?u1 db1))))"
      using d Some by auto
    let ?db2 = "log_event (cu_id user) ''user_deactivated_on_separation'' None old new
             (revoke_all_for_user env (user_id u) (put_user ?u1 db1))"
    have "links (put_user ?u1 db1) = links db1"
      using one find_row(1) [OF Some] by (intro same_link [of _ u]) (simp_all add: whole_wf_def)
    then have l: "links ?db2 = links db1" by (simp add: links_def)
    have "same_records db1 (revoke_all_for_user env (user_id u) (put_user ?u1 db1))"
      by (rule same_recordsI) simp_all
    then have s: "same_records db1 ?db2" by (rule same_records_log)
    have m: "only_messages (if \<not> user_is_active u then db1 else ?db2) db'"
      unfolding db' by (rule notify_vacated_seats_messages)
    have "same_records db1 db'" "links db' = links db1" "t_access db' = t_access db1" "t_personnel db' = t_personnel db1"
      using s l by (simp_all add: same_records_messages [OF m] only_messages_tables [OF m] links_def)
    then show ?thesis using one by (intro elsewhereI) simp_all
  qed
  then show ?thesis using one records_endure_trans by blast
qed

lemma clear_supervisor_operation:
  assumes "whole_wf db"
  shows "whole_wf (clear_supervisor_of_manager p user db) \<and> records_endure db (clear_supervisor_of_manager p user db)"
proof (cases "clear_supervisor_of_manager p user db = db")
  case True
  then show ?thesis using assms by (simp add: records_endure_refl)
next
  case False
  then obtain a old where a: "find_access db (personnel_id p) = Some a" "acc_unit_supervisor_user_id a = Some old"
    and out: "clear_supervisor_of_manager p user db = log_event (cu_id user) ''access_supervisor_cleared_on_manager_title'' None
              (Some [(''unit_supervisor_user_id'', JInt old)])
              (Some [(''unit_supervisor_user_id'', JNull), (''personnel_id'', JInt (personnel_id p))])
              (db\<lparr>t_access := row_put acc_id (a\<lparr>acc_unit_supervisor_user_id := None,
                 acc_updated_by_user_id := Some (cu_id user)\<rparr>) (t_access db)\<rparr>)"
    by (auto simp: clear_supervisor_of_manager_def split: if_splits option.splits)
  let ?a = "a\<lparr>acc_unit_supervisor_user_id := None, acc_updated_by_user_id := Some (cu_id user)\<rparr>"
  have in_table: "a \<in> set (t_access db)" using find_access_row [OF a(1)] by simp
  then have "access_wf db a" using assms by (simp add: whole_wf_def org_wf_def)
  then have wf: "access_wf db ?a" by (simp add: access_wf_def chain_is_sound_def sits_def access_chain_def)
  have "same_records db (db\<lparr>t_access := row_put acc_id ?a (t_access db)\<rparr>)"
    by (rule same_recordsI) simp_all
  then have s: "same_records db (clear_supervisor_of_manager p user db)"
    unfolding out by (rule same_records_log)
  show ?thesis
    by (rule same_records_operation [OF s assms], erule org_wf_chain [OF _ _ _ _ _ wf])
      (use in_table in \<open>auto simp: out intro!: bexI [of _ a]\<close>)
qed

lemma apply_update_id: "apply_update up p = Inr p1 \<Longrightarrow> personnel_id p1 = personnel_id p"
  by (auto simp: apply_update_def)

lemma update_personnel_InrD:
  assumes "update_personnel env db user k payload = Inr db'"
  obtains up p p1 leaving old new db1 db2 where "get_personnel db k = Some p" and "clean_update payload = Inr up"
    and "leaving \<longleftrightarrow> given_value (pu_status up) = Some Personnel_inactive \<and> p_status p \<noteq> Personnel_inactive"
    and "leaving \<Longrightarrow> given_value (pu_separation_reason up) \<noteq> None"
    and "apply_update (with_separation env leaving up) p = Inr p1"
    and "db1 = log_event (cu_id user) ''personnel_updated'' None old new (put_personnel p1 db)"
    and "(if leaving then close_out_departure env db1 p1 user else Inr db1) = Inr db2"
    and "db' = clear_supervisor_of_manager p1 user db2"
  using assms unfolding update_personnel_def Let_def
  by (simp del: if_split split del: if_split) blast

lemma update_personnel_operation:
  assumes "update_personnel env db user k payload = Inr db'" and "whole_wf db"
  shows "whole_wf db' \<and> records_endure db db'"
proof -
  obtain up p p1 leaving old new db1 db2 where p: "get_personnel db k = Some p"
    and up: "apply_update (with_separation env leaving up) p = Inr p1"
    and db1: "db1 = log_event (cu_id user) ''personnel_updated'' None old new (put_personnel p1 db)"
    and db2: "(if leaving then close_out_departure env db1 p1 user else Inr db1) = Inr db2"
    and db': "db' = clear_supervisor_of_manager p1 user db2"
    by (rule update_personnel_InrD [OF assms(1)])
  have "same_records db (put_personnel p1 db)"
    by (rule same_recordsI) (simp_all add: put_personnel_def)
  then have "same_records db db1" unfolding db1 by (rule same_records_log)
  then have one: "whole_wf db1 \<and> records_endure db db1"
    using assms(2) by (intro elsewhereI) (simp_all add: db1 links_def put_personnel_def)
  have two: "whole_wf db2 \<and> records_endure db1 db2"
    using db2 one close_out_operation [of env db1 p1 user db2] records_endure_refl by (auto split: if_splits)
  then show ?thesis
    using one clear_supervisor_operation [of db2 p1 user] records_endure_trans unfolding db' by blast
qed

text \<open>The changes of people, accounts and chains.\<close>

inductive staff_step :: "database \<Rightarrow> database \<Rightarrow> bool" where
  chain: "upsert_access db user k supervisor deputy ceo = Inr db' \<Longrightarrow> staff_step db db'"
| account: "create_user crypt db user name password r p full = Inr db' \<Longrightarrow> staff_step db db'"
| changed: "update_user env crypt db user k up = Inr db' \<Longrightarrow> staff_step db db'"
| removed: "delete_user db user k = Inr db' \<Longrightarrow> staff_step db db'"
| hired: "create_personnel crypt db user payload = Inr (db', k) \<Longrightarrow> staff_step db db'"
| edited: "update_personnel env db user k change = Inr db' \<Longrightarrow> staff_step db db'"

lemma staff_operation:
  assumes "staff_step db db'" and "whole_wf db"
  shows "whole_wf db' \<and> records_endure db db'"
  using assms
proof (induction rule: staff_step.induct)
  case chain
  then show ?case by (rule upsert_access_operation)
next
  case account
  then show ?case by (rule create_user_operation)
next
  case changed
  then show ?case by (rule update_user_operation)
next
  case removed
  then show ?case by (rule delete_user_operation)
next
  case hired
  then show ?case by (rule create_personnel_operation)
next
  case edited
  then show ?case by (rule update_personnel_operation)
qed

interpretation staff: system_operation staff_step
  by unfold_locales (use staff_operation in blast)+

section \<open>The system\<close>

text \<open>
  One step of the system: a request on a record that succeeds, an invitation to a self-assessment, a
  bulk creation, a change of the set of indicators that rebinds open records, a change of people,
  accounts or chains, or anything that leaves the records, their scores, the links of the accounts,
  the people and the chains alone and writes the log through \<open>log_event\<close>.
\<close>

inductive system_step :: "database \<Rightarrow> database \<Rightarrow> bool" where
  served: "handle env user q db = Inr db' \<Longrightarrow> system_step db db'"
| invited: "invite_to_self_assessment env db user p = Inr db' \<Longrightarrow> system_step db db'"
| bulk: "run_bulk_create env db user cohort = Inr (db', plans) \<Longrightarrow> system_step db db'"
| reframed: "reframes db db' \<Longrightarrow> system_step db db'"
| staffed: "staff_step db db' \<Longrightarrow> system_step db db'"
| elsewhere: "same_records db db' \<Longrightarrow> same_organization db db' \<Longrightarrow> system_step db db'"

inductive_cases system_stepE: "system_step db db'"

lemma system_operation_step:
  assumes "system_step db db'" and "whole_wf db"
  shows "whole_wf db' \<and> records_endure db db'"
  using assms
proof (induction rule: system_step.induct)
  case (served env user q db db')
  then show ?case using requests.keeps_whole [of db db'] requests.keeps_closed [of db db'] by blast
next
  case (invited env db user p db')
  then show ?case using invitations.keeps_whole [of db db'] invitations.keeps_closed [of db db'] by blast
next
  case (bulk env db user cohort db' plans)
  then show ?case using bulk.keeps_whole [of db db'] bulk.keeps_closed [of db db'] by blast
next
  case (reframed db db')
  then show ?case using frameworks.keeps_whole frameworks.keeps_closed by blast
next
  case (staffed db db')
  then show ?case using staff.keeps_whole staff.keeps_closed by blast
next
  case (elsewhere db db')
  then show ?case using elsewhere.keeps_whole [of db db'] elsewhere.keeps_closed [of db db'] by blast
qed

interpretation system: system_operation system_step
  by unfold_locales (use system_operation_step in blast)+

inductive reachable :: "database \<Rightarrow> bool" where
  installed: "t_evaluations db = [] \<Longrightarrow> t_scores db = [] \<Longrightarrow> t_audit_log db = [] \<Longrightarrow> t_access db = [] \<Longrightarrow>
    t_code_seq db = 0 \<Longrightarrow> distinct (map user_id (t_users db)) \<Longrightarrow>
    distinct (map personnel_id (t_personnel db)) \<Longrightarrow> reachable db"
| step: "reachable db \<Longrightarrow> system_step db db' \<Longrightarrow> reachable db'"

lemma reachable_whole: "reachable db \<Longrightarrow> whole_wf db"
proof (induction rule: reachable.induct)
  case (installed db)
  then show ?case
    by (simp add: whole_wf_def system_wf_def records_wf_def one_open_each_def scores_wf_def log_wf_def
        org_wf_def links_def comp_def codes_ahead_free_def)
qed (rule system.keeps_whole)

lemma reachable_wf: "reachable db \<Longrightarrow> system_wf db"
  and reachable_org: "reachable db \<Longrightarrow> org_wf db"
  using reachable_whole by (simp_all add: whole_wf_def)

end
