(* ===== verification/SystemProperties.thy ===== *)
theory SystemProperties
  imports Organization
begin

text \<open>
  The invariants of the evaluation system in every reachable state, and what single requests
  guarantee.
\<close>

section \<open>Reachable states\<close>

lemma reachable_record_wf: "reachable db \<Longrightarrow> get_evaluation db k = Some r \<Longrightarrow> record_wf r"
  using reachable_wf [of db] row_get_SomeD(1) [of record_id "t_evaluations db" k r]
  by (simp add: system_wf_def records_wf_def get_evaluation_def)

lemma reachable_in_table:
  "reachable db \<Longrightarrow> r \<in> set (t_evaluations db) \<Longrightarrow> get_evaluation db (record_id r) = Some r"
  using reachable_wf [of db]
  by (simp add: system_wf_def records_wf_def get_evaluation_def row_get_distinct)

text \<open>
  C1. In every state the system can reach, a record is where its chain allows: one that skips human
  resources does not wait for them and one without supervisor does not wait for a deputy; nobody
  holds two neighbouring seats; a record beyond its draft has a complete result; a finalized one has
  its document and its date; only a finalized record is acknowledged, only an acknowledged
  one objected to, and only an objection answered.
\<close>

theorem records_always_wf:
  assumes "reachable db"
  shows "list_all (\<lambda>r.
    \<not> (hr_review_skipped r \<and> status r = Submitted) \<and>
    \<not> (unit_supervisor_user_id r = None \<and> status r = Hr_approved) \<and>
    (unit_supervisor_user_id r = None \<or> unit_supervisor_user_id r \<noteq> deputy_user_id r) \<and>
    deputy_user_id r \<noteq> Some (ceo_user_id r) \<and>
    (status r \<in> {Draft, Cancelled} \<or> has_result r) \<and>
    (status r \<noteq> Finalized \<or> final_snapshot r \<noteq> None \<and> finalized_at r \<noteq> None) \<and>
    (acknowledged_at r = None \<or> status r = Finalized) \<and> (objection_at r = None \<or> acknowledged_at r \<noteq> None) \<and>
    (objection_resolved_at r = None \<or> objection_at r \<noteq> None)) (t_evaluations db)"
  using reachable_wf [OF assms]
  by (auto simp: list_all_iff system_wf_def records_wf_def record_wf_def stage_wf_def seats_wf_def
      result_wf_def voice_wf_def awaits_no_hidden_review_def is_manager_path_def)

text \<open>
  C2. No one is ever evaluated twice at a time: in every reachable state each person is the subject of
  at most one open record, identifiers and codes of records are unique, a record has at most one score
  for an indicator, every score is from 1 to 5, and the audit log verifies.
\<close>

theorem one_open_record_per_person:
  assumes "reachable db"
  shows "length (filter (\<lambda>r. is_open r \<and> subject_personnel_id r = p) (t_evaluations db)) \<le> 1 \<and>
    distinct (map record_id (t_evaluations db)) \<and> distinct (map evaluation_code (t_evaluations db)) \<and>
    distinct (map (\<lambda>s. (score_record_id s, score_indicator_id s)) (t_scores db)) \<and>
    list_all (\<lambda>s. 1 \<le> score s \<and> score s \<le> 5) (t_scores db) \<and>
    map_sum id res_ok (verify_chain None False db) = Inr True"
proof -
  let ?open = "filter (\<lambda>r. is_open r \<and> subject_personnel_id r = p) (t_evaluations db)"
  have wf: "records_wf (t_evaluations db)" "scores_wf (t_scores db)" "log_wf db"
    using reachable_wf [OF assms] by (simp_all add: system_wf_def)
  have "distinct ?open"
    using wf(1) by (simp add: records_wf_def distinct_map)
  moreover have "x = y" if "x \<in> set ?open" "y \<in> set ?open" for x y
    using that wf(1) by (auto simp: records_wf_def one_open_each_def)
  then have "card (set ?open) \<le> Suc 0"
    unfolding card_le_Suc0_iff_eq [OF List.finite_set] by blast
  ultimately have "length ?open \<le> 1" by (simp flip: distinct_card)
  then show ?thesis
    using wf full_result_wf(1) [OF wf(3)]
    by (auto simp: records_wf_def scores_wf_def score_key_def [abs_def] list_all_iff verify_chain_full)
qed

section \<open>Nothing is stuck, nothing closed changes\<close>


lemma other_record_kept:
  "t_evaluations db' = row_put record_id r' (t_evaluations db) \<Longrightarrow> k \<noteq> record_id r' \<Longrightarrow>
    get_evaluation db' k = get_evaluation db k"
  by (simp add: get_evaluation_def)

lemma created_record_kept:
  "t_evaluations db' = t_evaluations db @ [x] \<Longrightarrow> get_evaluation db k = Some r \<Longrightarrow>
    get_evaluation db' k = Some r"
  by (simp add: get_evaluation_def row_get_append)

lemma changed_record: "row_changed actor db r r' db' \<Longrightarrow> get_evaluation db' (record_id r) = Some r'"
  unfolding row_changed_def get_evaluation_def by (metis row_get_put_same)

lemma get_after_row_changed:
  assumes "row_changed actor db q q' db'" and "get_evaluation db k = Some r"
  shows "if k = record_id q then r = q \<and> get_evaluation db' k = Some q' else get_evaluation db' k = Some r"
  using assms changed_record [OF assms(1)] other_record_kept [of db' q' db k]
  by (auto simp: row_changed_def)

text \<open>Where a request can leave a record that is there.\<close>

lemma served_record:
  assumes "handle env user q db = Inr db'" and "get_evaluation db k = Some r"
  obtains (same) "get_evaluation db' k = Some r" and "scores_of db' k = scores_of db k"
    | (scored) "get_evaluation db' k = Some r" and "status r = Draft" and "is_the_scorer r user"
    | (moved) r' where "get_evaluation db' k = Some r'" and "record_move r r'"
        and "row_changed (cu_id user) db r r' db'" and "scores_of db' k = scores_of db k"
proof (cases "request_record q")
  case None
  then obtain p where q: "q = Create_record p" by (cases q) auto
  with assms(1) obtain j where c: "create_evaluation env db user p = Inr (db', j)" by auto
  obtain x where "t_evaluations db' = t_evaluations db @ [x]" "t_scores db' = t_scores db"
    by (rule create_evaluation_InrD [OF c]) blast
  then show ?thesis
    using created_record_kept [OF _ assms(2)] by (intro same) (simp_all add: scores_of_def)
next
  case (Some j)
  show ?thesis
  proof (cases "\<exists>items. q = Save_scores j items")
    case True
    then obtain items where u: "upsert_scores db user j items = Inr db'"
      using assms(1) by auto
    obtain x where x: "get_evaluation db j = Some x" "status x = Draft" "is_the_scorer x user"
      "t_evaluations db' = t_evaluations db" "\<And>i. i \<noteq> j \<Longrightarrow> scores_of db' i = scores_of db i"
      by (rule upsert_scores_InrD [OF u]) blast
    have kept: "get_evaluation db' k = Some r" using x(4) assms(2) by (simp add: get_evaluation_def)
    show ?thesis
    proof (cases "k = j")
      case True
      with x assms(2) show ?thesis by (intro scored [OF kept]) simp_all
    next
      case False
      with x(5) show ?thesis by (intro same [OF kept]) simp
    qed
  next
    case False
    then have "moves_record (cu_id user) db j db'"
      using assms(1) Some by (blast intro: request_moves_record)
    then obtain x x' where x: "get_evaluation db j = Some x" "row_changed (cu_id user) db x x' db'" "record_move x x'"
      unfolding moves_record_def by blast
    have sc: "scores_of db' k = scores_of db k" using x(2) by (simp add: row_changed_def scores_of_def)
    show ?thesis
    proof (cases "k = record_id x")
      case True
      with get_after_row_changed [OF x(2) assms(2)] x sc show ?thesis by (intro moved [of x']) simp_all
    next
      case False
      with get_after_row_changed [OF x(2) assms(2)] sc show ?thesis by (intro same) simp_all
    qed
  qed
qed

text \<open>
  C4. What is closed stays as it is: however the system goes on after a record was finalized or
  cancelled, none of its scores changes, and nothing of the record does but what the person it is about
  adds and the answer to it: the acknowledgement, the objection and the answer. Each of these
  three is written at most once.
\<close>

theorem closed_records_never_change:
  assumes "reachable db" and "rtranclp system_step db db'" and "get_evaluation db k = Some r"
    and "\<not> is_open r"
  shows "\<exists>r'. get_evaluation db' k = Some r' \<and> scores_of db' k = scores_of db k \<and>
    r'\<lparr>acknowledged_at := None, acknowledged_by_user_id := None, objection_at := None,
      objection_reason := None, objection_resolved_at := None, objection_resolution := None,
      objection_resolved_by_user_id := None\<rparr> =
    r\<lparr>acknowledged_at := None, acknowledged_by_user_id := None, objection_at := None,
      objection_reason := None, objection_resolved_at := None, objection_resolution := None,
      objection_resolved_by_user_id := None\<rparr> \<and>
    (acknowledged_at r = None \<or> acknowledged_at r' = acknowledged_at r) \<and>
    (objection_at r = None \<or> objection_at r' = objection_at r \<and> objection_reason r' = objection_reason r) \<and>
    (objection_resolved_at r = None \<or> objection_resolved_at r' = objection_resolved_at r \<and>
      objection_resolution r' = objection_resolution r)"
proof -
  have "records_endure db db'"
    using system.run_keeps [OF assms(2) reachable_whole [OF assms(1)]] ..
  with assms(3,4) obtain r' where "get_evaluation db' k = Some r'" "without_voice r' = without_voice r"
    "voice_kept r r'" "scores_of db' k = scores_of db k"
    unfolding records_endure_def endures_def by blast
  then show ?thesis by (intro exI [of _ r']) (auto simp: without_voice_def voice_kept_def)
qed

section \<open>Nobody evaluates themselves\<close>


end
