(* ===== verification/RequestProperties.thy ===== *)
theory RequestProperties
  imports SystemProperties
begin

text \<open>
  What single requests guarantee: the log of status changes, saving of scores, submission, returns, the
  final document and objections.
\<close>

section \<open>The log\<close>

text \<open>
  C8. No status changes silently: whenever a request leaves a record with another status, the last
  row it writes to the audit log is a \<open>status_changed\<close> of that record, by the user of the request,
  with the status before and the status after.
\<close>

theorem every_status_change_is_logged:
  assumes "handle env user q db = Inr db'" and "get_evaluation db k = Some r"
    and "get_evaluation db' k = Some r'" and "status r' \<noteq> status r"
  shows "\<exists>rows row. t_audit_log db' = t_audit_log db @ rows @ [row] \<and>
    event_type row = ''status_changed'' \<and> actor_user_id row = cu_id user \<and>
    log_evaluation_record_id row = Some k \<and>
    old_value row = Some [(''status'', jstr (status_value (status r)))] \<and>
    new_value row = Some [(''status'', jstr (status_value (status r')))]"
  using assms(1,2)
proof (cases rule: served_record)
  case (moved x)
  with assms(3,4) have "logs_change (cu_id user) r (status r') db db'"
    by (simp add: row_changed_def)
  then show ?thesis using get_evaluation_id [OF assms(2)] by (simp add: logs_change_def)
qed (use assms(3,4) in simp_all)

section \<open>Human resources and their own records\<close>

lemma hr_is_not_the_scorer: "cu_role user = Role_hr \<Longrightarrow> \<not> is_the_scorer r user"
  by (auto simp: is_the_scorer_def scorer_seat_def Let_def scorer_field_def SEAT_ROLE_def split: if_splits)

lemmas hr_requests =
  upsert_scores_def set_evaluator_comment_def set_special_score_def submit_evaluation_def
  hr_approve_def deputy_approve_def ceo_finalize_def cancel_evaluation_def
  extend_submission_window_def hr_claim_def hr_handover_def reassign_stage_owner_def
  require_chain_stage_def hr_is_not_the_scorer ensure_may_administer_def

lemma objection_handled_by:
  assumes "resolve_objection env db user k given = Inr db'"
  obtains r where "get_evaluation db k = Some r" and "ensure_can_resolve_objection r user = Inr ()"
    and "objection_at r \<noteq> None" and "objection_resolved_at r = None"
    and "is_module_enabled db ''objections''"
  using assms by (auto simp: resolve_objection_def)

lemma can_resolve_handles: "ensure_can_resolve_objection r user = Inr () \<Longrightarrow> ensure_hr_may_handle r user = Inr ()"
  by (auto simp: ensure_can_resolve_objection_def Let_def split: option.splits)

lemma hr_request_handles:
  assumes "handle env user q db = Inr db'" and "request_record q = Some k" and "cu_role user = Role_hr"
    and "\<not> by_subject q"
  shows "\<exists>r. get_evaluation db k = Some r \<and> ensure_hr_may_handle r user = Inr ()"
proof (cases q)
  case (Return_record j given)
  with assms have "return_evaluation env db user k given = Inr db'" by simp
  then show ?thesis by (rule return_evaluation_InrD) blast
next
  case (Answer_objection j given)
  with assms have "resolve_objection env db user k given = Inr db'" by simp
  then show ?thesis by (rule objection_handled_by) (blast intro: can_resolve_handles)
qed (use assms in \<open>auto simp: hr_requests Let_def\<close>)

section \<open>Saving scores\<close>

text \<open>
  C12. Saving the sheet replaces it exactly: when it succeeds the user is the scorer of a draft, no
  indicator is given twice, all of them belong to the record, every score is from 1 to 5, and
  afterwards the record has the given scores and no others, all other records have theirs, and no
  record has changed.
\<close>

theorem saved_sheet_is_exact:
  assumes "upsert_scores db user k items = Inr db'"
  shows "\<exists>r. get_evaluation db k = Some r \<and> status r = Draft \<and> is_the_scorer r user \<and>
    distinct (map si_indicator_id items) \<and>
    si_indicator_id ` set items \<subseteq> indicator_id ` set (indicators_for_record db r) \<and>
    list_all (\<lambda>s. 1 \<le> si_score s \<and> si_score s \<le> 5) items \<and>
    (\<lambda>s. (score_indicator_id s, score s, evidence_text s)) ` set (scores_of db' k) =
      (\<lambda>i. (si_indicator_id i, si_score i, si_evidence_text i)) ` set items \<and>
    (\<forall>j. j = k \<or> scores_of db' j = scores_of db j) \<and> t_evaluations db' = t_evaluations db"
proof -
  obtain r rows where r: "get_evaluation db k = Some r" "status r = Draft" "is_the_scorer r user"
    and ok: "list_all score_input_ok items" and t: "t_evaluations db' = t_evaluations db"
    "t_scores db' = rows" "sheet_of k rows = set items" "\<And>j. j \<noteq> k \<Longrightarrow> scores_of db' j = scores_of db j"
    by (rule upsert_scores_InrD [OF assms]) blast
  obtain db1 where "replace_scores db r items = Inr db1"
    using assms r(1) by (auto simp: upsert_scores_def)
  note rep = replace_scores_InrD(2,3) [OF this]
  have "(\<lambda>s. (score_indicator_id s, score s, evidence_text s)) ` set (scores_of db' k) =
      (\<lambda>i. (si_indicator_id i, si_score i, si_evidence_text i)) ` sheet_of k rows"
    unfolding sheet_of_def image_image by (simp add: input_of_score_def scores_of_def t(2))
  moreover have "\<forall>j. j = k \<or> scores_of db' j = scores_of db j" using t(4) by blast
  ultimately show ?thesis
    using r rep ok t(1,3) by (intro exI [of _ r]) (auto simp: list_all_iff score_input_ok_def)
qed

section \<open>Submission\<close>

lemma claim_seat_submit:
  "a \<in> set submit_actions \<Longrightarrow> claim_seat (TRANSITIONS a) user acc = acc"
  by (cases acc) (auto simp: submit_actions_def claim_seat_def Let_def)

lemma submit_target:
  "to_status (TRANSITIONS (submit_action_for r)) =
    (if \<not> hr_review_skipped r then Submitted
     else if unit_supervisor_user_id r = None then Deputy_approved else Hr_approved)"
  by (auto simp: submit_action_for_def chain_shape)

text \<open>
  C9. A submission is exactly the computation of the result: when it succeeds, the record was a
  draft of the user whose window is open, every indicator of its framework and no other has a score,
  the evidence meets the rules, and the record carries the result that the rules stamped on it give
  for its scores and its bonus, and moves to human resources or past them.
\<close>

theorem submission_computes_the_result:
  assumes "submit_evaluation env db user k = Inr db'"
  shows "\<exists>r r' res. get_evaluation db k = Some r \<and> get_evaluation db' k = Some r' \<and>
    status r = Draft \<and> scorer_user_id r = Some (cu_id user) \<and> window_is_open env (window_for db r) \<and>
    score_indicator_id ` set (scores_of db k) = indicator_id ` set (indicators_for_record db r) \<and>
    validate_evidence (scores_as_rows db r) (by_id (indicators_for_record db r)) (rules_for_record db r) = Inr () \<and>
    compute_result (scores_as_rows db r) (by_id (indicators_for_record db r)) (rules_for_record db r)
      (case bonus_points r of None \<Rightarrow> 0 | Some b \<Rightarrow> b) = Some res \<and>
    result_of r' = (Some (res_base_weighted_pct res), Some (res_general_score_pct res),
      Some (res_specialized_score_pct res), Some (res_final_weighted_pct res),
      Some (res_recommendation res)) \<and>
    status r' = (if \<not> hr_review_skipped r then Submitted
      else if unit_supervisor_user_id r = None then Deputy_approved else Hr_approved)"
proof -
  obtain r where r: "get_evaluation db k = Some r" and w: "window_is_open env (window_for db r)"
    and ap: "apply_transition env db r (submit_action_for r) user
      (Some (\<lambda>(db1, r1). finalize_scoring db1 r1 user)) = Inr db'"
    using assms by (auto simp: submit_evaluation_def ensure_open_def Let_def split: if_splits)
  note rid = get_evaluation_id [OF r]
  let ?a = "submit_action_for r"
  obtain db0 r0 db1 r1 where av: "transition_is_available r ?a user"
    and c: "(db0, r0) = claim_seat (TRANSITIONS ?a) user (db, r)"
    and hook: "(\<lambda>(db1, r1). finalize_scoring db1 r1 user) (db0, r0) = Inr (db1, r1)"
    and t: "t_evaluations db' =
      row_put record_id (enter_status env (to_status (TRANSITIONS ?a)) r1) (t_evaluations db)"
    by (rule scoring.transition_effect [OF ap]) blast
  have "finalize_scoring db r user = Inr (db1, r1)"
    using hook c claim_seat_submit [OF submit_action_submits, of r user "(db, r)"] by simp
  then obtain res where res: "row_indicator_id ` set (scores_as_rows db r) = indicator_id ` set (indicators_for_record db r)"
      "validate_evidence (scores_as_rows db r) (by_id (indicators_for_record db r)) (rules_for_record db r) = Inr ()"
      "compute_result (scores_as_rows db r) (by_id (indicators_for_record db r)) (rules_for_record db r)
      (case bonus_points r of None \<Rightarrow> 0 | Some b \<Rightarrow> b) = Some res"
    and r1: "r1 = with_result res r"
    by (auto simp: finalize_scoring_def Let_def split: sum.splits)
  have "record_id r1 = k" by (simp add: r1 with_result_def rid)
  then have r': "get_evaluation db' k = Some (enter_status env (to_status (TRANSITIONS ?a)) r1)"
    using r by (simp add: get_evaluation_def t row_get_put)
  have "row_indicator_id ` set (scores_as_rows db r) = score_indicator_id ` set (scores_of db k)"
    unfolding scores_as_rows_def set_map image_image by (simp add: rid)
  moreover have "status r = Draft" "scorer_user_id r = Some (cu_id user)"
    using av by (auto simp: available_iff submit_action_for_def chain_shape scorer_user_id_def scorer_field_def
        may_take_def split: if_splits)
  ultimately show ?thesis
    using r r' w res
    by (intro exI [of _ r] exI [of _ "enter_status env (to_status (TRANSITIONS ?a)) r1"] exI [of _ res])
      (simp add: submit_target, simp add: r1 with_result_def result_of_def)
qed

section \<open>Returns\<close>

lemma apply_transition_succeeds:
  assumes "transition_is_available r a user"
    and "allowed_role (TRANSITIONS a) = Role_hr \<Longrightarrow> ensure_hr_may_handle r user = Inr ()"
    and "to_status (TRANSITIONS a) \<noteq> Finalized" and "\<And>acc. \<exists>x. hook acc = Inr x"
  shows "\<exists>db'. apply_transition env db r a user (Some hook) = Inr db'"
proof -
  obtain db1 r1 where h: "hook (claim_seat (TRANSITIONS a) user (db, r)) = Inr (db1, r1)"
    using assms(4) by (metis surj_pair)
  show ?thesis
    using assms(1-3) by (auto simp: apply_transition_def ensure_allowed_iff h Let_def)
qed

text \<open>
  C13. A record can be sent back exactly when the table has a way: the request of a user of human
  resources, a deputy or a chief executive with a reason of a valid length succeeds if and only if one
  of the nine return actions is available to the user on the record, the user is not its subject, and
  it is not an open record of human resources that a user of human resources handles.
\<close>

theorem return_succeeds_exactly_when_available:
  "(\<exists>db'. return_evaluation env db user k given = Inr db') \<longleftrightarrow>
    cu_role user \<in> {Role_hr, Role_deputy, Role_ceo} \<and>
    1 \<le> length (strip given) \<and> length (strip given) \<le> REASON_MAX \<and>
    (\<exists>r. get_evaluation db k = Some r \<and> cu_personnel_id user \<noteq> Some (subject_personnel_id r) \<and>
      \<not> (cu_role user = Role_hr \<and> hr_panel_is_shielded r) \<and>
      list_ex (\<lambda>a. transition_is_available r a user) return_actions)"
  (is "?succeeds \<longleftrightarrow> ?ok")
proof
  assume ok: ?ok
  then obtain r a where r: "get_evaluation db k = Some r" "ensure_hr_may_handle r user = Inr ()"
    and a: "a \<in> set return_actions" "transition_is_available r a user"
    by (auto simp: list_ex_iff)
  obtain b stage where b: "return_action_for r user = Some (b, stage)"
    using return_action_for_None [OF _ a(1)] a(2) by (cases "return_action_for r user") auto
  note av = return_action_for_SomeD [OF b]
  have to: "to_status (TRANSITIONS b) \<noteq> Finalized" using av(2) by (auto simp: return_actions_def)
  have total: "\<exists>x. return_hook env (record_id r) stage (strip given) user acc = Inr x" for acc
    by (auto simp: return_hook_def Let_def split: prod.splits)
  obtain db' where "do_return env db r b stage (strip given) user = Inr db'"
    unfolding do_return_def using apply_transition_succeeds [where hook = "return_hook env (record_id r) stage (strip given) user",
      OF av(1) r(2) to total] by blast
  then show ?succeeds
    using ok r b by (auto simp: return_evaluation_def text_field_def Let_def)
next
  assume ?succeeds
  then obtain db' where ret: "return_evaluation env db user k given = Inr db'" by blast
  then obtain r reason a stage where r: "get_evaluation db k = Some r" "ensure_hr_may_handle r user = Inr ()"
    "return_action_for r user = Some (a, stage)" "text_field REASON_MAX given = Inr reason"
    by (rule return_evaluation_InrD) blast
  have "cu_role user \<in> {Role_hr, Role_deputy, Role_ceo}"
    using ret by (auto simp: return_evaluation_def)
  moreover have "1 \<le> length (strip given) \<and> length (strip given) \<le> REASON_MAX"
    using r(4) by (auto simp: text_field_def Let_def split: if_splits)
  moreover have "list_ex (\<lambda>a. transition_is_available r a user) return_actions"
    using return_action_for_SomeD [OF r(3)] by (auto simp: list_ex_iff)
  ultimately show ?ok using r(1,2) by auto
qed

section \<open>The final document\<close>

text \<open>The document reads a record and seven tables.\<close>

lemma build_final_snapshot_tables:
  assumes "t_personnel db' = t_personnel db" "t_scores db' = t_scores db" "t_comments db' = t_comments db"
    "t_indicators db' = t_indicators db" "t_self_scores db' = t_self_scores db" "t_users db' = t_users db"
    "t_schemes db' = t_schemes db"
  shows "build_final_snapshot db' r = build_final_snapshot db r"
proof -
  have gp: "get_personnel db' = get_personnel db" using assms(1) by (simp add: get_personnel_def)
  have dn: "display_name db' = display_name db" unfolding display_name_def [abs_def] gp ..
  have ab: "applied_bonus_for_document db' r = applied_bonus_for_document db r"
  proof -
    have same: "current_rules db' = current_rules db" "get_scheme db' = get_scheme db"
      using assms(7) by (simp_all add: current_rules_def active_scheme_def get_scheme_def)
    have rules: "rules_for_record db' = rules_for_record db"
      unfolding rules_for_record_def [abs_def] same ..
    show ?thesis unfolding applied_bonus_for_document_def rules ..
  qed
  have rows: "scores_of db' = scores_of db" "comments_of db' = comments_of db"
    "self_scores_of db' = self_scores_of db" "get_user db' = get_user db"
    using assms by (simp_all add: fun_eq_iff scores_of_def comments_of_def self_scores_of_def get_user_def)
  show ?thesis unfolding build_final_snapshot_def gp dn ab rows assms(4) ..
qed

definition stamped :: "evaluation_record \<Rightarrow> jdict option \<Rightarrow> string option \<Rightarrow> int \<Rightarrow> evaluation_record" where
  "stamped r snapshot token t =
    r\<lparr>final_snapshot := snapshot, verify_token := token, status := Finalized, stage_entered_at := t\<rparr>"

lemma seat_stamped [simp]: "seat f (stamped r snapshot token t) = seat f r"
  by (cases f) (simp_all add: stamped_def)

lemma stamped_fields [simp]:
  "record_id (stamped r s v t) = record_id r" "subject_personnel_id (stamped r s v t) = subject_personnel_id r"
  "unit_supervisor_user_id (stamped r s v t) = unit_supervisor_user_id r"
  "deputy_user_id (stamped r s v t) = deputy_user_id r" "ceo_user_id (stamped r s v t) = ceo_user_id r"
  "hr_user_id (stamped r s v t) = hr_user_id r" "hr_review_skipped (stamped r s v t) = hr_review_skipped r"
  "scoring_scheme_id (stamped r s v t) = scoring_scheme_id r"
  "created_at (stamped r s v t) = created_at r" "evaluation_code (stamped r s v t) = evaluation_code r"
  "general_score_pct (stamped r s v t) = general_score_pct r"
  "specialized_score_pct (stamped r s v t) = specialized_score_pct r"
  "final_weighted_pct (stamped r s v t) = final_weighted_pct r"
  "base_weighted_pct (stamped r s v t) = base_weighted_pct r" "bonus_points (stamped r s v t) = bonus_points r"
  "bonus_reason (stamped r s v t) = bonus_reason r" "recommendation (stamped r s v t) = recommendation r"
  "evaluator_comment (stamped r s v t) = evaluator_comment r" "finalized_at (stamped r s v t) = finalized_at r"
  "self_assessment_submitted_at (stamped r s v t) = self_assessment_submitted_at r"
  "self_assessment_note (stamped r s v t) = self_assessment_note r"
  "final_snapshot (stamped r s v t) = s" "verify_token (stamped r s v t) = v" "status (stamped r s v t) = Finalized"
  by (simp_all add: stamped_def)

lemma build_final_snapshot_stamped: "build_final_snapshot db (stamped r s v t) = build_final_snapshot db r"
proof -
  have parts: "sign_seat (stamped r s v t) = sign_seat r"
    unfolding sign_seat_def [abs_def] skips_hr_review_def seat_stamped stamped_fields ..
  have part0: "self_assessment_block (stamped r s v t) = self_assessment_block r"
    unfolding self_assessment_block_def [abs_def] stamped_fields ..
  have part1: "single_decider (stamped r s v t) = single_decider r"
    by (simp add: single_decider_def scorer_user_id_def final_approver_user_id_def)
  have part2: "evaluator_seat (stamped r s v t) = evaluator_seat r"
    by (simp add: evaluator_seat_def)
  have part3: "applied_bonus_for_document db (stamped r s v t) = applied_bonus_for_document db r"
    unfolding applied_bonus_for_document_def rules_for_record_def stamped_fields ..
  show ?thesis
    unfolding build_final_snapshot_def document_signatories_def stamped_fields parts part0 part1 part2
      part3 ..
qed

lemma claim_seat_tables:
  "t_personnel (fst (claim_seat spec user (db, r))) = t_personnel db"
  "t_comments (fst (claim_seat spec user (db, r))) = t_comments db"
  "t_indicators (fst (claim_seat spec user (db, r))) = t_indicators db"
  "t_self_scores (fst (claim_seat spec user (db, r))) = t_self_scores db"
  "t_users (fst (claim_seat spec user (db, r))) = t_users db"
  "t_schemes (fst (claim_seat spec user (db, r))) = t_schemes db"
  by (simp_all add: claim_seat_def split: option.splits)

lemma finalization_stamps:
  assumes "apply_transition env db r a user (Some (stamp_finalization env)) = Inr db'"
    and "get_evaluation db k = Some r" and "to_status (TRANSITIONS a) = Finalized"
  shows "\<exists>r' snapshot. get_evaluation db' k = Some r' \<and> status r' = Finalized \<and>
    final_snapshot r' = Some snapshot \<and> build_final_snapshot db' r' = Some snapshot \<and>
    finalized_at r' = Some (now env) \<and> verify_token r' = Some (fresh_token env) \<and>
    result_of r' = result_of r \<and> final_weighted_pct r \<noteq> None \<and> scores_of db k \<noteq> []"
proof -
  note rid = get_evaluation_id [OF assms(2)]
  obtain db0 r0 where c: "claim_seat (TRANSITIONS a) user (db, r) = (db0, r0)" by (meson surj_pair)
  obtain db1 r1 where hook: "stamp_finalization env (db0, r0) = Inr (db1, r1)"
    and had: "final_weighted_pct r \<noteq> None" "scores_of db k \<noteq> []"
    and db': "db' = notify_for_workflow_action env (enter_status env Finalized r1) a
       (log_event (cu_id user) ''status_changed'' (Some (record_id r1))
         (Some [(''status'', jstr (status_value (status r1)))])
         (Some [(''status'', jstr (status_value Finalized))])
         (put_evaluation (enter_status env Finalized r1) db1))"
    using rid by (rule_tac apply_transition_hookD [OF assms(1)]) (auto simp: c assms(3))
  let ?r = "r0\<lparr>finalized_at := Some (now env)\<rparr>"
  obtain snapshot where snap: "build_final_snapshot db0 ?r = Some snapshot" and db1: "db1 = db0"
    and r1: "r1 = ?r\<lparr>final_snapshot := Some snapshot, verify_token := Some (fresh_token env)\<rparr>"
    using hook by (auto simp: stamp_finalization_def Let_def)
  let ?r' = "stamped ?r (Some snapshot) (Some (fresh_token env)) (now env)"
  have r': "enter_status env Finalized r1 = ?r'" by (simp add: r1 enter_status_def stamped_def)
  have r0: "record_id r0 = k" "result_of r0 = result_of r" and t0: "t_evaluations db0 = t_evaluations db"
    using claim_seat_record(1) [of "TRANSITIONS a" user db r] claim_seat_keeps(2) [of a user db r]
      claim_seat_db(1) [of "TRANSITIONS a" user db r] by (simp_all add: c rid)
  note msgs = only_messages_tables [OF notify_for_workflow_action_messages]
  have "get_evaluation db' k = Some ?r'"
    using assms(2) r0(1) by (simp add: get_evaluation_def db' msgs r' db1 t0 row_get_put)
  moreover have "build_final_snapshot db' ?r' = Some snapshot"
  proof -
    have "build_final_snapshot db' ?r' = build_final_snapshot db0 ?r'"
      by (rule build_final_snapshot_tables) (simp_all add: db' msgs db1 put_evaluation_def)
    then show ?thesis by (simp add: build_final_snapshot_stamped snap)
  qed
  moreover have "result_of ?r' = result_of r" using r0(2) by (simp add: result_of_def)
  ultimately show ?thesis using had by (intro exI [of _ ?r'] exI [of _ snapshot]) simp
qed

lemma without_voice_fields:
  assumes "without_voice r' = without_voice r"
  shows "final_snapshot r' = final_snapshot r" "finalized_at r' = finalized_at r" "verify_token r' = verify_token r"
    "result_of r' = result_of r"
  using arg_cong [OF assms, of final_snapshot] arg_cong [OF assms, of finalized_at]
    arg_cong [OF assms, of verify_token] arg_cong [OF assms, of result_of]
  by (simp_all add: without_voice_def result_of_def)

lemma whole_record_wf: "whole_wf db \<Longrightarrow> get_evaluation db k = Some r \<Longrightarrow> record_wf r"
  using row_get_SomeD(1) [of record_id "t_evaluations db" k r]
  by (simp add: whole_wf_def system_wf_def records_wf_def get_evaluation_def)

text \<open>A record after a request and all that follows it.\<close>

lemma endures_later:
  assumes "handle env user q db = Inr db'" and "whole_wf db" and "system_step\<^sup>*\<^sup>* db' db''"
    and "get_evaluation db' k = Some r"
  obtains r' where "get_evaluation db'' k = Some r'" and "endures r r'"
    and "is_open r \<or> scores_of db'' k = scores_of db' k"
proof -
  have "whole_wf db'" using request_operation [OF assms(1,2)] ..
  then have "records_endure db' db''" using system.run_keeps [OF assms(3)] by blast
  with assms(4) that show ?thesis unfolding records_endure_def by blast
qed

lemma finalization_stamps_record:
  assumes "ceo_finalize env db user k = Inr db' \<or> hr_approve env db user k = Inr db'"
    and "get_evaluation db' k = Some r'" and "status r' = Finalized"
  shows "final_snapshot r' \<noteq> None \<and> build_final_snapshot db' r' = final_snapshot r' \<and>
    finalized_at r' = Some (now env) \<and> verify_token r' = Some (fresh_token env) \<and>
    (\<exists>r. get_evaluation db k = Some r \<and> result_of r' = result_of r \<and> final_weighted_pct r \<noteq> None) \<and>
    scores_of db k \<noteq> []"
proof -
  obtain r a where r: "get_evaluation db k = Some r" "to_status (TRANSITIONS a) = Finalized"
    and t: "apply_transition env db r a user (Some (stamp_finalization env)) = Inr db'"
  proof (cases "ceo_finalize env db user k = Inr db'")
    case True
    then obtain r where "get_evaluation db k = Some r"
      and "apply_transition env db r Ceo_finalize user (Some (stamp_finalization env)) = Inr db'"
      by (auto simp: ceo_finalize_def)
    then show ?thesis by (intro that [of r Ceo_finalize]) simp_all
  next
    case False
    then have hr: "hr_approve env db user k = Inr db'" using assms(1) by simp
    then obtain r where r: "get_evaluation db k = Some r" by (auto simp: hr_approve_def)
    show ?thesis
    proof (cases "hr_finalizes_record r")
      case True
      with hr r show ?thesis
        by (intro that [of r Hr_finalize_direct_ceo]) (auto simp: hr_approve_def)
    next
      case False
      let ?a = "if is_manager_path r then Hr_approve_manager else Hr_approve"
      have "apply_transition env db r ?a user (Some Inr) = Inr db'"
        using hr r False by (auto simp: hr_approve_def apply_transition_no_hook simp del: if_split split: if_split_asm)
      then obtain r1 where "t_evaluations db' =
          row_put record_id (enter_status env (to_status (TRANSITIONS ?a)) r1) (t_evaluations db)"
        and "identity_of r1 = identity_of r"
        by (rule no_hook.transition_effect) blast
      then have "get_evaluation db' k = Some (enter_status env (to_status (TRANSITIONS ?a)) r1)"
        using r get_evaluation_id [OF r] identity_of_eqD(1) [of r1 r]
        by (simp add: get_evaluation_def row_get_put)
      then show ?thesis using assms(2,3) by (auto split: if_splits)
    qed
  qed
  show ?thesis using finalization_stamps [OF t r] assms(2) r(1) by auto
qed

text \<open>
  C14. The final document is the record at its finalization: when the chief executive finalizes a record, or
  human resources finalize one that only the chief executive scored, the record had a result and
  scores, it keeps its result, it is stamped with the moment and a fresh token, and building its
  document from the database as the request leaves it gives exactly the document that it stores.
  Whatever the system does after that from a well-formed state, as all reachable ones are, the record
  still stores this document, this moment, this token, this result and these scores; what a document
  built from later data would say is another matter.
\<close>

theorem final_document_matches_the_record:
  assumes "ceo_finalize env db user k = Inr db' \<or> hr_approve env db user k = Inr db'"
    and "get_evaluation db' k = Some r'" and "status r' = Finalized"
  shows "final_snapshot r' \<noteq> None \<and> build_final_snapshot db' r' = final_snapshot r' \<and>
    finalized_at r' = Some (now env) \<and> verify_token r' = Some (fresh_token env) \<and>
    (\<exists>r. get_evaluation db k = Some r \<and> result_of r' = result_of r \<and> final_weighted_pct r \<noteq> None) \<and>
    scores_of db k \<noteq> [] \<and>
    (whole_wf db \<longrightarrow> (\<forall>db''. system_step\<^sup>*\<^sup>* db' db'' \<longrightarrow> (\<exists>r''. get_evaluation db'' k = Some r'' \<and>
      final_snapshot r'' = final_snapshot r' \<and> finalized_at r'' = finalized_at r' \<and>
      verify_token r'' = verify_token r' \<and> result_of r'' = result_of r' \<and> scores_of db'' k = scores_of db' k)))"
proof -
  obtain q where h: "handle env user q db = Inr db'"
    using assms(1) by (metis handle.simps(6,8))
  have closed: "\<not> is_open r'" using assms(3) by (simp add: is_open_def OPEN_STATUSES_def)
  have "\<exists>r''. get_evaluation db'' k = Some r'' \<and> final_snapshot r'' = final_snapshot r' \<and>
      finalized_at r'' = finalized_at r' \<and> verify_token r'' = verify_token r' \<and>
      result_of r'' = result_of r' \<and> scores_of db'' k = scores_of db' k"
    if wf: "whole_wf db" and run: "system_step\<^sup>*\<^sup>* db' db''" for db''
  proof -
    obtain r'' where r'': "get_evaluation db'' k = Some r''" "endures r' r''"
      and "is_open r' \<or> scores_of db'' k = scores_of db' k"
      by (rule endures_later [OF h wf run assms(2)])
    with closed have "without_voice r'' = without_voice r'" "scores_of db'' k = scores_of db' k"
      by (simp_all add: endures_def)
    with r''(1) without_voice_fields show ?thesis by blast
  qed
  with finalization_stamps_record [OF assms] show ?thesis by blast
qed

section \<open>Objections and creation\<close>

lemma single_decider_skipping:
  "hr_review_skipped r \<Longrightarrow> single_decider r \<longleftrightarrow> scorer_user_id r = Some (ceo_user_id r)"
  by (auto simp: single_decider_def final_approver_user_id_def hr_finalizes_def)

lemma answered_record:
  assumes "resolve_objection env db user k given = Inr db'" and "get_evaluation db k = Some r"
  shows "\<exists>r'. get_evaluation db' k = Some r' \<and> objection_resolved_at r' \<noteq> None \<and> status r' = status r"
proof -
  define answered where "answered body = r\<lparr>objection_resolved_at := Some (now env), objection_resolution := Some body,
      objection_resolved_by_user_id := Some (cu_id user)\<rparr>" for body
  obtain body where body: "text_field OBJECTION_MAX given = Inr body"
    using assms by (auto simp: resolve_objection_def)
  have "t_evaluations db' = row_put record_id (answered body) (t_evaluations db)"
    using assms body
    by (auto simp: resolve_objection_def put_evaluation_def Let_def simp flip: answered_def)
  then have "get_evaluation db' k = Some (answered body)"
    using assms(2) get_evaluation_id [OF assms(2)] by (simp add: get_evaluation_def row_get_put answered_def)
  then show ?thesis by (simp add: answered_def)
qed


text \<open>
  Only the person who will score opens a record, and only one: a successful creation was of an
  active person without an open record whose assigned evaluators are all active; the new record is
  an empty draft on exactly the assigned chain, the creator is its scorer and can score it at once, it
  skips human resources exactly when the person belongs to them, and it follows the rules that are
  active at this moment; nothing else among the records and scores has changed.
\<close>

theorem created_record_is_the_scorers:
  assumes "create_evaluation env db user p = Inr (db', k)"
  shows "\<exists>r person access. get_evaluation db' k = Some r \<and> t_evaluations db' = t_evaluations db @ [r] \<and>
    t_scores db' = t_scores db \<and>
    get_personnel db p = Some person \<and> p_status person = Personnel_active \<and>
    filter (\<lambda>x. is_open x \<and> subject_personnel_id x = p) (t_evaluations db) = [] \<and>
    access \<in> set (t_access db) \<and> acc_personnel_id access = p \<and> inactive_seat_labels db access = [] \<and>
    unit_supervisor_user_id r = acc_unit_supervisor_user_id access \<and>
    deputy_user_id r = acc_deputy_user_id access \<and> ceo_user_id r = acc_ceo_user_id access \<and>
    status r = Draft \<and> subject_personnel_id r = p \<and> is_the_scorer r user \<and>
    hr_review_skipped r = subject_belongs_to_hr db p \<and>
    scoring_scheme_id r = map_option scheme_id (active_scheme db)"
proof -
  obtain r person access where a: "get_personnel db p = Some person" "p_status person = Personnel_active"
      "find (\<lambda>a. acc_personnel_id a = personnel_id person) (t_access db) = Some access"
      "inactive_seat_labels db access = []"
    and free: "\<And>x. x \<in> set (t_evaluations db) \<Longrightarrow> subject_personnel_id x = p \<Longrightarrow> \<not> is_open x"
    and fresh: "fresh_record db user p r" and k: "record_id r = k"
    and t: "t_evaluations db' = t_evaluations db @ [r]" "t_scores db' = t_scores db"
    and seats: "unit_supervisor_user_id r = acc_unit_supervisor_user_id access"
      "deputy_user_id r = acc_deputy_user_id access" "ceo_user_id r = acc_ceo_user_id access"
    by (rule create_evaluation_InrD [OF assms]) blast
  have id: "personnel_id person = p" using a(1) by (simp add: get_personnel_def row_get_SomeD(2))
  have "access \<in> set (t_access db)" "acc_personnel_id access = p"
    using a(3) id by (auto simp: find_Some_iff)
  moreover have "get_evaluation db' k = Some r"
    using fresh k by (simp add: get_evaluation_def t row_get_append fresh_record_def)
  moreover have "filter (\<lambda>x. is_open x \<and> subject_personnel_id x = p) (t_evaluations db) = []"
    using free by (auto simp: filter_empty_conv)
  ultimately show ?thesis
    using a t seats fresh
    by (intro exI [of _ r] exI [of _ person] exI [of _ access]) (simp add: fresh_record_def)
qed

end
