(* ===== verification/SystemWitnesses.thy ===== *)
theory SystemWitnesses
  imports RequestProperties
begin

text \<open>
  A small office on which the properties of the evaluation system are applied: a supervisor, a
  deputy, a chief executive and a user of human resources, one employee and one indicator.
\<close>

section \<open>The office\<close>

definition account :: "int \<Rightarrow> user_role \<Rightarrow> user" where
  "account k r =
    \<lparr>user_id = k, user_personnel_id = None, username = [], user_full_name = None, password_hash = [],
     user_role = r, user_is_active = True, must_change_password = False, token_version = 0,
     email = None, phone = None, notify_by_email = False, notify_by_sms = False\<rparr>"

definition employee :: personnel where
  "employee =
    \<lparr>personnel_id = 50, personnel_code = ascii ''P-50'', personnel_full_name = ascii ''Sara'',
     job_title = ascii ''Clerk'', is_manager = False, org_unit = ascii ''Sales'',
     contract_start_date = 0, contract_end_date = 30000, p_status = Personnel_active,
     separation_date = None, p_separation_reason = None\<rparr>"

definition chain_of_sara :: evaluation_access where
  "chain_of_sara =
    \<lparr>acc_id = 1, acc_personnel_id = 50, acc_unit_supervisor_user_id = Some 11,
     acc_deputy_user_id = Some 12, acc_ceo_user_id = 13, acc_updated_by_user_id = Some 70\<rparr>"

definition punctuality :: indicator where
  "punctuality =
    \<lparr>indicator_id = 4, ind_section = General, category = ascii ''Discipline'',
     indicator_description = ascii ''Punctuality'', display_order = 1, indicator_is_active = True\<rparr>"

definition office :: database where
  "office = empty_database\<lparr>
     t_users := [account 11 Role_unit_supervisor, account 12 Role_deputy, account 13 Role_ceo,
       account 70 Role_hr],
     t_personnel := [employee], t_access := [chain_of_sara], t_indicators := [punctuality]\<rparr>"

text \<open>The office before its chain is set, and the request of human resources that sets it.\<close>

definition unstaffed :: database where
  "unstaffed = office\<lparr>t_access := []\<rparr>"

definition staffed :: database where
  "staffed = log_event 70 ''access_updated'' None None
     (Some ([(''personnel_id'', JInt 50)] @ chain_json chain_of_sara)) office"

lemma staffed_chain: "upsert_access unstaffed (person 70 Role_hr) 50 (Some 11) (Some 12) 13 = Inr staffed"
  by (simp add: upsert_access_def require_role_or_capability_def unstaffed_def staffed_def office_def
      empty_database_def get_personnel_def employee_def ensure_active_user_with_role_def get_user_def
      account_def ensure_evaluators_are_not_the_subject_def map_filter_simps find_access_def
      ensure_chain_stages_are_not_redundant_def REDUNDANT_PAIRS_def next_id_def chain_of_sara_def Let_def)

lemma staffed_reachable: "reachable staffed"
proof (rule reachable.step)
  show "reachable unstaffed"
    by (rule reachable.installed)
      (simp_all add: unstaffed_def office_def account_def empty_database_def)
  show "system_step unstaffed staffed"
    by (rule system_step.staffed, rule staff_step.chain [OF staffed_chain])
qed

definition saras_record :: evaluation_record where
  "saras_record = new_record plain_env 1 (evaluation_code_of 1) chain_of_sara 50 None None (Some 1) False"

lemma staffed_creates:
  "\<exists>db. create_evaluation plain_env staffed (person 11 Role_unit_supervisor) 50 = Inr (db, 1) \<and>
    t_evaluations db = [saras_record]"
  by (simp add: create_evaluation_def require_chain_stage_def get_personnel_def staffed_def office_def employee_def
      chain_of_sara_def inactive_seat_labels_def CHAIN_SEATS_def get_user_def account_def scorer_field_def
      SEAT_ROLE_def empty_database_def active_scheme_def ensure_framework_def current_framework_def bump_def
      next_evaluation_code_def active_member_ids_def next_id_def record_constraints_def new_record_def
      is_open_def OPEN_STATUSES_def saras_record_def Let_def subject_belongs_to_hr_def
      hr_unit_personnel_ids_def)

definition opened :: database where
  "opened = (case create_evaluation plain_env staffed (person 11 Role_unit_supervisor) 50 of
     Inr (db, _) \<Rightarrow> db | Inl _ \<Rightarrow> staffed)"

lemma opened_created: "create_evaluation plain_env staffed (person 11 Role_unit_supervisor) 50 = Inr (opened, 1)"
  and opened_records: "t_evaluations opened = [saras_record]"
  using staffed_creates by (auto simp: opened_def)

lemma opened_reachable: "reachable opened"
  by (rule reachable.step [OF staffed_reachable system_step.served [where q = "Create_record 50" and
      env = plain_env and user = "person 11 Role_unit_supervisor"]])
    (simp add: opened_created)

lemma saras_record_fields [simp]:
  "status saras_record = Draft" "record_id saras_record = 1" "subject_personnel_id saras_record = 50"
  "unit_supervisor_user_id saras_record = Some 11" "deputy_user_id saras_record = Some 12"
  "ceo_user_id saras_record = 13" "hr_review_skipped saras_record = False"
  by (simp_all add: saras_record_def new_record_def chain_of_sara_def)

section \<open>Invariants\<close>

theorem records_always_wf_witness:
  "status saras_record \<in> {Draft, Cancelled} \<or> has_result saras_record"
  using records_always_wf [OF opened_reachable] by (simp add: opened_records)

theorem one_open_record_per_person_witness:
  "length (filter (\<lambda>r. is_open r \<and> subject_personnel_id r = 50) (t_evaluations opened)) \<le> 1 \<and>
    map_sum id res_ok (verify_chain None False opened) = Inr True"
  using one_open_record_per_person [OF opened_reachable] by blast


theorem created_record_is_the_scorers_witness:
  "\<exists>r. get_evaluation opened 1 = Some r \<and> is_the_scorer r (person 11 Role_unit_supervisor) \<and>
    deputy_user_id r = Some 12"
proof -
  have "t_access staffed = [chain_of_sara]" by (simp add: staffed_def office_def)
  moreover have "acc_deputy_user_id chain_of_sara = Some 12" by (simp add: chain_of_sara_def)
  ultimately show ?thesis using created_record_is_the_scorers [OF opened_created] by auto
qed

section \<open>Requests\<close>

text \<open>The office with one record in a given state.\<close>

definition office_with :: "evaluation_record \<Rightarrow> database" where
  "office_with r = office\<lparr>t_evaluations := [r],
     t_scores := [\<lparr>score_id = 1, score_record_id = 1, score_indicator_id = 4, score = 3,
       evidence_text = None\<rparr>]\<rparr>"

lemma office_with_tables [simp]:
  "t_evaluations (office_with r) = [r]" "t_indicators (office_with r) = [punctuality]"
  "t_schemes (office_with r) = []" "t_frameworks (office_with r) = []" "t_periods (office_with r) = []"
  "t_personnel (office_with r) = [employee]" "t_modules (office_with r) = []"
  "t_scores (office_with r) = [\<lparr>score_id = 1, score_record_id = 1, score_indicator_id = 4, score = 3,
       evidence_text = None\<rparr>]"
  by (simp_all add: office_with_def office_def empty_database_def)

lemma sample_fields [simp]:
  "record_id sample_record = 1" "unit_supervisor_user_id sample_record = Some 11"
  "deputy_user_id sample_record = Some 12" "ceo_user_id sample_record = 13"
  "subject_personnel_id sample_record = 50" "hr_user_id sample_record = None"
  "hr_review_skipped sample_record = False" "status sample_record = Draft"
  "scoring_scheme_id sample_record = None" "indicator_framework_id sample_record = None"
  "period_id sample_record = None" "bonus_points sample_record = None"
  by (simp_all add: sample_record_def)

lemma get_office_with [simp]: "record_id r = 1 \<Longrightarrow> get_evaluation (office_with r) 1 = Some r"
  by (simp add: get_evaluation_def)

lemma no_hook_succeeds:
  assumes "transition_is_available r a user"
    and "allowed_role (TRANSITIONS a) = Role_hr \<Longrightarrow> ensure_hr_may_handle r user = Inr ()"
    and "to_status (TRANSITIONS a) \<noteq> Finalized"
  obtains db' where "apply_transition env db r a user None = Inr db'"
  using apply_transition_succeeds [OF assms, of Inr env db] that
  by (auto simp: apply_transition_no_hook)

text \<open>A cancelled record stays while the set of indicators changes.\<close>

theorem closed_records_never_change_witness:
  "\<exists>db1 db2 r'. cancel_evaluation plain_env opened (person 70 Role_hr) 1 (ascii ''left'') = Inr db1 \<and>
    reframes db1 db2 \<and> get_evaluation db2 1 = Some r' \<and> status r' = Cancelled"
proof -
  let ?hr = "person 70 Role_hr"
  have get: "get_evaluation opened 1 = Some saras_record"
    by (simp add: get_evaluation_def opened_records)
  have reason: "text_field REASON_MAX (ascii ''left'') = Inr (ascii ''left'')"
    by (simp add: text_field_def REASON_MAX_def ascii_def strip_def is_space_def)
  have administers: "ensure_may_administer saras_record ?hr = Inr ()"
    by (simp add: ensure_may_administer_def ensure_hr_may_handle_def ensure_not_deciding_about_oneself_def
        hr_panel_is_shielded_def skips_hr_review_def)
  have handle_ok: "ensure_hr_may_handle saras_record ?hr = Inr ()"
    by (simp add: ensure_hr_may_handle_def ensure_not_deciding_about_oneself_def hr_panel_is_shielded_def
        skips_hr_review_def)
  have av: "transition_is_available saras_record Cancel ?hr"
    by (simp add: available_iff guard_holds_def may_take_def OPEN_STATUSES_def)
  obtain db1 where db1: "apply_transition plain_env opened saras_record Cancel ?hr
      (Some (cancel_hook plain_env 1 (ascii ''left'') ?hr)) = Inr db1"
    using apply_transition_succeeds [OF av, of "cancel_hook plain_env 1 (ascii ''left'') ?hr" plain_env opened] handle_ok
    by (auto simp: cancel_hook_def)
  have ok: "cancel_evaluation plain_env opened ?hr 1 (ascii ''left'') = Inr db1"
    using db1 by (simp add: cancel_evaluation_def get_record_or_404_def get reason administers)
  then have reach: "reachable db1"
    by (intro reachable.step [OF opened_reachable] system_step.served [where q = "Cancel_record 1 (ascii ''left'')"
          and env = plain_env and user = ?hr]) simp
  obtain r0 where "t_evaluations db1 = row_put record_id (enter_status plain_env Cancelled r0) [saras_record]"
      "identity_of r0 = identity_of saras_record"
    by (rule cancelling.transition_effect [OF db1]) (simp add: opened_records)
  then obtain r1 where closed: "get_evaluation db1 1 = Some r1" "status r1 = Cancelled"
    using identity_of_eqD(1) [of r0 saras_record] by (auto simp: get_evaluation_def row_put_def)
  obtain f n db0 db2 where "bump (Some 70) ''changed'' None db1 = (db0, f)" "rebind_untouched_open_records f db0 = (db2, n)"
    by (meson surj_pair)
  then have ref: "reframes db1 db2" unfolding reframes_def by blast
  have "rtranclp system_step db1 db2" by (rule r_into_rtranclp, rule system_step.reframed [OF ref])
  from closed_records_never_change [OF reach this closed(1)] closed(2) obtain r' where
    r': "get_evaluation db2 1 = Some r'"
    "r'\<lparr>acknowledged_at := None, acknowledged_by_user_id := None, objection_at := None,
      objection_reason := None, objection_resolved_at := None, objection_resolution := None,
      objection_resolved_by_user_id := None\<rparr> =
    r1\<lparr>acknowledged_at := None, acknowledged_by_user_id := None, objection_at := None,
      objection_reason := None, objection_resolved_at := None, objection_resolution := None,
      objection_resolved_by_user_id := None\<rparr>"
    by (auto simp: is_open_def OPEN_STATUSES_def)
  from arg_cong [OF r'(2), of status] have "status r' = Cancelled" using closed(2) by simp
  then show ?thesis using ok ref r'(1) by blast
qed


theorem every_status_change_is_logged_witness:
  "\<exists>db row. deputy_approve plain_env (office_with (sample_record\<lparr>status := Hr_approved\<rparr>))
      (person 12 Role_deputy) 1 = Inr db \<and> last (t_audit_log db) = row \<and>
    event_type row = ''status_changed'' \<and> actor_user_id row = 12 \<and>
    new_value row = Some [(''status'', jstr ''deputy_approved'')]"
proof -
  let ?r = "sample_record\<lparr>status := Hr_approved\<rparr>"
  have av: "transition_is_available ?r Deputy_approve (person 12 Role_deputy)"
    by (simp add: available_iff guard_holds_def may_take_def chain_shape)
  obtain db where db: "apply_transition plain_env (office_with ?r) ?r Deputy_approve (person 12 Role_deputy) None = Inr db"
    by (rule no_hook_succeeds [OF av]) simp_all
  then obtain r1 where t: "t_evaluations db = row_put record_id (enter_status plain_env Deputy_approved r1) [?r]"
    and r1: "identity_of r1 = identity_of ?r"
    unfolding apply_transition_no_hook by (rule no_hook.transition_effect) simp
  have ok: "deputy_approve plain_env (office_with ?r) (person 12 Role_deputy) 1 = Inr db"
    using db by (simp add: deputy_approve_def require_chain_stage_def get_record_or_404_def)
  have after: "get_evaluation db 1 = Some (enter_status plain_env Deputy_approved r1)"
    using identity_of_eqD(1) [OF r1] by (simp add: get_evaluation_def t row_put_def)
  have "handle plain_env (person 12 Role_deputy) (Approve_by_deputy 1) (office_with ?r) = Inr db"
    by (simp add: ok)
  from every_status_change_is_logged [OF this _ after, of ?r] obtain rows row where
    "t_audit_log db = t_audit_log (office_with ?r) @ rows @ [row]" "event_type row = ''status_changed''"
    "actor_user_id row = 12" "new_value row = Some [(''status'', jstr ''deputy_approved'')]"
    by auto
  then show ?thesis using ok by simp
qed

lemma sample_indicators_for: "indicators_for_record (office_with sample_record) sample_record = [punctuality]"
  by (simp add: indicators_for_record_def indicator_ids_for_record_def active_member_ids_def punctuality_def)

lemma sample_scorer: "is_the_scorer sample_record (person 11 Role_unit_supervisor)"
  by (simp add: is_the_scorer_def scorer_seat_def scorer_field_def SEAT_ROLE_def Let_def)

theorem saved_sheet_is_exact_witness:
  "\<exists>db. upsert_scores (office_with sample_record) (person 11 Role_unit_supervisor) 1
      [\<lparr>si_indicator_id = 4, si_score = 5, si_evidence_text = None\<rparr>] = Inr db \<and>
    (\<lambda>s. (score_indicator_id s, score s, evidence_text s)) ` set (scores_of db 1) = {(4, 5, None)}"
proof -
  let ?items = "[\<lparr>si_indicator_id = 4, si_score = 5, si_evidence_text = None\<rparr>]"
  obtain db where db: "upsert_scores (office_with sample_record) (person 11 Role_unit_supervisor) 1 ?items = Inr db"
    by (simp add: upsert_scores_def score_input_ok_def get_record_or_404_def sample_scorer replace_scores_def
        sample_indicators_for punctuality_def Let_def)
  from saved_sheet_is_exact [OF db] db show ?thesis by auto
qed

lemma sample_sheet_ok:
  "scores_as_rows (office_with sample_record) sample_record =
    [\<lparr>row_indicator_id = 4, row_score = 3, row_evidence = None\<rparr>]"
  by (simp add: scores_as_rows_def scores_of_def)

lemma sample_rules: "rules_for_record (office_with sample_record) sample_record = LEGACY_RULES"
  by (simp add: rules_for_record_def current_rules_def active_scheme_def)

theorem submission_computes_the_result_witness:
  "\<exists>db r' res. submit_evaluation plain_env (office_with sample_record) (person 11 Role_unit_supervisor) 1 = Inr db \<and>
    get_evaluation db 1 = Some r' \<and> status r' = Submitted \<and>
    compute_result [\<lparr>row_indicator_id = 4, row_score = 3, row_evidence = None\<rparr>] (by_id [punctuality])
      LEGACY_RULES 0 = Some res \<and>
    final_weighted_pct r' = Some (res_final_weighted_pct res)"
proof -
  let ?db = "office_with sample_record" and ?user = "person 11 Role_unit_supervisor"
  obtain res where res: "compute_result (scores_as_rows ?db sample_record) (by_id [punctuality]) LEGACY_RULES 0 = Some res"
    using compute_result_defined [of LEGACY_RULES "by_id [punctuality]" "scores_as_rows ?db sample_record" 0]
    by (auto simp: sample_sheet_ok indicators_known_def by_id_def punctuality_def LEGACY_RULES_def
        FINAL_RESULT_THRESHOLDS_def)
  have "evidence_violations (scores_as_rows ?db sample_record) (by_id [punctuality]) LEGACY_RULES = []"
    "evidence_too_long (scores_as_rows ?db sample_record) (by_id [punctuality]) LEGACY_RULES = []"
    by (simp_all add: evidence_violations_def evidence_too_long_def sample_sheet_ok LEGACY_RULES_def
        EVIDENCE_REQUIRED_SCORES_def EVIDENCE_MAX_WORDS_def word_count_blank)
  then have evidence: "validate_evidence (scores_as_rows ?db sample_record) (by_id [punctuality]) LEGACY_RULES = Inr ()"
    by (simp add: validate_evidence_def)
  have "row_indicator_id ` set (scores_as_rows ?db sample_record) = indicator_id ` set [punctuality]"
    by (simp add: sample_sheet_ok punctuality_def)
  then have "\<exists>x. finalize_scoring ?db sample_record ?user = Inr x"
    using res evidence by (simp add: finalize_scoring_def sample_indicators_for sample_rules)
  moreover have "transition_is_available sample_record Submit ?user" by (rule sample_submit_available)
  ultimately obtain db where
    "apply_transition plain_env ?db sample_record Submit ?user
      (Some (\<lambda>(db1, r1). finalize_scoring db1 r1 ?user)) = Inr db"
    by (auto simp: apply_transition_def ensure_allowed_iff claim_seat_def Let_def)
  then have ok: "submit_evaluation plain_env ?db ?user 1 = Inr db"
    by (simp add: submit_evaluation_def require_chain_stage_def get_record_or_404_def ensure_open_def
        window_for_def period_end_def window_is_open_def submit_action_for_def chain_shape Let_def)
  from submission_computes_the_result [OF ok] show ?thesis
    using ok by (auto simp: sample_indicators_for sample_rules sample_sheet_ok result_of_def)
qed

text \<open>The office whose counter of codes has reached the code of its record.\<close>

definition numbered_office :: "evaluation_record \<Rightarrow> database" where
  "numbered_office r = (office_with r)\<lparr>t_code_seq := 1\<rparr>"

lemma numbered_office_tables [simp]:
  "t_evaluations (numbered_office r) = [r]" "t_indicators (numbered_office r) = [punctuality]"
  "t_schemes (numbered_office r) = []" "t_frameworks (numbered_office r) = []" "t_periods (numbered_office r) = []"
  "t_personnel (numbered_office r) = [employee]" "t_modules (numbered_office r) = []"
  "t_scores (numbered_office r) = [\<lparr>score_id = 1, score_record_id = 1, score_indicator_id = 4, score = 3,
       evidence_text = None\<rparr>]"
  "t_code_seq (numbered_office r) = 1" "t_users (numbered_office r) = t_users office"
  "t_access (numbered_office r) = [chain_of_sara]" "t_audit_log (numbered_office r) = []"
  by (simp_all add: numbered_office_def office_with_def office_def empty_database_def)

lemma get_numbered_office [simp]: "record_id r = 1 \<Longrightarrow> get_evaluation (numbered_office r) 1 = Some r"
  by (simp add: get_evaluation_def)

lemma numbered_office_wf:
  assumes "record_wf r" and "evaluation_code r = ''EVL-0001''" and "chain_of r = access_chain chain_of_sara"
    and "subject_personnel_id r = 50"
  shows "whole_wf (numbered_office r)"
proof -
  have "''EVL-0001'' = evaluation_code_of 1" by code_simp
  then have "codes_ahead_free (numbered_office r)"
    using assms(2) by (simp add: codes_ahead_free_def)
  moreover have "may_sit (numbered_office r) u 50" if "u \<in> {11, 12, 13}" for u
    using that by (auto simp: may_sit_def office_def account_def)
  ultimately have "org_wf (numbered_office r)"
    using assms(3,4)
    by (simp add: org_wf_def links_def office_def account_def access_wf_def sits_def access_chain_def chain_of_sara_def
        chain_is_sound_def)
  moreover have "system_wf (numbered_office r)"
    using assms(1)
    by (simp add: system_wf_def records_wf_def one_open_each_def scores_wf_def log_wf_def)
  ultimately show ?thesis by (simp add: whole_wf_def)
qed

definition decided_record :: evaluation_record where
  "decided_record = sample_record\<lparr>status := Deputy_approved, base_weighted_pct := Some 80,
     general_score_pct := Some 80, specialized_score_pct := Some 80, final_weighted_pct := Some 80,
     recommendation := Some (ascii ''renewed'')\<rparr>"

lemma decided_record_wf: "record_wf decided_record"
  by (simp add: record_wf_def stage_rules seats_wf_def result_wf_def has_result_def voice_wf_def decided_record_def
      sample_record_def)

theorem final_document_matches_the_record_witness:
  "\<exists>db r' r''. ceo_finalize plain_env (numbered_office decided_record) (person 13 Role_ceo) 1 = Inr db \<and>
    get_evaluation db 1 = Some r' \<and> build_final_snapshot db r' = final_snapshot r' \<and>
    verify_token r' = Some ''token'' \<and>
    get_evaluation (log_event 70 ''login'' None None None db) 1 = Some r'' \<and> final_snapshot r'' = final_snapshot r'"
proof -
  let ?r = decided_record
  let ?db = "numbered_office ?r"
  have fields: "record_id ?r = 1" "subject_personnel_id ?r = 50" "final_weighted_pct ?r = Some 80"
    "chain_of ?r = access_chain chain_of_sara" "evaluation_code ?r = ''EVL-0001''"
    by (simp_all add: decided_record_def sample_record_def chain_of_def access_chain_def chain_of_sara_def)
  have av: "transition_is_available ?r Ceo_finalize (person 13 Role_ceo)"
    by (simp add: available_iff guard_holds_def may_take_def decided_record_def)
  have "get_personnel ?db 50 = Some employee" by (simp add: get_personnel_def employee_def)
  then have "build_final_snapshot ?db (?r\<lparr>finalized_at := Some 1000\<rparr>) \<noteq> None"
    by (simp add: build_final_snapshot_def fields Let_def split: prod.splits)
  then obtain snapshot where "build_final_snapshot ?db (?r\<lparr>finalized_at := Some 1000\<rparr>) = Some snapshot"
    by blast
  then have "\<exists>x. stamp_finalization plain_env (?db, ?r) = Inr x \<and> final_snapshot (snd x) \<noteq> None"
    by (simp add: stamp_finalization_def plain_env_def Let_def)
  then obtain db where t: "apply_transition plain_env ?db ?r Ceo_finalize (person 13 Role_ceo)
      (Some (stamp_finalization plain_env)) = Inr db"
    using av by (auto simp: apply_transition_def ensure_allowed_iff claim_seat_def scores_of_def fields Let_def)
  have get: "get_evaluation ?db 1 = Some ?r" by (simp add: fields)
  then have ok: "ceo_finalize plain_env ?db (person 13 Role_ceo) 1 = Inr db"
    using t by (simp add: ceo_finalize_def require_chain_stage_def get_record_or_404_def)
  obtain r' where r': "get_evaluation db 1 = Some r'" "status r' = Finalized"
    using finalization_stamps [OF t get] by auto
  let ?later = "log_event 70 ''login'' None None None db"
  have "system_step db ?later"
    by (rule system_step.elsewhere) (auto simp: same_organization_def links_def)
  then have later: "system_step\<^sup>*\<^sup>* db ?later" by blast
  have wf: "whole_wf ?db" by (rule numbered_office_wf [OF decided_record_wf]) (simp_all add: fields)
  note doc = final_document_matches_the_record [OF disjI1 [OF ok] r']
  from doc wf later obtain r'' where "get_evaluation ?later 1 = Some r''" "final_snapshot r'' = final_snapshot r'" by blast
  with doc ok r'(1) show ?thesis by (auto simp: plain_env_def)
qed

end
