(* ===== verification/SubjectProperties.thy ===== *)
theory SubjectProperties
  imports RequestProperties
begin

text \<open>
  What the person that a record is about can do and see: the endpoints of \<open>app/api/routers/me.py\<close>.
\<close>

section \<open>The self-assessment\<close>

lemma add_self_scores:
  assumes "foldE (add_self_score k allowed) (rows, seen) items = Inr (rows', seen')"
  shows "\<exists>new. rows' = rows @ new \<and>
    map (\<lambda>s. (self_score_record_id s, self_score_indicator_id s, self_score s, self_score_note s)) new =
      map (\<lambda>i. (k, sai_indicator_id i, sai_score i, sai_note i)) items \<and>
    distinct (map sai_indicator_id items) \<and> sai_indicator_id ` set items \<inter> seen = {} \<and>
    sai_indicator_id ` set items \<subseteq> allowed \<and> seen' = seen \<union> sai_indicator_id ` set items"
  using assms
proof (induction items arbitrary: rows seen)
  case Nil
  then show ?case by simp
next
  case (Cons i items)
  define s where "s = \<lparr>self_score_id = next_id self_score_id rows, self_score_record_id = k,
    self_score_indicator_id = sai_indicator_id i, self_score = sai_score i, self_score_note = sai_note i\<rparr>"
  have i: "sai_indicator_id i \<in> allowed" "sai_indicator_id i \<notin> seen"
    and rest: "foldE (add_self_score k allowed) (rows @ [s], insert (sai_indicator_id i) seen) items = Inr (rows', seen')"
  proof -
    obtain acc where acc: "add_self_score k allowed (rows, seen) i = Inr acc"
      "foldE (add_self_score k allowed) acc items = Inr (rows', seen')"
      using Cons.prems by auto
    show "sai_indicator_id i \<in> allowed" "sai_indicator_id i \<notin> seen"
      "foldE (add_self_score k allowed) (rows @ [s], insert (sai_indicator_id i) seen) items = Inr (rows', seen')"
      using acc(1) acc(2) by (auto simp: add_self_score_def [of k allowed "(rows, seen)"] Let_def s_def)
  qed
  from Cons.IH [OF rest] obtain new where "rows' = (rows @ [s]) @ new"
    "map (\<lambda>s. (self_score_record_id s, self_score_indicator_id s, self_score s, self_score_note s)) new =
      map (\<lambda>i. (k, sai_indicator_id i, sai_score i, sai_note i)) items"
    "distinct (map sai_indicator_id items)"
    "sai_indicator_id ` set items \<inter> insert (sai_indicator_id i) seen = {}"
    "sai_indicator_id ` set items \<subseteq> allowed"
    "seen' = insert (sai_indicator_id i) seen \<union> sai_indicator_id ` set items" by blast
  then show ?case using i by (intro exI [of _ "s # new"]) (auto simp: s_def)
qed

text \<open>
  C34. A self-assessment is complete, in time and handed in once: when it is accepted, the user is the
  person that the record is about, the record is a draft whose submission window is open and has none
  yet; its rows are exactly the given scores, one from 1 to 5 for each indicator of the record, and no score
  of the evaluator has changed. From a well-formed state, as all reachable ones are, no second
  self-assessment of the record is ever accepted afterwards, whatever the system does in between, returns and
  changes of people included, whoever sends it and whenever.
\<close>

theorem self_assessment_complete_and_once:
  assumes "submit_self_assessment env db user k items remark = Inr db'"
  shows "\<exists>r new. get_evaluation db k = Some r \<and> cu_personnel_id user = Some (subject_personnel_id r) \<and>
    status r = Draft \<and> window_is_open env (window_for db r) \<and> self_assessment_submitted_at r = None \<and>
    t_self_scores db' = t_self_scores db @ new \<and>
    map (\<lambda>s. (self_score_record_id s, self_score_indicator_id s, self_score s, self_score_note s)) new =
      map (\<lambda>i. (k, sai_indicator_id i, sai_score i, sai_note i)) items \<and>
    distinct (map sai_indicator_id items) \<and> sai_indicator_id ` set items = indicator_ids_for_record db r \<and>
    list_all (\<lambda>i. 1 \<le> sai_score i \<and> sai_score i \<le> 5) items \<and> t_scores db' = t_scores db \<and>
    (whole_wf db \<longrightarrow> (\<forall>db'' env2 user2 items2 remark2 db2. system_step\<^sup>*\<^sup>* db' db'' \<longrightarrow>
      submit_self_assessment env2 db'' user2 k items2 remark2 \<noteq> Inr db2))"
proof -
  obtain r rows seen where r: "get_evaluation db k = Some r" "cu_personnel_id user = Some (subject_personnel_id r)"
      "status r = Draft" "window_is_open env (window_for db r)" "self_assessment_submitted_at r = None"
    and ok: "list_all self_input_ok items"
    and fold: "foldE (add_self_score k (indicator_ids_for_record db r)) (t_self_scores db, {}) items = Inr (rows, seen)"
    and all: "indicator_ids_for_record db r \<subseteq> seen"
    and db': "db' = log_event (cu_id user) ''self_assessment_submitted'' (Some k) None
      (Some [(''scored_indicators'', JInt (int (length items)))])
      (put_evaluation (r\<lparr>self_assessment_submitted_at := Some (now env),
         self_assessment_note := map_option strip remark\<rparr>) (db\<lparr>t_self_scores := rows\<rparr>))"
    by (rule submit_self_assessment_InrD [OF assms]) blast
  have t: "t_self_scores db' = rows" "t_scores db' = t_scores db" by (simp_all add: db' put_evaluation_def)
  have after: "get_evaluation db' k = Some (r\<lparr>self_assessment_submitted_at := Some (now env),
      self_assessment_note := map_option strip remark\<rparr>)"
    using r(1) get_evaluation_id [OF r(1)] evaluations.get_put_same [of "db\<lparr>t_self_scores := rows\<rparr>"
      "r\<lparr>self_assessment_submitted_at := Some (now env), self_assessment_note := map_option strip remark\<rparr>" r]
    by (simp add: db')
  have "submit_self_assessment env2 db'' user2 k items2 remark2 \<noteq> Inr db2"
    if wf: "whole_wf db" and run: "system_step\<^sup>*\<^sup>* db' db''" for db'' env2 user2 items2 remark2 db2
  proof -
    have h: "handle env user (Self_assess k items remark) db = Inr db'" using assms by simp
    obtain r'' where "get_evaluation db'' k = Some r''"
      "endures (r\<lparr>self_assessment_submitted_at := Some (now env),
        self_assessment_note := map_option strip remark\<rparr>) r''"
      by (rule endures_later [OF h wf run after])
    then show ?thesis by (auto simp: endures_def elim!: submit_self_assessment_InrD)
  qed
  moreover have "list_all (\<lambda>i. 1 \<le> sai_score i \<and> sai_score i \<le> 5) items"
    using ok by (auto simp: list_all_iff self_input_ok_def)
  moreover obtain new where "rows = t_self_scores db @ new"
    "map (\<lambda>s. (self_score_record_id s, self_score_indicator_id s, self_score s, self_score_note s)) new =
      map (\<lambda>i. (k, sai_indicator_id i, sai_score i, sai_note i)) items"
    "distinct (map sai_indicator_id items)" "sai_indicator_id ` set items = indicator_ids_for_record db r"
    using add_self_scores [OF fold] all by auto
  ultimately show ?thesis using r t by (intro exI [of _ r] exI [of _ new]) blast
qed

section \<open>The open record\<close>

text \<open>The record with the marks of another: comment, bonus and result.\<close>

definition remarked :: "(evaluation_record \<Rightarrow> evaluation_record) \<Rightarrow> evaluation_record \<Rightarrow> evaluation_record" where
  "remarked m r = r\<lparr>evaluator_comment := evaluator_comment (m r), bonus_points := bonus_points (m r),
     bonus_reason := bonus_reason (m r), base_weighted_pct := base_weighted_pct (m r),
     general_score_pct := general_score_pct (m r), specialized_score_pct := specialized_score_pct (m r),
     final_weighted_pct := final_weighted_pct (m r), recommendation := recommendation (m r)\<rparr>"

lemma remarked_fields [simp]:
  "record_id (remarked m r) = record_id r" "evaluation_code (remarked m r) = evaluation_code r"
  "status (remarked m r) = status r" "created_at (remarked m r) = created_at r"
  "stage_entered_at (remarked m r) = stage_entered_at r" "hr_review_skipped (remarked m r) = hr_review_skipped r"
  "self_assessment_submitted_at (remarked m r) = self_assessment_submitted_at r"
  "subject_personnel_id (remarked m r) = subject_personnel_id r" "is_open (remarked m r) = is_open r"
  "indicator_framework_id (remarked m r) = indicator_framework_id r" "period_id (remarked m r) = period_id r"
  "submission_extended_until (remarked m r) = submission_extended_until r"
  "unit_supervisor_user_id (remarked m r) = unit_supervisor_user_id r"
  "deputy_user_id (remarked m r) = deputy_user_id r" "ceo_user_id (remarked m r) = ceo_user_id r"
  by (simp_all add: remarked_def is_open_def)

lemma insort_key_map: "insort_key f (h x) (map h xs) = map h (insort_key (\<lambda>x. f (h x)) x xs)"
  by (induction xs) auto

lemma sort_key_map: "sort_key f (map h xs) = map h (sort_key (\<lambda>x. f (h x)) xs)"
  by (induction xs) (simp_all add: insort_key_map)

text \<open>
  An open record keeps its marks from the person it is about: whatever scores, comments of the
  stages, remark of the evaluator, bonus and result the records of the database have, the page of the
  employee about their own open record is the same.
\<close>

theorem open_record_hides_its_marks:
  "my_open_evaluation env (db\<lparr>t_evaluations := map (remarked m) (t_evaluations db), t_scores := some_scores,
      t_comments := some_comments\<rparr>) user =
    my_open_evaluation env db user"
proof -
  let ?db = "db\<lparr>t_evaluations := map (remarked m) (t_evaluations db), t_scores := some_scores,
      t_comments := some_comments\<rparr>"
  have "open_view env ?db user (remarked m r) = open_view env db user r" for r
  proof -
    have "window_for ?db (remarked m r) = window_for db r"
      by (simp add: window_for_def period_end_def Window.get_period_def cong: option.case_cong)
    moreover have "indicator_ids_for_record ?db (remarked m r) = indicator_ids_for_record db r"
      by (simp add: indicator_ids_for_record_def active_member_ids_def cong: option.case_cong)
    ultimately show ?thesis by (simp add: open_view_def chain_shape)
  qed
  then show ?thesis
    by (simp add: my_open_evaluation_def filter_map comp_def sort_key_map rev_map split: option.split)
qed

section \<open>The objection\<close>

lemma bindE_succeeds: "(\<exists>b. bindE x f = Inr b) \<longleftrightarrow> (\<exists>a. x = Inr a \<and> (\<exists>b. f a = Inr b))"
  by auto

text \<open>
  C35. When an objection is accepted: exactly when objections are enabled, the user is the person that
  the record is about and not a support account, the record is final and was acknowledged, has no objection yet, the window of
  days since the acknowledgement is not over, and the reason has a valid length once stripped;
  otherwise the request fails and, like every request that fails, changes nothing.
\<close>

theorem objection_accepted_exactly:
  "(\<exists>db'. file_objection env db user k given = Inr db') \<longleftrightarrow>
    cu_role user \<noteq> Role_support \<and> is_module_enabled db ''objections'' \<and> (\<exists>reason. text_field OBJECTION_MAX given = Inr reason) \<and>
    (\<exists>r t. get_evaluation db k = Some r \<and> cu_personnel_id user = Some (subject_personnel_id r) \<and>
      status r = Finalized \<and> acknowledged_at r = Some t \<and> objection_at r = None \<and>
      now env \<le> t + days (objection_window_days (cfg env)))"
proof -
  have "(\<exists>db'. file_objection env db user k given = Inr db') \<longleftrightarrow>
      require_own_personnel user = Inr () \<and> (\<exists>reason. text_field OBJECTION_MAX given = Inr reason) \<and>
      ensure_module_enabled db ''objections'' = Inr () \<and>
      (\<exists>r t. my_record_or_404 db k user = Inr r \<and> status r = Finalized \<and> acknowledged_at r = Some t \<and>
        objection_at r = None \<and> \<not> t + days (objection_window_days (cfg env)) < now env)"
    unfolding file_objection_def Let_def bindE_succeeds by simp
  then show ?thesis
    by (auto simp: my_record_iff require_own_personnel_def not_less)
qed

end
