(* ===== verification/StaffProperties.thy ===== *)
theory StaffProperties
  imports SubjectProperties
begin

text \<open>
  What a change of the people guarantees: the departure of a person, and where the rule of one active
  account for each person has a gap (\<open>app/api/routers/personnel.py\<close>, \<open>app/api/routers/users.py\<close>).
\<close>

section \<open>Departure\<close>

lemma clean_update_fields:
  assumes "clean_update up = Inr up'"
  shows "pu_status up' = pu_status up" "pu_separation_reason up' = pu_separation_reason up"
    "pu_separation_date up' = pu_separation_date up"
  using assms by (auto simp: clean_update_def)

lemma apply_update_fields:
  assumes "apply_update up p = Inr p1"
  shows "set_column (pu_status up) (p_status p) = Inr (p_status p1)"
    "p_separation_reason p1 = set_nullable (pu_separation_reason up) (p_separation_reason p)"
    "separation_date p1 = set_nullable (pu_separation_date up) (separation_date p)"
  using assms by (auto simp: apply_update_def)

lemma given_value_Some [simp]: "given_value x = Some a \<longleftrightarrow> x = Some (Some a)"
  by (auto simp: given_value_def split: option.splits)

lemma left_fields:
  assumes "apply_update (with_separation env True up) p = Inr p1"
    and "given_value (pu_status up) = Some Personnel_inactive" and "given_value (pu_separation_reason up) \<noteq> None"
  shows "p_status p1 = Personnel_inactive \<and> p_separation_reason p1 \<noteq> None \<and> separation_date p1 \<noteq> None"
proof -
  have st: "pu_status up = Some (Some Personnel_inactive)" using assms(2) by simp
  obtain reason where why: "pu_separation_reason up = Some (Some reason)" using assms(3) by auto
  have "pu_status (with_separation env True up) = pu_status up"
    "pu_separation_reason (with_separation env True up) = pu_separation_reason up"
    using st by (simp_all add: with_separation_def Let_def)
  moreover have "\<exists>d. pu_separation_date (with_separation env True up) = Some (Some d)"
    using st by (cases "given_value (pu_separation_date up)") (auto simp: with_separation_def)
  ultimately show ?thesis
    using apply_update_fields [OF assms(1)] st why by (auto simp: set_column_def set_nullable_def)
qed

lemma cancelled_on_departure:
  assumes "apply_transition env db0 r Cancel_on_separation user None = Inr db1"
  obtains r' where "t_evaluations db1 = row_put record_id r' (t_evaluations db0)" and "\<not> is_open r'"
    and "record_id r' = record_id r" and "same_people db0 db1"
    and "t_sessions db1 = t_sessions db0"
proof -
  have a: "apply_transition env db0 r Cancel_on_separation user (Some Inr) = Inr db1"
    using assms by (simp add: apply_transition_no_hook)
  have s: "t_sessions db1 = t_sessions db0"
    by (rule apply_transition_hookD [OF a])
      (auto simp: claim_seat_def only_messages_tables [OF notify_for_workflow_action_messages] put_evaluation_def
        split: if_splits option.splits)
  obtain r1 where "t_evaluations db1 = row_put record_id (enter_status env (to_status (TRANSITIONS Cancel_on_separation)) r1)
      (t_evaluations db0)" "same_people db0 db1" "identity_of r1 = identity_of r"
    by (rule no_hook.transition_effect [OF a]) blast
  then show ?thesis
    using identity_of_eqD(1) [of r1 r] s
    by (intro that [of "enter_status env Cancelled r1"]) (simp_all add: is_open_def OPEN_STATUSES_def)
qed

text \<open>What the closing of everything that hangs on a person leaves.\<close>

lemma close_out_effect:
  assumes "close_out_departure env db p user = Inr db'" and "one_open_each (t_evaluations db)"
  shows "filter (\<lambda>r. is_open r \<and> subject_personnel_id r = personnel_id p) (t_evaluations db') = [] \<and>
    t_personnel db' = t_personnel db \<and>
    (length (filter (\<lambda>u. user_personnel_id u = Some (personnel_id p)) (t_users db)) \<le> 1 \<longrightarrow>
      filter (\<lambda>u. user_is_active u \<and> user_personnel_id u = Some (personnel_id p)) (t_users db') = [] \<and>
      list_all (\<lambda>u. \<not> (user_is_active u \<and> user_personnel_id u = Some (personnel_id p)) \<or>
        list_all (\<lambda>s. session_user_id s \<noteq> user_id u \<or> revoked_at s \<noteq> None) (t_sessions db')) (t_users db))"
proof -
  let ?one = "length (filter (\<lambda>u. user_personnel_id u = Some (personnel_id p)) (t_users db)) \<le> 1"
  obtain db1 where c: "case find (\<lambda>r. subject_personnel_id r = personnel_id p \<and> is_open r) (t_evaluations db) of
        None \<Rightarrow> db1 = db
      | Some r \<Rightarrow> \<exists>old new remark. apply_transition env
          (log_event (cu_id user) ''evaluation_cancelled_on_separation'' (Some (record_id r)) old new
            (add_comment env (record_id r) (cu_id user) None Hr_review remark db))
          r Cancel_on_separation user None = Inr db1"
    and d: "case find (\<lambda>u. user_personnel_id u = Some (personnel_id p)) (t_users db1) of
        None \<Rightarrow> db' = db1
      | Some u \<Rightarrow> \<exists>old new. db' = fst (notify_vacated_seats env (user_id u)
          (if \<not> user_is_active u then db1
           else log_event (cu_id user) ''user_deactivated_on_separation'' None old new
             (revoke_all_for_user env (user_id u)
               (put_user (u\<lparr>user_is_active := False, token_version := token_version u + 1\<rparr>) db1))))"
    by (rule close_out_departure_InrD [OF assms(1)])
  have first: "filter (\<lambda>r. is_open r \<and> subject_personnel_id r = personnel_id p) (t_evaluations db1) = [] \<and>
      t_personnel db1 = t_personnel db \<and> t_users db1 = t_users db"
  proof (cases "find (\<lambda>r. subject_personnel_id r = personnel_id p \<and> is_open r) (t_evaluations db)")
    case None
    then have "db1 = db" using c by simp
    then show ?thesis using None by (auto simp: find_None_iff filter_empty_conv)
  next
    case (Some r)
    then obtain old new remark where "apply_transition env
          (log_event (cu_id user) ''evaluation_cancelled_on_separation'' (Some (record_id r)) old new
            (add_comment env (record_id r) (cu_id user) None Hr_review remark db))
          r Cancel_on_separation user None = Inr db1"
      using c by auto
    then obtain r' where r': "t_evaluations db1 = row_put record_id r' (t_evaluations db)" "\<not> is_open r'"
        "record_id r' = record_id r" "t_personnel db1 = t_personnel db" "t_users db1 = t_users db"
      by (rule cancelled_on_departure) simp
    have "r \<in> set (t_evaluations db)" "is_open r" "subject_personnel_id r = personnel_id p"
      using find_row [OF Some] by simp_all
    then have "x = r" if "x \<in> set (t_evaluations db)" "is_open x" "subject_personnel_id x = personnel_id p" for x
      using assms(2) that unfolding one_open_each_def by metis
    then show ?thesis using r' by (auto simp: filter_empty_conv row_put_def split: if_splits)
  qed
  show ?thesis
  proof (cases "find (\<lambda>u. user_personnel_id u = Some (personnel_id p)) (t_users db1)")
    case None
    then have none: "user_personnel_id u \<noteq> Some (personnel_id p)" if "u \<in> set (t_users db)" for u
      using first that by (auto simp: find_None_iff)
    have "db' = db1" using d None by simp
    then show ?thesis using none first by (auto simp: list_all_iff filter_empty_conv)
  next
    case (Some u)
    let ?u1 = "u\<lparr>user_is_active := False, token_version := token_version u + 1\<rparr>"
    obtain old new where db': "db' = fst (notify_vacated_seats env (user_id u)
          (if \<not> user_is_active u then db1
           else log_event (cu_id user) ''user_deactivated_on_separation'' None old new
             (revoke_all_for_user env (user_id u) (put_user ?u1 db1))))"
      using d Some by auto
    note m = notify_vacated_seats_messages [of
      "if \<not> user_is_active u then db1
       else log_event (cu_id user) ''user_deactivated_on_separation'' None old new
             (revoke_all_for_user env (user_id u) (put_user ?u1 db1))" env "user_id u", folded db']
    have u: "u \<in> set (t_users db)" "user_personnel_id u = Some (personnel_id p)"
      using find_row [OF Some] first by simp_all
    have only_u: "x = u" if one: ?one and "x \<in> set (t_users db)" "user_personnel_id x = Some (personnel_id p)" for x
    proof -
      have "x \<in> set (filter (\<lambda>u. user_personnel_id u = Some (personnel_id p)) (t_users db))"
        "u \<in> set (filter (\<lambda>u. user_personnel_id u = Some (personnel_id p)) (t_users db))"
        using that u by simp_all
      then show ?thesis
        using one by (cases "filter (\<lambda>u. user_personnel_id u = Some (personnel_id p)) (t_users db)") auto
    qed
    have t: "t_evaluations db' = t_evaluations db1" "t_personnel db' = t_personnel db1"
      by (simp_all add: only_messages_tables [OF m])
    show ?thesis
    proof (cases "user_is_active u")
      case True
      then have "t_users db' = row_put user_id ?u1 (t_users db)"
        "t_sessions db' = t_sessions (revoke_all_for_user env (user_id u) (put_user ?u1 db1))"
        using first by (simp_all add: only_messages_tables [OF m])
      then show ?thesis
        using first t only_u
        by (auto simp: list_all_iff filter_empty_conv row_put_def revoke_all_for_user_def split: if_splits)
    next
      case False
      then have "t_users db' = t_users db"
        using first by (simp add: only_messages_tables [OF m])
      then show ?thesis using first t only_u False by (auto simp: list_all_iff filter_empty_conv)
    qed
  qed
qed

lemma clear_supervisor_tables:
  "t_evaluations (clear_supervisor_of_manager p user db) = t_evaluations db"
  "t_personnel (clear_supervisor_of_manager p user db) = t_personnel db"
  "t_users (clear_supervisor_of_manager p user db) = t_users db"
  "t_sessions (clear_supervisor_of_manager p user db) = t_sessions db"
  by (auto simp: clear_supervisor_of_manager_def split: option.splits)

text \<open>
  C20. Whoever leaves, leaves nothing open: when an active person is set inactive, the person has a reason and a
  date of the separation and is the subject of no open record any more. If the person had at most one
  account, as the rule of one account wants it, the person has no active account any more either, and every
  session of the account that was active has been revoked; with a second active account, which
  \<open>update_user\<close> does not prevent, only one is closed.
\<close>

theorem departure_closes_everything:
  assumes "reachable db" and "update_personnel env db user k payload = Inr db'"
    and "given_value (pu_status payload) = Some Personnel_inactive"
    and "get_personnel db k = Some p" and "p_status p = Personnel_active"
  shows "(\<exists>p'. get_personnel db' k = Some p' \<and> p_status p' = Personnel_inactive \<and>
      p_separation_reason p' \<noteq> None \<and> separation_date p' \<noteq> None) \<and>
    filter (\<lambda>r. is_open r \<and> subject_personnel_id r = k) (t_evaluations db') = [] \<and>
    (length (filter (\<lambda>u. user_personnel_id u = Some k) (t_users db)) \<le> 1 \<longrightarrow>
      filter (\<lambda>u. user_is_active u \<and> user_personnel_id u = Some k) (t_users db') = [] \<and>
      list_all (\<lambda>u. \<not> (user_is_active u \<and> user_personnel_id u = Some k) \<or>
        list_all (\<lambda>s. session_user_id s \<noteq> user_id u \<or> revoked_at s \<noteq> None) (t_sessions db')) (t_users db))"
proof -
  obtain up q p1 leaving old new db1 db2 where q: "get_personnel db k = Some q" and up: "clean_update payload = Inr up"
    and leaving: "leaving \<longleftrightarrow> given_value (pu_status up) = Some Personnel_inactive \<and> p_status q \<noteq> Personnel_inactive"
    and why: "leaving \<Longrightarrow> given_value (pu_separation_reason up) \<noteq> None"
    and p1: "apply_update (with_separation env leaving up) q = Inr p1"
    and db1: "db1 = log_event (cu_id user) ''personnel_updated'' None old new (put_personnel p1 db)"
    and db2: "(if leaving then close_out_departure env db1 p1 user else Inr db1) = Inr db2"
    and db': "db' = clear_supervisor_of_manager p1 user db2"
    by (rule update_personnel_InrD [OF assms(2)]) blast
  have st: "given_value (pu_status up) = Some Personnel_inactive"
    using clean_update_fields [OF up] assms(3) by simp
  then have l: "leaving" using leaving q assms(4,5) by simp
  have left: "p_status p1 = Personnel_inactive \<and> p_separation_reason p1 \<noteq> None \<and> separation_date p1 \<noteq> None"
    using p1 st why l by (intro left_fields [of env up q]) simp_all
  have id: "personnel_id p1 = k"
    using apply_update_id [OF p1] q by (simp add: get_personnel_def row_get_SomeD(2))
  have t: "t_evaluations db1 = t_evaluations db" "t_users db1 = t_users db"
    by (simp_all add: db1 put_personnel_def)
  have "one_open_each (t_evaluations db1)"
    using reachable_wf [OF assms(1)] by (simp add: t system_wf_def records_wf_def)
  from close_out_effect [OF _ this, of env p1 user db2]
  have closed: "filter (\<lambda>r. is_open r \<and> subject_personnel_id r = k) (t_evaluations db2) = []"
    "t_personnel db2 = t_personnel db1"
    "length (filter (\<lambda>u. user_personnel_id u = Some k) (t_users db)) \<le> 1 \<longrightarrow>
      filter (\<lambda>u. user_is_active u \<and> user_personnel_id u = Some k) (t_users db2) = [] \<and>
      list_all (\<lambda>u. \<not> (user_is_active u \<and> user_personnel_id u = Some k) \<or>
        list_all (\<lambda>s. session_user_id s \<noteq> user_id u \<or> revoked_at s \<noteq> None) (t_sessions db2)) (t_users db)"
    using db2 l id t by simp_all
  have "get_personnel db' k = Some p1"
    using people.get_put_same [of db p1 q] q id
    by (simp add: get_personnel_def db' clear_supervisor_tables closed(2) db1)
  then show ?thesis using left closed by (simp add: db' clear_supervisor_tables)
qed

section \<open>The gap in the rule of one account\<close>

text \<open>
  Setting an old account active again does not check that the person has another active account
  meanwhile: the check of \<open>update_user\<close> runs only when the request names the person.
\<close>

definition linked_account :: "int \<Rightarrow> bool \<Rightarrow> user" where
  "linked_account k active =
    \<lparr>user_id = k, user_personnel_id = Some 50, username = [], user_full_name = None, password_hash = [],
     user_role = Role_employee, user_is_active = active, must_change_password = False, token_version = 0,
     email = None, phone = None, notify_by_email = False, notify_by_sms = False\<rparr>"

definition only_active :: "bool \<Rightarrow> user_update" where
  "only_active b = \<lparr>uu_role = None, uu_is_active = Some (Some b), uu_password = None,
     uu_personnel_id = None, uu_full_name = None\<rparr>"

definition two_accounts :: database where
  "two_accounts = empty_database\<lparr>t_users := [linked_account 90 False, linked_account 91 True],
     t_capabilities := [\<lparr>cap_id = 1, cap_user_id = 70, cap_capability = Manage_users, granted_by_user_id = None\<rparr>]\<rparr>"

theorem reactivation_skips_the_account_rule:
  "\<exists>db'. update_user env crypt two_accounts (person 70 Role_hr) 90 (only_active True) = Inr db' \<and>
    filter (\<lambda>u. user_is_active u \<and> user_personnel_id u = Some 50) (t_users db') =
      [linked_account 90 True, linked_account 91 True]"
proof -
  have "require_capability [Manage_users] two_accounts (person 70 Role_hr) = Inr ()"
    by (simp add: require_capability_def capabilities_of_def two_accounts_def Let_def)
  then show ?thesis
    by (simp add: update_user_def two_accounts_def only_active_def given_value_def get_user_def linked_account_def
        set_column_def set_nullable_def nonempty_text_def Let_def row_put_def ensure_no_open_chain_seat_def)
qed

end
