(* ===== verification/AccessWitnesses.thy ===== *)
theory AccessWitnesses
  imports SystemWitnesses StaffProperties
begin

text \<open>
  The properties of sessions, logins, periods, bulk creation, departure and the employee's page, each
  applied to a concrete database.
\<close>

section \<open>Sessions\<close>

definition one_session :: database where
  "one_session = empty_database\<lparr>t_sessions :=
    [\<lparr>session_id = 1, session_user_id = 7, jti = ''a'', session_expires_at = days 1, rotated_at = None,
      replaced_by_jti = None, revoked_at = None, session_user_agent = None, session_ip = None,
      last_used_at = None\<rparr>]\<rparr>"

lemma one_session_wf: "sessions_wf ({''a''}, one_session)" and token_unused: "fresh_token plain_env \<notin> {''a''}"
  by (simp_all add: sessions_wf_def one_session_def plain_env_def)

theorem refresh_token_exchanged_once_witness:
  "\<exists>db1. rotate_session plain_env one_session 7 ''a'' None None = Inr (db1, Rotated ''token'') \<and>
    (\<forall>db3 j. rotate_session plain_env (revoke_session plain_env ''token'' db1) 7 ''a'' None None \<noteq> Inr (db3, Rotated j))"
proof -
  obtain db1 where db1: "rotate_session plain_env one_session 7 ''a'' None None = Inr (db1, Rotated ''token'')"
    by (simp add: rotate_session_def one_session_def plain_env_def days_def create_session_def Let_def)
  have "rtranclp session_step (insert (fresh_token plain_env) {''a''}, db1)
      (insert (fresh_token plain_env) {''a''}, revoke_session plain_env ''token'' db1)"
    by (rule r_into_rtranclp, rule session_step.logged_out)
  from refresh_token_exchanged_once [OF one_session_wf token_unused db1 this] db1 show ?thesis by blast
qed

theorem reuse_ends_every_session_witness:
  "\<exists>db'. rotate_session plain_env one_session 7 ''zz'' None None = Inr (db', Reuse) \<and>
    active_sessions plain_env db' 7 = []"
  using reuse_ends_every_session [OF one_session_wf token_unused, where u = 7 and j = "''zz''" and
    user_agent = None and ip = None and env' = plain_env]
  by (auto simp: one_session_def)

section \<open>Logins\<close>

definition plain_crypt :: crypt where
  "plain_crypt = \<lparr>hash_password = (\<lambda>t. t), verify_password = (\<lambda>t h. t = h), lower_text = (\<lambda>t. t)\<rparr>"

theorem lockout_is_exact_witness:
  "snd (failures [plain_env, plain_env, plain_env, plain_env, plain_env] [97] empty_database) =
    Some (1000 + minutes 15)"
  using lockout_is_exact [of empty_database "[97]" plain_env "[plain_env, plain_env, plain_env, plain_env]" 5]
  by (simp add: find_attempt_def empty_database_def plain_env_def default_settings_def minutes_def)

theorem guessing_is_stopped_witness:
  "snd (login plain_env plain_crypt
      (attempts_at (replicate 5 (plain_env, [1])) plain_crypt [97] None None empty_database) [97] [2] None None) =
    Inl (HTTPException 429 ''locked'')"
  using guessing_is_stopped [of empty_database "[97]" plain_env "[1]" "replicate 4 (plain_env, [1])" plain_crypt "[2]"
      plain_env None None None None]
  by (simp add: find_attempt_def empty_database_def plain_env_def default_settings_def minutes_def
      wrong_guess_def find_username_def eval_nat_numeral)

definition sara :: user where
  "sara =
    \<lparr>user_id = 7, user_personnel_id = Some 50, username = [115], user_full_name = None, password_hash = [1],
     user_role = Role_employee, user_is_active = True, must_change_password = False, token_version = 3,
     email = None, phone = None, notify_by_email = False, notify_by_sms = False\<rparr>"

definition with_sara :: database where
  "with_sara = one_session\<lparr>t_users := [sara]\<rparr>"

lemma sara_signed_in:
  "get_current_user ''/api/me'' (Some (create_access_token sara)) with_sara =
    Inr \<lparr>cu_id = 7, cu_role = Role_employee, cu_personnel_id = Some 50\<rparr>"
  by (simp add: get_current_user_def create_access_token_def with_sara_def get_user_def sara_def)

theorem password_change_ends_other_sessions_witness:
  "\<exists>db' answer. change_password plain_env plain_crypt with_sara
      \<lparr>cu_id = 7, cu_role = Role_employee, cu_personnel_id = Some 50\<rparr> [1] [1,2,3,4,5,6,7,8,9,10] None None =
      Inr (db', answer) \<and>
    get_current_user ''/api/me'' (Some (create_access_token sara)) db' = Inl (HTTPException 401 ''unauthorized'')"
proof -
  let ?user = "\<lparr>cu_id = 7, cu_role = Role_employee, cu_personnel_id = Some 50\<rparr>"
  obtain db' answer where c: "change_password plain_env plain_crypt with_sara ?user [1] [1,2,3,4,5,6,7,8,9,10] None None =
      Inr (db', answer)"
    by (simp add: change_password_def with_sara_def one_session_def get_user_def sara_def plain_crypt_def
        issue_login_response_def create_session_def plain_env_def revoke_all_for_user_def put_user_def Let_def)
  have "tok_sub (create_access_token sara) = Some (cu_id ?user)"
    by (simp add: create_access_token_def sara_def)
  from password_change_ends_other_sessions [OF sara_signed_in c this] c show ?thesis by auto
qed

theorem login_opens_a_working_session_witness:
  "\<exists>db' answer. login plain_env plain_crypt with_sara [115] [1] None None = (db', Inr answer) \<and>
    (\<exists>db2 x. refresh (plain_env\<lparr>fresh_token := ''next''\<rparr>) db' (Some (lr_refresh_token answer)) None None = (db2, Inr x))"
proof -
  obtain db' answer where l: "login plain_env plain_crypt with_sara [115] [1] None None = (db', Inr answer)"
    by (simp add: login_def with_sara_def one_session_def empty_database_def locked_until_def find_attempt_def
        find_username_def sara_def plain_crypt_def or_rollback_def issue_login_response_def create_session_def
        clear_failures_def plain_env_def Let_def)
  let ?later = "plain_env\<lparr>fresh_token := ''next''\<rparr>"
  have "distinct (map user_id (t_users with_sara))" "distinct (map jti (t_sessions with_sara))"
    "fresh_token plain_env \<noteq> []" "fresh_token ?later \<notin> insert (fresh_token plain_env) (jti ` set (t_sessions with_sara))"
    "now ?later < now plain_env + days (refresh_token_expire_days (cfg plain_env))"
    by (simp_all add: with_sara_def one_session_def plain_env_def default_settings_def days_def)
  from login_opens_a_working_session [OF l this] l show ?thesis by blast
qed

section \<open>Periods and bulk creation\<close>

theorem one_open_period_witness:
  "\<exists>db'. create_period plain_env empty_database (person 70 Role_hr) [65] 0 30 = Inr db' \<and>
    length (filter (\<lambda>p. period_status p = Period_open) (t_periods db')) \<le> 1"
proof -
  obtain db' where c: "create_period plain_env empty_database (person 70 Role_hr) [65] 0 30 = Inr db'"
    by (simp add: create_period_def period_name_field_def text_field_def strip_def is_space_def
        empty_database_def is_module_enabled_def unmet_requirements_def stored_module_state_def stored_states_def
        module_by_key_def MODULES_def one_period_open_def add_period_def Let_def)
  then have "rtranclp period_step empty_database db'"
    by (intro r_into_rtranclp period_step.created)
  from one_open_period [OF this] c show ?thesis by (simp add: empty_database_def)
qed

definition everyone :: cohort_filter where
  "everyone = \<lparr>cf_org_unit = None, cf_only_managers = None, cf_contract_ends_before = None\<rparr>"

lemma cohort_of_staffed: "load_cohort plain_env staffed everyone = [employee]"
  by (simp add: load_cohort_def everyone_def cohort_selects_def by_full_name_def staffed_def office_def
      nonempty_text_def)

lemma staffed_sound:
  "distinct (map personnel_id (t_personnel staffed))" "list_all chain_is_sound (t_access staffed)"
  "codes_ahead_free staffed"
  by (simp_all add: staffed_def office_def empty_database_def chain_is_sound_def chain_of_sara_def
      codes_ahead_free_def)

theorem bulk_does_what_the_preview_says_witness:
  "\<exists>db' made. execute plain_env staffed everyone = Inr (db', made) \<and>
    map pp_outcome made = map pp_outcome (plan plain_env staffed everyone)"
proof -
  obtain db' made where e: "execute plain_env staffed everyone = Inr (db', made)"
    and m: "map (\<lambda>p. (pp_personnel_id p, pp_outcome p)) made =
      map (\<lambda>p. (pp_personnel_id p, pp_outcome p)) (plan plain_env staffed everyone)"
    using bulk_does_what_the_preview_says [OF staffed_sound, of plain_env everyone] by blast
  from arg_cong [OF m, of "map snd"] show ?thesis using e by (simp add: comp_def)
qed

theorem bulk_equals_single_witness:
  "\<exists>db2 pl. execute plain_env staffed everyone = Inr (db2, [pl]) \<and> t_evaluations db2 = [saras_record] \<and>
    pp_outcome pl = Bulk_created"
proof -
  have "get_personnel staffed 50 = Some employee"
    by (simp add: get_personnel_def staffed_def office_def employee_def)
  moreover have "distinct (map acc_personnel_id (t_access staffed))" by (simp add: staffed_def office_def)
  ultimately show ?thesis
    using bulk_equals_single [OF opened_created _ cohort_of_staffed] by (auto simp: opened_records)
qed

section \<open>The person of a record\<close>

definition sara_herself :: current_user where
  "sara_herself = \<lparr>cu_id = 7, cu_role = Role_employee, cu_personnel_id = Some 50\<rparr>"

lemma sample_record_wf: "record_wf sample_record"
  by (simp add: record_wf_def stage_rules seats_wf_def result_wf_def voice_wf_def sample_record_def)

theorem self_assessment_complete_and_once_witness:
  "\<exists>db'. submit_self_assessment plain_env (numbered_office sample_record) sara_herself 1
      [\<lparr>sai_indicator_id = 4, sai_score = 3, sai_note = None\<rparr>] None = Inr db' \<and>
    (\<forall>db2. submit_self_assessment plain_env db' sara_herself 1
      [\<lparr>sai_indicator_id = 4, sai_score = 5, sai_note = None\<rparr>] None \<noteq> Inr db2)"
proof -
  have ids: "indicator_ids_for_record (numbered_office sample_record) sample_record = {4}"
    by (simp add: indicator_ids_for_record_def active_member_ids_def punctuality_def)
  have window: "ensure_open plain_env (numbered_office sample_record) sample_record = Inr \<lparr>closes_on = None, extended = False\<rparr>"
    by (simp add: ensure_open_def window_for_def period_end_def window_is_open_def Let_def)
  have enabled: "is_module_enabled (numbered_office sample_record) ''self_assessment''"
    by (simp add: is_module_enabled_def unmet_requirements_def stored_module_state_def stored_states_def
        module_by_key_def MODULES_def)
  have fresh: "self_assessment_submitted_at sample_record = None" by (simp add: sample_record_def)
  have mine: "my_record_or_404 (numbered_office sample_record) 1 sara_herself = Inr sample_record"
    by (simp add: my_record_iff sara_herself_def)
  obtain db' where s: "submit_self_assessment plain_env (numbered_office sample_record) sara_herself 1
      [\<lparr>sai_indicator_id = 4, sai_score = 3, sai_note = None\<rparr>] None = Inr db'"
    using ids window enabled fresh mine
    by (simp add: submit_self_assessment_def require_own_personnel_def self_input_ok_def may_self_assess_def
        EXCLUDED_ROLES_def SELF_ASSESSMENT_OPEN_STATUSES_def add_self_score_def sara_herself_def Let_def)
  have "whole_wf (numbered_office sample_record)"
    by (rule numbered_office_wf [OF sample_record_wf])
      (simp_all add: sample_record_def chain_of_def access_chain_def chain_of_sara_def)
  with self_assessment_complete_and_once [OF s]
  have "\<And>db2. submit_self_assessment plain_env db' sara_herself 1
      [\<lparr>sai_indicator_id = 4, sai_score = 5, sai_note = None\<rparr>] None \<noteq> Inr db2" by (meson rtranclp.rtrancl_refl)
  with s show ?thesis by blast
qed

definition objected :: evaluation_record where
  "objected = decided_record\<lparr>status := Finalized, final_snapshot := Some [], finalized_at := Some 400,
     acknowledged_at := Some 500, objection_at := Some 600\<rparr>"

definition office_with_objection :: database where
  "office_with_objection = (numbered_office objected)\<lparr>t_modules :=
     [\<lparr>module_key = ''objections'', module_enabled = True, module_updated_by_user_id = None\<rparr>,
      \<lparr>module_key = ''employee_evaluation_visibility'', module_enabled = True,
       module_updated_by_user_id = Some 1\<rparr>]\<rparr>"

lemma office_with_objection_wf: "whole_wf office_with_objection"
proof -
  have "whole_wf (numbered_office objected)"
    by (rule numbered_office_wf)
      (simp_all add: record_wf_def stage_rules seats_wf_def result_wf_def has_result_def voice_wf_def objected_def
        decided_record_def sample_record_def chain_of_def access_chain_def chain_of_sara_def)
  moreover have "same_records (numbered_office objected) office_with_objection"
    by (rule same_recordsI) (simp_all add: office_with_objection_def)
  ultimately show ?thesis
    using elsewhereI [of "numbered_office objected" office_with_objection] by (simp add: office_with_objection_def links_def)
qed


section \<open>Departure\<close>

definition resignation :: personnel_update where
  "resignation = \<lparr>pu_personnel_code = None, pu_full_name = None, pu_job_title = None, pu_is_manager = None,
     pu_org_unit = None, pu_contract_start_date = None, pu_contract_end_date = None,
     pu_status = Some (Some Personnel_inactive), pu_separation_reason = Some (Some Resignation),
     pu_separation_date = None\<rparr>"

lemma opened_people: "t_users opened = t_users office" "t_personnel opened = [employee]"
proof -
  have "t_users opened = t_users staffed" "t_personnel opened = t_personnel staffed"
    by (rule create_evaluation_InrD [OF opened_created], simp)+
  then show "t_users opened = t_users office" "t_personnel opened = [employee]"
    by (simp_all add: staffed_def office_def)
qed

theorem departure_closes_everything_witness:
  "\<exists>db'. update_personnel plain_env opened (person 70 Role_hr) 50 resignation = Inr db' \<and>
    filter (\<lambda>r. is_open r \<and> subject_personnel_id r = 50) (t_evaluations db') = [] \<and>
    filter (\<lambda>u. user_is_active u \<and> user_personnel_id u = Some 50) (t_users db') = []"
proof -
  let ?hr = "person 70 Role_hr"
  have p: "get_personnel opened 50 = Some employee" "p_status employee = Personnel_active"
    by (simp_all add: get_personnel_def opened_people employee_def)
  have accounts: "filter (\<lambda>u. user_personnel_id u = Some 50) (t_users opened) = []"
    by (simp add: opened_people office_def account_def)
  have up: "clean_update resignation = Inr resignation"
    by (simp add: clean_update_def resignation_def clean_text_def)
  have leaving: "given_value (pu_status resignation) = Some Personnel_inactive"
    "given_value (pu_separation_reason resignation) = Some Resignation"
    "pu_personnel_code resignation = None" "pu_is_manager resignation = None"
    by (simp_all add: resignation_def)
  have no_code: "given_value (None :: utext option option) = None" by (simp add: given_value_def)
  obtain p1 where p1: "apply_update (with_separation plain_env True resignation) employee = Inr p1"
    by (simp add: apply_update_def with_separation_def resignation_def set_column_def employee_def given_value_def)
  have id: "personnel_id p1 = 50" using apply_update_id [OF p1] by (simp add: employee_def)
  have av: "transition_is_available saras_record Cancel_on_separation ?hr"
    by (simp add: available_iff guard_holds_def may_take_def OPEN_STATUSES_def)
  have handled: "ensure_hr_may_handle saras_record ?hr = Inr ()"
    by (simp add: ensure_hr_may_handle_def ensure_not_deciding_about_oneself_def hr_panel_is_shielded_def
        skips_hr_review_def)
  have closing: "\<exists>db2. close_out_departure plain_env db1 p1 ?hr = Inr db2" if "t_evaluations db1 = [saras_record]" for db1
  proof -
    have "find (\<lambda>r. subject_personnel_id r = 50 \<and> is_open r) [saras_record] = Some saras_record"
      by (simp add: is_open_def OPEN_STATUSES_def)
    moreover have "\<exists>db2. apply_transition plain_env db0 saras_record Cancel_on_separation ?hr None = Inr db2" for db0
      by (rule no_hook_succeeds [OF av handled]) auto
    ultimately show ?thesis
      unfolding close_out_departure_def Let_def id that by (simp add: bindE_succeeds)
  qed
  let ?db1 = "log_event 70 ''personnel_updated'' None
    (Some (old_values (with_separation plain_env True resignation) employee))
    (Some ([(''id'', JInt 50)] @ new_values resignation)) (put_personnel p1 opened)"
  obtain db2 where "close_out_departure plain_env ?db1 p1 ?hr = Inr db2"
    using closing [of ?db1] by (auto simp: opened_records put_personnel_def)
  then obtain db' where u: "update_personnel plain_env opened ?hr 50 resignation = Inr db'"
    using p up leaving p1
    by (auto simp: update_personnel_def require_role_or_capability_def Let_def no_code)
  from departure_closes_everything [OF opened_reachable u leaving(1) p] accounts u show ?thesis by simp
qed

end
