(* ===== verification/SchemeLifecycle.thy ===== *)
theory SchemeLifecycle
  imports Scoring
begin

text \<open>
  The life of a scoring scheme under the endpoints of \<open>app/api/routers/scoring_schemes.py\<close>: drafting,
  activation by a second person, deletion of drafts; the invariant of the table of schemes from
  the state the migrations leave.
\<close>

section \<open>The life of a scheme\<close>

definition passed_validation :: "scoring_scheme \<Rightarrow> bool" where
  "passed_validation s \<longleftrightarrow> ensure_scheme_is_valid s = Inr ()"

text \<open>
  What holds of every scheme that has ever been active: it passed the validation and, when it has an
  author, someone else switched it on.
\<close>

definition activation_ok :: "scoring_scheme \<Rightarrow> bool" where
  "activation_ok s \<longleftrightarrow>
    scheme_status s = Scheme_draft \<or>
    (passed_validation s \<and>
      (scheme_created_by_user_id s = None \<or> scheme_created_by_user_id s \<noteq> activated_by_user_id s))"

definition active_ids :: "database \<Rightarrow> int list" where
  "active_ids db = map scheme_id (filter (\<lambda>s. scheme_status s = Scheme_active) (t_schemes db))"

definition schemes_wf :: "database \<Rightarrow> bool" where
  "schemes_wf db \<longleftrightarrow>
    distinct (map scheme_id (t_schemes db)) \<and> length (active_ids db) \<le> 1 \<and>
    list_all activation_ok (t_schemes db)"

text \<open>The scheme the migration \<open>versioned_scoring_schemes\<close> installs: the rules from before there were schemes.\<close>

definition seed_scheme :: "int \<Rightarrow> scoring_scheme" where
  "seed_scheme t =
    \<lparr>scheme_id = 1, scheme_version = 1, scheme_name = ascii ''base'', scheme_status = Scheme_active,
     sch_general_section_weight = GENERAL_SECTION_WEIGHT,
     sch_specialized_section_weight = SPECIALIZED_SECTION_WEIGHT,
     sch_evidence_required_scores = EVIDENCE_REQUIRED_SCORES,
     sch_evidence_min_words = EVIDENCE_REQUIRED_MIN_WORDS, sch_evidence_max_words = EVIDENCE_MAX_WORDS,
     sch_bonus_max_points = BONUS_MAX_POINTS, sch_improvement_plan_max_pct = IMPROVEMENT_PLAN_MAX_PCT,
     sch_thresholds = FINAL_RESULT_THRESHOLDS, sch_indicator_weights = [],
     scheme_created_by_user_id = None, activated_by_user_id = None, activated_at = Some t,
     retired_at = None\<rparr>"

inductive scheme_step :: "database \<Rightarrow> database \<Rightarrow> bool" where
  create: "create_scheme env db user payload = Inr (db', k) \<Longrightarrow> scheme_step db db'"
| activate: "activate_scheme env db user k = Inr db' \<Longrightarrow> scheme_step db db'"
| delete: "delete_draft db user k = Inr db' \<Longrightarrow> scheme_step db db'"

inductive_cases scheme_stepE: "scheme_step db db'"

inductive scheme_reachable :: "database \<Rightarrow> bool" where
  init: "t_schemes db = [seed_scheme t] \<Longrightarrow> scheme_reachable db"
| step: "scheme_reachable db \<Longrightarrow> scheme_step db db' \<Longrightarrow> scheme_reachable db'"

lemma passed_validation_update [simp]:
  "passed_validation (s\<lparr>scheme_status := x\<rparr>) = passed_validation s"
  "passed_validation (s\<lparr>retired_at := t\<rparr>) = passed_validation s"
  "passed_validation (s\<lparr>activated_at := t\<rparr>) = passed_validation s"
  "passed_validation (s\<lparr>activated_by_user_id := u\<rparr>) = passed_validation s"
  by (simp_all add: passed_validation_def ensure_scheme_is_valid_def input_of_scheme_def)

lemma create_scheme_InrD:
  assumes "create_scheme env db user payload = Inr (db', k)"
  obtains s where "t_schemes db' = t_schemes db @ [s]" and "scheme_status s = Scheme_draft"
    and "scheme_id s = next_id scheme_id (t_schemes db)"
  using assms by (auto simp: create_scheme_def Let_def add_scheme_def split: sum.splits)

lemma delete_draft_InrD:
  "delete_draft db user k = Inr db' \<Longrightarrow>
    t_schemes db' = filter (\<lambda>s. scheme_id s \<noteq> k) (t_schemes db)"
  by (auto simp: delete_draft_def Let_def)

lemma activate_scheme_InrD:
  assumes "activate_scheme env db user k = Inr db'"
  obtains s where "get_scheme db k = Some s" and "scheme_status s = Scheme_draft"
    and "scheme_created_by_user_id s \<noteq> Some (cu_id user)" and "passed_validation s"
    and "t_schemes db' = row_put scheme_id (s\<lparr>scheme_status := Scheme_active,
        activated_at := Some (now env), activated_by_user_id := Some (cu_id user)\<rparr>)
      (case active_scheme db of None \<Rightarrow> t_schemes db
       | Some p \<Rightarrow> row_put scheme_id (p\<lparr>scheme_status := Scheme_retired, retired_at := Some (now env)\<rparr>)
                    (t_schemes db))"
  using assms
  by (auto simp: activate_scheme_def activate_def Let_def put_scheme_def passed_validation_def
      split: option.splits)

lemma no_active_after_retiring:
  assumes "distinct (map scheme_id (t_schemes db))" and "length (active_ids db) \<le> 1"
    and "active_scheme db = Some p"
  shows "\<forall>s \<in> set (row_put scheme_id (p\<lparr>scheme_status := Scheme_retired, retired_at := t\<rparr>) (t_schemes db)).
    scheme_status s \<noteq> Scheme_active"
proof
  fix s
  assume s: "s \<in> set (row_put scheme_id (p\<lparr>scheme_status := Scheme_retired, retired_at := t\<rparr>) (t_schemes db))"
  have p: "p \<in> set (t_schemes db)" "scheme_status p = Scheme_active"
    using assms(3) by (auto simp: active_scheme_def find_Some_iff)
  show "scheme_status s \<noteq> Scheme_active"
  proof
    assume act: "scheme_status s = Scheme_active"
    then have q: "s \<in> set (t_schemes db)" "scheme_id s \<noteq> scheme_id p"
      using s by (auto simp: row_put_def split: if_splits)
    then have "{scheme_id s, scheme_id p} \<subseteq> set (active_ids db)"
      using p act by (auto simp: active_ids_def)
    then have "card {scheme_id s, scheme_id p} \<le> length (active_ids db)"
      by (meson card_length card_mono finite_set order_trans)
    then show False using assms(2) q(2) by simp
  qed
qed

lemma active_scheme_None: "active_scheme db = None \<Longrightarrow> \<forall>s \<in> set (t_schemes db). scheme_status s \<noteq> Scheme_active"
  by (auto simp: active_scheme_def find_None_iff)

lemma filter_active_put:
  "scheme_status r = Scheme_active \<Longrightarrow> \<forall>x \<in> set rows. scheme_status x \<noteq> Scheme_active \<Longrightarrow>
    filter (\<lambda>x. scheme_status x = Scheme_active) (row_put scheme_id r rows) =
    filter (\<lambda>x. scheme_id x = scheme_id r) (row_put scheme_id r rows)"
  by (intro filter_cong) (auto simp: row_put_def)

lemma filter_key_single:
  "distinct (map key rows) \<Longrightarrow> k \<in> set (map key rows) \<Longrightarrow>
    map key (filter (\<lambda>x. key x = k) rows) = [k]"
  for key :: "'r \<Rightarrow> int"
  by (induction rows) (auto simp: filter_empty_conv image_iff)

text \<open>After an activation the activated scheme is the only active one.\<close>

lemma activate_active_ids:
  assumes "distinct (map scheme_id (t_schemes db))" and "length (active_ids db) \<le> 1"
    and "activate_scheme env db user k = Inr db'"
  shows "active_ids db' = [k]"
proof -
  obtain s where s: "get_scheme db k = Some s" "scheme_status s = Scheme_draft"
    "t_schemes db' = row_put scheme_id (s\<lparr>scheme_status := Scheme_active,
        activated_at := Some (now env), activated_by_user_id := Some (cu_id user)\<rparr>)
      (case active_scheme db of None \<Rightarrow> t_schemes db
       | Some p \<Rightarrow> row_put scheme_id (p\<lparr>scheme_status := Scheme_retired, retired_at := Some (now env)\<rparr>)
                    (t_schemes db))" (is "_ = row_put _ _ ?mid")
    using assms(3) by (rule activate_scheme_InrD)
  have mid: "\<forall>x \<in> set ?mid. scheme_status x \<noteq> Scheme_active"
    using active_scheme_None no_active_after_retiring [OF assms(1,2)] by (auto split: option.splits)
  have keys: "map scheme_id ?mid = map scheme_id (t_schemes db)"
    by (auto split: option.splits)
  have k: "scheme_id s = k" "k \<in> set (map scheme_id ?mid)"
    using row_get_SomeD [of scheme_id "t_schemes db" k s] s(1)
    unfolding keys by (auto simp: get_scheme_def)
  let ?r = "s\<lparr>scheme_status := Scheme_active, activated_at := Some (now env),
    activated_by_user_id := Some (cu_id user)\<rparr>"
  have "filter (\<lambda>x. scheme_status x = Scheme_active) (row_put scheme_id ?r ?mid) =
      filter (\<lambda>x. scheme_id x = scheme_id ?r) (row_put scheme_id ?r ?mid)"
    by (rule filter_active_put) (use mid in auto)
  moreover have "map scheme_id (filter (\<lambda>x. scheme_id x = k) (row_put scheme_id ?r ?mid)) = [k]"
    by (rule filter_key_single) (use keys k assms(1) in auto)
  ultimately show ?thesis
    unfolding active_ids_def s(3) using k(1) by simp
qed


lemma legacy_weights_sum: "py_round (fadd GENERAL_SECTION_WEIGHT SPECIALIZED_SECTION_WEIGHT) 6 = 1"
  by code_simp

lemma legacy_weights_unit:
  "0 \<le> GENERAL_SECTION_WEIGHT" "GENERAL_SECTION_WEIGHT \<le> 1"
  "0 \<le> SPECIALIZED_SECTION_WEIGHT" "SPECIALIZED_SECTION_WEIGHT \<le> 1"
  unfolding GENERAL_SECTION_WEIGHT_def SPECIALIZED_SECTION_WEIGHT_def
  using fl_mono [of "6 / 10" 1] fl_mono [of "4 / 10" 1] by (simp_all add: fl_nonneg)

lemma seed_input: "SchemeInput (input_of_scheme (seed_scheme t)) = Inr (input_of_scheme (seed_scheme t))"
proof -
  have "sort [60, 75, 90, 101 :: rat] = [60, 75, 90, 101]" by simp
  then show ?thesis
    using legacy_weights_sum legacy_weights_unit
    by (simp add: SchemeInput_def check_scheme_def
        scheme_fields_ok_def input_of_scheme_def seed_scheme_def Let_def EVIDENCE_REQUIRED_SCORES_def
        EVIDENCE_REQUIRED_MIN_WORDS_def EVIDENCE_MAX_WORDS_def BONUS_MAX_POINTS_def
        IMPROVEMENT_PLAN_MAX_PCT_def FINAL_RESULT_THRESHOLDS_def MAX_THRESHOLDS_def
        threshold_band_ok_def strip_def ascii_def is_space_def)
qed

lemma seed_passed: "passed_validation (seed_scheme t)"
  by (simp add: passed_validation_def ensure_scheme_is_valid_def seed_input)

lemma seed_wf: "t_schemes db = [seed_scheme t] \<Longrightarrow> schemes_wf db"
  using seed_passed [of t]
  by (simp add: schemes_wf_def active_ids_def activation_ok_def) (simp add: seed_scheme_def)

lemma row_put_all: "list_all P rows \<Longrightarrow> P r \<Longrightarrow> list_all P (row_put key r rows)"
  by (auto simp: list_all_iff row_put_def)

lemma activate_activation_ok:
  assumes "list_all activation_ok (t_schemes db)" and "activate_scheme env db user k = Inr db'"
  shows "list_all activation_ok (t_schemes db')"
proof -
  obtain s where s: "get_scheme db k = Some s"
    "scheme_created_by_user_id s \<noteq> Some (cu_id user)" "passed_validation s"
    "t_schemes db' = row_put scheme_id (s\<lparr>scheme_status := Scheme_active,
        activated_at := Some (now env), activated_by_user_id := Some (cu_id user)\<rparr>)
      (case active_scheme db of None \<Rightarrow> t_schemes db
       | Some p \<Rightarrow> row_put scheme_id (p\<lparr>scheme_status := Scheme_retired, retired_at := Some (now env)\<rparr>)
                    (t_schemes db))"
    using assms(2) by (rule activate_scheme_InrD)
  have retire: "activation_ok (p\<lparr>scheme_status := Scheme_retired, retired_at := Some (now env)\<rparr>)"
    if "active_scheme db = Some p" for p
  proof -
    have "p \<in> set (t_schemes db)" "scheme_status p = Scheme_active"
      using that by (auto simp: active_scheme_def find_Some_iff)
    then show ?thesis using assms(1) by (fastforce simp: list_all_iff activation_ok_def)
  qed
  show ?thesis
    unfolding s(4) using assms(1) s(2,3) retire
    by (intro row_put_all) (auto simp: activation_ok_def split: option.splits intro!: row_put_all)
qed

lemma scheme_step_wf:
  assumes "schemes_wf db" and "scheme_step db db'"
  shows "schemes_wf db'"
  using assms(2)
proof cases
  case (create env user payload k)
  then obtain s where "t_schemes db' = t_schemes db @ [s]" "scheme_status s = Scheme_draft"
    "scheme_id s = next_id scheme_id (t_schemes db)"
    by (rule create_scheme_InrD)
  then show ?thesis
    using assms(1) next_id_not_in [of scheme_id "t_schemes db"]
    by (simp add: schemes_wf_def active_ids_def activation_ok_def)
next
  case (activate env user k)
  obtain s where s: "t_schemes db' = row_put scheme_id (s\<lparr>scheme_status := Scheme_active,
        activated_at := Some (now env), activated_by_user_id := Some (cu_id user)\<rparr>)
      (case active_scheme db of None \<Rightarrow> t_schemes db
       | Some p \<Rightarrow> row_put scheme_id (p\<lparr>scheme_status := Scheme_retired, retired_at := Some (now env)\<rparr>)
                    (t_schemes db))"
    using activate by (rule activate_scheme_InrD)
  have "map scheme_id (t_schemes db') = map scheme_id (t_schemes db)"
    unfolding s by (simp split: option.splits)
  then show ?thesis
    using assms(1) activate_active_ids [OF _ _ activate] activate_activation_ok [OF _ activate]
    by (simp add: schemes_wf_def)
next
  case (delete user k)
  then have rows: "t_schemes db' = filter (\<lambda>s. scheme_id s \<noteq> k) (t_schemes db)"
    by (rule delete_draft_InrD)
  have filters_le: "length (map scheme_id (filter P (filter Q xs))) \<le> length (map scheme_id (filter P xs))"
    for P Q and xs :: "scoring_scheme list"
    by (induction xs) auto
  have "length (active_ids db') \<le> length (active_ids db)"
    unfolding active_ids_def rows by (rule filters_le)
  then show ?thesis
    using assms(1) unfolding schemes_wf_def rows by (auto simp: list_all_iff distinct_map_filter)
qed

lemma scheme_reachable_wf: "scheme_reachable db \<Longrightarrow> schemes_wf db"
  by (induction rule: scheme_reachable.induct) (auto intro: seed_wf scheme_step_wf)

text \<open>
  C33. However schemes are drafted, activated and deleted after the installation, there is never
  more than one active scheme, no two schemes share an identifier, and every scheme that is or was
  active passed the validation and was not activated by its author.
\<close>

theorem schemes_always_wf:
  assumes "scheme_reachable db"
  shows "length (active_ids db) \<le> 1 \<and> distinct (map scheme_id (t_schemes db)) \<and>
    list_all activation_ok (t_schemes db)"
  using scheme_reachable_wf [OF assms] by (simp add: schemes_wf_def)

text \<open>
  Activation needs two people and a valid draft: when it succeeds, the scheme was a draft that
  passes the validation and someone other than the caller had drafted it, and afterwards it is the
  one active scheme, whatever was active before.
\<close>

theorem activation_needs_a_second_person:
  assumes "scheme_reachable db" and "activate_scheme env db user k = Inr db'"
  shows "\<exists>s. get_scheme db k = Some s \<and> scheme_status s = Scheme_draft \<and>
    scheme_created_by_user_id s \<noteq> Some (cu_id user) \<and> passed_validation s \<and> active_ids db' = [k]"
proof -
  obtain s where "get_scheme db k = Some s" "scheme_status s = Scheme_draft"
    "scheme_created_by_user_id s \<noteq> Some (cu_id user)" "passed_validation s"
    using assms(2) by (rule activate_scheme_InrD)
  then show ?thesis
    using scheme_reachable_wf [OF assms(1)] activate_active_ids [OF _ _ assms(2)]
    by (auto simp: schemes_wf_def)
qed

section \<open>Witnesses\<close>

definition rules_admin :: "int \<Rightarrow> current_user" where
  "rules_admin k = \<lparr>cu_id = k, cu_role = Role_hr, cu_personnel_id = None\<rparr>"

definition installed_db :: database where
  "installed_db = empty_database\<lparr>t_schemes := [seed_scheme 0], t_capabilities :=
    [\<lparr>cap_id = 1, cap_user_id = 7, cap_capability = Manage_scoring, granted_by_user_id = None\<rparr>,
     \<lparr>cap_id = 2, cap_user_id = 8, cap_capability = Manage_scoring, granted_by_user_id = None\<rparr>]\<rparr>"

definition drafted_db :: database where
  "drafted_db =
    (case create_scheme plain_env installed_db (rules_admin 7) (input_of_scheme (seed_scheme 0)) of
       Inr (db, _) \<Rightarrow> db | Inl _ \<Rightarrow> installed_db)"

lemma admins_may: "k = 7 \<or> k = 8 \<Longrightarrow> t_capabilities db = t_capabilities installed_db \<Longrightarrow>
    require_capability [Manage_scoring] db (rules_admin k) = Inr ()"
  by (auto simp: require_capability_iff capabilities_of_def installed_db_def rules_admin_def)

lemma drafted_db_reached:
  "\<exists>k. create_scheme plain_env installed_db (rules_admin 7) (input_of_scheme (seed_scheme 0)) = Inr (drafted_db, k)"
  by (simp add: drafted_db_def create_scheme_def admins_may seed_input Let_def)

lemma installed_reachable: "scheme_reachable installed_db"
  by (rule scheme_reachable.init [of _ 0]) (simp add: installed_db_def)

lemma drafted_reachable: "scheme_reachable drafted_db"
  using drafted_db_reached installed_reachable by (blast intro: scheme_reachable.step scheme_step.create)

definition drafted_scheme :: scoring_scheme where
  "drafted_scheme = (seed_scheme 0)\<lparr>scheme_id := 2, scheme_version := 2, scheme_status := Scheme_draft,
    scheme_created_by_user_id := Some 7, activated_at := None\<rparr>"

lemma rules_admin_id [simp]: "cu_id (rules_admin k) = k"
  by (simp add: rules_admin_def)

lemma drafted_db_tables:
  "t_schemes drafted_db = [seed_scheme 0, drafted_scheme]"
  "t_capabilities drafted_db = t_capabilities installed_db"
proof -
  have k: "next_id scheme_id [seed_scheme 0] = 2" "next_version installed_db = 2"
    by (simp_all add: installed_db_def next_id_def next_version_def seed_scheme_def)
  have "t_schemes installed_db = [seed_scheme 0]" by (simp add: installed_db_def)
  then show "t_schemes drafted_db = [seed_scheme 0, drafted_scheme]"
    by (simp add: drafted_db_def create_scheme_def admins_may seed_input Let_def add_scheme_def k)
      (simp add: plain_env_def drafted_scheme_def input_of_scheme_def seed_scheme_def)
  show "t_capabilities drafted_db = t_capabilities installed_db"
    by (simp add: drafted_db_def create_scheme_def admins_may seed_input Let_def add_scheme_def)
qed

lemma drafted_passed: "ensure_scheme_is_valid drafted_scheme = Inr ()"
proof -
  have "input_of_scheme drafted_scheme = input_of_scheme (seed_scheme 0)"
    by (simp add: drafted_scheme_def input_of_scheme_def)
  then show ?thesis by (simp add: ensure_scheme_is_valid_def seed_input)
qed

theorem schemes_always_wf_witness:
  "length (active_ids drafted_db) \<le> 1 \<and> distinct (map scheme_id (t_schemes drafted_db)) \<and>
    list_all activation_ok (t_schemes drafted_db)"
  by (rule schemes_always_wf [OF drafted_reachable])

theorem activation_needs_a_second_person_witness:
  "\<exists>db' s. activate_scheme plain_env drafted_db (rules_admin 8) 2 = Inr db' \<and>
    get_scheme drafted_db 2 = Some s \<and> scheme_created_by_user_id s \<noteq> Some 8 \<and> active_ids db' = [2]"
proof -
  have s: "get_scheme drafted_db 2 = Some drafted_scheme"
    by (simp add: get_scheme_def drafted_db_tables drafted_scheme_def seed_scheme_def)
  have "scheme_status drafted_scheme = Scheme_draft" "scheme_created_by_user_id drafted_scheme = Some 7"
    by (simp_all add: drafted_scheme_def)
  then obtain db' where "activate_scheme plain_env drafted_db (rules_admin 8) 2 = Inr db'"
    by (simp add: activate_scheme_def activate_def admins_may drafted_db_tables s drafted_passed
        Let_def)
  with activation_needs_a_second_person [OF drafted_reachable this] show ?thesis
    by (auto simp: rules_admin_def)
qed

end
