(* ===== verification/Listing.thy ===== *)
theory Listing
  imports Prelude Enums
begin

text \<open>
  Searching and paging of the listings: the operator \<open>LIKE\<close> of SQL with its wildcards (37 and 95 are
  the percent sign and the underscore, 92 the backslash that quotes the character after it; a
  pattern of the code never ends in a lone backslash because it ends in a percent sign), and
  \<open>LIMIT\<close> with \<open>OFFSET\<close>.
\<close>

fun like :: "utext \<Rightarrow> utext \<Rightarrow> bool" where
  "like [] t \<longleftrightarrow> t = []"
| "like (c # p) t \<longleftrightarrow>
    (if c = 37 then like p t \<or> (case t of [] \<Rightarrow> False | _ # u \<Rightarrow> like (c # p) u)
     else if c = 95 then (case t of [] \<Rightarrow> False | _ # u \<Rightarrow> like p u)
     else if c = 92 then
       (case p of [] \<Rightarrow> False
        | d # q \<Rightarrow> (case t of [] \<Rightarrow> False | x # u \<Rightarrow> x = d \<and> like q u))
     else (case t of [] \<Rightarrow> False | x # u \<Rightarrow> x = c \<and> like p u))"

text \<open>\<open>column.ilike(f"%{q.strip()}%")\<close>; the case table is a parameter.\<close>

definition ilike :: "(utext \<Rightarrow> utext) \<Rightarrow> utext \<Rightarrow> utext \<Rightarrow> bool" where
  "ilike lower q t = like (lower ([37] @ q @ [37])) (lower t)"

definition page :: "nat \<Rightarrow> nat \<Rightarrow> 'a list \<Rightarrow> 'a list" where
  "page limit offset rows = take limit (drop offset rows)"

definition page_ok :: "nat \<Rightarrow> nat \<Rightarrow> unit http" where
  "page_ok maximum limit = raise_if (limit < 1 \<or> maximum < limit) (HTTPException 422 ''limit'')"

lemma like_any [simp]: "like [37] t"
  by (induction t) simp_all

lemma like_prefix:
  "{37, 95, 92} \<inter> set q = {} \<Longrightarrow> like (q @ [37]) t \<longleftrightarrow> (\<exists>u. t = q @ u)"
  by (induction q arbitrary: t) (auto simp del: like.simps(2) simp: like.simps(2) [of _ "_ @ _"] split: list.splits)

text \<open>Without wildcards in the search, the pattern finds exactly the texts that contain it.\<close>

lemma like_finds_parts:
  "{37, 95, 92} \<inter> set q = {} \<Longrightarrow> like ([37] @ q @ [37]) t \<longleftrightarrow> (\<exists>u v. t = u @ q @ v)"
proof (induction t)
  case Nil
  then show ?case by (simp add: like_prefix)
next
  case (Cons x t)
  have "like ([37] @ q @ [37]) (x # t) \<longleftrightarrow> like (q @ [37]) (x # t) \<or> like ([37] @ q @ [37]) t" by simp
  also have "\<dots> \<longleftrightarrow> (\<exists>v. x # t = [] @ q @ v) \<or> (\<exists>u v. x # t = (x # u) @ q @ v)"
    using Cons by (simp add: like_prefix)
  also have "\<dots> \<longleftrightarrow> (\<exists>u v. x # t = u @ q @ v)"
    by (metis append_Cons append_Nil list.exhaust list.inject)
  finally show ?case .
qed

end
