(* ===== verification/ImprovementPlans.thy ===== *)
theory ImprovementPlans
  imports Staff Listing
begin

text \<open>
  Improvement plans after a weak result (\<open>app/api/routers/improvement_plans.py\<close>,
  \<open>app/schemas/improvement_plan.py\<close>, \<open>app/models/improvement_plan.py\<close>). In a request that changes a row a
  field is \<open>None\<close> when it is not given and \<open>Some None\<close> when it is null.
\<close>

section \<open>Tables\<close>

definition PLAN_TITLE_MAX :: nat where "PLAN_TITLE_MAX = 200"
definition PLAN_SUMMARY_MAX :: nat where "PLAN_SUMMARY_MAX = 4000"
definition PLAN_GOAL_MAX :: nat where "PLAN_GOAL_MAX = 1000"

definition get_plan_row :: "database \<Rightarrow> int \<Rightarrow> improvement_plan option" where
  "get_plan_row db = row_get plan_id (t_plans db)"

definition put_plan :: "improvement_plan \<Rightarrow> database \<Rightarrow> database" where
  "put_plan p db = db\<lparr>t_plans := row_put plan_id p (t_plans db)\<rparr>"

definition add_plan :: "improvement_plan \<Rightarrow> database \<Rightarrow> database" where
  "add_plan p db = db\<lparr>t_plans := t_plans db @ [p]\<rparr>"

interpretation plans: keyed_table plan_id get_plan_row put_plan add_plan
  by unfold_locales
    (auto simp: get_plan_row_def put_plan_def add_plan_def row_get_put row_get_append
      dest: row_get_SomeD split: option.splits)

definition get_goal :: "database \<Rightarrow> int \<Rightarrow> improvement_plan_goal option" where
  "get_goal db = row_get goal_id (t_goals db)"

definition put_goal :: "improvement_plan_goal \<Rightarrow> database \<Rightarrow> database" where
  "put_goal g db = db\<lparr>t_goals := row_put goal_id g (t_goals db)\<rparr>"

definition add_goal_row :: "improvement_plan_goal \<Rightarrow> database \<Rightarrow> database" where
  "add_goal_row g db = db\<lparr>t_goals := t_goals db @ [g]\<rparr>"

interpretation goals: keyed_table goal_id get_goal put_goal add_goal_row
  by unfold_locales
    (auto simp: get_goal_def put_goal_def add_goal_row_def row_get_put row_get_append
      dest: row_get_SomeD split: option.splits)

definition goals_of :: "database \<Rightarrow> int \<Rightarrow> improvement_plan_goal list" where
  "goals_of db k = filter (\<lambda>g. goal_plan_id g = k) (t_goals db)"

section \<open>Guards\<close>

definition get_plan_or_404 :: "database \<Rightarrow> int \<Rightarrow> improvement_plan http" where
  "get_plan_or_404 db k = or_raise (get_plan_row db k) (HTTPException 404 ''no such plan'')"

definition ensure_plan_open :: "improvement_plan \<Rightarrow> unit http" where
  "ensure_plan_open p = raise_if (plan_status p \<noteq> Plan_open) (HTTPException 409 ''the plan is closed'')"

definition PLAN_ROLES :: "user_role list" where
  "PLAN_ROLES = [Role_hr, Role_unit_supervisor, Role_deputy, Role_ceo]"

definition is_owner :: "improvement_plan \<Rightarrow> current_user \<Rightarrow> bool" where
  "is_owner p user \<longleftrightarrow> plan_owner_user_id p = Some (cu_id user)"

definition ensure_can_view_plan :: "improvement_plan \<Rightarrow> current_user \<Rightarrow> unit http" where
  "ensure_can_view_plan p user =
    (if cu_role user = Role_hr \<or> is_owner p user then Inr () else Inl (HTTPException 403 ''not your plan''))"

definition ensure_owner_is_valid :: "database \<Rightarrow> int option \<Rightarrow> unit http" where
  "ensure_owner_is_valid db owner =
    (case owner of
       None \<Rightarrow> Inr ()
     | Some u \<Rightarrow>
        raise_if (case get_user db u of None \<Rightarrow> True | Some usr \<Rightarrow> \<not> user_is_active usr)
          (HTTPException 400 ''owner''))"

definition optional_text_max :: "nat \<Rightarrow> utext option \<Rightarrow> utext option http" where
  "optional_text_max m x =
    (let t = map_option strip x
     in case t of None \<Rightarrow> Inr None
        | Some s \<Rightarrow> if m < length s then Inl (HTTPException 422 ''text'') else Inr (Some s))"

section \<open>Whom a plan is for\<close>

text \<open>The SQL condition of the list: the ceiling of the record's own scheme, or else the constant.\<close>

definition is_eligible :: "database \<Rightarrow> evaluation_record \<Rightarrow> bool" where
  "is_eligible db r \<longleftrightarrow>
    status r = Finalized \<and>
    (case final_weighted_pct r of
       None \<Rightarrow> False
     | Some pct \<Rightarrow> pct < (case Option.bind (scoring_scheme_id r) (get_scheme db) of
         Some s \<Rightarrow> sch_improvement_plan_max_pct s | None \<Rightarrow> IMPROVEMENT_PLAN_MAX_PCT)) \<and>
    \<not> list_ex (\<lambda>p. plan_evaluation_record_id p = record_id r) (t_plans db)"

text \<open>A descending order has the rows without a date first.\<close>

definition newest_first :: "evaluation_record list \<Rightarrow> evaluation_record list" where
  "newest_first rows =
    filter (\<lambda>r. finalized_at r = None) rows @
    sort_key (\<lambda>r. - the (finalized_at r)) (filter (\<lambda>r. finalized_at r \<noteq> None) rows)"

lemma set_newest_first [simp]: "set (newest_first rows) = set rows"
  by (auto simp: newest_first_def)

lemma length_newest_first [simp]: "length (newest_first rows) = length rows"
  using sum_length_filter_compl [of "\<lambda>r. finalized_at r = None" rows] by (simp add: newest_first_def)

definition list_eligible_evaluations ::
  "database \<Rightarrow> current_user \<Rightarrow> nat \<Rightarrow> nat \<Rightarrow> (nat \<times> evaluation_record list) http" where
  "list_eligible_evaluations db user limit offset =
    bindE (require_roles [Role_hr] user) (\<lambda>_.
    bindE (page_ok 200 limit) (\<lambda>_.
     (let found = filter (is_eligible db) (t_evaluations db)
      in Inr (length found, page limit offset (newest_first found)))))"

section \<open>Creating\<close>

record plan_input =
  pin_evaluation_record_id :: int
  pin_title :: utext
  pin_review_date :: int
  pin_owner_user_id :: "int option"
  pin_summary :: "utext option"
  pin_goals :: "utext list"

text \<open>
  The goals of a new plan with their place in the request; an empty one is left out. One that is
  longer than its column makes the insertion fail.
\<close>

definition new_goals :: "int \<Rightarrow> int \<Rightarrow> utext list \<Rightarrow> improvement_plan_goal list" where
  "new_goals first k texts =
    (let kept = filter (\<lambda>(i, t). t \<noteq> []) (enumerate 0 (map strip texts))
     in map (\<lambda>(n, i, t). \<lparr>goal_id = first + int n, goal_plan_id = k, goal_description = t, goal_is_done = False,
          goal_display_order = int i\<rparr>) (enumerate 0 kept))"

definition create_plan :: "env \<Rightarrow> database \<Rightarrow> current_user \<Rightarrow> plan_input \<Rightarrow> (database \<times> int) http" where
  "create_plan env db user payload =
    bindE (require_roles [Role_hr] user) (\<lambda>_.
    bindE (text_field PLAN_TITLE_MAX (pin_title payload)) (\<lambda>title.
    bindE (optional_text_max PLAN_SUMMARY_MAX (pin_summary payload)) (\<lambda>summary.
    bindE (ensure_module_enabled db ''improvement_plans'') (\<lambda>_.
    bindE (or_raise (get_evaluation db (pin_evaluation_record_id payload))
             (HTTPException 404 ''no such evaluation'')) (\<lambda>r.
    bindE (ensure_hr_may_handle r user) (\<lambda>_.
    bindE (raise_if (status r \<noteq> Finalized) (HTTPException 400 ''not final'')) (\<lambda>_.
    bindE (raise_if (case final_weighted_pct r of None \<Rightarrow> True
             | Some pct \<Rightarrow> improvement_plan_max_pct (rules_for_record db r) \<le> pct)
             (HTTPException 400 ''not needed'')) (\<lambda>_.
    bindE (ensure_owner_is_valid db (pin_owner_user_id payload)) (\<lambda>_.
    bindE (raise_if (list_ex (\<lambda>p. plan_evaluation_record_id p = record_id r) (t_plans db))
             (HTTPException 409 ''has a plan'')) (\<lambda>_.
    bindE (raise_if (list_ex (\<lambda>t. PLAN_GOAL_MAX < length (strip t)) (pin_goals payload))
             (HTTPException 500 ''value too long'')) (\<lambda>_.
     (let k = next_id plan_id (t_plans db);
          p = \<lparr>plan_id = k, plan_evaluation_record_id = record_id r,
                plan_personnel_id = subject_personnel_id r, plan_title = title,
                plan_owner_user_id = pin_owner_user_id payload, plan_status = Plan_open,
                plan_review_date = pin_review_date payload, plan_summary = summary,
                plan_follow_up_evaluation_id = None, plan_created_by_user_id = Some (cu_id user),
                plan_completed_at = None\<rparr>;
          db1 = (add_plan p db)\<lparr>t_goals := t_goals db @
                  new_goals (next_id goal_id (t_goals db)) k (pin_goals payload)\<rparr>;
          db2 = log_event (cu_id user) ''improvement_plan_created'' (Some (record_id r)) None
                  (Some [(''plan_id'', JInt k), (''title'', JString title)]) db1
      in Inr (case pin_owner_user_id payload of
                None \<Rightarrow> db2
              | Some u \<Rightarrow> notify env [u] ''improvement_plan_assigned'' (Some (record_id r))
                            (Some (''/improvement-plans/'' @ str_int k)) db2, k)))))))))))))"

section \<open>Reading\<close>

definition get_plan ::
  "database \<Rightarrow> current_user \<Rightarrow> int \<Rightarrow> (improvement_plan \<times> improvement_plan_goal list) http" where
  "get_plan db user k =
    bindE (require_roles PLAN_ROLES user) (\<lambda>_.
    bindE (get_plan_or_404 db k) (\<lambda>p.
    bindE (ensure_can_view_plan p user) (\<lambda>_.
    Inr (p, sort_key goal_display_order (goals_of db (plan_id p))))))"

text \<open>The rows of the listing: everybody but human resources sees the plans they own.\<close>

definition is_listed_plan ::
  "(utext \<Rightarrow> utext) \<Rightarrow> database \<Rightarrow> current_user \<Rightarrow> improvement_plan_status option \<Rightarrow> utext option \<Rightarrow>
    improvement_plan \<Rightarrow> bool" where
  "is_listed_plan lower db user wanted q p \<longleftrightarrow>
    (cu_role user = Role_hr \<or> plan_owner_user_id p = Some (cu_id user)) \<and>
    (case wanted of None \<Rightarrow> True | Some st \<Rightarrow> plan_status p = st) \<and>
    (case q of None \<Rightarrow> True | Some t \<Rightarrow> t = [] \<or>
       ilike lower (strip t) (plan_title p) \<or>
       (case get_personnel db (plan_personnel_id p) of None \<Rightarrow> False
        | Some x \<Rightarrow> ilike lower (strip t) (personnel_full_name x)))"

definition list_plans ::
  "crypt \<Rightarrow> database \<Rightarrow> current_user \<Rightarrow> improvement_plan_status option \<Rightarrow> utext option \<Rightarrow> nat \<Rightarrow> nat \<Rightarrow>
    (nat \<times> improvement_plan list) http" where
  "list_plans crypt db user wanted q limit offset =
    bindE (require_roles PLAN_ROLES user) (\<lambda>_.
    bindE (page_ok 200 limit) (\<lambda>_.
     (let found = filter (is_listed_plan (lower_text crypt) db user wanted q) (t_plans db)
      in Inr (length found, page limit offset (sort_key plan_review_date found)))))"

section \<open>Changing\<close>

record plan_update =
  plu_title :: "utext option option"
  plu_review_date :: "int option option"
  plu_owner_user_id :: "int option option"
  plu_summary :: "utext option option"
  plu_follow_up_evaluation_id :: "int option option"

definition clean_plan_update :: "plan_update \<Rightarrow> plan_update http" where
  "clean_plan_update up =
    bindE (clean_text PLAN_TITLE_MAX (plu_title up)) (\<lambda>title.
    bindE (case plu_summary up of
             None \<Rightarrow> Inr None
           | Some x \<Rightarrow> bindE (optional_text_max PLAN_SUMMARY_MAX x) (\<lambda>s. Inr (Some s))) (\<lambda>summary.
    Inr (up\<lparr>plu_title := title, plu_summary := summary\<rparr>)))"

text \<open>The names of the given fields in alphabetical order.\<close>

definition plan_update_fields :: "plan_update \<Rightarrow> string list" where
  "plan_update_fields up =
    (if plu_follow_up_evaluation_id up = None then [] else [''follow_up_evaluation_id'']) @
    (if plu_owner_user_id up = None then [] else [''owner_user_id'']) @
    (if plu_review_date up = None then [] else [''review_date'']) @
    (if plu_summary up = None then [] else [''summary'']) @
    (if plu_title up = None then [] else [''title''])"

definition update_plan :: "env \<Rightarrow> database \<Rightarrow> current_user \<Rightarrow> int \<Rightarrow> plan_update \<Rightarrow> database http" where
  "update_plan env db user k payload =
    bindE (require_roles [Role_hr] user) (\<lambda>_.
    bindE (clean_plan_update payload) (\<lambda>up.
    bindE (get_plan_or_404 db k) (\<lambda>p.
    bindE (case plu_owner_user_id up of None \<Rightarrow> Inr () | Some owner \<Rightarrow> ensure_owner_is_valid db owner) (\<lambda>_.
    bindE (case given_value (plu_follow_up_evaluation_id up) of
             None \<Rightarrow> Inr ()
           | Some f \<Rightarrow> raise_if (case get_evaluation db f of None \<Rightarrow> True
               | Some r \<Rightarrow> subject_personnel_id r \<noteq> plan_personnel_id p) (HTTPException 400 ''follow-up'')) (\<lambda>_.
    bindE (set_column (plu_title up) (plan_title p)) (\<lambda>title.
    bindE (set_column (plu_review_date up) (plan_review_date p)) (\<lambda>review.
     (let p1 = p\<lparr>plan_title := title, plan_review_date := review,
                 plan_owner_user_id := set_nullable (plu_owner_user_id up) (plan_owner_user_id p),
                 plan_summary := set_nullable (plu_summary up) (plan_summary p),
                 plan_follow_up_evaluation_id :=
                   set_nullable (plu_follow_up_evaluation_id up) (plan_follow_up_evaluation_id p)\<rparr>;
          db1 = put_plan p1 db;
          db2 = (case plan_owner_user_id p1 of
              None \<Rightarrow> db1
            | Some u \<Rightarrow> if plan_owner_user_id p = Some u then db1
                        else notify env [u] ''improvement_plan_assigned'' (Some (plan_evaluation_record_id p))
                               (Some (''/improvement-plans/'' @ str_int (plan_id p))) db1)
      in Inr (log_event (cu_id user) ''improvement_plan_updated'' (Some (plan_evaluation_record_id p)) None
           (Some [(''plan_id'', JInt (plan_id p)), (''fields'', JArray (map jstr (plan_update_fields up)))])
           db2)))))))))"

definition end_plan ::
  "improvement_plan_status \<Rightarrow> string \<Rightarrow> env \<Rightarrow> database \<Rightarrow> current_user \<Rightarrow> int \<Rightarrow> database http" where
  "end_plan to event env db user k =
    bindE (require_roles [Role_hr] user) (\<lambda>_.
    bindE (get_plan_or_404 db k) (\<lambda>p.
    bindE (raise_if (plan_status p \<noteq> Plan_open) (HTTPException 400 ''the plan is closed'')) (\<lambda>_.
    Inr (log_event (cu_id user) event (Some (plan_evaluation_record_id p)) None
      (Some [(''plan_id'', JInt (plan_id p))])
      (put_plan (p\<lparr>plan_status := to, plan_completed_at := Some (now env)\<rparr>) db)))))"

definition complete_plan :: "env \<Rightarrow> database \<Rightarrow> current_user \<Rightarrow> int \<Rightarrow> database http" where
  "complete_plan = end_plan Plan_completed ''improvement_plan_completed''"

definition cancel_plan :: "env \<Rightarrow> database \<Rightarrow> current_user \<Rightarrow> int \<Rightarrow> database http" where
  "cancel_plan = end_plan Plan_cancelled ''improvement_plan_cancelled''"

section \<open>Goals\<close>

definition next_order :: "improvement_plan_goal list \<Rightarrow> int" where
  "next_order gs = fold (\<lambda>g m. max m (goal_display_order g)) gs (- 1) + 1"

definition add_goal :: "database \<Rightarrow> current_user \<Rightarrow> int \<Rightarrow> utext \<Rightarrow> database http" where
  "add_goal db user k given =
    bindE (require_roles [Role_hr] user) (\<lambda>_.
    bindE (text_field PLAN_GOAL_MAX given) (\<lambda>description.
    bindE (get_plan_or_404 db k) (\<lambda>p.
    bindE (ensure_plan_open p) (\<lambda>_.
     (let g = \<lparr>goal_id = next_id goal_id (t_goals db), goal_plan_id = plan_id p, goal_description = description,
                goal_is_done = False, goal_display_order = next_order (goals_of db (plan_id p))\<rparr>
      in Inr (log_event (cu_id user) ''improvement_goal_added'' (Some (plan_evaluation_record_id p)) None
           (Some [(''plan_id'', JInt (plan_id p)), (''goal_id'', JInt (goal_id g)),
                  (''description'', JString description)]) (add_goal_row g db)))))))"

definition get_goal_of_plan :: "database \<Rightarrow> int \<Rightarrow> int \<Rightarrow> improvement_plan_goal http" where
  "get_goal_of_plan db k g =
    (case get_goal db g of
       None \<Rightarrow> Inl (HTTPException 404 ''no such goal'')
     | Some x \<Rightarrow> if goal_plan_id x \<noteq> k then Inl (HTTPException 404 ''no such goal'') else Inr x)"

definition update_goal ::
  "database \<Rightarrow> current_user \<Rightarrow> int \<Rightarrow> int \<Rightarrow> utext option option \<Rightarrow> bool option option \<Rightarrow> database http" where
  "update_goal db user k g given is_done =
    bindE (require_roles PLAN_ROLES user) (\<lambda>_.
    bindE (clean_text PLAN_GOAL_MAX given) (\<lambda>description.
    bindE (get_goal_of_plan db k g) (\<lambda>goal.
    bindE (get_plan_or_404 db k) (\<lambda>p.
    bindE (ensure_can_view_plan p user) (\<lambda>_.
    bindE (ensure_plan_open p) (\<lambda>_.
    bindE (raise_if (cu_role user \<noteq> Role_hr \<and> description \<noteq> None) (HTTPException 403 ''only ticking off'')) (\<lambda>_.
    bindE (set_column description (goal_description goal)) (\<lambda>new_description.
    bindE (set_column is_done (goal_is_done goal)) (\<lambda>done_now.
    Inr (log_event (cu_id user) ''improvement_goal_updated'' (Some (plan_evaluation_record_id p))
      (Some [(''description'', JString (goal_description goal)), (''is_done'', JBool (goal_is_done goal))])
      (Some ([(''plan_id'', JInt (plan_id p)), (''goal_id'', JInt (goal_id goal))] @
         new_field ''description'' JString description @ new_field ''is_done'' JBool is_done))
      (put_goal (goal\<lparr>goal_description := new_description, goal_is_done := done_now\<rparr>) db)))))))))))"

definition delete_goal :: "database \<Rightarrow> current_user \<Rightarrow> int \<Rightarrow> int \<Rightarrow> database http" where
  "delete_goal db user k g =
    bindE (require_roles [Role_hr] user) (\<lambda>_.
    bindE (get_goal_of_plan db k g) (\<lambda>goal.
    bindE (get_plan_or_404 db k) (\<lambda>p.
    bindE (ensure_plan_open p) (\<lambda>_.
     (let db1 = log_event (cu_id user) ''improvement_goal_deleted'' (Some (plan_evaluation_record_id p))
                  (Some [(''plan_id'', JInt (plan_id p)), (''goal_id'', JInt (goal_id goal)),
                         (''description'', JString (goal_description goal)),
                         (''is_done'', JBool (goal_is_done goal))]) None db
      in Inr (db1\<lparr>t_goals := filter (\<lambda>x. goal_id x \<noteq> goal_id goal) (t_goals db1)\<rparr>))))))"

section \<open>The life of the plans\<close>

inductive plan_step :: "database \<Rightarrow> database \<Rightarrow> bool" where
  created: "create_plan env db user payload = Inr (db', k) \<Longrightarrow> plan_step db db'"
| updated: "update_plan env db user k up = Inr db' \<Longrightarrow> plan_step db db'"
| completed: "complete_plan env db user k = Inr db' \<Longrightarrow> plan_step db db'"
| cancelled: "cancel_plan env db user k = Inr db' \<Longrightarrow> plan_step db db'"
| goal_added: "add_goal db user k given = Inr db' \<Longrightarrow> plan_step db db'"
| goal_updated: "update_goal db user k g given is_done = Inr db' \<Longrightarrow> plan_step db db'"
| goal_deleted: "delete_goal db user k g = Inr db' \<Longrightarrow> plan_step db db'"
| elsewhere: "t_plans db' = t_plans db \<Longrightarrow> t_goals db' = t_goals db \<Longrightarrow> plan_step db db'"

text \<open>
  What an operation does to the two tables, the endpoints forgotten: a plan with its goals is added for
  a record that has none, a plan keeps what it is about and may end, or the goals of one open plan change.
\<close>

inductive plan_move :: "improvement_plan list \<times> improvement_plan_goal list \<Rightarrow>
    improvement_plan list \<times> improvement_plan_goal list \<Rightarrow> bool" where
  add: "plan_id p \<notin> plan_id ` set ps \<Longrightarrow>
    plan_evaluation_record_id p \<notin> plan_evaluation_record_id ` set ps \<Longrightarrow>
    plan_status p = Plan_open \<Longrightarrow> plan_completed_at p = None \<Longrightarrow>
    \<forall>g \<in> set new. goal_plan_id g = plan_id p \<Longrightarrow> distinct (map goal_id (gs @ new)) \<Longrightarrow>
    distinct (map goal_display_order new) \<Longrightarrow> plan_move (ps, gs) (ps @ [p], gs @ new)"
| edit: "p \<in> set ps \<Longrightarrow> plan_id p' = plan_id p \<Longrightarrow>
    plan_evaluation_record_id p' = plan_evaluation_record_id p \<Longrightarrow>
    (plan_status p' = plan_status p \<and> plan_completed_at p' = plan_completed_at p \<or>
     plan_status p = Plan_open \<and> plan_status p' \<noteq> Plan_open \<and> plan_completed_at p' \<noteq> None) \<Longrightarrow>
    plan_move (ps, gs) (row_put plan_id p' ps, gs)"
| goals: "p \<in> set ps \<Longrightarrow> plan_status p = Plan_open \<Longrightarrow>
    filter (\<lambda>g. goal_plan_id g \<noteq> plan_id p) gs' = filter (\<lambda>g. goal_plan_id g \<noteq> plan_id p) gs \<Longrightarrow>
    distinct (map goal_id gs) \<longrightarrow> distinct (map goal_id gs') \<Longrightarrow>
    distinct (map goal_display_order (filter (\<lambda>g. goal_plan_id g = plan_id p) gs)) \<longrightarrow>
      distinct (map goal_display_order (filter (\<lambda>g. goal_plan_id g = plan_id p) gs')) \<Longrightarrow>
    plan_move (ps, gs) (ps, gs')"
| none: "plan_move (ps, gs) (ps, gs)"

definition plans_wf :: "improvement_plan list \<times> improvement_plan_goal list \<Rightarrow> bool" where
  "plans_wf st \<longleftrightarrow>
    distinct (map plan_id (fst st)) \<and> distinct (map plan_evaluation_record_id (fst st)) \<and>
    (\<forall>p \<in> set (fst st). plan_status p = Plan_open \<longleftrightarrow> plan_completed_at p = None) \<and>
    distinct (map goal_id (snd st)) \<and> goal_plan_id ` set (snd st) \<subseteq> plan_id ` set (fst st) \<and>
    (\<forall>k. distinct (map goal_display_order (filter (\<lambda>g. goal_plan_id g = k) (snd st))))"

lemma plan_move_wf: "plan_move st st' \<Longrightarrow> plans_wf st \<Longrightarrow> plans_wf st'"
proof (induction rule: plan_move.induct)
  case (add p ps new gs)
  have "goal_plan_id ` set gs \<subseteq> plan_id ` set ps" using add.prems by (simp add: plans_wf_def)
  then have "goal_plan_id g \<noteq> plan_id p" if "g \<in> set gs" for g
    using add.hyps(1) that by (metis image_subset_iff)
  then have none: "filter (\<lambda>g. goal_plan_id g = plan_id p) gs = []" by (simp add: filter_empty_conv)
  have "filter (\<lambda>g. goal_plan_id g = k) new = (if k = plan_id p then new else [])" for k
    using add.hyps(5) by (auto simp: filter_id_conv filter_empty_conv)
  then have "distinct (map goal_display_order (filter (\<lambda>g. goal_plan_id g = k) (gs @ new)))" for k
    using add.hyps(7) add.prems none by (cases "k = plan_id p") (simp_all add: plans_wf_def)
  moreover have "goal_plan_id ` set (gs @ new) \<subseteq> plan_id ` set (ps @ [p])"
    using \<open>goal_plan_id ` set gs \<subseteq> _\<close> add.hyps(5) by auto
  moreover have "distinct (map plan_id (ps @ [p]))" "distinct (map plan_evaluation_record_id (ps @ [p]))"
    using add.hyps(1,2) add.prems by (simp_all add: plans_wf_def)
  moreover have "\<forall>x \<in> set (ps @ [p]). plan_status x = Plan_open \<longleftrightarrow> plan_completed_at x = None"
    using add.hyps(3,4) add.prems by (simp add: plans_wf_def)
  ultimately show ?case unfolding plans_wf_def fst_conv snd_conv using add.hyps(6) by blast
next
  case (edit p ps p' gs)
  have d: "distinct (map plan_id ps)" using edit.prems by (simp add: plans_wf_def)
  have other: "x = p" if "x \<in> set ps" "plan_id x = plan_id p" for x
    using d edit.hyps(1) that by (auto simp: distinct_map dest: inj_onD)
  have "map plan_evaluation_record_id (row_put plan_id p' ps) = map plan_evaluation_record_id ps"
    using other edit.hyps(2,3) by (auto simp: row_put_def)
  moreover have "plan_status x = Plan_open \<longleftrightarrow> plan_completed_at x = None" if "x \<in> set (row_put plan_id p' ps)" for x
  proof -
    have old: "plan_status y = Plan_open \<longleftrightarrow> plan_completed_at y = None" if "y \<in> set ps" for y
      using edit.prems that by (simp add: plans_wf_def)
    from set_row_put_subset [OF that] show ?thesis using old [of x] old [OF edit.hyps(1)] edit.hyps(4) by auto
  qed
  moreover have "plan_id ` set (row_put plan_id p' ps) = plan_id ` set ps" by (simp flip: set_map)
  ultimately show ?case using edit.prems by (simp add: plans_wf_def)
next
  case (goals p ps gs' gs)
  have "goal_plan_id g \<in> plan_id ` set ps" if g: "g \<in> set gs'" for g
  proof (cases "goal_plan_id g = plan_id p")
    case True
    then show ?thesis using goals.hyps(1) by simp
  next
    case False
    then have "g \<in> set (filter (\<lambda>g. goal_plan_id g \<noteq> plan_id p) gs')" using g by simp
    then show ?thesis using goals.prems unfolding goals.hyps(3) by (auto simp: plans_wf_def)
  qed
  moreover have "distinct (map goal_display_order (filter (\<lambda>g. goal_plan_id g = k) gs'))" for k
  proof (cases "k = plan_id p")
    case True
    then show ?thesis using goals.hyps(5) goals.prems by (simp add: plans_wf_def)
  next
    case False
    then have f: "filter (\<lambda>g. goal_plan_id g = k) xs =
        filter (\<lambda>g. goal_plan_id g = k) (filter (\<lambda>g. goal_plan_id g \<noteq> plan_id p) xs)" for xs
      by (auto intro!: filter_cong)
    show ?thesis using goals.prems unfolding f [of gs'] goals.hyps(3) f [of gs, symmetric] by (simp add: plans_wf_def)
  qed
  ultimately show ?case using goals.hyps(4) goals.prems by (auto simp: plans_wf_def)
qed

text \<open>A move leaves an ended plan as it is, whatever else its row says, and its goals untouched.\<close>

definition ended_kept :: "improvement_plan \<Rightarrow> improvement_plan_goal list \<Rightarrow>
    improvement_plan list \<times> improvement_plan_goal list \<Rightarrow> bool" where
  "ended_kept p own st \<longleftrightarrow> filter (\<lambda>g. goal_plan_id g = plan_id p) (snd st) = own \<and>
    (\<exists>p' \<in> set (fst st). plan_id p' = plan_id p \<and> plan_evaluation_record_id p' = plan_evaluation_record_id p \<and>
      plan_status p' = plan_status p \<and> plan_completed_at p' = plan_completed_at p)"

lemma same_plan:
  "plans_wf (ps, gs) \<Longrightarrow> p \<in> set ps \<Longrightarrow> q \<in> set ps \<Longrightarrow> plan_id q = plan_id p \<Longrightarrow> q = p"
  by (auto simp: plans_wf_def distinct_map dest: inj_onD)

lemma filter_own_goals:
  "k \<noteq> j \<Longrightarrow> filter (\<lambda>g. goal_plan_id g = k) gs =
    filter (\<lambda>g. goal_plan_id g = k) (filter (\<lambda>g. goal_plan_id g \<noteq> j) gs)"
  by (auto intro!: filter_cong)

lemma plan_move_ended:
  "plan_move st st' \<Longrightarrow> plans_wf st \<Longrightarrow> plan_status q \<noteq> Plan_open \<Longrightarrow> ended_kept q own st \<Longrightarrow> ended_kept q own st'"
proof (induction rule: plan_move.induct)
  case (add p ps new gs)
  have "plan_id q \<in> plan_id ` set ps" using add.prems(3) by (auto simp: ended_kept_def intro: rev_image_eqI)
  then have "plan_id q \<noteq> plan_id p" using add.hyps(1) by metis
  then have "filter (\<lambda>g. goal_plan_id g = plan_id q) new = []" using add.hyps(5) by (auto simp: filter_empty_conv)
  then show ?case using add.prems by (auto simp: ended_kept_def)
next
  case (edit p ps p' gs)
  then obtain q' where q': "q' \<in> set ps" "plan_id q' = plan_id q" "plan_status q' = plan_status q"
    "plan_evaluation_record_id q' = plan_evaluation_record_id q" "plan_completed_at q' = plan_completed_at q"
    by (auto simp: ended_kept_def)
  show ?case
  proof (cases "plan_id q = plan_id p")
    case True
    then have "q' = p" using same_plan [OF edit.prems(1) edit.hyps(1) q'(1)] q'(2) by simp
    moreover have "p' \<in> set (row_put plan_id p' ps)" using edit.hyps(1,2) by (force simp: row_put_def)
    ultimately show ?thesis using q' edit.hyps(2-4) edit.prems by (auto simp: ended_kept_def)
  next
    case False
    then have "q' \<in> set (row_put plan_id p' ps)" using q'(1,2) edit.hyps(2) by (force simp: row_put_def)
    then show ?thesis using q' edit.prems by (auto simp: ended_kept_def)
  qed
next
  case (goals p ps gs' gs)
  then obtain q' where "q' \<in> set ps" "plan_id q' = plan_id q" "plan_status q' = plan_status q"
    by (auto simp: ended_kept_def)
  then have "plan_id q \<noteq> plan_id p" using same_plan [OF goals.prems(1) goals.hyps(1)] goals.hyps(2) goals.prems(2) by metis
  then have "filter (\<lambda>g. goal_plan_id g = plan_id q) gs' = filter (\<lambda>g. goal_plan_id g = plan_id q) gs"
    using filter_own_goals [of "plan_id q" "plan_id p" gs] filter_own_goals [of "plan_id q" "plan_id p" gs'] goals.hyps(3)
    by metis
  then show ?case using goals.prems(3) by (simp add: ended_kept_def)
qed

lemma get_plan_row_in: "get_plan_row db k = Some p \<Longrightarrow> p \<in> set (t_plans db) \<and> plan_id p = k"
  by (auto simp: get_plan_row_def dest: row_get_SomeD)

lemma plan_table_simps [simp]:
  "t_plans (put_plan p db) = row_put plan_id p (t_plans db)" "t_goals (put_plan p db) = t_goals db"
  "t_plans (put_goal g db) = t_plans db" "t_goals (put_goal g db) = row_put goal_id g (t_goals db)"
  "t_plans (add_goal_row g db) = t_plans db" "t_goals (add_goal_row g db) = t_goals db @ [g]"
  "t_plans (add_plan p db) = t_plans db @ [p]" "t_goals (add_plan p db) = t_goals db"
  by (simp_all add: put_plan_def put_goal_def add_goal_row_def add_plan_def)

lemma new_goals_fields:
  "map goal_plan_id (new_goals first k texts) = replicate (length (new_goals first k texts)) k"
  "\<forall>g \<in> set (new_goals first k texts). goal_plan_id g = k \<and> first \<le> goal_id g"
  "distinct (map goal_id (new_goals first k texts))"
  "distinct (map goal_display_order (new_goals first k texts))"
proof -
  show "map goal_plan_id (new_goals first k texts) = replicate (length (new_goals first k texts)) k"
    by (auto simp: new_goals_def Let_def split_def comp_def map_replicate_const)
  show "\<forall>g \<in> set (new_goals first k texts). goal_plan_id g = k \<and> first \<le> goal_id g"
    by (auto simp: new_goals_def Let_def)
  have ids: "map goal_id (map (\<lambda>(n, i, t). \<lparr>goal_id = first + int n, goal_plan_id = k, goal_description = t,
      goal_is_done = False, goal_display_order = int i\<rparr>) (enumerate m xs)) = map (\<lambda>n. first + int n) [m..<m + length xs]" for m xs
    by (simp add: split_def comp_def flip: map_map [of "\<lambda>n. first + int n" fst, unfolded comp_def])
  show "distinct (map goal_id (new_goals first k texts))"
    unfolding new_goals_def Let_def ids by (auto simp: distinct_map inj_on_def)
  have "map goal_display_order (map (\<lambda>(n, i, t). \<lparr>goal_id = first + int n, goal_plan_id = k, goal_description = t,
      goal_is_done = False, goal_display_order = int i\<rparr>) (enumerate m xs)) = map (\<lambda>(i, t). int i) xs" for m xs
    by (induction xs arbitrary: m) auto
  moreover have "distinct (map (\<lambda>(i, t). int i) (filter P (enumerate m xs)))" for P m and xs :: "utext list"
    by (induction xs arbitrary: m) (auto simp: in_set_enumerate_eq)
  ultimately show "distinct (map goal_display_order (new_goals first k texts))"
    unfolding new_goals_def Let_def by simp
qed

lemma next_order_upper: "g \<in> set gs \<Longrightarrow> goal_display_order g < next_order gs"
proof -
  have "goal_display_order g \<le> fold (\<lambda>g m. max m (goal_display_order g)) gs m" if "g \<in> set gs" for m
    using that
  proof (induction gs arbitrary: m)
    case (Cons x gs)
    have "m \<le> fold (\<lambda>g m. max m (goal_display_order g)) gs m" for m :: int
      by (induction gs arbitrary: m) (auto intro: order_trans [OF max.cobounded1])
    then show ?case using Cons by (auto intro: order_trans [OF max.cobounded2])
  qed simp
  then show "g \<in> set gs \<Longrightarrow> goal_display_order g < next_order gs" by (simp add: next_order_def le_less_trans)
qed

text \<open>Every endpoint is a move of the two tables.\<close>

lemma goals_of_put:
  assumes "distinct (map goal_id gs)" and "row_get goal_id gs i = Some goal" and "goal_id goal' = i"
    and "goal_plan_id goal' = goal_plan_id goal" and "goal_display_order goal' = goal_display_order goal"
  shows "map goal_plan_id (row_put goal_id goal' gs) = map goal_plan_id gs"
    and "map goal_display_order (row_put goal_id goal' gs) = map goal_display_order gs"
proof -
  have "x = goal" if "x \<in> set gs" "goal_id x = i" for x
    using assms(1) that row_get_SomeD [OF assms(2)] by (auto simp: distinct_map dest: inj_onD)
  then show "map goal_plan_id (row_put goal_id goal' gs) = map goal_plan_id gs"
    and "map goal_display_order (row_put goal_id goal' gs) = map goal_display_order gs"
    using assms(3-5) by (auto simp: row_put_def)
qed

lemma filter_row_put_other:
  "\<not> P r \<Longrightarrow> \<forall>x \<in> set rows. key x = key r \<longrightarrow> \<not> P x \<Longrightarrow> filter P (row_put key r rows) = filter P rows"
  by (induction rows) (auto simp: row_put_def)

lemma map_filter_eq_map:
  "map f (filter (\<lambda>x. P (g x)) xs) = map fst (filter (\<lambda>(a, b). P b) (zip (map f xs) (map g xs)))"
  by (induction xs) auto

lemma own_goal_updated:
  assumes p: "p \<in> set ps" "plan_status p = Plan_open" and g: "row_get goal_id gs i = Some goal"
    and own: "goal_plan_id goal = plan_id p" and ids: "distinct (map goal_id gs)" and kept: "goal_id goal' = i"
    "goal_plan_id goal' = plan_id p" "goal_display_order goal' = goal_display_order goal"
  shows "plan_move (ps, gs) (ps, row_put goal_id goal' gs)"
proof (rule plan_move.goals [OF p])
  have only: "x = goal" if "x \<in> set gs" "goal_id x = i" for x
    using ids that row_get_SomeD [OF g] by (auto simp: distinct_map dest: inj_onD)
  show "filter (\<lambda>x. goal_plan_id x \<noteq> plan_id p) (row_put goal_id goal' gs) = filter (\<lambda>x. goal_plan_id x \<noteq> plan_id p) gs"
    using only own kept by (intro filter_row_put_other) auto
  show "distinct (map goal_id gs) \<longrightarrow> distinct (map goal_id (row_put goal_id goal' gs))" by simp
  note kept_maps = goals_of_put [OF ids g kept(1) _ kept(3), unfolded own kept(2), OF refl]
  show "distinct (map goal_display_order (filter (\<lambda>x. goal_plan_id x = plan_id p) gs)) \<longrightarrow>
      distinct (map goal_display_order (filter (\<lambda>x. goal_plan_id x = plan_id p) (row_put goal_id goal' gs)))"
    unfolding map_filter_eq_map [of goal_display_order "\<lambda>k. k = plan_id p" goal_plan_id] kept_maps by blast
qed

lemma own_goal_deleted:
  assumes p: "p \<in> set ps" "plan_status p = Plan_open" and g: "row_get goal_id gs i = Some goal"
    and own: "goal_plan_id goal = plan_id p" and ids: "distinct (map goal_id gs)"
  shows "plan_move (ps, gs) (ps, filter (\<lambda>x. goal_id x \<noteq> i) gs)"
proof (rule plan_move.goals [OF p])
  have "x = goal" if "x \<in> set gs" "goal_id x = i" for x
    using ids that row_get_SomeD [OF g] by (auto simp: distinct_map dest: inj_onD)
  then show "filter (\<lambda>x. goal_plan_id x \<noteq> plan_id p) (filter (\<lambda>x. goal_id x \<noteq> i) gs) =
      filter (\<lambda>x. goal_plan_id x \<noteq> plan_id p) gs"
    using own by (auto simp: filter_filter intro!: filter_cong)
  show "distinct (map goal_id gs) \<longrightarrow> distinct (map goal_id (filter (\<lambda>x. goal_id x \<noteq> i) gs))"
    by (simp add: distinct_map_filter)
  show "distinct (map goal_display_order (filter (\<lambda>x. goal_plan_id x = plan_id p) gs)) \<longrightarrow>
      distinct (map goal_display_order (filter (\<lambda>x. goal_plan_id x = plan_id p) (filter (\<lambda>x. goal_id x \<noteq> i) gs)))"
    using distinct_map_filter [of goal_display_order "filter (\<lambda>x. goal_plan_id x = plan_id p) gs" "\<lambda>x. goal_id x \<noteq> i"]
    by (simp add: filter_filter conj_commute)
qed

lemma own_goal_added:
  assumes p: "p \<in> set ps" "plan_status p = Plan_open" and g: "goal_id g = next_id goal_id gs"
    and own: "goal_plan_id g = plan_id p"
    and order: "goal_display_order g = next_order (filter (\<lambda>x. goal_plan_id x = plan_id p) gs)"
  shows "plan_move (ps, gs) (ps, gs @ [g])"
proof (rule plan_move.goals [OF p])
  show "distinct (map goal_id gs) \<longrightarrow> distinct (map goal_id (gs @ [g]))"
    using next_id_not_in [of goal_id gs] by (simp add: g)
  have "goal_display_order g \<notin> goal_display_order ` set (filter (\<lambda>x. goal_plan_id x = plan_id p) gs)"
    using next_order_upper [of _ "filter (\<lambda>x. goal_plan_id x = plan_id p) gs"] by (fastforce simp: order)
  then show "distinct (map goal_display_order (filter (\<lambda>x. goal_plan_id x = plan_id p) gs)) \<longrightarrow>
      distinct (map goal_display_order (filter (\<lambda>x. goal_plan_id x = plan_id p) (gs @ [g])))"
    using own by simp
qed (simp add: own)

text \<open>Every endpoint is a move of the two tables.\<close>

lemma told_tables [simp]:
  "t_plans (case u of None \<Rightarrow> db | Some x \<Rightarrow> if b x then db else notify env (us x) kind rid link db) = t_plans db"
  "t_goals (case u of None \<Rightarrow> db | Some x \<Rightarrow> if b x then db else notify env (us x) kind rid link db) = t_goals db"
  "t_plans (case u of None \<Rightarrow> db | Some x \<Rightarrow> notify env (us x) kind rid link db) = t_plans db"
  "t_goals (case u of None \<Rightarrow> db | Some x \<Rightarrow> notify env (us x) kind rid link db) = t_goals db"
  by (simp_all split: option.split)

lemma plan_step_move:
  assumes "plan_step db db'" and "plans_wf (t_plans db, t_goals db)"
  shows "plan_move (t_plans db, t_goals db) (t_plans db', t_goals db')"
  using assms
proof (cases rule: plan_step.cases)
  case (created env user payload k)
  then obtain r p where r: "get_evaluation db (pin_evaluation_record_id payload) = Some r"
    and free: "\<not> list_ex (\<lambda>p. plan_evaluation_record_id p = record_id r) (t_plans db)"
    and p: "t_plans db' = t_plans db @ [p]" "plan_id p = next_id plan_id (t_plans db)"
      "plan_evaluation_record_id p = record_id r" "plan_status p = Plan_open" "plan_completed_at p = None"
    and goals: "t_goals db' = t_goals db @ new_goals (next_id goal_id (t_goals db)) (plan_id p) (pin_goals payload)"
    by (auto simp: create_plan_def Let_def split: option.splits)
  let ?new = "new_goals (next_id goal_id (t_goals db)) (plan_id p) (pin_goals payload)"
  have "goal_id g \<noteq> goal_id h" if "g \<in> set (t_goals db)" "h \<in> set ?new" for g h
    using next_id_fresh [of g "t_goals db" goal_id] new_goals_fields(2) that by fastforce
  then have "distinct (map goal_id (t_goals db @ ?new))"
    using assms(2) new_goals_fields(3) [of "next_id goal_id (t_goals db)" "plan_id p" "pin_goals payload"]
    by (auto simp: plans_wf_def)
  moreover have "plan_evaluation_record_id p \<notin> plan_evaluation_record_id ` set (t_plans db)"
    using free p(3) by (auto simp: list_ex_iff)
  ultimately show ?thesis unfolding p(1) goals
    using p(2-) next_id_not_in [of plan_id "t_plans db"] new_goals_fields(2,4)
    by (intro plan_move.add) simp_all
next
  case (updated env user k up)
  then obtain p p' where p: "get_plan_row db k = Some p" and db': "t_plans db' = row_put plan_id p' (t_plans db)"
    "t_goals db' = t_goals db" and "plan_id p' = plan_id p" "plan_evaluation_record_id p' = plan_evaluation_record_id p"
    "plan_status p' = plan_status p" "plan_completed_at p' = plan_completed_at p"
    by (auto simp: update_plan_def get_plan_or_404_def Let_def)
  then show ?thesis unfolding db' using get_plan_row_in [OF p] by (intro plan_move.edit [of p]) simp_all
next
  case (completed env user k)
  then show ?thesis using get_plan_row_in [of db k]
    by (auto simp: complete_plan_def end_plan_def get_plan_or_404_def intro!: plan_move.edit)
next
  case (cancelled env user k)
  then show ?thesis using get_plan_row_in [of db k]
    by (auto simp: cancel_plan_def end_plan_def get_plan_or_404_def intro!: plan_move.edit)
next
  case (goal_added user k given)
  then show ?thesis using get_plan_row_in [of db k]
    by (auto simp: add_goal_def get_plan_or_404_def ensure_plan_open_def Let_def goals_of_def intro!: own_goal_added)
next
  case (goal_updated user k g given is_done)
  then obtain goal p d b where "get_goal_of_plan db k g = Inr goal" and p: "get_plan_row db k = Some p"
    and "plan_status p = Plan_open"
    and db': "t_plans db' = t_plans db"
      "t_goals db' = row_put goal_id (goal\<lparr>goal_description := d, goal_is_done := b\<rparr>) (t_goals db)"
    by (auto simp: update_goal_def get_plan_or_404_def ensure_plan_open_def)
  then show ?thesis unfolding db' using get_plan_row_in [OF p] assms(2)
    by (intro own_goal_updated [of p _ _ g goal])
      (auto simp: get_goal_of_plan_def get_goal_def plans_wf_def dest: row_get_SomeD split: option.splits if_splits)
next
  case (goal_deleted user k g)
  then obtain goal p where goal: "get_goal_of_plan db k g = Inr goal" and p: "get_plan_row db k = Some p"
    and "plan_status p = Plan_open"
    and db': "t_plans db' = t_plans db" "t_goals db' = filter (\<lambda>x. goal_id x \<noteq> goal_id goal) (t_goals db)"
    by (auto simp: delete_goal_def get_plan_or_404_def ensure_plan_open_def Let_def)
  moreover have "goal_id goal = g" using goal
    by (auto simp: get_goal_of_plan_def get_goal_def dest: row_get_SomeD split: option.splits if_splits)
  ultimately show ?thesis unfolding db' using get_plan_row_in [OF p] assms(2)
    by (intro own_goal_deleted [of p _ _ _ goal])
      (auto simp: get_goal_of_plan_def get_goal_def plans_wf_def dest: row_get_SomeD split: option.splits if_splits)
next
  case elsewhere
  then show ?thesis by (simp add: plan_move.none)
qed


text \<open>
  Once a plan is completed or cancelled it stays so, with the time it ended, and nobody adds, changes,
  ticks off or deletes a goal of it any more, whatever requests on plans follow. The goals of every
  plan keep places of their own.
\<close>

theorem ended_plans_keep_their_goals:
  assumes "plan_step\<^sup>*\<^sup>* db0 db" and "t_plans db0 = []" and "t_goals db0 = []" and "plan_step\<^sup>*\<^sup>* db db'"
    and p: "p \<in> set (t_plans db)" and "plan_status p \<noteq> Plan_open"
  shows "goals_of db' (plan_id p) = goals_of db (plan_id p) \<and>
    (\<exists>p'. get_plan_row db' (plan_id p) = Some p' \<and>
      plan_evaluation_record_id p' = plan_evaluation_record_id p \<and> plan_status p' = plan_status p \<and>
      plan_completed_at p' = plan_completed_at p) \<and>
    plan_completed_at p \<noteq> None \<and> distinct (map goal_display_order (goals_of db (plan_id p)))"
proof -
  have wf: "plans_wf (t_plans db2, t_goals db2)" if "plan_step\<^sup>*\<^sup>* db1 db2" "plans_wf (t_plans db1, t_goals db1)" for db1 db2
    using that by (induction rule: rtranclp_induct) (auto intro: plan_move_wf plan_step_move)
  have "plans_wf (t_plans db0, t_goals db0)" using assms(2,3) by (simp add: plans_wf_def)
  then have wf_db: "plans_wf (t_plans db, t_goals db)" by (rule wf [OF assms(1)])
  from assms(4) have "ended_kept p (goals_of db (plan_id p)) (t_plans db', t_goals db')"
  proof (induction rule: rtranclp_induct)
    case base
    then show ?case using p by (auto simp: ended_kept_def goals_of_def)
  next
    case (step db1 db2)
    have "plan_move (t_plans db1, t_goals db1) (t_plans db2, t_goals db2)"
      using plan_step_move [OF step.hyps(2)] wf [OF step.hyps(1) wf_db] by blast
    then show ?case using plan_move_ended wf [OF step.hyps(1) wf_db] step.IH assms(6) by blast
  qed
  moreover have "plans_wf (t_plans db', t_goals db')" by (rule wf [OF assms(4) wf_db])
  ultimately show ?thesis using wf_db p assms(6)
    by (auto simp: ended_kept_def goals_of_def get_plan_row_def plans_wf_def row_get_distinct)
qed


text \<open>
  For a record with the scheme it was scored under, the list of records that call for a plan contains
  it exactly when human resources can create a plan for it: the condition in SQL and the checks of the
  endpoint agree.
\<close>

theorem listed_exactly_when_a_plan_can_be_made:
  assumes r: "get_evaluation db k = Some r" and "scoring_scheme_id r = Some v" and "get_scheme db v = Some s"
    and listed: "list_eligible_evaluations db user 200 0 = Inr (n, rs)" and "n \<le> 200"
    and "ensure_module_enabled db ''improvement_plans'' = Inr ()" and "ensure_hr_may_handle r user = Inr ()"
    and "1 \<le> length (strip title)" and "length (strip title) \<le> PLAN_TITLE_MAX"
  shows "r \<in> set rs \<longleftrightarrow>
    (\<exists>db' p. create_plan env db user \<lparr>pin_evaluation_record_id = k, pin_title = title, pin_review_date = d,
      pin_owner_user_id = None, pin_summary = None, pin_goals = []\<rparr> = Inr (db', p))"
proof -
  have "set rs = set (filter (is_eligible db) (t_evaluations db))" and user: "require_roles [Role_hr] user = Inr ()"
    using listed assms(5) by (auto simp: list_eligible_evaluations_def page_def Let_def)
  moreover have "r \<in> set (t_evaluations db)" using r by (auto simp: get_evaluation_def dest: row_get_SomeD)
  ultimately have "r \<in> set rs \<longleftrightarrow> is_eligible db r" by simp
  also have "\<dots> \<longleftrightarrow> (\<exists>db' p. create_plan env db user \<lparr>pin_evaluation_record_id = k, pin_title = title, pin_review_date = d,
      pin_owner_user_id = None, pin_summary = None, pin_goals = []\<rparr> = Inr (db', p))"
    using assms user
    by (auto simp: is_eligible_def create_plan_def text_field_def optional_text_max_def ensure_owner_is_valid_def
        rules_for_record_def rules_from_def Let_def not_le split: option.splits)
  finally show ?thesis .
qed

end
