(* ===== verification/PlanWitnesses.thy ===== *)
theory PlanWitnesses
  imports AccessWitnesses SchemeLifecycle ImprovementPlans
begin

text \<open>The properties of the improvement plans, applied to a weak result of the sample record.\<close>

definition weak_record :: evaluation_record where
  "weak_record = sample_record\<lparr>status := Finalized, final_weighted_pct := Some 40, finalized_at := Some 900,
     scoring_scheme_id := Some 1\<rparr>"

definition office_with_scheme :: database where
  "office_with_scheme = (office_with weak_record)\<lparr>t_schemes := [seed_scheme 1]\<rparr>"

definition weak_plan :: plan_input where
  "weak_plan = \<lparr>pin_evaluation_record_id = 1, pin_title = [97], pin_review_date = 30, pin_owner_user_id = None,
     pin_summary = None, pin_goals = []\<rparr>"

lemma scheme_1: "get_scheme office_with_scheme 1 = Some (seed_scheme 1)"
  by (simp add: get_scheme_def office_with_scheme_def seed_scheme_def)

lemma weak_record_1: "get_evaluation office_with_scheme 1 = Some weak_record"
  by (simp add: get_evaluation_def office_with_scheme_def weak_record_def)

lemma weak_record_eligible: "is_eligible office_with_scheme weak_record"
  by (simp add: is_eligible_def scheme_1 weak_record_def seed_scheme_def IMPROVEMENT_PLAN_MAX_PCT_def
      FINAL_RESULT_THRESHOLDS_def)
    (simp add: office_with_scheme_def office_with_def office_def empty_database_def)

lemma plans_enabled: "ensure_module_enabled office_with_scheme ''improvement_plans'' = Inr ()"
  by (simp add: ensure_module_enabled_def is_module_enabled_def unmet_requirements_def stored_module_state_def
      stored_states_def module_by_key_def MODULES_def office_with_scheme_def)

lemma hr_handles_weak: "ensure_hr_may_handle weak_record (person 70 Role_hr) = Inr ()"
  by (simp add: ensure_hr_may_handle_def ensure_not_deciding_about_oneself_def hr_panel_is_shielded_def weak_record_def
      OPEN_STATUSES_def)

theorem listed_exactly_when_a_plan_can_be_made_witness:
  "\<exists>n rs. list_eligible_evaluations office_with_scheme (person 70 Role_hr) 200 0 = Inr (n, rs) \<and>
    weak_record \<in> set rs \<and>
    (\<exists>db' p. create_plan plain_env office_with_scheme (person 70 Role_hr) weak_plan = Inr (db', p))"
proof -
  have one: "filter (is_eligible office_with_scheme) (t_evaluations office_with_scheme) = [weak_record]"
    using weak_record_eligible by (simp add: office_with_scheme_def)
  have listed: "list_eligible_evaluations office_with_scheme (person 70 Role_hr) 200 0 = Inr (1, newest_first [weak_record])"
    by (simp add: list_eligible_evaluations_def one page_ok_def page_def)
  have "scoring_scheme_id weak_record = Some 1" by (simp add: weak_record_def)
  from listed_exactly_when_a_plan_can_be_made [OF weak_record_1 this scheme_1 listed _ plans_enabled hr_handles_weak,
      where title = "[97]" and d = 30 and env = plain_env] listed
  show ?thesis by (simp add: weak_plan_def PLAN_TITLE_MAX_def strip_def is_space_def)
qed

lemma weak_plan_created:
  "\<exists>db' k p. create_plan plain_env office_with_scheme (person 70 Role_hr) weak_plan = Inr (db', k) \<and>
    t_plans db' = [p] \<and> plan_id p = k \<and> plan_status p = Plan_open"
proof -
  have "improvement_plan_max_pct (rules_for_record office_with_scheme weak_record) = IMPROVEMENT_PLAN_MAX_PCT"
    using scheme_1 by (simp add: rules_for_record_def rules_from_def weak_record_def seed_scheme_def)
  moreover have "t_plans office_with_scheme = []" "t_goals office_with_scheme = []"
    by (simp_all add: office_with_scheme_def office_with_def office_def empty_database_def)
  ultimately show ?thesis
    using weak_record_1 plans_enabled hr_handles_weak
    by (simp add: create_plan_def weak_plan_def text_field_def optional_text_max_def strip_def is_space_def PLAN_TITLE_MAX_def
        ensure_owner_is_valid_def IMPROVEMENT_PLAN_MAX_PCT_def FINAL_RESULT_THRESHOLDS_def Let_def)
      (simp add: weak_record_def)
qed

theorem ended_plans_keep_their_goals_witness:
  "\<exists>db. plan_step\<^sup>*\<^sup>* empty_database db \<and> (\<exists>p \<in> set (t_plans db). plan_status p = Plan_completed \<and>
    plan_completed_at p \<noteq> None \<and> distinct (map goal_display_order (goals_of db (plan_id p))))"
proof -
  have empty: "t_plans empty_database = []" "t_goals empty_database = []" by (simp_all add: empty_database_def)
  have office: "t_plans office_with_scheme = []" "t_goals office_with_scheme = []"
    by (simp_all add: office_with_scheme_def office_with_def office_def empty_database_def)
  have "plan_step empty_database office_with_scheme" by (rule plan_step.elsewhere) (simp_all add: empty office)
  obtain db1 k p where c: "create_plan plain_env office_with_scheme (person 70 Role_hr) weak_plan = Inr (db1, k)"
    and p: "t_plans db1 = [p]" "plan_id p = k" "plan_status p = Plan_open"
    using weak_plan_created by blast
  from c have "plan_step office_with_scheme db1" by (rule plan_step.created)
  let ?db = "log_event 70 ''improvement_plan_completed'' (Some (plan_evaluation_record_id p)) None
    (Some [(''plan_id'', JInt (plan_id p))])
    (put_plan (p\<lparr>plan_status := Plan_completed, plan_completed_at := Some (now plain_env)\<rparr>) db1)"
  have done_now: "complete_plan plain_env db1 (person 70 Role_hr) k = Inr ?db"
    using p by (simp add: complete_plan_def end_plan_def get_plan_or_404_def get_plan_row_def)
  then have "plan_step db1 ?db" by (rule plan_step.completed)
  with \<open>plan_step empty_database office_with_scheme\<close> \<open>plan_step office_with_scheme db1\<close>
  have reached: "plan_step\<^sup>*\<^sup>* empty_database ?db" by (meson converse_rtranclp_into_rtranclp rtranclp.rtrancl_refl)
  define q where "q = p\<lparr>plan_status := Plan_completed, plan_completed_at := Some (now plain_env)\<rparr>"
  define db where "db = ?db"
  have q: "q \<in> set (t_plans db)" "plan_status q = Plan_completed" "plan_completed_at q \<noteq> None"
    using p by (simp_all add: row_put_def db_def q_def)
  have "plan_status q \<noteq> Plan_open" using q(2) by simp
  from ended_plans_keep_their_goals [OF reached [folded db_def] empty rtranclp.rtrancl_refl q(1) this] q
    reached [folded db_def]
  show ?thesis by blast
qed

text \<open>
  Without a stamped scheme the two differ: the list falls back on the constant, the endpoint on the
  active scheme.
\<close>

definition office_without_stamp :: database where
  "office_without_stamp = (office_with (weak_record\<lparr>scoring_scheme_id := None\<rparr>))\<lparr>t_schemes :=
     [(seed_scheme 1)\<lparr>sch_improvement_plan_max_pct := 30\<rparr>]\<rparr>"

lemma listed_but_refused:
  "is_eligible office_without_stamp (weak_record\<lparr>scoring_scheme_id := None\<rparr>)"
  "create_plan plain_env office_without_stamp (person 70 Role_hr) weak_plan = Inl (HTTPException 400 ''not needed'')"
proof -
  show "is_eligible office_without_stamp (weak_record\<lparr>scoring_scheme_id := None\<rparr>)"
    by (simp add: is_eligible_def weak_record_def IMPROVEMENT_PLAN_MAX_PCT_def FINAL_RESULT_THRESHOLDS_def)
      (simp add: office_without_stamp_def office_with_def office_def empty_database_def)
  have "ensure_module_enabled office_without_stamp ''improvement_plans'' = Inr ()"
    by (simp add: ensure_module_enabled_def is_module_enabled_def unmet_requirements_def stored_module_state_def
        stored_states_def module_by_key_def MODULES_def office_without_stamp_def)
  moreover have "get_evaluation office_without_stamp 1 = Some (weak_record\<lparr>scoring_scheme_id := None\<rparr>)"
    by (simp add: get_evaluation_def office_without_stamp_def weak_record_def)
  moreover have "improvement_plan_max_pct (rules_for_record office_without_stamp (weak_record\<lparr>scoring_scheme_id := None\<rparr>)) = 30"
    by (simp add: rules_for_record_def current_rules_def active_scheme_def office_without_stamp_def rules_from_def
        seed_scheme_def)
  ultimately show "create_plan plain_env office_without_stamp (person 70 Role_hr) weak_plan =
      Inl (HTTPException 400 ''not needed'')"
    using hr_handles_weak
    by (simp add: create_plan_def weak_plan_def text_field_def optional_text_max_def strip_def is_space_def
        PLAN_TITLE_MAX_def ensure_hr_may_handle_def ensure_not_deciding_about_oneself_def hr_panel_is_shielded_def
        OPEN_STATUSES_def Let_def)
      (simp add: weak_record_def ensure_module_enabled_def require_roles_def)
qed

end
