(* ===== verification/Delivery.thy ===== *)
theory Delivery
  imports Notifications
begin

text \<open>
  Sending what is queued (\<open>run_delivery_sweep\<close> of \<open>app/services/delivery.py\<close>). A channel is a parameter:
  what its \<open>send\<close> does with a message, by returning (success), by raising a \<open>DeliveryError\<close> with its
  text and its flag \<open>retryable\<close>, or by raising anything else. Times of one sweep are one reading of
  the clock.
\<close>

section \<open>The sweep\<close>

datatype send_result = Delivered | Delivery_error utext bool | Unexpected_error utext

type_synonym sender = "notification_delivery \<Rightarrow> notification \<Rightarrow> send_result"

definition DELIVERY_ERROR_MAX :: nat where "DELIVERY_ERROR_MAX = 500"

definition retry_delay :: "env \<Rightarrow> int \<Rightarrow> int" where
  "retry_delay env n = minutes (delivery_retry_base_minutes (cfg env) * 2 ^ nat (max 0 (n - 1)))"

definition is_due :: "env \<Rightarrow> notification_delivery \<Rightarrow> bool" where
  "is_due env d \<longleftrightarrow>
    (case last_attempt_at d of None \<Rightarrow> True | Some t \<Rightarrow> t + retry_delay env (attempts d) \<le> now env)"

definition is_waiting :: "notification_delivery \<Rightarrow> bool" where
  "is_waiting d \<longleftrightarrow> dlv_status d \<in> {Delivery_pending, Delivery_failed}"

record sweep_outcome =
  n_sent :: nat
  n_failed :: nat
  n_abandoned :: nat

definition no_outcome :: sweep_outcome where
  "no_outcome = \<lparr>n_sent = 0, n_failed = 0, n_abandoned = 0\<rparr>"

definition put_delivery :: "notification_delivery \<Rightarrow> database \<Rightarrow> database" where
  "put_delivery d db = db\<lparr>t_deliveries := row_put delivery_id d (t_deliveries db)\<rparr>"

definition deliver ::
  "env \<Rightarrow> sender \<Rightarrow> notification_delivery \<Rightarrow> database \<times> sweep_outcome \<Rightarrow> database \<times> sweep_outcome" where
  "deliver env send d acc =
    (let (db, out) = acc
     in if dlv_channel d \<notin> set (channels_available env) then acc
        else case row_get notification_id (t_notifications db) (dlv_notification_id d) of
          None \<Rightarrow>
            (put_delivery (d\<lparr>dlv_status := Delivery_abandoned, last_error := Some (ascii ''no notification'')\<rparr>) db,
             out\<lparr>n_abandoned := n_abandoned out + 1\<rparr>)
        | Some n \<Rightarrow>
            (let d1 = d\<lparr>attempts := attempts d + 1, last_attempt_at := Some (now env)\<rparr>
             in case send d1 n of
                  Delivered \<Rightarrow>
                    (put_delivery (d1\<lparr>dlv_status := Delivery_sent, sent_at := Some (now env), last_error := None\<rparr>) db,
                     out\<lparr>n_sent := n_sent out + 1\<rparr>)
                | Delivery_error text retryable \<Rightarrow>
                    (let d2 = d1\<lparr>last_error := Some (take DELIVERY_ERROR_MAX text)\<rparr>
                     in if \<not> retryable \<or> delivery_max_attempts (cfg env) \<le> attempts d2
                        then (put_delivery (d2\<lparr>dlv_status := Delivery_abandoned\<rparr>) db,
                              out\<lparr>n_abandoned := n_abandoned out + 1\<rparr>)
                        else (put_delivery (d2\<lparr>dlv_status := Delivery_failed\<rparr>) db,
                              out\<lparr>n_failed := n_failed out + 1\<rparr>))
                | Unexpected_error text \<Rightarrow>
                    (put_delivery (d1\<lparr>dlv_status := Delivery_failed,
                       last_error := Some (take DELIVERY_ERROR_MAX (ascii ''unexpected: '' @ text))\<rparr>) db,
                     out\<lparr>n_failed := n_failed out + 1\<rparr>)))"

definition delivery_batch :: "env \<Rightarrow> nat \<Rightarrow> database \<Rightarrow> notification_delivery list" where
  "delivery_batch env batch_size db =
    take batch_size (filter (is_due env)
      (take (batch_size * 4) (sort_key dlv_created_at (filter is_waiting (t_deliveries db)))))"

definition batch_limit :: "env \<Rightarrow> nat option \<Rightarrow> nat" where
  "batch_limit env limit =
    (case limit of None \<Rightarrow> nat (delivery_batch_size (cfg env))
     | Some l \<Rightarrow> if l = 0 then nat (delivery_batch_size (cfg env)) else l)"

definition run_delivery_sweep ::
  "env \<Rightarrow> sender \<Rightarrow> nat option \<Rightarrow> database \<Rightarrow> database \<times> sweep_outcome" where
  "run_delivery_sweep env send limit db =
    (if channels_available env = [] then (db, no_outcome)
     else fold (deliver env send) (delivery_batch env (batch_limit env limit) db) (db, no_outcome))"

section \<open>What a sweep does to a row\<close>

text \<open>The row after its turn, without the tables and counters around it.\<close>

definition after_turn :: "env \<Rightarrow> sender \<Rightarrow> notification list \<Rightarrow> notification_delivery \<Rightarrow> notification_delivery" where
  "after_turn env send ns d =
    (if dlv_channel d \<notin> set (channels_available env) then d
     else case row_get notification_id ns (dlv_notification_id d) of
       None \<Rightarrow> d\<lparr>dlv_status := Delivery_abandoned, last_error := Some (ascii ''no notification'')\<rparr>
     | Some n \<Rightarrow>
        (let d1 = d\<lparr>attempts := attempts d + 1, last_attempt_at := Some (now env)\<rparr>
         in case send d1 n of
              Delivered \<Rightarrow> d1\<lparr>dlv_status := Delivery_sent, sent_at := Some (now env), last_error := None\<rparr>
            | Delivery_error text retryable \<Rightarrow>
                d1\<lparr>last_error := Some (take DELIVERY_ERROR_MAX text),
                   dlv_status := (if \<not> retryable \<or> delivery_max_attempts (cfg env) \<le> attempts d + 1
                     then Delivery_abandoned else Delivery_failed)\<rparr>
            | Unexpected_error text \<Rightarrow>
                d1\<lparr>dlv_status := Delivery_failed,
                   last_error := Some (take DELIVERY_ERROR_MAX (ascii ''unexpected: '' @ text))\<rparr>))"

lemma after_turn_kept [simp]:
  "delivery_id (after_turn env send ns d) = delivery_id d"
  "dlv_channel (after_turn env send ns d) = dlv_channel d"
  "recipient (after_turn env send ns d) = recipient d"
  "dlv_notification_id (after_turn env send ns d) = dlv_notification_id d"
  "dlv_created_at (after_turn env send ns d) = dlv_created_at d"
  by (simp_all add: after_turn_def Let_def split: option.split send_result.split)

lemma row_put_same: "distinct (map key rows) \<Longrightarrow> d \<in> set rows \<Longrightarrow> row_put key d rows = rows"
  unfolding row_put_def by (rule map_idI) (auto simp: distinct_map dest: inj_onD)

lemma deliver_row:
  assumes "distinct (map delivery_id (t_deliveries (fst acc)))" and "d \<in> set (t_deliveries (fst acc))"
  shows "fst (deliver env send d acc) = put_delivery (after_turn env send (t_notifications (fst acc)) d) (fst acc)"
  using row_put_same [OF assms]
  by (cases acc) (simp add: deliver_def after_turn_def put_delivery_def Let_def split: option.split send_result.split)

lemma fold_deliver_rows:
  assumes "distinct (map delivery_id (t_deliveries (fst acc)))" and "set ds \<subseteq> set (t_deliveries (fst acc))"
    and "distinct ds"
  shows "fst (fold (deliver env send) ds acc) = (fst acc)\<lparr>t_deliveries :=
    map (\<lambda>x. if x \<in> set ds then after_turn env send (t_notifications (fst acc)) x else x) (t_deliveries (fst acc))\<rparr>"
  using assms
proof (induction ds arbitrary: acc)
  case (Cons d ds)
  let ?db = "fst acc"
  let ?f = "after_turn env send (t_notifications ?db)"
  let ?acc = "deliver env send d acc"
  have same: "x = d" if "x \<in> set (t_deliveries ?db)" "delivery_id x = delivery_id d" for x
    using Cons.prems(1,2) that by (auto simp: distinct_map dest: inj_onD)
  define rows where "rows = map (\<lambda>x. if x = d then ?f x else x) (t_deliveries ?db)"
  have acc: "fst ?acc = ?db\<lparr>t_deliveries := rows\<rparr>"
    using deliver_row [of acc d env send] Cons.prems same by (auto simp: put_delivery_def row_put_def rows_def)
  have ids: "map delivery_id rows = map delivery_id (t_deliveries ?db)" by (simp add: rows_def)
  have others: "set ds \<subseteq> set rows" using Cons.prems(2,3) by (force simp: image_iff rows_def)
  have fresh: "?f d \<notin> set ds"
  proof
    assume "?f d \<in> set ds"
    then have "?f d = d" using same [of "?f d"] Cons.prems(2) by auto
    then show False using \<open>?f d \<in> set ds\<close> Cons.prems(3) by simp
  qed
  have "fst (fold (deliver env send) (d # ds) acc) = ?db\<lparr>t_deliveries :=
      map (\<lambda>x. if x \<in> set ds then ?f x else x) rows\<rparr>"
    using Cons.IH [of ?acc] Cons.prems ids others by (simp add: acc)
  also have "map (\<lambda>x. if x \<in> set ds then ?f x else x) rows =
      map (\<lambda>x. if x \<in> set (d # ds) then ?f x else x) (t_deliveries ?db)"
    using fresh Cons.prems(3) by (auto simp: rows_def)
  finally show ?case .
qed simp

lemma batch_subset:
  "set (delivery_batch env n db) \<subseteq> {d \<in> set (t_deliveries db). is_waiting d \<and> is_due env d}"
  by (auto simp: delivery_batch_def dest!: in_set_takeD)

lemma distinct_batch: "distinct (map delivery_id (t_deliveries db)) \<Longrightarrow> distinct (delivery_batch env n db)"
  unfolding delivery_batch_def by (intro distinct_take distinct_filter) (simp add: distinct_map)

text \<open>A whole sweep: every row of the batch gets its turn, all others stay.\<close>

lemma sweep_rows:
  assumes "distinct (map delivery_id (t_deliveries db))"
  shows "fst (run_delivery_sweep env send limit db) = db\<lparr>t_deliveries :=
    map (\<lambda>x. if x \<in> set (delivery_batch env (batch_limit env limit) db) then after_turn env send (t_notifications db) x
      else x) (t_deliveries db)\<rparr>"
proof (cases "channels_available env = []")
  case True
  then have "map (\<lambda>x. if P x then after_turn env send (t_notifications db) x else x) (t_deliveries db) = t_deliveries db" for P
    by (intro map_idI) (simp add: after_turn_def)
  with True show ?thesis by (simp add: run_delivery_sweep_def)
next
  case False
  then show ?thesis
    using fold_deliver_rows [of "(db, no_outcome)" "delivery_batch env (batch_limit env limit) db" env send]
      assms batch_subset distinct_batch by (fastforce simp: run_delivery_sweep_def)
qed

definition sweeps :: "(env \<times> sender) list \<Rightarrow> database \<Rightarrow> database" where
  "sweeps runs db = fold (\<lambda>(env, send) db. fst (run_delivery_sweep env send None db)) runs db"

lemma sweeps_simps [simp]:
  "sweeps [] db = db"
  "sweeps ((env, send) # runs) db = sweeps runs (fst (run_delivery_sweep env send None db))"
  by (simp_all add: sweeps_def)

section \<open>A message is sent once and given up once\<close>

lemma sweep_keeps_ids:
  "distinct (map delivery_id (t_deliveries db)) \<Longrightarrow>
    map delivery_id (t_deliveries (fst (run_delivery_sweep env send limit db))) = map delivery_id (t_deliveries db)"
  by (simp add: sweep_rows comp_def if_distrib cong: if_cong)

lemma sweep_keeps_ended:
  assumes "distinct (map delivery_id (t_deliveries db))" and "x \<in> set (t_deliveries db)" and "\<not> is_waiting x"
  shows "x \<in> set (t_deliveries (fst (run_delivery_sweep env send limit db)))"
proof -
  have "x \<notin> set (delivery_batch env n db)" for n using batch_subset [of env n db] assms(3) by auto
  then show ?thesis using assms(2) by (force simp: sweep_rows [OF assms(1)])
qed

text \<open>
  A message that was sent or given up is never touched again by any sweep, whatever the channels do.
\<close>

theorem ended_deliveries_are_final:
  assumes "distinct (map delivery_id (t_deliveries db))" and "x \<in> set (t_deliveries db)"
    and "dlv_status x \<in> {Delivery_sent, Delivery_abandoned}"
  shows "row_get delivery_id (t_deliveries (sweeps runs db)) (delivery_id x) = Some x"
proof -
  have "x \<in> set (t_deliveries (sweeps runs db)) \<and>
      map delivery_id (t_deliveries (sweeps runs db)) = map delivery_id (t_deliveries db)"
    using assms(1,2)
  proof (induction runs arbitrary: db)
    case (Cons run runs)
    obtain env send where run: "run = (env, send)" by (cases run)
    have "\<not> is_waiting x" using assms(3) by (auto simp: is_waiting_def)
    then show ?case unfolding run sweeps_simps
      using Cons.IH [of "fst (run_delivery_sweep env send None db)"] Cons.prems
      by (simp add: sweep_keeps_ids sweep_keeps_ended)
  qed simp
  then show ?thesis using assms(1) by (simp add: row_get_distinct)
qed

section \<open>The queue empties\<close>

text \<open>
  What is left to do: the attempts that the waiting messages still have.
\<close>

definition attempts_left :: "int \<Rightarrow> notification_delivery \<Rightarrow> nat" where
  "attempts_left m d = (if is_waiting d then nat (m - attempts d) else 0)"

definition backlog :: "int \<Rightarrow> database \<Rightarrow> nat" where
  "backlog m db = sum_list (map (attempts_left m) (t_deliveries db))"

definition queue_wf :: "int \<Rightarrow> int \<Rightarrow> database \<Rightarrow> bool" where
  "queue_wf m t db \<longleftrightarrow> distinct (map delivery_id (t_deliveries db)) \<and>
    (\<forall>d \<in> set (t_deliveries db). is_waiting d \<longrightarrow> 0 \<le> attempts d \<and> attempts d < m \<and>
      (case last_attempt_at d of None \<Rightarrow> True | Some s \<Rightarrow> s \<le> t))"

text \<open>A channel that answers within its protocol, with settings that let the queue move.\<close>

definition healthy :: "settings \<Rightarrow> env \<times> sender \<Rightarrow> bool" where
  "healthy c run \<longleftrightarrow> cfg (fst run) = c \<and> {Email, Sms} \<subseteq> set (channels_available (fst run)) \<and>
    (\<forall>d n text. snd run d n \<noteq> Unexpected_error text)"

text \<open>Between two sweeps lies at least the longest delay.\<close>

fun spaced :: "settings \<Rightarrow> int \<Rightarrow> env list \<Rightarrow> bool" where
  "spaced c t [] \<longleftrightarrow> True"
| "spaced c t (env # envs) \<longleftrightarrow>
    t + minutes (delivery_retry_base_minutes c * 2 ^ nat (delivery_max_attempts c)) \<le> now env \<and> spaced c (now env) envs"

lemma waiting_is_due:
  assumes "queue_wf (delivery_max_attempts (cfg env)) t db" and "0 \<le> delivery_retry_base_minutes (cfg env)"
    and "t + minutes (delivery_retry_base_minutes (cfg env) * 2 ^ nat (delivery_max_attempts (cfg env))) \<le> now env"
    and "d \<in> set (t_deliveries db)" and "is_waiting d"
  shows "is_due env d"
proof -
  have n: "0 \<le> attempts d" "attempts d < delivery_max_attempts (cfg env)"
    and t: "\<And>s. last_attempt_at d = Some s \<Longrightarrow> s \<le> t"
    using assms(1,4,5) by (auto simp: queue_wf_def)
  have "(2 :: int) ^ nat (max 0 (attempts d - 1)) \<le> 2 ^ nat (delivery_max_attempts (cfg env))"
    using n by (intro power_increasing) auto
  then have "retry_delay env (attempts d) \<le> minutes (delivery_retry_base_minutes (cfg env) * 2 ^ nat (delivery_max_attempts (cfg env)))"
    using assms(2) by (simp add: retry_delay_def minutes_def mult_left_mono)
  then show ?thesis using assms(3) t by (fastforce simp: is_due_def split: option.split)
qed

lemma after_turn_progress:
  assumes "healthy c (env, send)" and "is_waiting d" and "0 \<le> attempts d" and "attempts d < delivery_max_attempts c"
  shows "attempts_left (delivery_max_attempts c) (after_turn env send ns d) < attempts_left (delivery_max_attempts c) d"
    and "is_waiting (after_turn env send ns d) \<Longrightarrow> 0 \<le> attempts (after_turn env send ns d) \<and>
      attempts (after_turn env send ns d) < delivery_max_attempts c \<and>
      last_attempt_at (after_turn env send ns d) = Some (now env)"
proof -
  have on: "dlv_channel d \<in> set (channels_available env)" and c: "cfg env = c"
    using assms(1) by (cases "dlv_channel d"; auto simp: healthy_def)+
  have calm: "send d' n \<noteq> Unexpected_error e" for d' n e using assms(1) by (simp add: healthy_def)
  show "attempts_left (delivery_max_attempts c) (after_turn env send ns d) < attempts_left (delivery_max_attempts c) d"
    and "is_waiting (after_turn env send ns d) \<Longrightarrow> 0 \<le> attempts (after_turn env send ns d) \<and>
      attempts (after_turn env send ns d) < delivery_max_attempts c \<and>
      last_attempt_at (after_turn env send ns d) = Some (now env)"
    using assms(2-4) on c calm
    by (auto simp: after_turn_def attempts_left_def is_waiting_def Let_def split: option.splits send_result.splits if_splits)
qed

lemma sum_list_map_less:
  "(\<And>x. x \<in> set xs \<Longrightarrow> f x \<le> (g x :: nat)) \<Longrightarrow> y \<in> set xs \<Longrightarrow> f y < g y \<Longrightarrow>
    sum_list (map f xs) < sum_list (map g xs)"
proof (induction xs)
  case (Cons x xs)
  have "sum_list (map f xs) \<le> sum_list (map g xs)" using Cons.prems(1) by (intro sum_list_mono) simp
  then show ?case using Cons by (cases "y = x") (auto intro: add_less_le_mono add_le_less_mono)
qed simp

lemma batch_not_empty:
  assumes "d \<in> set (t_deliveries db)" and "is_waiting d" and "0 < n"
    and "\<And>x. x \<in> set (t_deliveries db) \<Longrightarrow> is_waiting x \<Longrightarrow> is_due env x"
  shows "delivery_batch env n db \<noteq> []"
proof -
  let ?waiting = "sort_key dlv_created_at (filter is_waiting (t_deliveries db))"
  have "d \<in> set ?waiting" using assms(1,2) by simp
  then have "take (n * 4) ?waiting \<noteq> []" using assms(3) by (cases ?waiting) auto
  moreover have "filter (is_due env) (take (n * 4) ?waiting) = take (n * 4) ?waiting"
    using assms(4) by (auto simp: filter_id_conv dest!: in_set_takeD)
  ultimately show ?thesis using assms(3) by (simp add: delivery_batch_def)
qed

lemma sweep_progress:
  assumes "healthy c (env, send)" and "queue_wf (delivery_max_attempts c) t db" and "0 < delivery_batch_size c"
    and "0 \<le> delivery_retry_base_minutes c"
    and "t + minutes (delivery_retry_base_minutes c * 2 ^ nat (delivery_max_attempts c)) \<le> now env"
    and "t \<le> now env"
  defines "db' \<equiv> fst (run_delivery_sweep env send None db)"
  shows "queue_wf (delivery_max_attempts c) (now env) db'"
    and "backlog (delivery_max_attempts c) db \<noteq> 0 \<Longrightarrow>
      backlog (delivery_max_attempts c) db' < backlog (delivery_max_attempts c) db"
proof -
  let ?m = "delivery_max_attempts c" and ?b = "delivery_batch env (batch_limit env None) db"
  let ?f = "\<lambda>x. if x \<in> set ?b then after_turn env send (t_notifications db) x else x"
  have cfg: "cfg env = c" using assms(1) by (simp add: healthy_def)
  have ids: "distinct (map delivery_id (t_deliveries db))" using assms(2) by (simp add: queue_wf_def)
  have rows: "t_deliveries db' = map ?f (t_deliveries db)" by (simp add: db'_def sweep_rows [OF ids])
  have wf: "0 \<le> attempts d" "attempts d < ?m" if "d \<in> set (t_deliveries db)" "is_waiting d" for d
    using assms(2) that by (auto simp: queue_wf_def)
  have batch: "d \<in> set (t_deliveries db)" "is_waiting d" if "d \<in> set ?b" for d
    using batch_subset that by blast+
  note turn = after_turn_progress [OF assms(1) batch(2) wf [OF batch]]
  show "queue_wf ?m (now env) db'"
    unfolding queue_wf_def
  proof (intro conjI ballI impI)
    show "distinct (map delivery_id (t_deliveries db'))"
      using ids sweep_keeps_ids [OF ids] by (simp add: db'_def)
    fix x assume x: "x \<in> set (t_deliveries db')" "is_waiting x"
    then obtain d where d: "d \<in> set (t_deliveries db)" "x = ?f d" by (auto simp: rows)
    have "0 \<le> attempts x \<and> attempts x < ?m \<and> (case last_attempt_at x of None \<Rightarrow> True | Some s \<Rightarrow> s \<le> now env)"
    proof (cases "d \<in> set ?b")
      case True
      then show ?thesis using turn(2) [of d "t_notifications db"] d(2) x(2) by auto
    next
      case False
      then show ?thesis using assms(2,6) d x(2) by (fastforce simp: queue_wf_def split: option.splits)
    qed
    then show "0 \<le> attempts x" "attempts x < ?m" "case last_attempt_at x of None \<Rightarrow> True | Some s \<Rightarrow> s \<le> now env"
      by blast+
  qed
  assume "backlog ?m db \<noteq> 0"
  then obtain d where d: "d \<in> set (t_deliveries db)" "is_waiting d"
    by (auto simp: backlog_def attempts_left_def split: if_splits)
  have "?b \<noteq> []"
  proof (rule batch_not_empty [OF d])
    show "0 < batch_limit env None" using assms(3) cfg by (simp add: batch_limit_def)
    show "is_due env x" if "x \<in> set (t_deliveries db)" "is_waiting x" for x
      using waiting_is_due [of env t db x] assms(2,4,5) cfg that by simp
  qed
  then obtain y where y: "y \<in> set ?b" by (meson last_in_set)
  have "attempts_left ?m (?f x) \<le> attempts_left ?m x" for x
    using turn(1) [of x "t_notifications db"] by (simp add: less_imp_le)
  moreover have "attempts_left ?m (?f y) < attempts_left ?m y" using turn(1) [of y "t_notifications db"] y by simp
  ultimately show "backlog ?m db' < backlog ?m db"
    using sum_list_map_less [of "t_deliveries db" "\<lambda>x. attempts_left ?m (?f x)" "attempts_left ?m" y] batch(1) [OF y]
    by (simp add: backlog_def rows comp_def)
qed

lemma nothing_waits:
  assumes "queue_wf m t db" and "backlog m db = 0" and d: "d \<in> set (t_deliveries db)"
  shows "\<not> is_waiting d"
proof
  assume "is_waiting d"
  then have "attempts_left m d \<noteq> 0" using assms(1) d by (auto simp: queue_wf_def attempts_left_def)
  then show False using assms(2) d by (simp add: backlog_def)
qed

text \<open>
  C30. With channels that answer within their protocol and sweeps that are far enough apart, the queue
  empties: after as many sweeps as there are attempts left, every message is sent or given up.
\<close>

theorem queue_empties:
  assumes "list_all (healthy c) runs" and "queue_wf (delivery_max_attempts c) t db" and "0 < delivery_batch_size c"
    and "0 \<le> delivery_retry_base_minutes c" and "spaced c t (map fst runs)"
    and "backlog (delivery_max_attempts c) db \<le> length runs"
  shows "list_all (\<lambda>d. dlv_status d \<in> {Delivery_sent, Delivery_abandoned}) (t_deliveries (sweeps runs db))"
  using assms
proof (induction runs arbitrary: t db)
  case Nil
  have "\<not> is_waiting d" if "d \<in> set (t_deliveries db)" for d
    using nothing_waits [OF Nil.prems(2) _ that] Nil.prems(6) by simp
  then show ?case by (auto simp: list_all_iff is_waiting_def intro: delivery_status.exhaust)
next
  case (Cons run runs)
  obtain env send where run: "run = (env, send)" by (cases run)
  let ?db' = "fst (run_delivery_sweep env send None db)"
  have "0 \<le> minutes (delivery_retry_base_minutes c * 2 ^ nat (delivery_max_attempts c))"
    using Cons.prems(4) by (simp add: minutes_def)
  then have later: "t \<le> now env" using Cons.prems(5) by (simp add: run)
  note step = sweep_progress [of c env send t db]
  have "queue_wf (delivery_max_attempts c) (now env) ?db'"
    using step(1) Cons.prems later by (simp add: run)
  moreover have "backlog (delivery_max_attempts c) ?db' \<le> length runs"
  proof (cases "backlog (delivery_max_attempts c) db = 0")
    case False
    then show ?thesis using step(2) Cons.prems later by (simp add: run)
  next
    case True
    then have "\<forall>d \<in> set (t_deliveries db). \<not> is_waiting d" using nothing_waits [OF Cons.prems(2)] by blast
    then have "delivery_batch env n db = []" for n by (simp add: delivery_batch_def filter_empty_conv)
    then show ?thesis using True by (simp add: run_delivery_sweep_def)
  qed
  ultimately show ?case using Cons.IH [of "now env" ?db'] Cons.prems by (simp add: run)
qed

section \<open>What can keep it from emptying\<close>

text \<open>
  Messages of a channel that is not configured any more stay in the batch without a turn: when they
  fill it, no other message is ever sent.
\<close>

lemma unconfigured_batch_blocks:
  "\<forall>d \<in> set (delivery_batch env (batch_limit env limit) db). dlv_channel d \<notin> set (channels_available env) \<Longrightarrow>
    run_delivery_sweep env send limit db = (db, no_outcome)"
proof -
  have "\<forall>d \<in> set ds. dlv_channel d \<notin> set (channels_available env) \<Longrightarrow> fold (deliver env send) ds acc = acc" for ds acc
    by (induction ds) (auto simp: deliver_def split: prod.split)
  then show "\<forall>d \<in> set (delivery_batch env (batch_limit env limit) db). dlv_channel d \<notin> set (channels_available env) \<Longrightarrow>
      run_delivery_sweep env send limit db = (db, no_outcome)"
    by (simp add: run_delivery_sweep_def)
qed

definition waiting_message :: "int \<Rightarrow> delivery_channel \<Rightarrow> notification_delivery" where
  "waiting_message k kind = \<lparr>delivery_id = k, dlv_notification_id = 1, dlv_channel = kind, recipient = [49],
     dlv_status = Delivery_pending, attempts = 0, last_attempt_at = None, last_error = None, sent_at = None,
     dlv_created_at = k\<rparr>"

definition small_batches :: env where
  "small_batches = plain_env\<lparr>cfg := default_settings\<lparr>delivery_batch_size := 1\<rparr>\<rparr>"

lemma mail_waits_for_a_removed_channel:
  "run_delivery_sweep (small_batches\<lparr>now := t\<rparr>) send None
     (empty_database\<lparr>t_deliveries := [waiting_message 1 Sms, waiting_message 2 Email]\<rparr>) =
   (empty_database\<lparr>t_deliveries := [waiting_message 1 Sms, waiting_message 2 Email]\<rparr>, no_outcome)"
  by (rule unconfigured_batch_blocks)
    (simp add: delivery_batch_def batch_limit_def small_batches_def plain_env_def default_settings_def
      waiting_message_def is_waiting_def is_due_def)

text \<open>A channel that fails outside its protocol is tried again without end: such a message is never given up.\<close>

lemma unexpected_errors_never_end:
  assumes "dlv_channel d \<in> set (channels_available env)"
    and "row_get notification_id ns (dlv_notification_id d) = Some n" and "\<forall>d. send d n = Unexpected_error e"
  shows "dlv_status (after_turn env send ns d) = Delivery_failed"
  using assms by (simp add: after_turn_def)

section \<open>An example\<close>

definition busy_channel :: sender where
  "busy_channel d n = (if attempts d < 2 then Delivery_error [33] True else Delivered)"

definition sweep_at :: "int \<Rightarrow> env \<times> sender" where
  "sweep_at t = (plain_env\<lparr>now := t, channels_available := [Email, Sms]\<rparr>, busy_channel)"

theorem queue_empties_witness:
  "list_all (\<lambda>d. dlv_status d \<in> {Delivery_sent, Delivery_abandoned})
    (t_deliveries (sweeps (map (\<lambda>k. sweep_at (minutes 160 * (int k + 1))) [0..<5])
      (empty_database\<lparr>t_deliveries := [waiting_message 1 Sms]\<rparr>)))"
proof -
  let ?runs = "map (\<lambda>k. sweep_at (minutes 160 * (int k + 1))) [0..<5]"
  let ?db = "empty_database\<lparr>t_deliveries := [waiting_message 1 Sms]\<rparr>"
  have "list_all (healthy default_settings) ?runs"
    by (simp add: healthy_def sweep_at_def plain_env_def busy_channel_def list_all_iff)
  moreover have "queue_wf (delivery_max_attempts default_settings) 0 ?db"
    by (simp add: queue_wf_def waiting_message_def default_settings_def)
  moreover have "0 < delivery_batch_size default_settings" "0 \<le> delivery_retry_base_minutes default_settings"
    by (simp_all add: default_settings_def)
  moreover have "spaced default_settings 0 (map fst ?runs)"
    by (simp add: sweep_at_def default_settings_def minutes_def upt_rec numeral_eq_Suc)
  moreover have "backlog (delivery_max_attempts default_settings) ?db \<le> length ?runs"
    by (simp add: backlog_def attempts_left_def waiting_message_def default_settings_def is_waiting_def)
  ultimately show ?thesis by (rule queue_empties)
qed

theorem ended_deliveries_are_final_witness:
  "row_get delivery_id (t_deliveries (sweeps [sweep_at 0, sweep_at 5]
      (empty_database\<lparr>t_deliveries := [(waiting_message 1 Email)\<lparr>dlv_status := Delivery_sent\<rparr>]\<rparr>))) 1 =
    Some ((waiting_message 1 Email)\<lparr>dlv_status := Delivery_sent\<rparr>)"
  using ended_deliveries_are_final [of "empty_database\<lparr>t_deliveries := [(waiting_message 1 Email)\<lparr>dlv_status := Delivery_sent\<rparr>]\<rparr>"
      "(waiting_message 1 Email)\<lparr>dlv_status := Delivery_sent\<rparr>" "[sweep_at 0, sweep_at 5]"]
  by (simp add: waiting_message_def)

end
