(* ===== verification/Assistant.thy ===== *)
theory Assistant
  imports Auth
begin

text \<open>
  The assistant (\<open>app/services/ai/tools/base.py\<close>, \<open>app/services/ai/orchestrator.py\<close>, the chat endpoint of
  \<open>app/api/routers/ai.py\<close>). The language model and the bodies of the tools are parameters; what is
  modelled is which calls of the model are carried out, which only become proposals, and what a turn
  commits.
\<close>

section \<open>Tables\<close>

record ai_settings =
  ais_enabled :: bool
  ais_allow_write_actions :: bool
  ais_max_user_chars :: int
  ais_max_tool_iterations :: int

record ai_user_access =
  aia_user_id :: int
  aia_enabled :: bool
  aia_allow_write_actions :: bool
  aia_daily_message_limit :: int

record ai_message =
  msg_id :: int
  msg_conversation_id :: int
  msg_role :: string
  msg_content :: utext
  msg_created_at :: int

record evaluation_document =
  doc_record_id :: int
  doc_bytes :: "nat list"
  doc_sha256 :: string

text \<open>The tables of the rest of the program together with those of the assistant and the archive.\<close>

record platform =
  core :: database
  t_ai_settings :: "ai_settings option"
  t_ai_access :: "ai_user_access list"
  t_ai_messages :: "ai_message list"
  t_documents :: "evaluation_document list"

definition in_core :: "(database \<Rightarrow> database) \<Rightarrow> platform \<Rightarrow> platform" where
  "in_core f p = p\<lparr>core := f (core p)\<rparr>"

definition add_message :: "env \<Rightarrow> int \<Rightarrow> string \<Rightarrow> utext \<Rightarrow> platform \<Rightarrow> platform" where
  "add_message env convo role content p =
    p\<lparr>t_ai_messages := t_ai_messages p @
      [\<lparr>msg_id = next_id msg_id (t_ai_messages p), msg_conversation_id = convo, msg_role = role,
        msg_content = content, msg_created_at = now env\<rparr>]\<rparr>"

section \<open>Tools\<close>

record tool_spec =
  spec_name :: string
  read_only :: bool
  risky :: bool
  spec_capabilities :: "capability list"
  spec_roles :: "user_role list"
  guarded_inline :: bool

definition get_tool :: "tool_spec list \<Rightarrow> utext \<Rightarrow> tool_spec option" where
  "get_tool registry name = find (\<lambda>s. spec_name s = text_key (strip name)) registry"

definition is_allowed :: "tool_spec \<Rightarrow> current_user \<Rightarrow> capability set \<Rightarrow> bool" where
  "is_allowed spec user caps \<longleftrightarrow>
    (if guarded_inline spec \<and> spec_capabilities spec = [] \<and> spec_roles spec = [] then True
     else if spec_capabilities spec = [] \<and> spec_roles spec = [] then False
     else set (spec_capabilities spec) \<inter> caps \<noteq> {} \<or> cu_role user \<in> set (spec_roles spec))"

definition guard :: "tool_spec \<Rightarrow> current_user \<Rightarrow> capability set \<Rightarrow> unit http" where
  "guard spec user caps = raise_if (\<not> is_allowed spec user caps) (HTTPException 403 ''not permitted'')"

definition allowed_tools :: "tool_spec list \<Rightarrow> current_user \<Rightarrow> capability set \<Rightarrow> bool \<Rightarrow> tool_spec list" where
  "allowed_tools registry user caps allow_writes =
    filter (\<lambda>s. (allow_writes \<or> read_only s) \<and> is_allowed s user caps) registry"

text \<open>The keys whose values never enter the log; the last three are Persian words for a password.\<close>

definition SENSITIVE_KEYS :: "string list" where
  "SENSITIVE_KEYS =
    [''password'', ''initial_password'', ''api_key'', ''new_password'', ''current_password'',
     ''temporary_password'',
     text_key [1585, 1605, 1586, 32, 1575, 1608, 1604, 1740, 1607],
     text_key [1585, 1605, 1586, 32, 1593, 1576, 1608, 1585],
     text_key [1711, 1584, 1585, 1608, 1575, 1688, 1607]]"

fun sanitize_value :: "json \<Rightarrow> json" where
  "sanitize_value (JObject d) =
    JObject (map (\<lambda>(k, v). (k, if k \<in> set SENSITIVE_KEYS then jstr ''***'' else sanitize_value v)) d)"
| "sanitize_value (JArray xs) = JArray (map sanitize_value xs)"
| "sanitize_value v = v"

definition sanitize_arguments :: "jdict \<Rightarrow> jdict" where
  "sanitize_arguments d =
    map (\<lambda>(k, v). (k, if k \<in> set SENSITIVE_KEYS then jstr ''***'' else sanitize_value v)) d"

record tool_context =
  ctx_user :: current_user
  ctx_caps :: "capability set"
  ctx_conversation_id :: int
  ctx_allow_writes :: bool

text \<open>
  The body of a tool: it ends with a text and the tables as it left them, or it raises; then the
  tables are those of the last commit, which may be one of its own.
\<close>

datatype tool_failure = Http_failure http_error | Other_failure utext

datatype tool_result = Finished platform utext | Raised platform tool_failure

type_synonym handlers = "string \<Rightarrow> tool_context \<Rightarrow> jdict \<Rightarrow> platform \<times> platform \<Rightarrow> tool_result"

definition log_tool :: "string \<Rightarrow> tool_context \<Rightarrow> tool_spec \<Rightarrow> jdict \<Rightarrow> jdict \<Rightarrow> platform \<Rightarrow> platform" where
  "log_tool event ctx spec arguments extra p =
    in_core (log_event (cu_id (ctx_user ctx)) event None None
      (Some ([(''tool'', jstr (spec_name spec)), (''arguments'', JObject (sanitize_arguments arguments)),
              (''conversation_id'', JInt (ctx_conversation_id ctx))] @ extra @ [(''via'', jstr ''ai_copilot'')]))) p"

definition conversation_exists :: "int \<Rightarrow> platform \<Rightarrow> bool" where
  "conversation_exists k p \<longleftrightarrow> k \<in> conversation_id ` set (t_conversations (core p))"

text \<open>A transaction is the pair of the tables at the last commit and the tables as they are now.\<close>

definition execute_tool ::
  "handlers \<Rightarrow> tool_context \<Rightarrow> tool_spec \<Rightarrow> jdict \<Rightarrow> platform \<times> platform \<Rightarrow> (platform \<times> platform) \<times> utext http" where
  "execute_tool run ctx spec arguments tx =
    (case guard spec (ctx_user ctx) (ctx_caps ctx) of
       Inl e \<Rightarrow> (tx, Inl e)
     | Inr _ \<Rightarrow>
        if \<not> read_only spec \<and> \<not> ctx_allow_writes ctx then (tx, Inl (HTTPException 403 ''read-only mode''))
        else case run (spec_name spec) ctx arguments tx of
          Raised back (Http_failure e) \<Rightarrow>
            (let p = log_tool ''ai_tool_failed'' ctx spec arguments [] back in ((p, p), Inl e))
        | Raised back (Other_failure t) \<Rightarrow>
            (let p = log_tool ''ai_tool_failed'' ctx spec arguments [(''error'', JString (take 300 t))] back
             in ((p, p), Inl (HTTPException 500 ''tool failed'')))
        | Finished p content \<Rightarrow>
            ((fst tx, log_tool ''ai_tool_invoked'' ctx spec arguments [(''read_only'', JBool (read_only spec))] p),
             Inr content))"

section \<open>Proposals\<close>

datatype step_status = Step_ok | Step_error | Awaiting_confirmation

text \<open>\<open>PENDING_TTL_HOURS\<close> of \<open>services/ai/tools/uploads.py\<close>, in the time unit of the model.\<close>

definition pending_ttl :: int where "pending_ttl = minutes (24 * 60)"

text \<open>
  \<open>broken\<close> is an exception that nothing in the turn catches: a proposal whose conversation is not in its
  table violates the foreign key.
\<close>

record turn_state =
  transaction :: "platform \<times> platform"
  turn_steps :: "(string \<times> step_status) list"
  created_pending :: "int list"
  broken :: bool

definition propose :: "env \<Rightarrow> tool_context \<Rightarrow> tool_spec \<Rightarrow> jdict \<Rightarrow> platform \<Rightarrow> platform \<times> int" where
  "propose env ctx spec arguments p =
    (let k = next_id pending_id (t_pending_actions (core p))
     in (in_core (\<lambda>db. db\<lparr>t_pending_actions := t_pending_actions db @
           [\<lparr>pending_id = k, pending_conversation_id = ctx_conversation_id ctx,
             pending_user_id = cu_id (ctx_user ctx), pending_tool_name = spec_name spec,
             pending_arguments = arguments, pending_status = ''pending'', pending_result_text = [],
             pending_created_at = now env, pending_decided_at = None,
             pending_expires_at = now env + pending_ttl\<rparr>]\<rparr>) p, k))"

definition execute_call ::
  "env \<Rightarrow> handlers \<Rightarrow> tool_context \<Rightarrow> tool_spec \<Rightarrow> jdict \<Rightarrow> turn_state \<Rightarrow> turn_state \<times> utext http" where
  "execute_call env run ctx spec arguments ts =
    (let (saved, live) = transaction ts
     in if risky spec then
          (if \<not> ctx_allow_writes ctx
           then (ts\<lparr>transaction := (saved, log_tool ''ai_tool_refused'' ctx spec arguments
                   [(''reason'', jstr ''read_only_mode'')] live)\<rparr>, Inr (ascii ''read-only mode''))
           else case guard spec (ctx_user ctx) (ctx_caps ctx) of
             Inl e \<Rightarrow>
               (ts\<lparr>transaction := (saved, log_tool ''ai_tool_refused'' ctx spec arguments
                   [(''reason'', jstr ''not_permitted'')] live)\<rparr>, Inl e)
           | Inr _ \<Rightarrow>
               if \<not> conversation_exists (ctx_conversation_id ctx) live
               then (ts\<lparr>broken := True\<rparr>, Inl (HTTPException 500 ''foreign key''))
               else (let (p, k) = propose env ctx spec arguments live
                in (ts\<lparr>transaction := (saved, p), created_pending := created_pending ts @ [k],
                       turn_steps := turn_steps ts @ [(spec_name spec, Awaiting_confirmation)]\<rparr>,
                    Inr (ascii ''awaiting confirmation''))))
        else case execute_tool run ctx spec arguments (saved, live) of
          (tx, Inl e) \<Rightarrow> (ts\<lparr>transaction := tx\<rparr>, Inl e)
        | (tx, Inr content) \<Rightarrow>
            (ts\<lparr>transaction := tx, turn_steps := turn_steps ts @ [(spec_name spec, Step_ok)]\<rparr>, Inr content))"

section \<open>A turn\<close>

text \<open>
  What the model answers: the calls of its reply, already read from the text where the provider has no
  tools (\<open>None\<close> for arguments that are no JSON object), whether the reply was cut off, and its text.
  \<open>ask\<close> gets the conversation so far, whether the tools were offered, and whether text is demanded.
\<close>

record tool_call =
  call_name :: utext
  call_arguments :: "jdict option"

record chat_response =
  resp_calls :: "tool_call list"
  resp_truncated :: bool
  resp_text :: utext

datatype provider_reply = Reply chat_response | Protocol_unsupported | Provider_down

type_synonym chat_messages = "(string \<times> utext) list"

type_synonym provider = "bool \<Rightarrow> chat_messages \<Rightarrow> bool \<Rightarrow> bool \<Rightarrow> provider_reply"

definition commit_turn :: "turn_state \<Rightarrow> turn_state" where
  "commit_turn ts = ts\<lparr>transaction := (snd (transaction ts), snd (transaction ts))\<rparr>"

definition run_call ::
  "env \<Rightarrow> handlers \<Rightarrow> tool_spec list \<Rightarrow> tool_context \<Rightarrow> tool_call \<Rightarrow> turn_state \<times> chat_messages \<Rightarrow>
    turn_state \<times> chat_messages" where
  "run_call env run registry ctx call acc =
    (let (ts, messages) = acc
     in if broken ts then acc
        else case get_tool registry (call_name call) of
          None \<Rightarrow> (ts\<lparr>turn_steps := turn_steps ts @ [(text_key (call_name call), Step_error)]\<rparr>,
                   messages @ [(''tool'', ascii ''unknown tool'')])
        | Some spec \<Rightarrow>
            (case call_arguments call of
               None \<Rightarrow> (ts\<lparr>turn_steps := turn_steps ts @ [(spec_name spec, Step_error)]\<rparr>,
                        messages @ [(''tool'', ascii ''bad arguments'')])
             | Some arguments \<Rightarrow>
                 (case execute_call env run ctx spec arguments ts of
                    (ts1, Inr content) \<Rightarrow> (commit_turn ts1, messages @ [(''tool'', content)])
                  | (ts1, Inl e) \<Rightarrow>
                      if broken ts1 then (ts1, messages)
                      else (commit_turn (ts1\<lparr>turn_steps := turn_steps ts1 @ [(spec_name spec, Step_error)]\<rparr>),
                       messages @ [(''tool'', ascii (detail e))]))))"

text \<open>
  \<open>send\<close> with its second attempt in the protocol without tools; the second component says whether the
  turn stays in that protocol.
\<close>

definition ask_provider ::
  "provider \<Rightarrow> bool \<Rightarrow> bool \<Rightarrow> chat_messages \<Rightarrow> bool \<Rightarrow> chat_response option \<times> bool" where
  "ask_provider ask offers fallback messages force_text =
    (case ask fallback messages (offers \<and> \<not> fallback) (offers \<and> \<not> fallback \<and> force_text) of
       Reply r \<Rightarrow> (Some r, fallback)
     | Provider_down \<Rightarrow> (None, fallback)
     | Protocol_unsupported \<Rightarrow>
         (case ask True messages False False of Reply r \<Rightarrow> (Some r, True) | _ \<Rightarrow> (None, True)))"

text \<open>The loop over at most \<open>max_iterations\<close> requests; \<open>None\<close> is a provider that failed.\<close>

fun turn_loop ::
  "nat \<Rightarrow> env \<Rightarrow> handlers \<Rightarrow> tool_spec list \<Rightarrow> tool_context \<Rightarrow> provider \<Rightarrow> bool \<Rightarrow> bool \<Rightarrow>
    turn_state \<times> chat_messages \<Rightarrow> turn_state \<times> utext option" where
  "turn_loop 0 env run registry ctx ask offers fallback (ts, messages) = (ts, Some (ascii ''no answer''))"
| "turn_loop (Suc n) env run registry ctx ask offers fallback (ts, messages) =
    (if broken ts then (ts, None)
     else case ask_provider ask offers fallback messages (n = 0) of
       (None, _) \<Rightarrow> (ts, None)
     | (Some r, fallback1) \<Rightarrow>
         if resp_truncated r \<and> resp_calls r \<noteq> []
         then (ts\<lparr>turn_steps := turn_steps ts @ [(text_key (call_name (hd (resp_calls r))), Step_error)]\<rparr>,
               Some (ascii ''cut off''))
         else if resp_calls r = []
         then (ts, Some (let t = strip (resp_text r) in
                 if t = [] then ascii ''no answer''
                 else if resp_truncated r then t @ ascii '' (cut off)'' else t))
         else turn_loop n env run registry ctx ask offers fallback1
                (fold (run_call env run registry ctx) (resp_calls r)
                   (ts, messages @ (if fallback1 \<and> strip (resp_text r) = [] then []
                                    else [(''assistant'', resp_text r)]))))"

definition run_turn ::
  "env \<Rightarrow> handlers \<Rightarrow> tool_spec list \<Rightarrow> ai_settings \<Rightarrow> current_user \<Rightarrow> int \<Rightarrow> provider \<Rightarrow> bool \<Rightarrow> chat_messages \<Rightarrow>
    platform \<times> platform \<Rightarrow> turn_state \<times> utext option" where
  "run_turn env run registry config user convo ask allow_writes messages tx =
    (let caps = capabilities_of (core (snd tx)) (cu_id user);
         ctx = \<lparr>ctx_user = user, ctx_caps = caps, ctx_conversation_id = convo, ctx_allow_writes = allow_writes\<rparr>;
         max_iterations = nat (max 1 (if ais_max_tool_iterations config = 0 then 6 else ais_max_tool_iterations config))
     in turn_loop max_iterations env run registry ctx ask
          (allowed_tools registry user caps allow_writes \<noteq> []) False
          (\<lparr>transaction = tx, turn_steps = [], created_pending = [], broken = False\<rparr>, messages))"

section \<open>The chat endpoint\<close>

definition default_ai_settings :: ai_settings where
  "default_ai_settings = \<lparr>ais_enabled = False, ais_allow_write_actions = True, ais_max_user_chars = 4000,
     ais_max_tool_iterations = 6\<rparr>"

definition settings_row :: "platform \<Rightarrow> ai_settings" where
  "settings_row p = (case t_ai_settings p of None \<Rightarrow> default_ai_settings | Some c \<Rightarrow> c)"

definition access_row :: "platform \<Rightarrow> int \<Rightarrow> ai_user_access option" where
  "access_row p u = find (\<lambda>a. aia_user_id a = u) (t_ai_access p)"

text \<open>\<open>has_key\<close>: some key for the service can be decrypted for this user.\<close>

definition resolve :: "platform \<Rightarrow> current_user \<Rightarrow> bool \<Rightarrow> (ai_settings \<times> ai_user_access) http" where
  "resolve p user has_key =
    (let config = settings_row p
     in bindE (raise_if (\<not> ais_enabled config) (HTTPException 403 ''assistant off'')) (\<lambda>_.
        bindE (or_raise (access_row p (cu_id user)) (HTTPException 403 ''not enabled for you'')) (\<lambda>access.
        bindE (raise_if (\<not> aia_enabled access) (HTTPException 403 ''not enabled for you'')) (\<lambda>_.
        bindE (raise_if (\<not> has_key) (HTTPException 503 ''no key'')) (\<lambda>_. Inr (config, access))))))"

definition allow_writes_for :: "ai_settings \<Rightarrow> ai_user_access \<Rightarrow> bool" where
  "allow_writes_for config access \<longleftrightarrow> ais_allow_write_actions config \<and> aia_allow_write_actions access"

definition resolve_daily_limit :: "settings \<Rightarrow> ai_user_access \<Rightarrow> int option" where
  "resolve_daily_limit c access =
    (if aia_daily_message_limit access < 0 then None
     else if aia_daily_message_limit access = 0 then Some (ai_daily_message_limit c)
     else Some (aia_daily_message_limit access))"

definition own_conversation :: "platform \<Rightarrow> int \<Rightarrow> current_user \<Rightarrow> ai_conversation http" where
  "own_conversation p k user =
    bindE (or_raise (row_get conversation_id (t_conversations (core p)) k) (HTTPException 404 ''no such conversation''))
     (\<lambda>c. bindE (raise_if (conversation_user_id c \<noteq> cu_id user) (HTTPException 404 ''no such conversation''))
     (\<lambda>_. Inr c))"

definition used_today :: "env \<Rightarrow> platform \<Rightarrow> int \<Rightarrow> nat" where
  "used_today env p u =
    length (filter (\<lambda>m. msg_role m = ''user'' \<and> now env - days 1 \<le> msg_created_at m \<and>
      (\<exists>c \<in> set (t_conversations (core p)). conversation_id c = msg_conversation_id m \<and> conversation_user_id c = u))
      (t_ai_messages p))"

definition HISTORY_WINDOW :: nat where "HISTORY_WINDOW = 12"

definition history_messages :: "platform \<Rightarrow> int \<Rightarrow> int \<Rightarrow> chat_messages" where
  "history_messages p convo excluded =
    map (\<lambda>m. (msg_role m, msg_content m))
      (rev (take HISTORY_WINDOW (rev (sort_key msg_id (filter (\<lambda>m. msg_conversation_id m = convo \<and>
        msg_role m \<in> {''user'', ''assistant''} \<and> msg_id m \<noteq> excluded) (t_ai_messages p))))))"

definition delete_conversation_row :: "int \<Rightarrow> platform \<Rightarrow> platform" where
  "delete_conversation_row k p =
    p\<lparr>core := (core p)\<lparr>t_conversations := filter (\<lambda>c. conversation_id c \<noteq> k) (t_conversations (core p)),
        t_pending_actions := filter (\<lambda>a. pending_conversation_id a \<noteq> k) (t_pending_actions (core p))\<rparr>,
      t_ai_messages := filter (\<lambda>m. msg_conversation_id m \<noteq> k) (t_ai_messages p)\<rparr>"

text \<open>
  The first component is what stays in the database, also when the answer is an error. \<open>system\<close> is the
  text of the instructions for the model.
\<close>

definition chat_checks ::
  "env \<Rightarrow> bool \<Rightarrow> platform \<Rightarrow> current_user \<Rightarrow> utext \<Rightarrow> int option \<Rightarrow>
    (ai_settings \<times> ai_user_access \<times> ai_conversation option) http" where
  "chat_checks env has_key p user question asked =
    bindE (resolve p user has_key) (\<lambda>(config, access).
    bindE (raise_if (question = []) (HTTPException 400 ''empty'')) (\<lambda>_.
    bindE (raise_if (ais_max_user_chars config < int (length question)) (HTTPException 400 ''too long'')) (\<lambda>_.
    bindE (case resolve_daily_limit (cfg env) access of
             None \<Rightarrow> Inr ()
           | Some l \<Rightarrow> raise_if (l \<le> int (used_today env p (cu_id user))) (HTTPException 429 ''daily limit'')) (\<lambda>_.
    bindE (case asked of
             None \<Rightarrow> Inr None
           | Some k \<Rightarrow> bindE (own_conversation p k user) (\<lambda>c. Inr (Some c))) (\<lambda>found.
    Inr (config, access, found))))))"

definition open_conversation :: "ai_conversation option \<Rightarrow> current_user \<Rightarrow> utext \<Rightarrow> platform \<Rightarrow> int \<times> platform" where
  "open_conversation found user question p =
    (case found of
       Some c \<Rightarrow> (conversation_id c, p)
     | None \<Rightarrow>
        (let k = next_id conversation_id (t_conversations (core p))
         in (k, in_core (\<lambda>db. db\<lparr>t_conversations := t_conversations db @
               [\<lparr>conversation_id = k, conversation_user_id = cu_id user, conversation_title = take 60 question\<rparr>]\<rparr>) p)))"

text \<open>A turn whose provider failed leaves no question behind, and no conversation made for it.\<close>

definition forget_question :: "int \<Rightarrow> int \<Rightarrow> bool \<Rightarrow> platform \<Rightarrow> platform" where
  "forget_question asked_id convo was_new p =
    (let p1 = p\<lparr>t_ai_messages := filter (\<lambda>m. msg_id m \<noteq> asked_id) (t_ai_messages p)\<rparr>
     in if was_new \<and> filter (\<lambda>m. msg_conversation_id m = convo) (t_ai_messages p1) = []
        then delete_conversation_row convo p1 else p1)"

definition finish_chat ::
  "env \<Rightarrow> int \<Rightarrow> int \<Rightarrow> bool \<Rightarrow> turn_state \<times> utext option \<Rightarrow>
    platform \<times> (int \<times> utext \<times> (string \<times> step_status) list) http" where
  "finish_chat env convo asked_id was_new outcome =
    (let (ts, answer) = outcome; (saved, live) = transaction ts
     in if broken ts then (saved, Inl (HTTPException 500 ''foreign key''))
        else case answer of
          None \<Rightarrow>
            if asked_id \<notin> msg_id ` set (t_ai_messages live) then (saved, Inl (HTTPException 500 ''not persisted''))
            else (forget_question asked_id convo was_new live, Inl (HTTPException 503 ''service''))
        | Some reply \<Rightarrow>
            if \<not> conversation_exists convo live then (saved, Inl (HTTPException 500 ''foreign key''))
            else (add_message env convo ''assistant'' reply live, Inr (convo, reply, turn_steps ts)))"

definition chat ::
  "env \<Rightarrow> handlers \<Rightarrow> tool_spec list \<Rightarrow> provider \<Rightarrow> utext \<Rightarrow> bool \<Rightarrow> platform \<Rightarrow> current_user \<Rightarrow> utext \<Rightarrow> int option \<Rightarrow>
    platform \<times> (int \<times> utext \<times> (string \<times> step_status) list) http" where
  "chat env run registry ask system has_key p user given asked =
    (let question = strip given
     in case chat_checks env has_key p user question asked of
          Inl e \<Rightarrow> (p, Inl e)
        | Inr (config, access, found) \<Rightarrow>
            (let (convo, p1) = open_conversation found user question p;
                 asked_id = next_id msg_id (t_ai_messages p1);
                 p2 = add_message env convo ''user'' question p1
             in finish_chat env convo asked_id (found = None)
                  (run_turn env run registry config user convo ask (allow_writes_for config access)
                    ([(''system'', system)] @ history_messages p2 convo asked_id @ [(''user'', question)]) (p, p2))))"

section \<open>The registered tools\<close>

text \<open>\<open>@tool(...)\<close> registers a body under its name; descriptions, schemas and categories are left out.\<close>

definition tool :: "string \<Rightarrow> bool \<Rightarrow> bool \<Rightarrow> capability list \<Rightarrow> user_role list \<Rightarrow> bool \<Rightarrow> tool_spec" where
  "tool name ro dangerous caps roles inline =
    \<lparr>spec_name = name, read_only = ro, risky = dangerous, spec_capabilities = caps, spec_roles = roles,
     guarded_inline = inline\<rparr>"

definition ANALYTICS_TOOLS :: "tool_spec list" where
  "ANALYTICS_TOOLS =
    [tool ''report_summary'' True False [] [Role_hr] False,
     tool ''employee_vs_unit'' True False [] [Role_hr] False,
     tool ''dashboard_overview'' True False [] [Role_hr] False,
     tool ''expiring_contracts'' True False [] [Role_hr] False,
     tool ''executive_analysis'' True False [] [Role_ceo, Role_deputy] False,
     tool ''my_scoring_analysis'' True False [] [Role_unit_supervisor, Role_deputy] False,
     tool ''search_audit_log'' True False [View_audit_log, View_diagnostics] [] False,
     tool ''my_permissions'' True False [] [] True]"

definition EVALUATIONS_TOOLS :: "tool_spec list" where
  "EVALUATIONS_TOOLS =
    [tool ''search_evaluations'' True False [] [] True,
     tool ''get_evaluation'' True False [] [] True,
     tool ''create_evaluation'' False True [] [] True,
     tool ''advance_evaluation'' False True [] [] True,
     tool ''add_evaluation_comment'' False True [] [] True,
     tool ''invite_self_assessment'' False True [Manage_personnel] [Role_hr] False,
     tool ''my_open_cases'' True False [] [Role_hr, Role_unit_supervisor, Role_deputy, Role_ceo, Role_employee] False,
     tool ''explain_evaluation_rules'' True False [] [] True]"

definition FRAMEWORK_TOOLS :: "tool_spec list" where
  "FRAMEWORK_TOOLS =
    [tool ''list_indicators'' True False [] [] True,
     tool ''create_indicator'' False True [Manage_scoring] [] False,
     tool ''update_indicator'' False True [Manage_scoring] [] False,
     tool ''list_scoring_schemes'' True False [Manage_scoring] [] False,
     tool ''create_scoring_scheme_draft'' False True [Manage_scoring] [] False,
     tool ''activate_scoring_scheme'' False True [Manage_scoring] [] False,
     tool ''list_periods'' True False [] [Role_hr] False,
     tool ''create_period'' False True [] [Role_hr] False,
     tool ''period_progress'' True False [] [Role_hr] False,
     tool ''preview_bulk_evaluations'' True False [] [Role_hr] False,
     tool ''run_bulk_evaluations'' False True [] [Role_hr] False,
     tool ''search_improvement_plans'' True False [] [Role_hr, Role_unit_supervisor, Role_deputy, Role_ceo] False,
     tool ''create_improvement_plan'' False True [] [Role_hr] False,
     tool ''update_improvement_plan_goal'' False True [] [Role_hr, Role_unit_supervisor, Role_deputy, Role_ceo] False]"

definition PEOPLE_TOOLS :: "tool_spec list" where
  "PEOPLE_TOOLS =
    [tool ''search_personnel'' True False [] [] True,
     tool ''get_personnel'' True False [] [] True,
     tool ''create_personnel'' False True [Manage_personnel] [Role_hr] False,
     tool ''update_personnel'' False True [Manage_personnel] [Role_hr] False,
     tool ''separate_personnel'' False True [Manage_personnel] [Role_hr] False,
     tool ''search_users'' True False [Manage_users] [] False,
     tool ''create_user'' False True [Manage_users] [] False,
     tool ''update_user'' False True [Manage_users] [] False,
     tool ''list_org_units'' True False [Manage_personnel] [Role_hr] False,
     tool ''create_org_unit'' False True [Manage_personnel] [Role_hr] False,
     tool ''get_evaluation_access'' True False [] [] True,
     tool ''set_evaluation_access'' False True [Manage_personnel] [Role_hr] False,
     tool ''list_user_capabilities'' True False [Manage_capabilities] [] False,
     tool ''grant_capabilities'' False True [Manage_capabilities] [] False]"

definition UPLOADS_TOOLS :: "tool_spec list" where
  "UPLOADS_TOOLS =
    [tool ''inspect_upload'' True False [] [] True,
     tool ''patch_upload_rows'' False True [Manage_personnel] [Role_hr] False,
     tool ''import_personnel'' False True [Manage_personnel] [Role_hr] False]"

definition REGISTRY :: "tool_spec list" where
  "REGISTRY = ANALYTICS_TOOLS @ EVALUATIONS_TOOLS @ FRAMEWORK_TOOLS @ PEOPLE_TOOLS @ UPLOADS_TOOLS"

lemmas registry_defs = REGISTRY_def ANALYTICS_TOOLS_def EVALUATIONS_TOOLS_def FRAMEWORK_TOOLS_def PEOPLE_TOOLS_def
  UPLOADS_TOOLS_def tool_def

text \<open>Every tool that writes needs a confirmation, and none is open to all by omission.\<close>

lemma writing_tools_are_risky: "spec \<in> set REGISTRY \<Longrightarrow> \<not> risky spec \<Longrightarrow> read_only spec"
  by (auto simp: registry_defs)

lemma registered_tools_declare_a_guard:
  "spec \<in> set REGISTRY \<Longrightarrow> spec_capabilities spec \<noteq> [] \<or> spec_roles spec \<noteq> [] \<or> guarded_inline spec"
  by (auto simp: registry_defs)

lemma registered_names_distinct: "distinct (map spec_name REGISTRY)"
  by (simp add: registry_defs)

section \<open>A chat only proposes\<close>

text \<open>What a tool that is registered as reading may do to the tables: nothing.\<close>

definition reads_only :: "tool_spec list \<Rightarrow> handlers \<Rightarrow> bool" where
  "reads_only registry run \<longleftrightarrow>
    (\<forall>spec \<in> set registry. read_only spec \<longrightarrow> (\<forall>ctx arguments saved live.
      case run (spec_name spec) ctx arguments (saved, live) of
        Finished p _ \<Rightarrow> p = live | Raised p _ \<Rightarrow> p = saved))"

text \<open>The tables but for the log, the conversations and the proposals.\<close>

definition business :: "database \<Rightarrow> database" where
  "business db = db\<lparr>t_audit_log := [], t_pending_actions := [], t_conversations := []\<rparr>"

definition proposal_ok :: "tool_spec list \<Rightarrow> current_user \<Rightarrow> capability set \<Rightarrow> bool \<Rightarrow> ai_pending_action \<Rightarrow> bool" where
  "proposal_ok registry user caps w a \<longleftrightarrow> w \<and> pending_status a = ''pending'' \<and> pending_user_id a = cu_id user \<and>
    list_ex (\<lambda>s. spec_name s = pending_tool_name a \<and> risky s \<and> is_allowed s user caps) registry"

fun masked :: "json \<Rightarrow> bool" where
  "masked (JObject d) \<longleftrightarrow> list_all (\<lambda>(k, v). if k \<in> set SENSITIVE_KEYS then v = jstr ''***'' else masked v) d"
| "masked (JArray xs) \<longleftrightarrow> list_all masked xs"
| "masked _ \<longleftrightarrow> True"

definition logged_masked :: "audit_log \<Rightarrow> bool" where
  "logged_masked row \<longleftrightarrow> old_value row = None \<and> (\<exists>d. new_value row = Some d \<and> masked (JObject d))"

definition only_proposed ::
  "tool_spec list \<Rightarrow> current_user \<Rightarrow> capability set \<Rightarrow> bool \<Rightarrow> database \<Rightarrow> database \<Rightarrow> bool" where
  "only_proposed registry user caps w db db' \<longleftrightarrow> business db' = business db \<and>
    (\<exists>rows. t_audit_log db' = t_audit_log db @ rows \<and> list_all logged_masked rows) \<and>
    (\<forall>a \<in> set (t_pending_actions db'). a \<in> set (t_pending_actions db) \<or> proposal_ok registry user caps w a)"

lemma masked_sanitized: "masked (sanitize_value v)"
  by (induction v rule: sanitize_value.induct) (auto simp: list_all_iff jstr_def split: prod.splits)

lemma only_proposed_refl [simp]: "only_proposed registry user caps w db db"
  by (auto simp: only_proposed_def)

lemma only_proposed_trans:
  "only_proposed registry user caps w a b \<Longrightarrow> only_proposed registry user caps w b c \<Longrightarrow>
    only_proposed registry user caps w a c"
  by (fastforce simp: only_proposed_def)

lemma harmless_keys: "k \<in> {''tool'', ''arguments'', ''conversation_id'', ''reason'', ''error'', ''read_only'', ''via''} \<Longrightarrow>
    k \<notin> set SENSITIVE_KEYS"
  by (auto simp: SENSITIVE_KEYS_def text_key_def utf8_def utf8_char_def)

lemma log_tool_core:
  "core (log_tool event ctx spec arguments extra p) = log_event (cu_id (ctx_user ctx)) event None None
    (Some ([(''tool'', jstr (spec_name spec)), (''arguments'', JObject (sanitize_arguments arguments)),
            (''conversation_id'', JInt (ctx_conversation_id ctx))] @ extra @ [(''via'', jstr ''ai_copilot'')])) (core p)"
  "t_documents (log_tool event ctx spec arguments extra p) = t_documents p"
  by (simp_all add: log_tool_def in_core_def)

lemma business_log_event [simp]: "business (log_event actor event k old new db) = business db"
  by (simp add: business_def log_event_logged_row)

lemma log_tool_only_proposed:
  assumes "masked (JObject extra)"
  shows "only_proposed registry user caps w (core p) (core (log_tool event ctx spec arguments extra p))"
proof -
  have "masked (JObject (sanitize_arguments arguments))"
    using masked_sanitized [of "JObject arguments"] by (simp add: sanitize_arguments_def)
  then have "masked (JObject ([(''tool'', jstr (spec_name spec)), (''arguments'', JObject (sanitize_arguments arguments)),
            (''conversation_id'', JInt (ctx_conversation_id ctx))] @ extra @ [(''via'', jstr ''ai_copilot'')]))"
    using assms harmless_keys by (simp add: jstr_def)
  then show ?thesis
    by (simp add: only_proposed_def log_tool_core logged_masked_def logged_row_def Let_def del: masked.simps)
qed

lemma propose_only_proposed:
  assumes "w" and "spec \<in> set registry" and "risky spec" and "is_allowed spec (ctx_user ctx) caps"
  shows "only_proposed registry (ctx_user ctx) caps w (core p) (core (fst (propose env ctx spec arguments p)))"
    and "t_documents (fst (propose env ctx spec arguments p)) = t_documents p"
  using assms
  by (auto simp: only_proposed_def propose_def in_core_def business_def proposal_ok_def list_ex_iff Let_def)

text \<open>What holds of both halves of the transaction of a turn.\<close>

definition turn_ok ::
  "tool_spec list \<Rightarrow> current_user \<Rightarrow> capability set \<Rightarrow> bool \<Rightarrow> platform \<Rightarrow> platform \<times> platform \<Rightarrow> bool" where
  "turn_ok registry user caps w p tx \<longleftrightarrow>
    only_proposed registry user caps w (core p) (core (fst tx)) \<and>
    only_proposed registry user caps w (core p) (core (snd tx)) \<and>
    t_documents (fst tx) = t_documents p \<and> t_documents (snd tx) = t_documents p"

text \<open>The steps that carried a tool out carried out one that only reads and that the user may use.\<close>

definition steps_ok ::
  "tool_spec list \<Rightarrow> current_user \<Rightarrow> capability set \<Rightarrow> (string \<times> step_status) list \<Rightarrow> bool" where
  "steps_ok registry user caps steps \<longleftrightarrow>
    list_all (\<lambda>(name, st). st = Step_ok \<longrightarrow>
      list_ex (\<lambda>s. spec_name s = name \<and> read_only s \<and> is_allowed s user caps) registry) steps"

definition safe_tools :: "tool_spec list \<Rightarrow> handlers \<Rightarrow> bool" where
  "safe_tools registry run \<longleftrightarrow> reads_only registry run \<and> (\<forall>spec \<in> set registry. risky spec \<or> read_only spec)"

abbreviation keeps :: "tool_spec list \<Rightarrow> tool_context \<Rightarrow> platform \<Rightarrow> platform \<times> platform \<Rightarrow> bool" where
  "keeps registry ctx \<equiv> turn_ok registry (ctx_user ctx) (ctx_caps ctx) (ctx_allow_writes ctx)"

lemma keeps_log:
  assumes "keeps registry ctx p0 (saved, live)" and "masked (JObject extra)"
  shows "keeps registry ctx p0 (saved, log_tool event ctx spec arguments extra live)"
    and "keeps registry ctx p0
      (log_tool event ctx spec arguments extra saved, log_tool event ctx spec arguments extra saved)"
  using assms(1) only_proposed_trans [OF _ log_tool_only_proposed [OF assms(2)]]
  by (auto simp: turn_ok_def log_tool_core(2))

lemma scalar_masked [simp]:
  "masked (JObject [])" "masked (JObject [(''error'', JString t)])" "masked (JObject [(''read_only'', JBool b)])"
  "masked (JObject [(''reason'', jstr r)])"
  using harmless_keys by (simp_all add: jstr_def)

lemma execute_tool_keeps:
  assumes safe: "safe_tools registry run" and spec: "spec \<in> set registry" "\<not> risky spec"
    and tx: "keeps registry ctx p0 tx" and run: "execute_tool run ctx spec arguments tx = (tx', res)"
  shows "keeps registry ctx p0 tx'"
    and "res = Inr content \<Longrightarrow> read_only spec \<and> is_allowed spec (ctx_user ctx) (ctx_caps ctx)"
proof -
  have ro: "read_only spec" using safe spec by (auto simp: safe_tools_def)
  obtain saved live where tx_def: "tx = (saved, live)" by (cases tx)
  have r: "case run (spec_name spec) ctx arguments (saved, live) of Finished p _ \<Rightarrow> p = live | Raised p _ \<Rightarrow> p = saved"
    using safe spec(1) ro by (simp add: safe_tools_def reads_only_def)
  show "keeps registry ctx p0 tx'"
    using run r tx ro keeps_log [OF tx [unfolded tx_def]]
    by (auto simp: execute_tool_def tx_def Let_def simp del: masked.simps
        split: sum.splits tool_result.splits tool_failure.splits)
  show "res = Inr content \<Longrightarrow> read_only spec \<and> is_allowed spec (ctx_user ctx) (ctx_caps ctx)"
    using run ro
    by (auto simp: execute_tool_def guard_def tx_def Let_def split: sum.splits if_splits tool_result.splits tool_failure.splits)
qed

definition state_ok :: "tool_spec list \<Rightarrow> tool_context \<Rightarrow> platform \<Rightarrow> turn_state \<Rightarrow> bool" where
  "state_ok registry ctx p0 ts \<longleftrightarrow> keeps registry ctx p0 (transaction ts) \<and>
    steps_ok registry (ctx_user ctx) (ctx_caps ctx) (turn_steps ts)"

lemma execute_call_keeps:
  assumes safe: "safe_tools registry run" and spec: "spec \<in> set registry" and ts: "state_ok registry ctx p0 ts"
    and run: "execute_call env run ctx spec arguments ts = (ts', res)"
  shows "state_ok registry ctx p0 ts'"
proof (cases "risky spec")
  case True
  obtain saved live where tx: "transaction ts = (saved, live)" by (cases "transaction ts")
  have old: "keeps registry ctx p0 (saved, live)" "steps_ok registry (ctx_user ctx) (ctx_caps ctx) (turn_steps ts)"
    using ts tx by (simp_all add: state_ok_def)
  have new: "keeps registry ctx p0 (saved, fst (propose env ctx spec arguments live))"
    if "ctx_allow_writes ctx" "is_allowed spec (ctx_user ctx) (ctx_caps ctx)"
    using old(1) only_proposed_trans [OF _ propose_only_proposed(1) [OF that(1) spec True that(2)]]
      propose_only_proposed(2) [OF that(1) spec True that(2)] by (simp add: turn_ok_def)
  show ?thesis
    using run old new True keeps_log(1) [OF old(1)]
    by (auto simp: execute_call_def tx guard_def state_ok_def steps_ok_def Let_def simp del: masked.simps
        split: sum.splits if_splits prod.splits)
next
  case False
  obtain tx' r where e: "execute_tool run ctx spec arguments (transaction ts) = (tx', r)" by fastforce
  have "keeps registry ctx p0 tx'"
    using execute_tool_keeps(1) [OF safe spec False _ e] ts by (simp add: state_ok_def)
  moreover have "read_only spec \<and> is_allowed spec (ctx_user ctx) (ctx_caps ctx)" if "r = Inr c" for c
    using execute_tool_keeps(2) [OF safe spec False _ e that] ts unfolding state_ok_def by blast
  ultimately show ?thesis
    using run e ts False spec
    by (auto simp: execute_call_def state_ok_def steps_ok_def list_ex_iff split: sum.splits prod.splits)
qed

lemma get_tool_in: "get_tool registry name = Some spec \<Longrightarrow> spec \<in> set registry"
  by (auto simp: get_tool_def find_Some_iff)

lemma run_call_keeps:
  assumes "safe_tools registry run" and "state_ok registry ctx p0 (fst acc)"
  shows "state_ok registry ctx p0 (fst (run_call env run registry ctx call acc))"
proof -
  have commit: "state_ok registry ctx p0 (commit_turn ts)" if "state_ok registry ctx p0 ts" for ts
    using that by (auto simp: state_ok_def commit_turn_def turn_ok_def)
  have err: "state_ok registry ctx p0 (ts\<lparr>turn_steps := turn_steps ts @ [(name, Step_error)]\<rparr>)"
    if "state_ok registry ctx p0 ts" for ts name
    using that by (simp add: state_ok_def steps_ok_def)
  show ?thesis
    using assms(2) execute_call_keeps [OF assms(1) get_tool_in]
    by (cases acc) (auto simp: run_call_def Let_def intro!: commit err split: option.split prod.split sum.split)
qed

lemma turn_loop_keeps:
  "safe_tools registry run \<Longrightarrow> state_ok registry ctx p0 ts \<Longrightarrow>
    state_ok registry ctx p0 (fst (turn_loop n env run registry ctx ask offers fallback (ts, messages)))"
proof (induction n arbitrary: fallback ts messages)
  case (Suc n)
  have calls: "state_ok registry ctx p0 (fst (fold (run_call env run registry ctx) cs acc))"
    if "state_ok registry ctx p0 (fst acc)" for cs acc
    using that by (induction cs arbitrary: acc) (simp_all add: run_call_keeps [OF Suc.prems(1)])
  have step: "state_ok registry ctx p0 (fst (turn_loop n env run registry ctx ask offers fb
      (fold (run_call env run registry ctx) cs (ts, m))))" for fb cs m
    using Suc.IH [OF Suc.prems(1) calls [of "(ts, m)" cs]] Suc.prems(2)
    by (cases "fold (run_call env run registry ctx) cs (ts, m)") simp
  have err: "state_ok registry ctx p0 (ts\<lparr>turn_steps := turn_steps ts @ [(name, Step_error)]\<rparr>)" for name
    using Suc.prems(2) by (simp add: state_ok_def steps_ok_def)
  show ?case using Suc.prems(2) step err by (auto split: option.split prod.split)
qed simp

lemma run_turn_keeps:
  assumes "safe_tools registry run" and "turn_ok registry user (capabilities_of (core (snd tx)) (cu_id user)) w p0 tx"
    and "run_turn env run registry config user convo ask w messages tx = (ts, answer)"
  shows "turn_ok registry user (capabilities_of (core (snd tx)) (cu_id user)) w p0 (transaction ts)"
    and "steps_ok registry user (capabilities_of (core (snd tx)) (cu_id user)) (turn_steps ts)"
proof -
  let ?ctx = "\<lparr>ctx_user = user, ctx_caps = capabilities_of (core (snd tx)) (cu_id user), ctx_conversation_id = convo,
    ctx_allow_writes = w\<rparr>"
  let ?ts = "\<lparr>transaction = tx, turn_steps = [], created_pending = [], broken = False\<rparr>"
  have "state_ok registry ?ctx p0 ?ts" using assms(2) by (simp add: state_ok_def steps_ok_def)
  from turn_loop_keeps [OF assms(1) this, of _ env ask _ False messages] assms(3)
  have "state_ok registry ?ctx p0 ts" by (metis fst_conv run_turn_def)
  then show "turn_ok registry user (capabilities_of (core (snd tx)) (cu_id user)) w p0 (transaction ts)"
    and "steps_ok registry user (capabilities_of (core (snd tx)) (cu_id user)) (turn_steps ts)"
    by (simp_all add: state_ok_def)
qed

lemma only_proposed_message [simp]: "core (add_message env k role t p) = core p" "t_documents (add_message env k role t p) = t_documents p"
  by (simp_all add: add_message_def)

lemma only_proposed_conversations:
  "business (db\<lparr>t_conversations := cs\<rparr>) = business db"
  "only_proposed registry user caps w a (db\<lparr>t_conversations := cs\<rparr>) \<longleftrightarrow> only_proposed registry user caps w a db"
  "set as \<subseteq> set (t_pending_actions db) \<Longrightarrow> only_proposed registry user caps w a db \<Longrightarrow>
    only_proposed registry user caps w a (db\<lparr>t_conversations := cs, t_pending_actions := as\<rparr>)"
  by (auto simp: only_proposed_def business_def)

definition may_write :: "platform \<Rightarrow> current_user \<Rightarrow> bool" where
  "may_write p user =
    (case access_row p (cu_id user) of None \<Rightarrow> False | Some a \<Rightarrow> allow_writes_for (settings_row p) a)"

lemma capabilities_conversations [simp]: "capabilities_of (db\<lparr>t_conversations := cs\<rparr>) u = capabilities_of db u"
  by (simp add: capabilities_of_def)

lemma resolve_may_write: "resolve p user key = Inr (config, access) \<Longrightarrow> allow_writes_for config access = may_write p user"
  by (auto simp: resolve_def may_write_def Let_def)

lemma delete_conversation_keeps:
  "only_proposed registry user caps w db (core p) \<Longrightarrow> only_proposed registry user caps w db (core (delete_conversation_row k p))"
  "t_documents (delete_conversation_row k p) = t_documents p"
  by (simp_all add: delete_conversation_row_def only_proposed_conversations)

lemma checks_may_write:
  "chat_checks env key p user q asked = Inr (config, access, found) \<Longrightarrow> allow_writes_for config access = may_write p user"
  using resolve_may_write by (fastforce simp: chat_checks_def)

lemma open_conversation_core:
  assumes "open_conversation found user q p = (convo, p1)"
  shows "core p1 = core p \<or> (\<exists>cs. core p1 = (core p)\<lparr>t_conversations := cs\<rparr>)" and "t_documents p1 = t_documents p"
  using assms by (auto simp: open_conversation_def in_core_def Let_def split: option.splits)

lemma finish_keeps:
  assumes "turn_ok registry user caps w p (transaction ts)" and "steps_ok registry user caps (turn_steps ts)"
    and "finish_chat env convo asked_id new (ts, ans) = (p', answer)"
  shows "only_proposed registry user caps w (core p) (core p')" and "t_documents p' = t_documents p"
    and "answer = Inr (c, reply, steps) \<Longrightarrow> steps_ok registry user caps steps"
  using assms delete_conversation_keeps
  by (auto simp: finish_chat_def turn_ok_def forget_question_def Let_def split: if_splits option.splits prod.splits)

lemma chat_keeps:
  assumes safe: "safe_tools registry run"
    and chat: "chat env run registry ask system key p user given asked = (p', answer)"
  shows "only_proposed registry user (capabilities_of (core p) (cu_id user)) (may_write p user) (core p) (core p')"
    and "t_documents p' = t_documents p"
    and "answer = Inr (convo, reply, steps) \<Longrightarrow> steps_ok registry user (capabilities_of (core p) (cu_id user)) steps"
proof -
  let ?caps = "capabilities_of (core p) (cu_id user)"
  have "only_proposed registry user ?caps (may_write p user) (core p) (core p') \<and> t_documents p' = t_documents p \<and>
      (\<forall>convo reply steps. answer = Inr (convo, reply, steps) \<longrightarrow> steps_ok registry user ?caps steps)"
  proof (cases "chat_checks env key p user (strip given) asked")
    case (Inl e)
    then show ?thesis using chat by (auto simp: chat_def)
  next
    case (Inr x)
    obtain config access found where x: "x = (config, access, found)" by (cases x)
    obtain convo1 p1 where opened: "open_conversation found user (strip given) p = (convo1, p1)" by fastforce
    define p2 where "p2 = add_message env convo1 ''user'' (strip given) p1"
    obtain ts ans where turn: "run_turn env run registry config user convo1 ask (may_write p user)
        ([(''system'', system)] @ history_messages p2 convo1 (next_id msg_id (t_ai_messages p1)) @ [(''user'', strip given)])
        (p, p2) = (ts, ans)" by fastforce
    have caps: "capabilities_of (core p2) (cu_id user) = ?caps"
      using open_conversation_core(1) [OF opened] by (auto simp: p2_def)
    have "turn_ok registry user ?caps (may_write p user) p (p, p2)"
      using open_conversation_core [OF opened] by (auto simp: turn_ok_def p2_def only_proposed_conversations)
    with run_turn_keeps [OF safe _ turn, of p] caps
    have ok: "turn_ok registry user ?caps (may_write p user) p (transaction ts)" "steps_ok registry user ?caps (turn_steps ts)"
      by simp_all
    have "finish_chat env convo1 (next_id msg_id (t_ai_messages p1)) (found = None) (ts, ans) = (p', answer)"
      using chat Inr checks_may_write [of env key p user "strip given" asked config access found] turn
      by (simp add: chat_def x opened Let_def p2_def)
    from finish_keeps [OF ok this] show ?thesis by blast
  qed
  then show "only_proposed registry user ?caps (may_write p user) (core p) (core p')" and "t_documents p' = t_documents p"
    and "answer = Inr (convo, reply, steps) \<Longrightarrow> steps_ok registry user ?caps steps" by blast+
qed

section \<open>The properties of a chat\<close>

lemma registry_safe: "reads_only REGISTRY run \<Longrightarrow> safe_tools REGISTRY run"
  using writing_tools_are_risky by (auto simp: safe_tools_def)

text \<open>
  C23. Whatever the language model answers, a chat changes no table but the log and the conversations, and
  what it adds to the proposals waits for a confirmation: tools that need one, that this user may use
  now, while writing is allowed to the assistant. The tools that were carried out only read, and the
  user may use them.
\<close>

theorem chat_only_proposes:
  assumes "reads_only REGISTRY run"
    and "chat env run REGISTRY ask system key p user given asked = (p', answer)"
  shows "business (core p') = business (core p) \<and> t_documents p' = t_documents p \<and>
    list_all (\<lambda>a. a \<in> set (t_pending_actions (core p)) \<or>
      may_write p user \<and> pending_status a = ''pending'' \<and> pending_user_id a = cu_id user \<and>
      list_ex (\<lambda>s. spec_name s = pending_tool_name a \<and> risky s \<and>
        is_allowed s user (capabilities_of (core p) (cu_id user))) REGISTRY) (t_pending_actions (core p')) \<and>
    (case answer of Inl _ \<Rightarrow> True | Inr (_, _, steps) \<Rightarrow>
      list_all (\<lambda>(name, st). st \<noteq> Step_ok \<or>
        list_ex (\<lambda>s. spec_name s = name \<and> read_only s \<and>
          is_allowed s user (capabilities_of (core p) (cu_id user))) REGISTRY) steps)"
proof -
  note kept = chat_keeps [OF registry_safe [OF assms(1)] assms(2)]
  have "case answer of Inl _ \<Rightarrow> True | Inr (_, _, steps) \<Rightarrow>
      list_all (\<lambda>(name, st). st \<noteq> Step_ok \<or>
        list_ex (\<lambda>s. spec_name s = name \<and> read_only s \<and>
          is_allowed s user (capabilities_of (core p) (cu_id user))) REGISTRY) steps"
    using kept(3) by (auto simp: steps_ok_def list_all_iff split: sum.split prod.split)
  with kept(1,2) show ?thesis by (simp add: only_proposed_def proposal_ok_def list_all_iff)
qed

text \<open>No value under the name of a secret enters the log through a chat, at any depth of the arguments.\<close>

theorem chat_logs_no_secret:
  assumes "reads_only REGISTRY run"
    and "chat env run REGISTRY ask system key p user given asked = (p', answer)"
  shows "\<exists>rows. t_audit_log (core p') = t_audit_log (core p) @ rows \<and>
    list_all (\<lambda>row. old_value row = None \<and> (case new_value row of None \<Rightarrow> False | Some d \<Rightarrow> masked (JObject d))) rows"
proof -
  from chat_keeps(1) [OF registry_safe [OF assms(1)] assms(2)]
  obtain rows where "t_audit_log (core p') = t_audit_log (core p) @ rows" "list_all logged_masked rows"
    by (auto simp: only_proposed_def)
  then show ?thesis by (intro exI [of _ rows]) (auto simp: list_all_iff logged_masked_def)
qed

end
