(* ===== verification/Confirmations.thy ===== *)
theory Confirmations
  imports Assistant
begin

text \<open>
  Deciding about a proposal of the assistant (\<open>app/services/ai/confirmations.py\<close>). A confirmation commits
  in the middle: it checks, claims the proposal with one conditional update, and only then runs the
  tool. The three parts are definitions of their own, so that requests can interleave between them.
\<close>

section \<open>Guards\<close>

definition pending_or_404 :: "platform \<Rightarrow> int \<Rightarrow> current_user \<Rightarrow> ai_pending_action http" where
  "pending_or_404 p k user =
    bindE (or_raise (row_get pending_id (t_pending_actions (core p)) k) (HTTPException 404 ''no such action'')) (\<lambda>row.
    bindE (raise_if (pending_user_id row \<noteq> cu_id user) (HTTPException 404 ''no such action'')) (\<lambda>_. Inr row))"

definition put_pending :: "ai_pending_action \<Rightarrow> platform \<Rightarrow> platform" where
  "put_pending a = in_core (\<lambda>db. db\<lparr>t_pending_actions := row_put pending_id a (t_pending_actions db)\<rparr>)"

text \<open>An expired proposal is marked and committed before the error.\<close>

definition ensure_decidable ::
  "env \<Rightarrow> platform \<Rightarrow> ai_pending_action \<Rightarrow> current_user \<Rightarrow> ai_settings \<Rightarrow> ai_user_access option \<Rightarrow>
    platform \<times> unit http" where
  "ensure_decidable env p row user config access =
    (if pending_status row \<noteq> ''pending'' then (p, Inl (HTTPException 409 ''decided already''))
     else if pending_expires_at row < now env
     then (put_pending (row\<lparr>pending_status := ''expired''\<rparr>) p, Inl (HTTPException 410 ''expired''))
     else if \<not> ais_enabled config \<or> (case access of None \<Rightarrow> True | Some a \<Rightarrow> \<not> aia_enabled a)
     then (p, Inl (HTTPException 403 ''assistant off''))
     else case row_get conversation_id (t_conversations (core p)) (pending_conversation_id row) of
            None \<Rightarrow> (p, Inl (HTTPException 404 ''no such conversation''))
          | Some c \<Rightarrow> if conversation_user_id c \<noteq> cu_id user then (p, Inl (HTTPException 404 ''no such conversation''))
                      else (p, Inr ()))"

section \<open>Confirming\<close>

text \<open>Everything before the claim; the result is the proposal with its tool and the permissions of now.\<close>

definition confirm_checks ::
  "env \<Rightarrow> tool_spec list \<Rightarrow> platform \<Rightarrow> current_user \<Rightarrow> int \<Rightarrow> ai_settings \<Rightarrow> ai_user_access option \<Rightarrow>
    platform \<times> (ai_pending_action \<times> tool_spec \<times> tool_context) http" where
  "confirm_checks env registry p user k config access =
    (case pending_or_404 p k user of
       Inl e \<Rightarrow> (p, Inl e)
     | Inr row \<Rightarrow>
        (case ensure_decidable env p row user config access of
           (p1, Inl e) \<Rightarrow> (p1, Inl e)
         | (p1, Inr _) \<Rightarrow>
            (let caps = capabilities_of (core p1) (cu_id user);
                 allow_writes = (case access of None \<Rightarrow> False | Some a \<Rightarrow> allow_writes_for config a)
             in case get_tool registry (ascii (pending_tool_name row)) of
                  None \<Rightarrow> (put_pending (row\<lparr>pending_status := ''expired''\<rparr>) p1, Inl (HTTPException 400 ''tool is gone''))
                | Some spec \<Rightarrow>
                    if \<not> allow_writes \<or> read_only spec then (p1, Inl (HTTPException 403 ''read-only mode''))
                    else case guard spec user caps of
                      Inl e \<Rightarrow> (p1, Inl e)
                    | Inr _ \<Rightarrow> (p1, Inr (row, spec, \<lparr>ctx_user = user, ctx_caps = caps,
                        ctx_conversation_id = pending_conversation_id row, ctx_allow_writes = allow_writes\<rparr>)))))"

text \<open>\<open>UPDATE \<dots> SET status = 'executing' WHERE id = \<dots> AND status = 'pending'\<close>, committed at once.\<close>

definition claim_for_execution :: "platform \<Rightarrow> int \<Rightarrow> platform \<times> unit http" where
  "claim_for_execution p k =
    (case row_get pending_id (t_pending_actions (core p)) k of
       None \<Rightarrow> (p, Inl (HTTPException 409 ''decided already''))
     | Some a \<Rightarrow>
        if pending_status a \<noteq> ''pending'' then (p, Inl (HTTPException 409 ''decided already''))
        else (put_pending (a\<lparr>pending_status := ''executing''\<rparr>) p, Inr ()))"

definition fail_action :: "env \<Rightarrow> utext \<Rightarrow> int \<Rightarrow> platform \<Rightarrow> platform" where
  "fail_action env t k p =
    (case row_get pending_id (t_pending_actions (core p)) k of
       None \<Rightarrow> p
     | Some a \<Rightarrow> put_pending (a\<lparr>pending_status := ''failed'', pending_result_text := t,
                                pending_decided_at := Some (now env)\<rparr>) p)"

definition run_claimed ::
  "env \<Rightarrow> handlers \<Rightarrow> platform \<Rightarrow> ai_pending_action \<Rightarrow> tool_spec \<Rightarrow> tool_context \<Rightarrow> platform \<times> utext http" where
  "run_claimed env run p row spec ctx =
    (let k = pending_id row
     in case run (spec_name spec) ctx (pending_arguments row) (p, p) of
          Raised back (Http_failure e) \<Rightarrow>
            (in_core (log_event (cu_id (ctx_user ctx)) ''ai_action_failed'' None None
               (Some [(''pending_action_id'', JInt k), (''tool'', jstr (pending_tool_name row)),
                      (''error'', JString (take 200 (ascii (detail e)))), (''via'', jstr ''ai_copilot'')]))
               (fail_action env (ascii (detail e)) k back), Inl e)
        | Raised back (Other_failure t) \<Rightarrow>
            (fail_action env (take 200 t) k back, Inl (HTTPException 500 ''not carried out''))
        | Finished p1 summary \<Rightarrow>
            (case row_get pending_id (t_pending_actions (core p1)) k of
               None \<Rightarrow> (p, Inl (HTTPException 500 ''stale row''))
             | Some a \<Rightarrow>
                (in_core (log_event (cu_id (ctx_user ctx)) ''ai_action_confirmed'' None None
                   (Some [(''pending_action_id'', JInt k), (''tool'', jstr (pending_tool_name row)),
                          (''arguments'', JObject (sanitize_arguments (pending_arguments row))),
                          (''conversation_id'', JInt (pending_conversation_id row)), (''via'', jstr ''ai_copilot'')]))
                  (add_message env (pending_conversation_id row) ''assistant'' (ascii ''done: '' @ summary)
                    (put_pending (a\<lparr>pending_status := ''confirmed'',
                       pending_result_text := (if summary = [] then ascii ''done'' else summary),
                       pending_decided_at := Some (now env)\<rparr>) p1)), Inr summary)))"

definition confirm ::
  "env \<Rightarrow> handlers \<Rightarrow> tool_spec list \<Rightarrow> platform \<Rightarrow> current_user \<Rightarrow> int \<Rightarrow> ai_settings \<Rightarrow> ai_user_access option \<Rightarrow>
    platform \<times> utext http" where
  "confirm env run registry p user k config access =
    (case confirm_checks env registry p user k config access of
       (p1, Inl e) \<Rightarrow> (p1, Inl e)
     | (p1, Inr (row, spec, ctx)) \<Rightarrow>
        (case claim_for_execution p1 k of
           (p2, Inl e) \<Rightarrow> (p2, Inl e)
         | (p2, Inr _) \<Rightarrow> run_claimed env run p2 row spec ctx))"

section \<open>Rejecting and clearing away\<close>

definition reject :: "env \<Rightarrow> platform \<Rightarrow> current_user \<Rightarrow> int \<Rightarrow> platform http" where
  "reject env p user k =
    bindE (pending_or_404 p k user) (\<lambda>row.
    bindE (raise_if (pending_status row \<noteq> ''pending'') (HTTPException 409 ''decided already'')) (\<lambda>_.
    Inr (in_core (log_event (cu_id user) ''ai_action_rejected'' None None
           (Some [(''pending_action_id'', JInt k), (''tool'', jstr (pending_tool_name row)), (''via'', jstr ''ai_copilot'')]))
         (add_message env (pending_conversation_id row) ''assistant'' (ascii ''rejected'')
           (put_pending (row\<lparr>pending_status := ''rejected'', pending_decided_at := Some (now env)\<rparr>) p)))))"

definition PENDING_RETENTION_DAYS :: int where "PENDING_RETENTION_DAYS = 30"

definition is_purgeable_action :: "env \<Rightarrow> ai_pending_action \<Rightarrow> bool" where
  "is_purgeable_action env a \<longleftrightarrow>
    (let cutoff = now env - days PENDING_RETENTION_DAYS
     in pending_status a \<noteq> ''pending'' \<and> pending_created_at a < cutoff \<or>
        pending_status a = ''pending'' \<and> pending_expires_at a < cutoff)"

definition purge_decided_actions :: "env \<Rightarrow> database \<Rightarrow> database \<times> nat" where
  "purge_decided_actions env db =
    (db\<lparr>t_pending_actions := filter (\<lambda>a. \<not> is_purgeable_action env a) (t_pending_actions db)\<rparr>,
     length (filter (is_purgeable_action env) (t_pending_actions db)))"

section \<open>Concurrent decisions\<close>

text \<open>
  Requests interleave: \<open>checked\<close> are confirmations that passed their checks and may try to claim, any
  number of requests each, \<open>claimed\<close> those that run the tool next, \<open>carried_out\<close> the proposals whose tool was started, in order.
  Identifiers of proposals come from a sequence and are never used twice.
\<close>

type_synonym confirmation = "ai_pending_action \<times> tool_spec \<times> tool_context"

record desk =
  tables :: platform
  checked :: "confirmation set"
  claimed :: "confirmation set"
  carried_out :: "int list"
  used_ids :: "int set"

definition proposals :: "platform \<Rightarrow> ai_pending_action set" where
  "proposals p = set (t_pending_actions (core p))"

text \<open>A tool may take proposals away, with an account for instance, but it neither makes nor changes one.\<close>

definition leaves_proposals :: "handlers \<Rightarrow> bool" where
  "leaves_proposals run \<longleftrightarrow> (\<forall>name ctx arguments p. \<exists>P.
    t_pending_actions (core (case run name ctx arguments (p, p) of Finished p' _ \<Rightarrow> p' | Raised p' _ \<Rightarrow> p')) =
      filter P (t_pending_actions (core p)))"

inductive desk_step :: "handlers \<Rightarrow> desk \<Rightarrow> desk \<Rightarrow> bool" for run where
  check: "confirm_checks env registry (tables d) user k config access = (p, Inr c) \<Longrightarrow>
    desk_step run d (d\<lparr>tables := p, checked := insert c (checked d)\<rparr>)"
| check_fails: "confirm_checks env registry (tables d) user k config access = (p, Inl e) \<Longrightarrow>
    desk_step run d (d\<lparr>tables := p\<rparr>)"
| claim: "c \<in> checked d \<Longrightarrow> claim_for_execution (tables d) (pending_id (fst c)) = (p, Inr ()) \<Longrightarrow>
    desk_step run d (d\<lparr>tables := p, claimed := insert c (claimed d)\<rparr>)"
| claim_fails: "c \<in> checked d \<Longrightarrow> claim_for_execution (tables d) (pending_id (fst c)) = (p, Inl e) \<Longrightarrow>
    desk_step run d (d\<lparr>tables := p\<rparr>)"
| carry_out: "(row, spec, ctx) \<in> claimed d \<Longrightarrow> run_claimed env run (tables d) row spec ctx = (p, res) \<Longrightarrow>
    desk_step run d (d\<lparr>tables := p, claimed := claimed d - {(row, spec, ctx)},
      carried_out := carried_out d @ [pending_id row]\<rparr>)"
| rejected: "reject env (tables d) user k = Inr p \<Longrightarrow> desk_step run d (d\<lparr>tables := p\<rparr>)"
| elsewhere: "\<forall>a \<in> proposals p. a \<in> proposals (tables d) \<or> pending_id a \<notin> used_ids d \<Longrightarrow>
    distinct (map pending_id (t_pending_actions (core p))) \<Longrightarrow>
    desk_step run d (d\<lparr>tables := p, used_ids := used_ids d \<union> pending_id ` proposals p\<rparr>)"

text \<open>
  A proposal that waits was neither claimed nor carried out, one that was claimed not carried out, and no
  two confirmations have claimed the same.
\<close>

definition desk_wf :: "desk \<Rightarrow> bool" where
  "desk_wf d \<longleftrightarrow>
    distinct (map pending_id (t_pending_actions (core (tables d)))) \<and>
    pending_id ` proposals (tables d) \<subseteq> used_ids d \<and> set (carried_out d) \<subseteq> used_ids d \<and>
    (\<lambda>c. pending_id (fst c)) ` (checked d \<union> claimed d) \<subseteq> used_ids d \<and>
    (\<forall>a \<in> proposals (tables d). pending_status a = ''pending'' \<longrightarrow>
      pending_id a \<notin> set (carried_out d) \<and> pending_id a \<notin> (\<lambda>c. pending_id (fst c)) ` claimed d) \<and>
    (\<forall>c \<in> claimed d. pending_id (fst c) \<notin> set (carried_out d)) \<and>
    inj_on (\<lambda>c. pending_id (fst c)) (claimed d) \<and> distinct (carried_out d)"

lemma put_pending_rows [simp]:
  "t_pending_actions (core (put_pending a p)) = row_put pending_id a (t_pending_actions (core p))"
  by (simp add: put_pending_def in_core_def)

lemma in_core_log_rows [simp]:
  "t_pending_actions (core (in_core (log_event actor event k old new) p)) = t_pending_actions (core p)"
  by (simp add: in_core_def log_event_logged_row)

text \<open>
  What every part of a decision does to the proposals: the identifiers stay or go, and a row that waits
  was there before.
\<close>

definition only_decides :: "platform \<Rightarrow> platform \<Rightarrow> bool" where
  "only_decides p p' \<longleftrightarrow>
    (distinct (map pending_id (t_pending_actions (core p))) \<longrightarrow> distinct (map pending_id (t_pending_actions (core p')))) \<and>
    (\<forall>a \<in> proposals p'. pending_id a \<in> pending_id ` proposals p \<and> (pending_status a = ''pending'' \<longrightarrow> a \<in> proposals p))"

lemma only_decides_refl [simp]: "only_decides p p"
  by (auto simp: only_decides_def)

lemma only_decides_put:
  assumes "row_get pending_id (t_pending_actions (core p)) k = Some b" and "pending_id a = k" and "pending_status a \<noteq> ''pending''"
  shows "only_decides p (put_pending a p)"
proof -
  have "pending_id a \<in> pending_id ` proposals p"
    using row_get_SomeD [OF assms(1)] assms(2) by (metis imageI proposals_def)
  then show ?thesis using assms(3)
    by (auto simp: only_decides_def proposals_def dest!: set_row_put_subset)
qed

lemma only_decides_trans: "only_decides a b \<Longrightarrow> only_decides b c \<Longrightarrow> only_decides a c"
  by (fastforce simp: only_decides_def)

lemma only_decides_filter:
  "t_pending_actions (core p') = filter P (t_pending_actions (core p)) \<Longrightarrow> only_decides p p'"
  by (auto simp: only_decides_def proposals_def distinct_map_filter)

lemma only_decides_cong:
  "t_pending_actions (core p') = t_pending_actions (core q) \<Longrightarrow> only_decides p p' = only_decides p q"
  by (simp add: only_decides_def proposals_def)

lemma pending_or_404_row:
  "pending_or_404 p k user = Inr row \<Longrightarrow> row_get pending_id (t_pending_actions (core p)) k = Some row"
  by (auto simp: pending_or_404_def)

lemma confirm_checks_decides:
  assumes "confirm_checks env registry p user k config access = (p', res)"
  shows "only_decides p p'"
    and "res = Inr (row, spec, ctx) \<Longrightarrow> row_get pending_id (t_pending_actions (core p)) k = Some row \<and> pending_id row = k"
proof -
  have put: "only_decides p (put_pending (r\<lparr>pending_status := ''expired''\<rparr>) p)"
    if "pending_or_404 p k user = Inr r" for r
    using only_decides_put [OF pending_or_404_row [OF that]] row_get_SomeD(2) [OF pending_or_404_row [OF that]] by simp
  show "only_decides p p'"
    using assms put
    by (auto simp: confirm_checks_def ensure_decidable_def Let_def split: sum.splits option.splits if_splits prod.splits)
  show "res = Inr (row, spec, ctx) \<Longrightarrow> row_get pending_id (t_pending_actions (core p)) k = Some row \<and> pending_id row = k"
    using assms pending_or_404_row [of p k user row] row_get_SomeD
    by (fastforce simp: confirm_checks_def Let_def split: sum.splits option.splits if_splits prod.splits)
qed

lemma fail_action_decides: "only_decides p (fail_action env t k p)"
  by (auto simp: fail_action_def dest: row_get_SomeD intro!: only_decides_put split: option.split)

lemma run_claimed_decides:
  assumes "leaves_proposals run" and "run_claimed env run p row spec ctx = (p', res)"
  shows "only_decides p p'"
proof -
  obtain P where P: "t_pending_actions (core (case run (spec_name spec) ctx (pending_arguments row) (p, p) of
      Finished p' _ \<Rightarrow> p' | Raised p' _ \<Rightarrow> p')) = filter P (t_pending_actions (core p))"
    using assms(1) unfolding leaves_proposals_def by blast
  show ?thesis
  proof (cases "run (spec_name spec) ctx (pending_arguments row) (p, p)")
    case (Finished p1 summary)
    then have first: "only_decides p p1" using only_decides_filter P by simp
    show ?thesis
    proof (cases "row_get pending_id (t_pending_actions (core p1)) (pending_id row)")
      case None
      then show ?thesis using assms(2) Finished by (simp add: run_claimed_def Let_def)
    next
      case (Some a)
      define b where "b = a\<lparr>pending_status := ''confirmed'',
        pending_result_text := (if summary = [] then ascii ''done'' else summary), pending_decided_at := Some (now env)\<rparr>"
      have "only_decides p1 (put_pending b p1)"
        using only_decides_put [OF Some, of b] row_get_SomeD(2) [OF Some] by (simp add: b_def)
      then have "only_decides p (put_pending b p1)" using first only_decides_trans by blast
      moreover have "t_pending_actions (core p') = t_pending_actions (core (put_pending b p1))"
        using assms(2) Finished Some by (auto simp: run_claimed_def Let_def b_def)
      ultimately show ?thesis using only_decides_cong by blast
    qed
  next
    case (Raised kept failure)
    then have "only_decides p (fail_action env t k kept)" for t k
      using only_decides_trans [OF only_decides_filter fail_action_decides] P by simp
    moreover have "\<exists>t k. t_pending_actions (core p') = t_pending_actions (core (fail_action env t k kept))"
      using assms(2) Raised by (cases failure) (force simp: run_claimed_def Let_def)+
    ultimately show ?thesis using only_decides_cong by blast
  qed
qed

lemma reject_decides: "reject env p user k = Inr p' \<Longrightarrow> only_decides p p'"
proof -
  assume r: "reject env p user k = Inr p'"
  then obtain row where row: "pending_or_404 p k user = Inr row" by (auto simp: reject_def)
  have "only_decides p (put_pending (row\<lparr>pending_status := ''rejected'', pending_decided_at := Some (now env)\<rparr>) p)"
    using only_decides_put [OF pending_or_404_row [OF row]] row_get_SomeD(2) [OF pending_or_404_row [OF row]] by simp
  then show "only_decides p p'"
    using r row by (auto simp: reject_def only_decides_def proposals_def)
qed

lemma claim_decides:
  assumes "claim_for_execution p k = (p', res)"
  shows "only_decides p p'"
    and "res = Inr u \<Longrightarrow> \<exists>a \<in> proposals p. pending_id a = k \<and> pending_status a = ''pending''"
    and "res = Inr u \<Longrightarrow> a \<in> proposals p' \<Longrightarrow> pending_id a = k \<Longrightarrow> pending_status a \<noteq> ''pending''"
proof -
  show "only_decides p p'"
    using assms by (auto simp: claim_for_execution_def dest: row_get_SomeD intro!: only_decides_put split: option.splits if_splits)
  assume "res = Inr u"
  then obtain b where b: "row_get pending_id (t_pending_actions (core p)) k = Some b" "pending_status b = ''pending''"
    "p' = put_pending (b\<lparr>pending_status := ''executing''\<rparr>) p"
    using assms by (auto simp: claim_for_execution_def split: option.splits if_splits)
  note b_in = row_get_SomeD [OF b(1)]
  show "\<exists>a \<in> proposals p. pending_id a = k \<and> pending_status a = ''pending''"
    using b b_in by (auto simp: proposals_def)
  show "a \<in> proposals p' \<Longrightarrow> pending_id a = k \<Longrightarrow> pending_status a \<noteq> ''pending''"
    using b_in by (auto simp: b(3) proposals_def row_put_def)
qed

text \<open>
  The steps that are decisions of the code share one argument: they only decide, and the claimed and the
  carried out change together with the row.
\<close>

lemma decided_tables_wf:
  assumes "desk_wf d" and "only_decides (tables d) p"
  shows "desk_wf (d\<lparr>tables := p\<rparr>)"
proof -
  have "pending_id ` proposals p \<subseteq> used_ids d" using assms by (fastforce simp: desk_wf_def only_decides_def)
  with assms show ?thesis by (auto simp: desk_wf_def only_decides_def)
qed

lemma desk_step_wf:
  assumes "leaves_proposals run" and "desk_step run d d'" and wf: "desk_wf d"
  shows "desk_wf d'"
  using assms(2)
proof cases
  case (check env registry user k config access p c)
  obtain row spec ctx where c: "c = (row, spec, ctx)" by (cases c)
  note checks = confirm_checks_decides [OF check(2)]
  have "row \<in> proposals (tables d)" using checks(2) [OF arg_cong [OF c, of Inr]] by (auto simp: proposals_def dest: row_get_SomeD)
  then have "pending_id row \<in> used_ids d" using wf by (auto simp: desk_wf_def)
  with decided_tables_wf [OF wf checks(1)] show ?thesis by (simp add: check(1) c desk_wf_def)
next
  case (check_fails env registry user k config access p e)
  then show ?thesis using decided_tables_wf [OF wf confirm_checks_decides(1)] by blast
next
  case (claim c p)
  let ?k = "pending_id (fst c)"
  note claims = claim_decides [OF claim(3)]
  obtain a where a: "a \<in> proposals (tables d)" "pending_id a = ?k" "pending_status a = ''pending''"
    using claims(2) by blast
  have "pending_id a \<notin> set (carried_out d) \<and> pending_id a \<notin> (\<lambda>c. pending_id (fst c)) ` claimed d"
    using wf a(1,3) unfolding desk_wf_def by blast
  then have new: "?k \<notin> set (carried_out d)" "?k \<notin> (\<lambda>c. pending_id (fst c)) ` claimed d" unfolding a(2) by blast+
  then have "inj_on (\<lambda>c. pending_id (fst c)) (insert c (claimed d))" using wf by (auto simp: desk_wf_def)
  with decided_tables_wf [OF wf claims(1)] new claims(3) claim(2) show ?thesis
    by (auto simp: claim(1) desk_wf_def)
next
  case (claim_fails c p e)
  then show ?thesis using decided_tables_wf [OF wf claim_decides(1)] by blast
next
  case (carry_out row spec ctx env p res)
  have "inj_on (\<lambda>c. pending_id (fst c)) (claimed d)" using wf by (simp add: desk_wf_def)
  then have others: "pending_id (fst c) \<noteq> pending_id row" if "c \<in> claimed d - {(row, spec, ctx)}" for c
    using that carry_out(2) by (auto simp: inj_on_def)
  have "pending_id row \<notin> set (carried_out d)" "pending_id row \<in> used_ids d" using wf carry_out(2) by (force simp: desk_wf_def)+
  moreover have "pending_status a \<noteq> ''pending''" if "a \<in> proposals p" "pending_id a = pending_id row" for a
    using decided_tables_wf [OF wf run_claimed_decides [OF assms(1) carry_out(3)]] carry_out(2) that
    by (force simp: desk_wf_def)
  ultimately show ?thesis
    using decided_tables_wf [OF wf run_claimed_decides [OF assms(1) carry_out(3)]] others
    by (auto simp: carry_out(1) desk_wf_def inj_on_diff)
next
  case (rejected env user k p)
  then show ?thesis using decided_tables_wf [OF wf reject_decides] by blast
next
  case (elsewhere p)
  have "pending_id a \<notin> set (carried_out d) \<and> pending_id a \<notin> (\<lambda>c. pending_id (fst c)) ` claimed d"
    if a: "a \<in> proposals p" "pending_status a = ''pending''" for a
  proof (cases "a \<in> proposals (tables d)")
    case True
    then show ?thesis using wf a(2) unfolding desk_wf_def by blast
  next
    case False
    then have "pending_id a \<notin> used_ids d" using elsewhere(2) a(1) by blast
    then show ?thesis using wf unfolding desk_wf_def image_Un by blast
  qed
  moreover have "desk_wf d" by (rule wf)
  ultimately show ?thesis using elsewhere(3) unfolding desk_wf_def elsewhere(1) by auto
qed

text \<open>
  C24. However confirmations, rejections and the rest of the program interleave, and however often they are
  repeated, the tool of a proposal is started at most once, and never while the proposal still waits.
\<close>

theorem proposal_carried_out_at_most_once:
  assumes "leaves_proposals run" and "(desk_step run)\<^sup>*\<^sup>* d d'"
    and "distinct (map pending_id (t_pending_actions (core (tables d))))" and "used_ids d = pending_id ` proposals (tables d)"
    and "checked d = {}" and "claimed d = {}" and "carried_out d = []"
  shows "distinct (carried_out d') \<and>
    (\<forall>a \<in> proposals (tables d'). pending_status a = ''pending'' \<longrightarrow> pending_id a \<notin> set (carried_out d'))"
proof -
  have "desk_wf d" using assms(3-) by (simp add: desk_wf_def)
  with assms(2) have "desk_wf d'" by (induction rule: rtranclp_induct) (auto intro: desk_step_wf [OF assms(1)])
  then show ?thesis by (simp add: desk_wf_def)
qed

lemma run_claimed_confirms:
  assumes "run_claimed env run p row spec ctx = (p', Inr summary)"
  shows "\<exists>(p3 :: platform) x. row_get pending_id (t_pending_actions (core p3)) (pending_id row) = Some x \<and>
    t_pending_actions (core p') = row_put pending_id (x\<lparr>pending_status := ''confirmed'',
      pending_result_text := (if summary = [] then ascii ''done'' else summary), pending_decided_at := Some (now env)\<rparr>)
      (t_pending_actions (core p3))"
proof -
  obtain p3 where r: "run (spec_name spec) ctx (pending_arguments row) (p, p) = Finished p3 summary"
    using assms by (auto simp: run_claimed_def Let_def split: tool_result.splits tool_failure.splits option.splits)
  then obtain x where x: "row_get pending_id (t_pending_actions (core p3)) (pending_id row) = Some x"
    using assms by (auto simp: run_claimed_def Let_def split: option.splits)
  have "t_pending_actions (core p') = row_put pending_id (x\<lparr>pending_status := ''confirmed'',
      pending_result_text := (if summary = [] then ascii ''done'' else summary), pending_decided_at := Some (now env)\<rparr>)
      (t_pending_actions (core p3))"
    using r x assms by (auto simp: run_claimed_def Let_def)
  with x show ?thesis by blast
qed

text \<open>
  A confirmation succeeds only for the own proposal, waiting and not expired, of a tool that writes and
  that the user may use at that moment, not only when it was proposed; afterwards it is confirmed.
\<close>

theorem confirmed_with_permissions_of_now:
  assumes "confirm env run registry p user k config access = (p', Inr summary)"
  shows "\<exists>row spec a. row_get pending_id (t_pending_actions (core p)) k = Some row \<and>
    pending_status row = ''pending'' \<and> pending_user_id row = cu_id user \<and> now env \<le> pending_expires_at row \<and>
    get_tool registry (ascii (pending_tool_name row)) = Some spec \<and> \<not> read_only spec \<and>
    is_allowed spec user (capabilities_of (core p) (cu_id user)) \<and>
    ais_enabled config \<and> access \<noteq> None \<and> allow_writes_for config (the access) \<and>
    row_get pending_id (t_pending_actions (core p')) k = Some a \<and> pending_status a = ''confirmed''"
proof -
  obtain p1 row spec ctx where checks: "confirm_checks env registry p user k config access = (p1, Inr (row, spec, ctx))"
    using assms by (auto simp: confirm_def split: prod.splits sum.splits)
  then have facts: "pending_or_404 p k user = Inr row" "pending_status row = ''pending''" "now env \<le> pending_expires_at row"
      "ais_enabled config" "access \<noteq> None" "allow_writes_for config (the access)" "p1 = p"
      "get_tool registry (ascii (pending_tool_name row)) = Some spec" "\<not> read_only spec"
      "is_allowed spec user (capabilities_of (core p) (cu_id user))"
    by (auto simp: confirm_checks_def ensure_decidable_def guard_def Let_def
        split: sum.splits option.splits if_splits prod.splits)
  obtain p2 where "run_claimed env run p2 row spec ctx = (p', Inr summary)"
    using assms checks by (auto simp: confirm_def split: prod.splits sum.splits)
  then obtain p3 :: platform and x where x: "row_get pending_id (t_pending_actions (core p3)) (pending_id row) = Some x"
    and p': "t_pending_actions (core p') = row_put pending_id (x\<lparr>pending_status := ''confirmed'',
      pending_result_text := (if summary = [] then ascii ''done'' else summary), pending_decided_at := Some (now env)\<rparr>)
      (t_pending_actions (core p3))" using run_claimed_confirms by blast
  have "\<exists>a. row_get pending_id (t_pending_actions (core p')) (pending_id row) = Some a \<and> pending_status a = ''confirmed''"
    using row_get_SomeD(2) [OF x] by (simp add: p' row_get_put x)
  moreover note row = pending_or_404_row [OF facts(1)]
  moreover have "pending_id row = k" "pending_user_id row = cu_id user"
    using row_get_SomeD(2) [OF row] facts(1) by (auto simp: pending_or_404_def)
  ultimately show ?thesis using facts by auto
qed

end
