(* ===== verification/AssistantWitnesses.thy ===== *)
theory AssistantWitnesses
  imports Confirmations SystemWitnesses
begin

text \<open>A chat in the office of the examples, whose model asks for a period to be opened.\<close>

definition assisted_office :: platform where
  "assisted_office = \<lparr>core = office, t_ai_settings = Some (default_ai_settings\<lparr>ais_enabled := True\<rparr>),
     t_ai_access = [\<lparr>aia_user_id = 70, aia_enabled = True, aia_allow_write_actions = True,
       aia_daily_message_limit = 0\<rparr>], t_ai_messages = [], t_documents = []\<rparr>"

definition plain_handlers :: handlers where
  "plain_handlers name ctx arguments tx = Finished (snd tx) [111]"

text \<open>A model that asks for a person to be created and then answers.\<close>

definition eager_model :: provider where
  "eager_model fallback messages offered force_text =
    Reply \<lparr>resp_calls = (if length messages \<le> 2 then [\<lparr>call_name = ascii ''create_period'', call_arguments = Some []\<rparr>] else []),
      resp_truncated = False, resp_text = [111, 107]\<rparr>"

definition period_tool :: tool_spec where
  "period_tool = tool ''create_period'' False True [] [Role_hr] False"

lemma get_period_tool: "get_tool REGISTRY (ascii ''create_period'') = Some period_tool"
  by (simp add: get_tool_def ascii_def strip_def is_space_def text_key_def utf8_def utf8_char_def registry_defs period_tool_def char_of_def bit_0)

lemma period_tool_fields: "risky period_tool" "spec_name period_tool = ''create_period''" "is_allowed period_tool (person 70 Role_hr) caps"
  by (simp_all add: period_tool_def tool_def is_allowed_def)

lemma proposed_once:
  assumes "ctx_allow_writes ctx" and "ctx_user ctx = person 70 Role_hr" and "conversation_exists (ctx_conversation_id ctx) live"
    and "transaction ts = (saved, live)" and "\<not> broken ts"
  shows "run_call env run REGISTRY ctx \<lparr>call_name = ascii ''create_period'', call_arguments = Some []\<rparr> (ts, ms) =
    (let p = fst (propose env ctx period_tool [] live) in
     (ts\<lparr>transaction := (p, p), created_pending := created_pending ts @ [snd (propose env ctx period_tool [] live)],
        turn_steps := turn_steps ts @ [(''create_period'', Awaiting_confirmation)]\<rparr>,
      ms @ [(''tool'', ascii ''awaiting confirmation'')]))"
  using assms
  by (cases "propose env ctx period_tool [] live")
    (simp add: run_call_def get_period_tool execute_call_def period_tool_fields guard_def commit_turn_def Let_def)

lemma eager_answers:
  "0 < n \<Longrightarrow> \<not> broken ts \<Longrightarrow> 2 < length ms \<Longrightarrow>
    turn_loop n env run registry ctx eager_model offers fb (ts, ms) = (ts, Some [111, 107])"
  by (cases n) (simp_all add: ask_provider_def eager_model_def strip_def is_space_def)

lemma eager_turn:
  assumes "conversation_exists k live" and "config = default_ai_settings\<lparr>ais_enabled := True\<rparr>"
  shows "\<exists>ts reply. run_turn env run REGISTRY config (person 70 Role_hr) k eager_model True [a, b] (saved, live) = (ts, Some reply) \<and>
    \<not> broken ts \<and> turn_steps ts = [(''create_period'', Awaiting_confirmation)] \<and>
    (\<exists>ctx. transaction ts = (fst (propose env ctx period_tool [] live), fst (propose env ctx period_tool [] live)))"
proof -
  let ?ctx = "\<lparr>ctx_user = person 70 Role_hr, ctx_caps = capabilities_of (core live) 70, ctx_conversation_id = k,
    ctx_allow_writes = True\<rparr>"
  let ?ts = "\<lparr>transaction = (saved, live), turn_steps = [], created_pending = [], broken = False\<rparr>"
  define offers where "offers = (allowed_tools REGISTRY (person 70 Role_hr) (capabilities_of (core live) 70) True \<noteq> [])"
  have loop: "run_turn env run REGISTRY config (person 70 Role_hr) k eager_model True [a, b] (saved, live) =
      turn_loop (Suc (Suc 4)) env run REGISTRY ?ctx eager_model offers False (?ts, [a, b])"
    using assms(2) by (simp add: run_turn_def default_ai_settings_def offers_def Let_def)
  show ?thesis unfolding loop turn_loop.simps
    using assms(1) by (auto simp: ask_provider_def eager_model_def proposed_once eager_answers Let_def)
qed

lemma eager_chat: "\<exists>p' reply. chat plain_env plain_handlers REGISTRY eager_model [] True assisted_office (person 70 Role_hr) [104] None =
    (p', Inr (1, reply, [(''create_period'', Awaiting_confirmation)])) \<and> length (t_pending_actions (core p')) = 1"
proof -
  let ?convo = "\<lparr>conversation_id = 1, conversation_user_id = 70, conversation_title = [104]\<rparr>"
  define p1 where "p1 = in_core (\<lambda>db. db\<lparr>t_conversations := t_conversations db @ [?convo]\<rparr>) assisted_office"
  define p2 where "p2 = add_message plain_env 1 ''user'' [104] p1"
  have question: "strip [104] = [104]" by (simp add: strip_def is_space_def)
  have checks: "chat_checks plain_env True assisted_office (person 70 Role_hr) [104] None =
      Inr (default_ai_settings\<lparr>ais_enabled := True\<rparr>, \<lparr>aia_user_id = 70, aia_enabled = True, aia_allow_write_actions = True,
       aia_daily_message_limit = 0\<rparr>, None)"
    by (simp add: chat_checks_def resolve_def settings_row_def access_row_def assisted_office_def default_ai_settings_def
        resolve_daily_limit_def plain_env_def default_settings_def used_today_def Let_def)
  have opened: "open_conversation None (person 70 Role_hr) [104] assisted_office = (1, p1)"
    by (simp add: open_conversation_def p1_def assisted_office_def office_def empty_database_def next_id_def Let_def)
  have asked: "next_id msg_id (t_ai_messages p1) = 1"
    by (simp add: p1_def in_core_def assisted_office_def next_id_def)
  have p2: "t_ai_messages p2 = [\<lparr>msg_id = 1, msg_conversation_id = 1, msg_role = ''user'', msg_content = [104], msg_created_at = 1000\<rparr>]"
      "conversation_exists 1 p2" "t_pending_actions (core p2) = []"
    by (simp_all add: p2_def add_message_def p1_def in_core_def assisted_office_def next_id_def conversation_exists_def
        plain_env_def office_def empty_database_def)
  have history: "history_messages p2 1 1 = []" by (simp add: history_messages_def p2(1))
  have "allow_writes_for (default_ai_settings\<lparr>ais_enabled := True\<rparr>) \<lparr>aia_user_id = 70, aia_enabled = True,
      aia_allow_write_actions = True, aia_daily_message_limit = 0\<rparr>"
    by (simp add: allow_writes_for_def default_ai_settings_def)
  moreover from eager_turn [OF p2(2) refl, of plain_env plain_handlers "(''system'', [])" "(''user'', [104])" assisted_office]
  obtain ts reply ctx where turn: "run_turn plain_env plain_handlers REGISTRY (default_ai_settings\<lparr>ais_enabled := True\<rparr>) (person 70 Role_hr) 1
        eager_model True [(''system'', []), (''user'', [104])] (assisted_office, p2) = (ts, Some reply)" "\<not> broken ts"
      "turn_steps ts = [(''create_period'', Awaiting_confirmation)]"
      "transaction ts = (fst (propose plain_env ctx period_tool [] p2), fst (propose plain_env ctx period_tool [] p2))"
    by blast
  moreover have "conversation_exists 1 (fst (propose plain_env ctx period_tool [] p2))"
      "length (t_pending_actions (core (fst (propose plain_env ctx period_tool [] p2)))) = 1"
    using p2 by (simp_all add: propose_def in_core_def conversation_exists_def Let_def)
  ultimately show ?thesis
    using checks opened asked history question by (simp add: chat_def finish_chat_def p2_def [symmetric] Let_def)
qed

lemma plain_handlers_read: "reads_only REGISTRY plain_handlers"
  by (simp add: reads_only_def plain_handlers_def)

theorem chat_only_proposes_witness:
  "\<exists>p' answer. chat plain_env plain_handlers REGISTRY eager_model [] True assisted_office (person 70 Role_hr) [104] None =
      (p', answer) \<and> length (t_pending_actions (core p')) = 1 \<and>
    list_all (\<lambda>a. pending_status a = ''pending'' \<and> pending_user_id a = 70) (t_pending_actions (core p')) \<and>
    business (core p') = business office"
proof -
  obtain p' reply where c: "chat plain_env plain_handlers REGISTRY eager_model [] True assisted_office (person 70 Role_hr) [104]
      None = (p', Inr (1, reply, [(''create_period'', Awaiting_confirmation)]))" "length (t_pending_actions (core p')) = 1"
    using eager_chat by blast
  moreover have "t_pending_actions (core assisted_office) = []" "core assisted_office = office"
    by (simp_all add: assisted_office_def office_def empty_database_def)
  ultimately show ?thesis using chat_only_proposes [OF plain_handlers_read c(1)] by (auto simp: list_all_iff)
qed

theorem chat_logs_no_secret_witness:
  "\<exists>p' answer rows. chat plain_env plain_handlers REGISTRY eager_model [] True assisted_office (person 70 Role_hr) [104] None =
      (p', answer) \<and> t_audit_log (core p') = t_audit_log office @ rows \<and>
    list_all (\<lambda>row. case new_value row of None \<Rightarrow> False | Some d \<Rightarrow> masked (JObject d)) rows"
proof -
  obtain p' answer where c: "chat plain_env plain_handlers REGISTRY eager_model [] True assisted_office (person 70 Role_hr) [104]
      None = (p', answer)" by fastforce
  moreover have "core assisted_office = office" by (simp add: assisted_office_def)
  ultimately show ?thesis using chat_logs_no_secret [OF plain_handlers_read c] by (fastforce simp: list_all_iff)
qed

section \<open>A question that is lost\<close>

text \<open>
  The question and a new conversation are not committed before the first tool runs: when that tool fails,
  its rollback takes them away, and the answer violates the foreign key of its conversation.
\<close>

definition person_tool :: tool_spec where
  "person_tool = tool ''get_personnel'' True False [] [] True"

definition absent_person :: handlers where
  "absent_person name ctx arguments tx = Raised (fst tx) (Http_failure (HTTPException 404 ''no such person''))"

definition curious_model :: provider where
  "curious_model fallback messages offered force_text =
    Reply \<lparr>resp_calls = (if length messages \<le> 2 then [\<lparr>call_name = ascii ''get_personnel'', call_arguments = Some []\<rparr>] else []),
      resp_truncated = False, resp_text = [111, 107]\<rparr>"

lemma get_person_tool: "get_tool REGISTRY (ascii ''get_personnel'') = Some person_tool"
  by (simp add: get_tool_def ascii_def strip_def is_space_def text_key_def utf8_def utf8_char_def registry_defs
      person_tool_def char_of_def bit_0)

lemma failing_call:
  assumes "transaction ts = (saved, live)" and "\<not> broken ts"
  shows "run_call env absent_person REGISTRY ctx \<lparr>call_name = ascii ''get_personnel'', call_arguments = Some []\<rparr> (ts, ms) =
    (let p = log_tool ''ai_tool_failed'' ctx person_tool [] [] saved in
     (ts\<lparr>transaction := (p, p), turn_steps := turn_steps ts @ [(''get_personnel'', Step_error)]\<rparr>,
      ms @ [(''tool'', ascii ''no such person'')]))"
  using assms
  by (simp add: run_call_def get_person_tool execute_call_def execute_tool_def guard_def is_allowed_def absent_person_def
      commit_turn_def person_tool_def tool_def Let_def)

lemma curious_answers:
  "0 < n \<Longrightarrow> \<not> broken ts \<Longrightarrow> 2 < length ms \<Longrightarrow>
    turn_loop n env run registry ctx curious_model offers fb (ts, ms) = (ts, Some [111, 107])"
  by (cases n) (simp_all add: ask_provider_def curious_model_def strip_def is_space_def)

lemma first_failing_tool_loses_the_question:
  assumes "\<not> conversation_exists k saved" and "1 < ais_max_tool_iterations config"
  shows "snd (finish_chat env k asked_id True
    (run_turn env absent_person REGISTRY config user k curious_model w [a, b] (saved, live))) =
    Inl (HTTPException 500 ''foreign key'')"
proof -
  define n where "n = nat (ais_max_tool_iterations config - 2)"
  have n: "nat (max 1 (ais_max_tool_iterations config)) = Suc (Suc n)" using assms(2) unfolding n_def by linarith
  have gone: "\<not> conversation_exists k (log_tool event ctx spec args extra saved)" for event ctx spec args extra
    using assms(1) by (simp add: conversation_exists_def log_tool_core)
  define caps where "caps = capabilities_of (core live) (cu_id user)"
  have loop: "run_turn env absent_person REGISTRY config user k curious_model w [a, b] (saved, live) =
      turn_loop (Suc (Suc n)) env absent_person REGISTRY
        \<lparr>ctx_user = user, ctx_caps = caps, ctx_conversation_id = k, ctx_allow_writes = w\<rparr> curious_model
        (allowed_tools REGISTRY user caps w \<noteq> []) False
        (\<lparr>transaction = (saved, live), turn_steps = [], created_pending = [], broken = False\<rparr>, [a, b])"
    using assms(2) n by (simp add: run_turn_def caps_def Let_def)
  show ?thesis
    unfolding loop turn_loop.simps(2) [of "Suc n"]
    by (simp add: ask_provider_def curious_model_def [of _ "[a, b]"] failing_call curious_answers finish_chat_def gone Let_def
        del: turn_loop.simps(2))
qed

section \<open>Decisions\<close>

definition waiting_action :: ai_pending_action where
  "waiting_action = \<lparr>pending_id = 1, pending_conversation_id = 1, pending_user_id = 70,
     pending_tool_name = ''create_period'', pending_arguments = [], pending_status = ''pending'',
     pending_result_text = [], pending_created_at = 900, pending_decided_at = None, pending_expires_at = 5000\<rparr>"

definition deciding_office :: platform where
  "deciding_office = in_core (\<lambda>db. db\<lparr>t_pending_actions := [waiting_action],
     t_conversations := [\<lparr>conversation_id = 1, conversation_user_id = 70, conversation_title = []\<rparr>]\<rparr>) assisted_office"

definition hr_access :: ai_user_access where
  "hr_access = \<lparr>aia_user_id = 70, aia_enabled = True, aia_allow_write_actions = True, aia_daily_message_limit = 0\<rparr>"

lemma deciding_rows: "t_pending_actions (core deciding_office) = [waiting_action]"
  "row_get conversation_id (t_conversations (core deciding_office)) 1 =
    Some \<lparr>conversation_id = 1, conversation_user_id = 70, conversation_title = []\<rparr>"
  by (simp_all add: deciding_office_def in_core_def)

lemma office_checks:
  "\<exists>ctx. confirm_checks plain_env REGISTRY deciding_office (person 70 Role_hr) 1 (default_ai_settings\<lparr>ais_enabled := True\<rparr>)
    (Some hr_access) = (deciding_office, Inr (waiting_action, period_tool, ctx))"
proof -
  have "pending_or_404 deciding_office 1 (person 70 Role_hr) = Inr waiting_action"
    by (simp add: pending_or_404_def deciding_rows waiting_action_def)
  moreover have "ensure_decidable plain_env deciding_office waiting_action (person 70 Role_hr)
      (default_ai_settings\<lparr>ais_enabled := True\<rparr>) (Some hr_access) = (deciding_office, Inr ())"
    using deciding_rows(2) by (simp add: ensure_decidable_def waiting_action_def plain_env_def hr_access_def)
  moreover have "get_tool REGISTRY (ascii (pending_tool_name waiting_action)) = Some period_tool"
    using get_period_tool by (simp add: waiting_action_def)
  moreover have "allow_writes_for (default_ai_settings\<lparr>ais_enabled := True\<rparr>) hr_access" "\<not> read_only period_tool"
    by (simp_all add: allow_writes_for_def default_ai_settings_def hr_access_def period_tool_def tool_def)
  ultimately show ?thesis by (simp add: confirm_checks_def guard_def period_tool_fields Let_def)
qed

definition claimed_office :: platform where
  "claimed_office = put_pending (waiting_action\<lparr>pending_status := ''executing''\<rparr>) deciding_office"

lemma office_claims:
  "claim_for_execution deciding_office 1 = (claimed_office, Inr ())"
  "claim_for_execution claimed_office 1 = (claimed_office, Inl (HTTPException 409 ''decided already''))"
  by (simp_all add: claim_for_execution_def deciding_rows claimed_office_def row_put_def) (simp_all add: waiting_action_def)

lemma office_carries_out: "\<exists>p. run_claimed plain_env plain_handlers claimed_office waiting_action period_tool ctx = (p, Inr [111])"
proof -
  have "row_get pending_id (t_pending_actions (core claimed_office)) 1 = Some (waiting_action\<lparr>pending_status := ''executing''\<rparr>)"
    by (simp add: claimed_office_def deciding_rows row_put_def) (simp add: waiting_action_def)
  moreover have "pending_id waiting_action = 1" by (simp add: waiting_action_def)
  ultimately show ?thesis by (simp add: run_claimed_def plain_handlers_def Let_def)
qed

theorem confirmed_with_permissions_of_now_witness:
  "\<exists>p' summary a. confirm plain_env plain_handlers REGISTRY deciding_office (person 70 Role_hr) 1
      (default_ai_settings\<lparr>ais_enabled := True\<rparr>) (Some hr_access) = (p', Inr summary) \<and>
    row_get pending_id (t_pending_actions (core p')) 1 = Some a \<and> pending_status a = ''confirmed''"
proof -
  obtain ctx where "confirm_checks plain_env REGISTRY deciding_office (person 70 Role_hr) 1
      (default_ai_settings\<lparr>ais_enabled := True\<rparr>) (Some hr_access) = (deciding_office, Inr (waiting_action, period_tool, ctx))"
    using office_checks by blast
  moreover obtain p where "run_claimed plain_env plain_handlers claimed_office waiting_action period_tool ctx = (p, Inr [111])"
    using office_carries_out by blast
  ultimately have c: "confirm plain_env plain_handlers REGISTRY deciding_office (person 70 Role_hr) 1
      (default_ai_settings\<lparr>ais_enabled := True\<rparr>) (Some hr_access) = (p, Inr [111])"
    by (simp add: confirm_def office_claims)
  from confirmed_with_permissions_of_now [OF c] c show ?thesis by blast
qed

lemma plain_handlers_leave: "leaves_proposals plain_handlers"
  unfolding leaves_proposals_def plain_handlers_def by (intro allI exI [of _ "\<lambda>_. True"]) simp

theorem proposal_carried_out_at_most_once_witness:
  "\<exists>d'. (desk_step plain_handlers)\<^sup>*\<^sup>*
      \<lparr>tables = deciding_office, checked = {}, claimed = {}, carried_out = [], used_ids = {1}\<rparr> d' \<and>
    carried_out d' = [1] \<and> (\<forall>a \<in> proposals (tables d'). pending_status a = ''pending'' \<longrightarrow> pending_id a \<notin> {1})"
proof -
  let ?d0 = "\<lparr>tables = deciding_office, checked = {}, claimed = {}, carried_out = [], used_ids = {1}\<rparr>"
  obtain ctx where checks: "confirm_checks plain_env REGISTRY deciding_office (person 70 Role_hr) 1
      (default_ai_settings\<lparr>ais_enabled := True\<rparr>) (Some hr_access) = (deciding_office, Inr (waiting_action, period_tool, ctx))"
    using office_checks by blast
  let ?c = "(waiting_action, period_tool, ctx)"
  have k: "pending_id waiting_action = 1" by (simp add: waiting_action_def)
  obtain p where p: "run_claimed plain_env plain_handlers claimed_office waiting_action period_tool ctx = (p, Inr [111])"
    using office_carries_out by blast
  have "desk_step plain_handlers ?d0 (?d0\<lparr>tables := deciding_office, checked := insert ?c {}\<rparr>)"
    using desk_step.check [of plain_env REGISTRY ?d0 "person 70 Role_hr" 1 _ _ deciding_office ?c plain_handlers] checks by simp
  moreover have "desk_step plain_handlers (?d0\<lparr>tables := deciding_office, checked := insert ?c {}\<rparr>)
      (?d0\<lparr>tables := claimed_office, checked := {?c}, claimed := {?c}\<rparr>)"
    using desk_step.claim [of ?c "?d0\<lparr>checked := {?c}\<rparr>" claimed_office plain_handlers] office_claims(1) k by simp
  moreover have "desk_step plain_handlers (?d0\<lparr>tables := claimed_office, checked := {?c}, claimed := {?c}\<rparr>)
      (?d0\<lparr>tables := claimed_office, checked := {?c}, claimed := {?c}\<rparr>)"
    using desk_step.claim_fails [of ?c "?d0\<lparr>tables := claimed_office, checked := {?c}, claimed := {?c}\<rparr>" claimed_office _ plain_handlers]
      office_claims(2) k by simp
  moreover have "desk_step plain_handlers (?d0\<lparr>tables := claimed_office, checked := {?c}, claimed := {?c}\<rparr>)
      (?d0\<lparr>tables := p, checked := {?c}, claimed := {}, carried_out := [1]\<rparr>)"
    using desk_step.carry_out [of waiting_action period_tool ctx "?d0\<lparr>tables := claimed_office, checked := {?c}, claimed := {?c}\<rparr>"
      plain_env plain_handlers p] p k by simp
  ultimately have steps: "(desk_step plain_handlers)\<^sup>*\<^sup>* ?d0 (?d0\<lparr>tables := p, checked := {?c}, claimed := {}, carried_out := [1]\<rparr>)"
    by (meson converse_rtranclp_into_rtranclp rtranclp.rtrancl_refl)
  from proposal_carried_out_at_most_once [OF plain_handlers_leave this]
  have "\<forall>a \<in> proposals p. pending_status a = ''pending'' \<longrightarrow> pending_id a \<notin> {1}"
    by (simp add: deciding_rows proposals_def k)
  with steps show ?thesis by (intro exI conjI) (assumption, simp_all)
qed

end
