(* ===== verification/Sweeps.thy ===== *)
theory Sweeps
  imports Confirmations Delivery Handlers
begin

text \<open>
  The scheduled sweeps (\<open>app/services/scheduled.py\<close>), the archive of final documents they fill
  (\<open>app/services/documents.py\<close>) and the run that records them (\<open>app/services/scheduler_lock.py\<close>).
  A reminder is what one sweep hands to \<open>notify_once\<close>: who is told about what, under which key.
\<close>

section \<open>Reminders\<close>

record reminder =
  rem_type :: string
  rem_key :: string
  rem_record_id :: "int option"
  rem_link :: string
  rem_users :: "int list"

definition remind_user ::
  "env \<Rightarrow> int \<Rightarrow> reminder \<Rightarrow> int \<Rightarrow> database \<times> (int \<times> string) list option \<times> nat \<Rightarrow>
    database \<times> (int \<times> string) list option \<times> nat" where
  "remind_user env day_count m u acc =
    (let (db, seen, created) = acc;
         (db1, seen1, told) = notify_once env u (rem_type m) (rem_key m) day_count (rem_record_id m)
           (Some (rem_link m)) seen db
     in (db1, seen1, if told then created + 1 else created))"

text \<open>\<open>keys\<close> are those whose notifications are looked up before the loop.\<close>

definition remind :: "env \<Rightarrow> int \<Rightarrow> string list \<Rightarrow> reminder list \<Rightarrow> database \<Rightarrow> database \<times> nat" where
  "remind env day_count keys ms db =
    (let (db1, _, created) = fold (\<lambda>m. fold (remind_user env day_count m) (rem_users m)) ms
           (db, Some (already_notified env db keys day_count), 0)
     in (db1, created))"

section \<open>Contracts\<close>

definition contract_expiry_reminder :: "int list \<Rightarrow> personnel \<Rightarrow> reminder" where
  "contract_expiry_reminder hr_ids p =
    \<lparr>rem_type = ''contract_expiry'', rem_key = ''contract_expiry:'' @ str_int (personnel_id p),
     rem_record_id = None, rem_link = ''/hr/dashboard'', rem_users = hr_ids\<rparr>"

definition is_expiring :: "env \<Rightarrow> database \<Rightarrow> personnel \<Rightarrow> bool" where
  "is_expiring env db p \<longleftrightarrow>
    p_status p = Personnel_active \<and>
    contract_end_date p \<le> today env + contract_expiry_alert_days (cfg env) \<and>
    \<not> list_ex (\<lambda>r. subject_personnel_id r = personnel_id p \<and> is_open r) (t_evaluations db)"

definition contract_expiry_reminders :: "env \<Rightarrow> database \<Rightarrow> reminder list" where
  "contract_expiry_reminders env db =
    map (contract_expiry_reminder (active_hr_ids db))
      (sort_key contract_end_date (filter (is_expiring env db) (t_personnel db)))"

definition run_contract_expiry_sweep :: "env \<Rightarrow> database \<Rightarrow> database \<times> nat" where
  "run_contract_expiry_sweep env db =
    (let ms = contract_expiry_reminders env db
     in remind env (notification_dedup_days (cfg env)) (map rem_key ms) ms db)"

section \<open>Stalled records\<close>

definition current_owner_ids :: "evaluation_record \<Rightarrow> int list \<Rightarrow> int list" where
  "current_owner_ids r hr_ids =
    (case status r of
       Draft \<Rightarrow> option_list (snd (scorer_seat r))
     | Submitted \<Rightarrow> hr_ids
     | Hr_approved \<Rightarrow> [owner_after_hr_review r]
     | Deputy_approved \<Rightarrow> [ceo_user_id r]
     | _ \<Rightarrow> [])"

definition stalled_records :: "env \<Rightarrow> database \<Rightarrow> evaluation_record list" where
  "stalled_records env db =
    filter (\<lambda>r. is_open r \<and> stage_entered_at r \<le> now env - days (sla_reminder_days (cfg env)))
      (t_evaluations db)"

definition sla_reminder :: "int list \<Rightarrow> evaluation_record \<Rightarrow> reminder" where
  "sla_reminder hr_ids r =
    \<lparr>rem_type = ''sla_reminder'',
     rem_key = ''sla:'' @ str_int (record_id r) @ '':'' @ status_value (status r),
     rem_record_id = Some (record_id r), rem_link = evaluation_link r,
     rem_users = current_owner_ids r hr_ids\<rparr>"

definition sla_reminders :: "env \<Rightarrow> database \<Rightarrow> reminder list" where
  "sla_reminders env db = map (sla_reminder (active_hr_ids db)) (stalled_records env db)"

definition run_sla_sweep :: "env \<Rightarrow> database \<Rightarrow> database \<times> nat" where
  "run_sla_sweep env db =
    (let ms = sla_reminders env db
     in remind env (sla_reminder_days (cfg env)) (map rem_key ms) ms db)"

section \<open>Records without an active owner\<close>

definition orphaned_key :: "evaluation_record \<Rightarrow> string" where
  "orphaned_key r = ''orphaned:'' @ str_int (record_id r) @ '':'' @ status_value (status r)"

definition owned_records :: "database \<Rightarrow> evaluation_record list" where
  "owned_records db = filter (\<lambda>r. is_open r \<and> status r \<noteq> Submitted) (t_evaluations db)"

definition is_orphaned :: "database \<Rightarrow> evaluation_record \<Rightarrow> bool" where
  "is_orphaned db r \<longleftrightarrow>
    (let owner_ids = current_owner_ids r (active_hr_ids db)
     in owner_ids \<noteq> [] \<and>
        \<not> list_ex (\<lambda>k. list_ex (\<lambda>u. user_id u = k \<and> user_is_active u) (t_users db)) owner_ids)"

definition orphaned_reminder :: "int list \<Rightarrow> evaluation_record \<Rightarrow> reminder" where
  "orphaned_reminder hr_ids r =
    \<lparr>rem_type = ''orphaned_case'', rem_key = orphaned_key r, rem_record_id = Some (record_id r),
     rem_link = evaluation_link r, rem_users = hr_ids\<rparr>"

definition orphaned_reminders :: "database \<Rightarrow> reminder list" where
  "orphaned_reminders db =
    map (orphaned_reminder (active_hr_ids db)) (filter (is_orphaned db) (owned_records db))"

definition run_orphaned_case_sweep :: "env \<Rightarrow> database \<Rightarrow> database \<times> nat" where
  "run_orphaned_case_sweep env db =
    remind env (notification_dedup_days (cfg env)) (map orphaned_key (owned_records db))
      (orphaned_reminders db) db"

section \<open>Reviews of improvement plans\<close>

definition due_plans :: "env \<Rightarrow> database \<Rightarrow> improvement_plan list" where
  "due_plans env db =
    filter (\<lambda>p. plan_status p = Plan_open \<and>
        plan_review_date p \<le> today env + improvement_review_alert_days (cfg env)) (t_plans db)"

definition improvement_review_reminder :: "int list \<Rightarrow> improvement_plan \<Rightarrow> reminder" where
  "improvement_review_reminder hr_ids p =
    \<lparr>rem_type = ''improvement_review_due'',
     rem_key = ''improvement_review:'' @ str_int (plan_id p) @ '':'' @ isodate (plan_review_date p),
     rem_record_id = None, rem_link = ''/improvement-plans/'' @ str_int (plan_id p),
     rem_users = remdups (hr_ids @ option_list (plan_owner_user_id p))\<rparr>"

definition improvement_review_reminders :: "env \<Rightarrow> database \<Rightarrow> reminder list" where
  "improvement_review_reminders env db =
    map (improvement_review_reminder (active_hr_ids db)) (due_plans env db)"

definition run_improvement_review_sweep :: "env \<Rightarrow> database \<Rightarrow> database \<times> nat" where
  "run_improvement_review_sweep env db =
    (let ms = improvement_review_reminders env db
     in remind env (notification_dedup_days (cfg env)) (map rem_key ms) ms db)"

section \<open>The digest of stalled records\<close>

definition fa_digits :: "int \<Rightarrow> utext" where
  "fa_digits n = map (\<lambda>c. if 48 \<le> c \<and> c \<le> 57 then c + 1728 else c) (ascii (str_int n))"

definition DIGEST_TITLE :: utext where "DIGEST_TITLE = ascii ''daily digest''"
definition DIGEST_LIST_LIMIT :: nat where "DIGEST_LIST_LIMIT = 5"

definition assistant_users :: "platform \<Rightarrow> int set" where
  "assistant_users p =
    (case t_ai_settings p of
       None \<Rightarrow> {}
     | Some c \<Rightarrow> if \<not> ais_enabled c then {}
        else set (map aia_user_id (filter (\<lambda>a. aia_enabled a \<and>
          list_ex (\<lambda>u. user_id u = aia_user_id a \<and> user_is_active u) (t_users (core p))) (t_ai_access p))))"

definition digest_conversation :: "int \<Rightarrow> platform \<Rightarrow> int \<times> platform" where
  "digest_conversation u p =
    (case find (\<lambda>c. conversation_user_id c = u \<and> conversation_title c = DIGEST_TITLE)
            (sort_key conversation_id (t_conversations (core p))) of
       Some c \<Rightarrow> (conversation_id c, p)
     | None \<Rightarrow>
        (let k = next_id conversation_id (t_conversations (core p))
         in (k, in_core (\<lambda>db. db\<lparr>t_conversations := t_conversations db @
               [\<lparr>conversation_id = k, conversation_user_id = u, conversation_title = DIGEST_TITLE\<rparr>]\<rparr>) p)))"

definition stage_days :: "env \<Rightarrow> evaluation_record \<Rightarrow> int" where
  "stage_days env r = max 0 ((now env - stage_entered_at r) div days 1)"

definition digest_line :: "env \<Rightarrow> database \<Rightarrow> evaluation_record \<Rightarrow> utext" where
  "digest_line env db r =
    ascii (''- '' @ evaluation_code r @ '' ('') @
    (case get_personnel db (subject_personnel_id r) of None \<Rightarrow> [] | Some p \<Rightarrow> personnel_full_name p) @
    ascii '') '' @ fa_digits (stage_days env r) @ ascii '' days''"

definition digest_text :: "env \<Rightarrow> database \<Rightarrow> evaluation_record list \<Rightarrow> utext" where
  "digest_text env db rs =
    (let ordered = sort_key (\<lambda>r. - stage_days env r) rs;
         lines = map (digest_line env db) (take DIGEST_LIST_LIMIT ordered);
         rest = int (length ordered) - int (length lines);
         all_lines = (if 0 < rest then lines @ [ascii ''- '' @ fa_digits rest @ ascii '' more''] else lines)
     in fa_digits (int (length ordered)) @ ascii '' waiting over '' @
        fa_digits (sla_reminder_days (cfg env)) @ ascii '' days:'' @ [10] @
        concat (map (\<lambda>(i, l). (if i = 0 then [] else [10]) @ l) (enumerate 0 all_lines)) @
        [10, 10] @ ascii ''ask for any of them'')"

text \<open>The owners in the order in which they first occur, each with the own records.\<close>

definition by_owner :: "platform \<Rightarrow> evaluation_record list \<Rightarrow> (int \<times> evaluation_record list) list" where
  "by_owner p rs =
    (let owners = (\<lambda>r. filter (\<lambda>k. k \<in> assistant_users p) (current_owner_ids r (active_hr_ids (core p))))
     in map (\<lambda>k. (k, filter (\<lambda>r. k \<in> set (owners r)) rs)) (rev (remdups (rev (concat (map owners rs))))))"

definition digest_for ::
  "env \<Rightarrow> int \<Rightarrow> int \<times> evaluation_record list \<Rightarrow> platform \<times> nat \<Rightarrow> platform \<times> nat" where
  "digest_for env day_start job acc =
    (let (u, rs) = job; (p, created) = acc; (k, p1) = digest_conversation u p
     in if list_ex (\<lambda>m. msg_conversation_id m = k \<and> msg_role m = ''assistant'' \<and> day_start \<le> msg_created_at m)
             (t_ai_messages p1)
        then (p1, created)
        else (add_message env k ''assistant'' (digest_text env (core p1) rs) p1, created + 1))"

text \<open>\<open>day_start\<close> is the beginning of today in the time zone of the organization (\<open>local_day_start\<close>).\<close>

definition run_stale_case_digest_sweep :: "env \<Rightarrow> int \<Rightarrow> platform \<Rightarrow> platform \<times> nat" where
  "run_stale_case_digest_sweep env day_start p =
    (let stalled = stalled_records env (core p)
     in if assistant_users p = {} \<or> stalled = [] then (p, 0)
        else fold (digest_for env day_start) (by_owner p stalled) (p, 0))"

section \<open>The anchor of the audit log\<close>

definition audit_watchers :: "database \<Rightarrow> int list" where
  "audit_watchers db =
    map user_id (filter (\<lambda>u. user_is_active u \<and>
      list_ex (\<lambda>c. cap_user_id c = user_id u \<and> cap_capability c = View_audit_log) (t_capabilities db)) (t_users db))"

definition audit_alarm :: "chain_result \<Rightarrow> database \<Rightarrow> reminder" where
  "audit_alarm res db =
    \<lparr>rem_type = ''audit_chain_broken'',
     rem_key = ''audit_chain_broken:'' @ (case res_broken_at_id res of None \<Rightarrow> ''None'' | Some k \<Rightarrow> str_int k),
     rem_record_id = None, rem_link = ''/hr/audit-log'', rem_users = audit_watchers db\<rparr>"

definition verification_due :: "env \<Rightarrow> database \<Rightarrow> bool" where
  "verification_due env db \<longleftrightarrow>
    (case latest_check db of None \<Rightarrow> True
     | Some c \<Rightarrow> verified_at c + hours (audit_full_verify_interval_hours (cfg env)) \<le> now env)"

definition run_audit_anchor_sweep :: "env \<Rightarrow> database \<Rightarrow> database \<times> nat" where
  "run_audit_anchor_sweep env db =
    (if \<not> verification_due env db then (db, 0)
     else case record_full_verification (now env) db of
       (db1, res, advanced) \<Rightarrow>
         if res_ok res then (db1, if advanced then 1 else 0)
         else (let m = audit_alarm res db1
               in (fst (remind env (notification_dedup_days (cfg env)) [rem_key m] [m] db1), 0)))"

section \<open>The archive of final documents\<close>

text \<open>
  What rendering a document may do: give the bytes, raise the \<open>RuntimeError\<close> that is caught, or raise
  anything else.
\<close>

datatype rendering = Rendered "nat list" | Runtime_error | Crashed utext

record printer =
  weasyprint_available :: bool
  render_pdf :: "jdict option \<Rightarrow> string option \<Rightarrow> rendering"
  public_base_url :: string

definition get_document :: "platform \<Rightarrow> int \<Rightarrow> evaluation_document option" where
  "get_document p k = find (\<lambda>d. doc_record_id d = k) (t_documents p)"

definition verify_url_for :: "printer \<Rightarrow> string \<Rightarrow> string" where
  "verify_url_for printer token =
    rev (dropWhile (\<lambda>c. c = CHR ''/'') (rev (public_base_url printer))) @ ''/verify/'' @ token"

definition verify_url_of :: "printer \<Rightarrow> evaluation_record \<Rightarrow> string option" where
  "verify_url_of printer r =
    (case verify_token r of None \<Rightarrow> None
     | Some t \<Rightarrow> if t = [] then None else Some (verify_url_for printer t))"

definition archive_final_pdf ::
  "printer \<Rightarrow> platform \<Rightarrow> evaluation_record \<Rightarrow> utext + platform \<times> evaluation_document option" where
  "archive_final_pdf printer p r =
    (case get_document p (record_id r) of
       Some d \<Rightarrow> Inr (p, Some d)
     | None \<Rightarrow>
        if \<not> weasyprint_available printer then Inr (p, None)
        else case render_pdf printer (final_snapshot r) (verify_url_of printer r) of
          Runtime_error \<Rightarrow> Inr (p, None)
        | Crashed e \<Rightarrow> Inl e
        | Rendered bytes \<Rightarrow>
           (let d = \<lparr>doc_record_id = record_id r, doc_bytes = bytes, doc_sha256 = hexdigest (sha256 bytes)\<rparr>
            in Inr (p\<lparr>t_documents := t_documents p @ [d]\<rparr>, Some d)))"

definition archive_final_pdf_detached :: "printer \<Rightarrow> int \<Rightarrow> platform \<Rightarrow> platform" where
  "archive_final_pdf_detached printer k p =
    (case get_evaluation (core p) k of
       None \<Rightarrow> p
     | Some r \<Rightarrow> (case archive_final_pdf printer p r of Inl _ \<Rightarrow> p | Inr (p1, _) \<Rightarrow> p1))"

definition DOCUMENT_BACKFILL_BATCH :: nat where "DOCUMENT_BACKFILL_BATCH = 20"

text \<open>\<open>ORDER BY finalized_at\<close> puts rows without the value last.\<close>

definition finalized_order :: "evaluation_record list \<Rightarrow> evaluation_record list" where
  "finalized_order rs =
    sort_key (\<lambda>r. the (finalized_at r)) (filter (\<lambda>r. finalized_at r \<noteq> None) rs) @
    filter (\<lambda>r. finalized_at r = None) rs"

definition pending_documents :: "platform \<Rightarrow> evaluation_record list" where
  "pending_documents p =
    take DOCUMENT_BACKFILL_BATCH (finalized_order
      (filter (\<lambda>r. status r = Finalized \<and> final_snapshot r \<noteq> None \<and> get_document p (record_id r) = None)
        (t_evaluations (core p))))"

definition backfill_one ::
  "printer \<Rightarrow> platform \<times> nat \<Rightarrow> evaluation_record \<Rightarrow> utext + platform \<times> nat" where
  "backfill_one printer acc r =
    (let (p, created) = acc
     in bindE (archive_final_pdf printer p r) (\<lambda>(p1, d). Inr (p1, if d = None then created else created + 1)))"

definition run_document_backfill_sweep :: "printer \<Rightarrow> platform \<Rightarrow> utext + platform \<times> nat" where
  "run_document_backfill_sweep printer p =
    (if \<not> weasyprint_available printer then Inr (p, 0)
     else foldE (backfill_one printer) (p, 0) (pending_documents p))"

section \<open>All sweeps\<close>

type_synonym sweep_summary = "(string \<times> nat) list"

definition on_core :: "(database \<Rightarrow> database \<times> nat) \<Rightarrow> platform \<Rightarrow> platform \<times> nat" where
  "on_core f p = (let (db, n) = f (core p) in (p\<lparr>core := db\<rparr>, n))"

definition run_all_sweeps ::
  "env \<Rightarrow> int \<Rightarrow> printer \<Rightarrow> sender \<Rightarrow> platform \<Rightarrow> utext + platform \<times> sweep_summary" where
  "run_all_sweeps env day_start printer send p =
    (let (p1, n1) = on_core (run_contract_expiry_sweep env) p;
         (p2, n2) = on_core (run_sla_sweep env) p1;
         (p3, n3) = on_core (run_orphaned_case_sweep env) p2;
         (p4, n4) = on_core (run_improvement_review_sweep env) p3;
         (p5, n5) = run_stale_case_digest_sweep env day_start p4
     in bindE (run_document_backfill_sweep printer p5) (\<lambda>(p6, n6).
       let (p7, n7) = on_core (purge_stale env) p6;
           (p8, n8) = on_core (purge_decided_actions env) p7;
           (p9, n9) = on_core (purge_dead_sessions env) p8;
           (p10, n10) = on_core (run_audit_anchor_sweep env) p9;
           (db11, out) = run_delivery_sweep env send None (core p10)
       in Inr (p10\<lparr>core := db11\<rparr>,
            [(''contract_expiry'', n1), (''sla_reminder'', n2), (''orphaned_case'', n3), (''improvement_review'', n4),
             (''stale_case_digest'', n5), (''documents_archived'', n6), (''stale_login_attempts_purged'', n7),
             (''decided_ai_actions_purged'', n8), (''dead_sessions_purged'', n9), (''audit_chain_anchored'', n10),
             (''delivery_sent'', n_sent out), (''delivery_failed'', n_failed out),
             (''delivery_abandoned'', n_abandoned out)])))"

section \<open>The run and its history\<close>

record scheduler_run =
  run_id :: int
  run_started_at :: int
  run_finished_at :: "int option"
  run_status :: string
  run_trigger :: string
  run_summary :: "sweep_summary option"
  run_error :: "utext option"

record scheduler =
  plat :: platform
  t_scheduler_runs :: "scheduler_run list"

definition add_run :: "scheduler_run \<Rightarrow> scheduler \<Rightarrow> scheduler" where
  "add_run r s = s\<lparr>t_scheduler_runs := t_scheduler_runs s @ [r]\<rparr>"

text \<open>
  \<open>lock_free\<close> is the answer of \<open>pg_try_advisory_lock\<close>. An exception of the runner rolls its work back,
  leaves an entry in the history and is raised again.
\<close>

definition run_sweeps_once ::
  "env \<Rightarrow> bool \<Rightarrow> (platform \<Rightarrow> utext + platform \<times> sweep_summary) \<Rightarrow> string \<Rightarrow> scheduler \<Rightarrow>
    scheduler \<times> (utext + scheduler_run)" where
  "run_sweeps_once env lock_free runner trigger s =
    (let run = \<lparr>run_id = next_id run_id (t_scheduler_runs s), run_started_at = now env,
                run_finished_at = Some (now env), run_status = ''skipped_locked'', run_trigger = trigger,
                run_summary = None, run_error = None\<rparr>
     in if \<not> lock_free then (add_run run s, Inr run)
        else case runner (plat s) of
          Inl e \<Rightarrow> (add_run (run\<lparr>run_status := ''failed'', run_error := Some (take 2000 e)\<rparr>) s, Inl e)
        | Inr (p, summary) \<Rightarrow>
           (let done_run = run\<lparr>run_status := ''succeeded'', run_summary := Some summary\<rparr>
            in (add_run done_run (s\<lparr>plat := p\<rparr>), Inr done_run)))"

definition recent_runs :: "nat \<Rightarrow> scheduler \<Rightarrow> scheduler_run list" where
  "recent_runs n s = take n (sort_key (\<lambda>r. - run_started_at r) (t_scheduler_runs s))"

text \<open>The endpoint that starts the sweeps by hand (\<open>api/routers/admin.py\<close>).\<close>

definition run_scheduled_jobs ::
  "env \<Rightarrow> bool \<Rightarrow> (platform \<Rightarrow> utext + platform \<times> sweep_summary) \<Rightarrow> scheduler \<Rightarrow> current_user \<Rightarrow>
    scheduler \<times> sweep_summary http" where
  "run_scheduled_jobs env lock_free runner s user =
    (case require_capability [View_diagnostics] (core (plat s)) user of
       Inl e \<Rightarrow> (s, Inl e)
     | Inr _ \<Rightarrow>
        (case run_sweeps_once env lock_free runner ''manual'' s of
           (s1, Inl _) \<Rightarrow> (s1, Inl (HTTPException 500 ''sweep failed''))
         | (s1, Inr run) \<Rightarrow>
            if run_status run = ''skipped_locked'' then (s1, Inl (HTTPException 409 ''running already''))
            else (let summary = (case run_summary run of None \<Rightarrow> [] | Some x \<Rightarrow> x)
                  in (s1\<lparr>plat := in_core (log_event (cu_id user) ''scheduled_jobs_run'' None
                        None (Some (map (\<lambda>(k, n). (k, JInt (int n))) summary))) (plat s1)\<rparr>, Inr summary))))"

section \<open>What a reminder leaves behind\<close>

text \<open>Somebody was told under a key since the beginning of a window of \<open>day_count\<close> days.\<close>

definition recently_told :: "env \<Rightarrow> int \<Rightarrow> database \<Rightarrow> int \<Rightarrow> string \<Rightarrow> bool" where
  "recently_told env day_count db u key \<longleftrightarrow>
    list_ex (\<lambda>n. ntf_user_id n = u \<and> dedup_key n = Some key \<and> now env - days day_count \<le> ntf_created_at n)
      (t_notifications db)"

lemma in_map_filter: "y \<in> set (List.map_filter f xs) \<longleftrightarrow> (\<exists>x \<in> set xs. f x = Some y)"
  by (induction xs) (auto simp: List.map_filter_simps split: option.splits)

lemma already_notified_iff:
  "(u, key) \<in> set (already_notified env db keys d) \<longleftrightarrow> key \<in> set keys \<and> recently_told env d db u key"
  by (auto simp: already_notified_def recently_told_def list_ex_iff in_map_filter split: option.splits if_splits)

definition reminder_pairs :: "reminder list \<Rightarrow> (reminder \<times> int) list" where
  "reminder_pairs ms = concat (map (\<lambda>m. map (Pair m) (rem_users m)) ms)"

lemma fold_reminder_pairs:
  "fold (\<lambda>m. fold (remind_user env d m) (rem_users m)) ms acc =
    fold (\<lambda>(m, u). remind_user env d m u) (reminder_pairs ms) acc"
proof (induction ms arbitrary: acc)
  case (Cons m ms)
  have "fold (\<lambda>(m, u). remind_user env d m u) (map (Pair m) us) a = fold (remind_user env d m) us a" for us a
    by (induction us arbitrary: a) simp_all
  with Cons show ?case by (simp add: reminder_pairs_def)
qed (simp add: reminder_pairs_def)

text \<open>
  The windows of the keys and the distance they promise: of two reminders to one person under one key the
  later one was created after the window of the earlier one.
\<close>

definition SWEEP_PREFIXES :: "string list" where
  "SWEEP_PREFIXES =
    [''contract_expiry:'', ''sla:'', ''orphaned:'', ''improvement_review:'', ''audit_chain_broken:'']"

definition is_reminder :: "notification \<Rightarrow> bool" where
  "is_reminder n \<longleftrightarrow>
    (case dedup_key n of None \<Rightarrow> False
     | Some k \<Rightarrow> list_ex (\<lambda>x. take (length x) k = x) SWEEP_PREFIXES)"

definition reminder_window :: "settings \<Rightarrow> string \<Rightarrow> int" where
  "reminder_window c key = (if take 4 key = ''sla:'' then sla_reminder_days c else notification_dedup_days c)"

definition apart :: "settings \<Rightarrow> notification \<Rightarrow> notification \<Rightarrow> bool" where
  "apart c m n \<longleftrightarrow>
    (case dedup_key m of None \<Rightarrow> True
     | Some k \<Rightarrow> ntf_user_id m = ntf_user_id n \<and> dedup_key n = Some k \<longrightarrow>
         ntf_created_at m + days (reminder_window c k) < ntf_created_at n)"

definition spaced_reminders :: "settings \<Rightarrow> notification list \<Rightarrow> bool" where
  "spaced_reminders c ns \<longleftrightarrow> sorted_wrt (apart c) (filter is_reminder ns)"

text \<open>The state of the loop: what is known to be told is what the table says.\<close>

definition remembers ::
  "env \<Rightarrow> int \<Rightarrow> string list \<Rightarrow> database \<times> (int \<times> string) list option \<times> nat \<Rightarrow> bool" where
  "remembers env d keys acc \<longleftrightarrow>
    (case acc of (db, Some seen, _) \<Rightarrow>
       \<forall>u. \<forall>key \<in> set keys. (u, key) \<in> set seen \<longleftrightarrow> recently_told env d db u key
     | (_, None, _) \<Rightarrow> False)"

definition told_row :: "env \<Rightarrow> reminder \<Rightarrow> int \<Rightarrow> database \<Rightarrow> notification" where
  "told_row env m u db =
    \<lparr>notification_id = next_id notification_id (t_notifications db), ntf_user_id = u, ntf_type = rem_type m,
     ntf_link = Some (rem_link m), ntf_record_id = rem_record_id m, dedup_key = Some (rem_key m),
     ntf_created_at = now env, read_at = None\<rparr>"

lemma remind_user_cases:
  assumes "remembers env d keys (db, seen, c)" and "rem_key m \<in> set keys" and "0 \<le> d"
    and "remind_user env d m u (db, seen, c) = (db', seen', c')"
  shows "remembers env d keys (db', seen', c') \<and> only_messages db db' \<and> recently_told env d db' u (rem_key m) \<and>
    (if recently_told env d db u (rem_key m) then t_notifications db' = t_notifications db \<and> db' = db \<and> c' = c
     else t_notifications db' = t_notifications db @ [told_row env m u db] \<and> c' = c + 1)"
proof -
  obtain s where s: "seen = Some s" using assms(1) by (auto simp: remembers_def split: option.splits)
  have mem: "(v, k) \<in> set s \<longleftrightarrow> recently_told env d db v k" if "k \<in> set keys" for v k
    using assms(1) that by (simp add: remembers_def s)
  have "0 \<le> days d" using assms(3) by (simp add: days_def)
  then have grown: "recently_told env d (notify_one env x y z (Some (rem_key m)) u db) v k \<longleftrightarrow>
      recently_told env d db v k \<or> v = u \<and> k = rem_key m" for x y z v k
    by (auto simp: recently_told_def notify_one_rows)
  show ?thesis
  proof (cases "recently_told env d db u (rem_key m)")
    case True
    with mem assms(2) have "(u, rem_key m) \<in> set s" by simp
    with assms(4) have "db' = db" "seen' = seen" "c' = c" by (simp_all add: remind_user_def notify_once_def s)
    with True assms(1) show ?thesis by simp
  next
    case False
    with mem assms(2) have "(u, rem_key m) \<notin> set s" by simp
    with assms(4) have new: "db' = notify_one env (rem_type m) (rem_record_id m) (Some (rem_link m)) (Some (rem_key m)) u db"
        "seen' = Some ((u, rem_key m) # s)" "c' = c + 1"
      by (simp_all add: remind_user_def notify_once_def s)
    have "remembers env d keys (db', seen', c')"
      using mem by (auto simp: remembers_def new grown)
    with False show ?thesis
      by (simp add: new grown notify_one_messages notify_one_rows told_row_def)
  qed
qed


text \<open>
  What any number of reminders under the keys \<open>K\<close> may do to the database: append notifications of this
  moment, each to somebody who was not told recently, no two of them to one person under one key.
\<close>

definition reminded :: "env \<Rightarrow> int \<Rightarrow> string set \<Rightarrow> database \<Rightarrow> database \<Rightarrow> bool" where
  "reminded env d K db db' \<longleftrightarrow> only_messages db db' \<and>
    (\<exists>ns. t_notifications db' = t_notifications db @ ns \<and>
      distinct (map (\<lambda>n. (ntf_user_id n, dedup_key n)) ns) \<and>
      (\<forall>n \<in> set ns. ntf_created_at n = now env \<and>
        (\<exists>k \<in> K. dedup_key n = Some k \<and> \<not> recently_told env d db (ntf_user_id n) k)))"

lemma reminded_refl [simp, intro]: "reminded env d K db db"
  by (simp add: reminded_def)

lemma recently_told_append:
  "t_notifications db' = t_notifications db @ ns \<Longrightarrow> recently_told env d db' u k \<longleftrightarrow>
    recently_told env d db u k \<or>
    list_ex (\<lambda>n. ntf_user_id n = u \<and> dedup_key n = Some k \<and> now env - days d \<le> ntf_created_at n) ns"
  by (simp add: recently_told_def)

lemma reminded_keeps: "reminded env d K db db' \<Longrightarrow> recently_told env' d' db u k \<Longrightarrow> recently_told env' d' db' u k"
  by (auto simp: reminded_def recently_told_append)

lemma reminded_trans:
  assumes "reminded env d K a b" and "reminded env d K b c" and "0 \<le> d"
  shows "reminded env d K a c"
proof -
  from assms(1) obtain ns where ns: "t_notifications b = t_notifications a @ ns"
      "distinct (map (\<lambda>n. (ntf_user_id n, dedup_key n)) ns)"
      "\<forall>n \<in> set ns. ntf_created_at n = now env \<and>
        (\<exists>k \<in> K. dedup_key n = Some k \<and> \<not> recently_told env d a (ntf_user_id n) k)"
    by (auto simp: reminded_def)
  from assms(2) obtain ms where ms: "t_notifications c = t_notifications b @ ms"
      "distinct (map (\<lambda>n. (ntf_user_id n, dedup_key n)) ms)"
      "\<forall>n \<in> set ms. ntf_created_at n = now env \<and>
        (\<exists>k \<in> K. dedup_key n = Some k \<and> \<not> recently_told env d b (ntf_user_id n) k)"
    by (auto simp: reminded_def)
  have "0 \<le> days d" using assms(3) by (simp add: days_def)
  then have new: "\<not> recently_told env d a u k" "list_all (\<lambda>n. ntf_user_id n = u \<longrightarrow> dedup_key n \<noteq> Some k) ns"
    if "\<not> recently_told env d b u k" for u k
    using that ns(3) by (auto simp: recently_told_append [OF ns(1)] list_ex_iff list_all_iff)
  have apart: "(ntf_user_id n, dedup_key n) \<noteq> (ntf_user_id m, dedup_key m)" if n: "n \<in> set ns" and m: "m \<in> set ms" for n m
  proof -
    from ms(3) m obtain k where k: "dedup_key m = Some k" "\<not> recently_told env d b (ntf_user_id m) k" by blast
    from new(2) [OF k(2)] n k(1) show ?thesis by (auto simp: list_all_iff)
  qed
  have "only_messages a c" using assms(1,2) by (auto simp: reminded_def intro: only_messages_trans)
  moreover have "t_notifications c = t_notifications a @ (ns @ ms)" by (simp add: ns(1) ms(1))
  moreover have "distinct (map (\<lambda>n. (ntf_user_id n, dedup_key n)) (ns @ ms))"
    using ns(2) ms(2) apart by (auto simp: image_iff)
  moreover have "\<forall>n \<in> set (ns @ ms). ntf_created_at n = now env \<and>
      (\<exists>k \<in> K. dedup_key n = Some k \<and> \<not> recently_told env d a (ntf_user_id n) k)"
    using ns(3) ms(3) new(1) by auto
  ultimately show ?thesis unfolding reminded_def by blast
qed

lemma sorted_wrt_distinct: "distinct (map f xs) \<longleftrightarrow> sorted_wrt (\<lambda>x y. f x \<noteq> f y) xs"
  by (induction xs) auto

lemma reminded_spaced:
  assumes "reminded env d K db db'" and "\<And>k. k \<in> K \<Longrightarrow> reminder_window c k \<le> d"
    and "spaced_reminders c (t_notifications db)"
  shows "spaced_reminders c (t_notifications db')"
proof -
  from assms(1) obtain ns where ns: "t_notifications db' = t_notifications db @ ns"
      "distinct (map (\<lambda>n. (ntf_user_id n, dedup_key n)) ns)"
      "\<forall>n \<in> set ns. ntf_created_at n = now env \<and>
        (\<exists>k \<in> K. dedup_key n = Some k \<and> \<not> recently_told env d db (ntf_user_id n) k)"
    by (auto simp: reminded_def)
  have "sorted_wrt (apart c) (filter is_reminder ns)"
  proof (rule sorted_wrt_mono_rel [rotated])
    show "sorted_wrt (\<lambda>m n. (ntf_user_id m, dedup_key m) \<noteq> (ntf_user_id n, dedup_key n)) (filter is_reminder ns)"
      using ns(2) by (simp add: sorted_wrt_distinct sorted_wrt_filter)
  qed (auto simp: apart_def split: option.splits)
  moreover have "apart c m n" if m: "m \<in> set (t_notifications db)" and n: "n \<in> set ns" for m n
  proof -
    from ns(3) n obtain k where k: "k \<in> K" "dedup_key n = Some k" "\<not> recently_told env d db (ntf_user_id n) k"
        "ntf_created_at n = now env" by blast
    show ?thesis
    proof (cases "ntf_user_id m = ntf_user_id n \<and> dedup_key m = Some k")
      case True
      with k(3) m have "ntf_created_at m < now env - days d"
        by (auto simp: recently_told_def list_ex_iff not_le)
      moreover have "days (reminder_window c k) \<le> days d" using assms(2) [OF k(1)] by (simp add: days_def)
      ultimately show ?thesis using True k(2,4) by (simp add: apart_def)
    next
      case False
      with k(2) show ?thesis by (auto simp: apart_def split: option.splits)
    qed
  qed
  ultimately show ?thesis
    using assms(3) by (auto simp: spaced_reminders_def ns(1) sorted_wrt_append)
qed

lemma remind_user_reminded:
  assumes "remembers env d keys (db, seen, c)" and "rem_key m \<in> set keys" and "rem_key m \<in> K" and "0 \<le> d"
    and "remind_user env d m u (db, seen, c) = (db', seen', c')"
  shows "reminded env d K db db'" and "length (t_notifications db') + c = length (t_notifications db) + c'"
  using remind_user_cases [OF assms(1,2,4,5)] assms(3)
  by (auto simp: reminded_def told_row_def split: if_splits)

lemma fold_reminded:
  assumes "remembers env d keys acc" and "\<forall>(m, u) \<in> set ps. rem_key m \<in> set keys \<and> rem_key m \<in> K" and "0 \<le> d"
    and "fold (\<lambda>(m, u). remind_user env d m u) ps acc = acc'"
  shows "reminded env d K (fst acc) (fst acc') \<and>
    (\<forall>(m, u) \<in> set ps. recently_told env d (fst acc') u (rem_key m)) \<and>
    length (t_notifications (fst acc')) + snd (snd acc) = length (t_notifications (fst acc)) + snd (snd acc')"
  using assms(1,2,4)
proof (induction ps arbitrary: acc)
  case (Cons x ps)
  obtain m u where x: "x = (m, u)" by (cases x)
  obtain db seen c where acc: "acc = (db, seen, c)" by (cases acc)
  obtain db1 seen1 c1 where step: "remind_user env d m u (db, seen, c) = (db1, seen1, c1)"
    by (metis prod_cases3)
  have key: "rem_key m \<in> set keys" "rem_key m \<in> K" using Cons.prems(2) by (auto simp: x)
  note one = remind_user_cases [OF Cons.prems(1) [unfolded acc] key(1) assms(3) step]
  note two = remind_user_reminded [OF Cons.prems(1) [unfolded acc] key assms(3) step]
  have "reminded env d K db1 (fst acc') \<and>
      (\<forall>(m, u) \<in> set ps. recently_told env d (fst acc') u (rem_key m)) \<and>
      length (t_notifications (fst acc')) + c1 = length (t_notifications db1) + snd (snd acc')"
    using Cons.IH [of "(db1, seen1, c1)"] Cons.prems one by (simp add: x acc step)
  moreover have "recently_told env d db1 u (rem_key m)" using one by blast
  ultimately show ?case
    using two assms(3) by (auto simp: x acc intro: reminded_trans reminded_keeps)
qed simp

text \<open>The contract of \<open>remind\<close>.\<close>

lemma remind_reminded:
  assumes "rem_key ` set ms \<subseteq> set keys" and "rem_key ` set ms \<subseteq> K" and "0 \<le> d" and "remind env d keys ms db = (db', n)"
  shows "reminded env d K db db'" and "m \<in> set ms \<Longrightarrow> u \<in> set (rem_users m) \<Longrightarrow> recently_told env d db' u (rem_key m)"
    and "length (t_notifications db') = length (t_notifications db) + n"
proof -
  let ?acc = "(db, Some (already_notified env db keys d), 0)"
  obtain seen where fold: "fold (\<lambda>(m, u). remind_user env d m u) (reminder_pairs ms) ?acc = (db', seen, n)"
    using assms(4) by (auto simp: remind_def fold_reminder_pairs split: prod.splits)
  have "remembers env d keys ?acc" by (simp add: remembers_def already_notified_iff)
  moreover have "\<forall>(m, u) \<in> set (reminder_pairs ms). rem_key m \<in> set keys \<and> rem_key m \<in> K"
    using assms(1,2) by (auto simp: reminder_pairs_def)
  ultimately have all: "reminded env d K db db'" "\<forall>(m, u) \<in> set (reminder_pairs ms). recently_told env d db' u (rem_key m)"
      "length (t_notifications db') = length (t_notifications db) + n"
    using fold_reminded [OF _ _ assms(3) fold, of keys K] by simp_all
  show "reminded env d K db db'" "length (t_notifications db') = length (t_notifications db) + n" by fact+
  show "recently_told env d db' u (rem_key m)" if "m \<in> set ms" "u \<in> set (rem_users m)"
    using that all(2) by (auto simp: reminder_pairs_def)
qed


lemma remind_user_messages: "only_messages (fst acc) (fst (remind_user env d m u acc))"
proof -
  obtain db seen c where acc: "acc = (db, seen, c)" by (cases acc)
  obtain db1 seen1 told where once: "notify_once env u (rem_type m) (rem_key m) d (rem_record_id m) (Some (rem_link m)) seen db =
      (db1, seen1, told)" by (metis prod_cases3)
  then have "only_messages db db1" by (metis fst_conv notify_once_messages)
  then show ?thesis by (simp add: acc remind_user_def once)
qed

lemma remind_messages: "only_messages db (fst (remind env d keys ms db))"
proof -
  have "only_messages (fst acc) (fst (fold (\<lambda>(m, u). remind_user env d m u) ps acc))" for ps acc
  proof (induction ps arbitrary: acc)
    case (Cons x ps)
    obtain m u where "x = (m, u)" by (cases x)
    then show ?case using Cons [of "remind_user env d m u acc"] remind_user_messages [of acc env d m u]
      by (auto intro: only_messages_trans)
  qed simp
  from this [of "(db, Some (already_notified env db keys d), 0)" "reminder_pairs ms"]
  show ?thesis by (simp add: remind_def fold_reminder_pairs case_prod_unfold Let_def)
qed

section \<open>The sweeps that remind\<close>

text \<open>
  The interface of a sweep: its reminders come from tables that notifying does not touch, each under a key
  that was looked up and whose window is the one of the sweep.
\<close>

locale reminder_sweep =
  fixes sweep :: "env \<Rightarrow> database \<Rightarrow> database \<times> nat" and window :: "settings \<Rightarrow> int"
    and keys :: "env \<Rightarrow> database \<Rightarrow> string list" and due :: "env \<Rightarrow> database \<Rightarrow> reminder list"
  assumes is_remind: "sweep env db = remind env (window (cfg env)) (keys env db) (due env db) db"
    and looked_up: "rem_key ` set (due env db) \<subseteq> set (keys env db)"
    and key_window: "m \<in> set (due env db) \<Longrightarrow> reminder_window c (rem_key m) = window c"
    and due_stable: "only_messages db db' \<Longrightarrow> due env db' = due env db"
begin

lemma messages: "only_messages db (fst (sweep env db))"
  by (simp add: is_remind remind_messages)

lemma effect:
  assumes "0 \<le> window (cfg env)"
  shows "reminded env (window (cfg env)) (rem_key ` set (due env db)) db (fst (sweep env db))"
    and "m \<in> set (due env db) \<Longrightarrow> u \<in> set (rem_users m) \<Longrightarrow>
      recently_told env (window (cfg env)) (fst (sweep env db)) u (rem_key m)"
    and "length (t_notifications (fst (sweep env db))) = length (t_notifications db) + snd (sweep env db)"
  using remind_reminded [OF looked_up [of env db] subset_refl assms surjective_pairing] by (simp_all add: is_remind)

lemma spaced:
  assumes "0 \<le> window c" and "window c \<le> window (cfg env)" and "spaced_reminders c (t_notifications db)"
  shows "spaced_reminders c (t_notifications (fst (sweep env db)))"
proof -
  have "0 \<le> window (cfg env)" using assms(1,2) by simp
  from reminded_spaced [OF effect(1) [OF this] _ assms(3)] show ?thesis using key_window assms(2) by fastforce
qed

lemma keeps_told:
  "0 \<le> window (cfg env) \<Longrightarrow> recently_told env' d db u k \<Longrightarrow> recently_told env' d (fst (sweep env db)) u k"
  using effect(1) reminded_keeps by blast

end

interpretation contracts: reminder_sweep run_contract_expiry_sweep notification_dedup_days
  "\<lambda>env db. map rem_key (contract_expiry_reminders env db)" contract_expiry_reminders
  by unfold_locales
    (auto simp: run_contract_expiry_sweep_def contract_expiry_reminders_def contract_expiry_reminder_def reminder_window_def
      is_expiring_def [abs_def] active_hr_ids_def only_messages_tables)

interpretation sla: reminder_sweep run_sla_sweep sla_reminder_days
  "\<lambda>env db. map rem_key (sla_reminders env db)" sla_reminders
  by unfold_locales
    (auto simp: run_sla_sweep_def sla_reminders_def sla_reminder_def reminder_window_def stalled_records_def
      active_hr_ids_def only_messages_tables)

interpretation orphans: reminder_sweep run_orphaned_case_sweep notification_dedup_days
  "\<lambda>env db. map orphaned_key (owned_records db)" "\<lambda>env. orphaned_reminders"
  by unfold_locales
    (auto simp: run_orphaned_case_sweep_def orphaned_reminders_def orphaned_reminder_def orphaned_key_def reminder_window_def
      owned_records_def is_orphaned_def [abs_def] active_hr_ids_def only_messages_tables)

interpretation reviews: reminder_sweep run_improvement_review_sweep notification_dedup_days
  "\<lambda>env db. map rem_key (improvement_review_reminders env db)" improvement_review_reminders
  by unfold_locales
    (auto simp: run_improvement_review_sweep_def improvement_review_reminders_def improvement_review_reminder_def
      reminder_window_def due_plans_def active_hr_ids_def only_messages_tables)

section \<open>The other sweeps\<close>

text \<open>The tables that no sweep may change.\<close>

definition lasting :: "database \<Rightarrow> database" where
  "lasting db = db\<lparr>t_notifications := [], t_deliveries := [], t_conversations := [], t_login_attempts := [],
    t_pending_actions := [], t_sessions := [], t_chain_checks := []\<rparr>"

lemma messages_lasting: "only_messages db db' \<Longrightarrow> lasting db' = lasting db"
  by (auto simp: only_messages_def lasting_def)

lemma run_delivery_sweep_kept:
  "lasting (fst (run_delivery_sweep env send limit db)) = lasting db"
  "t_notifications (fst (run_delivery_sweep env send limit db)) = t_notifications db"
proof -
  have step: "lasting (fst (deliver env send d acc)) = lasting (fst acc) \<and>
      t_notifications (fst (deliver env send d acc)) = t_notifications (fst acc)" for d acc
    by (cases acc) (auto simp: deliver_def put_delivery_def lasting_def Let_def split: option.splits send_result.splits)
  have "lasting (fst (fold (deliver env send) ds acc)) = lasting (fst acc) \<and>
      t_notifications (fst (fold (deliver env send) ds acc)) = t_notifications (fst acc)" for ds acc
    by (induction ds arbitrary: acc) (simp_all add: step)
  then show "lasting (fst (run_delivery_sweep env send limit db)) = lasting db"
    "t_notifications (fst (run_delivery_sweep env send limit db)) = t_notifications db"
    by (simp_all add: run_delivery_sweep_def)
qed

lemma record_full_verification_kept:
  "record_full_verification t db = (db1, res, advanced) \<Longrightarrow> lasting db1 = lasting db \<and> t_notifications db1 = t_notifications db"
  by (auto simp: record_full_verification_def lasting_def Let_def split: if_splits)

lemma audit_alarm_key: "reminder_window c (rem_key (audit_alarm res db)) = notification_dedup_days c"
  by (simp add: audit_alarm_def reminder_window_def)

lemma run_audit_anchor_sweep_kept:
  "lasting (fst (run_audit_anchor_sweep env db)) = lasting db"
proof -
  obtain db1 res advanced where r: "record_full_verification (now env) db = (db1, res, advanced)" by (metis prod_cases3)
  from record_full_verification_kept [OF r] show ?thesis
    by (simp add: run_audit_anchor_sweep_def r Let_def messages_lasting [OF remind_messages])
qed

lemma run_audit_anchor_sweep_spaced:
  assumes "0 \<le> notification_dedup_days (cfg env)"
  shows "notification_dedup_days c \<le> notification_dedup_days (cfg env) \<Longrightarrow> spaced_reminders c (t_notifications db) \<Longrightarrow>
      spaced_reminders c (t_notifications (fst (run_audit_anchor_sweep env db)))"
    and "recently_told env' d db u k \<Longrightarrow> recently_told env' d (fst (run_audit_anchor_sweep env db)) u k"
proof -
  obtain db1 res advanced where r: "record_full_verification (now env) db = (db1, res, advanced)" by (metis prod_cases3)
  let ?m = "audit_alarm res db1"
  have alarm: "reminded env (notification_dedup_days (cfg env)) {rem_key ?m} db1
      (fst (remind env (notification_dedup_days (cfg env)) [rem_key ?m] [?m] db1))"
    using remind_reminded(1) [of "[?m]" "[rem_key ?m]" "{rem_key ?m}"] assms by (metis (no_types, lifting)
      empty_set image_empty image_insert list.simps(15) prod.collapse subset_refl)
  note same = record_full_verification_kept [OF r]
  show "spaced_reminders c (t_notifications (fst (run_audit_anchor_sweep env db)))"
    if "notification_dedup_days c \<le> notification_dedup_days (cfg env)" "spaced_reminders c (t_notifications db)"
    using that same reminded_spaced [OF alarm, of c] by (simp add: run_audit_anchor_sweep_def r Let_def audit_alarm_key)
  show "recently_told env' d (fst (run_audit_anchor_sweep env db)) u k" if "recently_told env' d db u k"
    using that same reminded_keeps [OF alarm] by (simp add: run_audit_anchor_sweep_def r Let_def recently_told_def)
qed


lemma digest_sweep_kept:
  assumes "run_stale_case_digest_sweep env day_start p = (p', n)"
  shows "lasting (core p') = lasting (core p)" and "t_notifications (core p') = t_notifications (core p)"
    and "t_documents p' = t_documents p"
proof -
  have one: "lasting (core (snd (digest_conversation u q))) = lasting (core q) \<and>
      t_notifications (core (snd (digest_conversation u q))) = t_notifications (core q) \<and>
      t_documents (snd (digest_conversation u q)) = t_documents q" for u q
    by (auto simp: digest_conversation_def in_core_def lasting_def Let_def split: option.splits)
  have step: "lasting (core (fst (digest_for env day_start job acc))) = lasting (core (fst acc)) \<and>
      t_notifications (core (fst (digest_for env day_start job acc))) = t_notifications (core (fst acc)) \<and>
      t_documents (fst (digest_for env day_start job acc)) = t_documents (fst acc)" for job acc
    using one [of "fst job" "fst acc"]
    by (auto simp: digest_for_def add_message_def Let_def split: prod.splits)
  have all: "lasting (core (fst (fold (digest_for env day_start) jobs acc))) = lasting (core (fst acc)) \<and>
      t_notifications (core (fst (fold (digest_for env day_start) jobs acc))) = t_notifications (core (fst acc)) \<and>
      t_documents (fst (fold (digest_for env day_start) jobs acc)) = t_documents (fst acc)" for jobs acc
    by (induction jobs arbitrary: acc) (simp_all add: step)
  from assms all [of "by_owner p (stalled_records env (core p))" "(p, 0)"]
  show "lasting (core p') = lasting (core p)" "t_notifications (core p') = t_notifications (core p)"
    "t_documents p' = t_documents p"
    by (auto simp: run_stale_case_digest_sweep_def Let_def split: if_splits)
qed

text \<open>Every archived document is the only one of its record and carries the hash of its bytes.\<close>

definition archive_wf :: "platform \<Rightarrow> bool" where
  "archive_wf p \<longleftrightarrow> distinct (map doc_record_id (t_documents p)) \<and>
    list_all (\<lambda>d. doc_sha256 d = hexdigest (sha256 (doc_bytes d))) (t_documents p)"

lemma archive_kept:
  assumes "archive_final_pdf printer p r = Inr (p', d)"
  shows "core p' = core p \<and> (\<exists>ds. t_documents p' = t_documents p @ ds) \<and> (archive_wf p \<longrightarrow> archive_wf p')"
proof -
  have "doc_record_id ` set (t_documents p) \<inter> {record_id r} = {}" if "get_document p (record_id r) = None"
    using that by (auto simp: get_document_def find_None_iff)
  with assms show ?thesis
    by (auto simp: archive_final_pdf_def archive_wf_def Let_def split: option.splits if_splits rendering.splits)
qed

lemma foldE_backfill:
  assumes "foldE (backfill_one printer) acc rs = Inr acc'"
  shows "core (fst acc') = core (fst acc) \<and> (\<exists>ds. t_documents (fst acc') = t_documents (fst acc) @ ds) \<and>
    (archive_wf (fst acc) \<longrightarrow> archive_wf (fst acc'))"
  using assms
proof (induction rs arbitrary: acc)
  case (Cons r rs)
  from Cons.prems obtain acc1 where one: "backfill_one printer acc r = Inr acc1"
    and rest: "foldE (backfill_one printer) acc1 rs = Inr acc'" by auto
  have "core (fst acc1) = core (fst acc) \<and> (\<exists>ds. t_documents (fst acc1) = t_documents (fst acc) @ ds) \<and>
      (archive_wf (fst acc) \<longrightarrow> archive_wf (fst acc1))"
    using one archive_kept [of printer "fst acc" r] by (cases acc) (auto simp: backfill_one_def)
  then show ?case using Cons.IH [OF rest] by auto
qed simp

lemma backfill_kept:
  assumes "run_document_backfill_sweep printer p = Inr (p', n)"
  shows "core p' = core p" and "\<exists>ds. t_documents p' = t_documents p @ ds" and "archive_wf p \<Longrightarrow> archive_wf p'"
  using assms foldE_backfill [of printer "(p, 0)" "pending_documents p" "(p', n)"]
  by (auto simp: run_document_backfill_sweep_def split: if_splits)


section \<open>A run of all sweeps\<close>

definition after_reminders :: "env \<Rightarrow> database \<Rightarrow> database" where
  "after_reminders env db = fst (run_improvement_review_sweep env (fst (run_orphaned_case_sweep env
    (fst (run_sla_sweep env (fst (run_contract_expiry_sweep env db)))))))"

lemma on_core_eq: "on_core f p = (p\<lparr>core := fst (f (core p))\<rparr>, snd (f (core p)))"
  by (simp add: on_core_def split_beta)

lemma purges_kept:
  "lasting (fst (purge_stale env db)) = lasting db" "t_notifications (fst (purge_stale env db)) = t_notifications db"
  "lasting (fst (purge_decided_actions env db)) = lasting db"
  "t_notifications (fst (purge_decided_actions env db)) = t_notifications db"
  "lasting (fst (purge_dead_sessions env db)) = lasting db"
  "t_notifications (fst (purge_dead_sessions env db)) = t_notifications db"
  by (simp_all add: purge_stale_def purge_decided_actions_def purge_dead_sessions_def lasting_def)

text \<open>After the reminders only the check of the log can add notifications.\<close>

lemma run_all_sweepsE:
  assumes "run_all_sweeps env day_start printer send p = Inr (p', summary)"
  obtains db5 where "t_notifications db5 = t_notifications (after_reminders env (core p))"
    "lasting db5 = lasting (after_reminders env (core p))"
    "t_notifications (core p') = t_notifications (fst (run_audit_anchor_sweep env db5))"
    "lasting (core p') = lasting db5" "\<exists>ds. t_documents p' = t_documents p @ ds" "archive_wf p \<Longrightarrow> archive_wf p'"
proof -
  let ?p4 = "p\<lparr>core := after_reminders env (core p)\<rparr>"
  obtain p5 n5 where digest: "run_stale_case_digest_sweep env day_start ?p4 = (p5, n5)" by (cases "run_stale_case_digest_sweep env day_start ?p4")
  obtain p6 n6 where archive: "run_document_backfill_sweep printer p5 = Inr (p6, n6)"
    using assms by (auto simp: run_all_sweeps_def on_core_eq Let_def digest [unfolded after_reminders_def])
  let ?db5 = "fst (purge_dead_sessions env (fst (purge_decided_actions env (fst (purge_stale env (core p6))))))"
  have p': "p' = p6\<lparr>core := fst (run_delivery_sweep env send None (fst (run_audit_anchor_sweep env ?db5)))\<rparr>"
    using assms
    by (auto simp: run_all_sweeps_def on_core_eq Let_def digest [unfolded after_reminders_def] archive split: prod.splits)
  note kept = digest_sweep_kept [OF digest] backfill_kept [OF archive]
  show thesis
  proof (rule that [of ?db5])
    show "\<exists>ds. t_documents p' = t_documents p @ ds" using kept by (simp add: p')
    show "archive_wf p'" if "archive_wf p"
      using that kept by (simp add: p' archive_wf_def)
  qed (simp_all add: kept p' purges_kept run_delivery_sweep_kept run_audit_anchor_sweep_kept)
qed

lemma after_reminders_messages: "only_messages db (after_reminders env db)"
  unfolding after_reminders_def
  by (meson contracts.messages sla.messages orphans.messages reviews.messages only_messages_trans)

text \<open>Windows that reach into the past.\<close>

definition windows_ok :: "settings \<Rightarrow> bool" where
  "windows_ok c \<longleftrightarrow> 0 \<le> notification_dedup_days c \<and> 0 \<le> sla_reminder_days c"

text \<open>Windows at least as long as those of \<open>c\<close>.\<close>

definition windows_cover :: "settings \<Rightarrow> settings \<Rightarrow> bool" where
  "windows_cover c c' \<longleftrightarrow> notification_dedup_days c \<le> notification_dedup_days c' \<and> sla_reminder_days c \<le> sla_reminder_days c'"

lemma run_all_sweeps_spaced:
  assumes "run_all_sweeps env day_start printer send p = Inr (p', summary)" and "windows_ok c"
    and "windows_cover c (cfg env)" and "spaced_reminders c (t_notifications (core p))"
  shows "spaced_reminders c (t_notifications (core p'))"
proof -
  have w: "0 \<le> notification_dedup_days c" "0 \<le> sla_reminder_days c"
    and cover: "notification_dedup_days c \<le> notification_dedup_days (cfg env)" "sla_reminder_days c \<le> sla_reminder_days (cfg env)"
    using assms(2,3) by (simp_all add: windows_ok_def windows_cover_def)
  have "spaced_reminders c (t_notifications (after_reminders env (core p)))"
    unfolding after_reminders_def
    by (rule reviews.spaced orphans.spaced sla.spaced contracts.spaced w cover assms(4))+
  with run_all_sweepsE [OF assms(1)] run_audit_anchor_sweep_spaced(1) [OF order_trans [OF w(1) cover(1)] cover(1)]
  show ?thesis by metis
qed

text \<open>
  A run of all sweeps changes notifications, outgoing messages, the conversations with the digest, what
  is purged and the history of checks, and adds documents; every other table stays as it is.
\<close>

theorem sweeps_change_no_business_data:
  assumes "run_all_sweeps env day_start printer send p = Inr (p', summary)"
  shows "lasting (core p') = lasting (core p) \<and> (\<exists>ds. t_documents p' = t_documents p @ ds) \<and>
    (archive_wf p \<longrightarrow> archive_wf p')"
  using run_all_sweepsE [OF assms] messages_lasting [OF after_reminders_messages] by metis

text \<open>
  After a run everybody was told, within the window, about what is due: human resources about contracts
  that end and about records whose owners are all inactive, the owners of a stalled record about it, and
  human resources and the owner of a plan about its review.
\<close>

definition told_about :: "env \<Rightarrow> int \<Rightarrow> database \<Rightarrow> reminder list \<Rightarrow> bool" where
  "told_about env d db ms \<longleftrightarrow>
    list_all (\<lambda>m. list_all (\<lambda>u. recently_told env d db u (rem_key m)) (rem_users m)) ms"

theorem everybody_due_is_told:
  assumes "run_all_sweeps env day_start printer send p = Inr (p', summary)" and "windows_ok (cfg env)"
  shows "told_about env (notification_dedup_days (cfg env)) (core p') (contract_expiry_reminders env (core p)) \<and>
    told_about env (sla_reminder_days (cfg env)) (core p') (sla_reminders env (core p)) \<and>
    told_about env (notification_dedup_days (cfg env)) (core p') (orphaned_reminders (core p)) \<and>
    told_about env (notification_dedup_days (cfg env)) (core p') (improvement_review_reminders env (core p))"
proof -
  have w: "0 \<le> notification_dedup_days (cfg env)" "0 \<le> sla_reminder_days (cfg env)"
    using assms(2) by (simp_all add: windows_ok_def)
  obtain db5 where "t_notifications db5 = t_notifications (after_reminders env (core p))"
    "t_notifications (core p') = t_notifications (fst (run_audit_anchor_sweep env db5))"
    using run_all_sweepsE [OF assms(1)] by metis
  then have last: "recently_told env d (core p') u k" if "recently_told env d (after_reminders env (core p)) u k" for d u k
    using that run_audit_anchor_sweep_spaced(2) [OF w(1)] by (simp add: recently_told_def)
  define p1 where "p1 = fst (run_contract_expiry_sweep env (core p))"
  define p2 where "p2 = fst (run_sla_sweep env p1)"
  define p3 where "p3 = fst (run_orphaned_case_sweep env p2)"
  have p4: "after_reminders env (core p) = fst (run_improvement_review_sweep env p3)"
    by (simp add: after_reminders_def p1_def p2_def p3_def)
  have m: "only_messages (core p) p1" "only_messages (core p) p2" "only_messages (core p) p3"
    unfolding p1_def p2_def p3_def
    by (meson contracts.messages sla.messages orphans.messages only_messages_trans)+
  have k1: "recently_told env d (core p') u k" if "recently_told env d p3 u k" for d u k
    using last reviews.keeps_told [OF w(1) that] p4 by metis
  have k2: "recently_told env d (core p') u k" if "recently_told env d p2 u k" for d u k
    using k1 orphans.keeps_told [OF w(1) that] p3_def by metis
  have k3: "recently_told env d (core p') u k" if "recently_told env d p1 u k" for d u k
    using k2 sla.keeps_told [OF w(2) that] p2_def by metis
  show ?thesis
    unfolding told_about_def list_all_iff
    using contracts.effect(2) [OF w(1), of _ "core p"] sla.effect(2) [OF w(2), of _ p1]
      orphans.effect(2) [OF w(1), of _ p2] reviews.effect(2) [OF w(1), of _ p3]
      k1 k2 k3 last
    by (auto simp: p1_def [symmetric] p2_def [symmetric] p3_def [symmetric] p4 [symmetric]
        sla.due_stable [OF m(1)] orphans.due_stable [OF m(2)] reviews.due_stable [OF m(3)])
qed

section \<open>Failures\<close>

text \<open>On a log that was written by the program the check advances the anchor and alarms nobody.\<close>

lemma sound_log_alarms_nobody:
  fixes db :: database
  assumes "log_wf db"
  shows "t_notifications (fst (run_audit_anchor_sweep env db)) = t_notifications db"
proof -
  obtain db1 res advanced where r: "record_full_verification (now env) db = (db1, res, advanced)" by (metis prod_cases3)
  have "res = full_result db" using r by (auto simp: record_full_verification_def Let_def split: if_splits)
  then have "res_ok res" using full_result_wf [OF assms] by simp
  with record_full_verification_kept [OF r] show ?thesis by (simp add: run_audit_anchor_sweep_def r)
qed

text \<open>A run that is skipped or fails leaves an entry in the history and nothing else.\<close>

lemma unsuccessful_run_changes_nothing:
  assumes "run_sweeps_once env lock_free runner trigger s = (s', answer)"
    and "\<not> lock_free \<or> runner (plat s) = Inl e"
  shows "plat s' = plat s \<and> (\<exists>run. t_scheduler_runs s' = t_scheduler_runs s @ [run] \<and>
    run_status run = (if lock_free then ''failed'' else ''skipped_locked''))"
  using assms by (auto simp: run_sweeps_once_def add_run_def Let_def)

lemma lasting_evaluations: "lasting db = lasting db' \<Longrightarrow> t_evaluations db = t_evaluations db'"
  by (auto simp: lasting_def dest: arg_cong [of _ _ t_evaluations])

text \<open>
  A document whose rendering raises anything but a \<open>RuntimeError\<close> fails the whole run: its reminders are
  rolled back, and because the document stays the first that is pending, so are those of every later run.
\<close>

lemma crashing_document_stops_every_sweep:
  assumes "weasyprint_available printer" and "pending_documents (plat s) = r # rs"
    and "render_pdf printer (final_snapshot r) (verify_url_of printer r) = Crashed e"
  shows "plat (fst (run_sweeps_once env lock_free (run_all_sweeps env day_start printer send) trigger s)) = plat s"
proof -
  let ?p = "plat s"
  let ?p4 = "?p\<lparr>core := after_reminders env (core ?p)\<rparr>"
  obtain p5 n5 where digest: "run_stale_case_digest_sweep env day_start ?p4 = (p5, n5)" by (cases "run_stale_case_digest_sweep env day_start ?p4")
  have "t_evaluations (core p5) = t_evaluations (core ?p)" "t_documents p5 = t_documents ?p"
    using digest_sweep_kept [OF digest] messages_lasting [OF after_reminders_messages]
    by (auto intro!: lasting_evaluations)
  then have pending: "pending_documents p5 = r # rs"
    using assms(2) by (simp add: pending_documents_def get_document_def)
  then have "r \<in> set (pending_documents p5)" by simp
  then have "get_document p5 (record_id r) = None"
    unfolding pending_documents_def finalized_order_def by (auto dest!: in_set_takeD)
  then have "run_document_backfill_sweep printer p5 = Inl e"
    using assms(1,3) pending by (simp add: run_document_backfill_sweep_def backfill_one_def archive_final_pdf_def)
  then have "run_all_sweeps env day_start printer send ?p = Inl e"
    by (simp add: run_all_sweeps_def on_core_eq Let_def digest [unfolded after_reminders_def])
  then show ?thesis by (simp add: run_sweeps_once_def add_run_def Let_def)
qed

section \<open>The archive catches up\<close>

definition missing_documents :: "platform \<Rightarrow> evaluation_record list" where
  "missing_documents p =
    filter (\<lambda>r. status r = Finalized \<and> final_snapshot r \<noteq> None \<and> get_document p (record_id r) = None)
      (t_evaluations (core p))"

lemma finalized_order_mset: "mset (finalized_order rs) = mset rs"
  by (simp add: finalized_order_def)

lemma get_document_append:
  "get_document p k = None \<Longrightarrow> t_documents p' = t_documents p @ [d] \<Longrightarrow>
    get_document p' k' = None \<longleftrightarrow> get_document p k' = None \<and> doc_record_id d \<noteq> k'"
  by (auto simp: get_document_def find_None_iff)

lemma backfill_archives:
  assumes "\<forall>r u. \<exists>bytes. render_pdf printer r u = Rendered bytes" and "weasyprint_available printer"
    and "distinct (map record_id rs)" and "\<forall>r \<in> set rs. get_document p (record_id r) = None"
  shows "\<exists>p' n. foldE (backfill_one printer) (p, c) rs = Inr (p', n) \<and> core p' = core p \<and>
    (\<forall>k. get_document p' k = None \<longleftrightarrow> get_document p k = None \<and> k \<notin> record_id ` set rs)"
  using assms(3,4)
proof (induction rs arbitrary: p c)
  case (Cons r rs)
  obtain bytes where "render_pdf printer (final_snapshot r) (verify_url_of printer r) = Rendered bytes"
    using assms(1) by blast
  then obtain p1 d where one: "backfill_one printer (p, c) r = Inr (p1, c + 1)" "core p1 = core p"
    "t_documents p1 = t_documents p @ [d]" "doc_record_id d = record_id r"
    using Cons.prems(2) assms(2) by (auto simp: backfill_one_def archive_final_pdf_def Let_def)
  note none = get_document_append [OF _ one(3), of "record_id r"]
  have "\<forall>x \<in> set rs. get_document p1 (record_id x) = None"
    using Cons.prems none one(4) by auto
  then show ?case using Cons.IH [of p1 "c + 1"] Cons.prems none one by auto
qed auto


lemma backfill_progress:
  assumes "\<forall>r u. \<exists>bytes. render_pdf printer r u = Rendered bytes" and "weasyprint_available printer"
    and "distinct (map record_id (t_evaluations (core p)))"
  shows "\<exists>p' n. run_document_backfill_sweep printer p = Inr (p', n) \<and> core p' = core p \<and>
    length (missing_documents p') = length (missing_documents p) - DOCUMENT_BACKFILL_BATCH"
proof -
  let ?order = "finalized_order (missing_documents p)"
  have batch: "pending_documents p = take DOCUMENT_BACKFILL_BATCH ?order"
    by (simp add: pending_documents_def missing_documents_def)
  have same: "mset ?order = mset (missing_documents p)" by (rule finalized_order_mset)
  have "distinct (map record_id (missing_documents p))"
    using assms(3) by (simp add: missing_documents_def distinct_map_filter)
  then have ids: "distinct (map record_id ?order)"
    by (metis same mset_map mset_eq_imp_distinct_iff)
  then have "distinct (map record_id (pending_documents p))" by (simp add: batch flip: take_map)
  moreover have "\<forall>r \<in> set (pending_documents p). get_document p (record_id r) = None"
    using mset_eq_setD [OF same] by (auto simp: batch missing_documents_def dest!: in_set_takeD)
  ultimately obtain p' n where p': "foldE (backfill_one printer) (p, 0) (pending_documents p) = Inr (p', n)" "core p' = core p"
    "\<forall>k. get_document p' k = None \<longleftrightarrow> get_document p k = None \<and> k \<notin> record_id ` set (pending_documents p)"
    using backfill_archives [OF assms(1,2)] by metis
  let ?left = "\<lambda>r. record_id r \<notin> record_id ` set (pending_documents p)"
  have "missing_documents p' = filter ?left (missing_documents p)"
    using p'(2,3) by (auto simp: missing_documents_def intro: filter_cong)
  then have "length (missing_documents p') = size (filter_mset ?left (mset (missing_documents p)))"
    by (simp flip: mset_filter)
  also have "\<dots> = length (filter ?left (take DOCUMENT_BACKFILL_BATCH ?order @ drop DOCUMENT_BACKFILL_BATCH ?order))"
    unfolding append_take_drop_id same [symmetric] by (simp flip: mset_filter)
  also have "\<dots> = length (drop DOCUMENT_BACKFILL_BATCH ?order)"
  proof -
    have "filter ?left (take DOCUMENT_BACKFILL_BATCH ?order) = []" by (auto simp: batch filter_empty_conv)
    moreover have "filter ?left (drop DOCUMENT_BACKFILL_BATCH ?order) = drop DOCUMENT_BACKFILL_BATCH ?order"
      using set_take_disj_set_drop_if_distinct [OF ids order_refl, of DOCUMENT_BACKFILL_BATCH]
      by (auto simp: batch filter_id_conv take_map drop_map)
    ultimately show ?thesis unfolding filter_append by simp
  qed
  also have "\<dots> = length (missing_documents p) - DOCUMENT_BACKFILL_BATCH"
    using mset_eq_length [OF same] by simp
  finally show ?thesis using p' assms(2) by (simp add: run_document_backfill_sweep_def)
qed

primrec backfills :: "printer \<Rightarrow> nat \<Rightarrow> platform \<Rightarrow> utext + platform" where
  "backfills printer 0 p = Inr p"
| "backfills printer (Suc n) p = bindE (run_document_backfill_sweep printer p) (\<lambda>(p1, _). backfills printer n p1)"

text \<open>
  C37. With a renderer that works, a backlog of any length is archived in batches of twenty: enough sweeps
  leave no finalized record without its document. Like the sweep this skips records without a snapshot, of
  which a reachable state has none that is finalized.
\<close>

theorem archive_catches_up:
  assumes "\<forall>r u. \<exists>bytes. render_pdf printer r u = Rendered bytes" and "weasyprint_available printer"
    and "distinct (map record_id (t_evaluations (core p)))"
    and "length (missing_documents p) \<le> DOCUMENT_BACKFILL_BATCH * n"
  shows "\<exists>p'. backfills printer n p = Inr p' \<and> missing_documents p' = []"
  using assms(3,4)
proof (induction n arbitrary: p)
  case (Suc n)
  obtain p1 m where "run_document_backfill_sweep printer p = Inr (p1, m)" "core p1 = core p"
    "length (missing_documents p1) = length (missing_documents p) - DOCUMENT_BACKFILL_BATCH"
    using backfill_progress [OF assms(1,2) Suc.prems(1)] by blast
  with Suc.prems Suc.IH [of p1] show ?case by simp
qed simp

end
