(* ===== verification/Administration.thy ===== *)
theory Administration
  imports SelfEvaluation Evaluations
begin

text \<open>
  Administration: the catalogue of organizational units (\<open>app/api/routers/org_units.py\<close>), the capabilities
  of accounts, the separation of duties and the modules (\<open>app/api/routers/administration.py\<close>).
\<close>

section \<open>Organizational units\<close>

record org_unit_read =
  our_unit :: org_unit_row
  our_full_name :: utext
  our_personnel_count :: nat

definition people_in :: "database \<Rightarrow> utext \<Rightarrow> nat" where
  "people_in db name = length (filter (\<lambda>p. org_unit p = name) (t_personnel db))"

definition to_read :: "database \<Rightarrow> org_unit_row \<Rightarrow> org_unit_read" where
  "to_read db u =
    \<lparr>our_unit = u, our_full_name = unit_full_name u, our_personnel_count = people_in db (unit_full_name u)\<rparr>"

definition units_guard :: "database \<Rightarrow> current_user \<Rightarrow> unit http" where
  "units_guard = require_role_or_capability Role_hr Manage_personnel"

definition site_text :: "utext option \<Rightarrow> utext option http" where
  "site_text x =
    (case x of None \<Rightarrow> Inr None
     | Some t \<Rightarrow> (let s = strip t in if 100 < length s then Inl (HTTPException 422 ''site'')
                                    else Inr (if s = [] then None else Some s)))"

text \<open>The unique constraint on site and name; a null site is different from every other.\<close>

definition unit_clash :: "database \<Rightarrow> org_unit_row \<Rightarrow> bool" where
  "unit_clash db u \<longleftrightarrow>
    list_ex (\<lambda>x. unit_id x \<noteq> unit_id u \<and> unit_site x \<noteq> None \<and> unit_site x = unit_site u \<and> unit_name x = unit_name u)
      (t_org_units db)"

definition list_org_units :: "env \<Rightarrow> database \<Rightarrow> current_user \<Rightarrow> org_unit_read list http" where
  "list_org_units env db user =
    bindE (units_guard db user) (\<lambda>_.
    let nulls_last = (\<lambda>us. filter (\<lambda>u. unit_site u \<noteq> None) us @ filter (\<lambda>u. unit_site u = None) us);
        by_site = (\<lambda>u. case unit_site u of None \<Rightarrow> 0 | Some s \<Rightarrow> collation env s)
    in Inr (map (to_read db) (sort_key unit_display_order (nulls_last (sort_key by_site
              (sort_key (\<lambda>u. collation env (unit_name u)) (t_org_units db)))))))"

definition create_org_unit ::
  "database \<Rightarrow> current_user \<Rightarrow> utext option \<Rightarrow> utext \<Rightarrow> (database \<times> org_unit_read) http" where
  "create_org_unit db user site name =
    bindE (units_guard db user) (\<lambda>_.
    bindE (site_text site) (\<lambda>site1.
    bindE (text_field 150 name) (\<lambda>name1.
    let orders = map unit_display_order (t_org_units db);
        u = \<lparr>unit_id = next_id unit_id (t_org_units db), unit_site = site1, unit_name = name1,
             unit_is_active = True, is_hr_unit = False,
             unit_display_order = (if orders = [] then 0 else Max (set orders)) + 1\<rparr>
    in bindE (raise_if (unit_clash db u) (HTTPException 400 ''unit exists'')) (\<lambda>_.
       let db1 = log_event (cu_id user) ''org_unit_created'' None None
                   (Some [(''id'', JInt (unit_id u)), (''full_name'', JString (unit_full_name u))])
                   (db\<lparr>t_org_units := t_org_units db @ [u]\<rparr>)
       in Inr (db1, to_read db1 u)))))"

text \<open>Given fields of the request are \<open>Some\<close>; a null is \<open>Some None\<close>.\<close>

record org_unit_update =
  ouu_site :: "utext option option"
  ouu_name :: "utext option option"
  ouu_is_active :: "bool option option"
  ouu_is_hr_unit :: "bool option option"

definition rename_unit :: "utext \<Rightarrow> utext \<Rightarrow> database \<Rightarrow> database" where
  "rename_unit old new db =
    db\<lparr>t_personnel := map (\<lambda>p. if org_unit p = old then p\<lparr>org_unit := new\<rparr> else p) (t_personnel db)\<rparr>"

text \<open>
  A null name ends in an \<open>AttributeError\<close>; a null flag violates its column, which is answered like a clash.
\<close>

definition updated_unit :: "database \<Rightarrow> org_unit_row \<Rightarrow> org_unit_update \<Rightarrow> org_unit_row http" where
  "updated_unit db u up =
    bindE (case ouu_site up of None \<Rightarrow> Inr (unit_site u) | Some s \<Rightarrow> site_text s) (\<lambda>site.
    bindE (case ouu_name up of
             None \<Rightarrow> Inr (unit_name u)
           | Some None \<Rightarrow> Inl (HTTPException 500 ''no name'')
           | Some (Some t) \<Rightarrow> text_field 150 t) (\<lambda>name.
    let u1 = u\<lparr>unit_site := site, unit_name := name,
               unit_is_active := (case ouu_is_active up of Some (Some b) \<Rightarrow> b | _ \<Rightarrow> unit_is_active u),
               is_hr_unit := (case ouu_is_hr_unit up of Some (Some b) \<Rightarrow> b | _ \<Rightarrow> is_hr_unit u)\<rparr>
    in bindE (raise_if (ouu_is_active up = Some None \<or> ouu_is_hr_unit up = Some None \<or> unit_clash db u1)
                (HTTPException 400 ''unit exists'')) (\<lambda>_. Inr u1)))"

definition update_org_unit ::
  "database \<Rightarrow> current_user \<Rightarrow> int \<Rightarrow> org_unit_update \<Rightarrow> (database \<times> org_unit_read) http" where
  "update_org_unit db user k up =
    bindE (units_guard db user) (\<lambda>_.
    bindE (or_raise (row_get unit_id (t_org_units db) k) (HTTPException 404 ''no such unit'')) (\<lambda>u.
    bindE (updated_unit db u up) (\<lambda>u1.
    let old = unit_full_name u; new = unit_full_name u1;
        moved = (if new \<noteq> old then people_in db old else 0);
        db1 = db\<lparr>t_org_units := row_put unit_id u1 (t_org_units db)\<rparr>;
        db2 = (if new \<noteq> old then rename_unit old new db1 else db1);
        db3 = log_event (cu_id user) ''org_unit_updated'' None (Some [(''full_name'', JString old)])
                (Some [(''id'', JInt (unit_id u1)), (''full_name'', JString new), (''personnel_moved'', JInt (int moved))]) db2
    in Inr (db3, to_read db3 u1))))"

definition delete_org_unit :: "database \<Rightarrow> current_user \<Rightarrow> int \<Rightarrow> database http" where
  "delete_org_unit db user k =
    bindE (units_guard db user) (\<lambda>_.
    bindE (or_raise (row_get unit_id (t_org_units db) k) (HTTPException 404 ''no such unit'')) (\<lambda>u.
    bindE (raise_if (people_in db (unit_full_name u) \<noteq> 0) (HTTPException 409 ''unit in use'')) (\<lambda>_.
    Inr (log_event (cu_id user) ''org_unit_deleted'' None
           (Some [(''id'', JInt k), (''full_name'', JString (unit_full_name u))]) None
           (db\<lparr>t_org_units := filter (\<lambda>x. unit_id x \<noteq> k) (t_org_units db)\<rparr>)))))"

section \<open>Capabilities\<close>

fun capability_value :: "capability \<Rightarrow> string" where
  "capability_value Manage_users = ''manage_users''"
| "capability_value Manage_capabilities = ''manage_capabilities''"
| "capability_value Manage_scoring = ''manage_scoring''"
| "capability_value Manage_integrations = ''manage_integrations''"
| "capability_value View_audit_log = ''view_audit_log''"
| "capability_value Manage_modules = ''manage_modules''"
| "capability_value View_diagnostics = ''view_diagnostics''"
| "capability_value Manage_personnel = ''manage_personnel''"
| "capability_value Manage_ai = ''manage_ai''"

definition ALL_CAPABILITIES :: "capability list" where
  "ALL_CAPABILITIES = [Manage_users, Manage_capabilities, Manage_scoring, Manage_integrations, View_audit_log,
     Manage_modules, View_diagnostics, Manage_personnel, Manage_ai]"

definition sorted_values :: "capability set \<Rightarrow> string list" where
  "sorted_values s = sort (map capability_value (filter (\<lambda>c. c \<in> s) ALL_CAPABILITIES))"

definition my_permissions :: "database \<Rightarrow> current_user \<Rightarrow> string list \<times> (string \<times> bool) list" where
  "my_permissions db user = (sorted_values (capabilities_of db (cu_id user)), module_states db)"

definition CHAIN_ROLES :: "user_role list" where
  "CHAIN_ROLES = [Role_hr, Role_unit_supervisor, Role_deputy, Role_ceo]"

definition RULE_CHANGING :: "capability list" where
  "RULE_CHANGING = [Manage_scoring, Manage_capabilities]"

record separation_status =
  separated :: bool
  overlapping_users :: "(utext \<times> user_role \<times> string list) list"
  dedicated_admin_count :: nat

definition is_overlapping :: "database \<Rightarrow> user \<Rightarrow> bool" where
  "is_overlapping db u \<longleftrightarrow>
    user_role u \<in> set CHAIN_ROLES \<and> list_ex (\<lambda>c. c \<in> capabilities_of db (user_id u)) RULE_CHANGING"

definition read_separation :: "database \<Rightarrow> current_user \<Rightarrow> separation_status http" where
  "read_separation db user =
    bindE (require_capability [Manage_capabilities] db user) (\<lambda>_.
    let users = filter user_is_active (t_users db);
        overlapping = filter (is_overlapping db) users
    in Inr \<lparr>separated = (overlapping = []),
         overlapping_users = map (\<lambda>u. (username u, user_role u,
           sorted_values (capabilities_of db (user_id u) \<inter> set RULE_CHANGING))) overlapping,
         dedicated_admin_count =
           length (filter (\<lambda>u. user_role u = Role_support \<and> capabilities_of db (user_id u) \<noteq> {}) users)\<rparr>)"

record capability_holder =
  hol_user_id :: int
  hol_username :: utext
  hol_display_name :: utext
  hol_role :: user_role
  hol_is_active :: bool
  hol_capabilities :: "string list"

definition holder_of :: "database \<Rightarrow> user \<Rightarrow> capability set \<Rightarrow> capability_holder" where
  "holder_of db u caps =
    \<lparr>hol_user_id = user_id u, hol_username = username u, hol_display_name = display_name db u,
     hol_role = user_role u, hol_is_active = user_is_active u, hol_capabilities = sorted_values caps\<rparr>"

text \<open>The roles in the order of the enumeration of the database, which sorts the list.\<close>

fun role_rank :: "user_role \<Rightarrow> nat" where
  "role_rank Role_unit_supervisor = 0" | "role_rank Role_hr = 1" | "role_rank Role_deputy = 2"
| "role_rank Role_ceo = 3" | "role_rank Role_employee = 4" | "role_rank Role_support = 5"

definition list_capability_holders :: "database \<Rightarrow> current_user \<Rightarrow> capability_holder list http" where
  "list_capability_holders db user =
    bindE (require_capability [Manage_capabilities] db user) (\<lambda>_.
    Inr (map (\<lambda>u. holder_of db u (capabilities_of db (user_id u)))
      (sort_key (\<lambda>u. role_rank (user_role u)) (sort_key username
        (filter (\<lambda>u. user_role u \<noteq> Role_employee) (t_users db))))))"

definition others_can_grant :: "database \<Rightarrow> int \<Rightarrow> bool" where
  "others_can_grant db k \<longleftrightarrow>
    list_ex (\<lambda>u. user_id u \<noteq> k \<and> user_is_active u \<and> Manage_capabilities \<in> capabilities_of db (user_id u)) (t_users db)"

text \<open>The new rows get identifiers of the sequence; \<open>desired - current\<close> is inserted in some order.\<close>

primrec granted_rows :: "int \<Rightarrow> int \<Rightarrow> int \<Rightarrow> capability list \<Rightarrow> user_capability list" where
  "granted_rows actor k first [] = []"
| "granted_rows actor k first (c # cs) =
    \<lparr>cap_id = first, cap_user_id = k, cap_capability = c, granted_by_user_id = Some actor\<rparr> #
    granted_rows actor k (first + 1) cs"

definition grant_exactly :: "int \<Rightarrow> int \<Rightarrow> capability set \<Rightarrow> database \<Rightarrow> database" where
  "grant_exactly actor k desired db =
    (let current = capabilities_of db k;
         kept = filter (\<lambda>c. \<not> (cap_user_id c = k \<and> cap_capability c \<notin> desired)) (t_capabilities db);
         new = filter (\<lambda>c. c \<in> desired \<and> c \<notin> current) ALL_CAPABILITIES
     in db\<lparr>t_capabilities := kept @ granted_rows actor k (next_id cap_id (t_capabilities db)) new\<rparr>)"

definition set_capabilities ::
  "database \<Rightarrow> current_user \<Rightarrow> int \<Rightarrow> capability list \<Rightarrow> (database \<times> capability_holder) http" where
  "set_capabilities db user k given =
    bindE (require_capability [Manage_capabilities] db user) (\<lambda>_.
    bindE (or_raise (get_user db k) (HTTPException 404 ''no such user'')) (\<lambda>u.
    bindE (raise_if (user_role u = Role_employee) (HTTPException 400 ''employees hold no capabilities'')) (\<lambda>_.
    let desired = set given; current = capabilities_of db k
    in bindE (raise_if (k = cu_id user \<and> \<not> desired \<subseteq> current) (HTTPException 403 ''granting oneself'')) (\<lambda>_.
       bindE (raise_if (Manage_capabilities \<in> current \<and> Manage_capabilities \<notin> desired \<and> \<not> others_can_grant db k)
                (HTTPException 400 ''last to grant'')) (\<lambda>_.
       Inr (log_event (cu_id user) ''capabilities_changed'' None
              (Some [(''user'', JString (username u)), (''capabilities'', JArray (map jstr (sorted_values current)))])
              (Some [(''user'', JString (username u)), (''capabilities'', JArray (map jstr (sorted_values desired)))])
              (grant_exactly (cu_id user) k desired db), holder_of db u desired))))))"

section \<open>Modules\<close>

record module_state =
  mst_key :: string
  mst_enabled :: bool
  mst_requires :: "string list"
  mst_blocked_by :: "string list"
  mst_dependents :: "string list"

definition module_state_of :: "database \<Rightarrow> module_def \<Rightarrow> bool \<Rightarrow> module_state" where
  "module_state_of db m enabled =
    \<lparr>mst_key = mod_key m, mst_enabled = enabled, mst_requires = mod_requires m,
     mst_blocked_by = filter (\<lambda>r. map_of (module_states db) r \<noteq> Some True) (mod_requires m),
     mst_dependents = dependents_of (mod_key m)\<rparr>"

definition list_modules :: "database \<Rightarrow> current_user \<Rightarrow> module_state list http" where
  "list_modules db user =
    bindE (require_capability [Manage_modules] db user) (\<lambda>_.
    Inr (map (\<lambda>m. module_state_of db m (stored_module_state db (mod_key m) = Some True)) MODULES))"

definition store_module :: "string \<Rightarrow> bool \<Rightarrow> int \<Rightarrow> database \<Rightarrow> database" where
  "store_module k enabled actor db =
    (let row = \<lparr>module_key = k, module_enabled = enabled, module_updated_by_user_id = Some actor\<rparr>
     in db\<lparr>t_modules := (if list_ex (\<lambda>r. module_key r = k) (t_modules db)
            then map (\<lambda>r. if module_key r = k then row else r) (t_modules db) else t_modules db @ [row])\<rparr>)"

definition toggle_module ::
  "database \<Rightarrow> current_user \<Rightarrow> string \<Rightarrow> bool \<Rightarrow> (database \<times> module_state) http" where
  "toggle_module db user k enabled =
    bindE (require_capability [Manage_modules] db user) (\<lambda>_.
    bindE (or_raise (module_by_key k) (HTTPException 404 ''no such module'')) (\<lambda>m.
    let was = (case stored_states db k of None \<Rightarrow> default_enabled m | Some b \<Rightarrow> b);
        db1 = log_event (cu_id user) ''module_toggled'' None
                (Some [(''module'', jstr k), (''enabled'', JBool was)])
                (Some [(''module'', jstr k), (''enabled'', JBool enabled)]) (store_module k enabled (cu_id user) db)
    in Inr (db1, module_state_of db1 m enabled)))"

section \<open>Who may grant\<close>

lemma capabilities_cong: "t_capabilities db' = t_capabilities db \<Longrightarrow> capabilities_of db' = capabilities_of db"
  by (simp add: capabilities_of_def fun_eq_iff)

lemma all_capabilities: "c \<in> set ALL_CAPABILITIES"
  by (cases c) (simp_all add: ALL_CAPABILITIES_def)

lemma capabilities_of_granted:
  "map cap_capability (filter (\<lambda>row. cap_user_id row = j) (granted_rows actor k first cs)) = (if j = k then cs else [])"
proof (cases "j = k")
  case True
  show ?thesis unfolding True by (induction cs arbitrary: first) simp_all
next
  case False
  then show ?thesis by (induction cs arbitrary: first) simp_all
qed

lemma grant_exactly_capabilities:
  "capabilities_of (grant_exactly actor k desired db) j = (if j = k then desired else capabilities_of db j)"
proof -
  have "capabilities_of (grant_exactly actor k desired db) j =
      set (map cap_capability (filter (\<lambda>c. cap_user_id c = j) (filter (\<lambda>c. \<not> (cap_user_id c = k \<and> cap_capability c \<notin> desired))
        (t_capabilities db)))) \<union>
      (if j = k then {c \<in> desired. c \<notin> capabilities_of db k} else {})"
    using all_capabilities
    by (auto simp: grant_exactly_def Let_def capabilities_of_def [of "_\<lparr>t_capabilities := _\<rparr>"] capabilities_of_granted
        simp del: set_map)
  also have "\<dots> = (if j = k then desired else capabilities_of db j)" by (auto simp: capabilities_of_def)
  finally show ?thesis .
qed

lemma capabilities_of_log [simp]: "capabilities_of (log_event a e r old new db) = capabilities_of (db :: database)"
  by (simp add: capabilities_of_def fun_eq_iff)

lemma grant_exactly_users [simp]: "t_users (grant_exactly actor k desired db) = t_users db"
  by (simp add: grant_exactly_def Let_def)

lemma set_capabilities_InrD:
  assumes "set_capabilities db user k given = Inr (db', holder)"
  shows "Manage_capabilities \<in> capabilities_of db (cu_id user)" and "t_users db' = t_users db"
    and "capabilities_of db' j = (if j = k then set given else capabilities_of db j)"
    and "k = cu_id user \<Longrightarrow> set given \<subseteq> capabilities_of db k"
    and "Manage_capabilities \<in> capabilities_of db k \<Longrightarrow> Manage_capabilities \<in> set given \<or> others_can_grant db k"
    and "\<exists>u. get_user db k = Some u \<and> user_role u \<noteq> Role_employee"
  using assms by (auto simp: set_capabilities_def require_capability_iff Let_def grant_exactly_capabilities)

text \<open>
  Changing the capabilities of an account takes somebody who may grant, leaves it with exactly the given
  ones and everybody else with the same ones; nobody adds to the own.
\<close>

theorem capabilities_are_set_exactly:
  assumes "set_capabilities db user k given = Inr (db', holder)"
  shows "Manage_capabilities \<in> capabilities_of db (cu_id user) \<and> capabilities_of db' k = set given \<and>
    (\<forall>j. j \<noteq> k \<longrightarrow> capabilities_of db' j = capabilities_of db j) \<and>
    capabilities_of db' (cu_id user) \<inter> (- capabilities_of db (cu_id user)) = {}"
  using set_capabilities_InrD(1,3) [OF assms] set_capabilities_InrD(4) [OF assms] by auto

text \<open>Some active account may grant capabilities.\<close>

definition somebody_can_grant :: "database \<Rightarrow> bool" where
  "somebody_can_grant db \<longleftrightarrow>
    list_ex (\<lambda>u. user_is_active u \<and> Manage_capabilities \<in> capabilities_of db (user_id u)) (t_users db)"

text \<open>
  However capabilities are granted and withdrawn, somebody active can still grant them.\<close>

theorem granting_never_locks_out:
  assumes "(\<lambda>db db'. \<exists>user k given holder. set_capabilities db user k given = Inr (db', holder))\<^sup>*\<^sup>* db db'"
    and "somebody_can_grant db"
  shows "somebody_can_grant db'"
  using assms
proof (induction rule: rtranclp_induct)
  case (step d d')
  then obtain user k given holder where s: "set_capabilities d user k given = Inr (d', holder)" by blast
  note facts = set_capabilities_InrD [OF s]
  from step obtain u where u: "u \<in> set (t_users d)" "user_is_active u" "Manage_capabilities \<in> capabilities_of d (user_id u)"
    by (auto simp: somebody_can_grant_def list_ex_iff)
  show ?case
  proof (cases "user_id u = k \<and> Manage_capabilities \<notin> set given")
    case True
    with u(3) facts(5) obtain v where "v \<in> set (t_users d)" "user_id v \<noteq> k" "user_is_active v"
      "Manage_capabilities \<in> capabilities_of d (user_id v)" by (auto simp: others_can_grant_def list_ex_iff)
    then show ?thesis by (auto simp: somebody_can_grant_def list_ex_iff facts(2,3))
  next
    case False
    with u show ?thesis by (auto simp: somebody_can_grant_def list_ex_iff facts(2,3))
  qed
qed simp

section \<open>Separation of duties\<close>

text \<open>The user of a request of an active account.\<close>

definition as_current_user :: "user \<Rightarrow> current_user" where
  "as_current_user u = \<lparr>cu_id = user_id u, cu_role = user_role u, cu_personnel_id = user_personnel_id u\<rparr>"

text \<open>
  When the page reports separation, no active account with a seat in the chain passes the guard of an
  endpoint that changes the rules of scoring or hands out capabilities.
\<close>

theorem separation_is_real:
  assumes "read_separation db user = Inr report" and "separated report"
    and "u \<in> set (t_users db)" and "user_is_active u" and "user_role u \<in> set CHAIN_ROLES"
  shows "require_capability [Manage_scoring] db (as_current_user u) = Inl (HTTPException 403 ''capability'') \<and>
    require_capability [Manage_capabilities] db (as_current_user u) = Inl (HTTPException 403 ''capability'')"
proof -
  have "filter (is_overlapping db) (filter user_is_active (t_users db)) = []"
    using assms(1,2) by (auto simp: read_separation_def Let_def)
  then have "\<not> is_overlapping db u" using assms(3,4) by (auto simp: filter_empty_conv)
  then show ?thesis
    using assms(5) by (auto simp: is_overlapping_def RULE_CHANGING_def require_capability_def as_current_user_def)
qed

section \<open>Switching modules\<close>

lemma find_map_key:
  "key x = k \<Longrightarrow> find (\<lambda>r. key r = j) (map (\<lambda>r. if key r = k then x else r) rows) =
    (if j = k then if list_ex (\<lambda>r. key r = k) rows then Some x else None else find (\<lambda>r. key r = j) rows)"
  by (induction rows) auto

lemma stored_states_store:
  "stored_states (store_module k enabled actor db) j = (if j = k then Some enabled else stored_states db j)"
proof (cases "list_ex (\<lambda>r. module_key r = k) (t_modules db)")
  case True
  then show ?thesis by (simp add: stored_states_def store_module_def Let_def find_map_key)
next
  case False
  then have "find (\<lambda>r. module_key r = k) (t_modules db) = None" by (auto simp: find_None_iff list_ex_iff)
  with False show ?thesis by (auto simp: stored_states_def store_module_def Let_def find_snoc split: option.splits)
qed

text \<open>
  A switch changes exactly one module's own setting: another module is on afterwards exactly when it is
  set, and every module it requires is; what requires a module that is switched off is off.
\<close>

theorem toggling_a_module:
  assumes "toggle_module db user k enabled = Inr (db', shown)" and "module_by_key j = Some m"
  shows "is_module_enabled db' j \<longleftrightarrow>
    (if j = k then enabled else stored_module_state db j = Some True) \<and>
    list_all (\<lambda>r. if r = k then enabled else stored_module_state db r = Some True) (mod_requires m)"
proof -
  from assms(1) have "t_modules db' = t_modules (store_module k enabled (cu_id user) db)"
    by (auto simp: toggle_module_def Let_def)
  then have "stored_states db' = stored_states (store_module k enabled (cu_id user) db)"
    by (simp add: stored_states_def fun_eq_iff)
  then have states: "stored_module_state db' i = (if i = k then Some enabled else stored_module_state db i)"
    if "module_by_key i \<noteq> None" for i
    using that by (auto simp: stored_module_state_def stored_states_store split: option.splits)
  have "list_all (\<lambda>m. list_all (\<lambda>r. module_by_key r \<noteq> None) (mod_requires m)) MODULES"
    by (simp add: module_by_key_def MODULES_def)
  moreover have "m \<in> set MODULES" using assms(2) by (auto simp: module_by_key_def find_Some_iff in_set_conv_nth)
  ultimately have "module_by_key r \<noteq> None" if "r \<in> set (mod_requires m)" for r
    using that by (auto simp: list_all_iff)
  with states show ?thesis
    using assms(2) by (auto simp: is_module_enabled_def unmet_requirements_def list_all_iff filter_empty_conv)
qed

section \<open>Units and their people\<close>

definition catalogued :: "database \<Rightarrow> utext \<Rightarrow> bool" where
  "catalogued db name \<longleftrightarrow> list_ex (\<lambda>u. unit_full_name u = name) (t_org_units db)"

datatype unit_request =
    Create_unit "utext option" utext
  | Update_unit int org_unit_update
  | Delete_unit int

fun handle_units :: "current_user \<Rightarrow> unit_request \<Rightarrow> database \<Rightarrow> database http" where
  "handle_units user (Create_unit site name) db = map_sum id fst (create_org_unit db user site name)"
| "handle_units user (Update_unit k up) db = map_sum id fst (update_org_unit db user k up)"
| "handle_units user (Delete_unit k) db = delete_org_unit db user k"

text \<open>
  Creating, renaming and deleting units keeps everybody, in the same order and with the same data but the
  name of the unit, and nobody whose unit was in the catalogue ends in one that is not.
\<close>

lemma updated_unit_id: "updated_unit db u up = Inr u1 \<Longrightarrow> unit_id u1 = unit_id u"
  by (auto simp: updated_unit_def Let_def)

lemma put_unit_catalogued:
  assumes "row_get unit_id (t_org_units db) (unit_id u1) = Some u" and "distinct (map unit_id (t_org_units db))"
  shows "catalogued (db\<lparr>t_org_units := row_put unit_id u1 (t_org_units db)\<rparr>) name \<longleftrightarrow>
    name = unit_full_name u1 \<or> list_ex (\<lambda>x. unit_id x \<noteq> unit_id u1 \<and> unit_full_name x = name) (t_org_units db)"
proof -
  have "u \<in> set (t_org_units db)" "unit_id u = unit_id u1" using row_get_SomeD [OF assms(1)] by auto
  then show ?thesis by (auto simp: catalogued_def list_ex_iff row_put_def)
qed

lemma map_sum_Inr_iff: "map_sum id f x = Inr y \<longleftrightarrow> (\<exists>z. x = Inr z \<and> y = f z)"
  by (cases x) auto

theorem nobody_loses_the_unit:
  assumes "handle_units user q db = Inr db'" and "distinct (map unit_id (t_org_units db))"
  shows "list_all2 (\<lambda>p p'. p' = p\<lparr>org_unit := org_unit p'\<rparr> \<and>
      (catalogued db (org_unit p) \<longrightarrow> catalogued db' (org_unit p'))) (t_personnel db) (t_personnel db')"
proof (cases q)
  case (Create_unit site name)
  with assms(1) obtain r where "create_org_unit db user site name = Inr (db', r)" by (auto simp: map_sum_Inr_iff)
  then have "t_personnel db' = t_personnel db" "\<exists>u. t_org_units db' = t_org_units db @ [u]"
    by (auto simp: create_org_unit_def Let_def)
  then show ?thesis by (auto simp: list_all2_same catalogued_def)
next
  case (Update_unit k up)
  with assms(1) obtain r where "update_org_unit db user k up = Inr (db', r)" by (auto simp: map_sum_Inr_iff)
  then obtain u u1 where u: "row_get unit_id (t_org_units db) k = Some u" "updated_unit db u up = Inr u1"
      "t_org_units db' = row_put unit_id u1 (t_org_units db)"
      "t_personnel db' = map (\<lambda>p. if org_unit p = unit_full_name u then p\<lparr>org_unit := unit_full_name u1\<rparr> else p) (t_personnel db)"
    by (auto simp: update_org_unit_def Let_def rename_unit_def map_idI split: if_splits)
  note k = row_get_SomeD(2) [OF u(1)] updated_unit_id [OF u(2)]
  have cat: "catalogued db' name \<longleftrightarrow> name = unit_full_name u1 \<or>
      list_ex (\<lambda>x. unit_id x \<noteq> unit_id u1 \<and> unit_full_name x = name) (t_org_units db)" for name
    using put_unit_catalogued [of db u1 u] assms(2) u(1) k by (simp add: catalogued_def u(3))
  have "unit_full_name x = unit_full_name u" if "x \<in> set (t_org_units db)" "unit_id x = unit_id u1" for x
    using that k u(1) row_get_distinct [OF assms(2), of k] by (metis option.inject)
  then show ?thesis
    by (auto simp: u(4) list_all2_map2 list_all2_same cat) (auto simp: catalogued_def list_ex_iff)
next
  case (Delete_unit k)
  with assms(1) obtain u where u: "row_get unit_id (t_org_units db) k = Some u" "people_in db (unit_full_name u) = 0"
      "t_personnel db' = t_personnel db" "t_org_units db' = filter (\<lambda>x. unit_id x \<noteq> k) (t_org_units db)"
    by (auto simp: delete_org_unit_def)
  have "unit_full_name x = unit_full_name u" if "x \<in> set (t_org_units db)" "unit_id x = k" for x
    using that u(1) row_get_distinct [OF assms(2), of k] by (metis option.inject)
  then have "catalogued db' name" if "catalogued db name" "name \<noteq> unit_full_name u" for name
    using that by (auto simp: catalogued_def list_ex_iff u(4))
  with u(2) show ?thesis by (auto simp: u(3) list_all2_same people_in_def filter_empty_conv)
qed

end
