(* ===== verification/Viewing.thy ===== *)
theory Viewing
  imports Organization Listing Sweeps Administration
begin

text \<open>
  Reading evaluation records and talking about them (\<open>app/api/routers/evaluations.py\<close>): which records a
  role sees in the list and which it may open, the filters of the list, the detail, the document, and
  comments with their replies.
\<close>

section \<open>The read models\<close>

text \<open>The columns that \<open>EvaluationRead\<close> does not have are emptied.\<close>

definition exposed :: "evaluation_record \<Rightarrow> evaluation_record" where
  "exposed r =
    r\<lparr>verify_token := None, scoring_scheme_id := None, indicator_framework_id := None, final_snapshot := None,
      stage_entered_at := 0, acknowledged_by_user_id := None, self_assessment_submitted_at := None,
      self_assessment_note := None, self_assessment_invited_at := None,
      self_assessment_invited_by_user_id := None, submission_extended_until := None,
      submission_extended_at := None, submission_extended_by_user_id := None,
      objection_resolved_by_user_id := None\<rparr>"

record evaluation_read =
  erd_record :: evaluation_record
  erd_subject_full_name :: "utext option"
  erd_hr_username :: "utext option"
  erd_hr_display_name :: "utext option"
  erd_single_decider :: bool
  erd_was_returned :: bool
  erd_submission_deadline :: "int option"
  erd_submission_deadline_extended :: bool

definition validate_read :: "database \<Rightarrow> evaluation_record \<Rightarrow> evaluation_read" where
  "validate_read db r =
    (let hr = Option.bind (hr_user_id r) (get_user db)
     in \<lparr>erd_record = exposed r,
         erd_subject_full_name = map_option personnel_full_name (get_personnel db (subject_personnel_id r)),
         erd_hr_username = map_option username hr, erd_hr_display_name = map_option (display_name db) hr,
         erd_single_decider = single_decider r, erd_was_returned = False,
         erd_submission_deadline = None, erd_submission_deadline_extended = False\<rparr>)"

definition to_read_model :: "database \<Rightarrow> evaluation_record \<Rightarrow> evaluation_read" where
  "to_read_model db r =
    (let w = window_for db r
     in (validate_read db r)\<lparr>erd_was_returned := was_returned db (record_id r),
          erd_submission_deadline := closes_on w, erd_submission_deadline_extended := extended w\<rparr>)"

record self_assessment_read =
  sar_submitted_at :: int
  sar_note :: "utext option"
  sar_scores :: "self_assessment_score list"

definition self_assessment_of :: "database \<Rightarrow> evaluation_record \<Rightarrow> self_assessment_read option" where
  "self_assessment_of db r =
    map_option (\<lambda>t. \<lparr>sar_submitted_at = t, sar_note = self_assessment_note r,
        sar_scores = filter (\<lambda>s. self_score_record_id s = record_id r) (t_self_scores db)\<rparr>)
      (self_assessment_submitted_at r)"

record evaluation_detail = evaluation_read +
  det_scores :: "evaluation_score list"
  det_comments :: "evaluation_comment list"
  det_self_assessment :: "self_assessment_read option"
  det_indicator_ids :: "int list"
  det_framework_version :: "int option"
  det_scoring_rules :: rules

definition to_detail :: "database \<Rightarrow> evaluation_record \<Rightarrow> current_user \<Rightarrow> evaluation_detail" where
  "to_detail db r user =
    evaluation_read.extend (to_read_model db r)
      (evaluation_detail.fields (scores_of db (record_id r))
        (sort_key comment_created_at (filter (\<lambda>c. comment_record_id c = record_id r) (t_comments db)))
        (if may_view r (cu_role user) then self_assessment_of db r else None)
        (sorted_list_of_set (indicator_ids_for_record db r))
        (map_option framework_version (Option.bind (indicator_framework_id r) (row_get framework_id (t_frameworks db))))
        (rules_for_record db r))"

definition read_evaluation :: "database \<Rightarrow> current_user \<Rightarrow> int \<Rightarrow> evaluation_detail http" where
  "read_evaluation db user k =
    bindE (get_record_or_404 db k) (\<lambda>r.
    bindE (ensure_can_view r user) (\<lambda>_.
    Inr (to_detail db r user)))"

section \<open>The list\<close>

text \<open>The condition that the query gets by the role; a comparison with a missing seat is not true.\<close>

definition scope_evaluations_for_role :: "database \<Rightarrow> current_user \<Rightarrow> (evaluation_record \<Rightarrow> bool) http" where
  "scope_evaluations_for_role db user =
    (case cu_role user of
       Role_hr \<Rightarrow> Inr (\<lambda>r. \<not> hr_panel_is_shielded r \<and>
         (case cu_personnel_id user of None \<Rightarrow> True | Some p \<Rightarrow> subject_personnel_id r \<noteq> p))
     | Role_unit_supervisor \<Rightarrow> Inr (\<lambda>r. unit_supervisor_user_id r = Some (cu_id user))
     | Role_deputy \<Rightarrow> Inr (\<lambda>r. deputy_user_id r = Some (cu_id user))
     | Role_ceo \<Rightarrow> Inr (\<lambda>r. ceo_user_id r = cu_id user)
     | Role_employee \<Rightarrow>
         (case cu_personnel_id user of
            None \<Rightarrow> Inr (\<lambda>_. False)
          | Some p \<Rightarrow> if \<not> subject_may_read_own_result db then Inr (\<lambda>_. False)
              else Inr (\<lambda>r. subject_personnel_id r = p \<and> status r = Finalized))
     | Role_support \<Rightarrow> Inl (HTTPException 403 ''no evaluations for this role''))"

record evaluation_filters =
  flt_q :: "utext option"
  flt_status :: "evaluation_status option"
  flt_org_unit :: "utext option"
  flt_created_from :: "int option"
  flt_created_to :: "int option"
  flt_min_final_pct :: "rat option"
  flt_max_final_pct :: "rat option"
  flt_subject_personnel_id :: "int option"
  flt_was_returned :: "bool option"
  flt_seat_user_id :: "int option"
  flt_on_ceo_desk :: bool

text \<open>What the database and the clock do for a query: the folding of case and the beginning of a local day.\<close>

record query_env =
  fold_case :: "utext \<Rightarrow> utext"
  local_day_start :: "int \<Rightarrow> int"

definition if_given :: "'a option \<Rightarrow> ('a \<Rightarrow> bool) \<Rightarrow> bool" where
  "if_given x p \<longleftrightarrow> (case x of None \<Rightarrow> True | Some v \<Rightarrow> p v)"

definition text_given :: "utext option \<Rightarrow> utext option" where
  "text_given x = (case x of Some t \<Rightarrow> if t = [] then None else Some t | None \<Rightarrow> None)"

definition has_seat :: "evaluation_record \<Rightarrow> int \<Rightarrow> bool" where
  "has_seat r u \<longleftrightarrow> list_ex (\<lambda>field. seat field r = Some u) [Unit_supervisor_user_id, Deputy_user_id, Ceo_user_id, Hr_user_id]"

definition passes_filters :: "query_env \<Rightarrow> database \<Rightarrow> evaluation_filters \<Rightarrow> evaluation_record \<Rightarrow> bool" where
  "passes_filters qe db f r \<longleftrightarrow>
    if_given (flt_status f) (\<lambda>s. status r = s) \<and>
    (text_given (flt_q f) = None \<and> text_given (flt_org_unit f) = None \<or> get_personnel db (subject_personnel_id r) \<noteq> None) \<and>
    if_given (text_given (flt_q f)) (\<lambda>q. ilike (fold_case qe) (strip q) (ascii (evaluation_code r)) \<or>
      ilike (fold_case qe) (strip q) (personnel_full_name (the (get_personnel db (subject_personnel_id r))))) \<and>
    if_given (text_given (flt_org_unit f)) (\<lambda>n. org_unit (the (get_personnel db (subject_personnel_id r))) = n) \<and>
    if_given (flt_created_from f) (\<lambda>d. local_day_start qe d \<le> created_at r) \<and>
    if_given (flt_created_to f) (\<lambda>d. created_at r < local_day_start qe (d + 1)) \<and>
    if_given (flt_min_final_pct f) (\<lambda>x. case final_weighted_pct r of None \<Rightarrow> False | Some y \<Rightarrow> x \<le> y) \<and>
    if_given (flt_max_final_pct f) (\<lambda>x. case final_weighted_pct r of None \<Rightarrow> False | Some y \<Rightarrow> y \<le> x) \<and>
    if_given (flt_subject_personnel_id f) (\<lambda>p. subject_personnel_id r = p) \<and>
    if_given (flt_seat_user_id f) (has_seat r) \<and>
    (flt_on_ceo_desk f \<longrightarrow> IS_ON_CEO_DESK r) \<and>
    if_given (flt_was_returned f) (\<lambda>b. was_returned db (record_id r) = b)"

definition apply_evaluation_filters ::
  "query_env \<Rightarrow> database \<Rightarrow> evaluation_filters \<Rightarrow> (evaluation_record \<Rightarrow> bool) \<Rightarrow> (evaluation_record \<Rightarrow> bool) http" where
  "apply_evaluation_filters qe db f scope =
    bindE (raise_if (case (flt_min_final_pct f, flt_max_final_pct f) of (Some a, Some b) \<Rightarrow> b < a | _ \<Rightarrow> False)
             (HTTPException 400 ''percentages'')) (\<lambda>_.
    bindE (raise_if (case (flt_created_from f, flt_created_to f) of (Some a, Some b) \<Rightarrow> b < a | _ \<Rightarrow> False)
             (HTTPException 400 ''dates'')) (\<lambda>_.
    Inr (\<lambda>r. scope r \<and> passes_filters qe db f r)))"

text \<open>\<open>ORDER BY created_at DESC\<close>.\<close>

definition newest_first :: "evaluation_record list \<Rightarrow> evaluation_record list" where
  "newest_first rs = sort_key (\<lambda>r. - created_at r) rs"

definition percentages_ok :: "evaluation_filters \<Rightarrow> unit http" where
  "percentages_ok f =
    raise_if (\<not> (if_given (flt_min_final_pct f) (\<lambda>x. 0 \<le> x \<and> x \<le> 100) \<and> if_given (flt_max_final_pct f) (\<lambda>x. 0 \<le> x \<and> x \<le> 100)))
      (HTTPException 422 ''percentage'')"

definition list_evaluations ::
  "query_env \<Rightarrow> database \<Rightarrow> current_user \<Rightarrow> evaluation_filters \<Rightarrow> nat \<Rightarrow> nat \<Rightarrow> (nat \<times> evaluation_read list) http" where
  "list_evaluations qe db user f limit offset =
    bindE (page_ok 200 limit) (\<lambda>_.
    bindE (percentages_ok f) (\<lambda>_.
    bindE (scope_evaluations_for_role db user) (\<lambda>scope.
    if cu_role user = Role_employee then Inr (0, [])
    else bindE (apply_evaluation_filters qe db f scope) (\<lambda>visible.
      let rows = filter visible (t_evaluations db);
          items = page limit offset (newest_first rows);
          returned_ids = set (filter (was_returned db) (map record_id items))
      in Inr (length rows, map (\<lambda>r. (validate_read db r)\<lparr>erd_was_returned := record_id r \<in> returned_ids\<rparr>) items)))))"

definition EXPORT_MAX_ROWS :: nat where "EXPORT_MAX_ROWS = 5000"

definition cap_rows :: "'a list \<Rightarrow> 'a list \<times> bool" where
  "cap_rows rows = (take EXPORT_MAX_ROWS rows, EXPORT_MAX_ROWS < length rows)"

text \<open>The rows of the spreadsheet and whether it says that it is cut off; its bytes are not modelled.\<close>

definition export_evaluations_excel ::
  "query_env \<Rightarrow> database \<Rightarrow> current_user \<Rightarrow> evaluation_filters \<Rightarrow> (database \<times> evaluation_record list \<times> bool) http" where
  "export_evaluations_excel qe db user f =
    bindE (require_roles [Role_hr] user) (\<lambda>_.
    bindE (percentages_ok f) (\<lambda>_.
    bindE (scope_evaluations_for_role db user) (\<lambda>scope.
    bindE (apply_evaluation_filters qe db
             (f\<lparr>flt_subject_personnel_id := None, flt_seat_user_id := None, flt_on_ceo_desk := False\<rparr>) scope) (\<lambda>visible.
    let (rows, truncated) = cap_rows (take (EXPORT_MAX_ROWS + 1) (newest_first (filter visible (t_evaluations db))))
    in Inr (log_event (cu_id user) ''excel_exported'' None None None db, rows, truncated)))))"

section \<open>The document\<close>

definition evaluation_summary_pdf ::
  "printer \<Rightarrow> platform \<Rightarrow> current_user \<Rightarrow> int \<Rightarrow> (platform \<times> nat list) http" where
  "evaluation_summary_pdf printer p user k =
    (let db = core p
     in bindE (get_record_or_404 db k) (\<lambda>r.
        let is_subject = (cu_personnel_id user \<noteq> None \<and> cu_personnel_id user = Some (subject_personnel_id r))
        in bindE (if is_subject then ensure_subject_may_read_own_result db
             else bindE (ensure_can_view r user) (\<lambda>_.
               raise_if (cu_role user \<noteq> Role_hr) (HTTPException 403 ''documents are for human resources''))) (\<lambda>_.
           bindE (raise_if (status r \<noteq> Finalized \<or> final_snapshot r = None) (HTTPException 400 ''not finalized'')) (\<lambda>_.
           bindE (raise_if (\<not> weasyprint_available printer) (HTTPException 500 ''no renderer'')) (\<lambda>_.
           let p1 = in_core (log_event (cu_id user) ''pdf_downloaded'' (Some (record_id r)) None
                 (Some [(''by_subject'', JBool is_subject)])) p
           in (case archive_final_pdf printer p1 r of
                 Inl _ \<Rightarrow> Inl (HTTPException 500 ''rendering'')
               | Inr (p2, None) \<Rightarrow> Inl (HTTPException 500 ''no document'')
               | Inr (p2, Some d) \<Rightarrow> Inr (p2, doc_bytes d)))))))"

section \<open>Comments\<close>

definition stage_by_role ::
  "evaluation_record \<Rightarrow> user_role \<Rightarrow> (comment_stage \<times> evaluation_status \<times> int option) option" where
  "stage_by_role r role =
    (case role of
       Role_hr \<Rightarrow> Some (Hr_review, Submitted, hr_user_id r)
     | Role_deputy \<Rightarrow> Some (Deputy_review, Hr_approved, deputy_user_id r)
     | Role_ceo \<Rightarrow> Some (Ceo_final, Deputy_approved, Some (ceo_user_id r))
     | _ \<Rightarrow> None)"

definition add_reply :: "env \<Rightarrow> database \<Rightarrow> current_user \<Rightarrow> evaluation_record \<Rightarrow> utext \<Rightarrow> int \<Rightarrow> database http" where
  "add_reply env db user r text parent_id =
    bindE (ensure_can_view r user) (\<lambda>_.
    bindE (or_raise (row_get comment_id (t_comments db) parent_id) (HTTPException 404 ''no such comment'')) (\<lambda>parent.
    bindE (raise_if (comment_record_id parent \<noteq> record_id r) (HTTPException 404 ''no such comment'')) (\<lambda>_.
    bindE (raise_if (parent_comment_id parent \<noteq> None) (HTTPException 400 ''a reply to a reply'')) (\<lambda>_.
    let db1 = log_event (cu_id user) ''comment_reply_added'' (Some (record_id r)) None
          (Some [(''parent_comment_id'', JInt parent_id), (''stage'', jstr (comment_stage_value (comment_stage_at parent)))])
          (add_comment env (record_id r) (cu_id user) (Some parent_id) (comment_stage_at parent) text db)
    in Inr (if commenter_user_id parent = cu_id user then db1
            else notify env [commenter_user_id parent] ''comment_reply_added'' (Some (record_id r))
                   (Some (''/evaluations/'' @ str_int (record_id r))) db1)))))"

text \<open>The first comment of human resources on an unclaimed record claims it.\<close>

definition post_comment ::
  "env \<Rightarrow> database \<Rightarrow> current_user \<Rightarrow> int \<Rightarrow> utext \<Rightarrow> int option \<Rightarrow> database http" where
  "post_comment env db user k raw parent =
    bindE (text_field COMMENT_MAX raw) (\<lambda>text.
    bindE (get_record_or_404 db k) (\<lambda>r.
    case parent of
      Some parent_id \<Rightarrow> add_reply env db user r text parent_id
    | None \<Rightarrow>
       bindE (ensure_hr_may_handle r user) (\<lambda>_.
       case stage_by_role r (cu_role user) of
         None \<Rightarrow> Inl (HTTPException 403 ''no comments by this role'')
       | Some (stage, required_status, required_user) \<Rightarrow>
          bindE (raise_if (status r \<noteq> required_status) (HTTPException 403 ''not at this stage'')) (\<lambda>_.
          bindE (if cu_role user = Role_hr \<and> required_user = None
             then Inr (log_event (cu_id user) ''hr_case_claimed'' (Some k) None
                    (Some [(''hr_user_id'', JInt (cu_id user)), (''implicit'', JBool True)])
                    (put_evaluation (r\<lparr>hr_user_id := Some (cu_id user)\<rparr>) db))
             else bindE (raise_if (required_user \<noteq> Some (cu_id user)) (HTTPException 403 ''not the owner of the stage''))
                    (\<lambda>_. Inr db)) (\<lambda>db1.
          Inr (log_event (cu_id user) ''comment_added'' (Some k) None
                 (Some [(''stage'', jstr (comment_stage_value stage))])
                 (add_comment env k (cu_id user) None stage text db1)))))))"

section \<open>What is listed can be opened\<close>

lemma can_view_iff:
  "ensure_can_view r user = Inr () \<longleftrightarrow>
    cu_personnel_id user \<noteq> Some (subject_personnel_id r) \<and>
    (if cu_role user = Role_hr then \<not> hr_panel_is_shielded r else cu_id user \<in> seats_in (chain_of r))"
  by (auto simp: ensure_can_view_def ensure_hr_may_handle_def ensure_not_deciding_about_oneself_def chain_of_def)

lemma seats_are_of_others:
  assumes "whole_wf db" and "r \<in> set (t_evaluations db)" and "u \<in> set (t_users db)" and "user_id u \<in> seats_in (chain_of r)"
  shows "user_personnel_id u \<noteq> Some (subject_personnel_id r)"
proof -
  have "may_sit db (user_id u) (subject_personnel_id r)"
    using assms by (auto simp: whole_wf_def org_wf_def sits_def)
  then show ?thesis using assms(3) by (auto simp: may_sit_def)
qed

lemma scope_can_view:
  assumes "whole_wf db" and "u \<in> set (t_users db)" and "scope_evaluations_for_role db (as_current_user u) = Inr scope"
    and "user_role u \<noteq> Role_employee" and "r \<in> set (t_evaluations db)"
  shows "scope r \<Longrightarrow> ensure_can_view r (as_current_user u) = Inr ()"
    and "user_role u = Role_hr \<Longrightarrow> ensure_can_view r (as_current_user u) = Inr () \<Longrightarrow> scope r"
proof -
  note others = seats_are_of_others [OF assms(1,5,2)]
  show "scope r \<Longrightarrow> ensure_can_view r (as_current_user u) = Inr ()"
    using assms(3,4) others
    by (cases "user_role u")
      (auto simp: can_view_iff scope_evaluations_for_role_def as_current_user_def chain_of_def split: option.splits)
  show "user_role u = Role_hr \<Longrightarrow> ensure_can_view r (as_current_user u) = Inr () \<Longrightarrow> scope r"
    using assms(3) by (auto simp: can_view_iff scope_evaluations_for_role_def as_current_user_def split: option.splits)
qed

definition no_filters :: evaluation_filters where
  "no_filters = \<lparr>flt_q = None, flt_status = None, flt_org_unit = None, flt_created_from = None, flt_created_to = None,
     flt_min_final_pct = None, flt_max_final_pct = None, flt_subject_personnel_id = None, flt_was_returned = None,
     flt_seat_user_id = None, flt_on_ceo_desk = False\<rparr>"

lemma passes_no_filters [simp]: "passes_filters qe db no_filters r"
  by (simp add: passes_filters_def no_filters_def if_given_def text_given_def)

lemma record_by_id:
  assumes "whole_wf db" and "r \<in> set (t_evaluations db)"
  shows "get_evaluation db (record_id r) = Some r"
  using assms by (auto simp: whole_wf_def system_wf_def records_wf_def get_evaluation_def row_get_distinct)

lemma listed_rows:
  assumes "list_evaluations qe db user f limit offset = Inr (matches, items)" and "cu_role user \<noteq> Role_employee"
  obtains scope rows where "scope_evaluations_for_role db user = Inr scope"
    and "rows = filter (\<lambda>r. scope r \<and> passes_filters qe db f r) (t_evaluations db)" and "matches = length rows"
    and "items = map (\<lambda>r. (validate_read db r)\<lparr>erd_was_returned := was_returned db (record_id r)\<rparr>)
      (page limit offset (newest_first rows))"
proof -
  obtain scope where s: "scope_evaluations_for_role db user = Inr scope"
    using assms by (auto simp: list_evaluations_def)
  define rows where "rows = filter (\<lambda>r. scope r \<and> passes_filters qe db f r) (t_evaluations db)"
  show ?thesis
    by (rule that [OF s rows_def]) (use assms s in \<open>auto simp: list_evaluations_def apply_evaluation_filters_def rows_def Let_def\<close>)
qed


section \<open>What a comment does\<close>

text \<open>A comment is allowed to the owner of the stage, a reply to whoever sees the record.\<close>

definition may_comment :: "evaluation_record \<Rightarrow> current_user \<Rightarrow> bool" where
  "may_comment r user \<longleftrightarrow>
    (case stage_by_role r (cu_role user) of
       None \<Rightarrow> False
     | Some (stage, required_status, required_user) \<Rightarrow>
        status r = required_status \<and> (required_user = Some (cu_id user) \<or> cu_role user = Role_hr \<and> required_user = None))"

lemma post_comment_InrE:
  assumes "post_comment env db user k raw parent = Inr db'"
  obtains (reply) r body p where "get_evaluation db k = Some r" and "parent = Some (comment_id p)"
      and "ensure_can_view r user = Inr ()" and "row_get comment_id (t_comments db) (comment_id p) = Some p"
      and "comment_record_id p = k" and "parent_comment_id p = None"
      and "only_messages (log_event (cu_id user) ''comment_reply_added'' (Some k) None
        (Some [(''parent_comment_id'', JInt (comment_id p)), (''stage'', jstr (comment_stage_value (comment_stage_at p)))])
        (add_comment env k (cu_id user) (Some (comment_id p)) (comment_stage_at p) body db)) db'"
  | (kept) r body stage where "get_evaluation db k = Some r" and "parent = None" and "ensure_hr_may_handle r user = Inr ()"
      and "may_comment r user" and "cu_role user = Role_hr \<longrightarrow> hr_user_id r = Some (cu_id user)"
      and "db' = log_event (cu_id user) ''comment_added'' (Some k) None (Some [(''stage'', jstr (comment_stage_value stage))])
        (add_comment env k (cu_id user) None stage body db)"
  | (claimed) r body where "get_evaluation db k = Some r" and "parent = None" and "ensure_hr_may_handle r user = Inr ()"
      and "may_comment r user" and "cu_role user = Role_hr" and "hr_user_id r = None" and "status r = Submitted"
      and "db' = log_event (cu_id user) ''comment_added'' (Some k) None (Some [(''stage'', jstr (comment_stage_value Hr_review))])
        (add_comment env k (cu_id user) None Hr_review body
          (log_event (cu_id user) ''hr_case_claimed'' (Some k) None
             (Some [(''hr_user_id'', JInt (cu_id user)), (''implicit'', JBool True)])
             (put_evaluation (r\<lparr>hr_user_id := Some (cu_id user)\<rparr>) db)))"
proof -
  obtain body r where body: "text_field COMMENT_MAX raw = Inr body" and r: "get_evaluation db k = Some r"
    using assms by (auto simp: post_comment_def get_record_or_404_def)
  have id: "record_id r = k" using r get_evaluation_id by blast
  show ?thesis
  proof (cases parent)
    case (Some j)
    with assms body r have add: "add_reply env db user r body j = Inr db'"
      by (simp add: post_comment_def get_record_or_404_def)
    then obtain p where p: "row_get comment_id (t_comments db) j = Some p" "comment_record_id p = k" "parent_comment_id p = None"
        "ensure_can_view r user = Inr ()"
      by (auto simp: add_reply_def id)
    have j: "comment_id p = j" using row_get_SomeD(2) [OF p(1)] .
    define db1 where "db1 = log_event (cu_id user) ''comment_reply_added'' (Some k) None
        (Some [(''parent_comment_id'', JInt (comment_id p)), (''stage'', jstr (comment_stage_value (comment_stage_at p)))])
        (add_comment env k (cu_id user) (Some (comment_id p)) (comment_stage_at p) body db)"
    have "db' = (if commenter_user_id p = cu_id user then db1
      else notify env [commenter_user_id p] ''comment_reply_added'' (Some k) (Some (''/evaluations/'' @ str_int k)) db1)"
      using add p by (auto simp: add_reply_def id j db1_def Let_def)
    then have "only_messages db1 db'" by (simp only:) (rule notify_if_messages)
    then show ?thesis using reply [OF r, of p body] Some j p by (simp add: db1_def)
  next
    case None
    with assms body r have "ensure_hr_may_handle r user = Inr ()" "may_comment r user"
      by (auto simp: post_comment_def get_record_or_404_def may_comment_def split: option.splits prod.splits if_splits)
    note who = this
    show ?thesis
    proof (cases "cu_role user = Role_hr \<and> hr_user_id r = None")
      case True
      with who(2) have "status r = Submitted" by (simp add: may_comment_def stage_by_role_def)
      with assms body r None True who have "db' = log_event (cu_id user) ''comment_added'' (Some k) None
        (Some [(''stage'', jstr (comment_stage_value Hr_review))])
        (add_comment env k (cu_id user) None Hr_review body
          (log_event (cu_id user) ''hr_case_claimed'' (Some k) None
             (Some [(''hr_user_id'', JInt (cu_id user)), (''implicit'', JBool True)])
             (put_evaluation (r\<lparr>hr_user_id := Some (cu_id user)\<rparr>) db)))"
        by (simp add: post_comment_def get_record_or_404_def stage_by_role_def)
      with claimed [OF r None who] True \<open>status r = Submitted\<close> show ?thesis by blast
    next
      case False
      obtain stage required owner where stage: "stage_by_role r (cu_role user) = Some (stage, required, owner)"
        "status r = required" "owner = Some (cu_id user)"
        using who(2) False by (auto simp: may_comment_def stage_by_role_def split: user_role.splits)
      have hr: "cu_role user = Role_hr \<longrightarrow> hr_user_id r = Some (cu_id user)"
        using stage(1,3) by (auto simp: stage_by_role_def)
      have "db' = log_event (cu_id user) ''comment_added'' (Some k) None
        (Some [(''stage'', jstr (comment_stage_value stage))]) (add_comment env k (cu_id user) None stage body db)"
        using assms body r None who(1) stage by (simp add: post_comment_def get_record_or_404_def)
      with kept [OF r None who hr] show ?thesis by blast
    qed
  qed
qed

lemma comment_operation:
  assumes "post_comment env db user k raw parent = Inr db'" and "whole_wf db"
  shows "whole_wf db' \<and> records_endure db db'"
  using assms(1)
proof (cases rule: post_comment_InrE)
  case (reply r body p)
  then have "same_records db db'" "same_organization db db'"
    by (simp_all add: same_records_def same_organization_def links_def only_messages_tables [OF reply(7)]
        log_wf_messages [OF reply(7)] log_event_wf)
  then show ?thesis using elsewhere_operation assms(2) by blast
next
  case (kept r body stage)
  then have "same_records db db'" "same_organization db db'"
    by (auto simp add: same_records_def same_organization_def links_def)
  then show ?thesis using elsewhere_operation assms(2) by blast
next
  case (claimed r body)
  then have "moves_record (cu_id user) db k db'"
    by (auto simp: is_open_def OPEN_STATUSES_def log_event_wf intro!: moves_recordI record_move.claim)
  then show ?thesis using moves_record_operation assms(2) by blast
qed

interpretation comments: system_operation "\<lambda>db db'. \<exists>env user k raw parent. post_comment env db user k raw parent = Inr db'"
  by unfold_locales (use comment_operation in blast)+

text \<open>
  C17. A comment is by the owner of the stage the record is in, a reply by somebody who sees the record; it is
  added at the end and changes nothing else of the records than that human resources, commenting first on
  an unclaimed record, become its owner.
\<close>

theorem comments_are_by_the_stage_owner:
  assumes "post_comment env db user k raw parent = Inr db'"
  shows "\<exists>r c. get_evaluation db k = Some r \<and> t_comments db' = t_comments db @ [c] \<and>
    commenter_user_id c = cu_id user \<and> comment_record_id c = k \<and> parent_comment_id c = parent \<and>
    cu_personnel_id user \<noteq> Some (subject_personnel_id r) \<and>
    (if parent = None then may_comment r user else ensure_can_view r user = Inr ()) \<and>
    t_evaluations db' = (if parent = None \<and> cu_role user = Role_hr \<and> hr_user_id r = None
      then row_put record_id (r\<lparr>hr_user_id := Some (cu_id user)\<rparr>) (t_evaluations db) else t_evaluations db)"
  using assms
proof (cases rule: post_comment_InrE)
  case (reply r body p)
  from reply(3) have "cu_personnel_id user \<noteq> Some (subject_personnel_id r)" by (simp add: can_view_iff)
  with reply show ?thesis by (auto simp: only_messages_tables [OF reply(7)] add_comment_def)
next
  case (kept r body stage)
  then show ?thesis by (auto simp: add_comment_def)
next
  case (claimed r body)
  then show ?thesis by (auto simp: add_comment_def put_evaluation_def)
qed

section \<open>Threads\<close>

text \<open>Every reply answers a comment of the same record that is no reply itself.\<close>

definition threads_wf :: "database \<Rightarrow> bool" where
  "threads_wf db \<longleftrightarrow> distinct (map comment_id (t_comments db)) \<and>
    list_all (\<lambda>c. case parent_comment_id c of None \<Rightarrow> True
      | Some j \<Rightarrow> list_ex (\<lambda>p. comment_id p = j \<and> parent_comment_id p = None \<and>
          comment_record_id p = comment_record_id c) (t_comments db)) (t_comments db)"

lemma threads_wf_add:
  assumes "threads_wf db" and "t_comments db' = t_comments db @ [c]" and "comment_id c = next_id comment_id (t_comments db)"
    and "case parent_comment_id c of None \<Rightarrow> True
      | Some j \<Rightarrow> list_ex (\<lambda>p. comment_id p = j \<and> parent_comment_id p = None \<and>
          comment_record_id p = comment_record_id c) (t_comments db)"
  shows "threads_wf db'"
  using assms next_id_not_in [of comment_id "t_comments db"]
  unfolding threads_wf_def list_all_iff by (auto split: option.splits)

lemma post_comment_threads:
  assumes "post_comment env db user k raw parent = Inr db'" and "threads_wf db"
  shows "threads_wf db'"
  using assms(1)
proof (cases rule: post_comment_InrE)
  case (reply r body p)
  have p: "p \<in> set (t_comments db)" using row_get_SomeD(1) [OF reply(4)] .
  show ?thesis
    by (rule threads_wf_add [OF assms(2)], simp add: only_messages_tables [OF reply(7)] add_comment_def)
      (use reply p in \<open>auto simp: list_ex_iff\<close>)
next
  case (kept r body stage)
  show ?thesis unfolding kept(6) by (rule threads_wf_add [OF assms(2)], simp add: add_comment_def) simp_all
next
  case (claimed r body)
  show ?thesis unfolding claimed(8)
    by (rule threads_wf_add [OF assms(2)], simp add: add_comment_def put_evaluation_def) simp_all
qed

end
