(* ===== verification/RecordRequests.thy ===== *)
theory RecordRequests
  imports Viewing RequestProperties
begin

text \<open>
  All requests on one record together, those of \<open>EvaluationSystem\<close> and the comments: what they may do to the
  record, and that human resources never use one on a record of their own.
\<close>

datatype record_request =
    Change request
  | Comment_on int utext "int option"

fun serve :: "env \<Rightarrow> current_user \<Rightarrow> record_request \<Rightarrow> database \<Rightarrow> database http" where
  "serve env user (Change q) db = handle env user q db"
| "serve env user (Comment_on k text parent) db = post_comment env db user k text parent"

fun about_record :: "record_request \<Rightarrow> int option" where
  "about_record (Change q) = request_record q"
| "about_record (Comment_on k text parent) = Some k"

fun is_comment :: "record_request \<Rightarrow> bool" where
  "is_comment (Change q) = False"
| "is_comment (Comment_on k text parent) = True"

fun saves_sheet :: "record_request \<Rightarrow> bool" where
  "saves_sheet (Change (Save_scores k items)) = True"
| "saves_sheet _ = False"

fun of_subject :: "record_request \<Rightarrow> bool" where
  "of_subject (Change q) = by_subject q"
| "of_subject (Comment_on k text parent) = False"

section \<open>Refinement\<close>

lemma moved_record:
  assumes "moves_record actor db k db'"
  shows "\<exists>r r'. get_evaluation db k = Some r \<and> get_evaluation db' k = Some r' \<and> record_move r r' \<and>
    t_evaluations db' = row_put record_id r' (t_evaluations db) \<and> t_scores db' = t_scores db"
proof -
  obtain r r' where r: "get_evaluation db k = Some r" "row_changed actor db r r' db'" "record_move r r'"
    using assms unfolding moves_record_def by blast
  moreover have "get_evaluation db' k = Some r'"
    using changed_record [OF r(2)] get_evaluation_id [OF r(1)] by simp
  ultimately show ?thesis unfolding row_changed_def by blast
qed

lemma comment_refines:
  assumes "post_comment env db user k raw parent = Inr db'"
  shows "\<exists>r r'. get_evaluation db k = Some r \<and> get_evaluation db' k = Some r' \<and> t_scores db' = t_scores db \<and>
    (record_move r r' \<and> t_evaluations db' = row_put record_id r' (t_evaluations db) \<or>
     r' = r \<and> t_evaluations db' = t_evaluations db)"
  using assms
proof (cases rule: post_comment_InrE)
  case (reply r body p)
  then show ?thesis
    by (intro exI [of _ r]) (simp add: only_messages_tables [OF reply(7)] get_evaluation_def)
next
  case (kept r body stage)
  then show ?thesis by (intro exI [of _ r]) (simp add: get_evaluation_def)
next
  case (claimed r body)
  then have "moves_record (cu_id user) db k db'"
    by (auto simp: is_open_def OPEN_STATUSES_def log_event_wf intro!: moves_recordI record_move.claim)
  then show ?thesis using moved_record by blast
qed

text \<open>
  C6. Refinement. A successful request on one record, whichever endpoint serves it, is of one of three
  kinds. The saving of a sheet leaves every record as it is, finds a draft, and changes only the scores of
  that record. A comment that does not claim the record leaves records and scores as they are. Every other
  request, a comment that claims included, takes the record from where it is to where the abstract machine
  \<open>record_move\<close> allows, and changes neither another record nor a score.
\<close>

theorem requests_refine_moves:
  assumes "serve env user q db = Inr db'" and "about_record q = Some k"
  shows "\<exists>r r'. get_evaluation db k = Some r \<and> get_evaluation db' k = Some r' \<and>
    (if saves_sheet q
     then r' = r \<and> status r = Draft \<and> t_evaluations db' = t_evaluations db \<and>
       (\<forall>j. j = k \<or> scores_of db' j = scores_of db j)
     else t_scores db' = t_scores db \<and>
       (record_move r r' \<and> t_evaluations db' = row_put record_id r' (t_evaluations db) \<or>
        is_comment q \<and> r' = r \<and> t_evaluations db' = t_evaluations db))"
proof (cases q)
  case (Comment_on j body parent)
  with assms comment_refines [of env db user k body parent db'] show ?thesis by auto
next
  case (Change c)
  show ?thesis
  proof (cases "saves_sheet q")
    case True
    then obtain items where "c = Save_scores k items" using Change assms(2) by (cases c) auto
    with Change assms(1) have u: "upsert_scores db user k items = Inr db'" by simp
    obtain r where "get_evaluation db k = Some r" "status r = Draft" "t_evaluations db' = t_evaluations db"
      "\<And>j. j \<noteq> k \<Longrightarrow> scores_of db' j = scores_of db j"
      by (rule upsert_scores_InrD [OF u]) blast
    with True show ?thesis by (intro exI [of _ r]) (auto simp: get_evaluation_def)
  next
    case False
    with Change have "\<not> (\<exists>items. c = Save_scores k items)" by auto
    with Change assms have "moves_record (cu_id user) db k db'" by (auto intro: request_moves_record)
    with moved_record False Change show ?thesis by fastforce
  qed
qed

section \<open>Human resources and their own records\<close>

lemma subject_request:
  assumes "handle env user c db = Inr db'" and "request_record c = Some k" and "by_subject c"
  shows "\<exists>r. get_evaluation db k = Some r \<and> cu_personnel_id user = Some (subject_personnel_id r)"
  using assms
  by (cases c) (auto simp: submit_self_assessment_def acknowledge_evaluation_def file_objection_def my_record_iff Let_def)

lemma hr_comment_handles:
  assumes "post_comment env db user k raw parent = Inr db'" and "cu_role user = Role_hr"
  shows "\<exists>r. get_evaluation db k = Some r \<and> ensure_hr_may_handle r user = Inr ()"
  using assms(1)
proof (cases rule: post_comment_InrE)
  case (reply r body p)
  then have "ensure_hr_may_handle r user = Inr ()" using assms(2) by (auto simp: can_view_iff)
  with reply(1) show ?thesis by blast
qed blast+

text \<open>
  C7. Human resources never decide about themselves: a request of a user of human resources on a
  record, comments and replies included, succeeds only if they are not its subject and it is not an open
  record of a member of human resources. The exception is what everybody does about their own
  record: to assess it themselves, to acknowledge it and to object to it; these succeed only for the subject.
\<close>

theorem hr_never_handles_its_own:
  assumes "serve env user q db = Inr db'" and "about_record q = Some k" and "cu_role user = Role_hr"
  shows "\<exists>r. get_evaluation db k = Some r \<and>
    (if of_subject q then cu_personnel_id user = Some (subject_personnel_id r)
     else cu_personnel_id user \<noteq> Some (subject_personnel_id r) \<and> \<not> (hr_review_skipped r \<and> is_open r))"
proof (cases "of_subject q")
  case True
  then obtain c where "q = Change c" "by_subject c" by (cases q) auto
  with assms subject_request [of env user c db db' k] True show ?thesis by auto
next
  case False
  have "\<exists>r. get_evaluation db k = Some r \<and> ensure_hr_may_handle r user = Inr ()"
  proof (cases q)
    case (Change c)
    with assms False hr_request_handles [of env user c db db' k] show ?thesis by simp
  next
    case (Comment_on j body parent)
    with assms hr_comment_handles [of env db user k body parent db'] show ?thesis by simp
  qed
  with False assms(3) show ?thesis
    by (auto simp: hr_panel_is_shielded_def skips_hr_review_def is_open_def)
qed

end
