(* ===== verification/Reminders.thy ===== *)
theory Reminders
  imports RecordRequests "HOL-Library.Sublist"
begin

text \<open>
  Reminders over time: runs of the sweeps on any clock and under changing settings, between the requests of users,
  none of which writes a reminder, and the deletion of accounts, which removes some.
\<close>

section \<open>Requests write no reminders\<close>

definition reminders :: "database \<Rightarrow> notification list" where
  "reminders db = filter is_reminder (t_notifications db)"

lemma reminders_cong: "t_notifications db' = t_notifications db \<Longrightarrow> reminders db' = reminders db"
  by (simp add: reminders_def)

lemma notify_one_reminders:
  "\<not> is_reminder \<lparr>notification_id = 0, ntf_user_id = 0, ntf_type = [], ntf_link = None, ntf_record_id = None, dedup_key = key,
      ntf_created_at = 0, read_at = None\<rparr> \<Longrightarrow>
    reminders (notify_one env kind rid link key u db) = reminders db"
  by (simp add: reminders_def notify_one_rows is_reminder_def)

lemma reminders_notify [simp]: "reminders (notify env us kind rid link db) = reminders db"
proof -
  have "reminders (fold (notify_one env kind rid link None) xs d) = reminders d" for xs d
    by (induction xs arbitrary: d) (simp_all add: notify_one_reminders is_reminder_def)
  then show ?thesis by (simp add: notify_def)
qed

lemma reminders_log [simp]: "reminders (log_event a e r old new db) = reminders db"
  by (rule reminders_cong) simp

lemma reminders_put [simp]: "reminders (put_evaluation r db) = reminders db"
  by (rule reminders_cong) (simp add: put_evaluation_def)

lemma reminders_comment [simp]: "reminders (add_comment env rid author parent stage text db) = reminders db"
  by (rule reminders_cong) (simp add: add_comment_def)

lemma reminders_workflow [simp]: "reminders (notify_for_workflow_action env r a db) = reminders db"
  by (simp add: notify_for_workflow_action_def Let_def)

lemma reminders_owner [simp]: "reminders (notify_stage_owner_reassigned env r u db) = reminders db"
  by (simp add: notify_stage_owner_reassigned_def Let_def)

lemma reminders_claim: "reminders (fst (claim_seat spec user (db, r))) = reminders db"
  by (simp add: claim_seat_def split: option.splits)

lemma transition_reminders:
  assumes "apply_transition env db r a user (Some hook) = Inr db'"
    and "\<And>d x d' x'. hook (d, x) = Inr (d', x') \<Longrightarrow> reminders d' = reminders d"
  shows "reminders db' = reminders db"
proof -
  obtain db1 r1 where "hook (claim_seat (TRANSITIONS a) user (db, r)) = Inr (db1, r1)"
    and db': "db' = notify_for_workflow_action env (enter_status env (to_status (TRANSITIONS a)) r1) a
       (log_event (cu_id user) ''status_changed'' (Some (record_id r1))
         (Some [(''status'', jstr (status_value (status r1)))])
         (Some [(''status'', jstr (status_value (to_status (TRANSITIONS a))))])
         (put_evaluation (enter_status env (to_status (TRANSITIONS a)) r1) db1))"
    by (rule apply_transition_hookD [OF assms(1)]) blast
  moreover obtain d x where "claim_seat (TRANSITIONS a) user (db, r) = (d, x)" by (meson surj_pair)
  ultimately have "reminders db1 = reminders (fst (claim_seat (TRANSITIONS a) user (db, r)))"
    using assms(2) by simp
  then show ?thesis by (simp add: db' reminders_claim)
qed

lemma reminders_tables [simp]:
  "reminders (db\<lparr>t_scores := a1\<rparr>) = reminders db" "reminders (db\<lparr>t_self_scores := a2\<rparr>) = reminders db"
  "reminders (db\<lparr>t_frameworks := a3\<rparr>) = reminders db" "reminders (db\<lparr>t_code_seq := a4\<rparr>) = reminders db"
  "reminders (db\<lparr>t_evaluations := a5\<rparr>) = reminders db" "reminders (db\<lparr>t_users := a6\<rparr>) = reminders db"
  "reminders (db\<lparr>t_sessions := a7\<rparr>) = reminders db" "reminders (db\<lparr>t_capabilities := a8\<rparr>) = reminders db"
  "reminders (db\<lparr>t_access := a9\<rparr>) = reminders db" "reminders (db\<lparr>t_personnel := a10\<rparr>) = reminders db"
  by (simp_all add: reminders_def)

lemma hook_reminders:
  "return_hook env k stage reason user (d, x) = Inr (d', x') \<Longrightarrow> reminders d' = reminders d"
  "cancel_hook env k reason user (d, x) = Inr (d', x') \<Longrightarrow> reminders d' = reminders d"
  "stamp_finalization env (d, x) = Inr (d', x') \<Longrightarrow> reminders d' = reminders d"
  "finalize_scoring d x user = Inr (d', x') \<Longrightarrow> reminders d' = reminders d"
  by (auto simp: return_hook_def cancel_hook_def stamp_finalization_def finalize_scoring_def Let_def split: sum.splits)

lemmas hooked =
  transition_reminders [OF _ hook_reminders(1)] transition_reminders [OF _ hook_reminders(2)]
  transition_reminders [OF _ hook_reminders(3)]

lemma plain_transition: "apply_transition env db r a user None = Inr db' \<Longrightarrow> reminders db' = reminders db"
  unfolding apply_transition_no_hook by (erule transition_reminders) simp

lemma framework_reminders [simp]:
  "bump actor kind remark db = (db1, f) \<Longrightarrow> reminders db1 = reminders db"
  "ensure_framework db = (db1, f) \<Longrightarrow> reminders db1 = reminders db"
  "next_evaluation_code db = (db1, code) \<Longrightarrow> reminders db1 = reminders db"
  "reminders (add_evaluation r db) = reminders db"
  by (auto simp: bump_def ensure_framework_def next_evaluation_code_def add_evaluation_def Let_def
      split: option.splits if_splits)

lemma create_reminders: "create_evaluation env db user p = Inr (db', k) \<Longrightarrow> reminders db' = reminders db"
  by (cases "ensure_framework db"; cases "next_evaluation_code (fst (ensure_framework db))")
    (auto simp: create_evaluation_def Let_def)

lemma scores_reminders: "upsert_scores db user k items = Inr db' \<Longrightarrow> reminders db' = reminders db"
  by (auto simp: upsert_scores_def replace_scores_def Let_def)

lemma submit_reminders: "submit_evaluation env db user k = Inr db' \<Longrightarrow> reminders db' = reminders db"
  unfolding submit_evaluation_def by (auto elim!: transition_reminders dest: hook_reminders)

lemma approval_reminders:
  "hr_approve env db user k = Inr db' \<Longrightarrow> reminders db' = reminders db"
  "deputy_approve env db user k = Inr db' \<Longrightarrow> reminders db' = reminders db"
  "ceo_finalize env db user k = Inr db' \<Longrightarrow> reminders db' = reminders db"
  by (auto simp: hr_approve_def deputy_approve_def ceo_finalize_def split: if_splits dest: hooked(3) plain_transition)

lemma return_reminders: "return_evaluation env db user k given = Inr db' \<Longrightarrow> reminders db' = reminders db"
  by (auto simp: return_evaluation_def do_return_def Let_def split: option.splits dest: hooked(1))

lemma cancel_reminders: "cancel_evaluation env db user k given = Inr db' \<Longrightarrow> reminders db' = reminders db"
  by (auto simp: cancel_evaluation_def split: if_splits dest: hooked(2))

lemma reminders_if [simp]: "reminders (if b then x else y) = (if b then reminders x else reminders y)"
  by simp

lemma scoring_reminders:
  "set_evaluator_comment db user k body = Inr db' \<Longrightarrow> reminders db' = reminders db"
  "set_special_score env db user k points reason = Inr db' \<Longrightarrow> reminders db' = reminders db"
  by (auto simp: set_evaluator_comment_def set_special_score_def Let_def)

lemma extend_reminders: "extend_submission_window env db user k until given = Inr db' \<Longrightarrow> reminders db' = reminders db"
  by (auto simp: extend_submission_window_def Let_def)

lemma claim_reminders:
  "hr_claim db user k = Inr db' \<Longrightarrow> reminders db' = reminders db"
  "hr_handover env db user k u given = Inr db' \<Longrightarrow> reminders db' = reminders db"
  by (auto simp: hr_claim_def hr_handover_def Let_def split del: if_split)

lemma answer_reminders: "resolve_objection env db user k given = Inr db' \<Longrightarrow> reminders db' = reminders db"
  by (auto simp: resolve_objection_def Let_def split del: if_split)
    (simp_all only: reminders_if reminders_notify reminders_log reminders_put if_cancel)

lemma reassign_reminders: "reassign_stage_owner env db user k field u given = Inr db' \<Longrightarrow> reminders db' = reminders db"
  by (auto simp: reassign_stage_owner_def Let_def split del: if_split)

lemmas administration_reminders =
  scoring_reminders extend_reminders claim_reminders answer_reminders reassign_reminders

lemma subject_reminders:
  "submit_self_assessment env db user k items remark = Inr db' \<Longrightarrow> reminders db' = reminders db"
  "acknowledge_evaluation env db user k = Inr db' \<Longrightarrow> reminders db' = reminders db"
  "file_objection env db user k reason = Inr db' \<Longrightarrow> reminders db' = reminders db"
  by (auto simp: submit_self_assessment_def acknowledge_evaluation_def file_objection_def Let_def)

lemma comment_reminders: "post_comment env db user k raw parent = Inr db' \<Longrightarrow> reminders db' = reminders db"
proof (cases parent)
  case None
  assume post: "post_comment env db user k raw parent = Inr db'"
  then show ?thesis using None by (cases rule: post_comment_InrE) simp_all
next
  case (Some j)
  assume "post_comment env db user k raw parent = Inr db'"
  then obtain r body where "add_reply env db user r body j = Inr db'"
    using Some by (auto simp: post_comment_def)
  then show ?thesis by (auto simp: add_reply_def Let_def)
qed

lemma serve_reminders: "serve env user q db = Inr db' \<Longrightarrow> reminders db' = reminders db"
proof (cases q)
  case (Comment_on k body parent)
  then show "serve env user q db = Inr db' \<Longrightarrow> ?thesis" using comment_reminders by simp
next
  case (Change c)
  then show "serve env user q db = Inr db' \<Longrightarrow> ?thesis"
    by (cases c)
      (auto dest: create_reminders scores_reminders submit_reminders approval_reminders return_reminders cancel_reminders
        administration_reminders subject_reminders)
qed

lemma invite_reminders: "invite_to_self_assessment env db user p = Inr db' \<Longrightarrow> reminders db' = reminders db"
  by (auto simp: invite_to_self_assessment_def invite_def Let_def)

section \<open>Bulk creation and changes of people\<close>

lemma planned_reminders:
  assumes "create_planned env rules hr (db, ps) p = Inr (db', ps')"
  shows "reminders db' = reminders db"
proof (cases "to_create p")
  case False
  then show ?thesis using assms by (simp add: create_planned_def split: prod.splits)
next
  case True
  obtain per scheme framework where rules: "rules = (per, scheme, framework)" by (meson prod_cases3)
  obtain a where a: "access_by_person db (pp_personnel_id p) = Some a"
    using assms True by (auto simp: create_planned_def rules)
  define r where "r = new_record env (next_id record_id (t_evaluations db)) (evaluation_code_of (t_code_seq db + 1)) a
    (pp_personnel_id p) per scheme framework (pp_personnel_id p \<in> set hr)"
  show ?thesis
    using assms True a
    by (cases "record_constraints (db\<lparr>t_code_seq := t_code_seq db + 1\<rparr>) r")
      (auto simp: create_planned_def rules next_evaluation_code_def Let_def r_def)
qed

lemma bulk_reminders:
  assumes "run_bulk_create env db user cohort = Inr (db', plans)"
  shows "reminders db' = reminders db"
proof -
  obtain c counts db1 where ex: "execute env db c = Inr (db1, plans)"
    and db': "db' = fold (\<lambda>u. notify env [u] ''bulk_evaluations_assigned'' None (Some ''/'')) (assignees plans)
      (log_event (cu_id user) ''evaluations_bulk_created'' None None counts db1)"
    using assms by (auto simp: run_bulk_create_def Let_def)
  obtain db2 f where e: "ensure_framework db = (db2, f)" by (meson surj_pair)
  obtain rules hr ps where fold: "foldE (create_planned env rules hr) (db2, []) ps = Inr (db1, plans)"
    using ex by (auto simp: execute_def e Let_def)
  have "reminders (fst (db1, plans)) = reminders db"
  proof (rule foldE_invariant [where P = "\<lambda>x. reminders (fst x) = reminders db", OF _ _ fold])
    show "reminders (fst (db2, [])) = reminders db" using e by simp
  next
    fix x :: "database \<times> person_plan list" and p y
    assume "create_planned env rules hr x p = Inr y" "reminders (fst x) = reminders db"
    then show "reminders (fst y) = reminders db"
      using planned_reminders [of env rules hr "fst x" "snd x" p "fst y" "snd y"] by simp
  qed
  moreover have "reminders (fold (\<lambda>u. notify env [u] kind None link) us d) = reminders d" for kind link us d
    by (induction us arbitrary: d) simp_all
  ultimately show ?thesis by (simp add: db')
qed

lemma log_only [simp]: "reminders (put_user u db) = reminders db" "reminders (put_personnel q db) = reminders db"
  "reminders (revoke_all_for_user env k db) = reminders db" "reminders (apply_default_hr_capabilities k db) = reminders db"
  "reminders (add_user u db) = reminders db" "reminders (add_personnel q db) = reminders db"
  by (simp_all add: reminders_def put_user_def put_personnel_def revoke_all_for_user_def
      apply_default_hr_capabilities_def add_user_def add_personnel_def Let_def)

lemma vacated_key_is_no_reminder:
  "\<not> is_reminder \<lparr>notification_id = i, ntf_user_id = u, ntf_type = t, ntf_link = l, ntf_record_id = r,
      dedup_key = Some (vacated_key v seats), ntf_created_at = m, read_at = x\<rparr>"
  by (simp add: is_reminder_def SWEEP_PREFIXES_def vacated_key_def)

lemma counting_reminders:
  "reminders (fst (notify_counting env (vacated_key v seats) link u acc)) = reminders (fst acc)"
  by (cases acc)
    (auto simp: notify_counting_def notify_once_def notify_one_reminders vacated_key_is_no_reminder)

lemma vacated_reminders: "reminders (fst (notify_vacated_seats env u db)) = reminders db"
proof -
  have one: "reminders (fst (fold (notify_counting env (vacated_key v seats) link) ids acc)) = reminders (fst acc)"
    for v seats link ids acc
    by (induction ids arbitrary: acc) (simp_all add: counting_reminders)
  have shielded: "reminders (fst (notify_shielded_seats env u seats d)) = reminders d" for seats d
  proof -
    define f where "f = (\<lambda>(k, own) acc.
        let record_ids = remdups (map occ_record_id own)
        in if (case get_user d k of None \<Rightarrow> False | Some usr \<Rightarrow> user_is_active usr)
           then notify_counting env (vacated_key u own)
                  (case record_ids of [i] \<Rightarrow> Some (''/evaluations/'' @ str_int i) | _ \<Rightarrow> None) k acc
           else acc)"
    have "reminders (fst (f x acc)) = reminders (fst acc)" for x acc
      by (cases x) (simp add: f_def counting_reminders Let_def)
    then have "reminders (fst (fold f xs acc)) = reminders (fst acc)" for xs acc
      by (induction xs arbitrary: acc) simp_all
    from this [of "shielded_recipients u seats" "(d, 0)"] show ?thesis by (simp add: notify_shielded_seats_def f_def)
  qed
  show ?thesis by (simp add: notify_vacated_seats_def Let_def case_prod_beta shielded one)
qed

lemma close_out_reminders:
  assumes "close_out_departure env db p user = Inr db'"
  shows "reminders db' = reminders db"
proof -
  obtain db1 where c: "case find (\<lambda>r. subject_personnel_id r = personnel_id p \<and> is_open r) (t_evaluations db) of
        None \<Rightarrow> db1 = db
      | Some r \<Rightarrow> \<exists>old new remark. apply_transition env
          (log_event (cu_id user) ''evaluation_cancelled_on_separation'' (Some (record_id r)) old new
            (add_comment env (record_id r) (cu_id user) None Hr_review remark db))
          r Cancel_on_separation user None = Inr db1"
    and d: "case find (\<lambda>u. user_personnel_id u = Some (personnel_id p)) (t_users db1) of
        None \<Rightarrow> db' = db1
      | Some u \<Rightarrow> \<exists>old new. db' = fst (notify_vacated_seats env (user_id u)
          (if \<not> user_is_active u then db1
           else log_event (cu_id user) ''user_deactivated_on_separation'' None old new
             (revoke_all_for_user env (user_id u)
               (put_user (u\<lparr>user_is_active := False, token_version := token_version u + 1\<rparr>) db1))))"
    by (rule close_out_departure_InrD [OF assms])
  have "reminders db1 = reminders db" using c by (auto dest!: plain_transition split: option.splits)
  moreover have "reminders db' = reminders db1" using d by (auto simp: vacated_reminders split: option.splits)
  ultimately show ?thesis by simp
qed

lemma supervisor_reminders [simp]: "reminders (clear_supervisor_of_manager p user db) = reminders db"
  by (auto simp: clear_supervisor_of_manager_def split: option.splits)

lemma update_personnel_reminders:
  assumes "update_personnel env db user k payload = Inr db'"
  shows "reminders db' = reminders db"
proof -
  obtain p1 leaving old new db1 db2
    where db1: "db1 = log_event (cu_id user) ''personnel_updated'' None old new (put_personnel p1 db)"
    and db2: "(if leaving then close_out_departure env db1 p1 user else Inr db1) = Inr db2"
    and db': "db' = clear_supervisor_of_manager p1 user db2"
    by (rule update_personnel_InrD [OF assms]) blast
  have "reminders db2 = reminders db1" using db2 close_out_reminders by (cases leaving) auto
  then show ?thesis by (simp add: db' db1)
qed

lemma reminders_case [simp]:
  "reminders (case x of None \<Rightarrow> a | Some y \<Rightarrow> f y) = (case x of None \<Rightarrow> reminders a | Some y \<Rightarrow> reminders (f y))"
  by (simp split: option.split)

lemma access_reminders: "upsert_access db user k supervisor deputy ceo = Inr db' \<Longrightarrow> reminders db' = reminders db"
  by (auto simp: upsert_access_def Let_def split del: if_split)

lemma create_user_reminders: "create_user crypt db user name password r p full = Inr db' \<Longrightarrow> reminders db' = reminders db"
  by (auto simp: create_user_def Let_def)

lemma create_personnel_reminders:
  assumes "create_personnel crypt db user payload = Inr (db', k)"
  shows "reminders db' = reminders db"
proof -
  obtain q new where "case pi_account payload of
        None \<Rightarrow> db' = log_event (cu_id user) ''personnel_created'' None None new (add_personnel q db)
      | Some account \<Rightarrow> \<exists>u new2. user_id u = next_id user_id (t_users db) \<and> user_personnel_id u = Some k \<and>
          user_role u = Role_employee \<and>
          db' = log_event (cu_id user) ''user_created'' None None new2
            (add_user u (log_event (cu_id user) ''personnel_created'' None None new (add_personnel q db)))"
    by (rule create_personnel_InrD [OF assms]) blast
  then show ?thesis by (auto split: option.splits)
qed

lemma update_user_reminders:
  assumes "update_user env crypt db user k up = Inr db'"
  shows "reminders db' = reminders db"
proof -
  define v where "v role active u = u\<lparr>user_role := role, user_is_active := active,
      user_personnel_id := set_nullable (uu_personnel_id up) (user_personnel_id u),
      user_full_name := set_nullable (uu_full_name up) (user_full_name u)\<rparr>" for role active and u :: user
  define db2 where "db2 role active u = (if user_role u \<noteq> Role_hr \<and> role = Role_hr
      then apply_default_hr_capabilities (user_id u) (put_user (v role active u) db) else put_user (v role active u) db)"
    for role active u
  define db3 where "db3 role active u = (case nonempty_text (given_value (uu_password up)) of
        None \<Rightarrow> db2 role active u
      | Some password \<Rightarrow> revoke_all_for_user env (user_id u)
           (put_user ((v role active u)\<lparr>password_hash := hash_password crypt password,
              token_version := token_version u + 1, must_change_password := True\<rparr>) (db2 role active u)))"
    for role active u
  obtain u role active old new where "log_event (cu_id user) ''user_updated'' None old new (db3 role active u) = db'"
    using assms
    unfolding update_user_def Let_def v_def [symmetric] db2_def [symmetric] db3_def [symmetric]
    by (simp del: if_split split del: if_split) blast
  moreover have "reminders (db3 role active u) = reminders db"
    by (simp add: db3_def db2_def split: option.split)
  ultimately show ?thesis by auto
qed

lemma delete_user_reminders:
  assumes "delete_user db user k = Inr db'"
  shows "\<exists>u. reminders db' = filter (\<lambda>n. ntf_user_id n \<noteq> u) (reminders db)"
proof -
  obtain u :: user where "t_notifications db' = filter (\<lambda>n. ntf_user_id n \<noteq> user_id u) (t_notifications db)"
    using assms by (auto simp: delete_user_def Let_def)
  then have "reminders db' = filter (\<lambda>n. ntf_user_id n \<noteq> user_id u) (reminders db)"
    by (simp add: reminders_def conj_commute)
  then show ?thesis ..
qed

lemma staff_reminders: "staff_step db db' \<Longrightarrow> subseq (reminders db') (reminders db)"
proof (induction rule: staff_step.induct)
  case (removed db user k db')
  then obtain u where "reminders db' = filter (\<lambda>n. ntf_user_id n \<noteq> u) (reminders db)"
    using delete_user_reminders by blast
  then show ?case by simp
qed (simp_all add: access_reminders create_user_reminders update_user_reminders create_personnel_reminders
    update_personnel_reminders)

section \<open>Reminders over time\<close>

text \<open>What counts of a reminder: whom it is for, its matter and when it was created.\<close>

definition reminder_rows :: "database \<Rightarrow> (int \<times> string option \<times> int) list" where
  "reminder_rows db = map (\<lambda>n. (ntf_user_id n, dedup_key n, ntf_created_at n)) (reminders db)"

definition rows_apart :: "settings \<Rightarrow> int \<times> string option \<times> int \<Rightarrow> int \<times> string option \<times> int \<Rightarrow> bool" where
  "rows_apart c a b \<longleftrightarrow>
    (case (a, b) of ((u, k, t), (u', k', t')) \<Rightarrow>
       (case k of None \<Rightarrow> True | Some key \<Rightarrow> u = u' \<and> k' = Some key \<longrightarrow> t + days (reminder_window c key) < t'))"

lemma spaced_rows: "spaced_reminders c (t_notifications db) \<longleftrightarrow> sorted_wrt (rows_apart c) (reminder_rows db)"
proof -
  have "rows_apart c (ntf_user_id m, dedup_key m, ntf_created_at m) (ntf_user_id n, dedup_key n, ntf_created_at n) = apart c m n"
    for m n by (simp add: rows_apart_def apart_def)
  then show ?thesis by (simp add: spaced_reminders_def reminder_rows_def reminders_def sorted_wrt_map)
qed

lemma sorted_wrt_subseq: "subseq xs ys \<Longrightarrow> sorted_wrt R ys \<Longrightarrow> sorted_wrt R xs"
proof (induction rule: list_emb.induct)
  case (list_emb_Cons2 x y xs ys)
  then show ?case by (auto elim!: list_emb_set)
qed auto

text \<open>
  Runs of the sweeps, on any clock and under any settings whose windows are not shorter than those of \<open>c\<close>, between
  the requests on records and comments, invitations, bulk creations and changes of people, accounts and
  chains; elsewhere the program may mark reminders as read and delete them.
\<close>

inductive background_step :: "settings \<Rightarrow> platform \<Rightarrow> platform \<Rightarrow> bool" for c where
  swept: "windows_cover c (cfg env) \<Longrightarrow> run_all_sweeps env day_start printer send p = Inr (p', summary) \<Longrightarrow>
    background_step c p p'"
| served: "serve env user q (core p) = Inr (core p') \<Longrightarrow> background_step c p p'"
| invited: "invite_to_self_assessment env (core p) user k = Inr (core p') \<Longrightarrow> background_step c p p'"
| bulk: "run_bulk_create env (core p) user cohort = Inr (core p', plans) \<Longrightarrow> background_step c p p'"
| staffed: "staff_step (core p) (core p') \<Longrightarrow> background_step c p p'"
| elsewhere: "subseq (reminder_rows (core p')) (reminder_rows (core p)) \<Longrightarrow> background_step c p p'"

lemma background_step_spaced:
  assumes "background_step c p p'" and "windows_ok c" and "spaced_reminders c (t_notifications (core p))"
  shows "spaced_reminders c (t_notifications (core p'))"
proof -
  have keep: ?thesis if "subseq (reminders (core p')) (reminders (core p))"
    using that assms(3) unfolding spaced_rows reminder_rows_def by (blast intro: sorted_wrt_subseq subseq_map)
  from assms(1) show ?thesis
  proof cases
    case (swept env day_start printer send summary)
    with run_all_sweeps_spaced assms(2,3) show ?thesis by metis
  next
    case elsewhere
    with assms(3) show ?thesis unfolding spaced_rows by (rule sorted_wrt_subseq [rotated -1])
  qed (auto intro: keep simp: serve_reminders invite_reminders bulk_reminders staff_reminders)
qed


end
