(* ===== verification/SweepWitnesses.thy ===== *)
theory SweepWitnesses
  imports Reminders AssistantWitnesses
begin

text \<open>Sweeps over the office of the examples, where a contract is about to end.\<close>

definition late_env :: env where "late_env = plain_env\<lparr>today := 29990\<rparr>"

definition no_printer :: printer where
  "no_printer = \<lparr>weasyprint_available = False, render_pdf = (\<lambda>_ _. Runtime_error), public_base_url = ''''\<rparr>"

definition plain_printer :: printer where
  "plain_printer = \<lparr>weasyprint_available = True, render_pdf = (\<lambda>_ _. Rendered [1, 2, 3]), public_base_url = ''https://hr/''\<rparr>"

lemma no_printer_succeeds: "\<exists>p' summary. run_all_sweeps env day_start no_printer send p = Inr (p', summary)"
  by (simp add: run_all_sweeps_def run_document_backfill_sweep_def no_printer_def Let_def split: prod.splits)

lemma default_windows: "windows_ok (cfg late_env)" "cfg late_env = default_settings"
  by (simp_all add: windows_ok_def late_env_def plain_env_def default_settings_def)

theorem sweeps_change_no_business_data_witness:
  "\<exists>p' summary. run_all_sweeps late_env 0 no_printer busy_channel assisted_office = Inr (p', summary) \<and>
    t_users (core p') = t_users office \<and> t_personnel (core p') = t_personnel office \<and> archive_wf p'"
proof -
  obtain p' summary where run: "run_all_sweeps late_env 0 no_printer busy_channel assisted_office = Inr (p', summary)"
    using no_printer_succeeds by blast
  have "archive_wf assisted_office" by (simp add: archive_wf_def assisted_office_def)
  with sweeps_change_no_business_data [OF run] have "lasting (core p') = lasting office" "archive_wf p'"
    by (simp_all add: assisted_office_def)
  moreover from this(1) have "t_users (core p') = t_users office" "t_personnel (core p') = t_personnel office"
    by (auto simp: lasting_def dest: arg_cong [of _ _ t_users] arg_cong [of _ _ t_personnel])
  ultimately show ?thesis using run by blast
qed

theorem everybody_due_is_told_witness:
  "\<exists>p' summary. run_all_sweeps late_env 0 no_printer busy_channel assisted_office = Inr (p', summary) \<and>
    recently_told late_env 7 (core p') 70 ''contract_expiry:50''"
proof -
  obtain p' summary where run: "run_all_sweeps late_env 0 no_printer busy_channel assisted_office = Inr (p', summary)"
    using no_printer_succeeds by blast
  have "contract_expiry_reminders late_env office =
      [\<lparr>rem_type = ''contract_expiry'', rem_key = ''contract_expiry:50'', rem_record_id = None,
        rem_link = ''/hr/dashboard'', rem_users = [70]\<rparr>]"
    by (simp add: contract_expiry_reminders_def is_expiring_def office_def empty_database_def employee_def late_env_def plain_env_def
        default_settings_def contract_expiry_reminder_def active_hr_ids_def account_def str_int_def digits_of.simps
        char_of_def bit_0)
  with everybody_due_is_told [OF run default_windows(1)] run show ?thesis
    by (auto simp: assisted_office_def told_about_def late_env_def plain_env_def default_settings_def)
qed


theorem archive_catches_up_witness:
  "\<exists>p'. backfills plain_printer 1 (deciding_office\<lparr>core := (core deciding_office)\<lparr>t_evaluations :=
      [saras_record\<lparr>status := Finalized, final_snapshot := Some []\<rparr>]\<rparr>\<rparr>) = Inr p' \<and> missing_documents p' = []"
  by (rule archive_catches_up)
    (simp_all add: plain_printer_def missing_documents_def DOCUMENT_BACKFILL_BATCH_def)

end
