(* ===== verification/Indicators.thy ===== *)
theory Indicators
  imports Framework Scheme Evaluations
begin

text \<open>
  The endpoints over the set of indicators (\<open>app/api/routers/indicators.py\<close>). A change of the set of
  active indicators publishes a new version of the framework and rebinds the open records on which
  nobody has worked. Given fields of a request are \<open>Some\<close>, a given null is \<open>Some None\<close>.
\<close>

section \<open>Requests\<close>

definition INDICATOR_CATEGORY_MAX :: nat where "INDICATOR_CATEGORY_MAX = 200"
definition INDICATOR_DESCRIPTION_MAX :: nat where "INDICATOR_DESCRIPTION_MAX = 1000"

record indicator_input =
  iin_section :: indicator_section
  iin_category :: utext
  iin_description :: utext
  iin_display_order :: int

record indicator_update =
  iup_category :: "utext option option"
  iup_description :: "utext option option"
  iup_display_order :: "int option option"
  iup_is_active :: "bool option option"
  iup_wording_fix_reason :: "utext option option"

record indicator_replace =
  ire_category :: utext
  ire_description :: utext
  ire_reason :: utext

definition text_between :: "nat \<Rightarrow> nat \<Rightarrow> utext \<Rightarrow> utext http" where
  "text_between lower upper t =
    (let s = strip t in if lower \<le> length s \<and> length s \<le> upper then Inr s else Inl (HTTPException 422 ''text''))"

definition nullable_text :: "nat \<Rightarrow> nat \<Rightarrow> utext option option \<Rightarrow> utext option option http" where
  "nullable_text lower upper x =
    (case x of Some (Some t) \<Rightarrow> bindE (text_between lower upper t) (\<lambda>s. Inr (Some (Some s))) | _ \<Rightarrow> Inr x)"

definition clean_indicator_update :: "indicator_update \<Rightarrow> indicator_update http" where
  "clean_indicator_update up =
    bindE (nullable_text 1 INDICATOR_CATEGORY_MAX (iup_category up)) (\<lambda>category.
    bindE (nullable_text 1 INDICATOR_DESCRIPTION_MAX (iup_description up)) (\<lambda>description.
    bindE (raise_if (case iup_display_order up of Some (Some n) \<Rightarrow> n < 0 | _ \<Rightarrow> False)
             (HTTPException 422 ''display order'')) (\<lambda>_.
    bindE (nullable_text 3 500 (iup_wording_fix_reason up)) (\<lambda>reason.
    Inr (up\<lparr>iup_category := category, iup_description := description, iup_wording_fix_reason := reason\<rparr>)))))"

section \<open>Shared steps\<close>

definition put_indicator :: "indicator \<Rightarrow> database \<Rightarrow> database" where
  "put_indicator i db = db\<lparr>t_indicators := row_put indicator_id i (t_indicators db)\<rparr>"

definition publish :: "int \<Rightarrow> string \<Rightarrow> utext option \<Rightarrow> database \<Rightarrow> database \<times> nat" where
  "publish actor kind remark db =
    (let (db1, framework) = bump (Some actor) kind remark db in rebind_untouched_open_records framework db1)"

definition scored_count :: "database \<Rightarrow> int \<Rightarrow> nat" where
  "scored_count db k = length (filter (\<lambda>s. score_indicator_id s = k) (t_scores db))"

fun section_value :: "indicator_section \<Rightarrow> string" where
  "section_value General = ''general''"
| "section_value Specialized = ''specialized''"

fun section_rank :: "indicator_section \<Rightarrow> nat" where
  "section_rank General = 0"
| "section_rank Specialized = 1"

definition indicator_json :: "indicator \<Rightarrow> jdict" where
  "indicator_json i =
    [(''id'', JInt (indicator_id i)), (''section'', jstr (section_value (ind_section i))),
     (''category'', JString (category i)), (''description'', JString (indicator_description i))]"

section \<open>Endpoints\<close>

text \<open>\<open>fresh\<close> is the next value of the sequence of the table, which is never given twice.\<close>

definition list_indicators ::
  "database \<Rightarrow> indicator_section option \<Rightarrow> bool \<Rightarrow> (indicator \<times> nat \<times> rat) list" where
  "list_indicators db wanted include_inactive =
    (let rules = current_rules db
     in map (\<lambda>i. (i, scored_count db (indicator_id i), weight_for rules (indicator_id i)))
          (sort_key (\<lambda>i. section_rank (ind_section i)) (sort_key display_order
            (filter (\<lambda>i. (wanted = None \<or> wanted = Some (ind_section i)) \<and> (include_inactive \<or> indicator_is_active i))
              (t_indicators db)))))"

definition create_indicator :: "int \<Rightarrow> database \<Rightarrow> current_user \<Rightarrow> indicator_input \<Rightarrow> (database \<times> indicator) http" where
  "create_indicator fresh db user payload =
    bindE (require_capability [Manage_scoring] db user) (\<lambda>_.
    bindE (text_between 1 INDICATOR_CATEGORY_MAX (iin_category payload)) (\<lambda>cat.
    bindE (text_between 1 INDICATOR_DESCRIPTION_MAX (iin_description payload)) (\<lambda>descr.
    bindE (raise_if (iin_display_order payload < 0) (HTTPException 422 ''display order'')) (\<lambda>_.
    let orders = map display_order (filter (\<lambda>i. ind_section i = iin_section payload) (t_indicators db));
        i = \<lparr>indicator_id = fresh, ind_section = iin_section payload,
             category = cat, indicator_description = descr,
             display_order = (if orders = [] then 0 else Max (set orders)) + 1, indicator_is_active = True\<rparr>;
        (db1, moved) = publish (cu_id user) ''indicator_added'' None (db\<lparr>t_indicators := t_indicators db @ [i]\<rparr>)
    in Inr (log_event (cu_id user) ''indicator_created'' None None
              (Some (indicator_json i @ [(''rebound_open_records'', JInt (int moved))])) db1, i)))))"

definition framework_impact ::
  "database \<Rightarrow> current_user \<Rightarrow> (database \<times> (int \<times> nat \<times> nat \<times> nat)) http" where
  "framework_impact db user =
    bindE (require_capability [Manage_scoring] db user) (\<lambda>_.
    let (db1, f) = ensure_framework db
    in Inr (db1, (framework_version f, length (member_ids f), impact_of_membership_change db1)))"

definition place :: "nat \<times> int \<Rightarrow> database \<Rightarrow> database" where
  "place job d = (case row_get indicator_id (t_indicators d) (snd job) of None \<Rightarrow> d
     | Some i \<Rightarrow> put_indicator (i\<lparr>display_order := int (fst job)\<rparr>) d)"

definition reorder_indicators ::
  "database \<Rightarrow> current_user \<Rightarrow> indicator_section \<Rightarrow> int list \<Rightarrow> database http" where
  "reorder_indicators db user sec ordered_ids =
    bindE (require_capability [Manage_scoring] db user) (\<lambda>_.
    bindE (raise_if (ordered_ids = []) (HTTPException 422 ''ordered ids'')) (\<lambda>_.
    let existing_ids = map indicator_id (filter (\<lambda>i. ind_section i = sec) (t_indicators db))
    in bindE (raise_if (\<not> distinct ordered_ids \<or> set ordered_ids \<noteq> set existing_ids)
                (HTTPException 400 ''not all the indicators of the section'')) (\<lambda>_.
       Inr (log_event (cu_id user) ''indicators_reordered'' None None
              (Some [(''section'', jstr (section_value sec)), (''ordered_ids'', JArray (map JInt ordered_ids))])
              (fold place (enumerate 1 ordered_ids) db)))))"

definition delete_indicator :: "database \<Rightarrow> current_user \<Rightarrow> int \<Rightarrow> database http" where
  "delete_indicator db user k =
    bindE (require_capability [Manage_scoring] db user) (\<lambda>_.
    bindE (or_raise (row_get indicator_id (t_indicators db) k) (HTTPException 404 ''no such indicator'')) (\<lambda>i.
    bindE (raise_if (scored_count db k \<noteq> 0) (HTTPException 409 ''indicator in use'')) (\<lambda>_.
    let db1 = log_event (cu_id user) ''indicator_deleted'' None (Some (indicator_json i)) None db
    in bindE (raise_if (list_ex (\<lambda>s. self_score_indicator_id s = k) (t_self_scores db))
                (HTTPException 500 ''foreign key'')) (\<lambda>_.
       Inr (fst (publish (cu_id user) ''indicator_deleted'' None
              (db1\<lparr>t_indicators := filter (\<lambda>x. indicator_id x \<noteq> k) (t_indicators db1)\<rparr>)))))))"

definition rewrites_meaning :: "indicator \<Rightarrow> indicator_update \<Rightarrow> bool" where
  "rewrites_meaning i up \<longleftrightarrow>
    (case iup_category up of None \<Rightarrow> False | Some x \<Rightarrow> x \<noteq> Some (category i)) \<or>
    (case iup_description up of None \<Rightarrow> False | Some x \<Rightarrow> x \<noteq> Some (indicator_description i))"

text \<open>\<open>setattr\<close> of the given fields; a null violates the column at the flush.\<close>

definition given_field :: "'a option option \<Rightarrow> 'a \<Rightarrow> 'a http" where
  "given_field x old =
    (case x of None \<Rightarrow> Inr old | Some None \<Rightarrow> Inl (HTTPException 500 ''null value'') | Some (Some v) \<Rightarrow> Inr v)"

definition apply_indicator_update :: "indicator_update \<Rightarrow> indicator \<Rightarrow> indicator http" where
  "apply_indicator_update up i =
    bindE (given_field (iup_category up) (category i)) (\<lambda>cat.
    bindE (given_field (iup_description up) (indicator_description i)) (\<lambda>descr.
    bindE (given_field (iup_display_order up) (display_order i)) (\<lambda>order.
    bindE (given_field (iup_is_active up) (indicator_is_active i)) (\<lambda>active.
    Inr (i\<lparr>category := cat, indicator_description := descr, display_order := order, indicator_is_active := active\<rparr>)))))"

definition given_json :: "string \<Rightarrow> ('a \<Rightarrow> json) \<Rightarrow> 'a option option \<Rightarrow> jdict" where
  "given_json name f x = (case x of None \<Rightarrow> [] | Some v \<Rightarrow> [(name, jopt f v)])"

definition store_update :: "int \<Rightarrow> indicator \<Rightarrow> indicator \<Rightarrow> database \<Rightarrow> database \<times> nat option" where
  "store_update actor i i1 db =
    (if indicator_is_active i1 \<noteq> indicator_is_active i
     then (case publish actor (if indicator_is_active i1 then ''indicator_activated'' else ''indicator_deactivated'') None
                  (put_indicator i1 db) of (db1, n) \<Rightarrow> (db1, Some n))
     else (put_indicator i1 db, None))"

definition update_indicator ::
  "database \<Rightarrow> current_user \<Rightarrow> int \<Rightarrow> indicator_update \<Rightarrow> (database \<times> indicator \<times> nat) http" where
  "update_indicator db user k given =
    bindE (require_capability [Manage_scoring] db user) (\<lambda>_.
    bindE (clean_indicator_update given) (\<lambda>up.
    bindE (or_raise (row_get indicator_id (t_indicators db) k) (HTTPException 404 ''no such indicator'')) (\<lambda>i.
    let reason = (case iup_wording_fix_reason up of None \<Rightarrow> None | Some r \<Rightarrow> r)
    in bindE (raise_if (rewrites_meaning i up \<and> reason = None \<and> scored_count db k \<noteq> 0)
                (HTTPException 409 ''indicator in use'')) (\<lambda>_.
       bindE (apply_indicator_update up i) (\<lambda>i1.
       let (db2, moved) = store_update (cu_id user) i i1 db
       in Inr (log_event (cu_id user) ''indicator_updated'' None
                 (Some [(''category'', JString (category i)), (''description'', JString (indicator_description i)),
                        (''display_order'', JInt (display_order i)), (''is_active'', JBool (indicator_is_active i))])
                 (Some (given_json ''category'' JString (iup_category up) @
                        given_json ''description'' JString (iup_description up) @
                        given_json ''display_order'' JInt (iup_display_order up) @
                        given_json ''is_active'' JBool (iup_is_active up) @
                        (case reason of None \<Rightarrow> [] | Some r \<Rightarrow> [(''wording_fix_reason'', JString r)]) @
                        (case moved of None \<Rightarrow> [] | Some n \<Rightarrow> [(''rebound_open_records'', JInt (int n))]))) db2,
               i1, scored_count db2 k))))))"

definition replace_indicator ::
  "int \<Rightarrow> database \<Rightarrow> current_user \<Rightarrow> int \<Rightarrow> indicator_replace \<Rightarrow> (database \<times> indicator) http" where
  "replace_indicator fresh db user k payload =
    bindE (require_capability [Manage_scoring] db user) (\<lambda>_.
    bindE (text_between 1 INDICATOR_CATEGORY_MAX (ire_category payload)) (\<lambda>cat.
    bindE (text_between 1 INDICATOR_DESCRIPTION_MAX (ire_description payload)) (\<lambda>descr.
    bindE (text_between 3 500 (ire_reason payload)) (\<lambda>reason.
    bindE (or_raise (row_get indicator_id (t_indicators db) k) (HTTPException 404 ''no such indicator'')) (\<lambda>old.
    bindE (raise_if (\<not> indicator_is_active old) (HTTPException 409 ''indicator is inactive'')) (\<lambda>_.
    let dropped = weight_for (current_rules db) k;
        new = \<lparr>indicator_id = fresh, ind_section = ind_section old,
               category = cat, indicator_description = descr, display_order = display_order old,
               indicator_is_active = True\<rparr>;
        db1 = put_indicator (old\<lparr>indicator_is_active := False\<rparr>) db;
        (db2, moved) = publish (cu_id user) ''indicator_replaced'' (Some reason)
                         (db1\<lparr>t_indicators := t_indicators db1 @ [new]\<rparr>)
    in Inr (log_event (cu_id user) ''indicator_replaced'' None
              (Some [(''id'', JInt k), (''category'', JString (category old)),
                     (''description'', JString (indicator_description old))])
              (Some [(''id'', JInt (indicator_id new)), (''category'', JString cat), (''description'', JString descr),
                     (''reason'', JString reason), (''rebound_open_records'', JInt (int moved)),
                     (''weight_before'', JFloat dropped), (''weight_after'', JFloat 1)]) db2, new)))))))"

section \<open>One request\<close>

datatype indicator_request =
    Create_indicator indicator_input
  | Read_impact
  | Reorder_indicators indicator_section "int list"
  | Delete_indicator int
  | Update_indicator int indicator_update
  | Replace_indicator int indicator_replace

fun handle_indicators :: "int \<Rightarrow> current_user \<Rightarrow> indicator_request \<Rightarrow> database \<Rightarrow> database http" where
  "handle_indicators fresh user (Create_indicator payload) db = map_sum id fst (create_indicator fresh db user payload)"
| "handle_indicators fresh user Read_impact db = map_sum id fst (framework_impact db user)"
| "handle_indicators fresh user (Reorder_indicators sec ids) db = reorder_indicators db user sec ids"
| "handle_indicators fresh user (Delete_indicator k) db = delete_indicator db user k"
| "handle_indicators fresh user (Update_indicator k up) db = map_sum id fst (update_indicator db user k up)"
| "handle_indicators fresh user (Replace_indicator k payload) db = map_sum id fst (replace_indicator fresh db user k payload)"

text \<open>
  What a request does to the versions and the records: nothing while the set of active indicators is the
  same, or one more version that describes the new set and takes over the records without work.
\<close>

definition quiet :: "database \<Rightarrow> database \<Rightarrow> bool" where
  "quiet db db' \<longleftrightarrow> t_frameworks db' = t_frameworks db \<and> t_evaluations db' = t_evaluations db \<and>
    t_scores db' = t_scores db \<and> active_member_ids db' = active_member_ids db"

definition renewed :: "bool \<Rightarrow> database \<Rightarrow> database \<Rightarrow> bool" where
  "renewed rebinding db db' \<longleftrightarrow> t_scores db' = t_scores db \<and>
    (\<exists>f. t_frameworks db' = t_frameworks db @ [f] \<and> framework_id f = next_id framework_id (t_frameworks db) \<and>
      framework_version f = (case current_framework db of None \<Rightarrow> 0 | Some g \<Rightarrow> framework_version g) + 1 \<and>
      member_ids f = active_member_ids db' \<and>
      t_evaluations db' = (if rebinding then map (\<lambda>r. if rebinds db f r
        then r\<lparr>indicator_framework_id := Some (framework_id f)\<rparr> else r) (t_evaluations db) else t_evaluations db))"

lemma active_member_ids_cong: "t_indicators db' = t_indicators db \<Longrightarrow> active_member_ids db' = active_member_ids db"
  by (simp add: active_member_ids_def)

lemma current_framework_cong: "t_frameworks db' = t_frameworks db \<Longrightarrow> current_framework db' = current_framework db"
  by (simp add: current_framework_def)

lemma publish_renewed:
  assumes "publish actor kind remark db1 = (db', n)"
    and "t_frameworks db1 = t_frameworks db" "t_evaluations db1 = t_evaluations db" "t_scores db1 = t_scores db"
  shows "renewed True db db' \<and> t_indicators db' = t_indicators db1"
  using assms
  by (auto simp: publish_def bump_def rebind_untouched_open_records_def renewed_def active_member_ids_def
      rebinds_def is_untouched_def scores_of_def Let_def current_framework_cong [OF assms(2)] cong: map_cong)

lemma renewed_log:
  "renewed b db (log_event a e r old new db') \<longleftrightarrow> renewed b db db'"
  "quiet db (log_event a e r old new db') \<longleftrightarrow> quiet db db'"
  by (simp_all add: renewed_def quiet_def active_member_ids_def)

lemma put_indicator_tables [simp]:
  "t_frameworks (put_indicator i db) = t_frameworks db" "t_evaluations (put_indicator i db) = t_evaluations db"
  "t_scores (put_indicator i db) = t_scores db"
  "t_indicators (put_indicator i db) = row_put indicator_id i (t_indicators db)"
  by (simp_all add: put_indicator_def)

lemma row_get_only:
  "distinct (map key rows) \<Longrightarrow> row_get key rows k = Some r \<Longrightarrow> x \<in> set rows \<Longrightarrow> key x = k \<Longrightarrow> x = r"
  by (metis option.inject row_get_distinct)

lemma active_member_ids_put:
  assumes "distinct (map indicator_id (t_indicators db))" and "row_get indicator_id (t_indicators db) (indicator_id i) = Some old"
    and "indicator_is_active i = indicator_is_active old"
  shows "active_member_ids (put_indicator i db) = active_member_ids db"
proof -
  have "map indicator_id (filter indicator_is_active (row_put indicator_id i rows)) =
      map indicator_id (filter indicator_is_active rows)"
    if "\<forall>x \<in> set rows. indicator_id x = indicator_id i \<longrightarrow> indicator_is_active x = indicator_is_active i" for rows
    using that by (induction rows) (auto simp: row_put_def)
  moreover have "\<forall>x \<in> set (t_indicators db). indicator_id x = indicator_id i \<longrightarrow> x = old"
    using row_get_only [OF assms(1,2)] by blast
  ultimately show ?thesis using assms(3) by (simp add: active_member_ids_def)
qed

text \<open>Reordering rewrites nothing but the places.\<close>

lemma fold_place:
  assumes "distinct (map indicator_id (t_indicators db))"
  shows "quiet db (fold place jobs db) \<and>
    map (\<lambda>i. i\<lparr>display_order := 0\<rparr>) (t_indicators (fold place jobs db)) =
    map (\<lambda>i. i\<lparr>display_order := 0\<rparr>) (t_indicators db)"
  using assms
proof (induction jobs arbitrary: db)
  case (Cons job jobs)
  have one: "quiet db (place job db) \<and>
      map (\<lambda>i. i\<lparr>display_order := 0\<rparr>) (t_indicators (place job db)) = map (\<lambda>i. i\<lparr>display_order := 0\<rparr>) (t_indicators db)"
  proof (cases "row_get indicator_id (t_indicators db) (snd job)")
    case (Some i)
    then have k: "indicator_id i = snd job" by (rule row_get_SomeD)
    have "\<forall>x \<in> set (t_indicators db). indicator_id x = indicator_id i \<longrightarrow> x = i"
      using row_get_only [OF Cons.prems Some] k by simp
    then have "map (\<lambda>i. i\<lparr>display_order := 0\<rparr>) (row_put indicator_id (i\<lparr>display_order := n\<rparr>) (t_indicators db)) =
        map (\<lambda>i. i\<lparr>display_order := 0\<rparr>) (t_indicators db)" for n
      by (auto simp: row_put_def)
    with Some k active_member_ids_put [OF Cons.prems, of "i\<lparr>display_order := int (fst job)\<rparr>" i] show ?thesis
      by (simp add: place_def quiet_def)
  qed (simp add: place_def quiet_def)
  then have "map indicator_id (t_indicators (place job db)) = map indicator_id (t_indicators db)"
    by (metis (no_types, lifting) indicator.select_convs(1) indicator.surjective indicator.update_convs(5) map_eq_conv map_map comp_apply)
  with one Cons.IH [of "place job db"] Cons.prems show ?case by (simp add: quiet_def)
qed (simp add: quiet_def)

lemma ensure_framework_effect:
  "ensure_framework db = (db', f) \<Longrightarrow> quiet db db' \<or> renewed False db db'"
  by (auto simp: ensure_framework_def bump_def quiet_def renewed_def active_member_ids_def Let_def
      split: option.splits if_splits)

lemma apply_indicator_update_InrD:
  "apply_indicator_update up i = Inr i1 \<Longrightarrow> indicator_id i1 = indicator_id i \<and> ind_section i1 = ind_section i \<and>
    (\<not> rewrites_meaning i up \<longrightarrow> category i1 = category i \<and> indicator_description i1 = indicator_description i)"
  by (auto simp: apply_indicator_update_def given_field_def rewrites_meaning_def split: option.splits)

lemma update_indicator_InrD:
  assumes "update_indicator db user k given = Inr (db', i1, n)"
  obtains up i a e r old new where "clean_indicator_update given = Inr up" "row_get indicator_id (t_indicators db) k = Some i"
    "apply_indicator_update up i = Inr i1" "db' = log_event a e r old new (fst (store_update (cu_id user) i i1 db))"
    "\<not> (rewrites_meaning i up \<and> (case iup_wording_fix_reason up of None \<Rightarrow> None | Some r \<Rightarrow> r) = None \<and> scored_count db k \<noteq> 0)"
  using assms that unfolding update_indicator_def Let_def split_beta
  by (simp only: bindE_eq_Inr raise_if_eq_Inr or_raise_eq_Inr sum.inject prod.inject) blast

lemma store_update_effect:
  assumes "row_get indicator_id (t_indicators db) (indicator_id i1) = Some i" and "distinct (map indicator_id (t_indicators db))"
  shows "(quiet db (fst (store_update actor i i1 db)) \<or> renewed True db (fst (store_update actor i i1 db))) \<and>
    t_indicators (fst (store_update actor i i1 db)) = row_put indicator_id i1 (t_indicators db)"
proof (cases "indicator_is_active i1 = indicator_is_active i")
  case True
  with active_member_ids_put [OF assms(2,1)] show ?thesis by (simp add: store_update_def quiet_def)
next
  case False
  then show ?thesis by (auto simp: store_update_def split: prod.splits dest!: publish_renewed [where db = db])
qed

lemma create_indicator_InrD:
  assumes "create_indicator fresh db user payload = Inr (db', i)"
  obtains a e r old new where "indicator_id i = fresh" "indicator_is_active i"
    "db' = log_event a e r old new
      (fst (publish (cu_id user) ''indicator_added'' None (db\<lparr>t_indicators := t_indicators db @ [i]\<rparr>)))"
  using assms that unfolding create_indicator_def Let_def split_beta
  by (simp only: bindE_eq_Inr raise_if_eq_Inr or_raise_eq_Inr sum.inject prod.inject) fastforce

lemma replace_indicator_InrD:
  assumes "replace_indicator fresh db user k payload = Inr (db', i)"
  obtains old a e r x y remark where "row_get indicator_id (t_indicators db) k = Some old"
    "indicator_id i = fresh" "indicator_is_active i"
    "db' = log_event a e r x y (fst (publish (cu_id user) ''indicator_replaced'' remark
      (db\<lparr>t_indicators := row_put indicator_id (old\<lparr>indicator_is_active := False\<rparr>) (t_indicators db) @ [i]\<rparr>)))"
  using assms that unfolding replace_indicator_def Let_def split_beta put_indicator_def
  by (simp only: bindE_eq_Inr raise_if_eq_Inr or_raise_eq_Inr sum.inject prod.inject) fastforce

lemma delete_indicator_InrD:
  assumes "delete_indicator db user k = Inr db'"
  obtains i a e r old new where "row_get indicator_id (t_indicators db) k = Some i" "scored_count db k = 0"
    "\<not> list_ex (\<lambda>s. self_score_indicator_id s = k) (t_self_scores db)"
    "db' = fst (publish (cu_id user) ''indicator_deleted'' None
      ((log_event a e r old new db)\<lparr>t_indicators := filter (\<lambda>x. indicator_id x \<noteq> k) (t_indicators db)\<rparr>))"
  using assms that unfolding delete_indicator_def Let_def
  by (simp only: bindE_eq_Inr raise_if_eq_Inr or_raise_eq_Inr sum.inject log_event_tables) blast

lemma publish_fst:
  assumes "t_frameworks db1 = t_frameworks db" "t_evaluations db1 = t_evaluations db" "t_scores db1 = t_scores db"
  shows "renewed True db (fst (publish actor kind remark db1))" "t_indicators (fst (publish actor kind remark db1)) = t_indicators db1"
  using publish_renewed [OF surjective_pairing assms] by blast+

lemma map_sum_InrE:
  assumes "map_sum id f x = Inr y"
  obtains z where "x = Inr z" "y = f z"
  using assms by (cases x) auto

lemma handle_indicators_effect:
  assumes "handle_indicators fresh user q db = Inr db'" and "distinct (map indicator_id (t_indicators db))"
  shows "quiet db db' \<or> renewed (q \<noteq> Read_impact) db db'"
proof (cases q)
  case (Create_indicator payload)
  with assms(1) obtain i where "create_indicator fresh db user payload = Inr (db', i)" by (auto elim!: map_sum_InrE)
  then show ?thesis
    by (rule create_indicator_InrD) (simp add: renewed_log publish_fst Create_indicator)
next
  case Read_impact
  with assms(1) ensure_framework_effect [of db, OF surjective_pairing] show ?thesis
    by (auto simp: framework_impact_def Let_def split_beta elim!: map_sum_InrE)
next
  case (Reorder_indicators sec ids)
  with assms(1) fold_place [OF assms(2)] show ?thesis
    by (auto simp: reorder_indicators_def Let_def renewed_log)
next
  case (Delete_indicator k)
  with assms(1) have "delete_indicator db user k = Inr db'" by simp
  then show ?thesis
    by (rule delete_indicator_InrD) (simp add: publish_fst Delete_indicator)
next
  case (Update_indicator k given)
  with assms(1) obtain i1 n where "update_indicator db user k given = Inr (db', i1, n)"
    by (auto elim!: map_sum_InrE)
  then show ?thesis
  proof (rule update_indicator_InrD)
    fix up i a e r old new
    assume i: "row_get indicator_id (t_indicators db) k = Some i" "apply_indicator_update up i = Inr i1"
      and db': "db' = log_event a e r old new (fst (store_update (cu_id user) i i1 db))"
    have "indicator_id i1 = k" using apply_indicator_update_InrD [OF i(2)] row_get_SomeD(2) [OF i(1)] by simp
    with i(1) store_update_effect [of db i1 i, OF _ assms(2)] show ?thesis
      by (simp add: db' renewed_log Update_indicator)
  qed
next
  case (Replace_indicator k payload)
  with assms(1) obtain i where "replace_indicator fresh db user k payload = Inr (db', i)" by (auto elim!: map_sum_InrE)
  then show ?thesis
    by (rule replace_indicator_InrD) (simp add: renewed_log publish_fst Replace_indicator)
qed

section \<open>The current version is the set of active indicators\<close>

definition framework_wf :: "database \<Rightarrow> bool" where
  "framework_wf db \<longleftrightarrow> distinct (map indicator_id (t_indicators db)) \<and>
    sorted_wrt (<) (map framework_version (t_frameworks db)) \<and>
    distinct (map framework_id (t_frameworks db)) \<and>
    (\<exists>f. current_framework db = Some f \<and> member_ids f = active_member_ids db)"

text \<open>What a sequence of the database promises of its next value: no indicator has or had it.\<close>

definition unused_id :: "int \<Rightarrow> database \<Rightarrow> bool" where
  "unused_id k db \<longleftrightarrow> k \<notin> indicator_id ` set (t_indicators db) \<and> (\<forall>f \<in> set (t_frameworks db). k \<notin> set (member_ids f))"

lemma current_framework_last:
  assumes "sorted_wrt (<) (map framework_version (t_frameworks db))"
  shows "current_framework db = (if t_frameworks db = [] then None else Some (last (t_frameworks db)))"
proof -
  have "sorted (map framework_version (t_frameworks db))"
    using assms by (metis sorted_wrt_mono_rel order_less_imp_le)
  then have "sort_key framework_version (t_frameworks db) = t_frameworks db" by (rule sort_key_id_if_sorted)
  then show ?thesis by (simp add: current_framework_def)
qed

lemma renewed_wf:
  assumes "renewed b db db'" and "sorted_wrt (<) (map framework_version (t_frameworks db))"
    and "distinct (map framework_id (t_frameworks db))" and "distinct (map indicator_id (t_indicators db'))"
  shows "framework_wf db'"
proof -
  from assms(1) obtain f where f: "t_frameworks db' = t_frameworks db @ [f]" "framework_id f = next_id framework_id (t_frameworks db)"
      "framework_version f = (case current_framework db of None \<Rightarrow> 0 | Some g \<Rightarrow> framework_version g) + 1"
      "member_ids f = active_member_ids db'"
    by (auto simp: renewed_def)
  have "framework_version g < framework_version f" if "g \<in> set (t_frameworks db)" for g
  proof -
    have "framework_version g \<le> framework_version (last (t_frameworks db))"
      using that assms(2) by (cases "t_frameworks db" rule: rev_cases) (auto simp: sorted_wrt_append)
    with that f(3) show ?thesis by (auto simp: current_framework_last [OF assms(2)] split: if_splits)
  qed
  with assms(2) have sorted: "sorted_wrt (<) (map framework_version (t_frameworks db'))"
    by (auto simp: f(1) sorted_wrt_append)
  with f(1,2,4) assms(3,4) show ?thesis
    by (simp add: framework_wf_def current_framework_last [OF sorted] next_id_not_in)
qed

text \<open>What a request does to the rows of the indicators themselves.\<close>

inductive indicator_rows :: "int \<Rightarrow> database \<Rightarrow> indicator_request \<Rightarrow> indicator list \<Rightarrow> indicator list \<Rightarrow> bool" for fresh db where
  created: "indicator_id i = fresh \<Longrightarrow> indicator_rows fresh db (Create_indicator payload) rows (rows @ [i])"
| looked_at: "indicator_rows fresh db Read_impact rows rows"
| reordered: "map (\<lambda>i. i\<lparr>display_order := 0\<rparr>) rows' = map (\<lambda>i. i\<lparr>display_order := 0\<rparr>) rows \<Longrightarrow>
    indicator_rows fresh db (Reorder_indicators sec ids) rows rows'"
| deleted: "scored_count db k = 0 \<Longrightarrow> \<not> list_ex (\<lambda>s. self_score_indicator_id s = k) (t_self_scores db) \<Longrightarrow>
    indicator_rows fresh db (Delete_indicator k) rows (filter (\<lambda>x. indicator_id x \<noteq> k) rows)"
| updated: "row_get indicator_id rows k = Some i \<Longrightarrow> indicator_id i1 = k \<Longrightarrow> ind_section i1 = ind_section i \<Longrightarrow>
    scored_count db k = 0 \<or> category i1 = category i \<and> indicator_description i1 = indicator_description i \<or>
      (\<exists>t. iup_wording_fix_reason given = Some (Some t)) \<Longrightarrow>
    indicator_rows fresh db (Update_indicator k given) rows (row_put indicator_id i1 rows)"
| replaced: "row_get indicator_id rows k = Some old \<Longrightarrow> indicator_id i = fresh \<Longrightarrow>
    indicator_rows fresh db (Replace_indicator k payload) rows
      (row_put indicator_id (old\<lparr>indicator_is_active := False\<rparr>) rows @ [i])"

lemma clean_reason:
  "clean_indicator_update given = Inr up \<Longrightarrow> iup_wording_fix_reason up = Some (Some t) \<Longrightarrow>
    \<exists>t'. iup_wording_fix_reason given = Some (Some t')"
  by (auto simp: clean_indicator_update_def nullable_text_def split: option.splits)

lemma handle_indicators_rows:
  assumes "handle_indicators fresh user q db = Inr db'" and "distinct (map indicator_id (t_indicators db))"
  shows "indicator_rows fresh db q (t_indicators db) (t_indicators db')"
proof (cases q)
  case (Create_indicator payload)
  with assms(1) obtain i where "create_indicator fresh db user payload = Inr (db', i)" by (auto elim!: map_sum_InrE)
  then show ?thesis
    by (rule create_indicator_InrD) (simp add: publish_fst Create_indicator indicator_rows.created)
next
  case Read_impact
  with assms(1) have "t_indicators db' = t_indicators db"
    by (auto simp: framework_impact_def ensure_framework_def bump_def Let_def split_beta elim!: map_sum_InrE
        split: option.splits if_splits)
  then show ?thesis by (simp add: Read_impact indicator_rows.looked_at)
next
  case (Reorder_indicators sec ids)
  with assms(1) fold_place [OF assms(2)] show ?thesis
    by (auto simp: reorder_indicators_def Let_def intro: indicator_rows.reordered)
next
  case (Delete_indicator k)
  with assms(1) have "delete_indicator db user k = Inr db'" by simp
  then show ?thesis
    by (rule delete_indicator_InrD) (simp add: publish_fst Delete_indicator indicator_rows.deleted)
next
  case (Update_indicator k given)
  with assms(1) obtain i1 n where "update_indicator db user k given = Inr (db', i1, n)"
    by (auto elim!: map_sum_InrE)
  then show ?thesis
  proof (rule update_indicator_InrD)
    fix up i a e r old new
    assume up: "clean_indicator_update given = Inr up"
      and i: "row_get indicator_id (t_indicators db) k = Some i" "apply_indicator_update up i = Inr i1"
      and db': "db' = log_event a e r old new (fst (store_update (cu_id user) i i1 db))"
      and why: "\<not> (rewrites_meaning i up \<and> (case iup_wording_fix_reason up of None \<Rightarrow> None | Some r \<Rightarrow> r) = None \<and>
        scored_count db k \<noteq> 0)"
    note same = apply_indicator_update_InrD [OF i(2)]
    with row_get_SomeD(2) [OF i(1)] have k: "indicator_id i1 = k" by simp
    have "scored_count db k = 0 \<or> category i1 = category i \<and> indicator_description i1 = indicator_description i \<or>
        (\<exists>t. iup_wording_fix_reason given = Some (Some t))"
      using why same clean_reason [OF up] by (auto split: option.splits)
    with i(1) k same store_update_effect [of db i1 i, OF _ assms(2)] show ?thesis
      by (auto simp: db' Update_indicator intro: indicator_rows.updated)
  qed
next
  case (Replace_indicator k payload)
  with assms(1) obtain i where "replace_indicator fresh db user k payload = Inr (db', i)" by (auto elim!: map_sum_InrE)
  then show ?thesis
    by (rule replace_indicator_InrD) (simp add: publish_fst Replace_indicator indicator_rows.replaced)
qed

lemma without_places:
  fixes xs ys :: "indicator list"
  assumes "map (\<lambda>i. i\<lparr>display_order := 0\<rparr>) xs = map (\<lambda>i. i\<lparr>display_order := 0\<rparr>) ys"
  shows "map indicator_id xs = map indicator_id ys"
    and "row_get indicator_id ys k = Some i \<Longrightarrow> \<exists>n. row_get indicator_id xs k = Some (i\<lparr>display_order := n\<rparr>)"
proof -
  have key: "indicator_id x = indicator_id y" if "x\<lparr>display_order := 0\<rparr> = y\<lparr>display_order := 0\<rparr>" for x y :: indicator
    using arg_cong [OF that, of indicator_id] by simp
  show "map indicator_id xs = map indicator_id ys"
  proof -
    have "map indicator_id zs = map indicator_id (map (\<lambda>i. i\<lparr>display_order := 0\<rparr>) zs)" for zs by (induction zs) simp_all
    with assms show ?thesis by metis
  qed
  show "\<exists>n. row_get indicator_id xs k = Some (i\<lparr>display_order := n\<rparr>)" if "row_get indicator_id ys k = Some i"
    using assms that
  proof (induction xs arbitrary: ys)
    case (Cons x xs)
    then obtain y zs where ys: "ys = y # zs" "x\<lparr>display_order := 0\<rparr> = y\<lparr>display_order := 0\<rparr>"
      "map (\<lambda>i. i\<lparr>display_order := 0\<rparr>) xs = map (\<lambda>i. i\<lparr>display_order := 0\<rparr>) zs" by (cases ys) auto
    have "x = y\<lparr>display_order := display_order x\<rparr>" using ys(2) by (cases x, cases y) simp
    with Cons ys key [OF ys(2)] show ?case by (auto split: if_splits)
  qed simp
qed

lemma indicator_rows_distinct:
  assumes "indicator_rows fresh db q rows rows'" and "distinct (map indicator_id rows)" and "fresh \<notin> indicator_id ` set rows"
  shows "distinct (map indicator_id rows')"
  using assms
proof cases
  case reordered
  with assms(2) without_places(1) show ?thesis by metis
qed (use assms(2,3) in \<open>auto simp: distinct_map_filter\<close>)

text \<open>
  Whatever is added, moved, switched, replaced and deleted, the current version of the framework lists
  exactly the active indicators, and versions only grow.
\<close>

theorem framework_always_current:
  assumes "(\<lambda>db db'. \<exists>fresh user q. unused_id fresh db \<and> handle_indicators fresh user q db = Inr db')\<^sup>*\<^sup>* db db'" and "framework_wf db"
  shows "framework_wf db'"
  using assms
proof (induction rule: rtranclp_induct)
  case (step d d')
  then obtain fresh user q where q: "handle_indicators fresh user q d = Inr d'" and new: "unused_id fresh d" by blast
  have wf: "framework_wf d" using step by blast
  then have ids: "distinct (map indicator_id (t_indicators d))" by (simp add: framework_wf_def)
  from new have new_ids: "distinct (map indicator_id (t_indicators d'))"
    by (intro indicator_rows_distinct [OF handle_indicators_rows [OF q ids] ids]) (simp add: unused_id_def)
  from handle_indicators_effect [OF q ids] show ?case
  proof
    assume "quiet d d'"
    with wf new_ids current_framework_cong [of d' d] show ?thesis by (simp add: framework_wf_def quiet_def)
  next
    assume "renewed (q \<noteq> Read_impact) d d'"
    with wf new_ids renewed_wf show ?thesis by (simp add: framework_wf_def)
  qed
qed simp

section \<open>Indicators in use\<close>

text \<open>
  C38. An indicator that has been scored anywhere is never deleted, and its section and its wording stay as
  they are, unless a reason for a correction of the wording is given.
\<close>

theorem used_indicators_keep_their_meaning:
  assumes "handle_indicators fresh user q db = Inr db'" and "distinct (map indicator_id (t_indicators db))"
    and "row_get indicator_id (t_indicators db) k = Some i" and "scored_count db k \<noteq> 0"
  shows "\<exists>i'. row_get indicator_id (t_indicators db') k = Some i' \<and> ind_section i' = ind_section i \<and>
    (category i' = category i \<and> indicator_description i' = indicator_description i \<or>
     (\<exists>given t. q = Update_indicator k given \<and> iup_wording_fix_reason given = Some (Some t)))"
  using handle_indicators_rows [OF assms(1,2)]
proof cases
  case reordered
  with without_places(2) [OF reordered(2) assms(3)] show ?thesis by auto
next
  case (deleted j)
  with assms(3,4) have "row_get indicator_id (t_indicators db') k = Some i"
    using row_get_distinct [OF assms(2)] row_get_distinct [of indicator_id "t_indicators db'"]
    by (auto simp: distinct_map_filter assms(2))
  then show ?thesis by auto
next
  case (replaced j old new payload)
  with row_get_SomeD(2) [OF replaced(3)] assms(3) show ?thesis
    by (auto simp: row_get_append row_get_put split: option.splits)
qed (use assms(3,4) in \<open>auto simp: row_get_append row_get_put dest: row_get_SomeD(2) split: if_splits\<close>)

section \<open>The sheets of the records\<close>

definition sheet_ids :: "database \<Rightarrow> evaluation_record \<Rightarrow> int set" where
  "sheet_ids db r = indicator_id ` set (indicators_for_record db r)"

lemma sheet_ids_bound:
  assumes "indicator_framework_id r = Some j" and "row_get framework_id (t_frameworks db) j = Some f"
  shows "sheet_ids db r = set (member_ids f) \<inter> indicator_id ` set (t_indicators db)"
  using assms by (auto simp: sheet_ids_def indicators_for_record_def indicator_ids_for_record_def)

lemma indicator_rows_ids:
  assumes "indicator_rows fresh db q rows rows'" and "fresh \<notin> A"
  shows "A \<inter> indicator_id ` set rows' =
    A \<inter> indicator_id ` set rows - (case q of Delete_indicator k \<Rightarrow> {k} | _ \<Rightarrow> {})"
  using assms(1)
proof cases
  case (reordered sec ids)
  then have "set (map indicator_id rows') = set (map indicator_id rows)" using without_places(1) by metis
  then show ?thesis by (simp add: reordered(1))
next
  case (updated k i i1 given)
  have "set (map indicator_id rows') = set (map indicator_id rows)" unfolding updated(2) by simp
  then show ?thesis by (simp add: updated(1))
next
  case (replaced k old i payload)
  have "set (map indicator_id rows') = insert fresh (set (map indicator_id rows))"
    unfolding replaced(2) using replaced(4) by simp
  with assms(2) show ?thesis by (simp add: replaced(1))
qed (use assms(2) in auto)

text \<open>
  A record that is closed, or on which someone has worked, stays bound to its version, and its sheet
  keeps its indicators whatever is changed about the set; only the deletion of an indicator that nobody
  has scored anywhere takes it from the sheet.
\<close>

theorem sheets_change_only_by_deletion:
  assumes "handle_indicators fresh user q db = Inr db'" and "framework_wf db" and "unused_id fresh db"
    and "r \<in> set (t_evaluations db)" and "\<not> (is_open r \<and> is_untouched db r)"
    and "indicator_framework_id r = Some j" and "row_get framework_id (t_frameworks db) j = Some f"
  shows "r \<in> set (t_evaluations db') \<and>
    sheet_ids db' r = sheet_ids db r - (case q of Delete_indicator k \<Rightarrow> {k} | _ \<Rightarrow> {})"
proof -
  have ids: "distinct (map indicator_id (t_indicators db))" using assms(2) by (simp add: framework_wf_def)
  have "r \<in> set (t_evaluations db') \<and> row_get framework_id (t_frameworks db') j = Some f"
    using handle_indicators_effect [OF assms(1) ids]
  proof
    assume "quiet db db'"
    then show ?thesis using assms(4,7) by (simp add: quiet_def)
  next
    assume "renewed (q \<noteq> Read_impact) db db'"
    then obtain g where g: "t_frameworks db' = t_frameworks db @ [g]"
      "t_evaluations db' = (if q \<noteq> Read_impact then map (\<lambda>r. if rebinds db g r
        then r\<lparr>indicator_framework_id := Some (framework_id g)\<rparr> else r) (t_evaluations db) else t_evaluations db)"
      by (auto simp: renewed_def)
    have "\<not> rebinds db g r" using assms(5) by (auto simp: rebinds_def)
    with assms(4) g(2) have "r \<in> set (t_evaluations db')" by (force simp: image_iff)
    with assms(7) show ?thesis by (simp add: g(1) row_get_append)
  qed
  moreover have "fresh \<notin> set (member_ids f)"
    using assms(3,7) row_get_SomeD(1) by (fastforce simp: unused_id_def)
  ultimately show ?thesis
    using indicator_rows_ids [OF handle_indicators_rows [OF assms(1) ids]] assms(6,7) by (simp add: sheet_ids_bound)
qed

text \<open>
  The deletion is refused with the code of a conflict only for scores of evaluators: an indicator that an
  employee has assessed and nobody has scored violates a foreign key.
\<close>

lemma deleting_a_self_assessed_indicator_fails:
  assumes "require_capability [Manage_scoring] db user = Inr ()"
    and "row_get indicator_id (t_indicators db) k = Some i" and "scored_count db k = 0"
    and "s \<in> set (t_self_scores db)" and "self_score_indicator_id s = k"
  shows "delete_indicator db user k = Inl (HTTPException 500 ''foreign key'')"
  using assms by (auto simp: delete_indicator_def list_ex_iff raise_if_def)

text \<open>Reordering gives the indicators of a section the places from one on, in the order of the request.\<close>

lemma row_get_place:
  "row_get indicator_id (t_indicators (place job d)) j =
    (if j = snd job then map_option (\<lambda>i. i\<lparr>display_order := int (fst job)\<rparr>) (row_get indicator_id (t_indicators d) j)
     else row_get indicator_id (t_indicators d) j)"
  by (auto simp: place_def row_get_put dest: row_get_SomeD(2) split: option.splits)

lemma fold_place_orders:
  assumes "distinct (map snd jobs)" and "\<forall>job \<in> set jobs. row_get indicator_id (t_indicators db) (snd job) \<noteq> None"
    and "(n, k) \<in> set jobs"
  shows "map_option display_order (row_get indicator_id (t_indicators (fold place jobs db)) k) = Some (int n)"
  using assms
proof (induction jobs arbitrary: db)
  case (Cons job jobs)
  have later: "row_get indicator_id (t_indicators (fold place js d)) j = row_get indicator_id (t_indicators d) j"
    if "j \<notin> set (map snd js)" for js d j
    using that
  proof (induction js arbitrary: d)
    case (Cons x js)
    then show ?case by (simp add: row_get_place)
  qed simp
  show ?case
  proof (cases "(n, k) \<in> set jobs")
    case True
    moreover have "\<forall>x \<in> set jobs. row_get indicator_id (t_indicators (place job db)) (snd x) \<noteq> None"
      using Cons.prems(2) by (auto simp: row_get_place)
    ultimately show ?thesis using Cons.IH [of "place job db"] Cons.prems(1) by simp
  next
    case False
    with Cons.prems(3) have job: "job = (n, k)" by auto
    with Cons.prems(1) have "k \<notin> set (map snd jobs)" by simp
    with later [of k jobs "place job db"] Cons.prems(2) show ?thesis by (auto simp: row_get_place job)
  qed
qed simp

end
