(* ===== verification/IndicatorWitnesses.thy ===== *)
theory IndicatorWitnesses
  imports Indicators SystemWitnesses
begin

text \<open>An office with two indicators, one of which has been scored on the only record.\<close>

definition rules_record :: evaluation_record where
  "rules_record = saras_record\<lparr>indicator_framework_id := Some 1\<rparr>"

definition first_framework :: indicator_framework where
  "first_framework = \<lparr>framework_id = 1, framework_version = 1, member_ids = [4, 5], change_kind = ''seed'',
     change_note = None, framework_created_by_user_id = None\<rparr>"

definition rules_office :: database where
  "rules_office = office\<lparr>t_indicators := [punctuality, punctuality\<lparr>indicator_id := 5\<rparr>], t_frameworks := [first_framework],
     t_capabilities := [\<lparr>cap_id = 1, cap_user_id = 70, cap_capability = Manage_scoring, granted_by_user_id = None\<rparr>],
     t_evaluations := [rules_record],
     t_scores := [\<lparr>score_id = 1, score_record_id = 1, score_indicator_id = 4, score = 3, evidence_text = None\<rparr>]\<rparr>"

lemma rules_office_tables [simp]:
  "t_indicators rules_office = [punctuality, punctuality\<lparr>indicator_id := 5\<rparr>]" "t_frameworks rules_office = [first_framework]"
  "t_evaluations rules_office = [rules_record]" "t_self_scores rules_office = []"
  "t_scores rules_office = [\<lparr>score_id = 1, score_record_id = 1, score_indicator_id = 4, score = 3, evidence_text = None\<rparr>]"
  by (simp_all add: rules_office_def office_def empty_database_def)

lemma rules_office_wf: "framework_wf rules_office" "unused_id 6 rules_office"
  by (simp_all add: framework_wf_def unused_id_def current_framework_def active_member_ids_def punctuality_def
      first_framework_def)

lemma rules_admin: "require_capability [Manage_scoring] rules_office (person 70 Role_hr) = Inr ()"
  by (simp add: require_capability_def capabilities_of_def rules_office_def person_def)

lemma fifth_deleted: "\<exists>db'. handle_indicators 6 (person 70 Role_hr) (Delete_indicator 5) rules_office = Inr db'"
  by (simp add: delete_indicator_def rules_admin scored_count_def punctuality_def Let_def)

text \<open>A record that is being scored loses an indicator: it was bound to two and has one left.\<close>

lemma deletion_shrinks_a_touched_sheet:
  "\<exists>db'. handle_indicators 6 (person 70 Role_hr) (Delete_indicator 5) rules_office = Inr db' \<and>
    rules_record \<in> set (t_evaluations db') \<and>
    sheet_ids rules_office rules_record = {4, 5} \<and> sheet_ids db' rules_record = {4}"
proof -
  obtain db' where db': "handle_indicators 6 (person 70 Role_hr) (Delete_indicator 5) rules_office = Inr db'"
    using fifth_deleted by blast
  have fw: "indicator_framework_id rules_record = Some 1" by (simp add: rules_record_def)
  have touched: "\<not> is_untouched rules_office rules_record"
    by (simp add: is_untouched_def scores_of_def rules_record_def saras_record_fields)
  have "sheet_ids rules_office rules_record = {4, 5}"
    by (subst sheet_ids_bound [OF fw]) (auto simp: first_framework_def punctuality_def)
  with sheets_change_only_by_deletion [OF db' rules_office_wf, of rules_record 1 first_framework] db' fw touched
  show ?thesis by (auto simp: first_framework_def)
qed

theorem sheets_change_only_by_deletion_witness:
  "\<exists>db'. handle_indicators 6 (person 70 Role_hr) (Delete_indicator 5) rules_office = Inr db' \<and>
    sheet_ids db' rules_record = sheet_ids rules_office rules_record - {5}"
proof -
  obtain db' where db': "handle_indicators 6 (person 70 Role_hr) (Delete_indicator 5) rules_office = Inr db'"
    using fifth_deleted by blast
  have "indicator_framework_id rules_record = Some 1" "\<not> is_untouched rules_office rules_record"
    by (simp_all add: is_untouched_def scores_of_def rules_record_def saras_record_fields)
  with sheets_change_only_by_deletion [OF db' rules_office_wf, of rules_record 1 first_framework] db'
  show ?thesis by (auto simp: first_framework_def)
qed

theorem used_indicators_keep_their_meaning_witness:
  "\<exists>db' i. handle_indicators 6 (person 70 Role_hr) (Delete_indicator 5) rules_office = Inr db' \<and>
    row_get indicator_id (t_indicators db') 4 = Some i \<and> category i = ascii ''Discipline''"
proof -
  obtain db' where db': "handle_indicators 6 (person 70 Role_hr) (Delete_indicator 5) rules_office = Inr db'"
    using fifth_deleted by blast
  have "\<exists>i. row_get indicator_id (t_indicators db') 4 = Some i \<and> category i = category punctuality"
    using used_indicators_keep_their_meaning [OF db', of 4 punctuality] by (auto simp: punctuality_def scored_count_def)
  with db' show ?thesis by (auto simp: punctuality_def)
qed

theorem framework_always_current_witness:
  "\<exists>db'. handle_indicators 6 (person 70 Role_hr) (Delete_indicator 5) rules_office = Inr db' \<and> framework_wf db'"
proof -
  obtain db' where db': "handle_indicators 6 (person 70 Role_hr) (Delete_indicator 5) rules_office = Inr db'"
    using fifth_deleted by blast
  have "(\<lambda>db db'. \<exists>fresh user q. unused_id fresh db \<and> handle_indicators fresh user q db = Inr db')\<^sup>*\<^sup>* rules_office db'"
    using db' rules_office_wf(2) by (intro r_into_rtranclp) blast
  with framework_always_current [OF _ rules_office_wf(1)] db' show ?thesis by blast
qed

end
