(* ===== verification/AdministrationWitnesses.thy ===== *)
theory AdministrationWitnesses
  imports Administration StaffProperties SystemWitnesses
begin

text \<open>An office whose system manager is user 90 and whose user 70 of human resources manages users.\<close>

definition grant_row :: "int \<Rightarrow> int \<Rightarrow> capability \<Rightarrow> user_capability" where
  "grant_row i k c = \<lparr>cap_id = i, cap_user_id = k, cap_capability = c, granted_by_user_id = None\<rparr>"

definition managed_office :: database where
  "managed_office = office\<lparr>t_users := [account 70 Role_hr, account 90 Role_support],
     t_capabilities := [grant_row 1 70 Manage_users, grant_row 2 90 Manage_capabilities, grant_row 3 90 Manage_modules],
     t_org_units := [\<lparr>unit_id = 1, unit_site = None, unit_name = ascii ''Sales'', unit_is_active = True,
       is_hr_unit = False, unit_display_order = 1\<rparr>]\<rparr>"

lemma managed_capabilities:
  "capabilities_of managed_office 70 = {Manage_users}" "capabilities_of managed_office 90 = {Manage_capabilities, Manage_modules}"
  by (auto simp: capabilities_of_def managed_office_def grant_row_def)

lemma managed_users [simp]:
  "t_users managed_office = [account 70 Role_hr, account 90 Role_support]" "user_id (account k r) = k"
  "user_is_active (account k r)" "user_role (account k r) = r" "t_evaluations managed_office = []"
  by (simp_all add: managed_office_def account_def office_def empty_database_def)

lemma managed_can_grant: "somebody_can_grant managed_office"
  by (simp add: somebody_can_grant_def managed_capabilities)

text \<open>
  The page of capabilities never withdraws the last right to grant, but the page of accounts disables the
  only account that has it.
\<close>

lemma disabling_the_last_granter:
  "\<exists>db'. update_user env crypt managed_office (person 70 Role_hr) 90 (only_active False) = Inr db' \<and>
    \<not> somebody_can_grant db'"
proof -
  have "require_capability [Manage_users] managed_office (person 70 Role_hr) = Inr ()"
    by (simp add: require_capability_iff managed_capabilities)
  moreover have "capabilities_of (managed_office\<lparr>t_users := us\<rparr>) = capabilities_of managed_office" for us
    by (rule capabilities_cong) simp
  ultimately show ?thesis
    by (simp add: update_user_def only_active_def given_value_def get_user_def
        set_column_def set_nullable_def nonempty_text_def Let_def row_put_def ensure_no_open_chain_seat_def
        occupied_seats_in_open_records_def put_user_def somebody_can_grant_def managed_capabilities)
qed

lemma grants_modules:
  "\<exists>db' holder. set_capabilities managed_office (person 90 Role_support) 70 [Manage_users, Manage_scoring] = Inr (db', holder)"
  by (simp add: set_capabilities_def require_capability_iff managed_capabilities get_user_def Let_def)

theorem capabilities_are_set_exactly_witness:
  "\<exists>db' holder. set_capabilities managed_office (person 90 Role_support) 70 [Manage_users, Manage_scoring] = Inr (db', holder) \<and>
    capabilities_of db' 70 = {Manage_users, Manage_scoring} \<and> capabilities_of db' 90 = {Manage_capabilities, Manage_modules}"
proof -
  obtain db' holder where s:
    "set_capabilities managed_office (person 90 Role_support) 70 [Manage_users, Manage_scoring] = Inr (db', holder)"
    using grants_modules by blast
  from capabilities_are_set_exactly [OF s] s managed_capabilities show ?thesis by auto
qed

theorem granting_never_locks_out_witness:
  "\<exists>db' holder. set_capabilities managed_office (person 90 Role_support) 70 [Manage_users, Manage_scoring] = Inr (db', holder) \<and>
    somebody_can_grant db'"
proof -
  obtain db' holder where s:
    "set_capabilities managed_office (person 90 Role_support) 70 [Manage_users, Manage_scoring] = Inr (db', holder)"
    using grants_modules by blast
  then have "(\<lambda>db db'. \<exists>user k given holder. set_capabilities db user k given = Inr (db', holder))\<^sup>*\<^sup>* managed_office db'"
    by (intro r_into_rtranclp) blast
  from granting_never_locks_out [OF this managed_can_grant] s show ?thesis by blast
qed

theorem separation_is_real_witness:
  "\<exists>report. read_separation managed_office (person 90 Role_support) = Inr report \<and> separated report \<and>
    require_capability [Manage_scoring] managed_office (as_current_user (account 70 Role_hr)) = Inl (HTTPException 403 ''capability'')"
proof -
  have "\<not> is_overlapping managed_office (account 70 Role_hr)" "\<not> is_overlapping managed_office (account 90 Role_support)"
    by (simp_all add: is_overlapping_def CHAIN_ROLES_def RULE_CHANGING_def managed_capabilities)
  then obtain report where r: "read_separation managed_office (person 90 Role_support) = Inr report" "separated report"
    by (simp add: read_separation_def require_capability_def managed_capabilities)
  from separation_is_real [OF r, of "account 70 Role_hr"] r show ?thesis by (auto simp: CHAIN_ROLES_def)
qed

theorem toggling_a_module_witness:
  "\<exists>db' shown. toggle_module managed_office (person 90 Role_support) ''employee_evaluation_visibility'' False = Inr (db', shown) \<and>
    \<not> is_module_enabled db' ''objections''"
proof -
  obtain db' shown where t:
    "toggle_module managed_office (person 90 Role_support) ''employee_evaluation_visibility'' False = Inr (db', shown)"
    by (simp add: toggle_module_def require_capability_iff managed_capabilities module_by_key_def MODULES_def Let_def)
  moreover obtain m where "module_by_key ''objections'' = Some m" "mod_requires m = [''employee_evaluation_visibility'']"
    by (simp add: module_by_key_def MODULES_def Let_def)
  ultimately show ?thesis using toggling_a_module [OF t] by auto
qed

theorem nobody_loses_the_unit_witness:
  "\<exists>db' p. handle_units (person 70 Role_hr) (Update_unit 1 \<lparr>ouu_site = None, ouu_name = Some (Some (ascii ''Trade'')),
      ouu_is_active = None, ouu_is_hr_unit = None\<rparr>) managed_office = Inr db' \<and>
    t_personnel db' = [p] \<and> personnel_id p = 50 \<and> catalogued db' (org_unit p)"
proof -
  let ?q = "Update_unit 1 \<lparr>ouu_site = None, ouu_name = Some (Some (ascii ''Trade'')), ouu_is_active = None, ouu_is_hr_unit = None\<rparr>"
  obtain db' where db': "handle_units (person 70 Role_hr) ?q managed_office = Inr db'"
    by (simp add: update_org_unit_def units_guard_def require_role_or_capability_def updated_unit_def text_field_def
        managed_office_def unit_clash_def ascii_def strip_def is_space_def Let_def)
  have "catalogued managed_office (org_unit employee)" "t_personnel managed_office = [employee]"
    by (simp_all add: catalogued_def managed_office_def office_def employee_def unit_full_name_def join_site_def
        ascii_def strip_def is_space_def)
  moreover have "distinct (map unit_id (t_org_units managed_office))" by (simp add: managed_office_def)
  ultimately obtain p where p: "t_personnel db' = [p]" "p = employee\<lparr>org_unit := org_unit p\<rparr>" "catalogued db' (org_unit p)"
    using nobody_loses_the_unit [OF db'] by (auto simp: list_all2_Cons1)
  from p(2) have "personnel_id p = personnel_id (employee\<lparr>org_unit := org_unit p\<rparr>)" by (rule arg_cong)
  then have "personnel_id p = 50" by (simp add: employee_def)
  with db' p(1,3) show ?thesis by blast
qed

end
