(* ===== verification/Policy.thy ===== *)
theory Policy
  imports Administration Sweeps
begin

text \<open>
  Settings that are changed while the server runs: the fields of \<open>app/core/integrations.py\<close>, the stored
  texts with their parsing, validation and refresh (\<open>app/services/integrations.py\<close>), and the pages of
  integrations and of the policy (\<open>app/api/routers/administration.py\<close>).
\<close>

section \<open>Fields\<close>

datatype field_kind = Kind_text | Kind_number | Kind_bool

record integration_field =
  fld_key :: string
  fld_kind :: field_kind
  fld_minimum :: "int option"
  fld_maximum :: "int option"

definition plain_field :: "string \<Rightarrow> field_kind \<Rightarrow> integration_field" where
  "plain_field k kind = \<lparr>fld_key = k, fld_kind = kind, fld_minimum = None, fld_maximum = None\<rparr>"

definition number_field :: "string \<Rightarrow> int \<Rightarrow> int \<Rightarrow> integration_field" where
  "number_field k low high =
    \<lparr>fld_key = k, fld_kind = Kind_number, fld_minimum = Some low, fld_maximum = Some high\<rparr>"

definition EDITABLE :: "integration_field list" where
  "EDITABLE =
    [plain_field ''smtp_host'' Kind_text, plain_field ''smtp_port'' Kind_number,
     plain_field ''smtp_from'' Kind_text, plain_field ''smtp_use_starttls'' Kind_bool,
     plain_field ''smtp_use_ssl'' Kind_bool, plain_field ''sms_url'' Kind_text,
     plain_field ''sms_method'' Kind_text, plain_field ''sms_headers'' Kind_text,
     plain_field ''sms_body'' Kind_text, plain_field ''sms_success_contains'' Kind_text]"

definition POLICY :: "integration_field list" where
  "POLICY =
    [number_field ''objection_window_days'' 1 365, number_field ''min_cohort_size'' 1 100,
     number_field ''contract_expiry_alert_days'' 1 365, number_field ''sla_reminder_days'' 1 90,
     number_field ''improvement_review_alert_days'' 1 90, number_field ''notification_dedup_days'' 1 90,
     number_field ''login_max_failed_attempts'' 3 50, number_field ''login_lockout_minutes'' 1 1440]"

definition SECRET_KEYS :: "string list" where
  "SECRET_KEYS = [''smtp_username'', ''smtp_password'', ''sms_api_key'']"

definition EDITABLE_BY_KEY :: "string \<Rightarrow> integration_field option" where
  "EDITABLE_BY_KEY k = find (\<lambda>f. fld_key f = k) (EDITABLE @ POLICY)"

section \<open>Values as texts\<close>

datatype setting_value = VText utext | VNumber int | VBool bool

text \<open>
  Python's \<open>int\<close> of a text: white space around it, a sign, decimal digits of any script (\<open>digit\<close> is the
  table of Unicode) with single underscores between them. The limit of 4300 digits is left out.
\<close>

primrec read_decimal :: "(nat \<Rightarrow> nat option) \<Rightarrow> int \<Rightarrow> utext \<Rightarrow> int option" where
  "read_decimal digit acc [] = Some acc"
| "read_decimal digit acc (c # cs) =
    (if c = 95 then if cs = [] \<or> digit (hd cs) = None then None else read_decimal digit acc cs
     else case digit c of None \<Rightarrow> None | Some d \<Rightarrow> read_decimal digit (10 * acc + int d) cs)"

definition py_int :: "(nat \<Rightarrow> nat option) \<Rightarrow> utext \<Rightarrow> int option" where
  "py_int digit s =
    (let t = strip s;
         negative = (t \<noteq> [] \<and> hd t = 45);
         body = (if t \<noteq> [] \<and> (hd t = 45 \<or> hd t = 43) then tl t else t)
     in if body = [] \<or> digit (hd body) = None then None
        else map_option (\<lambda>n. if negative then - n else n) (read_decimal digit 0 body))"

definition parse :: "(nat \<Rightarrow> nat option) \<Rightarrow> field_kind \<Rightarrow> utext \<Rightarrow> setting_value option" where
  "parse digit kind raw =
    (case kind of
       Kind_number \<Rightarrow> map_option VNumber (py_int digit raw)
     | Kind_bool \<Rightarrow> Some (VBool (raw = ascii ''true''))
     | Kind_text \<Rightarrow> Some (VText raw))"

fun serialise :: "setting_value \<Rightarrow> utext" where
  "serialise (VBool b) = ascii (if b then ''true'' else ''false'')"
| "serialise (VNumber n) = ascii (str_int n)"
| "serialise (VText t) = t"

text \<open>\<open>int(value)\<close> of what the schema lets through: a boolean is 0 or 1.\<close>

fun int_value :: "(nat \<Rightarrow> nat option) \<Rightarrow> setting_value \<Rightarrow> int option" where
  "int_value digit (VNumber n) = Some n"
| "int_value digit (VBool b) = Some (if b then 1 else 0)"
| "int_value digit (VText t) = py_int digit t"

datatype setting_error = Invalid_setting_value | Value_error

definition validated :: "(nat \<Rightarrow> nat option) \<Rightarrow> integration_field \<Rightarrow> setting_value \<Rightarrow> setting_error + setting_value" where
  "validated digit f v =
    (case fld_kind f of
       Kind_bool \<Rightarrow>
         (case v of
            VBool b \<Rightarrow> Inr (VBool b)
          | VText t \<Rightarrow> if t = ascii ''true'' then Inr (VBool True) else if t = ascii ''false'' then Inr (VBool False)
              else Inl Invalid_setting_value
          | VNumber _ \<Rightarrow> Inl Invalid_setting_value)
     | Kind_text \<Rightarrow> Inr v
     | Kind_number \<Rightarrow>
         bindE (or_raise (int_value digit v) Value_error) (\<lambda>n.
         bindE (raise_if (case fld_minimum f of None \<Rightarrow> False | Some low \<Rightarrow> n < low) Invalid_setting_value) (\<lambda>_.
         bindE (raise_if (case fld_maximum f of None \<Rightarrow> False | Some high \<Rightarrow> high < n) Invalid_setting_value) (\<lambda>_.
         Inr (VNumber n)))))"

section \<open>The stored values\<close>

type_synonym setting_rows = "(string \<times> utext) list"

definition put_setting :: "string \<Rightarrow> utext \<Rightarrow> setting_rows \<Rightarrow> setting_rows" where
  "put_setting k raw rows =
    (if list_ex (\<lambda>r. fst r = k) rows then map (\<lambda>r. if fst r = k then (k, raw) else r) rows else rows @ [(k, raw)])"

definition save_one ::
  "(nat \<Rightarrow> nat option) \<Rightarrow> string set \<Rightarrow> setting_rows \<Rightarrow> string \<times> setting_value \<Rightarrow> setting_error + setting_rows" where
  "save_one digit allowed rows item =
    (case EDITABLE_BY_KEY (fst item) of
       None \<Rightarrow> Inr rows
     | Some f \<Rightarrow>
        if fst item \<notin> allowed then Inr rows
        else bindE (validated digit f (snd item)) (\<lambda>v. Inr (put_setting (fst item) (serialise v) rows)))"

definition save ::
  "(nat \<Rightarrow> nat option) \<Rightarrow> setting_rows \<Rightarrow> (string \<times> setting_value) list \<Rightarrow> string set \<Rightarrow> setting_error + setting_rows" where
  "save digit rows vals allowed = foldE (save_one digit allowed) rows vals"

definition stored_values :: "setting_rows \<Rightarrow> string \<Rightarrow> utext option" where
  "stored_values rows k = (if EDITABLE_BY_KEY k = None then None else map_of rows k)"

text \<open>\<open>defaults\<close> are the values of the environment (\<open>_ENV_DEFAULTS\<close>); a text that cannot be read is passed over.\<close>

definition effective_value ::
  "(nat \<Rightarrow> nat option) \<Rightarrow> (string \<Rightarrow> setting_value) \<Rightarrow> setting_rows \<Rightarrow> integration_field \<Rightarrow> setting_value" where
  "effective_value digit defaults rows f =
    (case stored_values rows (fld_key f) of
       None \<Rightarrow> defaults (fld_key f)
     | Some raw \<Rightarrow> (case parse digit (fld_kind f) raw of None \<Rightarrow> defaults (fld_key f) | Some v \<Rightarrow> v))"

definition effective_values ::
  "(nat \<Rightarrow> nat option) \<Rightarrow> (string \<Rightarrow> setting_value) \<Rightarrow> setting_rows \<Rightarrow> (string \<times> setting_value) list" where
  "effective_values digit defaults rows =
    map (\<lambda>f. (fld_key f, effective_value digit defaults rows f)) (EDITABLE @ POLICY)"

text \<open>\<open>setattr\<close> on the settings of the process, for the fields that the model reads.\<close>

definition number_of :: "(string \<times> setting_value) list \<Rightarrow> string \<Rightarrow> int \<Rightarrow> int" where
  "number_of vs k old = (case map_of vs k of Some (VNumber n) \<Rightarrow> n | _ \<Rightarrow> old)"

definition refresh_settings :: "(string \<times> setting_value) list \<Rightarrow> settings \<Rightarrow> settings" where
  "refresh_settings vs c =
    c\<lparr>objection_window_days := number_of vs ''objection_window_days'' (objection_window_days c),
      min_cohort_size := number_of vs ''min_cohort_size'' (min_cohort_size c),
      contract_expiry_alert_days := number_of vs ''contract_expiry_alert_days'' (contract_expiry_alert_days c),
      sla_reminder_days := number_of vs ''sla_reminder_days'' (sla_reminder_days c),
      improvement_review_alert_days := number_of vs ''improvement_review_alert_days'' (improvement_review_alert_days c),
      notification_dedup_days := number_of vs ''notification_dedup_days'' (notification_dedup_days c),
      login_max_failed_attempts := number_of vs ''login_max_failed_attempts'' (login_max_failed_attempts c),
      login_lockout_minutes := number_of vs ''login_lockout_minutes'' (login_lockout_minutes c)\<rparr>"

section \<open>The pages\<close>

record configuration =
  cfg_db :: database
  t_integration_settings :: setting_rows
  live :: settings
  live_values :: "(string \<times> setting_value) list"

text \<open>
  What does not change while the server runs: the digits of Unicode, the environment, which secrets it
  has, and which channels the settings of the process (\<open>live_values\<close>) make available.
\<close>

record installation =
  unicode_digit :: "nat \<Rightarrow> nat option"
  env_defaults :: "string \<Rightarrow> setting_value"
  secrets :: "string \<Rightarrow> utext"
  channels_of :: "(string \<times> setting_value) list \<Rightarrow> delivery_channel list"

definition secret_status :: "installation \<Rightarrow> (string \<times> bool) list" where
  "secret_status inst = map (\<lambda>k. (k, secrets inst k \<noteq> [])) SECRET_KEYS"

record integration_page =
  ipg_fields :: "(string \<times> setting_value) list"
  ipg_secrets :: "(string \<times> bool) list"
  ipg_channels :: "delivery_channel list"

definition read_integrations :: "installation \<Rightarrow> configuration \<Rightarrow> current_user \<Rightarrow> integration_page http" where
  "read_integrations inst c user =
    bindE (require_capability [Manage_integrations] (cfg_db c) user) (\<lambda>_.
    let vs = effective_values (unicode_digit inst) (env_defaults inst) (t_integration_settings c)
    in Inr \<lparr>ipg_fields = map (\<lambda>f. (fld_key f, the (map_of vs (fld_key f)))) EDITABLE,
         ipg_secrets = secret_status inst, ipg_channels = channels_of inst (live_values c)\<rparr>)"

definition refreshed :: "installation \<Rightarrow> configuration \<Rightarrow> configuration" where
  "refreshed inst c =
    (let vs = effective_values (unicode_digit inst) (env_defaults inst) (t_integration_settings c)
     in c\<lparr>live := refresh_settings vs (live c), live_values := vs\<rparr>)"

text \<open>No \<open>except\<close> here: a value that is refused is an internal error.\<close>

definition update_integrations ::
  "installation \<Rightarrow> configuration \<Rightarrow> current_user \<Rightarrow> (string \<times> setting_value) list \<Rightarrow> (configuration \<times> integration_page) http" where
  "update_integrations inst c user vals =
    bindE (require_capability [Manage_integrations] (cfg_db c) user) (\<lambda>_.
    case save (unicode_digit inst) (t_integration_settings c) vals (set (map fld_key EDITABLE)) of
      Inl _ \<Rightarrow> Inl (HTTPException 500 ''invalid value'')
    | Inr rows \<Rightarrow>
       (let c1 = refreshed inst (c\<lparr>t_integration_settings := rows\<rparr>);
            keys = sort_key id (filter (\<lambda>k. EDITABLE_BY_KEY k \<noteq> None) (map fst vals));
            c2 = c1\<lparr>cfg_db := log_event (cu_id user) ''integration_settings_changed'' None None
                   (Some [(''keys'', JArray (map jstr keys))]) (cfg_db c1)\<rparr>
        in bindE (read_integrations inst c2 user) (\<lambda>page. Inr (c2, page))))"

definition POLICY_KEYS :: "string set" where
  "POLICY_KEYS = set (map fld_key POLICY)"

definition read_policy ::
  "installation \<Rightarrow> configuration \<Rightarrow> current_user \<Rightarrow> (integration_field \<times> setting_value) list http" where
  "read_policy inst c user =
    bindE (require_capability [Manage_modules] (cfg_db c) user) (\<lambda>_.
    let vs = effective_values (unicode_digit inst) (env_defaults inst) (t_integration_settings c)
    in Inr (map (\<lambda>f. (f, the (map_of vs (fld_key f)))) POLICY))"

fun setting_json :: "setting_value \<Rightarrow> json" where
  "setting_json (VText t) = JString t" | "setting_json (VNumber n) = JInt n" | "setting_json (VBool b) = JBool b"

definition update_policy ::
  "installation \<Rightarrow> configuration \<Rightarrow> current_user \<Rightarrow> (string \<times> setting_value) list \<Rightarrow>
    (configuration \<times> (integration_field \<times> setting_value) list) http" where
  "update_policy inst c user vals =
    bindE (require_capability [Manage_modules] (cfg_db c) user) (\<lambda>_.
    case save (unicode_digit inst) (t_integration_settings c) vals POLICY_KEYS of
      Inl Invalid_setting_value \<Rightarrow> Inl (HTTPException 400 ''out of range'')
    | Inl Value_error \<Rightarrow> Inl (HTTPException 400 ''not a number'')
    | Inr rows \<Rightarrow>
       (let c1 = refreshed inst (c\<lparr>t_integration_settings := rows\<rparr>);
            c2 = c1\<lparr>cfg_db := log_event (cu_id user) ''policy_settings_changed'' None None
                   (Some (map (\<lambda>(k, v). (k, setting_json v)) (filter (\<lambda>(k, _). k \<in> POLICY_KEYS) vals))) (cfg_db c1)\<rparr>
        in bindE (read_policy inst c2 user) (\<lambda>page. Inr (c2, page))))"

section \<open>Texts read back\<close>

text \<open>The table of digits gives the digits of ASCII their values.\<close>

definition digits_ok :: "(nat \<Rightarrow> nat option) \<Rightarrow> bool" where
  "digits_ok digit \<longleftrightarrow> list_all (\<lambda>d. digit (48 + d) = Some d) [0..<10]"

lemma digits_okD: "digits_ok digit \<Longrightarrow> 48 \<le> c \<Longrightarrow> c \<le> 57 \<Longrightarrow> digit c = Some (c - 48)"
  by (auto simp: digits_ok_def list_all_iff dest!: bspec [of _ _ "c - 48"])

lemma read_decimal_digits:
  assumes "digits_ok digit"
  shows "list_all (\<lambda>c. 48 \<le> c \<and> c \<le> 57) xs \<Longrightarrow>
    read_decimal digit acc xs = Some (foldl (\<lambda>a c. 10 * a + int (c - 48)) acc xs)"
  by (induction xs arbitrary: acc) (auto simp: digits_okD [OF assms])

lemma ascii_append: "ascii (s @ t) = ascii s @ ascii t"
  by (simp add: ascii_def)

lemma ascii_digits_of:
  "list_all (\<lambda>c. 48 \<le> c \<and> c \<le> 57) (ascii (digits_of n)) \<and>
   foldl (\<lambda>a c. 10 * a + int (c - 48)) 0 (ascii (digits_of n)) = int n"
proof (induction n rule: digits_of.induct)
  case (1 n)
  show ?case
  proof (cases "n < 10")
    case True
    then show ?thesis by (subst (1 2) digits_of.simps) (simp add: ascii_def)
  next
    case False
    have "n = 10 * (n div 10) + n mod 10" by simp
    then have n: "int n = 10 * int (n div 10) + int (n mod 10)" by (metis of_nat_add of_nat_mult of_nat_numeral)
    have c: "of_char (char_of (48 + n mod 10) :: char) = 48 + n mod 10" by simp
    show ?thesis
      using 1 [OF False] False n by (subst (1 2) digits_of.simps) (simp add: ascii_append, simp add: ascii_def c)
  qed
qed

lemma no_space_strip: "list_all (\<lambda>c. \<not> is_space c) s \<Longrightarrow> strip s = s"
proof -
  have same: "dropWhile is_space t = t" if "list_all (\<lambda>c. \<not> is_space c) t" for t using that by (cases t) simp_all
  assume s: "list_all (\<lambda>c. \<not> is_space c) s"
  then have "list_all (\<lambda>c. \<not> is_space c) (rev s)" by (simp add: list_all_iff)
  with s show ?thesis by (simp add: strip_def same)
qed

lemma digit_no_space: "48 \<le> c \<Longrightarrow> c \<le> 57 \<Longrightarrow> \<not> is_space c"
  by (auto simp: is_space_def)

lemma py_int_str_int:
  assumes "digits_ok digit"
  shows "py_int digit (ascii (str_int n)) = Some n"
proof -
  have digits: "list_all (\<lambda>c. 48 \<le> c \<and> c \<le> 57) (ascii (digits_of m))" for m using ascii_digits_of by blast
  have ne: "ascii (digits_of m) \<noteq> []" for m by (simp add: ascii_def)
  have hd_digit: "48 \<le> hd (ascii (digits_of m)) \<and> hd (ascii (digits_of m)) \<le> 57" for m
    using digits [of m] ne [of m] by (metis hd_in_set list_all_iff)
  have read: "read_decimal digit 0 (ascii (digits_of m)) = Some (int m)" for m
    using read_decimal_digits [OF assms digits] ascii_digits_of by simp
  have hd_some: "digit (hd (ascii (digits_of m))) \<noteq> None" for m
    using digits_okD [OF assms] hd_digit [of m] by simp
  have space: "list_all (\<lambda>c. \<not> is_space c) (ascii (digits_of m))" for m
    using digits [of m] digit_no_space by (auto simp: list_all_iff)
  show ?thesis
  proof (cases "n < 0")
    case True
    have t: "ascii (str_int n) = 45 # ascii (digits_of (nat (- n)))" using True by (simp add: str_int_def ascii_def)
    have "strip (ascii (str_int n)) = ascii (str_int n)"
      by (rule no_space_strip) (use t space in \<open>simp add: is_space_def\<close>)
    then show ?thesis using True ne hd_some read by (simp add: py_int_def t Let_def)
  next
    case False
    have t: "ascii (str_int n) = ascii (digits_of (nat n))" using False by (simp add: str_int_def)
    have "hd (ascii (digits_of (nat n))) \<noteq> 45" "hd (ascii (digits_of (nat n))) \<noteq> 43" using hd_digit [of "nat n"] by auto
    then show ?thesis using False ne hd_some read no_space_strip [OF space] by (simp add: py_int_def t Let_def)
  qed
qed

text \<open>What a value that was accepted reads as afterwards.\<close>

definition kept :: "(nat \<Rightarrow> nat option) \<Rightarrow> integration_field \<Rightarrow> setting_value \<Rightarrow> setting_value" where
  "kept digit f v =
    (case fld_kind f of
       Kind_number \<Rightarrow> VNumber (the (int_value digit v))
     | Kind_bool \<Rightarrow> VBool (serialise v = ascii ''true'')
     | Kind_text \<Rightarrow> VText (serialise v))"

lemma validated_kept:
  assumes "digits_ok digit" and "validated digit f v = Inr w"
  shows "parse digit (fld_kind f) (serialise w) = Some (kept digit f v)"
  using assms(2) py_int_str_int [OF assms(1)]
  by (cases v) (auto simp: validated_def parse_def kept_def ascii_def split: field_kind.splits if_splits)

lemma map_of_put_setting: "map_of (put_setting k raw rows) = (map_of rows)(k \<mapsto> raw)"
proof -
  have "map_of (map (\<lambda>r. if fst r = k then (k, raw) else r) rows) j =
    (if j = k then if list_ex (\<lambda>r. fst r = k) rows then Some raw else None else map_of rows j)" for j
    by (induction rows) auto
  moreover have "\<not> list_ex (\<lambda>r. fst r = k) rows \<Longrightarrow> map_of rows k = None"
    by (auto simp: list_ex_iff map_of_eq_None_iff)
  ultimately show ?thesis by (auto simp: put_setting_def fun_eq_iff map_add_def split: option.splits)
qed

lemma save_one_effect:
  assumes "digits_ok digit" and "save_one digit allowed rows (k, v) = Inr rows'" and "EDITABLE_BY_KEY (fld_key f) = Some f"
  shows "effective_value digit defaults rows' f =
    (if fld_key f = k \<and> k \<in> allowed then kept digit f v else effective_value digit defaults rows f)"
  using assms(2,3) validated_kept [OF assms(1)]
  by (auto simp: save_one_def effective_value_def stored_values_def map_of_put_setting
    split: option.splits if_splits)

lemma save_effect:
  assumes "digits_ok digit" and "EDITABLE_BY_KEY (fld_key f) = Some f"
  shows "save digit rows vals allowed = Inr rows' \<Longrightarrow> distinct (map fst vals) \<Longrightarrow>
    effective_value digit defaults rows' f =
    (case map_of vals (fld_key f) of
       Some v \<Rightarrow> if fld_key f \<in> allowed then kept digit f v else effective_value digit defaults rows f
     | None \<Rightarrow> effective_value digit defaults rows f)"
proof (induction vals arbitrary: rows)
  case (Cons item vals)
  obtain k v where item: "item = (k, v)" by fastforce
  from Cons.prems(1) obtain rows1 where s: "save_one digit allowed rows (k, v) = Inr rows1"
    "save digit rows1 vals allowed = Inr rows'" by (auto simp: save_def item)
  from Cons.prems(2) have k: "map_of vals k = None" "distinct (map fst vals)"
    by (auto simp: item map_of_eq_None_iff)
  show ?case using Cons.IH [OF s(2) k(2)] save_one_effect [OF assms(1) s(1) assms(2)] k(1)
    by (auto simp: item split: option.splits)
qed (simp add: save_def)

lemma fields_by_key: "list_all (\<lambda>f. EDITABLE_BY_KEY (fld_key f) = Some f) (EDITABLE @ POLICY)"
  by code_simp

lemma by_key:
  shows policy_by_key: "f \<in> set POLICY \<Longrightarrow> EDITABLE_BY_KEY (fld_key f) = Some f"
    and editable_by_key: "f \<in> set EDITABLE \<Longrightarrow> EDITABLE_BY_KEY (fld_key f) = Some f"
  using fields_by_key by (simp_all add: list_all_iff)

lemma map_of_effective:
  assumes "EDITABLE_BY_KEY (fld_key f) = Some f"
  shows "map_of (effective_values digit defaults rows) (fld_key f) = Some (effective_value digit defaults rows f)"
proof -
  have "map_of (map (\<lambda>g. (fld_key g, effective_value digit defaults rows g)) gs) k =
    map_option (effective_value digit defaults rows) (find (\<lambda>g. fld_key g = k) gs)" for gs k
    by (induction gs) auto
  then show ?thesis using assms by (simp add: effective_values_def EDITABLE_BY_KEY_def del: map_append)
qed

section \<open>What the pages promise\<close>

lemma update_policy_InrD:
  assumes "update_policy inst c user vals = Inr (c', page)"
  shows "save (unicode_digit inst) (t_integration_settings c) vals POLICY_KEYS = Inr (t_integration_settings c')"
    and "live c' = refresh_settings (effective_values (unicode_digit inst) (env_defaults inst) (t_integration_settings c')) (live c)"
    and "page = map (\<lambda>f. (f, effective_value (unicode_digit inst) (env_defaults inst) (t_integration_settings c') f)) POLICY"
  using assms
  by (auto simp: update_policy_def read_policy_def refreshed_def Let_def map_of_effective policy_by_key
    split: sum.splits setting_error.splits)

lemma update_integrations_InrD:
  assumes "update_integrations inst c user vals = Inr (c', page)"
  shows "save (unicode_digit inst) (t_integration_settings c) vals (set (map fld_key EDITABLE)) = Inr (t_integration_settings c')"
    and "live c' = refresh_settings (effective_values (unicode_digit inst) (env_defaults inst) (t_integration_settings c')) (live c)"
  using assms
  by (auto simp: update_integrations_def read_integrations_def refreshed_def Let_def split: sum.splits)

lemma keys_apart:
  "f \<in> set POLICY \<Longrightarrow> fld_key f \<in> POLICY_KEYS \<and> fld_key f \<notin> set (map fld_key EDITABLE)"
  "f \<in> set EDITABLE \<Longrightarrow> fld_key f \<notin> POLICY_KEYS"
proof -
  have "list_all (\<lambda>f. fld_key f \<notin> set (map fld_key EDITABLE)) POLICY" by code_simp
  then show "f \<in> set POLICY \<Longrightarrow> fld_key f \<in> POLICY_KEYS \<and> fld_key f \<notin> set (map fld_key EDITABLE)"
    by (auto simp: list_all_iff POLICY_KEYS_def)
  have "list_all (\<lambda>f. fld_key f \<notin> set (map fld_key POLICY)) EDITABLE" by code_simp
  then show "f \<in> set EDITABLE \<Longrightarrow> fld_key f \<notin> POLICY_KEYS" by (simp add: list_all_iff POLICY_KEYS_def)
qed

lemma policy_kind: "f \<in> set POLICY \<Longrightarrow> fld_kind f = Kind_number"
  by (auto simp: POLICY_def number_field_def)

text \<open>
  C39. Numbers saved on the page of the policy come back from their stored texts as they were given, the others
  stay, the settings of integrations are out of its reach, and the server uses the new values at once.
\<close>

theorem saved_policy_takes_effect:
  assumes "update_policy inst c user vals = Inr (c', page)" and "digits_ok (unicode_digit inst)"
    and "distinct (map fst vals)"
  shows "page = map (\<lambda>f. (f, case map_of vals (fld_key f) of
        Some v \<Rightarrow> VNumber (the (int_value (unicode_digit inst) v))
      | None \<Rightarrow> effective_value (unicode_digit inst) (env_defaults inst) (t_integration_settings c) f)) POLICY \<and>
    list_all (\<lambda>f. effective_value (unicode_digit inst) (env_defaults inst) (t_integration_settings c') f =
      effective_value (unicode_digit inst) (env_defaults inst) (t_integration_settings c) f) EDITABLE \<and>
    live c' = refresh_settings (map (\<lambda>(f, v). (fld_key f, v)) page) (live c)"
proof -
  note effect = save_effect [OF assms(2) _ update_policy_InrD(1) [OF assms(1)] assms(3)]
  have "effective_value (unicode_digit inst) (env_defaults inst) (t_integration_settings c') f =
    (case map_of vals (fld_key f) of Some v \<Rightarrow> VNumber (the (int_value (unicode_digit inst) v))
     | None \<Rightarrow> effective_value (unicode_digit inst) (env_defaults inst) (t_integration_settings c) f)"
    if "f \<in> set POLICY" for f
    using effect [OF policy_by_key [OF that]] keys_apart(1) [OF that] policy_kind [OF that]
    by (simp add: kept_def split: option.splits)
  then have page: "page = map (\<lambda>f. (f, case map_of vals (fld_key f) of
        Some v \<Rightarrow> VNumber (the (int_value (unicode_digit inst) v))
      | None \<Rightarrow> effective_value (unicode_digit inst) (env_defaults inst) (t_integration_settings c) f)) POLICY"
    unfolding update_policy_InrD(3) [OF assms(1)] by simp
  have others: "list_all (\<lambda>f. effective_value (unicode_digit inst) (env_defaults inst) (t_integration_settings c') f =
      effective_value (unicode_digit inst) (env_defaults inst) (t_integration_settings c) f) EDITABLE"
    using effect [OF editable_by_key] keys_apart(2) by (auto simp: list_all_iff split: option.splits)
  have "refresh_settings (effective_values digit defaults rows) s =
    refresh_settings (map (\<lambda>(f, v). (fld_key f, v)) (map (\<lambda>f. (f, effective_value digit defaults rows f)) POLICY)) s"
    for digit defaults rows s
    by (simp add: refresh_settings_def number_of_def effective_values_def EDITABLE_def POLICY_def plain_field_def number_field_def)
  with page others show ?thesis using update_policy_InrD(2,3) [OF assms(1)] by simp
qed

section \<open>Limits\<close>

definition within_limits :: "integration_field \<Rightarrow> setting_value \<Rightarrow> bool" where
  "within_limits f v =
    (case v of
       VNumber n \<Rightarrow> (case fld_minimum f of None \<Rightarrow> True | Some low \<Rightarrow> low \<le> n) \<and>
         (case fld_maximum f of None \<Rightarrow> True | Some high \<Rightarrow> n \<le> high)
     | _ \<Rightarrow> False)"

definition policy_ok :: "installation \<Rightarrow> configuration \<Rightarrow> bool" where
  "policy_ok inst c \<longleftrightarrow>
    list_all (\<lambda>f. within_limits f (effective_value (unicode_digit inst) (env_defaults inst) (t_integration_settings c) f)) POLICY"

text \<open>The same for the settings the server works with.\<close>

definition settings_ok :: "settings \<Rightarrow> bool" where
  "settings_ok s \<longleftrightarrow>
    objection_window_days s \<in> {1..365} \<and> min_cohort_size s \<in> {1..100} \<and>
    contract_expiry_alert_days s \<in> {1..365} \<and> sla_reminder_days s \<in> {1..90} \<and>
    improvement_review_alert_days s \<in> {1..90} \<and> notification_dedup_days s \<in> {1..90} \<and>
    login_max_failed_attempts s \<in> {3..50} \<and> login_lockout_minutes s \<in> {1..1440}"

lemma settings_ok_windows: "settings_ok s \<Longrightarrow> windows_ok s"
  by (simp add: settings_ok_def windows_ok_def)

lemma validated_within:
  assumes "digits_ok digit" and "validated digit f v = Inr w" and "fld_kind f = Kind_number"
  shows "within_limits f (kept digit f v)"
  using assms by (auto simp: validated_def kept_def within_limits_def not_less split: option.splits)

lemma save_one_within:
  assumes "digits_ok digit" and "EDITABLE_BY_KEY (fld_key f) = Some f" and "fld_kind f = Kind_number"
    and "within_limits f (effective_value digit defaults rows f)" and "save_one digit allowed rows item = Inr rows'"
  shows "within_limits f (effective_value digit defaults rows' f)"
proof -
  obtain k v where item: "item = (k, v)" by fastforce
  show ?thesis
  proof (cases "fld_key f = k \<and> k \<in> allowed")
    case True
    with assms(2,5) obtain w where "validated digit f v = Inr w" by (auto simp: save_one_def item)
    with True show ?thesis
      using save_one_effect [OF assms(1) assms(5) [unfolded item] assms(2)] validated_within [OF assms(1) _ assms(3)] by simp
  next
    case False
    then have "effective_value digit defaults rows' f = effective_value digit defaults rows f"
      using save_one_effect [OF assms(1) assms(5) [unfolded item] assms(2)] by metis
    then show ?thesis using assms(4) by simp
  qed
qed

lemma save_policy_ok:
  assumes "policy_ok inst c" and "digits_ok (unicode_digit inst)"
    and "save (unicode_digit inst) (t_integration_settings c) vals allowed = Inr (t_integration_settings c')"
  shows "policy_ok inst c'"
  unfolding policy_ok_def list_all_iff
proof
  fix f assume f: "f \<in> set POLICY"
  show "within_limits f (effective_value (unicode_digit inst) (env_defaults inst) (t_integration_settings c') f)"
    using foldE_invariant [where P = "\<lambda>rows. within_limits f (effective_value (unicode_digit inst) (env_defaults inst) rows f)",
        OF save_one_within [OF assms(2) policy_by_key [OF f] policy_kind [OF f]] _ assms(3) [unfolded save_def]]
      assms(1) f by (simp add: policy_ok_def list_all_iff)
qed

lemma refreshed_ok:
  assumes "policy_ok inst c"
  shows "settings_ok (refresh_settings (effective_values (unicode_digit inst) (env_defaults inst) (t_integration_settings c)) s)"
proof -
  define vs where "vs = effective_values (unicode_digit inst) (env_defaults inst) (t_integration_settings c)"
  have in_range: "number_of vs k old \<in> {low..high}" if "number_field k low high \<in> set POLICY" for k low high old
  proof -
    have "map_of vs k = Some (effective_value (unicode_digit inst) (env_defaults inst) (t_integration_settings c) (number_field k low high))"
      using map_of_effective [OF policy_by_key [OF that]] by (simp add: vs_def number_field_def)
    moreover have "within_limits (number_field k low high)
      (effective_value (unicode_digit inst) (env_defaults inst) (t_integration_settings c) (number_field k low high))"
      using assms that by (simp add: policy_ok_def list_all_iff)
    ultimately show ?thesis by (auto simp: number_of_def within_limits_def number_field_def split: setting_value.splits)
  qed
  show ?thesis unfolding vs_def [symmetric]
    by (simp add: settings_ok_def refresh_settings_def del: atLeastAtMost_iff) (intro conjI in_range; simp add: POLICY_def)
qed

inductive configuration_step :: "installation \<Rightarrow> configuration \<Rightarrow> configuration \<Rightarrow> bool" for inst where
  policy: "update_policy inst c user vals = Inr (c', page) \<Longrightarrow> configuration_step inst c c'"
| integrations: "update_integrations inst c user vals = Inr (c', shown) \<Longrightarrow> configuration_step inst c c'"
| elsewhere: "t_integration_settings c' = t_integration_settings c \<Longrightarrow> live c' = live c \<Longrightarrow> configuration_step inst c c'"

text \<open>
  C40. With an environment within the limits, no sequence of saves, however malformed their values, brings a
  setting of the policy outside its limits: neither what is stored nor what the server works with.
\<close>

theorem policy_stays_within_limits:
  assumes "(configuration_step inst)\<^sup>*\<^sup>* c c'" and "digits_ok (unicode_digit inst)"
    and "policy_ok inst c" and "settings_ok (live c)"
  shows "policy_ok inst c' \<and> settings_ok (live c') \<and> windows_ok (live c')"
  using assms(1,3,4)
proof (induction rule: rtranclp_induct)
  case (step c1 c2)
  then have ok: "policy_ok inst c1" "settings_ok (live c1)" by blast+
  from step.hyps(2) show ?case
  proof cases
    case (policy user vals page)
    note facts = update_policy_InrD [OF policy]
    have "policy_ok inst c2" by (rule save_policy_ok [OF ok(1) assms(2) facts(1)])
    then show ?thesis using refreshed_ok facts(2) settings_ok_windows by metis
  next
    case (integrations user vals shown)
    note facts = update_integrations_InrD [OF integrations]
    have "policy_ok inst c2" by (rule save_policy_ok [OF ok(1) assms(2) facts(1)])
    then show ?thesis using refreshed_ok facts(2) settings_ok_windows by metis
  next
    case elsewhere
    then show ?thesis using ok settings_ok_windows by (simp add: policy_ok_def)
  qed
qed (use settings_ok_windows in blast)

text \<open>
  A port that is no number, which the schema lets through as a text, is an internal error on the page of
  integrations, while the page of the policy answers such a value with 400.
\<close>

lemma bad_port_is_an_internal_error:
  assumes "require_capability [Manage_integrations] (cfg_db c) user = Inr ()"
  shows "update_integrations inst c user [(''smtp_port'', VText [])] = Inl (HTTPException 500 ''invalid value'')"
  using assms
  by (simp add: update_integrations_def save_def save_one_def EDITABLE_BY_KEY_def EDITABLE_def plain_field_def
      validated_def py_int_def strip_def)

text \<open>A key of the policy sent to the page of integrations is not saved, but logged as changed.\<close>

lemma ignored_key_is_logged:
  assumes "require_capability [Manage_integrations] (cfg_db c) user = Inr ()"
  shows "\<exists>c' page. update_integrations inst c user [(''sla_reminder_days'', VNumber 1)] = Inr (c', page) \<and>
    t_integration_settings c' = t_integration_settings c \<and>
    cfg_db c' = log_event (cu_id user) ''integration_settings_changed'' None None
      (Some [(''keys'', JArray [jstr ''sla_reminder_days''])]) (cfg_db c)"
proof -
  have "EDITABLE_BY_KEY ''sla_reminder_days'' = Some (number_field ''sla_reminder_days'' 1 90)" by code_simp
  moreover have "''sla_reminder_days'' \<notin> set (map fld_key EDITABLE)" by code_simp
  ultimately show ?thesis using assms
    by (auto simp: update_integrations_def save_def save_one_def refreshed_def read_integrations_def
        require_capability_def Let_def)
qed

end
