(* ===== verification/PolicyWitnesses.thy ===== *)
theory PolicyWitnesses
  imports Policy AdministrationWitnesses
begin

text \<open>An installation with the defaults of \<open>app/core/config.py\<close>, administered by user 90 of the managed office.\<close>

definition ascii_digit :: "nat \<Rightarrow> nat option" where
  "ascii_digit c = (if 48 \<le> c \<and> c \<le> 57 then Some (c - 48) else None)"

definition plain_installation :: installation where
  "plain_installation =
    \<lparr>unicode_digit = ascii_digit,
     env_defaults = (\<lambda>k. case map_of
       [(''objection_window_days'', 7), (''min_cohort_size'', 5), (''contract_expiry_alert_days'', 30),
        (''sla_reminder_days'', 3), (''improvement_review_alert_days'', 7), (''notification_dedup_days'', 7),
        (''login_max_failed_attempts'', 5), (''login_lockout_minutes'', 15), (''smtp_port'', 587)] k of
       None \<Rightarrow> VText [] | Some n \<Rightarrow> VNumber n),
     secrets = (\<lambda>_. []), channels_of = (\<lambda>_. [])\<rparr>"

definition plain_configuration :: configuration where
  "plain_configuration =
    \<lparr>cfg_db = managed_office, t_integration_settings = [], live = default_settings, live_values = []\<rparr>"

text \<open>A reminder after fourteen days, given as a text with a blank in front, and an unknown key.\<close>

definition new_policy :: "(string \<times> setting_value) list" where
  "new_policy = [(''sla_reminder_days'', VText (ascii '' 14'')), (''unknown'', VNumber 0)]"

lemma plain_digits: "digits_ok (unicode_digit plain_installation)"
  by (simp add: digits_ok_def list_all_iff plain_installation_def ascii_digit_def)

lemma fourteen: "py_int ascii_digit (ascii '' 14'') = Some 14"
  by (simp add: py_int_def ascii_def strip_def is_space_def ascii_digit_def)

lemma policy_saves:
  "save ascii_digit [] new_policy POLICY_KEYS = Inr [(''sla_reminder_days'', ascii (str_int 14))]"
proof -
  have "EDITABLE_BY_KEY ''sla_reminder_days'' = Some (number_field ''sla_reminder_days'' 1 90)"
    "EDITABLE_BY_KEY ''unknown'' = None" by code_simp+
  moreover have "''sla_reminder_days'' \<in> POLICY_KEYS" unfolding POLICY_KEYS_def by code_simp
  ultimately show ?thesis
    by (simp add: save_def save_one_def new_policy_def validated_def number_field_def fourteen put_setting_def)
qed

lemma policy_updates:
  "\<exists>c' page. update_policy plain_installation plain_configuration (person 90 Role_support) new_policy = Inr (c', page)"
proof -
  have "unicode_digit plain_installation = ascii_digit" by (simp add: plain_installation_def)
  moreover have "capabilities_of (log_event a e r old new managed_office) = capabilities_of managed_office" for a e r old new
    by (rule capabilities_of_log)
  ultimately show ?thesis
    by (simp add: update_policy_def policy_saves plain_configuration_def require_capability_iff managed_capabilities
        refreshed_def read_policy_def Let_def)
qed

lemma new_page:
  "map (\<lambda>f. (f, case map_of new_policy (fld_key f) of
       Some v \<Rightarrow> VNumber (the (int_value ascii_digit v))
     | None \<Rightarrow> effective_value ascii_digit (env_defaults plain_installation) [] f)) POLICY =
   zip POLICY (map VNumber [7, 5, 30, 14, 7, 7, 5, 15])"
proof -
  have new: "map (\<lambda>f. map_of new_policy (fld_key f)) POLICY =
    [None, None, None, Some (VText (ascii '' 14'')), None, None, None, None]"
    by (simp add: POLICY_def number_field_def new_policy_def)
  have old: "map (\<lambda>f. effective_value ascii_digit (env_defaults plain_installation) [] f) POLICY =
    map VNumber [7, 5, 30, 3, 7, 7, 5, 15]"
    by code_simp
  show ?thesis using new old by (simp add: POLICY_def fourteen)
qed

lemma plain_policy_ok: "policy_ok plain_installation plain_configuration"
  unfolding policy_ok_def by code_simp

lemma new_sla: "sla_reminder_days (refresh_settings (map (\<lambda>(f, v). (fld_key f, v)) (zip POLICY (map VNumber [7, 5, 30, 14, 7, 7, 5, 15]))) s) = 14"
  by (simp add: refresh_settings_def number_of_def POLICY_def number_field_def)

theorem saved_policy_takes_effect_witness:
  "\<exists>c' page. update_policy plain_installation plain_configuration (person 90 Role_support) new_policy = Inr (c', page) \<and>
    map snd page = map VNumber [7, 5, 30, 14, 7, 7, 5, 15] \<and> sla_reminder_days (live c') = 14"
proof -
  obtain c' page where u:
    "update_policy plain_installation plain_configuration (person 90 Role_support) new_policy = Inr (c', page)"
    using policy_updates by blast
  have "distinct (map fst new_policy)" by (simp add: new_policy_def)
  note effect = saved_policy_takes_effect [OF u plain_digits this]
  have parts: "unicode_digit plain_installation = ascii_digit" "t_integration_settings plain_configuration = []"
    by (simp_all add: plain_installation_def plain_configuration_def)
  from effect have page: "page = zip POLICY (map VNumber [7, 5, 30, 14, 7, 7, 5, 15])"
    unfolding parts new_page by blast
  from effect have "live c' = refresh_settings (map (\<lambda>(f, v). (fld_key f, v)) page) (live plain_configuration)" by blast
  then have "sla_reminder_days (live c') = 14" unfolding page using new_sla by metis
  moreover have "map snd page = map VNumber [7, 5, 30, 14, 7, 7, 5, 15]" unfolding page by (simp add: POLICY_def)
  ultimately show ?thesis using u by blast
qed

theorem policy_stays_within_limits_witness:
  "\<exists>c' page. update_policy plain_installation plain_configuration (person 90 Role_support) new_policy = Inr (c', page) \<and>
    settings_ok (live c')"
proof -
  obtain c' page where u:
    "update_policy plain_installation plain_configuration (person 90 Role_support) new_policy = Inr (c', page)"
    using policy_updates by blast
  have "settings_ok (live plain_configuration)"
    by (simp add: plain_configuration_def settings_ok_def default_settings_def)
  from policy_stays_within_limits [OF _ plain_digits plain_policy_ok this, OF r_into_rtranclp, OF configuration_step.policy [OF u]] u
  show ?thesis by blast
qed

end
