(* ===== verification/ViewingWitnesses.thy ===== *)
theory ViewingWitnesses
  imports RecordRequests SystemWitnesses
begin

text \<open>Human resources list and open the record of the office, and comment on it when it is submitted.\<close>

lemma staffed_creates_users:
  "\<exists>db. create_evaluation plain_env staffed (person 11 Role_unit_supervisor) 50 = Inr (db, 1) \<and>
    t_users db = t_users office"
  by (simp add: create_evaluation_def require_chain_stage_def get_personnel_def staffed_def office_def employee_def
      chain_of_sara_def inactive_seat_labels_def CHAIN_SEATS_def get_user_def account_def scorer_field_def
      SEAT_ROLE_def empty_database_def active_scheme_def ensure_framework_def current_framework_def bump_def
      next_evaluation_code_def active_member_ids_def next_id_def record_constraints_def new_record_def
      is_open_def OPEN_STATUSES_def saras_record_def Let_def subject_belongs_to_hr_def
      hr_unit_personnel_ids_def)

lemma opened_users: "t_users opened = t_users office"
  using staffed_creates_users opened_created by auto

definition plain_query :: query_env where
  "plain_query = \<lparr>fold_case = id, local_day_start = days\<rparr>"

lemma hr_account: "account 70 Role_hr \<in> set (t_users opened)" "user_role (account 70 Role_hr) = Role_hr"
  "cu_role (as_current_user (account 70 Role_hr)) = Role_hr" "cu_personnel_id (as_current_user (account 70 Role_hr)) = None"
  by (simp_all add: opened_users) (simp_all add: office_def account_def as_current_user_def)


text \<open>A comment on a submitted record that nobody has claimed.\<close>

definition waiting_record :: evaluation_record where
  "waiting_record = sample_record\<lparr>status := Submitted\<rparr>"

lemma comment_succeeds:
  assumes "text_field COMMENT_MAX raw = Inr body" and "get_evaluation db k = Some r"
    and "ensure_hr_may_handle r user = Inr ()" and "may_comment r user"
  shows "\<exists>db'. post_comment env db user k raw None = Inr db'"
  using assms
  by (auto simp: post_comment_def get_record_or_404_def may_comment_def split: option.splits)

theorem comments_are_by_the_stage_owner_witness:
  "\<exists>db. post_comment plain_env (office_with waiting_record) (person 70 Role_hr) 1 (ascii ''fine'') None = Inr db \<and>
    map hr_user_id (t_evaluations db) = [Some 70] \<and> length (t_comments db) = 1"
proof -
  have "\<exists>db. post_comment plain_env (office_with waiting_record) (person 70 Role_hr) 1 (ascii ''fine'') None = Inr db"
  proof -
    have "text_field COMMENT_MAX (ascii ''fine'') = Inr (ascii ''fine'')"
      by (simp add: text_field_def ascii_def strip_def is_space_def COMMENT_MAX_def)
    moreover have "get_evaluation (office_with waiting_record) 1 = Some waiting_record" by (simp add: waiting_record_def)
    moreover have "ensure_hr_may_handle waiting_record (person 70 Role_hr) = Inr ()"
      by (simp add: ensure_hr_may_handle_def ensure_not_deciding_about_oneself_def person_def
        hr_panel_is_shielded_def skips_hr_review_def waiting_record_def)
    moreover have "may_comment waiting_record (person 70 Role_hr)"
      by (simp add: may_comment_def stage_by_role_def person_def waiting_record_def)
    ultimately show ?thesis by (rule comment_succeeds)
  qed
  then obtain db where p: "post_comment plain_env (office_with waiting_record) (person 70 Role_hr) 1 (ascii ''fine'') None = Inr db"
    by blast
  have none: "t_comments (office_with waiting_record) = []" by (simp add: office_with_def office_def empty_database_def)
  have found: "get_evaluation (office_with waiting_record) 1 = Some waiting_record" by (simp add: waiting_record_def)
  obtain r c where r: "get_evaluation (office_with waiting_record) 1 = Some r"
    "t_comments db = t_comments (office_with waiting_record) @ [c]"
    "t_evaluations db = (if (None :: int option) = None \<and> cu_role (person 70 Role_hr) = Role_hr \<and> hr_user_id r = None
      then row_put record_id (r\<lparr>hr_user_id := Some (cu_id (person 70 Role_hr))\<rparr>) (t_evaluations (office_with waiting_record))
      else t_evaluations (office_with waiting_record))"
    using comments_are_by_the_stage_owner [OF p] by blast
  have "r = waiting_record" using r(1) found by simp
  then have "t_evaluations db = [waiting_record\<lparr>hr_user_id := Some 70\<rparr>]"
    using r(3) by (simp add: waiting_record_def row_put_def)
  then have "map hr_user_id (t_evaluations db) = [Some 70]" "length (t_comments db) = 1"
    using r(2) none by simp_all
  then show ?thesis using p by (intro exI [of _ db] conjI)
qed

section \<open>All requests on a record\<close>

lemma human_resources_claim: "\<exists>db. hr_claim (office_with sample_record) (person 70 Role_hr) 1 = Inr db"
  by (simp add: hr_claim_def OPEN_STATUSES_def get_record_or_404_def ensure_hr_may_handle_def
      ensure_not_deciding_about_oneself_def hr_panel_is_shielded_def skips_hr_review_def)

theorem requests_refine_moves_witness:
  "\<exists>db r'. serve plain_env (person 70 Role_hr) (Change (Claim_record 1)) (office_with sample_record) = Inr db \<and>
    get_evaluation db 1 = Some r' \<and> record_move sample_record r'"
proof -
  obtain db where "hr_claim (office_with sample_record) (person 70 Role_hr) 1 = Inr db"
    using human_resources_claim by blast
  then have "serve plain_env (person 70 Role_hr) (Change (Claim_record 1)) (office_with sample_record) = Inr db" by simp
  from requests_refine_moves [OF this, of 1] this show ?thesis by auto
qed

theorem hr_never_handles_its_own_witness:
  "\<exists>db. serve plain_env (person 70 Role_hr) (Change (Claim_record 1)) (office_with sample_record) = Inr db \<and>
    \<not> (hr_review_skipped sample_record \<and> is_open sample_record)"
proof -
  obtain db where "hr_claim (office_with sample_record) (person 70 Role_hr) 1 = Inr db"
    using human_resources_claim by blast
  then have "serve plain_env (person 70 Role_hr) (Change (Claim_record 1)) (office_with sample_record) = Inr db" by simp
  from hr_never_handles_its_own [OF this, of 1] this show ?thesis by auto
qed

end
