(* ===== verification/IndicatorSystem.thy ===== *)
theory IndicatorSystem
  imports Indicators Organization
begin

text \<open>The endpoints over the set of indicators as steps of the whole system.\<close>

section \<open>Indicators in the system\<close>

text \<open>Every request on the indicators is made of steps of the system, so its invariants hold through them.\<close>

lemma log_wf_indicators [simp]:
  fixes db :: database
  shows "log_wf (db\<lparr>t_indicators := is\<rparr>) = log_wf db" "log_wf (db\<lparr>t_frameworks := fs\<rparr>) = log_wf db"
  by (simp_all add: log_wf_def)

lemma renewed_steps:
  assumes "t_evaluations db1 = t_evaluations db" "t_scores db1 = t_scores db" "t_code_seq db1 = t_code_seq db"
    "log_wf db \<longrightarrow> log_wf db1" "links db1 = links db" "t_access db1 = t_access db" "t_personnel db1 = t_personnel db"
  shows "system_step\<^sup>*\<^sup>* db (log_event a e r old new (fst (publish actor kind remark db1)))"
    and "system_step\<^sup>*\<^sup>* db (fst (publish actor kind remark db1))"
proof -
  have one: "system_step db db1"
    using assms by (intro system_step.elsewhere) (simp_all add: same_records_def same_organization_def)
  have two: "system_step db1 (fst (publish actor kind remark db1))"
    unfolding publish_def split_beta
    by (intro system_step.reframed) (metis reframes_def surjective_pairing)
  have three: "system_step d (log_event a e r old new d)" for d
    by (intro system_step.elsewhere) (auto simp: same_records_def same_organization_def links_def)
  show "system_step\<^sup>*\<^sup>* db (fst (publish actor kind remark db1))" using one two by simp
  then show "system_step\<^sup>*\<^sup>* db (log_event a e r old new (fst (publish actor kind remark db1)))"
    using three by (rule rtranclp.rtrancl_into_rtrancl)
qed

lemma indicator_requests_are_system_steps:
  assumes "handle_indicators fresh user q db = Inr db'" and "distinct (map indicator_id (t_indicators db))"
  shows "system_step\<^sup>*\<^sup>* db db'"
proof (cases q)
  case (Create_indicator payload)
  with assms(1) obtain i where "create_indicator fresh db user payload = Inr (db', i)" by (auto elim!: map_sum_InrE)
  then show ?thesis by (rule create_indicator_InrD) (auto simp: links_def intro!: renewed_steps)
next
  case Read_impact
  with assms(1) have "system_step db db'"
    by (intro system_step.elsewhere)
      (auto simp: framework_impact_def ensure_framework_def bump_def Let_def split_beta same_records_def
        same_organization_def links_def elim!: map_sum_InrE split: option.splits if_splits)
  then show ?thesis by blast
next
  case (Reorder_indicators sec ids)
  have "t_evaluations (fold place jobs d) = t_evaluations d \<and> t_scores (fold place jobs d) = t_scores d \<and>
      t_code_seq (fold place jobs d) = t_code_seq d \<and> log_wf (fold place jobs d) = log_wf d \<and>
      links (fold place jobs d) = links d \<and> t_access (fold place jobs d) = t_access d \<and>
      t_personnel (fold place jobs d) = t_personnel d" for jobs d
    by (induction jobs arbitrary: d) (simp_all add: place_def put_indicator_def links_def split: option.splits)
  with Reorder_indicators assms(1) have "system_step db db'"
    by (intro system_step.elsewhere)
      (auto simp: reorder_indicators_def Let_def same_records_def same_organization_def links_def
        intro!: log_event_wf)
  then show ?thesis by blast
next
  case (Delete_indicator k)
  with assms(1) have "delete_indicator db user k = Inr db'" by simp
  then show ?thesis by (rule delete_indicator_InrD) (auto simp: links_def intro!: renewed_steps)
next
  case (Update_indicator k given)
  with assms(1) obtain i1 n where "update_indicator db user k given = Inr (db', i1, n)"
    by (auto elim!: map_sum_InrE)
  then show ?thesis
  proof (rule update_indicator_InrD)
    fix up i a e r old new
    assume "db' = log_event a e r old new (fst (store_update (cu_id user) i i1 db))"
    then show ?thesis
    proof (cases "indicator_is_active i1 = indicator_is_active i")
      case True
      with \<open>db' = _\<close> show ?thesis
        by (auto simp: store_update_def put_indicator_def links_def same_records_def same_organization_def
            intro!: r_into_rtranclp system_step.elsewhere)
    next
      case False
      with \<open>db' = _\<close> show ?thesis
        by (auto simp: store_update_def split_beta put_indicator_def links_def intro!: renewed_steps)
    qed
  qed
next
  case (Replace_indicator k payload)
  with assms(1) obtain i where "replace_indicator fresh db user k payload = Inr (db', i)" by (auto elim!: map_sum_InrE)
  then show ?thesis by (rule replace_indicator_InrD) (auto simp: links_def intro!: renewed_steps)
qed

end
