(* ===== verification/AssistantTools.thy ===== *)
theory AssistantTools
  imports IndicatorSystem Administration Viewing Assistant ImprovementPlans Bulk
begin

text \<open>
  The bodies of the tools that write (\<open>app/services/ai/tools/people.py\<close>, \<open>framework.py\<close> and
  \<open>evaluations.py\<close>), with which the assistant carries out what was confirmed. They call the functions of
  the endpoints directly, so that the dependencies of the endpoints are not run: the guard of the tool
  stands in for them. Arguments are typed as the schemas of the tools declare them; dates come as
  \<open>_parse_date\<close> reads them (\<open>None\<close> for one that is missing or unreadable). What the schema of an endpoint
  refuses is the error of that endpoint, unless the tool catches it. The payload for the model and its
  description are not modelled, nor are the two tools of \<open>uploads.py\<close> that write, \<open>patch_upload_rows\<close> and
  \<open>import_personnel\<close>, whose input is a workbook as the library \<open>openpyxl\<close> reads it.
\<close>

section \<open>Calls\<close>

record draft_arguments =
  dra_name :: utext
  dra_general_section_weight :: "rat option"
  dra_specialized_section_weight :: "rat option"
  dra_evidence_min_words :: "int option"
  dra_evidence_max_words :: "int option"
  dra_bonus_max_points :: "rat option"
  dra_improvement_plan_max_pct :: "rat option"

record person_arguments =
  pea_full_name :: utext
  pea_personnel_code :: utext
  pea_job_title :: utext
  pea_org_unit :: utext
  pea_contract_end_date :: "int option"
  pea_is_manager :: bool
  pea_contract_start_date :: "int option"

datatype tool_request =
    Tool_create_evaluation int
  | Tool_advance int utext utext
  | Tool_comment int utext "int option"
  | Tool_invite int
  | Tool_create_indicator utext utext utext
  | Tool_update_indicator int "utext option" "utext option" "bool option" "utext option"
  | Tool_draft_scheme draft_arguments
  | Tool_activate_scheme int
  | Tool_create_period utext "int option" "int option"
  | Tool_bulk utext "bool option" "int option"
  | Tool_create_plan int utext "int option" utext "int option" "utext list"
  | Tool_goal int bool
  | Tool_create_personnel person_arguments
  | Tool_update_personnel int "utext option" "utext option" "bool option" "int option option"
  | Tool_separate int utext "int option"
  | Tool_create_user utext utext utext "int option" utext
  | Tool_update_user int "utext option" "bool option" "utext option" "utext option" "int option"
  | Tool_create_org_unit utext utext
  | Tool_set_access int utext utext utext
  | Tool_grant int "utext list"

fun tool_name :: "tool_request \<Rightarrow> string" where
  "tool_name (Tool_create_evaluation p) = ''create_evaluation''"
| "tool_name (Tool_advance k action reason) = ''advance_evaluation''"
| "tool_name (Tool_comment k t parent) = ''add_evaluation_comment''"
| "tool_name (Tool_invite p) = ''invite_self_assessment''"
| "tool_name (Tool_create_indicator sec c d) = ''create_indicator''"
| "tool_name (Tool_update_indicator k d c b why) = ''update_indicator''"
| "tool_name (Tool_draft_scheme a) = ''create_scoring_scheme_draft''"
| "tool_name (Tool_activate_scheme k) = ''activate_scoring_scheme''"
| "tool_name (Tool_create_period n a b) = ''create_period''"
| "tool_name (Tool_bulk n b d) = ''run_bulk_evaluations''"
| "tool_name (Tool_create_plan k t d s owner goals) = ''create_improvement_plan''"
| "tool_name (Tool_goal g b) = ''update_improvement_plan_goal''"
| "tool_name (Tool_create_personnel a) = ''create_personnel''"
| "tool_name (Tool_update_personnel k t n b d) = ''update_personnel''"
| "tool_name (Tool_separate k why d) = ''separate_personnel''"
| "tool_name (Tool_create_user n r pw p f) = ''create_user''"
| "tool_name (Tool_update_user k r b pw f p) = ''update_user''"
| "tool_name (Tool_create_org_unit n s) = ''create_org_unit''"
| "tool_name (Tool_set_access p a b c) = ''set_evaluation_access''"
| "tool_name (Tool_grant k cs) = ''grant_capabilities''"

section \<open>Reading arguments\<close>

text \<open>\<open>(value or "").strip() or None\<close>.\<close>

definition blank_to_none :: "utext \<Rightarrow> utext option" where
  "blank_to_none t = (let s = strip t in if s = [] then None else Some s)"

definition enum_of :: "('a \<Rightarrow> string) \<Rightarrow> 'a list \<Rightarrow> utext \<Rightarrow> 'a option" where
  "enum_of value xs t = find (\<lambda>x. ascii (value x) = t) xs"

definition ALL_ROLES :: "user_role list" where
  "ALL_ROLES = [Role_unit_supervisor, Role_hr, Role_deputy, Role_ceo, Role_employee, Role_support]"

definition ALL_REASONS :: "separation_reason list" where
  "ALL_REASONS = [Resignation, Dismissal, Contract_end, Retirement, Other_reason]"

text \<open>A value that an enumeration refuses, where nothing catches it.\<close>

definition enum_or_error :: "('a \<Rightarrow> string) \<Rightarrow> 'a list \<Rightarrow> utext \<Rightarrow> 'a http" where
  "enum_or_error value xs t = or_raise (enum_of value xs t) (HTTPException 500 ''unknown value'')"

section \<open>Moving an evaluation on\<close>

text \<open>Who may, whether a reason is needed, and the endpoint.\<close>

definition ADVANCE :: "(string \<times> (user_role \<Rightarrow> bool) \<times> bool \<times> (int \<Rightarrow> utext \<Rightarrow> request)) list" where
  "ADVANCE =
    (let exact = (\<lambda>rs r. r \<in> set rs); stage = (\<lambda>s r. may_act_at r s)
     in [(''submit'', stage Role_unit_supervisor, False, \<lambda>k _. Submit_record k),
         (''hr_approve'', exact [Role_hr], False, \<lambda>k _. Approve_by_hr k),
         (''deputy_approve'', stage Role_deputy, False, \<lambda>k _. Approve_by_deputy k),
         (''ceo_finalize'', stage Role_ceo, False, \<lambda>k _. Finalize_by_ceo k),
         (''return'', exact [Role_hr, Role_deputy, Role_ceo], True, Return_record),
         (''cancel'', exact [Role_hr, Role_deputy, Role_ceo], True, Cancel_record),
         (''hr_claim'', exact [Role_hr], False, \<lambda>k _. Claim_record k)])"

definition action_of :: "utext \<Rightarrow> string option" where
  "action_of t = enum_of id (map fst ADVANCE) (strip t)"

definition advance_evaluation ::
  "env \<Rightarrow> database \<Rightarrow> current_user \<Rightarrow> int \<Rightarrow> utext \<Rightarrow> utext \<Rightarrow> database http" where
  "advance_evaluation env db user k action raw =
    bindE (or_raise (Option.bind (action_of action) (map_of ADVANCE)) (HTTPException 400 ''no such action'')) (\<lambda>(may, needs_reason, endpoint).
    bindE (raise_if (\<not> may (cu_role user)) (HTTPException 403 ''not permitted'')) (\<lambda>_.
    let reason = strip raw
    in bindE (raise_if (needs_reason \<and> reason = []) (HTTPException 400 ''reason'')) (\<lambda>_.
       bindE (get_record_or_404 db k) (\<lambda>r.
       handle env user (endpoint k reason) db))))"

section \<open>Indicators, schemes, periods and plans\<close>

definition tool_create_indicator :: "int \<Rightarrow> database \<Rightarrow> current_user \<Rightarrow> utext \<Rightarrow> utext \<Rightarrow> utext \<Rightarrow> database http" where
  "tool_create_indicator fresh db user sec cat descr =
    (let body = strip descr
     in bindE (raise_if (body = []) (HTTPException 400 ''description'')) (\<lambda>_.
        bindE (enum_or_error section_value [General, Specialized] (strip sec)) (\<lambda>s.
        handle_indicators fresh user (Create_indicator
          \<lparr>iin_section = s, iin_category = take 150 (strip cat), iin_description = take 1000 body,
           iin_display_order = 0\<rparr>) db)))"

text \<open>The fields given and not blank, cut to their length.\<close>

definition cut_field :: "nat \<Rightarrow> utext option \<Rightarrow> utext option option" where
  "cut_field n x = map_option (\<lambda>s. Some (take n s)) (Option.bind x blank_to_none)"

definition tool_update_indicator ::
  "int \<Rightarrow> database \<Rightarrow> current_user \<Rightarrow> int \<Rightarrow> utext option \<Rightarrow> utext option \<Rightarrow> bool option \<Rightarrow> utext option \<Rightarrow> database http" where
  "tool_update_indicator fresh db user k descr cat active why =
    (let up = \<lparr>iup_category = cut_field 150 cat, iup_description = cut_field 1000 descr, iup_display_order = None,
               iup_is_active = map_option Some active, iup_wording_fix_reason = cut_field 500 why\<rparr>
     in bindE (raise_if (iup_category up = None \<and> iup_description up = None \<and> iup_is_active up = None)
                 (HTTPException 400 ''nothing to change'')) (\<lambda>_.
        handle_indicators fresh user (Update_indicator k up) db))"

definition value_or :: "'a option \<Rightarrow> 'a \<Rightarrow> 'a" where
  "value_or x d = (case x of None \<Rightarrow> d | Some v \<Rightarrow> v)"

text \<open>The labels are Persian in the code.\<close>

definition draft_input :: "database \<Rightarrow> draft_arguments \<Rightarrow> scheme_input" where
  "draft_input db a =
    (let name = take 200 (strip (dra_name a))
     in \<lparr>in_name = (if name = [] then ascii (''scheme '' @ str_int (next_version db)) else name),
         in_general_section_weight = value_or (dra_general_section_weight a) (3 / 5),
         in_specialized_section_weight = value_or (dra_specialized_section_weight a) (2 / 5),
         in_evidence_required_scores = [1, 5],
         in_evidence_min_words = value_or (dra_evidence_min_words a) 3,
         in_evidence_max_words = value_or (dra_evidence_max_words a) 40,
         in_bonus_max_points = value_or (dra_bonus_max_points a) 5,
         in_improvement_plan_max_pct = value_or (dra_improvement_plan_max_pct a) 75,
         in_thresholds = [(60, ascii ''not renewed''), (75, ascii ''renewed conditionally''),
           (90, ascii ''renewed''), (101, ascii ''renewed with distinction'')],
         in_indicator_weights = []\<rparr>)"

definition tool_draft_scheme :: "env \<Rightarrow> database \<Rightarrow> current_user \<Rightarrow> draft_arguments \<Rightarrow> database http" where
  "tool_draft_scheme env db user a =
    (case create_scheme env db user (draft_input db a) of
       Inl (HTTPException c e) \<Rightarrow> Inl (HTTPException (if c = 422 then 400 else c) e)
     | Inr (db1, _) \<Rightarrow> Inr db1)"

definition tool_activate_scheme :: "env \<Rightarrow> database \<Rightarrow> current_user \<Rightarrow> int \<Rightarrow> database http" where
  "tool_activate_scheme env db user k =
    bindE (or_raise (get_scheme db k) (HTTPException 404 ''no such scheme'')) (\<lambda>scheme.
    bindE (activate env db scheme (cu_id user)) (\<lambda>db1.
    Inr (log_event (cu_id user) ''scoring_scheme_activated'' None None
           (Some [(''id'', JInt (scheme_id scheme)), (''version'', JInt (scheme_version scheme)),
                  (''via'', jstr ''ai_copilot'')]) db1)))"

definition needed_date :: "int option \<Rightarrow> int http" where
  "needed_date d = or_raise d (HTTPException 422 ''date'')"

definition tool_create_plan ::
  "env \<Rightarrow> database \<Rightarrow> current_user \<Rightarrow> int \<Rightarrow> utext \<Rightarrow> int option \<Rightarrow> utext \<Rightarrow> int option \<Rightarrow> utext list \<Rightarrow> database http" where
  "tool_create_plan env db user k title review summary owner goals =
    bindE (needed_date review) (\<lambda>d.
    map_sum id fst (create_plan env db user
      \<lparr>pin_evaluation_record_id = k, pin_title = title, pin_review_date = d, pin_owner_user_id = owner,
       pin_summary = blank_to_none summary, pin_goals = goals\<rparr>))"

definition tool_update_goal :: "database \<Rightarrow> current_user \<Rightarrow> int \<Rightarrow> bool \<Rightarrow> database http" where
  "tool_update_goal db user g is_done =
    bindE (or_raise (row_get goal_id (t_goals db) g) (HTTPException 404 ''no such goal'')) (\<lambda>goal.
    update_goal db user (goal_plan_id goal) (goal_id goal) None (Some (Some is_done)))"

section \<open>People and accounts\<close>

text \<open>Here texts are cut and not checked: a name of blanks becomes an empty one.\<close>

definition tool_create_personnel :: "env \<Rightarrow> database \<Rightarrow> current_user \<Rightarrow> person_arguments \<Rightarrow> database http" where
  "tool_create_personnel env db user a =
    (let code = strip (pea_personnel_code a); full = take 200 (strip (pea_full_name a))
     in bindE (raise_if (find (\<lambda>p. personnel_code p = code) (t_personnel db) \<noteq> None)
                 (HTTPException 400 ''code taken'')) (\<lambda>_.
        bindE (or_raise (pea_contract_end_date a) (HTTPException 400 ''date'')) (\<lambda>last.
        let first = (case pea_contract_start_date a of None \<Rightarrow> today env | Some d \<Rightarrow> d)
        in bindE (raise_if (last \<le> first) (HTTPException 400 ''contract'')) (\<lambda>_.
           bindE (raise_if (50 < length code) (HTTPException 500 ''code too long'')) (\<lambda>_.
           let k = next_id personnel_id (t_personnel db);
               p = \<lparr>personnel_id = k, personnel_code = code, personnel_full_name = full,
                    job_title = take 150 (strip (pea_job_title a)), is_manager = pea_is_manager a,
                    org_unit = take 150 (strip (pea_org_unit a)), contract_start_date = first,
                    contract_end_date = last, p_status = Personnel_active, separation_date = None,
                    p_separation_reason = None\<rparr>
           in Inr (log_event (cu_id user) ''personnel_created'' None None
                (Some [(''id'', JInt k), (''personnel_code'', JString code), (''full_name'', JString full),
                       (''via'', jstr ''ai_copilot'')]) (add_personnel p db)))))))"

definition person_update :: "utext option \<Rightarrow> utext option \<Rightarrow> bool option \<Rightarrow> int option \<Rightarrow> personnel_update" where
  "person_update title unit manager ends =
    \<lparr>pu_personnel_code = None, pu_full_name = None,
     pu_job_title = map_option (\<lambda>t. Some (take 150 (strip t))) title, pu_is_manager = map_option Some manager,
     pu_org_unit = map_option (\<lambda>t. Some (take 150 (strip t))) unit, pu_contract_start_date = None,
     pu_contract_end_date = map_option Some ends, pu_status = None, pu_separation_reason = None,
     pu_separation_date = None\<rparr>"

definition tool_update_personnel ::
  "env \<Rightarrow> database \<Rightarrow> current_user \<Rightarrow> int \<Rightarrow> utext option \<Rightarrow> utext option \<Rightarrow> bool option \<Rightarrow> int option option \<Rightarrow> database http" where
  "tool_update_personnel env db user k title unit manager ends =
    bindE (or_raise (get_personnel db k) (HTTPException 404 ''no such person'')) (\<lambda>_.
    bindE (raise_if (ends = Some None) (HTTPException 400 ''date'')) (\<lambda>_.
    bindE (raise_if (title = None \<and> unit = None \<and> manager = None \<and> ends = None)
             (HTTPException 400 ''nothing to change'')) (\<lambda>_.
    update_personnel env db user k (person_update title unit manager (Option.bind ends id)))))"

definition separated :: "separation_reason \<Rightarrow> int \<Rightarrow> personnel \<Rightarrow> personnel" where
  "separated why d p = p\<lparr>p_status := Personnel_inactive, p_separation_reason := Some why, separation_date := Some d\<rparr>"

definition tool_separate :: "env \<Rightarrow> database \<Rightarrow> current_user \<Rightarrow> int \<Rightarrow> utext \<Rightarrow> int option \<Rightarrow> database http" where
  "tool_separate env db user k reason d =
    bindE (or_raise (get_personnel db k) (HTTPException 404 ''no such person'')) (\<lambda>p.
    bindE (or_raise (enum_of separation_value ALL_REASONS (strip reason)) (HTTPException 400 ''reason'')) (\<lambda>why.
    let p1 = separated why (case d of None \<Rightarrow> today env | Some x \<Rightarrow> x) p;
        db1 = put_personnel p1 db;
        cancelled = list_ex (\<lambda>r. subject_personnel_id r = k \<and> is_open r) (t_evaluations db1)
    in bindE (close_out_departure env db1 p1 user) (\<lambda>db2.
       Inr (log_event (cu_id user) ''personnel_departed'' None None
              (Some [(''id'', JInt k), (''separation_reason'', jstr (separation_value why)),
                     (''separation_date'', jstr (isodate (the (separation_date p1)))),
                     (''open_evaluation_cancelled'', JBool cancelled), (''via'', jstr ''ai_copilot'')]) db2))))"

text \<open>\<open>temp_password\<close> is the password that is drawn when none is given.\<close>

definition tool_create_user ::
  "crypt \<Rightarrow> utext \<Rightarrow> database \<Rightarrow> current_user \<Rightarrow> utext \<Rightarrow> utext \<Rightarrow> utext \<Rightarrow> int option \<Rightarrow> utext \<Rightarrow> database http" where
  "tool_create_user crypt temp_password db user name r password p full =
    (let plain = (if strip password = [] then temp_password else strip password)
     in bindE (or_raise (enum_of role_value ALL_ROLES r) (HTTPException 400 ''unknown role'')) (\<lambda>new_role.
        case create_user crypt db user (strip name) plain new_role (if p = Some 0 then None else p) (blank_to_none full) of
          Inl (HTTPException c e) \<Rightarrow> Inl (HTTPException (if c = 422 then 400 else c) e)
        | Inr db1 \<Rightarrow> Inr db1))"

definition tool_update_user ::
  "env \<Rightarrow> crypt \<Rightarrow> database \<Rightarrow> current_user \<Rightarrow> int \<Rightarrow> utext option \<Rightarrow> bool option \<Rightarrow> utext option \<Rightarrow> utext option \<Rightarrow> int option \<Rightarrow>
    database http" where
  "tool_update_user env crypt db user k r active password full p =
    bindE (case r of None \<Rightarrow> Inr None
           | Some t \<Rightarrow> bindE (enum_or_error role_value ALL_ROLES t) (\<lambda>x. Inr (Some (Some x)))) (\<lambda>new_role.
    let up = \<lparr>uu_role = new_role, uu_is_active = map_option Some active,
              uu_password = (case password of None \<Rightarrow> None | Some t \<Rightarrow> if t = [] then None else Some (Some t)),
              uu_personnel_id = map_option Some p, uu_full_name = map_option blank_to_none full\<rparr>
    in bindE (raise_if (up = \<lparr>uu_role = None, uu_is_active = None, uu_password = None, uu_personnel_id = None,
                              uu_full_name = None\<rparr>) (HTTPException 400 ''nothing to change'')) (\<lambda>_.
       update_user env crypt db user k up))"

definition tool_create_org_unit :: "database \<Rightarrow> current_user \<Rightarrow> utext \<Rightarrow> utext \<Rightarrow> database http" where
  "tool_create_org_unit db user name site =
    (let s = take 100 (strip site)
     in map_sum id fst (create_org_unit db user (if s = [] then None else Some s) (take 150 (strip name))))"

definition resolve_username :: "database \<Rightarrow> utext \<Rightarrow> int option http" where
  "resolve_username db t =
    (let name = strip t
     in if name = [] then Inr None
        else bindE (or_raise (find_username db name) (HTTPException 400 ''no such user name'')) (\<lambda>u.
          Inr (Some (user_id u))))"

definition tool_set_access :: "database \<Rightarrow> current_user \<Rightarrow> int \<Rightarrow> utext \<Rightarrow> utext \<Rightarrow> utext \<Rightarrow> database http" where
  "tool_set_access db user k supervisor deputy ceo =
    bindE (or_raise (get_personnel db k) (HTTPException 404 ''no such person'')) (\<lambda>_.
    bindE (resolve_username db ceo) (\<lambda>c.
    bindE (or_raise c (HTTPException 400 ''no chief executive'')) (\<lambda>ceo_id.
    bindE (resolve_username db supervisor) (\<lambda>s.
    bindE (resolve_username db deputy) (\<lambda>d.
    upsert_access db user k s d ceo_id)))))"

definition tool_grant :: "database \<Rightarrow> current_user \<Rightarrow> int \<Rightarrow> utext list \<Rightarrow> database http" where
  "tool_grant db user k wanted =
    (let read = map (\<lambda>t. enum_of capability_value ALL_CAPABILITIES (strip t)) wanted
     in bindE (raise_if (None \<in> set read) (HTTPException 400 ''unknown capability'')) (\<lambda>_.
        map_sum id fst (set_capabilities db user k (map the read))))"

section \<open>Evaluations, periods and bulk creation\<close>

definition tool_create_evaluation :: "env \<Rightarrow> database \<Rightarrow> current_user \<Rightarrow> int \<Rightarrow> database http" where
  "tool_create_evaluation env db user p = map_sum id fst (create_evaluation env db user p)"

definition tool_comment :: "env \<Rightarrow> database \<Rightarrow> current_user \<Rightarrow> int \<Rightarrow> utext \<Rightarrow> int option \<Rightarrow> database http" where
  "tool_comment env db user k t parent =
    post_comment env db user k (take 4000 (strip t)) (if parent = Some 0 then None else parent)"

definition tool_create_period ::
  "env \<Rightarrow> database \<Rightarrow> current_user \<Rightarrow> utext \<Rightarrow> int option \<Rightarrow> int option \<Rightarrow> database http" where
  "tool_create_period env db user name starts ends =
    bindE (needed_date starts) (\<lambda>a. bindE (needed_date ends) (\<lambda>b. create_period env db user name a b))"

definition cohort_payload :: "utext \<Rightarrow> bool option \<Rightarrow> int option \<Rightarrow> cohort_filter" where
  "cohort_payload unit managers ends =
    \<lparr>cf_org_unit = blank_to_none unit, cf_only_managers = managers, cf_contract_ends_before = ends\<rparr>"

definition run_bulk_evaluations ::
  "env \<Rightarrow> database \<Rightarrow> current_user \<Rightarrow> utext \<Rightarrow> bool option \<Rightarrow> int option \<Rightarrow> database http" where
  "run_bulk_evaluations env db user unit managers ends =
    map_sum id fst (run_bulk_create env db user (cohort_payload unit managers ends))"

section \<open>Carrying a call out\<close>

text \<open>
  What a call may draw, the identifier of a new row, a password and the hashing of passwords, and where it
  comes from: the conversation, the switch for writing, the arguments as the log shows them.
\<close>

record tool_env =
  request_env :: env
  new_id :: int
  temp_password :: utext
  passwords :: crypt
  conversation :: int
  may_write :: bool
  sanitized :: json

fun run_tool :: "tool_env \<Rightarrow> database \<Rightarrow> current_user \<Rightarrow> tool_request \<Rightarrow> database http" where
  "run_tool te db user (Tool_create_evaluation p) = tool_create_evaluation (request_env te) db user p"
| "run_tool te db user (Tool_advance k action reason) = advance_evaluation (request_env te) db user k action reason"
| "run_tool te db user (Tool_comment k t parent) = tool_comment (request_env te) db user k t parent"
| "run_tool te db user (Tool_invite p) = invite_to_self_assessment (request_env te) db user p"
| "run_tool te db user (Tool_create_indicator sec cat descr) = tool_create_indicator (new_id te) db user sec cat descr"
| "run_tool te db user (Tool_update_indicator k descr cat active why) =
    tool_update_indicator (new_id te) db user k descr cat active why"
| "run_tool te db user (Tool_draft_scheme a) = tool_draft_scheme (request_env te) db user a"
| "run_tool te db user (Tool_activate_scheme k) = tool_activate_scheme (request_env te) db user k"
| "run_tool te db user (Tool_create_period name starts ends) =
    tool_create_period (request_env te) db user name starts ends"
| "run_tool te db user (Tool_bulk unit managers ends) = run_bulk_evaluations (request_env te) db user unit managers ends"
| "run_tool te db user (Tool_create_plan k title review summary owner goals) =
    tool_create_plan (request_env te) db user k title review summary owner goals"
| "run_tool te db user (Tool_goal g is_done) = tool_update_goal db user g is_done"
| "run_tool te db user (Tool_create_personnel a) = tool_create_personnel (request_env te) db user a"
| "run_tool te db user (Tool_update_personnel k title unit manager ends) =
    tool_update_personnel (request_env te) db user k title unit manager ends"
| "run_tool te db user (Tool_separate k reason d) = tool_separate (request_env te) db user k reason d"
| "run_tool te db user (Tool_create_user name r password p full) =
    tool_create_user (passwords te) (temp_password te) db user name r password p full"
| "run_tool te db user (Tool_update_user k r active password full p) =
    tool_update_user (request_env te) (passwords te) db user k r active password full p"
| "run_tool te db user (Tool_create_org_unit name site) = tool_create_org_unit db user name site"
| "run_tool te db user (Tool_set_access k supervisor deputy ceo) = tool_set_access db user k supervisor deputy ceo"
| "run_tool te db user (Tool_grant k wanted) = tool_grant db user k wanted"

definition spec_of :: "tool_request \<Rightarrow> tool_spec" where
  "spec_of q = the (find (\<lambda>s. spec_name s = tool_name q) REGISTRY)"

text \<open>
  A confirmed call (\<open>execute_tool\<close> for a tool that writes): the guard, whether the caller may write at all,
  the tool, and the entry in the log.
\<close>

definition call_tool :: "tool_env \<Rightarrow> database \<Rightarrow> current_user \<Rightarrow> tool_request \<Rightarrow> database http" where
  "call_tool te db user q =
    bindE (guard (spec_of q) user (capabilities_of db (cu_id user))) (\<lambda>_.
    bindE (raise_if (\<not> read_only (spec_of q) \<and> \<not> may_write te) (HTTPException 403 ''read-only mode'')) (\<lambda>_.
    bindE (run_tool te db user q) (\<lambda>db1.
    Inr (log_event (cu_id user) ''ai_tool_invoked'' None None
      (Some [(''tool'', jstr (tool_name q)), (''arguments'', sanitized te), (''conversation_id'', JInt (conversation te)),
             (''read_only'', JBool (read_only (spec_of q))), (''via'', jstr ''ai_copilot'')]) db1))))"

section \<open>The guards of the tools\<close>

text \<open>The dependency that FastAPI would have run for the endpoint of the call (\<open>Depends\<close> of its signature).\<close>

fun endpoint_dependency :: "database \<Rightarrow> current_user \<Rightarrow> tool_request \<Rightarrow> unit http" where
  "endpoint_dependency db user (Tool_create_evaluation p) = require_chain_stage Role_unit_supervisor user"
| "endpoint_dependency db user (Tool_advance k action reason) =
    (case Option.bind (action_of action) (map_of [(''submit'', require_chain_stage Role_unit_supervisor user), (''hr_approve'', require_roles [Role_hr] user),
        (''deputy_approve'', require_chain_stage Role_deputy user), (''ceo_finalize'', require_chain_stage Role_ceo user),
        (''return'', require_roles [Role_hr, Role_deputy, Role_ceo] user),
        (''cancel'', require_roles [Role_hr, Role_deputy, Role_ceo] user), (''hr_claim'', require_roles [Role_hr] user)]) of
       None \<Rightarrow> Inl (HTTPException 404 ''no such endpoint'') | Some x \<Rightarrow> x)"
| "endpoint_dependency db user (Tool_comment k t parent) = Inr ()"
| "endpoint_dependency db user (Tool_invite p) = require_role_or_capability Role_hr Manage_personnel db user"
| "endpoint_dependency db user (Tool_create_indicator sec c d) = require_capability [Manage_scoring] db user"
| "endpoint_dependency db user (Tool_update_indicator k d c b why) = require_capability [Manage_scoring] db user"
| "endpoint_dependency db user (Tool_draft_scheme a) = require_capability [Manage_scoring] db user"
| "endpoint_dependency db user (Tool_activate_scheme k) = require_capability [Manage_scoring] db user"
| "endpoint_dependency db user (Tool_create_period n a b) = require_roles [Role_hr] user"
| "endpoint_dependency db user (Tool_bulk n b d) = require_roles [Role_hr] user"
| "endpoint_dependency db user (Tool_create_plan k t d s owner goals) = require_roles [Role_hr] user"
| "endpoint_dependency db user (Tool_goal g b) = require_roles PLAN_ROLES user"
| "endpoint_dependency db user (Tool_create_personnel a) = require_role_or_capability Role_hr Manage_personnel db user"
| "endpoint_dependency db user (Tool_update_personnel k t n b d) = require_role_or_capability Role_hr Manage_personnel db user"
| "endpoint_dependency db user (Tool_separate k why d) = require_role_or_capability Role_hr Manage_personnel db user"
| "endpoint_dependency db user (Tool_create_user n r pw p f) = require_capability [Manage_users] db user"
| "endpoint_dependency db user (Tool_update_user k r b pw f p) = require_capability [Manage_users] db user"
| "endpoint_dependency db user (Tool_create_org_unit n s) = require_role_or_capability Role_hr Manage_personnel db user"
| "endpoint_dependency db user (Tool_set_access p a b c) = require_role_or_capability Role_hr Manage_personnel db user"
| "endpoint_dependency db user (Tool_grant k cs) = require_capability [Manage_capabilities] db user"

text \<open>What \<open>advance_evaluation\<close> asks by itself.\<close>

fun advance_allowed :: "tool_request \<Rightarrow> current_user \<Rightarrow> bool" where
  "advance_allowed (Tool_advance k action reason) user =
    (case Option.bind (action_of action) (map_of ADVANCE) of None \<Rightarrow> False | Some (may, _, _) \<Rightarrow> may (cu_role user))"
| "advance_allowed _ user = True"

fun creates_evaluation :: "tool_request \<Rightarrow> bool" where
  "creates_evaluation (Tool_create_evaluation p) = True"
| "creates_evaluation _ = False"

lemma registered:
  "find (\<lambda>s. spec_name s = ''create_evaluation'') REGISTRY = Some (tool ''create_evaluation'' False True [] [] True)"
  "find (\<lambda>s. spec_name s = ''advance_evaluation'') REGISTRY = Some (tool ''advance_evaluation'' False True [] [] True)"
  "find (\<lambda>s. spec_name s = ''add_evaluation_comment'') REGISTRY = Some (tool ''add_evaluation_comment'' False True [] [] True)"
  "find (\<lambda>s. spec_name s = ''invite_self_assessment'') REGISTRY = Some (tool ''invite_self_assessment'' False True [Manage_personnel] [Role_hr] False)"
  "find (\<lambda>s. spec_name s = ''create_indicator'') REGISTRY = Some (tool ''create_indicator'' False True [Manage_scoring] [] False)"
  "find (\<lambda>s. spec_name s = ''update_indicator'') REGISTRY = Some (tool ''update_indicator'' False True [Manage_scoring] [] False)"
  "find (\<lambda>s. spec_name s = ''create_scoring_scheme_draft'') REGISTRY = Some (tool ''create_scoring_scheme_draft'' False True [Manage_scoring] [] False)"
  "find (\<lambda>s. spec_name s = ''activate_scoring_scheme'') REGISTRY = Some (tool ''activate_scoring_scheme'' False True [Manage_scoring] [] False)"
  "find (\<lambda>s. spec_name s = ''create_period'') REGISTRY = Some (tool ''create_period'' False True [] [Role_hr] False)"
  "find (\<lambda>s. spec_name s = ''run_bulk_evaluations'') REGISTRY = Some (tool ''run_bulk_evaluations'' False True [] [Role_hr] False)"
  "find (\<lambda>s. spec_name s = ''create_improvement_plan'') REGISTRY = Some (tool ''create_improvement_plan'' False True [] [Role_hr] False)"
  "find (\<lambda>s. spec_name s = ''update_improvement_plan_goal'') REGISTRY = Some (tool ''update_improvement_plan_goal'' False True [] [Role_hr, Role_unit_supervisor, Role_deputy, Role_ceo] False)"
  "find (\<lambda>s. spec_name s = ''create_personnel'') REGISTRY = Some (tool ''create_personnel'' False True [Manage_personnel] [Role_hr] False)"
  "find (\<lambda>s. spec_name s = ''update_personnel'') REGISTRY = Some (tool ''update_personnel'' False True [Manage_personnel] [Role_hr] False)"
  "find (\<lambda>s. spec_name s = ''separate_personnel'') REGISTRY = Some (tool ''separate_personnel'' False True [Manage_personnel] [Role_hr] False)"
  "find (\<lambda>s. spec_name s = ''create_user'') REGISTRY = Some (tool ''create_user'' False True [Manage_users] [] False)"
  "find (\<lambda>s. spec_name s = ''update_user'') REGISTRY = Some (tool ''update_user'' False True [Manage_users] [] False)"
  "find (\<lambda>s. spec_name s = ''create_org_unit'') REGISTRY = Some (tool ''create_org_unit'' False True [Manage_personnel] [Role_hr] False)"
  "find (\<lambda>s. spec_name s = ''set_evaluation_access'') REGISTRY = Some (tool ''set_evaluation_access'' False True [Manage_personnel] [Role_hr] False)"
  "find (\<lambda>s. spec_name s = ''grant_capabilities'') REGISTRY = Some (tool ''grant_capabilities'' False True [Manage_capabilities] [] False)"
  by code_simp+

lemma spec_of_simps:
  "spec_of (Tool_create_evaluation p1) = tool ''create_evaluation'' False True [] [] True"
  "spec_of (Tool_advance k2 action2 reason2) = tool ''advance_evaluation'' False True [] [] True"
  "spec_of (Tool_comment k3 t3 parent3) = tool ''add_evaluation_comment'' False True [] [] True"
  "spec_of (Tool_invite p4) = tool ''invite_self_assessment'' False True [Manage_personnel] [Role_hr] False"
  "spec_of (Tool_create_indicator sec5 c5 d5) = tool ''create_indicator'' False True [Manage_scoring] [] False"
  "spec_of (Tool_update_indicator k6 d6 c6 b6 why6) = tool ''update_indicator'' False True [Manage_scoring] [] False"
  "spec_of (Tool_draft_scheme a7) = tool ''create_scoring_scheme_draft'' False True [Manage_scoring] [] False"
  "spec_of (Tool_activate_scheme k8) = tool ''activate_scoring_scheme'' False True [Manage_scoring] [] False"
  "spec_of (Tool_create_period n9 a9 b9) = tool ''create_period'' False True [] [Role_hr] False"
  "spec_of (Tool_bulk n10 b10 d10) = tool ''run_bulk_evaluations'' False True [] [Role_hr] False"
  "spec_of (Tool_create_plan k11 t11 d11 s11 owner11 goals11) = tool ''create_improvement_plan'' False True [] [Role_hr] False"
  "spec_of (Tool_goal g12 b12) = tool ''update_improvement_plan_goal'' False True [] [Role_hr, Role_unit_supervisor, Role_deputy, Role_ceo] False"
  "spec_of (Tool_create_personnel a13) = tool ''create_personnel'' False True [Manage_personnel] [Role_hr] False"
  "spec_of (Tool_update_personnel k14 t14 n14 b14 d14) = tool ''update_personnel'' False True [Manage_personnel] [Role_hr] False"
  "spec_of (Tool_separate k15 why15 d15) = tool ''separate_personnel'' False True [Manage_personnel] [Role_hr] False"
  "spec_of (Tool_create_user n16 r16 pw16 p16 f16) = tool ''create_user'' False True [Manage_users] [] False"
  "spec_of (Tool_update_user k17 r17 b17 pw17 f17 p17) = tool ''update_user'' False True [Manage_users] [] False"
  "spec_of (Tool_create_org_unit n18 s18) = tool ''create_org_unit'' False True [Manage_personnel] [Role_hr] False"
  "spec_of (Tool_set_access p19 a19 b19 c19) = tool ''set_evaluation_access'' False True [Manage_personnel] [Role_hr] False"
  "spec_of (Tool_grant k20 cs20) = tool ''grant_capabilities'' False True [Manage_capabilities] [] False"
  by (simp_all only: spec_of_def tool_name.simps registered option.sel)

lemma map_of_advance:
  "map_option (\<lambda>(may, _, _). may (cu_role user)) (map_of ADVANCE action) =
   map_option (\<lambda>d. d = Inr ()) (map_of [(''submit'', require_chain_stage Role_unit_supervisor user),
        (''hr_approve'', require_roles [Role_hr] user),
        (''deputy_approve'', require_chain_stage Role_deputy user), (''ceo_finalize'', require_chain_stage Role_ceo user),
        (''return'', require_roles [Role_hr, Role_deputy, Role_ceo] user),
        (''cancel'', require_roles [Role_hr, Role_deputy, Role_ceo] user), (''hr_claim'', require_roles [Role_hr] user)] action)"
  by (simp add: ADVANCE_def require_chain_stage_def require_roles_def)

lemma advance_dependency:
  "advance_allowed (Tool_advance k action reason) user \<longleftrightarrow>
    endpoint_dependency db user (Tool_advance k action reason) = Inr ()"
proof (cases "action_of action")
  case None
  then show ?thesis by simp
next
  case (Some a)
  then show ?thesis
    using map_of_advance [of user a] by (auto simp del: map_of.simps split: option.splits)
qed

text \<open>Whoever the endpoint that creates an evaluation accepts is the scorer of the chain of the person.\<close>

definition chain_scorer :: "database \<Rightarrow> current_user \<Rightarrow> int \<Rightarrow> bool" where
  "chain_scorer db user p \<longleftrightarrow>
    (case find (\<lambda>a. acc_personnel_id a = p) (t_access db) of
       None \<Rightarrow> False
     | Some a \<Rightarrow>
         let field = scorer_field (acc_unit_supervisor_user_id a) (acc_deputy_user_id a)
         in may_act_at (cu_role user) (case SEAT_ROLE field of Some x \<Rightarrow> x | None \<Rightarrow> Role_hr) \<and>
           access_seat field a = Some (cu_id user))"

lemma only_the_scorer_creates:
  assumes "create_evaluation env db user p = Inr (db', k)"
  shows "chain_scorer db user p"
proof -
  obtain x where x: "get_personnel db p = Some x" using assms by (auto simp: create_evaluation_def)
  then have "personnel_id x = p" by (simp add: get_personnel_def row_get_SomeD(2))
  with assms x show ?thesis by (auto simp: create_evaluation_def chain_scorer_def Let_def)
qed

lemma scorers_may_create:
  assumes "chain_scorer db user p"
  shows "require_chain_stage Role_unit_supervisor user = Inr ()"
  using assms
  by (cases "cu_role user")
    (auto simp: chain_scorer_def scorer_field_def SEAT_ROLE_def require_chain_stage_def may_act_at_def CHAIN_RANK_def Let_def
      split: if_splits option.splits)

text \<open>
  C25. Although a tool calls an endpoint without its dependency, the same people get through. For every tool but
  the one that creates an evaluation, its guard, together with what \<open>advance_evaluation\<close> asks by itself, lets a caller
  through exactly when the dependency of its endpoint would. The tool that creates an evaluation has no guard: it
  lets everybody through, and the check in the body of the endpoint, for the scorer of the chain of the person, stands in;
  whoever passes that check passes the dependency.
\<close>

theorem tools_ask_what_the_endpoints_ask:
  "if creates_evaluation q
   then guard (spec_of q) user (capabilities_of db (cu_id user)) = Inr () \<and>
     (\<forall>p. q = Tool_create_evaluation p \<and> chain_scorer db user p \<longrightarrow> endpoint_dependency db user q = Inr ())
   else guard (spec_of q) user (capabilities_of db (cu_id user)) = Inr () \<and> advance_allowed q user \<longleftrightarrow>
     endpoint_dependency db user q = Inr ()"
proof (cases "creates_evaluation q")
  case True
  then obtain p where q: "q = Tool_create_evaluation p" by (cases q) auto
  have "guard (spec_of q) user (capabilities_of db (cu_id user)) = Inr ()"
    by (simp add: q spec_of_simps guard_def is_allowed_def tool_def)
  with True scorers_may_create show ?thesis by (auto simp: q)
next
  case False
  then have "guard (spec_of q) user (capabilities_of db (cu_id user)) = Inr () \<and> advance_allowed q user \<longleftrightarrow>
      endpoint_dependency db user q = Inr ()"
    by (cases q;
        simp only: spec_of_simps advance_dependency [of _ _ _ _ db] creates_evaluation.simps guard_def is_allowed_def;
        auto simp: tool_def PLAN_ROLES_def require_roles_def require_role_or_capability_def require_capability_iff
          simp del: map_of.simps)
  with False show ?thesis by simp
qed

end
