(* ===== verification/AssistantSystem.thy ===== *)
theory AssistantSystem
  imports AssistantTools
begin

text \<open>
  What the assistant does to the records: every call that it carries out keeps the invariants of the
  system, as the requests of the endpoints do.
\<close>

section \<open>Changes beside the records\<close>

definition keeps_system :: "database \<Rightarrow> database \<Rightarrow> bool" where
  "keeps_system db db' \<longleftrightarrow> whole_wf db' \<and> records_endure db db'"

lemma keeps_trans: "keeps_system db1 db2 \<Longrightarrow> keeps_system db2 db3 \<Longrightarrow> keeps_system db1 db3"
  using records_endure_trans by (auto simp: keeps_system_def)

text \<open>One table changed, and an entry in the log.\<close>

lemma beside:
  assumes "whole_wf db" and "t_evaluations db1 = t_evaluations db" "t_scores db1 = t_scores db"
    "t_code_seq db1 = t_code_seq db" "t_audit_log db1 = t_audit_log db" "t_users db1 = t_users db"
    "t_access db1 = t_access db" "map personnel_id (t_personnel db1) = map personnel_id (t_personnel db)"
  shows "keeps_system db (log_event a e r old new db1)"
    and "keeps_system db db1"
proof -
  have s: "same_records db db1" using assms(2-5) by (rule same_recordsI)
  then show "keeps_system db (log_event a e r old new db1)"
    unfolding keeps_system_def using assms by (intro elsewhereI same_records_log) (simp_all add: links_def)
  show "keeps_system db db1"
    unfolding keeps_system_def using s assms by (intro elsewhereI) (simp_all add: links_def)
qed

lemma beside_messages:
  assumes "keeps_system db db1" and "only_messages db1 db2"
  shows "keeps_system db db2"
proof -
  have "same_records db1 db2" using assms(2) by (simp add: same_records_messages)
  then have "keeps_system db1 db2"
    using assms unfolding keeps_system_def
    by (intro elsewhereI) (simp_all add: only_messages_tables [OF assms(2)] links_def)
  then show ?thesis using assms(1) keeps_trans by blast
qed

lemma after_log: "keeps_system db db1 \<Longrightarrow> keeps_system db (log_event a e r old new db1)"
  using beside(1) [of db1 db1 a e r old new] keeps_trans by (simp add: keeps_system_def)

lemma after_step:
  "keeps_system db db1 \<Longrightarrow> (whole_wf db1 \<Longrightarrow> whole_wf db2 \<and> records_endure db1 db2) \<Longrightarrow> keeps_system db db2"
  using records_endure_trans by (auto simp: keeps_system_def)

lemma draft_scheme_operation:
  assumes "tool_draft_scheme env db user a = Inr db'" and "whole_wf db"
  shows "keeps_system db db'"
  using assms beside(1) [OF assms(2)]
  by (auto simp: tool_draft_scheme_def create_scheme_def Let_def add_scheme_def
      split: sum.splits http_error.splits)

lemma activate_scheme_operation:
  assumes "tool_activate_scheme env db user k = Inr db'" and "whole_wf db"
  shows "keeps_system db db'"
  using assms beside(1) [OF assms(2)]
  by (auto simp: tool_activate_scheme_def activate_def Let_def put_scheme_def split: option.splits)

lemma create_period_operation:
  assumes "create_period env db user name starts ends = Inr db'" and "whole_wf db"
  shows "keeps_system db db'"
  using assms
  by (auto simp: create_period_def Let_def intro!: beside_messages [OF _ notify_messages] beside(1)
      simp: add_period_def)

lemma create_plan_operation:
  assumes "create_plan env db user payload = Inr (db', k)" and "whole_wf db"
  shows "keeps_system db db'"
  using assms
  by (auto simp: create_plan_def Let_def add_plan_def intro!: beside_messages [OF _ notify_messages] beside(1)
      split: option.splits)

lemma update_goal_operation:
  assumes "update_goal db user k g given is_done = Inr db'" and "whole_wf db"
  shows "keeps_system db db'"
  using assms by (auto simp: update_goal_def put_goal_def intro!: beside(1))

lemma create_unit_operation:
  assumes "create_org_unit db user site name = Inr (db', u)" and "whole_wf db"
  shows "keeps_system db db'"
  using assms by (auto simp: create_org_unit_def Let_def intro!: beside(1))

lemma set_capabilities_operation:
  assumes "set_capabilities db user k cs = Inr (db', h)" and "whole_wf db"
  shows "keeps_system db db'"
  using assms by (auto simp: set_capabilities_def Let_def grant_exactly_def intro!: beside(1))

section \<open>People\<close>

lemma new_person_keeps:
  assumes "whole_wf db" and "personnel_id p = next_id personnel_id (t_personnel db)"
  shows "keeps_system db (log_event a e r old new (add_personnel p db))"
proof -
  have s: "same_records db (add_personnel p db)"
    by (rule same_recordsI) (simp_all add: add_personnel_def)
  have "personnel_id p \<notin> personnel_id ` set (t_personnel db)"
    unfolding assms(2) by (rule next_id_not_in)
  then have d: "distinct (map personnel_id (t_personnel (add_personnel p db)))"
    using assms(1) by (simp add: add_personnel_def whole_wf_def org_wf_def)
  have "keeps_system db (add_personnel p db)"
    unfolding keeps_system_def
    by (rule same_records_operation [OF s assms(1)], erule org_wf_links [OF _ _ _ _ _ d])
      (use assms(1) in \<open>simp_all add: add_personnel_def links_def may_sit_def whole_wf_def org_wf_def\<close>)
  then show ?thesis by (rule after_log)
qed

lemma create_personnel_tool_operation:
  assumes "tool_create_personnel env db user a = Inr db'" and "whole_wf db"
  shows "keeps_system db db'"
  using assms by (auto simp: tool_create_personnel_def Let_def intro!: new_person_keeps)

text \<open>The endpoint that creates a person refuses a name of blanks; the tool does not.\<close>

lemma blank_name_is_stored:
  assumes "tool_create_personnel env db user a = Inr db'" and "strip (pea_full_name a) = []"
  shows "\<exists>p \<in> set (t_personnel db'). personnel_full_name p = []"
  using assms by (auto simp: tool_create_personnel_def Let_def add_personnel_def)

lemma separate_operation:
  assumes "tool_separate env db user k reason d = Inr db'" and "whole_wf db"
  shows "keeps_system db db'"
proof -
  obtain p1 db2 a e r old new where out: "close_out_departure env (put_personnel p1 db) p1 user = Inr db2"
    "db' = log_event a e r old new db2"
    using assms(1) unfolding tool_separate_def Let_def by simp blast
  have "keeps_system db (put_personnel p1 db)"
    using assms(2) by (intro beside(2)) (simp_all add: put_personnel_def)
  then have "keeps_system db db2"
    by (rule after_step) (rule close_out_operation [OF out(1)])
  then show ?thesis unfolding out(2) by (rule after_log)
qed

lemma staff_keeps: "staff_step db db' \<Longrightarrow> whole_wf db \<Longrightarrow> keeps_system db db'"
  using staff_operation by (simp add: keeps_system_def)

lemma reworded_Inr:
  "(case x of Inl (HTTPException c e) \<Rightarrow> Inl (f c e) | Inr v \<Rightarrow> Inr v) = Inr y \<longleftrightarrow> x = Inr y"
  by (auto split: sum.splits http_error.splits)

lemma create_user_tool_operation:
  assumes "tool_create_user crypt temporary db user name r password p full = Inr db'" and "whole_wf db"
  shows "keeps_system db db'"
proof -
  obtain r' plain p' full' where "create_user crypt db user (strip name) plain r' p' full' = Inr db'"
    using assms(1) by (auto simp: tool_create_user_def Let_def reworded_Inr)
  then show ?thesis using assms(2) by (intro staff_keeps staff_step.account)
qed

lemma people_operation:
  assumes "whole_wf db"
  shows "tool_update_personnel env db user k title unit manager ends = Inr db' \<Longrightarrow> keeps_system db db'"
    and "tool_update_user env crypt db user k r' active password' full' p = Inr db' \<Longrightarrow> keeps_system db db'"
    and "tool_set_access db user k supervisor deputy ceo = Inr db' \<Longrightarrow> keeps_system db db'"
  using assms
  by (auto simp: tool_update_personnel_def tool_update_user_def tool_set_access_def Let_def
      intro: staff_keeps [OF staff_step.edited] staff_keeps [OF staff_step.changed] staff_keeps [OF staff_step.chain])

section \<open>Records and indicators\<close>

lemma served_keeps: "handle env user q db = Inr db' \<Longrightarrow> whole_wf db \<Longrightarrow> keeps_system db db'"
  using request_operation by (simp add: keeps_system_def)

lemma advance_operation:
  assumes "advance_evaluation env db user k action reason = Inr db'" and "whole_wf db"
  shows "keeps_system db db'"
  using assms served_keeps by (auto simp: advance_evaluation_def Let_def)

lemma indicators_keep:
  assumes "handle_indicators fresh user q db = Inr db'" and "whole_wf db"
    and "distinct (map indicator_id (t_indicators db))"
  shows "keeps_system db db'"
  using indicator_requests_are_system_steps [OF assms(1,3)] system.run_keeps [OF _ assms(2)]
  by (simp add: keeps_system_def)

lemma indicator_tools_operation:
  assumes "whole_wf db" and "distinct (map indicator_id (t_indicators db))"
  shows "tool_create_indicator fresh db user sec cat descr = Inr db' \<Longrightarrow> keeps_system db db'"
    and "tool_update_indicator fresh db user k descr' cat' active why = Inr db' \<Longrightarrow> keeps_system db db'"
  using indicators_keep [OF _ assms]
  by (auto simp: tool_create_indicator_def tool_update_indicator_def Let_def simp del: handle_indicators.simps)

section \<open>Calls\<close>

lemma evaluation_created_keeps:
  assumes "create_evaluation env db user p = Inr (db', k)" and "whole_wf db"
  shows "keeps_system db db'"
  using create_operation assms by (simp add: keeps_system_def)

lemma bulk_keeps:
  assumes "run_bulk_create env db user cohort = Inr (db', plans)" and "whole_wf db"
  shows "keeps_system db db'"
  using run_bulk_operation assms by (simp add: keeps_system_def)

lemma comment_keeps: "post_comment env db user k raw parent = Inr db' \<Longrightarrow> whole_wf db \<Longrightarrow> keeps_system db db'"
  using comment_operation by (simp add: keeps_system_def)

lemma invite_keeps: "invite_to_self_assessment env db user p = Inr db' \<Longrightarrow> whole_wf db \<Longrightarrow> keeps_system db db'"
  using invite_operation by (simp add: keeps_system_def)

lemma map_sum_fst_Inr: "map_sum id fst x = Inr db' \<longleftrightarrow> (\<exists>k. x = Inr (db', k))"
  by (cases x) auto

lemma run_tool_keeps:
  assumes "run_tool te db user q = Inr db'" and "whole_wf db" and "distinct (map indicator_id (t_indicators db))"
  shows "keeps_system db db'"
proof -
  note kept = evaluation_created_keeps [OF _ assms(2)] bulk_keeps [OF _ assms(2)] comment_keeps [OF _ assms(2)]
    invite_keeps [OF _ assms(2)] advance_operation [OF _ assms(2)] indicator_tools_operation [OF assms(2,3)]
    draft_scheme_operation [OF _ assms(2)] activate_scheme_operation [OF _ assms(2)]
    create_period_operation [OF _ assms(2)] create_plan_operation [OF _ assms(2)] update_goal_operation [OF _ assms(2)]
    create_unit_operation [OF _ assms(2)] set_capabilities_operation [OF _ assms(2)]
    create_personnel_tool_operation [OF _ assms(2)] create_user_tool_operation [OF _ assms(2)]
    separate_operation [OF _ assms(2)] people_operation [OF assms(2)]
  show ?thesis
    using assms(1)
    by (cases q; simp only: run_tool.simps map_sum_fst_Inr tool_create_plan_def tool_update_goal_def
          tool_create_org_unit_def tool_grant_def tool_create_evaluation_def
          tool_comment_def tool_create_period_def run_bulk_evaluations_def Let_def bindE_eq_Inr split_paired_all; blast intro: kept)
qed

text \<open>
  C26. Whatever the assistant carries out for somebody by one of the twenty modelled tools that write, all but the
  two that work on uploaded spreadsheets, the records, the log, the people and the chains stay well-formed, no
  record disappears, a self-assessment that was handed in stays so, and the closed records stay as they are but
  for their voice.
\<close>

theorem tools_keep_the_system:
  assumes "call_tool te db user q = Inr db'" and "whole_wf db" and "distinct (map indicator_id (t_indicators db))"
  shows "whole_wf db' \<and> records_endure db db'"
proof -
  obtain db1 e new where run: "run_tool te db user q = Inr db1" and db': "db' = log_event (cu_id user) e None None new db1"
    using assms(1) unfolding call_tool_def bindE_eq_Inr by blast
  have "keeps_system db db1" by (rule run_tool_keeps [OF run assms(2,3)])
  then show ?thesis unfolding db' keeps_system_def [symmetric] by (rule after_log)
qed

end
