(* ===== verification/AssistantToolWitnesses.thy ===== *)
theory AssistantToolWitnesses
  imports AssistantSystem SystemWitnesses AccessWitnesses
begin

text \<open>The properties of the calls of the assistant at concrete inputs.\<close>

definition tools :: tool_env where
  "tools = \<lparr>request_env = plain_env, new_id = 1, temp_password = ascii ''temporary'',
    passwords = plain_crypt, conversation = 5, may_write = True,
    sanitized = JObject [(''personnel_id'', JInt 50)]\<rparr>"

theorem tools_ask_what_the_endpoints_ask_witness:
  "endpoint_dependency staffed (person 11 Role_unit_supervisor) (Tool_create_evaluation 50) = Inr () \<and>
   guard (spec_of (Tool_advance 1 (ascii ''hr_approve'') [])) (person 70 Role_hr) (capabilities_of opened 70) = Inr () \<and>
   endpoint_dependency opened (person 70 Role_hr) (Tool_advance 1 (ascii ''hr_approve'') []) = Inr ()"
proof -
  have "endpoint_dependency opened (person 70 Role_hr) (Tool_advance 1 (ascii ''hr_approve'') []) = Inr ()"
    by (simp add: require_roles_def person_def action_of_def ADVANCE_def enum_of_def ascii_def strip_def is_space_def Let_def)
  moreover have "chain_scorer staffed (person 11 Role_unit_supervisor) 50"
    using opened_created by (rule only_the_scorer_creates)
  ultimately show ?thesis
    using tools_ask_what_the_endpoints_ask [of "Tool_advance 1 (ascii ''hr_approve'') []" "person 70 Role_hr" opened]
      tools_ask_what_the_endpoints_ask [of "Tool_create_evaluation 50" "person 11 Role_unit_supervisor" staffed]
    by (auto simp: person_def)
qed

theorem tools_keep_the_system_witness:
  "\<exists>db. call_tool tools staffed (person 11 Role_unit_supervisor) (Tool_create_evaluation 50) = Inr db \<and>
    t_evaluations db = t_evaluations opened \<and> whole_wf db \<and> records_endure staffed db"
proof -
  have "run_tool tools staffed (person 11 Role_unit_supervisor) (Tool_create_evaluation 50) = Inr opened"
    by (simp add: tool_create_evaluation_def tools_def opened_created)
  moreover have "may_write tools" by (simp add: tools_def)
  ultimately obtain db where c: "call_tool tools staffed (person 11 Role_unit_supervisor) (Tool_create_evaluation 50) = Inr db"
      "t_evaluations db = t_evaluations opened"
    by (simp add: call_tool_def spec_of_simps guard_def is_allowed_def tool_def del: run_tool.simps)
  have "distinct (map indicator_id (t_indicators staffed))"
    by (simp add: staffed_def unstaffed_def office_def)
  with tools_keep_the_system [OF c(1) reachable_whole [OF staffed_reachable]] c show ?thesis by blast
qed

end
