(* ===== verification/Reports.thy ===== *)
theory Reports
  imports Viewing Indicators
begin

text \<open>
  Privacy of small groups (\<open>app/services/privacy.py\<close>) and the reports of human resources
  (\<open>app/api/routers/reports.py\<close>). A query is a list of joined rows; what PostgreSQL computes over a group
  of numbers is a parameter. Groups without an order come in the order of their first rows.
\<close>

section \<open>Queries\<close>

text \<open>\<open>AVG\<close> of numbers that are not null, and \<open>percentile_cont\<close>.\<close>

record sql_env = query_env +
  sql_avg :: "rat list \<Rightarrow> rat"
  sql_percentile :: "rat \<Rightarrow> rat list \<Rightarrow> rat"

definition avg_or_null :: "sql_env \<Rightarrow> rat list \<Rightarrow> rat option" where
  "avg_or_null q xs = (if xs = [] then None else Some (sql_avg q xs))"

definition not_null :: "('a \<Rightarrow> 'b option) \<Rightarrow> 'a list \<Rightarrow> 'b list" where
  "not_null f xs = List.map_filter f xs"

definition grouped :: "('a \<Rightarrow> 'k) \<Rightarrow> 'a list \<Rightarrow> ('k \<times> 'a list) list" where
  "grouped key xs = map (\<lambda>k. (k, filter (\<lambda>x. key x = k) xs)) (remdups (map key xs))"

text \<open>\<open>round(float(value), digits)\<close>.\<close>

definition rounded :: "nat \<Rightarrow> rat \<Rightarrow> rat" where
  "rounded n x = py_round (fl x) n"

definition nulls_last :: "('a \<Rightarrow> int option) \<Rightarrow> 'a list \<Rightarrow> 'a list" where
  "nulls_last f xs = sort_key (\<lambda>x. the (f x)) (filter (\<lambda>x. f x \<noteq> None) xs) @ filter (\<lambda>x. f x = None) xs"

section \<open>Small groups\<close>

definition cohort_size :: "int list \<Rightarrow> nat" where
  "cohort_size ps = length (remdups ps)"

definition is_below_cohort :: "env \<Rightarrow> nat \<Rightarrow> bool" where
  "is_below_cohort env n \<longleftrightarrow> int n < min_cohort_size (cfg env)"

definition suppressed_avg :: "env \<Rightarrow> rat option \<Rightarrow> nat \<Rightarrow> rat option" where
  "suppressed_avg env x n = (if x = None \<or> is_below_cohort env n then None else x)"

section \<open>Filters of a report\<close>

record report_filters =
  rpf_period_id :: "int option"
  rpf_org_unit :: "utext option"
  rpf_personnel_id :: "int option"
  rpf_created_from :: "int option"
  rpf_created_to :: "int option"
  rpf_personnel_status :: "personnel_status option"
  rpf_contract_end_from :: "int option"
  rpf_contract_end_to :: "int option"

definition check_filters :: "report_filters \<Rightarrow> unit http" where
  "check_filters f =
    raise_if (case (rpf_created_from f, rpf_created_to f) of (Some a, Some b) \<Rightarrow> b < a | _ \<Rightarrow> False)
      (HTTPException 400 ''range of dates'')"

text \<open>The records joined with the people they are about.\<close>

definition with_person :: "database \<Rightarrow> evaluation_record list \<Rightarrow> (evaluation_record \<times> personnel) list" where
  "with_person db rs = List.map_filter (\<lambda>r. map_option (Pair r) (get_personnel db (subject_personnel_id r))) rs"

definition record_conditions :: "sql_env \<Rightarrow> report_filters \<Rightarrow> evaluation_record \<times> personnel \<Rightarrow> bool" where
  "record_conditions q f = (\<lambda>(r, p).
    status r = Finalized \<and>
    if_given (rpf_period_id f) (\<lambda>k. period_id r = Some k) \<and>
    if_given (text_given (rpf_org_unit f)) (\<lambda>n. org_unit p = n) \<and>
    if_given (rpf_personnel_id f) (\<lambda>k. subject_personnel_id r = k) \<and>
    if_given (rpf_created_from f) (\<lambda>d. local_day_start q d \<le> created_at r) \<and>
    if_given (rpf_created_to f) (\<lambda>d. created_at r < local_day_start q (d + 1)) \<and>
    if_given (rpf_personnel_status f) (\<lambda>s. p_status p = s) \<and>
    if_given (rpf_contract_end_from f) (\<lambda>d. d \<le> contract_end_date p) \<and>
    if_given (rpf_contract_end_to f) (\<lambda>d. contract_end_date p \<le> d))"

definition report_rows :: "sql_env \<Rightarrow> database \<Rightarrow> report_filters \<Rightarrow> (evaluation_record \<times> personnel) list" where
  "report_rows q db f = filter (record_conditions q f) (with_person db (t_evaluations db))"

section \<open>Groups of a report\<close>

text \<open>
  A row that is averaged: what it is grouped by, whom it is about and the number. The groups come with the
  highest average first.
\<close>

record 'k stat =
  stat_key :: 'k
  stat_avg :: "rat option"
  stat_count :: nat

type_synonym 'k measured = "'k \<times> int \<times> rat"

definition group_avg :: "sql_env \<Rightarrow> 'k measured list \<Rightarrow> rat" where
  "group_avg q rows = sql_avg q (map (snd \<circ> snd) rows)"

definition group_people :: "'k measured list \<Rightarrow> nat" where
  "group_people rows = cohort_size (map (fst \<circ> snd) rows)"

definition stat_of :: "sql_env \<Rightarrow> env \<Rightarrow> nat \<Rightarrow> 'k \<Rightarrow> 'l measured list \<Rightarrow> 'k stat" where
  "stat_of q env n k rows =
    \<lparr>stat_key = k, stat_avg = suppressed_avg env (Some (rounded n (group_avg q rows))) (group_people rows),
     stat_count = length rows\<rparr>"

definition ranked_stats :: "sql_env \<Rightarrow> env \<Rightarrow> nat \<Rightarrow> 'k measured list \<Rightarrow> 'k stat list" where
  "ranked_stats q env n rows =
    map (\<lambda>(k, g). stat_of q env n k g) (sort_key (\<lambda>(_, g). - group_avg q g) (grouped fst rows))"

definition unit_measures :: "(evaluation_record \<times> personnel) list \<Rightarrow> utext measured list" where
  "unit_measures rows =
    not_null (\<lambda>(r, p). map_option (\<lambda>x. (org_unit p, subject_personnel_id r, x)) (final_weighted_pct r)) rows"

text \<open>The scores of the records of a report.\<close>

definition score_measures ::
  "database \<Rightarrow> (evaluation_score \<Rightarrow> evaluation_record \<times> personnel \<Rightarrow> 'k) \<Rightarrow>
    (evaluation_score \<Rightarrow> evaluation_record \<times> personnel \<Rightarrow> bool) \<Rightarrow> 'k measured list" where
  "score_measures db key keep =
    concat (map (\<lambda>s. map (\<lambda>x. (key s x, subject_personnel_id (fst x), of_int (score s)))
      (filter (\<lambda>x. record_id (fst x) = score_record_id s \<and> keep s x) (with_person db (t_evaluations db)))) (t_scores db))"

definition in_form_order :: "indicator list \<Rightarrow> indicator list" where
  "in_form_order is = sort_key (\<lambda>i. section_rank (ind_section i)) (sort_key display_order is)"

definition indicator_stats :: "sql_env \<Rightarrow> env \<Rightarrow> database \<Rightarrow> int measured list \<Rightarrow> indicator stat list" where
  "indicator_stats q env db rows =
    List.map_filter (\<lambda>i. map_option (stat_of q env 2 i) (map_of (grouped fst rows) (indicator_id i)))
      (in_form_order (t_indicators db))"

section \<open>The reports\<close>

record report_summary =
  rps_total_evaluations :: nat
  rps_avg_final_pct :: "rat option"
  rps_by_org_unit :: "utext stat list"
  rps_by_indicator :: "indicator stat list"

text \<open>The average of everything is hidden for few people, unless one person was asked for.\<close>

definition overall :: "env \<Rightarrow> report_filters \<Rightarrow> rat option \<Rightarrow> nat \<Rightarrow> rat option" where
  "overall env f x people = (if rpf_personnel_id f = None then suppressed_avg env x people else x)"

definition summary_data :: "sql_env \<Rightarrow> env \<Rightarrow> database \<Rightarrow> report_filters \<Rightarrow> report_summary" where
  "summary_data q env db f =
    (let base = report_rows q db f
     in \<lparr>rps_total_evaluations = length base,
         rps_avg_final_pct = overall env f
           (map_option (rounded 1) (avg_or_null q (not_null (final_weighted_pct \<circ> fst) base)))
           (cohort_size (map (subject_personnel_id \<circ> fst) base)),
         rps_by_org_unit = ranked_stats q env 1 (unit_measures base),
         rps_by_indicator = indicator_stats q env db
           (score_measures db (\<lambda>s _. score_indicator_id s) (\<lambda>_. record_conditions q f))\<rparr>)"

definition report_summary :: "sql_env \<Rightarrow> env \<Rightarrow> database \<Rightarrow> current_user \<Rightarrow> report_filters \<Rightarrow> report_summary http" where
  "report_summary q env db user f =
    bindE (check_filters f) (\<lambda>_.
    bindE (require_roles [Role_hr] user) (\<lambda>_.
    Inr (summary_data q env db f)))"

record indicator_breakdown =
  ibd_indicator :: indicator
  ibd_overall_avg :: "rat option"
  ibd_count :: nat
  ibd_by_org_unit :: "utext stat list"

definition indicator_breakdown ::
  "sql_env \<Rightarrow> env \<Rightarrow> database \<Rightarrow> current_user \<Rightarrow> int \<Rightarrow> report_filters \<Rightarrow> indicator_breakdown http" where
  "indicator_breakdown q env db user k f =
    bindE (check_filters f) (\<lambda>_.
    bindE (require_roles [Role_hr] user) (\<lambda>_.
    bindE (or_raise (row_get indicator_id (t_indicators db) k) (HTTPException 404 ''no such indicator'')) (\<lambda>i.
    let rows = score_measures db (\<lambda>_ x. org_unit (snd x)) (\<lambda>s x. record_conditions q f x \<and> score_indicator_id s = k)
    in Inr \<lparr>ibd_indicator = i,
         ibd_overall_avg = overall env f (map_option (rounded 2) (avg_or_null q (map (snd \<circ> snd) rows))) (group_people rows),
         ibd_count = length rows, ibd_by_org_unit = ranked_stats q env 2 rows\<rparr>)))"

record employee_point =
  emp_evaluation_code :: string
  emp_finalized_at :: string
  emp_final_pct :: rat

record employee_vs_unit =
  evu_personnel :: personnel
  evu_employee_avg :: "rat option"
  evu_unit_avg :: "rat option"
  evu_unit_evaluation_count :: nat
  evu_per_evaluation :: "employee_point list"

definition in_range :: "sql_env \<Rightarrow> int option \<Rightarrow> int option \<Rightarrow> int option \<Rightarrow> evaluation_record \<Rightarrow> bool" where
  "in_range q period start stop r \<longleftrightarrow>
    status r = Finalized \<and> final_weighted_pct r \<noteq> None \<and>
    if_given period (\<lambda>k. period_id r = Some k) \<and>
    if_given start (\<lambda>d. local_day_start q d \<le> created_at r) \<and>
    if_given stop (\<lambda>d. created_at r < local_day_start q (d + 1))"

definition float_sum :: "rat list \<Rightarrow> rat" where
  "float_sum xs = foldl fadd 0 xs"

definition employee_vs_unit ::
  "sql_env \<Rightarrow> env \<Rightarrow> database \<Rightarrow> current_user \<Rightarrow> int \<Rightarrow> int option \<Rightarrow> int option \<Rightarrow> int option \<Rightarrow> employee_vs_unit http" where
  "employee_vs_unit q env db user k period start stop =
    bindE (require_roles [Role_hr] user) (\<lambda>_.
    bindE (or_raise (get_personnel db k) (HTTPException 404 ''no such person'')) (\<lambda>p.
    let own = nulls_last finalized_at
          (filter (\<lambda>r. in_range q period start stop r \<and> subject_personnel_id r = k) (t_evaluations db));
        points = map (\<lambda>r. \<lparr>emp_evaluation_code = evaluation_code r,
          emp_finalized_at = (case finalized_at r of None \<Rightarrow> [] | Some t \<Rightarrow> isoformat t),
          emp_final_pct = fl (the (final_weighted_pct r))\<rparr>) own;
        unit = unit_measures (filter (\<lambda>(r, c). in_range q period start stop r \<and> org_unit c = org_unit p)
          (with_person db (t_evaluations db)))
    in Inr \<lparr>evu_personnel = p,
         evu_employee_avg = (if points = [] then None
           else Some (py_round (fdiv (float_sum (map emp_final_pct points)) (of_nat (length points))) 1)),
         evu_unit_avg = suppressed_avg env (map_option (rounded 1) (avg_or_null q (map (snd \<circ> snd) unit))) (group_people unit),
         evu_unit_evaluation_count = length unit, evu_per_evaluation = points\<rparr>))"

definition filters_json :: "report_filters \<Rightarrow> jdict" where
  "filters_json f =
    (let shown = (\<lambda>k x. case x of None \<Rightarrow> [] | Some t \<Rightarrow> [(k, JString t)]);
         number = map_option (\<lambda>n. ascii (str_int n)); date = map_option (\<lambda>d. ascii (isodate d))
     in shown ''period_id'' (number (rpf_period_id f)) @ shown ''org_unit'' (rpf_org_unit f) @
        shown ''personnel_id'' (number (rpf_personnel_id f)) @ shown ''created_from'' (date (rpf_created_from f)) @
        shown ''created_to'' (date (rpf_created_to f)) @
        shown ''personnel_status'' (map_option (\<lambda>s. ascii (''PersonnelStatus.'' @
          (case s of Personnel_active \<Rightarrow> ''active'' | Personnel_inactive \<Rightarrow> ''inactive''))) (rpf_personnel_status f)) @
        shown ''contract_end_from'' (date (rpf_contract_end_from f)) @
        shown ''contract_end_to'' (date (rpf_contract_end_to f)))"

text \<open>The spreadsheet is made of the summary; its export is logged.\<close>

definition export_report_excel ::
  "sql_env \<Rightarrow> env \<Rightarrow> database \<Rightarrow> current_user \<Rightarrow> report_filters \<Rightarrow> (database \<times> report_summary) http" where
  "export_report_excel q env db user f =
    bindE (report_summary q env db user f) (\<lambda>s.
    Inr (log_event (cu_id user) ''report_excel_exported'' None None
      (Some [(''filters'', JObject (filters_json f)), (''row_count'', JInt (int (rps_total_evaluations s)))]) db, s))"

section \<open>Small groups stay hidden\<close>

lemma set_grouped: "set (grouped key xs) = (\<lambda>k. (k, filter (\<lambda>x. key x = k) xs)) ` key ` set xs"
  by (simp add: grouped_def)

lemma set_ranked_stats:
  "set (ranked_stats q env n rows) = (\<lambda>k. stat_of q env n k (filter (\<lambda>x. fst x = k) rows)) ` fst ` set rows"
  by (simp add: ranked_stats_def set_grouped image_image)

lemma stat_of_avg_Some:
  "stat_avg (stat_of q env n k rows) = Some x \<Longrightarrow> min_cohort_size (cfg env) \<le> int (group_people rows)"
  by (auto simp: stat_of_def suppressed_avg_def is_below_cohort_def split: if_splits)

definition big_group :: "env \<Rightarrow> 'k measured list \<Rightarrow> 'k \<Rightarrow> bool" where
  "big_group env rows k \<longleftrightarrow> \<not> is_below_cohort env (group_people (filter (\<lambda>x. fst x = k) rows))"

definition agree_outside_small :: "env \<Rightarrow> 'k measured list \<Rightarrow> 'k measured list \<Rightarrow> bool" where
  "agree_outside_small env rows rows' \<longleftrightarrow>
    list_all2 (\<lambda>x y. fst y = fst x \<and> fst (snd y) = fst (snd x) \<and> (big_group env rows (fst x) \<longrightarrow> y = x)) rows rows'"

lemma filter_agree:
  assumes "list_all2 (\<lambda>x y. fst y = fst x \<and> fst (snd y) = fst (snd x) \<and> (b (fst x) \<longrightarrow> y = x)) rows rows'"
  shows "map (fst \<circ> snd) (filter (\<lambda>x. fst x = k) rows') = map (fst \<circ> snd) (filter (\<lambda>x. fst x = k) rows)"
    and "b k \<Longrightarrow> filter (\<lambda>x. fst x = k) rows' = filter (\<lambda>x. fst x = k) rows"
    and "fst ` set rows' = fst ` set rows"
  using assms by (induction rows rows' rule: list_all2_induct) auto

lemma agree_same_stats:
  assumes "agree_outside_small env rows rows'"
  shows "set (ranked_stats q env n rows') = set (ranked_stats q env n rows)"
proof -
  note agree = filter_agree [OF assms [unfolded agree_outside_small_def]]
  have "stat_of q env n k (filter (\<lambda>x. fst x = k) rows') = stat_of q env n k (filter (\<lambda>x. fst x = k) rows)" for k
  proof (cases "big_group env rows k")
    case True
    then show ?thesis using agree(2) by simp
  next
    case False
    moreover have "length (filter (\<lambda>x. fst x = k) rows') = length (filter (\<lambda>x. fst x = k) rows)"
      using arg_cong [OF agree(1), of length] by simp
    ultimately show ?thesis
      by (simp add: stat_of_def suppressed_avg_def group_people_def agree(1) big_group_def)
  qed
  then show ?thesis by (simp add: set_ranked_stats agree(3))
qed

text \<open>The order of the rows is another matter: it is the order of the averages, the hidden ones included.\<close>

lemma rows_in_order_of_hidden_averages:
  "sorted_wrt (\<lambda>u v. group_avg q (filter (\<lambda>x. fst x = stat_key v) rows) \<le>
    group_avg q (filter (\<lambda>x. fst x = stat_key u) rows)) (ranked_stats q env n rows)"
proof -
  have "sorted_wrt (\<lambda>x y. - group_avg q (snd x) \<le> - group_avg q (snd y)) (sort_key (\<lambda>(_, g). - group_avg q g) (grouped fst rows))"
    using sorted_sort_key [of "\<lambda>(_, g). - group_avg q g" "grouped fst rows"] by (simp add: sorted_wrt_map case_prod_beta)
  then show ?thesis
    unfolding ranked_stats_def sorted_wrt_map
    by (rule sorted_wrt_mono_rel [rotated]) (auto simp: set_grouped stat_of_def)
qed

text \<open>Rows that correspond, through joins and filters.\<close>

lemma list_all2_map_filter:
  assumes "list_all2 R xs ys" and "\<And>x y. R x y \<Longrightarrow> rel_option S (f x) (g y)"
  shows "list_all2 S (List.map_filter f xs) (List.map_filter g ys)"
  using assms(1)
proof (induction xs ys rule: list_all2_induct)
  case (Cons x xs y ys)
  then show ?case using assms(2) [OF Cons(1)] by (cases "f x"; cases "g y") (simp_all add: List.map_filter_simps)
qed (simp add: List.map_filter_simps)

lemma list_all2_filterI:
  "list_all2 R xs ys \<Longrightarrow> (\<And>x y. R x y \<Longrightarrow> P x = Q y) \<Longrightarrow> list_all2 R (filter P xs) (filter Q ys)"
  by (induction xs ys rule: list_all2_induct) auto

lemma record_conditions_pct [simp]:
  "record_conditions q f (r\<lparr>final_weighted_pct := x\<rparr>, p) = record_conditions q f (r, p)"
  by (simp add: record_conditions_def)

definition other_results :: "(int \<Rightarrow> bool) \<Rightarrow> evaluation_record \<Rightarrow> evaluation_record \<Rightarrow> bool" where
  "other_results may_differ r r' \<longleftrightarrow>
    (\<exists>x. r' = r\<lparr>final_weighted_pct := x\<rparr> \<and> (x = None \<longleftrightarrow> final_weighted_pct r = None)) \<and>
    (may_differ (subject_personnel_id r) \<or> r' = r)"

definition of_small_unit :: "sql_env \<Rightarrow> env \<Rightarrow> report_filters \<Rightarrow> database \<Rightarrow> int \<Rightarrow> bool" where
  "of_small_unit q env f db k \<longleftrightarrow>
    (\<exists>p. get_personnel db k = Some p \<and> \<not> big_group env (unit_measures (report_rows q db f)) (org_unit p))"

lemma report_rows_agree:
  assumes "t_personnel db' = t_personnel db"
    and "list_all2 (other_results (of_small_unit q env f db)) (t_evaluations db) (t_evaluations db')"
  shows "agree_outside_small env (unit_measures (report_rows q db f)) (unit_measures (report_rows q db' f))"
proof -
  let ?R = "\<lambda>(r, p) (r', p'). p' = p \<and> get_personnel db (subject_personnel_id r) = Some p \<and>
    other_results (of_small_unit q env f db) r r'"
  have "list_all2 ?R (with_person db (t_evaluations db)) (with_person db' (t_evaluations db'))"
    unfolding with_person_def
    by (rule list_all2_map_filter [OF assms(2)])
      (auto simp: other_results_def get_personnel_def assms(1) option.rel_map split: option.splits
        intro!: option.rel_refl_strong)
  then have "list_all2 ?R (report_rows q db f) (report_rows q db' f)"
    unfolding report_rows_def
    by (rule list_all2_filterI) (auto simp: other_results_def)
  moreover define big where "big = big_group env (unit_measures (report_rows q db f))"
  ultimately have "list_all2 (\<lambda>x y. fst y = fst x \<and> fst (snd y) = fst (snd x) \<and> (big (fst x) \<longrightarrow> y = x))
      (unit_measures (report_rows q db f)) (unit_measures (report_rows q db' f))"
    unfolding unit_measures_def not_null_def of_small_unit_def
    by (elim list_all2_map_filter) (auto simp: other_results_def option_rel_Some1 split: option.splits)
  then show ?thesis unfolding agree_outside_small_def big_def .
qed

text \<open>
  C27. The averages of units with fewer people than the threshold do not depend on the results of these people:
  whatever they are, the report has the same rows; and an average that is shown is of enough people.
\<close>

theorem small_groups_stay_hidden:
  assumes "report_summary q env db user f = Inr s" and "report_summary q env db' user f = Inr s'"
    and "t_personnel db' = t_personnel db"
    and "list_all2 (other_results (of_small_unit q env f db)) (t_evaluations db) (t_evaluations db')"
  shows "set (rps_by_org_unit s') = set (rps_by_org_unit s) \<and>
    list_all (\<lambda>u. stat_avg u \<noteq> None \<longrightarrow> min_cohort_size (cfg env) \<le> int (card (subject_personnel_id ` fst `
      {x \<in> set (report_rows q db f). org_unit (snd x) = stat_key u}))) (rps_by_org_unit s)"
proof
  have s: "rps_by_org_unit s = ranked_stats q env 1 (unit_measures (report_rows q db f))"
    "rps_by_org_unit s' = ranked_stats q env 1 (unit_measures (report_rows q db' f))"
    using assms(1,2) by (auto simp: report_summary_def summary_data_def Let_def)
  show "set (rps_by_org_unit s') = set (rps_by_org_unit s)"
    unfolding s by (rule agree_same_stats [OF report_rows_agree [OF assms(3,4)]])
  have "min_cohort_size (cfg env) \<le> int (card (subject_personnel_id ` fst `
      {x \<in> set (report_rows q db f). org_unit (snd x) = stat_key u}))"
    if u: "u \<in> set (rps_by_org_unit s)" "stat_avg u = Some x" for u x
  proof -
    let ?g = "filter (\<lambda>x. fst x = stat_key u) (unit_measures (report_rows q db f))"
    have "min_cohort_size (cfg env) \<le> int (group_people ?g)"
      using u unfolding s set_ranked_stats by (auto simp: stat_of_def intro: stat_of_avg_Some [unfolded stat_of_def, simplified])
    also have "group_people ?g = card (fst ` snd ` set ?g)"
      by (simp add: group_people_def cohort_size_def length_remdups_card_conv image_image)
    also have "\<dots> \<le> card (subject_personnel_id ` fst `
      {x \<in> set (report_rows q db f). org_unit (snd x) = stat_key u})"
      by (rule card_mono) (force simp: unit_measures_def not_null_def List.map_filter_def image_image intro: rev_image_eqI)+
    finally show ?thesis by simp
  qed
  then show "list_all (\<lambda>u. stat_avg u \<noteq> None \<longrightarrow> min_cohort_size (cfg env) \<le> int (card (subject_personnel_id ` fst `
      {x \<in> set (report_rows q db f). org_unit (snd x) = stat_key u}))) (rps_by_org_unit s)"
    by (auto simp: list_all_iff)
qed

section \<open>Counts add up\<close>

lemma sum_grouped: "sum_list (map (length \<circ> snd) (grouped key xs)) = length xs"
proof -
  have "sum_list (map (length \<circ> snd) (grouped key xs)) = (\<Sum>k\<leftarrow>remdups (map key xs). length (filter (\<lambda>x. key x = k) xs))"
    by (simp add: grouped_def comp_def)
  also have "\<dots> = (\<Sum>k\<in>set (map key xs). count_list (map key xs) k)"
    by (simp add: sum_list_distinct_conv_sum_set count_list_eq_length_filter filter_map comp_def eq_commute)
  also have "\<dots> = length xs" by (simp add: sum_count_set)
  finally show ?thesis .
qed

lemma sum_ranked_counts: "sum_list (map stat_count (ranked_stats q env n rows)) = length rows"
proof -
  have "mset (map stat_count (ranked_stats q env n rows)) = mset (map (length \<circ> snd) (grouped fst rows))"
    by (simp add: ranked_stats_def stat_of_def comp_def case_prod_beta)
  then show ?thesis by (metis sum_grouped sum_mset_sum_list)
qed

lemma not_null_all: "(\<And>x. x \<in> set xs \<Longrightarrow> f x \<noteq> None) \<Longrightarrow> length (not_null f xs) = length xs"
  by (induction xs) (auto simp: not_null_def List.map_filter_simps split: option.splits)

text \<open>In every reachable state the units of a report together have all its records.\<close>

theorem report_counts_add_up:
  assumes "reachable db" and "report_summary q env db user f = Inr s"
  shows "sum_list (map stat_count (rps_by_org_unit s)) = rps_total_evaluations s"
proof -
  have s: "rps_by_org_unit s = ranked_stats q env 1 (unit_measures (report_rows q db f))"
    "rps_total_evaluations s = length (report_rows q db f)"
    using assms(2) by (auto simp: report_summary_def summary_data_def Let_def)
  have "final_weighted_pct r \<noteq> None" if "(r, p) \<in> set (report_rows q db f)" for r p
  proof -
    have "r \<in> set (t_evaluations db)" "status r = Finalized"
      using that by (auto simp: report_rows_def with_person_def List.map_filter_def record_conditions_def)
    then have "record_wf r" using reachable_wf [OF assms(1)] by (simp add: system_wf_def records_wf_def)
    then show ?thesis
      using \<open>status r = Finalized\<close> by (auto simp: record_wf_def result_wf_def has_result_def)
  qed
  then have "length (unit_measures (report_rows q db f)) = length (report_rows q db f)"
    unfolding unit_measures_def by (intro not_null_all) auto
  then show ?thesis by (simp add: s sum_ranked_counts)
qed

end
