(* ===== verification/Analytics.thy ===== *)
theory Analytics
  imports Reports "HOL-Library.AList"
begin

text \<open>The analytics of evaluators and of the executives (\<open>app/api/routers/analytics.py\<close>).\<close>

section \<open>Truth values of SQL\<close>

text \<open>A comparison with null is unknown; a row is selected when its condition is true.\<close>

definition eq3 :: "int option \<Rightarrow> int \<Rightarrow> bool option" where
  "eq3 x u = map_option (\<lambda>v. v = u) x"

definition not3 :: "bool option \<Rightarrow> bool option" where
  "not3 = map_option Not"

definition and3 :: "bool option \<Rightarrow> bool option \<Rightarrow> bool option" where
  "and3 a b = (if a = Some False \<or> b = Some False then Some False
     else if a = None \<or> b = None then None else Some True)"

definition or3 :: "bool option \<Rightarrow> bool option \<Rightarrow> bool option" where
  "or3 a b = not3 (and3 (not3 a) (not3 b))"

definition is_null3 :: "int option \<Rightarrow> bool option" where
  "is_null3 x = Some (x = None)"

section \<open>The profile of an evaluator\<close>

text \<open>The records that the caller scores.\<close>

definition mine :: "current_user \<Rightarrow> evaluation_record \<Rightarrow> bool option" where
  "mine user r =
    (if cu_role user = Role_deputy
     then or3 (eq3 (unit_supervisor_user_id r) (cu_id user))
            (and3 (is_null3 (unit_supervisor_user_id r)) (eq3 (deputy_user_id r) (cu_id user)))
     else eq3 (unit_supervisor_user_id r) (cu_id user))"

definition final_scores ::
  "database \<Rightarrow> (evaluation_record \<Rightarrow> bool) \<Rightarrow> (evaluation_score \<times> evaluation_record) list" where
  "final_scores db keep =
    concat (map (\<lambda>s. map (Pair s) (filter (\<lambda>r. record_id r = score_record_id s \<and> status r = Finalized \<and> keep r)
      (t_evaluations db))) (t_scores db))"

definition share :: "nat \<Rightarrow> nat \<Rightarrow> rat" where
  "share n all = py_round (fdiv (of_nat (n * 100)) (of_nat all)) 1"

record score_bucket =
  sbk_score :: int
  sbk_my_count :: nat
  sbk_my_share_pct :: rat
  sbk_org_share_pct :: "rat option"

record indicator_gap =
  gap_indicator :: indicator
  gap_my_avg :: rat
  gap_org_avg :: "rat option"
  gap_my_count :: nat

record my_scoring_profile =
  msp_my_score_count :: nat
  msp_my_avg_score :: "rat option"
  msp_org_avg_score :: "rat option"
  msp_org_people_count :: nat
  msp_distribution :: "score_bucket list"
  msp_indicator_gaps :: "indicator_gap list"
  msp_evidence_rate_pct :: "rat option"
  msp_median_days_in_my_stage :: "rat option"
  msp_open_with_me :: nat

definition measured_scores :: "(evaluation_score \<times> evaluation_record) list \<Rightarrow> int measured list" where
  "measured_scores xs = map (\<lambda>(s, r). (score_indicator_id s, subject_personnel_id r, of_int (score s))) xs"

definition scored_with :: "int \<Rightarrow> 'k measured list \<Rightarrow> nat" where
  "scored_with v xs = length (filter (\<lambda>x. snd (snd x) = of_int v) xs)"

definition bucket_of :: "env \<Rightarrow> int measured list \<Rightarrow> int measured list \<Rightarrow> int \<Rightarrow> score_bucket" where
  "bucket_of env my others v =
    \<lparr>sbk_score = v, sbk_my_count = scored_with v my,
     sbk_my_share_pct = (if my = [] then 0 else share (scored_with v my) (length my)),
     sbk_org_share_pct = (if others \<noteq> [] \<and> \<not> is_below_cohort env (group_people others)
       then Some (share (scored_with v others) (length others)) else None)\<rparr>"

text \<open>\<open>_round\<close>: two decimals unless told otherwise.\<close>

definition gap_of :: "sql_env \<Rightarrow> env \<Rightarrow> int measured list \<Rightarrow> int measured list \<Rightarrow> indicator \<Rightarrow> indicator_gap option" where
  "gap_of q env my others i =
    map_option (\<lambda>g. \<lparr>gap_indicator = i, gap_my_avg = rounded 2 (group_avg q g),
        gap_org_avg = (case map_of (grouped fst others) (indicator_id i) of
            None \<Rightarrow> None
          | Some h \<Rightarrow> suppressed_avg env (Some (rounded 2 (group_avg q h))) (group_people h)),
        gap_my_count = length g\<rparr>)
      (map_of (grouped fst my) (indicator_id i))"

definition gap_key :: "indicator_gap \<Rightarrow> rat" where
  "gap_key g = (case gap_org_avg g of None \<Rightarrow> - 1 | Some x \<Rightarrow> \<bar>fsub (gap_my_avg g) x\<bar>)"

text \<open>\<open>trim\<close> of SQL takes blanks only.\<close>

definition has_evidence :: "evaluation_score \<Rightarrow> bool" where
  "has_evidence s = (case evidence_text s of None \<Rightarrow> False | Some t \<Rightarrow> \<not> list_all (\<lambda>c. c = 32) t)"

text \<open>Microseconds in days: \<open>extract(epoch)\<close> as a float, divided.\<close>

definition epoch_days :: "int \<Rightarrow> rat" where
  "epoch_days us = fdiv (fl (of_int us / 1000000)) 86400"

definition percentile_or_null :: "sql_env \<Rightarrow> rat \<Rightarrow> rat list \<Rightarrow> rat option" where
  "percentile_or_null q p xs = (if xs = [] then None else Some (sql_percentile q p xs))"

definition my_scoring_profile :: "sql_env \<Rightarrow> env \<Rightarrow> database \<Rightarrow> current_user \<Rightarrow> my_scoring_profile http" where
  "my_scoring_profile q env db user =
    bindE (require_roles [Role_unit_supervisor, Role_deputy] user) (\<lambda>_.
    bindE (ensure_module_enabled db ''role_analytics'') (\<lambda>_.
    let my_scores = final_scores db (\<lambda>r. mine user r = Some True);
        my = measured_scores my_scores;
        others = measured_scores (final_scores db (\<lambda>r. not3 (mine user r) = Some True));
        waiting = filter (\<lambda>r. is_open r \<and> mine user r = Some True \<and> status r = Draft) (t_evaluations db)
    in Inr \<lparr>msp_my_score_count = length my,
         msp_my_avg_score = map_option (rounded 2) (avg_or_null q (map (snd \<circ> snd) my)),
         msp_org_avg_score = suppressed_avg env
           (map_option (rounded 2) (avg_or_null q (map (snd \<circ> snd) others))) (group_people others),
         msp_org_people_count = group_people others,
         msp_distribution = map (bucket_of env my others) [1, 2, 3, 4, 5],
         msp_indicator_gaps = sort_key (\<lambda>g. - gap_key g)
           (List.map_filter (gap_of q env my others) (in_form_order (t_indicators db))),
         msp_evidence_rate_pct = (if my = [] then None
           else Some (share (length (filter (has_evidence \<circ> fst) my_scores)) (length my))),
         msp_median_days_in_my_stage = map_option (rounded 1)
           (percentile_or_null q (1 / 2) (map (\<lambda>r. epoch_days (now env - stage_entered_at r)) waiting)),
         msp_open_with_me = length waiting\<rparr>))"

text \<open>
  A record without a supervisor is neither the caller's own nor another's, unless the caller scores it: the
  condition is unknown and so is its negation.
\<close>

lemma mine_unknown:
  "unit_supervisor_user_id r = None \<Longrightarrow> not3 (mine user r) \<noteq> Some True"
  by (cases "deputy_user_id r"; cases "deputy_user_id r = Some (cu_id user)")
    (auto simp: mine_def eq3_def or3_def and3_def not3_def is_null3_def split: if_splits)

lemma records_of_managers_are_no_comparison:
  assumes "(s, r) \<in> set (final_scores db (\<lambda>r. not3 (mine user r) = Some True))"
  shows "unit_supervisor_user_id r \<noteq> None"
  using assms mine_unknown by (auto simp: final_scores_def)

section \<open>The overview of the executives\<close>

record site_performance =
  stp_site :: utext
  stp_avg_final_pct :: "rat option"
  stp_count :: nat

record recommendation_slice =
  rsl_recommendation :: utext
  rsl_count :: nat
  rsl_share_pct :: rat
  rsl_band_index :: "nat option"

record cycle_time =
  cyc_finalized_count :: nat
  cyc_median_days :: "rat option"
  cyc_p90_days :: "rat option"
  cyc_oldest_open_stage_days :: "rat option"
  cyc_open_count :: nat

record contract_exposure =
  cex_horizon_days :: int
  cex_expiring :: nat
  cex_without_finalized :: nat

record executive_overview =
  exo_total_finalized :: nat
  exo_avg_final_pct :: "rat option"
  exo_by_org_unit :: "utext stat list"
  exo_by_site :: "site_performance list"
  exo_recommendation_mix :: "recommendation_slice list"
  exo_cycle_time :: cycle_time
  exo_contract_exposure :: "contract_exposure list"

definition EXPOSURE_HORIZONS :: "int list" where
  "EXPOSURE_HORIZONS = [30, 60, 90]"

text \<open>
  A site is added up from the rows of its units: the weighted sum of the averages, the evaluations and the
  people.
\<close>

definition unit_groups :: "sql_env \<Rightarrow> database \<Rightarrow> (utext \<times> utext measured list) list" where
  "unit_groups q db = sort_key (\<lambda>(_, g). - group_avg q g)
    (grouped fst (unit_measures (with_person db (filter (\<lambda>r. status r = Finalized) (t_evaluations db)))))"

definition site_total :: "sql_env \<Rightarrow> (utext \<times> utext measured list) list \<Rightarrow> rat" where
  "site_total q gs = foldl (\<lambda>a (_, g). fadd a (fmul (fl (group_avg q g)) (of_nat (length g)))) 0 gs"

definition site_count :: "(utext \<times> utext measured list) list \<Rightarrow> nat" where
  "site_count gs = sum_list (map (\<lambda>(_, g). length g) gs)"

definition site_people :: "(utext \<times> utext measured list) list \<Rightarrow> nat" where
  "site_people gs = sum_list (map (\<lambda>(_, g). group_people g) gs)"

definition site_mean :: "sql_env \<Rightarrow> (utext \<times> utext measured list) list \<Rightarrow> rat" where
  "site_mean q gs = fdiv (site_total q gs) (of_nat (site_count gs))"

definition by_site :: "sql_env \<Rightarrow> env \<Rightarrow> (utext \<times> utext measured list) list \<Rightarrow> site_performance list" where
  "by_site q env rows =
    map (\<lambda>(site, gs). \<lparr>stp_site = the site,
        stp_avg_final_pct = suppressed_avg env (Some (py_round (site_mean q gs) 1)) (site_people gs),
        stp_count = site_count gs\<rparr>)
      (sort_key (\<lambda>(_, gs). - site_mean q gs)
        (grouped (site_of \<circ> fst) (filter (\<lambda>(u, _). site_of u \<noteq> None) rows)))"

text \<open>The place of a label in the thresholds: of the rules in force, else of the newest scheme that has it.\<close>

definition band_of :: "database \<Rightarrow> (utext \<times> nat) list" where
  "band_of db =
    (let places = (\<lambda>ts. zip (map snd ts) [0..<length ts]);
         newest = sort_key (\<lambda>s. - scheme_version s) (t_schemes db)
     in foldl (\<lambda>m (l, k). AList.update l k m)
          (foldl (\<lambda>m (l, k). if map_of m l = None then m @ [(l, k)] else m) []
            (concat (map (places \<circ> sch_thresholds) newest)))
          (places (thresholds (current_rules db))))"

definition recommendation_mix :: "database \<Rightarrow> recommendation_slice list" where
  "recommendation_mix db =
    (let labels = not_null recommendation (filter (\<lambda>r. status r = Finalized) (t_evaluations db));
         bands = band_of db;
         place = (\<lambda>l. case map_of bands l of None \<Rightarrow> length bands | Some k \<Rightarrow> k)
     in map (\<lambda>(l, xs). \<lparr>rsl_recommendation = l, rsl_count = length xs, rsl_share_pct = share (length xs) (length labels),
           rsl_band_index = map_of bands l\<rparr>)
         (sort_key (\<lambda>(l, _). place l) (sort_key (\<lambda>(_, xs). - int (length xs)) (grouped id labels))))"

definition cycle_time_of :: "sql_env \<Rightarrow> env \<Rightarrow> database \<Rightarrow> cycle_time" where
  "cycle_time_of q env db =
    (let durations = not_null (\<lambda>r. map_option (\<lambda>t. epoch_days (t - created_at r)) (finalized_at r))
           (filter (\<lambda>r. status r = Finalized) (t_evaluations db));
         waiting = map (\<lambda>r. epoch_days (now env - stage_entered_at r)) (filter is_open (t_evaluations db))
     in \<lparr>cyc_finalized_count = length durations,
         cyc_median_days = map_option (rounded 1) (percentile_or_null q (1 / 2) durations),
         cyc_p90_days = map_option (rounded 1) (percentile_or_null q (9 / 10) durations),
         cyc_oldest_open_stage_days = (if waiting = [] then None else Some (rounded 1 (Max (set waiting)))),
         cyc_open_count = length waiting\<rparr>)"

definition exposure :: "env \<Rightarrow> database \<Rightarrow> int \<Rightarrow> contract_exposure" where
  "exposure env db horizon =
    (let expiring = filter (\<lambda>p. p_status p = Personnel_active \<and> contract_end_date p \<le> today env + horizon) (t_personnel db);
         evaluated = (\<lambda>p. list_ex (\<lambda>r. subject_personnel_id r = personnel_id p \<and> status r = Finalized) (t_evaluations db))
     in \<lparr>cex_horizon_days = horizon, cex_expiring = length expiring,
         cex_without_finalized = length (filter (\<lambda>p. \<not> evaluated p) expiring)\<rparr>)"

definition executive_overview :: "sql_env \<Rightarrow> env \<Rightarrow> database \<Rightarrow> current_user \<Rightarrow> executive_overview http" where
  "executive_overview q env db user =
    bindE (require_roles [Role_ceo, Role_deputy] user) (\<lambda>_.
    bindE (ensure_module_enabled db ''role_analytics'') (\<lambda>_.
    let final = filter (\<lambda>r. status r = Finalized) (t_evaluations db); rows = unit_groups q db
    in Inr \<lparr>exo_total_finalized = length final,
         exo_avg_final_pct = suppressed_avg env
           (map_option (rounded 1) (avg_or_null q (not_null final_weighted_pct final)))
           (cohort_size (map subject_personnel_id final)),
         exo_by_org_unit = map (\<lambda>(u, g). stat_of q env 1 u g) rows,
         exo_by_site = by_site q env rows,
         exo_recommendation_mix = recommendation_mix db,
         exo_cycle_time = cycle_time_of q env db,
         exo_contract_exposure = map (exposure env db) EXPOSURE_HORIZONS\<rparr>))"

section \<open>What is compared is of enough people\<close>

lemma suppressed_Some: "suppressed_avg env x n \<noteq> None \<Longrightarrow> min_cohort_size (cfg env) \<le> int n"
  by (auto simp: suppressed_avg_def is_below_cohort_def split: if_splits)

definition others_people :: "database \<Rightarrow> current_user \<Rightarrow> (evaluation_score \<Rightarrow> bool) \<Rightarrow> int set" where
  "others_people db user keep =
    {subject_personnel_id r | s r. (s, r) \<in> set (final_scores db (\<lambda>r. not3 (mine user r) = Some True)) \<and> keep s}"

lemma group_people_card: "group_people rows = card (fst ` snd ` set rows)"
  by (simp add: group_people_def cohort_size_def length_remdups_card_conv image_image)

lemma others_group:
  "group_people (filter (\<lambda>x. fst x = k) (measured_scores (final_scores db (\<lambda>r. not3 (mine user r) = Some True)))) =
    card (others_people db user (\<lambda>s. score_indicator_id s = k))"
  "group_people (measured_scores (final_scores db (\<lambda>r. not3 (mine user r) = Some True))) =
    card (others_people db user (\<lambda>s. True))"
  unfolding group_people_card others_people_def measured_scores_def
  by (rule arg_cong [of _ _ card]; force)+

lemma map_of_grouped: "map_of (grouped key xs) k = Some g \<Longrightarrow> g = filter (\<lambda>x. key x = k) xs"
  unfolding grouped_def by (drule map_of_SomeD) auto

text \<open>
  Whatever an evaluator is compared with, the average of the others, their share of a score or their average
  in an indicator, is shown only when the scores are about enough people that the evaluator does not score.
\<close>

theorem comparisons_hide_small_groups:
  assumes "my_scoring_profile q env db user = Inr p"
  shows "(msp_org_avg_score p \<noteq> None \<longrightarrow> min_cohort_size (cfg env) \<le> int (card (others_people db user (\<lambda>s. True)))) \<and>
    list_all (\<lambda>b. sbk_org_share_pct b \<noteq> None \<longrightarrow>
      min_cohort_size (cfg env) \<le> int (card (others_people db user (\<lambda>s. True)))) (msp_distribution p) \<and>
    list_all (\<lambda>g. gap_org_avg g \<noteq> None \<longrightarrow> min_cohort_size (cfg env) \<le>
      int (card (others_people db user (\<lambda>s. score_indicator_id s = indicator_id (gap_indicator g))))) (msp_indicator_gaps p)"
proof -
  define my where "my = measured_scores (final_scores db (\<lambda>r. mine user r = Some True))"
  define others where "others = measured_scores (final_scores db (\<lambda>r. not3 (mine user r) = Some True))"
  have p: "msp_org_avg_score p = suppressed_avg env
        (map_option (rounded 2) (avg_or_null q (map (snd \<circ> snd) others))) (group_people others)"
    "msp_distribution p = map (bucket_of env my others) [1, 2, 3, 4, 5]"
    "msp_indicator_gaps p = sort_key (\<lambda>g. - gap_key g)
       (List.map_filter (gap_of q env my others) (in_form_order (t_indicators db)))"
    using assms by (auto simp: my_scoring_profile_def Let_def my_def others_def)
  have avg: "msp_org_avg_score p \<noteq> None \<longrightarrow> min_cohort_size (cfg env) \<le> int (card (others_people db user (\<lambda>s. True)))"
    using suppressed_Some [of env _ "group_people others"] unfolding p(1) others_def others_group by blast
  have share: "min_cohort_size (cfg env) \<le> int (card (others_people db user (\<lambda>s. True)))"
    if "sbk_org_share_pct (bucket_of env my others v) \<noteq> None" for v
    using that unfolding others_def
    by (auto simp: bucket_of_def is_below_cohort_def others_group split: if_splits)
  have gap: "min_cohort_size (cfg env) \<le> int (card (others_people db user (\<lambda>s. score_indicator_id s = indicator_id (gap_indicator g))))"
    if "gap_of q env my others i = Some g" "gap_org_avg g \<noteq> None" for i g
  proof -
    from that obtain h where h: "map_of (grouped fst others) (indicator_id i) = Some h" "gap_indicator g = i"
      "suppressed_avg env (Some (rounded 2 (group_avg q h))) (group_people h) \<noteq> None"
      by (auto simp: gap_of_def split: option.splits)
    show ?thesis
      using suppressed_Some [OF h(3)] unfolding map_of_grouped [OF h(1)] others_def others_group h(2) .
  qed
  show ?thesis
    using avg share gap by (auto simp: p list_all_iff List.map_filter_def)
qed

section \<open>Executives see groups only\<close>

definition evaluated_people :: "database \<Rightarrow> (utext \<Rightarrow> bool) \<Rightarrow> int set" where
  "evaluated_people db keep = (\<lambda>x. subject_personnel_id (fst x)) `
    {x \<in> set (with_person db (filter (\<lambda>r. status r = Finalized) (t_evaluations db))). keep (org_unit (snd x))}"

definition final_measures :: "database \<Rightarrow> utext measured list" where
  "final_measures db = unit_measures (with_person db (filter (\<lambda>r. status r = Finalized) (t_evaluations db)))"

lemma final_measures_person:
  assumes "x \<in> set (final_measures db)"
  shows "\<exists>p. get_personnel db (fst (snd x)) = Some p \<and> org_unit p = fst x"
    and "keep (fst x) \<Longrightarrow> fst (snd x) \<in> evaluated_people db keep"
  using assms
  by (force simp: final_measures_def unit_measures_def not_null_def List.map_filter_def with_person_def
      evaluated_people_def split: option.splits)+

lemma finite_evaluated [simp]: "finite (evaluated_people db keep)"
  by (simp add: evaluated_people_def)

lemma unit_groups_rows:
  "(u, g) \<in> set (unit_groups q db) \<Longrightarrow> g = filter (\<lambda>x. fst x = u) (final_measures db)"
  "distinct (map fst (unit_groups q db))"
proof -
  show "(u, g) \<in> set (unit_groups q db) \<Longrightarrow> g = filter (\<lambda>x. fst x = u) (final_measures db)"
    by (auto simp: unit_groups_def set_grouped final_measures_def)
  have "map fst (grouped fst (final_measures db)) = remdups (map fst (final_measures db))"
    by (simp add: grouped_def comp_def)
  then have "mset (map fst (unit_groups q db)) = mset (remdups (map fst (final_measures db)))"
    unfolding unit_groups_def final_measures_def [symmetric] by (metis mset_map mset_sort)
  then show "distinct (map fst (unit_groups q db))"
    by (metis distinct_remdups mset_eq_imp_distinct_iff)
qed

lemma unit_people:
  assumes "(u, g) \<in> set (unit_groups q db)" and "keep u"
  shows "fst ` snd ` set g \<subseteq> evaluated_people db keep"
  using final_measures_person(2) [of _ db keep] assms(2) by (auto simp: unit_groups_rows(1) [OF assms(1)])

lemma site_people_bound:
  assumes "distinct (map fst gs)" and "set gs \<subseteq> set (unit_groups q db)" and "\<And>u g. (u, g) \<in> set gs \<Longrightarrow> keep u"
  shows "site_people gs \<le> card (evaluated_people db keep)"
proof -
  have disjoint: "fst ` snd ` set g \<inter> fst ` snd ` set h = {}" if "(u, g) \<in> set gs" "(v, h) \<in> set gs" "u \<noteq> v" for u g v h
  proof -
    have "g = filter (\<lambda>x. fst x = u) (final_measures db)" "h = filter (\<lambda>x. fst x = v) (final_measures db)"
      using unit_groups_rows(1) [of u g q db] unit_groups_rows(1) [of v h q db] that assms(2) by blast+
    then have "org_unit (the (get_personnel db k)) = u" if "k \<in> fst ` snd ` set g" for k
      using that final_measures_person(1) [of _ db] by force
    moreover have "org_unit (the (get_personnel db k)) = v" if "k \<in> fst ` snd ` set h" for k
      using that final_measures_person(1) [of _ db] \<open>h = _\<close> by force
    ultimately show ?thesis using \<open>u \<noteq> v\<close> by blast
  qed
  have "site_people gs = (\<Sum>(u, g)\<in>set gs. card (fst ` snd ` set g))"
    using assms(1) unfolding site_people_def
    by (simp add: distinct_map sum_list_distinct_conv_sum_set group_people_card case_prod_beta)
  also have "\<dots> = card (\<Union>(u, g)\<in>set gs. fst ` snd ` set g)"
  proof -
    have "card (\<Union>x\<in>set gs. fst ` snd ` set (snd x)) = (\<Sum>x\<in>set gs. card (fst ` snd ` set (snd x)))"
    proof (rule card_UN_disjoint)
      show "\<forall>x\<in>set gs. \<forall>y\<in>set gs. x \<noteq> y \<longrightarrow> fst ` snd ` set (snd x) \<inter> fst ` snd ` set (snd y) = {}"
      proof (intro ballI impI)
        fix x y
        assume "x \<in> set gs" "y \<in> set gs" "x \<noteq> y"
        moreover from this have "fst x \<noteq> fst y" using assms(1) by (auto simp: distinct_map dest: inj_onD)
        ultimately show "fst ` snd ` set (snd x) \<inter> fst ` snd ` set (snd y) = {}"
          using disjoint [of "fst x" "snd x" "fst y" "snd y"] by simp
      qed
    qed simp_all
    then show ?thesis by (simp add: case_prod_beta)
  qed
  also have "\<dots> \<le> card (evaluated_people db keep)"
    by (rule card_mono) (use unit_people [of _ _ q db keep] assms(2,3) in fastforce)+
  finally show ?thesis .
qed

text \<open>
  C28. Every average that the executives see, of a unit, of a site or of everybody, is of at least as many
  different people as the threshold; a site counts each of its people once.
\<close>

theorem executives_see_groups_only:
  assumes "executive_overview q env db user = Inr v"
  shows "list_all (\<lambda>u. stat_avg u \<noteq> None \<longrightarrow> min_cohort_size (cfg env) \<le>
      int (card (evaluated_people db (\<lambda>n. n = stat_key u)))) (exo_by_org_unit v) \<and>
    list_all (\<lambda>s. stp_avg_final_pct s \<noteq> None \<longrightarrow> min_cohort_size (cfg env) \<le>
      int (card (evaluated_people db (\<lambda>n. site_of n = Some (stp_site s))))) (exo_by_site v)"
proof -
  have v: "exo_by_org_unit v = map (\<lambda>(u, g). stat_of q env 1 u g) (unit_groups q db)"
    "exo_by_site v = by_site q env (unit_groups q db)"
    using assms by (auto simp: executive_overview_def Let_def)
  have unit: "min_cohort_size (cfg env) \<le> int (card (evaluated_people db (\<lambda>n. n = u)))"
    if "(u, g) \<in> set (unit_groups q db)" "stat_avg (stat_of q env 1 u g) \<noteq> None" for u g
  proof -
    have "min_cohort_size (cfg env) \<le> int (group_people g)" using that(2) stat_of_avg_Some [of q env 1 u g] by (cases "stat_avg (stat_of q env 1 u g)") simp_all
    moreover have "group_people g \<le> card (evaluated_people db (\<lambda>n. n = u))"
      unfolding group_people_card by (rule card_mono) (use unit_people [OF that(1)] in simp_all)
    ultimately show ?thesis by simp
  qed
  have site: "min_cohort_size (cfg env) \<le> int (card (evaluated_people db (\<lambda>n. site_of n = Some (stp_site s))))"
    if s: "s \<in> set (exo_by_site v)" "stp_avg_final_pct s \<noteq> None" for s
  proof -
    let ?rows = "filter (\<lambda>(u, _). site_of u \<noteq> None) (unit_groups q db)"
    obtain site gs where gs: "(site, gs) \<in> set (grouped (site_of \<circ> fst) ?rows)" "stp_site s = the site"
      "suppressed_avg env (Some (py_round (site_mean q gs) 1)) (site_people gs) \<noteq> None"
      using s by (auto simp: v by_site_def)
    have members: "gs = filter (\<lambda>x. site_of (fst x) = site) ?rows" "site \<noteq> None"
      using gs(1) by (auto simp: set_grouped)
    have "distinct (map fst gs)"
      unfolding members(1) using unit_groups_rows(2) [of q db] by (simp add: distinct_map_filter)
    moreover have "set gs \<subseteq> set (unit_groups q db)" unfolding members(1) by auto
    moreover have "site_of u = Some (stp_site s)" if "(u, g) \<in> set gs" for u g
      using that members gs(2) by auto
    ultimately have "site_people gs \<le> card (evaluated_people db (\<lambda>n. site_of n = Some (stp_site s)))"
      by (rule site_people_bound)
    then show ?thesis using suppressed_Some [OF gs(3)] by simp
  qed
  show ?thesis using unit site by (auto simp: v(1) list_all_iff stat_of_def)
qed

end
