(* ===== verification/StageStats.thy ===== *)
theory StageStats
  imports Reports
begin

text \<open>
  Where the records are and how long they stay (\<open>app/services/stage_stats.py\<close>), reconstructed from the
  changes of status in the log. The time of an entry of the log, a default of its column, is a parameter.
\<close>

section \<open>Stages and their owners\<close>

definition STAGE_ORDER :: "evaluation_status list" where
  "STAGE_ORDER = [Draft, Submitted, Hr_approved, Deputy_approved, Finalized]"

definition owner_field_for :: "evaluation_status \<Rightarrow> evaluation_record \<Rightarrow> seat_field option" where
  "owner_field_for s r =
    (case s of
       Draft \<Rightarrow> Some (scorer_field (unit_supervisor_user_id r) (deputy_user_id r))
     | Hr_approved \<Rightarrow> Some (if deputy_user_id r \<noteq> None then Deputy_user_id else Ceo_user_id)
     | Submitted \<Rightarrow> Some Hr_user_id
     | Deputy_approved \<Rightarrow> Some Ceo_user_id
     | _ \<Rightarrow> None)"

section \<open>Visits\<close>

text \<open>A change of status with its time; a visit of a stage with its length in microseconds.\<close>

type_synonym status_change = "int \<times> string \<times> string"
type_synonym visit = "string \<times> int \<times> bool"

fun closed_visits :: "int \<Rightarrow> string \<Rightarrow> status_change list \<Rightarrow> visit list" where
  "closed_visits entered walking [] = []"
| "closed_visits entered walking ((t, before, after) # rest) =
    (if before = [] then walking else before, t - entered, False) # closed_visits t after rest"

definition stage_visits :: "int \<Rightarrow> string \<Rightarrow> int \<Rightarrow> status_change list \<Rightarrow> int \<Rightarrow> visit list" where
  "stage_visits created current entered changes moment =
    closed_visits created (status_value Draft) changes @ [(current, moment - entered, True)]"

text \<open>\<open>value["status"].astext\<close>, of the texts that are written there; rows without both are skipped.\<close>

definition status_text :: "jdict option \<Rightarrow> string" where
  "status_text d =
    (case Option.bind d (\<lambda>m. map_of m ''status'') of Some (JString t) \<Rightarrow> map char_of t | _ \<Rightarrow> [])"

definition changes_of :: "(audit_log \<Rightarrow> int) \<Rightarrow> database \<Rightarrow> int \<Rightarrow> status_change list" where
  "changes_of logged_at db k =
    filter (\<lambda>(_, before, after). before \<noteq> [] \<and> after \<noteq> [])
      (map (\<lambda>row. (logged_at row, status_text (old_value row), status_text (new_value row)))
        (sort_key logged_at (filter (\<lambda>row. event_type row = ''status_changed'' \<and> log_evaluation_record_id row = Some k)
          (t_audit_log db))))"

section \<open>Buckets\<close>

record bucket =
  bkt_passes :: nat
  bkt_active :: nat
  bkt_closed :: nat
  bkt_records :: "int list"
  bkt_finished_seconds_total :: rat
  bkt_longest_active_seconds :: rat

definition empty_bucket :: bucket where
  "empty_bucket = \<lparr>bkt_passes = 0, bkt_active = 0, bkt_closed = 0, bkt_records = [],
     bkt_finished_seconds_total = 0, bkt_longest_active_seconds = 0\<rparr>"

definition total_seconds :: "int \<Rightarrow> rat" where
  "total_seconds us = fl (of_int us / 1000000)"

text \<open>A visit of a record with the owner of the stage.\<close>

record owned_visit =
  vis_record_id :: int
  vis_status :: string
  vis_span :: int
  vis_current :: bool
  vis_owner :: "int option"

definition add_visit :: "bucket \<Rightarrow> owned_visit \<Rightarrow> bucket" where
  "add_visit b v =
    (let b1 = b\<lparr>bkt_passes := bkt_passes b + 1, bkt_records := List.insert (vis_record_id v) (bkt_records b)\<rparr>
     in if vis_current v
        then b1\<lparr>bkt_active := bkt_active b + 1,
                bkt_longest_active_seconds := max (bkt_longest_active_seconds b) (total_seconds (vis_span v))\<rparr>
        else b1\<lparr>bkt_closed := bkt_closed b + 1,
                bkt_finished_seconds_total := fadd (bkt_finished_seconds_total b) (total_seconds (vis_span v))\<rparr>)"

definition bucket_of_visits :: "owned_visit list \<Rightarrow> bucket" where
  "bucket_of_visits vs = foldl add_visit empty_bucket vs"

definition stage_named :: "string \<Rightarrow> evaluation_status option" where
  "stage_named t = find (\<lambda>s. status_value s = t) STAGE_ORDER"

text \<open>Visits of a stage that is not listed, of cancelled records, are left out.\<close>

definition visits_of :: "(audit_log \<Rightarrow> int) \<Rightarrow> env \<Rightarrow> database \<Rightarrow> evaluation_record \<Rightarrow> owned_visit list" where
  "visits_of logged_at env db r =
    List.map_filter (\<lambda>(t, stay, current). map_option (\<lambda>s.
        \<lparr>vis_record_id = record_id r, vis_status = t, vis_span = stay, vis_current = current,
         vis_owner = Option.bind (owner_field_for s r) (\<lambda>field. seat field r)\<rparr>) (stage_named t))
      (stage_visits (created_at r) (status_value (status r)) (stage_entered_at r)
        (changes_of logged_at db (record_id r)) (now env))"

section \<open>The statistics\<close>

definition avg_days :: "bucket \<Rightarrow> rat option" where
  "avg_days b = (if bkt_closed b = 0 then None
    else Some (py_round (fdiv (max 0 (fdiv (bkt_finished_seconds_total b) (of_nat (bkt_closed b)))) 86400) 1))"

definition longest_days :: "bucket \<Rightarrow> rat option" where
  "longest_days b = (if bkt_active b = 0 then None else Some (py_round (fdiv (bkt_longest_active_seconds b) 86400) 1))"

record owner_stat =
  ost_name :: utext
  ost_total :: nat
  ost_active :: nat
  ost_closed :: nat
  ost_avg_dwell_days :: "rat option"
  ost_longest_active_days :: "rat option"

record stage_stat =
  sst_status :: evaluation_status
  sst_total :: nat
  sst_active :: nat
  sst_closed :: nat
  sst_passes :: nat
  sst_share_pct :: rat
  sst_avg_dwell_days :: "rat option"
  sst_longest_active_days :: "rat option"
  sst_by_owner :: "owner_stat list"

definition owner_name :: "database \<Rightarrow> int \<Rightarrow> utext" where
  "owner_name db k =
    (case get_user db k of None \<Rightarrow> ascii ''-''
     | Some u \<Rightarrow> (case text_given (user_full_name u) of None \<Rightarrow> username u | Some n \<Rightarrow> n))"

definition finish_owner :: "utext \<Rightarrow> bucket \<Rightarrow> owner_stat" where
  "finish_owner name b =
    \<lparr>ost_name = name, ost_total = length (bkt_records b), ost_active = bkt_active b, ost_closed = bkt_closed b,
     ost_avg_dwell_days = avg_days b, ost_longest_active_days = longest_days b\<rparr>"

definition stats_scope :: "env \<Rightarrow> int option \<Rightarrow> database \<Rightarrow> evaluation_record list" where
  "stats_scope env period db =
    filter (\<lambda>r. now env - minutes (24 * 60) * stage_stats_window_days (cfg env) \<le> created_at r \<and>
      if_given period (\<lambda>k. period_id r = Some k)) (t_evaluations db)"

definition stage_row :: "database \<Rightarrow> nat \<Rightarrow> owned_visit list \<Rightarrow> evaluation_status \<Rightarrow> stage_stat" where
  "stage_row db records vs s =
    (let here = filter (\<lambda>v. vis_status v = status_value s) vs;
         b = bucket_of_visits here;
         owners = map (\<lambda>(k, ws). finish_owner (owner_name db (the k)) (bucket_of_visits ws))
           (grouped vis_owner (filter (\<lambda>v. vis_owner v \<noteq> None) here))
     in \<lparr>sst_status = s, sst_total = length (bkt_records b), sst_active = bkt_active b, sst_closed = bkt_closed b,
         sst_passes = bkt_passes b,
         sst_share_pct = (if records = 0 then 0 else py_round (fdiv (of_nat (length (bkt_records b) * 100)) (of_nat records)) 1),
         sst_avg_dwell_days = (if s = Finalized then None else avg_days b),
         sst_longest_active_days = (if s = Finalized then None else longest_days b),
         sst_by_owner = sort_key (\<lambda>w. - int (ost_active w)) (sort_key (\<lambda>w. - int (ost_total w)) owners)\<rparr>)"

definition stage_stats :: "(audit_log \<Rightarrow> int) \<Rightarrow> env \<Rightarrow> database \<Rightarrow> int option \<Rightarrow> stage_stat list" where
  "stage_stats logged_at env db period =
    (let scope = stats_scope env period db
     in map (stage_row db (length scope) (concat (map (visits_of logged_at env db) scope))) STAGE_ORDER)"

section \<open>What the figures mean\<close>

text \<open>The visits of a record cover its life without gaps when it entered its stage with the last change.\<close>

lemma closed_visits_span:
  "sum_list (map (fst \<circ> snd) (closed_visits entered walking cs)) = (if cs = [] then entered else fst (last cs)) - entered"
  by (induction entered walking cs rule: closed_visits.induct) auto

lemma visits_cover_the_life:
  assumes "entered = (if cs = [] then created else fst (last cs))"
  shows "sum_list (map (fst \<circ> snd) (stage_visits created current entered cs moment)) = moment - created"
  using assms closed_visits_span [of created "status_value Draft" cs] by (simp add: stage_visits_def)

lemma closed_visits_past: "(t, stay, current) \<in> set (closed_visits entered walking cs) \<Longrightarrow> \<not> current"
  by (induction entered walking cs rule: closed_visits.induct) auto

lemma bucket_counts:
  "bkt_passes (foldl add_visit b vs) = bkt_passes b + length vs"
  "bkt_active (foldl add_visit b vs) = bkt_active b + length (filter vis_current vs)"
  "bkt_closed (foldl add_visit b vs) = bkt_closed b + length (filter (\<lambda>v. \<not> vis_current v) vs)"
  "set (bkt_records (foldl add_visit b vs)) = set (bkt_records b) \<union> vis_record_id ` set vs"
  "distinct (bkt_records b) \<Longrightarrow> distinct (bkt_records (foldl add_visit b vs))"
  by (induction vs arbitrary: b) (auto simp: add_visit_def Let_def)

lemma stage_named_iff: "stage_named t = Some s \<longleftrightarrow> s \<in> set STAGE_ORDER \<and> t = status_value s"
  by (cases s) (auto simp: stage_named_def STAGE_ORDER_def)

lemma map_filter_parts: "List.map_filter f (xs @ ys) = List.map_filter f xs @ List.map_filter f ys"
  by (simp add: List.map_filter_def)

lemma one_current_visit:
  assumes "s \<in> set STAGE_ORDER"
  shows "filter (\<lambda>v. vis_status v = status_value s \<and> vis_current v) (visits_of logged_at env db r) =
    (if status r = s then filter vis_current (visits_of logged_at env db r) else [])"
    and "length (filter vis_current (visits_of logged_at env db r)) = (if status r \<in> set STAGE_ORDER then 1 else 0)"
proof -
  have past: "filter vis_current (List.map_filter (\<lambda>(t, stay, current). map_option (\<lambda>s.
        \<lparr>vis_record_id = k, vis_status = t, vis_span = stay, vis_current = current, vis_owner = w s\<rparr>) (stage_named t))
      (closed_visits entered walking cs)) = []" for k w entered walking cs
    by (auto simp: filter_empty_conv List.map_filter_def dest: closed_visits_past)
  have now: "filter vis_current (visits_of logged_at env db r) =
      (case stage_named (status_value (status r)) of None \<Rightarrow> []
       | Some s \<Rightarrow> [\<lparr>vis_record_id = record_id r, vis_status = status_value (status r),
           vis_span = now env - stage_entered_at r, vis_current = True,
           vis_owner = Option.bind (owner_field_for s r) (\<lambda>field. seat field r)\<rparr>])"
    unfolding visits_of_def stage_visits_def
    by (simp add: past map_filter_parts List.map_filter_simps split: option.split)
  show "length (filter vis_current (visits_of logged_at env db r)) = (if status r \<in> set STAGE_ORDER then 1 else 0)"
    unfolding now using stage_named_iff [of "status_value (status r)" "status r"]
    by (cases "status r") (auto simp: stage_named_def STAGE_ORDER_def)
  have "status_value (status r) = status_value s \<longleftrightarrow> status r = s"
    by (cases "status r"; cases s) simp_all
  then have "filter (\<lambda>v. vis_status v = status_value s) (filter vis_current (visits_of logged_at env db r)) =
      (if status r = s then filter vis_current (visits_of logged_at env db r) else [])"
    unfolding now by (simp split: option.split)
  then show "filter (\<lambda>v. vis_status v = status_value s \<and> vis_current v) (visits_of logged_at env db r) =
    (if status r = s then filter vis_current (visits_of logged_at env db r) else [])"
    by (simp add: conj_commute)
qed

lemma current_visits:
  assumes "s \<in> set STAGE_ORDER"
  shows "length (filter (\<lambda>v. vis_status v = status_value s \<and> vis_current v) (concat (map (visits_of logged_at env db) rs))) =
    length (filter (\<lambda>r. status r = s) rs)"
  by (induction rs) (use one_current_visit [of s logged_at env db] assms in auto)

text \<open>
  C29. The active records of a stage are those that are in it now, whatever the log says; every record in the
  window but a cancelled one is active in exactly one stage; and every pass is active or closed.
\<close>

theorem stage_figures_count_the_present:
  "list_all (\<lambda>x. sst_active x = length (filter (\<lambda>r. status r = sst_status x) (stats_scope env period db)) \<and>
      sst_passes x = sst_active x + sst_closed x \<and> sst_active x \<le> sst_passes x \<and> sst_total x \<le> sst_passes x)
    (stage_stats logged_at env db period) \<and>
  sum_list (map sst_active (stage_stats logged_at env db period)) =
    length (filter (\<lambda>r. status r \<noteq> Cancelled) (stats_scope env period db))"
proof
  define scope where "scope = stats_scope env period db"
  define vs where "vs = concat (map (visits_of logged_at env db) scope)"
  have active: "sst_active (stage_row db n vs s) = length (filter (\<lambda>r. status r = s) scope)" if "s \<in> set STAGE_ORDER" for s n
    using current_visits [OF that, of logged_at env db scope]
    by (simp add: stage_row_def Let_def bucket_of_visits_def bucket_counts empty_bucket_def vs_def conj_commute)
  have passes: "sst_passes (stage_row db n vs s) = sst_active (stage_row db n vs s) + sst_closed (stage_row db n vs s)" for s n
    using sum_length_filter_compl [of vis_current "filter (\<lambda>v. vis_status v = status_value s) vs"]
    by (simp add: stage_row_def Let_def bucket_of_visits_def bucket_counts empty_bucket_def)
  have all: "sst_total (stage_row db n vs s) \<le> sst_passes (stage_row db n vs s)" for s n
  proof -
    let ?here = "filter (\<lambda>v. vis_status v = status_value s) vs"
    have "length (bkt_records (bucket_of_visits ?here)) = card (vis_record_id ` set ?here)"
      using bucket_counts(4,5) [of empty_bucket ?here]
      by (simp add: bucket_of_visits_def empty_bucket_def flip: distinct_card)
    also have "\<dots> \<le> length ?here" using card_image_le [of "set ?here" vis_record_id] card_length [of ?here] by simp
    finally show ?thesis
      by (simp add: stage_row_def Let_def bucket_of_visits_def bucket_counts empty_bucket_def)
  qed
  have stats: "stage_stats logged_at env db period = map (stage_row db (length scope) vs) STAGE_ORDER"
    by (simp add: stage_stats_def scope_def vs_def Let_def)
  have status: "sst_status (stage_row db n vs s) = s" for s n by (simp add: stage_row_def Let_def)
  show "list_all (\<lambda>x. sst_active x = length (filter (\<lambda>r. status r = sst_status x) (stats_scope env period db)) \<and>
      sst_passes x = sst_active x + sst_closed x \<and> sst_active x \<le> sst_passes x \<and> sst_total x \<le> sst_passes x)
    (stage_stats logged_at env db period)"
    unfolding stats scope_def [symmetric] list_all_iff
  proof
    fix x
    assume "x \<in> set (map (stage_row db (length scope) vs) STAGE_ORDER)"
    then obtain s where s: "s \<in> set STAGE_ORDER" "x = stage_row db (length scope) vs s" by auto
    have "sst_active x = length (filter (\<lambda>r. status r = sst_status x) scope)"
      unfolding s(2) status by (rule active [OF s(1)])
    moreover have "sst_passes x = sst_active x + sst_closed x" "sst_total x \<le> sst_passes x"
      unfolding s(2) by (rule passes, rule all)
    ultimately show "sst_active x = length (filter (\<lambda>r. status r = sst_status x) scope) \<and>
        sst_passes x = sst_active x + sst_closed x \<and> sst_active x \<le> sst_passes x \<and> sst_total x \<le> sst_passes x"
      by linarith
  qed
  have "(\<Sum>s\<leftarrow>STAGE_ORDER. length (filter (\<lambda>r. status r = s) rs)) = length (filter (\<lambda>r. status r \<noteq> Cancelled) rs)" for rs
  proof (induction rs)
    case (Cons r rs)
    then show ?case by (cases "status r") (simp_all add: STAGE_ORDER_def)
  qed (simp add: STAGE_ORDER_def)
  then show "sum_list (map sst_active (stage_stats logged_at env db period)) =
    length (filter (\<lambda>r. status r \<noteq> Cancelled) (stats_scope env period db))"
    unfolding stats scope_def [symmetric] using active by (simp add: comp_def cong: map_cong)
qed

end
