(* ===== verification/Dashboard.thy ===== *)
theory Dashboard
  imports Analytics StageStats
begin

text \<open>
  The pages of figures (\<open>app/api/routers/dashboard.py\<close>). Labels, colours and hints of the cards are left
  out.
\<close>

section \<open>One site\<close>

definition distinct_units :: "database \<Rightarrow> utext list" where
  "distinct_units db = remdups (map org_unit (t_personnel db))"

definition units_of :: "database \<Rightarrow> utext option \<Rightarrow> utext list option" where
  "units_of db site = map_option (units_in_site (distinct_units db)) (text_given site)"

definition in_site :: "database \<Rightarrow> utext option \<Rightarrow> evaluation_record \<Rightarrow> bool" where
  "in_site db site r =
    (case units_of db site of None \<Rightarrow> True
     | Some units \<Rightarrow> list_ex (\<lambda>p. personnel_id p = subject_personnel_id r \<and> org_unit p \<in> set units) (t_personnel db))"

definition final_in_site :: "database \<Rightarrow> utext option \<Rightarrow> evaluation_record list" where
  "final_in_site db site = filter (\<lambda>r. status r = Finalized \<and> in_site db site r) (t_evaluations db)"

section \<open>The mix of outcomes\<close>

record outcome_mix =
  mix_strong_pct :: "rat option"
  mix_needs_improvement_pct :: "rat option"
  mix_strong_threshold_pct :: rat
  mix_improvement_threshold_pct :: rat
  mix_people_counted :: nat
  mix_other_scheme_versions :: nat

text \<open>The newest final record of each person.\<close>

definition newest_of :: "evaluation_record list \<Rightarrow> evaluation_record" where
  "newest_of rs = hd (nulls_last (\<lambda>r. map_option uminus (finalized_at r)) rs)"

definition outcome_mix :: "database \<Rightarrow> utext option \<Rightarrow> outcome_mix" where
  "outcome_mix db site =
    (let rules = current_rules db;
         improvement = fl (improvement_plan_max_pct rules); ts = thresholds rules;
         strong = (if 2 \<le> length ts then fl (fst (ts ! (length ts - 2))) else improvement);
         active_id = map_option scheme_id (active_scheme db);
         rows = map (\<lambda>(_, rs). newest_of rs) (grouped subject_personnel_id
           (filter (\<lambda>r. final_weighted_pct r \<noteq> None) (final_in_site db site)));
         pct = (\<lambda>r. fl (the (final_weighted_pct r)));
         number = (\<lambda>keep. length (filter keep rows))
     in \<lparr>mix_strong_pct = (if rows = [] then None else Some (share (number (\<lambda>r. strong \<le> pct r)) (length rows))),
         mix_needs_improvement_pct = (if rows = [] then None
           else Some (share (number (\<lambda>r. pct r < improvement)) (length rows))),
         mix_strong_threshold_pct = strong, mix_improvement_threshold_pct = improvement,
         mix_people_counted = length rows,
         mix_other_scheme_versions = number (\<lambda>r. scoring_scheme_id r \<noteq> None \<and> scoring_scheme_id r \<noteq> active_id)\<rparr>)"

section \<open>The overview\<close>

record unit_overview =
  uov_stat :: "utext stat"
  uov_general_pct :: "rat option"
  uov_specialized_pct :: "rat option"
  uov_site :: "utext option"

record evaluator_stat =
  evs_stat :: "user stat"
  evs_subordinate_count :: nat

record person_stat =
  prs_personnel :: personnel
  prs_site :: "utext option"
  prs_final_pct :: rat

record dashboard_overview =
  dov_total_evaluations :: nat
  dov_avg_final_pct :: "rat option"
  dov_outcome_mix :: outcome_mix
  dov_by_org_unit :: "unit_overview list"
  dov_by_evaluator :: "evaluator_stat list"
  dov_lowest_by_indicator :: "indicator stat list"
  dov_highest_by_indicator :: "indicator stat list"
  dov_lowest_by_specialized :: "indicator stat list"
  dov_highest_by_specialized :: "indicator stat list"
  dov_lowest_by_unit :: "unit_overview list"
  dov_lowest_by_person :: "person_stat list"

definition section_avg ::
  "sql_env \<Rightarrow> env \<Rightarrow> (evaluation_record \<Rightarrow> rat option) \<Rightarrow> (evaluation_record \<times> personnel) list \<Rightarrow> rat option" where
  "section_avg q env f rows =
    suppressed_avg env (map_option (rounded 1) (avg_or_null q (not_null (f \<circ> fst) rows)))
      (cohort_size (map (subject_personnel_id \<circ> fst) rows))"

definition unit_overview_of :: "sql_env \<Rightarrow> env \<Rightarrow> utext \<Rightarrow> (evaluation_record \<times> personnel) list \<Rightarrow> unit_overview" where
  "unit_overview_of q env u xs =
    \<lparr>uov_stat = stat_of q env 1 u (unit_measures xs), uov_general_pct = section_avg q env general_score_pct xs,
     uov_specialized_pct = section_avg q env specialized_score_pct xs, uov_site = site_of u\<rparr>"

definition unit_overviews :: "sql_env \<Rightarrow> env \<Rightarrow> database \<Rightarrow> utext option \<Rightarrow> unit_overview list" where
  "unit_overviews q env db site =
    (let rows = with_person db (filter (\<lambda>r. final_weighted_pct r \<noteq> None) (final_in_site db site))
     in map (\<lambda>(u, xs). unit_overview_of q env u xs) (grouped (org_unit \<circ> snd) rows))"

definition evaluator_stats :: "sql_env \<Rightarrow> env \<Rightarrow> database \<Rightarrow> utext option \<Rightarrow> evaluator_stat list" where
  "evaluator_stats q env db site =
    (let rows = not_null (\<lambda>r. Option.bind (final_weighted_pct r) (\<lambda>x. Option.bind (unit_supervisor_user_id r)
           (\<lambda>k. map_option (\<lambda>u. (k, subject_personnel_id r, x)) (get_user db k)))) (final_in_site db site)
     in map (\<lambda>(k, xs). \<lparr>evs_stat = stat_of q env 1 (the (get_user db k)) xs,
           evs_subordinate_count = length (filter (\<lambda>a. acc_unit_supervisor_user_id a = Some k) (t_access db))\<rparr>)
         (grouped fst rows))"

text \<open>The five lowest or highest of a section; equal ones in the order of the identifiers.\<close>

definition indicator_averages ::
  "sql_env \<Rightarrow> database \<Rightarrow> utext option \<Rightarrow> indicator_section \<Rightarrow> (indicator \<times> int measured list) list" where
  "indicator_averages q db site sec =
    (let rows = concat (map (\<lambda>s. map (\<lambda>r. (score_indicator_id s, subject_personnel_id r, of_int (score s)))
           (filter (\<lambda>r. record_id r = score_record_id s) (final_in_site db site))) (t_scores db))
     in List.map_filter (\<lambda>i. if ind_section i = sec then map_option (Pair i) (map_of (grouped fst rows) (indicator_id i)) else None)
          (sort_key indicator_id (t_indicators db)))"

definition extreme_indicators ::
  "sql_env \<Rightarrow> env \<Rightarrow> database \<Rightarrow> utext option \<Rightarrow> indicator_section \<Rightarrow> bool \<Rightarrow> indicator stat list" where
  "extreme_indicators q env db site sec weakest =
    map (\<lambda>(i, g). stat_of q env 2 i g)
      (take 5 (sort_key (\<lambda>(_, g). if weakest then fl (group_avg q g) else - fl (group_avg q g))
        (indicator_averages q db site sec)))"

definition lowest_units :: "unit_overview list \<Rightarrow> unit_overview list" where
  "lowest_units us = take 5 (sort_key (\<lambda>u. the (stat_avg (uov_stat u))) (filter (\<lambda>u. stat_avg (uov_stat u) \<noteq> None) us))"

definition lowest_people :: "database \<Rightarrow> utext option \<Rightarrow> person_stat list" where
  "lowest_people db site =
    map (\<lambda>(r, p). \<lparr>prs_personnel = p, prs_site = site_of (org_unit p), prs_final_pct = fl (the (final_weighted_pct r))\<rparr>)
      (take 20 (sort_key (\<lambda>(r, _). the (final_weighted_pct r))
        (with_person db (filter (\<lambda>r. final_weighted_pct r \<noteq> None) (final_in_site db site)))))"

definition overview :: "sql_env \<Rightarrow> env \<Rightarrow> database \<Rightarrow> current_user \<Rightarrow> utext option \<Rightarrow> dashboard_overview http" where
  "overview q env db user site =
    bindE (require_roles [Role_hr] user) (\<lambda>_.
    let us = unit_overviews q env db site
    in Inr \<lparr>dov_total_evaluations = length (final_in_site db site),
         dov_avg_final_pct = map_option (rounded 1) (avg_or_null q (not_null final_weighted_pct (final_in_site db site))),
         dov_outcome_mix = outcome_mix db site, dov_by_org_unit = us,
         dov_by_evaluator = evaluator_stats q env db site,
         dov_lowest_by_indicator = extreme_indicators q env db site General True,
         dov_highest_by_indicator = extreme_indicators q env db site General False,
         dov_lowest_by_specialized = extreme_indicators q env db site Specialized True,
         dov_highest_by_specialized = extreme_indicators q env db site Specialized False,
         dov_lowest_by_unit = lowest_units us, dov_lowest_by_person = lowest_people db site\<rparr>)"

section \<open>Pipeline, trend of the periods, contracts\<close>

definition pipeline :: "database \<Rightarrow> current_user \<Rightarrow> (evaluation_status \<times> nat \<times> int option) list http" where
  "pipeline db user =
    bindE (require_roles [Role_hr] user) (\<lambda>_.
    Inr (map (\<lambda>s. let rs = filter (\<lambda>r. status r = s) (t_evaluations db)
                   in (s, length rs, if rs = [] then None else Some (Min (set (map created_at rs))))) STAGE_ORDER))"

text \<open>Records without a period are one group, which comes last.\<close>

definition period_trend ::
  "sql_env \<Rightarrow> env \<Rightarrow> database \<Rightarrow> current_user \<Rightarrow> utext option \<Rightarrow> evaluation_period option stat list http" where
  "period_trend q env db user site =
    bindE (require_roles [Role_hr] user) (\<lambda>_.
    let rows = not_null (\<lambda>r. map_option (\<lambda>x. (Option.bind (period_id r) (row_get per_id (t_periods db)),
          subject_personnel_id r, x)) (final_weighted_pct r)) (final_in_site db site)
    in Inr (map (\<lambda>(p, g). stat_of q env 1 p g)
         (nulls_last (\<lambda>(p, _). map_option starts_on p) (grouped fst rows))))"

definition stage_statistics ::
  "(audit_log \<Rightarrow> int) \<Rightarrow> env \<Rightarrow> database \<Rightarrow> current_user \<Rightarrow> int option \<Rightarrow> stage_stat list http" where
  "stage_statistics logged_at env db user period =
    bindE (require_roles [Role_hr] user) (\<lambda>_. Inr (stage_stats logged_at env db period))"

record expiring_contract =
  exp_personnel :: personnel
  exp_days_remaining :: int
  exp_has_open_evaluation :: bool

definition expiring_contracts :: "env \<Rightarrow> database \<Rightarrow> current_user \<Rightarrow> int \<Rightarrow> expiring_contract list http" where
  "expiring_contracts env db user ahead =
    bindE (raise_if (ahead < 1 \<or> 365 < ahead) (HTTPException 422 ''days'')) (\<lambda>_.
    bindE (require_roles [Role_hr] user) (\<lambda>_.
    Inr (map (\<lambda>p. \<lparr>exp_personnel = p, exp_days_remaining = contract_end_date p - today env,
          exp_has_open_evaluation = list_ex (\<lambda>r. subject_personnel_id r = personnel_id p \<and> is_open r) (t_evaluations db)\<rparr>)
      (sort_key contract_end_date
        (filter (\<lambda>p. p_status p = Personnel_active \<and> contract_end_date p \<le> today env + ahead) (t_personnel db))))))"

section \<open>The profile of a person\<close>

definition can_view_personnel :: "database \<Rightarrow> int \<Rightarrow> current_user \<Rightarrow> bool" where
  "can_view_personnel db k user \<longleftrightarrow>
    sees_all_personnel (cu_role user) (capabilities_of db (cu_id user)) \<or>
    (case find_access db k of None \<Rightarrow> False
     | Some a \<Rightarrow> Some (cu_id user) \<in> {acc_unit_supervisor_user_id a, acc_deputy_user_id a, Some (acc_ceo_user_id a)}) \<or>
    list_ex (\<lambda>r. subject_personnel_id r = k \<and> (unit_supervisor_user_id r = Some (cu_id user) \<or>
      deputy_user_id r = Some (cu_id user) \<or> ceo_user_id r = cu_id user)) (t_evaluations db)"

definition ensure_can_view_personnel :: "database \<Rightarrow> int \<Rightarrow> current_user \<Rightarrow> unit http" where
  "ensure_can_view_personnel db k user = raise_if (\<not> can_view_personnel db k user) (HTTPException 403 ''not visible'')"

definition personnel_radar :: "sql_env \<Rightarrow> database \<Rightarrow> int \<Rightarrow> current_user \<Rightarrow> (utext \<times> rat) list http" where
  "personnel_radar q db k user =
    bindE (ensure_can_view_personnel db k user) (\<lambda>_.
    let rows = concat (map (\<lambda>s. concat (map (\<lambda>r. map (\<lambda>i. (category i, of_int (score s)))
          (filter (\<lambda>i. indicator_id i = score_indicator_id s) (t_indicators db)))
        (filter (\<lambda>r. record_id r = score_record_id s \<and> status r = Finalized \<and> subject_personnel_id r = k)
          (t_evaluations db)))) (t_scores db))
    in Inr (map (\<lambda>(c, g). (c, rounded 2 (sql_avg q (map snd g)))) (grouped fst rows)))"

text \<open>A final record without a percentage would be an error of the server.\<close>

definition personnel_trend :: "database \<Rightarrow> int \<Rightarrow> current_user \<Rightarrow> employee_point list http" where
  "personnel_trend db k user =
    bindE (ensure_can_view_personnel db k user) (\<lambda>_.
    let rs = sort_key (\<lambda>r. the (finalized_at r)) (filter (\<lambda>r. status r = Finalized \<and> subject_personnel_id r = k \<and>
          finalized_at r \<noteq> None) (t_evaluations db))
    in bindE (raise_if (list_ex (\<lambda>r. final_weighted_pct r = None) rs) (HTTPException 500 ''no percentage'')) (\<lambda>_.
       Inr (map (\<lambda>r. \<lparr>emp_evaluation_code = evaluation_code r, emp_finalized_at = isoformat (the (finalized_at r)),
         emp_final_pct = fl (the (final_weighted_pct r))\<rparr>) rs)))"

record in_progress =
  inp_record :: evaluation_record
  inp_was_returned :: bool

definition personnel_in_progress :: "database \<Rightarrow> int \<Rightarrow> current_user \<Rightarrow> in_progress option http" where
  "personnel_in_progress db k user =
    bindE (ensure_can_view_personnel db k user) (\<lambda>_.
    Inr (case sort_key (\<lambda>r. - created_at r) (filter (\<lambda>r. subject_personnel_id r = k \<and> is_open r) (t_evaluations db)) of
        [] \<Rightarrow> None
      | r # _ \<Rightarrow> Some \<lparr>inp_record = r, inp_was_returned = was_returned db (record_id r)\<rparr>))"

section \<open>The cards of a role\<close>

type_synonym card = "string \<times> rat"

definition count_records :: "database \<Rightarrow> (evaluation_record \<Rightarrow> bool) \<Rightarrow> rat" where
  "count_records db keep = of_nat (length (filter keep (t_evaluations db)))"

definition self_cards :: "sql_env \<Rightarrow> database \<Rightarrow> int \<Rightarrow> card list" where
  "self_cards q db k =
    (let own = (\<lambda>r. subject_personnel_id r = k \<and> status r = Finalized)
     in [(''finalized'', count_records db own),
         (''avg'', case avg_or_null q (not_null final_weighted_pct (filter own (t_evaluations db))) of
            None \<Rightarrow> 0 | Some x \<Rightarrow> rounded 1 x),
         (''pending_ack'', count_records db (\<lambda>r. own r \<and> acknowledged_at r = None))])"

definition gated_self_cards :: "sql_env \<Rightarrow> database \<Rightarrow> int option \<Rightarrow> card list" where
  "gated_self_cards q db own_id =
    (case own_id of None \<Rightarrow> []
     | Some k \<Rightarrow> if \<not> is_module_enabled db ''employee_overview_cards'' \<or>
           \<not> is_module_enabled db ''employee_evaluation_visibility'' then []
         else self_cards q db k)"

fun role_cards :: "sql_env \<Rightarrow> database \<Rightarrow> current_user \<Rightarrow> user_role \<Rightarrow> card list" where
  "role_cards q db user Role_unit_supervisor =
    (let mine = (\<lambda>r. unit_supervisor_user_id r = Some (cu_id user))
     in [(''subordinates'', of_nat (length (filter (\<lambda>a. acc_unit_supervisor_user_id a = Some (cu_id user)) (t_access db)))),
         (''drafts'', count_records db (\<lambda>r. mine r \<and> status r = Draft)),
         (''in_review'', count_records db (\<lambda>r. mine r \<and> status r \<in> {Submitted, Hr_approved, Deputy_approved})),
         (''finalized'', count_records db (\<lambda>r. mine r \<and> status r = Finalized))])"
| "role_cards q db user Role_deputy =
    (let mine = (\<lambda>r. deputy_user_id r = Some (cu_id user))
     in [(''awaiting_me'', count_records db (\<lambda>r. mine r \<and> status r = Hr_approved \<and> unit_supervisor_user_id r \<noteq> None)),
         (''manager_scoring'', count_records db (\<lambda>r. mine r \<and> status r = Hr_approved \<and> unit_supervisor_user_id r = None)),
         (''finalized'', count_records db (\<lambda>r. mine r \<and> status r = Finalized))])"
| "role_cards q db user Role_ceo =
    (let mine = (\<lambda>r. ceo_user_id r = cu_id user)
     in [(''awaiting_me'', count_records db (\<lambda>r. mine r \<and> status r = Deputy_approved)),
         (''finalized'', count_records db (\<lambda>r. mine r \<and> status r = Finalized)),
         (''total'', count_records db mine)])"
| "role_cards q db user Role_hr =
    (let eligible = length (filter (\<lambda>p. p_status p = Personnel_active) (t_personnel db));
         covered = cohort_size (map subject_personnel_id (filter (\<lambda>r. status r = Finalized) (t_evaluations db)))
     in [(''eligible'', of_nat eligible),
         (''awaiting_hr'', count_records db (\<lambda>r. status r = Submitted)),
         (''finalized'', count_records db (\<lambda>r. status r = Finalized)),
         (''completion'', if eligible = 0 then 0 else share covered eligible)])"
| "role_cards q db user Role_employee = gated_self_cards q db (cu_personnel_id user)"
| "role_cards q db user Role_support = []"

definition role_overview ::
  "sql_env \<Rightarrow> database \<Rightarrow> current_user \<Rightarrow> string \<Rightarrow> (user_role \<times> card list) http" where
  "role_overview q db user scope =
    bindE (raise_if (scope \<notin> {''role'', ''self''}) (HTTPException 422 ''scope'')) (\<lambda>_.
    Inr (cu_role user, if scope = ''self'' then gated_self_cards q db (cu_personnel_id user)
      else role_cards q db user (cu_role user)))"

section \<open>What the figures show\<close>

text \<open>
  A record without a supervisor is scored by its deputy as a draft and never waits for the approval of the
  deputy, so the card that should count these records always shows zero.
\<close>

lemma manager_scoring_card_is_zero:
  assumes "reachable db" and "cu_role user = Role_deputy" and "role_overview q db user ''role'' = Inr (role, cards)"
  shows "map_of cards ''manager_scoring'' = Some 0"
proof -
  have "\<not> (status r = Hr_approved \<and> unit_supervisor_user_id r = None)" if "r \<in> set (t_evaluations db)" for r
    using reachable_wf [OF assms(1)] that
    by (auto simp: system_wf_def records_wf_def record_wf_def stage_wf_def is_manager_path_def)
  then have "count_records db (\<lambda>r. deputy_user_id r = Some (cu_id user) \<and> status r = Hr_approved \<and>
      unit_supervisor_user_id r = None) = 0"
    by (auto simp: count_records_def filter_empty_conv)
  then show ?thesis using assms(2,3) by (auto simp: role_overview_def Let_def)
qed

text \<open>Nor does the card of the chief executive know the records that come to that desk without a deputy.\<close>

lemma ceo_card_misses_records_without_deputy:
  assumes "t_evaluations db = [r]" and "status r = Hr_approved" and "deputy_user_id r = None"
    and "ceo_user_id r = cu_id user" and "cu_role user = Role_ceo"
  shows "\<exists>cards. role_overview q db user ''role'' = Inr (Role_ceo, cards) \<and> map_of cards ''awaiting_me'' = Some 0 \<and>
    map_of cards ''total'' = Some 1"
  using assms by (simp add: role_overview_def count_records_def Let_def)

text \<open>The average of everything has no threshold here: with one final record it is the result of that person.\<close>

lemma overview_shows_a_single_result:
  assumes "overview q env db user site = Inr v" and "final_in_site db site = [r]" and "final_weighted_pct r = Some x"
    and "sql_avg q [x] = x"
  shows "dov_avg_final_pct v = Some (rounded 1 x)"
  using assms by (auto simp: overview_def Let_def not_null_def List.map_filter_simps avg_or_null_def)

text \<open>People who left are counted as covered, but not as eligible.\<close>

lemma completion_over_everybody:
  assumes "cu_role user = Role_hr"
    and "cohort_size (map subject_personnel_id (filter (\<lambda>r. status r = Finalized) (t_evaluations db))) = 2"
    and "length (filter (\<lambda>p. p_status p = Personnel_active) (t_personnel db)) = 1"
  shows "\<exists>cards. role_overview q db user ''role'' = Inr (Role_hr, cards) \<and> map_of cards ''completion'' = Some 200"
proof -
  have "share 2 1 = 200"
    using fl_of_nat [of 200] by (simp add: share_def fdiv_def py_round_def)
  then show ?thesis using assms by (simp add: role_overview_def Let_def)
qed

lemma suppressed_stat: "stat_avg (stat_of q env n k g) \<noteq> None \<Longrightarrow> min_cohort_size (cfg env) \<le> int (group_people g)"
  using stat_of_avg_Some by (cases "stat_avg (stat_of q env n k g)") auto

lemma section_avg_people:
  "section_avg q env f xs \<noteq> None \<Longrightarrow> min_cohort_size (cfg env) \<le> int (cohort_size (map (subject_personnel_id \<circ> fst) xs))"
  unfolding section_avg_def by (rule suppressed_Some)

lemma cohort_size_card: "cohort_size xs = card (set xs)"
  by (simp add: cohort_size_def length_remdups_card_conv)

text \<open>
  On the overview of human resources the average of a unit, also of a section of the form, and that of an
  evaluator are shown only when they are of enough different people.
\<close>

theorem overview_hides_small_groups:
  assumes "overview q env db user site = Inr v"
  shows "list_all (\<lambda>u. stat_avg (uov_stat u) \<noteq> None \<or> uov_general_pct u \<noteq> None \<or> uov_specialized_pct u \<noteq> None \<longrightarrow>
      min_cohort_size (cfg env) \<le> int (card (subject_personnel_id ` fst ` {x \<in> set (with_person db (final_in_site db site)).
        org_unit (snd x) = stat_key (uov_stat u)}))) (dov_by_org_unit v) \<and>
    list_all (\<lambda>e. stat_avg (evs_stat e) \<noteq> None \<longrightarrow>
      min_cohort_size (cfg env) \<le> int (card (subject_personnel_id ` {r \<in> set (final_in_site db site).
        unit_supervisor_user_id r = Some (user_id (stat_key (evs_stat e)))}))) (dov_by_evaluator v)"
proof -
  have v: "dov_by_org_unit v = unit_overviews q env db site" "dov_by_evaluator v = evaluator_stats q env db site"
    using assms by (auto simp: overview_def Let_def)
  define rows where "rows = with_person db (filter (\<lambda>r. final_weighted_pct r \<noteq> None) (final_in_site db site))"
  have rows_in: "set rows \<subseteq> set (with_person db (final_in_site db site))"
    by (auto simp: rows_def with_person_def List.map_filter_def)
  have unit: "min_cohort_size (cfg env) \<le> int (card (subject_personnel_id ` fst `
      {x \<in> set (with_person db (final_in_site db site)). org_unit (snd x) = k}))"
    if g: "g = filter (\<lambda>x. (org_unit \<circ> snd) x = k) rows" and shown: "stat_avg (stat_of q env 1 k (unit_measures g)) \<noteq> None \<or>
      section_avg q env general_score_pct g \<noteq> None \<or> section_avg q env specialized_score_pct g \<noteq> None" for k g
  proof -
    have "group_people (unit_measures g) \<le> card (subject_personnel_id ` fst ` set g)"
      unfolding group_people_card by (rule card_mono) (force simp: unit_measures_def not_null_def List.map_filter_def image_iff)+
    moreover have "cohort_size (map (subject_personnel_id \<circ> fst) g) = card (subject_personnel_id ` fst ` set g)"
      by (simp add: cohort_size_card image_image)
    ultimately have "min_cohort_size (cfg env) \<le> int (card (subject_personnel_id ` fst ` set g))"
      using shown suppressed_stat [of q env 1 k "unit_measures g"] section_avg_people [of q env _ g] by fastforce
    also have "card (subject_personnel_id ` fst ` set g) \<le>
        card (subject_personnel_id ` fst ` {x \<in> set (with_person db (final_in_site db site)). org_unit (snd x) = k})"
      using rows_in by (intro card_mono image_mono) (auto simp: g)
    finally show ?thesis by simp
  qed
  have evaluator: "min_cohort_size (cfg env) \<le> int (card (subject_personnel_id ` {r \<in> set (final_in_site db site).
        unit_supervisor_user_id r = Some (user_id (stat_key (evs_stat e)))}))"
    if e: "e \<in> set (evaluator_stats q env db site)" "stat_avg (evs_stat e) \<noteq> None" for e
  proof -
    define ms where "ms = not_null (\<lambda>r. Option.bind (final_weighted_pct r) (\<lambda>x. Option.bind (unit_supervisor_user_id r)
           (\<lambda>k. map_option (\<lambda>u. (k, subject_personnel_id r, x)) (get_user db k)))) (final_in_site db site)"
    have ms: "\<exists>r u. r \<in> set (final_in_site db site) \<and> unit_supervisor_user_id r = Some (fst x) \<and>
        subject_personnel_id r = fst (snd x) \<and> get_user db (fst x) = Some u \<and> user_id u = fst x" if x: "x \<in> set ms" for x
    proof -
      obtain r u where r: "r \<in> set (final_in_site db site)" "unit_supervisor_user_id r = Some (fst x)"
        "subject_personnel_id r = fst (snd x)" "get_user db (fst x) = Some u"
        using x by (auto simp: ms_def not_null_def List.map_filter_def bind_eq_Some_conv)
      moreover have "user_id u = fst x" using r(4) unfolding get_user_def by (rule row_get_SomeD(2))
      ultimately show ?thesis by blast
    qed
    obtain k g where g: "(k, g) \<in> set (grouped fst ms)" "evs_stat e = stat_of q env 1 (the (get_user db k)) g"
      using e(1) by (auto simp: evaluator_stats_def ms_def Let_def)
    have key: "k \<in> fst ` set ms" "g = filter (\<lambda>x. fst x = k) ms" using g(1) by (auto simp: set_grouped)
    then have "user_id (the (get_user db k)) = k" using ms by fastforce
    moreover have "stat_key (evs_stat e) = the (get_user db k)" by (simp add: g(2) stat_of_def)
    moreover have "fst ` snd ` set g \<subseteq> subject_personnel_id ` {r \<in> set (final_in_site db site). unit_supervisor_user_id r = Some k}"
      using ms by (fastforce simp: key(2))
    then have "group_people g \<le> card (subject_personnel_id ` {r \<in> set (final_in_site db site). unit_supervisor_user_id r = Some k})"
      unfolding group_people_card by (intro card_mono) simp_all
    moreover have "min_cohort_size (cfg env) \<le> int (group_people g)"
      using e(2) unfolding g(2) by (rule suppressed_stat)
    ultimately show ?thesis by simp
  qed
  show ?thesis
    unfolding v
  proof
    show "list_all (\<lambda>u. stat_avg (uov_stat u) \<noteq> None \<or> uov_general_pct u \<noteq> None \<or> uov_specialized_pct u \<noteq> None \<longrightarrow>
      min_cohort_size (cfg env) \<le> int (card (subject_personnel_id ` fst ` {x \<in> set (with_person db (final_in_site db site)).
        org_unit (snd x) = stat_key (uov_stat u)}))) (unit_overviews q env db site)"
      unfolding list_all_iff
    proof (intro ballI impI)
      fix u
      assume u: "u \<in> set (unit_overviews q env db site)"
        "stat_avg (uov_stat u) \<noteq> None \<or> uov_general_pct u \<noteq> None \<or> uov_specialized_pct u \<noteq> None"
      obtain k g where g: "(k, g) \<in> set (grouped (org_unit \<circ> snd) rows)" "u = unit_overview_of q env k g"
        using u(1) by (auto simp: unit_overviews_def Let_def rows_def)
      have members: "g = filter (\<lambda>x. (org_unit \<circ> snd) x = k) rows" using g(1) by (auto simp: set_grouped)
      have "stat_key (uov_stat u) = k" by (simp add: g(2) unit_overview_of_def stat_of_def)
      moreover have "stat_avg (stat_of q env 1 k (unit_measures g)) \<noteq> None \<or>
          section_avg q env general_score_pct g \<noteq> None \<or> section_avg q env specialized_score_pct g \<noteq> None"
        using u(2) by (simp add: g(2) unit_overview_of_def)
      ultimately show "min_cohort_size (cfg env) \<le> int (card (subject_personnel_id ` fst `
          {x \<in> set (with_person db (final_in_site db site)). org_unit (snd x) = stat_key (uov_stat u)}))"
        using unit [OF members] by simp
    qed
    show "list_all (\<lambda>e. stat_avg (evs_stat e) \<noteq> None \<longrightarrow>
      min_cohort_size (cfg env) \<le> int (card (subject_personnel_id ` {r \<in> set (final_in_site db site).
        unit_supervisor_user_id r = Some (user_id (stat_key (evs_stat e)))}))) (evaluator_stats q env db site)"
      using evaluator by (simp add: list_all_iff)
  qed
qed

end
