(* ===== verification/FigureWitnesses.thy ===== *)
theory FigureWitnesses
  imports Dashboard SystemWitnesses
begin

text \<open>The properties of the reports and figures at a concrete office with one final record.\<close>

definition queries :: sql_env where
  "queries = \<lparr>fold_case = id, local_day_start = (\<lambda>d. d * 86400000000),
     sql_avg = (\<lambda>xs. sum_list xs / of_nat (length xs)), sql_percentile = (\<lambda>p xs. Max (set xs))\<rparr>"

definition final_record :: "rat \<Rightarrow> evaluation_record" where
  "final_record x = sample_record\<lparr>status := Finalized, final_weighted_pct := Some x\<rparr>"

lemma final_record_fields [simp]:
  "record_id (final_record x) = 1" "status (final_record x) = Finalized" "subject_personnel_id (final_record x) = 50"
  "final_weighted_pct (final_record x) = Some x" "unit_supervisor_user_id (final_record x) = Some 11"
  by (simp_all add: final_record_def)

lemma one_person [simp]: "with_person (office_with r) [final_record x] = [(final_record x, employee)]"
  by (simp add: with_person_def List.map_filter_simps get_personnel_def employee_def)

definition everything :: report_filters where
  "everything = \<lparr>rpf_period_id = None, rpf_org_unit = None, rpf_personnel_id = None, rpf_created_from = None,
     rpf_created_to = None, rpf_personnel_status = None, rpf_contract_end_from = None, rpf_contract_end_to = None\<rparr>"

lemma rows_of_everything: "report_rows queries (office_with (final_record x)) everything = [(final_record x, employee)]"
  by (simp add: report_rows_def record_conditions_def everything_def if_given_def text_given_def)

lemma unit_of_one: "\<not> big_group plain_env [(u, 50, x)] u"
  by (simp add: big_group_def is_below_cohort_def group_people_def cohort_size_def plain_env_def default_settings_def)

theorem small_groups_stay_hidden_witness:
  "\<exists>s s'. report_summary queries plain_env (office_with (final_record 80)) (person 70 Role_hr) everything = Inr s \<and>
    report_summary queries plain_env (office_with (final_record 20)) (person 70 Role_hr) everything = Inr s' \<and>
    set (rps_by_org_unit s') = set (rps_by_org_unit s)"
proof -
  have run: "report_summary queries plain_env (office_with (final_record x)) (person 70 Role_hr) everything =
      Inr (summary_data queries plain_env (office_with (final_record x)) everything)" for x
    by (simp add: report_summary_def check_filters_def everything_def require_roles_def)
  have "of_small_unit queries plain_env everything (office_with (final_record 80)) 50"
    using unit_of_one [of "org_unit employee" 80]
    by (simp add: of_small_unit_def rows_of_everything unit_measures_def not_null_def List.map_filter_simps
        get_personnel_def employee_def)
  then have "list_all2 (other_results (of_small_unit queries plain_env everything (office_with (final_record 80))))
      (t_evaluations (office_with (final_record 80))) (t_evaluations (office_with (final_record 20)))"
    by (auto simp: other_results_def final_record_def)
  from small_groups_stay_hidden [OF run run _ this] run show ?thesis by auto
qed

lemma analytics_on: "ensure_module_enabled (office_with r) ''role_analytics'' = Inr ()"
  by (simp add: ensure_module_enabled_def is_module_enabled_def unmet_requirements_def stored_module_state_def
      stored_states_def module_by_key_def MODULES_def Let_def)

lemma threshold: "min_cohort_size (cfg plain_env) = 5"
  by (simp add: plain_env_def default_settings_def)

text \<open>Another supervisor is compared with nothing, the scores of the others being about one person.\<close>

lemma not_mine: "not3 (mine (person 14 Role_unit_supervisor) (final_record x)) = Some True"
  by (simp add: mine_def eq3_def not3_def)

definition third :: evaluation_score where
  "third = \<lparr>score_id = 1, score_record_id = 1, score_indicator_id = 4, score = 3, evidence_text = None\<rparr>"

lemma scores_of_others:
  "final_scores (office_with (final_record x)) (\<lambda>r. not3 (mine (person 14 Role_unit_supervisor) r) = Some True) =
    [(third, final_record x)]"
proof -
  have "t_scores (office_with (final_record x)) = [third]" by (simp add: third_def)
  moreover have "score_record_id third = 1" by (simp add: third_def)
  ultimately show ?thesis using not_mine [of x] unfolding final_scores_def by simp
qed

theorem comparisons_hide_small_groups_witness:
  "\<exists>p. my_scoring_profile queries plain_env (office_with (final_record 80)) (person 14 Role_unit_supervisor) = Inr p \<and>
    msp_org_people_count p = 1 \<and> msp_org_avg_score p = None"
proof -
  obtain p where p: "my_scoring_profile queries plain_env (office_with (final_record 80)) (person 14 Role_unit_supervisor) = Inr p"
    and people: "msp_org_people_count p = group_people (measured_scores [(third, final_record 80)])"
    unfolding my_scoring_profile_def scores_of_others Let_def by (simp add: require_roles_def analytics_on)
  have "others_people (office_with (final_record 80)) (person 14 Role_unit_supervisor) (\<lambda>s. True) = {50}"
    unfolding others_people_def scores_of_others by auto
  with comparisons_hide_small_groups [OF p] have "msp_org_avg_score p = None"
    by (auto simp: threshold)
  with p people show ?thesis by (auto simp: group_people_def cohort_size_def measured_scores_def)
qed

theorem executives_see_groups_only_witness:
  "\<exists>v. executive_overview queries plain_env (office_with (final_record 80)) (person 13 Role_ceo) = Inr v \<and>
    map stat_count (exo_by_org_unit v) = [1] \<and> map stat_avg (exo_by_org_unit v) = [None]"
proof -
  obtain v where v: "executive_overview queries plain_env (office_with (final_record 80)) (person 13 Role_ceo) = Inr v"
    "exo_by_org_unit v = [stat_of queries plain_env 1 (org_unit employee) [(org_unit employee, 50, 80)]]"
    by (simp add: executive_overview_def require_roles_def analytics_on Let_def unit_groups_def unit_measures_def
        not_null_def List.map_filter_simps grouped_def)
  have "evaluated_people (office_with (final_record 80)) (\<lambda>n. n = org_unit employee) = {50}"
    by (auto simp: evaluated_people_def)
  with executives_see_groups_only [OF v(1)] v(2)
  have "stat_avg (hd (exo_by_org_unit v)) = None"
    by (auto simp: threshold stat_of_def)
  with v show ?thesis by (auto simp: stat_of_def)
qed

theorem overview_hides_small_groups_witness:
  "\<exists>v. overview queries plain_env (office_with (final_record 80)) (person 70 Role_hr) None = Inr v \<and>
    map (stat_avg \<circ> uov_stat) (dov_by_org_unit v) = [None]"
proof -
  have site: "final_in_site (office_with (final_record 80)) None = [final_record 80]"
    by (simp add: final_in_site_def in_site_def units_of_def text_given_def)
  obtain v where v: "overview queries plain_env (office_with (final_record 80)) (person 70 Role_hr) None = Inr v"
    "dov_by_org_unit v = [unit_overview_of queries plain_env (org_unit employee) [(final_record 80, employee)]]"
    by (simp add: overview_def require_roles_def Let_def unit_overviews_def site grouped_def)
  have key: "stat_key (uov_stat (unit_overview_of queries plain_env (org_unit employee) [(final_record 80, employee)])) = org_unit employee"
    by (simp add: unit_overview_of_def stat_of_def)
  have "{x \<in> set (with_person (office_with (final_record 80)) (final_in_site (office_with (final_record 80)) None)).
      org_unit (snd x) = org_unit employee} = {(final_record 80, employee)}"
    by (auto simp: site)
  then have people: "card (subject_personnel_id ` fst ` {x \<in> set (with_person (office_with (final_record 80))
      (final_in_site (office_with (final_record 80)) None)). org_unit (snd x) = org_unit employee}) = 1"
    by simp
  have "stat_avg (uov_stat (unit_overview_of queries plain_env (org_unit employee) [(final_record 80, employee)])) = None"
    using conjunct1 [OF overview_hides_small_groups [OF v(1)]]
    unfolding v(2) list.pred_inject key people threshold by auto
  with v show ?thesis by simp
qed

end
