(* ===== verification/Spec2Isabelle.thy ===== *)
theory Spec2Isabelle
  imports PlanWitnesses Delivery AssistantWitnesses SweepWitnesses IndicatorWitnesses
    AdministrationWitnesses PolicyWitnesses ViewingWitnesses AssistantToolWitnesses FigureWitnesses
begin

text \<open>
  Verification library of the NexaHR backend (\<open>src/backend/app\<close>), a FastAPI and SQLAlchemy server for
  the yearly evaluation of employees. The theories model the Python code as written: a row of a table
  is a record, the database a record of tables, an endpoint or service a function from the database and
  the request to \<open>error + result\<close>, an exception being a left value that carries no database
  because it rolls the transaction back.

  How the program works. A person (\<open>models/personnel.py\<close>) has an assigned chain of evaluators
  (\<open>models/evaluation_access.py\<close>: supervisor, deputy, chief executive). An evaluation record
  (\<open>models/evaluation.py\<close>) copies the chain, is scored by its first seat and moves through the statuses
  draft, submitted, approved by human resources, approved by the deputy and finalized, or is returned
  or cancelled; the table of transitions (\<open>services/workflow.py\<close>) says who may do what. Every change
  writes to a hash-chained log (\<open>services/audit.py\<close>) and notifies the next owner
  (\<open>services/notifications.py\<close>). The person reads, acknowledges and objects (\<open>api/routers/me.py\<close>).

  Which theory models what.
    Foundations: \<open>Prelude\<close> (errors, the error monad, tables and their interface \<open>keyed_table\<close>),
      \<open>Json\<close> (canonical \<open>json.dumps\<close>), \<open>Pyfloat\<close> (rounded float arithmetic and \<open>round\<close>), \<open>Sha256\<close>,
      \<open>Clock\<close> (\<open>isoformat\<close>), \<open>Enums\<close> (\<open>models/enums.py\<close>, \<open>core/text_limits.py\<close>), \<open>Model\<close> (all rows,
      the database, the settings and the environment of a request).
    The log: \<open>AuditLog\<close>. Guards: \<open>Authorization\<close> (modules, capabilities, roles), \<open>Chain\<close> and \<open>Seats\<close>
      (\<open>models/chain.py\<close>, seats in open records, codes), \<open>SelfEvaluation\<close> (nobody decides about
      themselves; sites and units).
    Scoring: \<open>Scoring\<close> (\<open>services/evaluation.py\<close>), \<open>Scheme\<close> and \<open>SchemeLifecycle\<close> (scoring schemes with two
      people for an activation), \<open>Framework\<close> (versions of the set of indicators), \<open>Window\<close> (deadlines),
      \<open>Snapshot\<close> (the final document).
    Workflow: \<open>Transitions\<close> (the table), \<open>Notifications\<close>, \<open>Workflow\<close> (\<open>apply_transition\<close>), \<open>Evaluations\<close>
      and \<open>Handlers\<close> (the endpoints of \<open>api/routers/evaluations.py\<close>), \<open>Me\<close> (\<open>api/routers/me.py\<close> and
      \<open>services/self_assessment.py\<close>).
    Accounts: \<open>Sessions\<close>, \<open>LoginGuard\<close>, \<open>Auth\<close> (login, refresh, logout, change of password).
    Organization: \<open>Periods\<close>, \<open>Bulk\<close> (\<open>services/bulk_evaluation.py\<close>), \<open>Staff\<close> (\<open>api/routers/personnel.py\<close>,
      \<open>users.py\<close>, \<open>evaluation_access.py\<close>), \<open>Listing\<close> (search patterns and pages),
      \<open>ImprovementPlans\<close> (\<open>api/routers/improvement_plans.py\<close>), \<open>Indicators\<close>
      (\<open>api/routers/indicators.py\<close>), \<open>Administration\<close> (\<open>api/routers/org_units.py\<close>,
      \<open>api/routers/administration.py\<close>), \<open>Policy\<close> (its last part with \<open>core/integrations.py\<close> and
      \<open>services/integrations.py\<close>), \<open>Viewing\<close> (list, detail, export and comments of
      \<open>api/routers/evaluations.py\<close>), \<open>IndicatorSystem\<close> (the requests on indicators as steps of the system).
    Background: \<open>Delivery\<close> (the sweep of \<open>services/delivery.py\<close> over the queue of messages; a channel is a
      parameter that delivers or raises), \<open>Sweeps\<close> (\<open>services/scheduled.py\<close>, \<open>scheduler_lock.py\<close> and
      \<open>documents.py\<close>; the renderer of documents and the free lock are parameters).
    Figures: \<open>Reports\<close> (\<open>services/privacy.py\<close>, \<open>api/routers/reports.py\<close>), \<open>Analytics\<close>
      (\<open>api/routers/analytics.py\<close>), \<open>StageStats\<close> (\<open>services/stage_stats.py\<close>), \<open>Dashboard\<close>
      (\<open>api/routers/dashboard.py\<close>); queries are joins of lists, and what PostgreSQL computes over a group of
      numbers is a parameter.
    Assistant: \<open>Assistant\<close> (the register of tools, \<open>services/ai/tools/base.py\<close>, the loop of a turn,
      \<open>services/ai/orchestrator.py\<close>, and the chat of \<open>api/routers/ai.py\<close>; the model and the bodies of the
      tools are parameters), \<open>Confirmations\<close> (\<open>services/ai/confirmations.py\<close>), \<open>AssistantTools\<close> (the bodies of the
      writing tools, \<open>services/ai/tools/people.py\<close>, \<open>framework.py\<close> and \<open>evaluations.py\<close>), \<open>AssistantSystem\<close>.

  How it is put together. \<open>Moves\<close> forgets the endpoints: the locale \<open>transition_hook\<close> states what a hook
  of a transition may do and \<open>quiet_hook\<close> extends it, each hook of the code is an interpretation, and
  \<open>record_move\<close> is the abstract machine of one record with its invariant \<open>record_wf\<close>. \<open>EvaluationSystem\<close>
  collects the endpoints as requests and shows that each is a move. \<open>Organization\<close> states the invariant
  of the whole database, \<open>whole_wf\<close>, and the locale \<open>system_operation\<close>: an operation keeps the invariant, and
  every record endures it: none disappears, a self-assessment that was handed in stays so, and a closed record
  changes only in what its subject adds and the answer to it. Requests, invitations, bulk creation, changes of the set of indicators,
  changes of people, accounts and chains, and everything else are its interpretations, and so is their
  union \<open>system_step\<close>; \<open>reachable\<close> starts from an installation without chains, records, scores and log.

  What the lemmas show. \<open>SystemProperties\<close>: the invariants of every reachable state and that closed
  records stay. \<open>RequestProperties\<close>: what single requests guarantee, scores, submission, returns, the final
  document and objections with what holds of them ever after, creation. \<open>RecordRequests\<close>: all requests on a record,
  comments included, refine \<open>record_move\<close>, and human resources never handle their own. \<open>SubjectProperties\<close>: the employee's page.
  \<open>StaffProperties\<close>: departure. The component theories prove their own: arithmetic of the result, the
  verification of the log with explicit collisions instead of assumptions on SHA-256, exchange of refresh
  tokens, locking of names, schemes, periods, bulk creation. \<open>Delivery\<close>: ended messages stay ended
  and the queue empties. \<open>ImprovementPlans\<close>: ended plans, eligibility. \<open>Assistant\<close>: whatever the model
  answers, a chat only reads and proposes, by its user's permissions, and writes no secret to the log.
  \<open>Confirmations\<close>: interleaved confirmations carry a proposal out at most once. \<open>Sweeps\<close>: the
  locale \<open>reminder_sweep\<close>, interpreted by the four sweeps that remind; nobody due is forgotten,
  and the archive catches up. \<open>Reminders\<close>: runs under changing settings between the modelled requests, none of which
  writes a reminder, tell nobody twice within the shortest window in force. \<open>Indicators\<close>: the framework stays current, used indicators keep their
  meaning, and every request is a step of the system. \<open>Administration\<close>: capabilities, separation,
  modules, units. \<open>Policy\<close>: what is saved is read back and used, and the limits of the numbers hold.
  \<open>Viewing\<close>: lists agree with what can be opened, comments are by the owner of the stage.
  \<open>AssistantTools\<close>: the guards of the tools let the same people through as the dependencies of the endpoints, but for
  the tool that creates an evaluation, where a check in the body stands in.
  \<open>Reports\<close>, \<open>Analytics\<close>, \<open>Dashboard\<close>: averages of few people are hidden, and what still shows through;
  \<open>StageStats\<close>: the figures agree with the records.
  \<open>AssistantSystem\<close>: what the tools carry out keeps the system. The theories named \<open>...Witnesses\<close> apply them to concrete databases.

  Parameters and bounds. The clock, the settings, fresh tokens, the rounding of \<open>NUMERIC\<close> columns and the
  collation come with the environment of a request; hashing of passwords and the case table of Unicode
  with \<open>crypt\<close>; a decoded token is its claims. Loops are structural or terminate by a measure; the loop of
  a turn of the assistant counts down its number of rounds, which the code bounds by a setting. Persian texts are represented by short names. Times are whole microseconds and dates
  day numbers; integers of the database are unbounded.

  Not modelled: rendering of PDF and spreadsheets and parsing of uploads, with the two writing tools of the assistant
  that work on them (\<open>patch_upload_rows\<close> and \<open>import_personnel\<close>), network channels, the
  listing of the log, the assistant's reading tools, its prompt and
  summary, the timer of the scheduler, middleware and start-up, migrations, the client. Concurrent requests are taken to be serializable:
  where the code locks rows or relies on unique indexes the model has the constraint as a check. A
  confirmation commits in the middle, so \<open>Confirmations\<close> interleaves its parts with other requests.
\<close>

end
